(* ===== verification/Prelude.thy ===== *)
theory Prelude
  imports Main "HOL-Library.Word" "HOL-Library.AList" "HOL-Library.Char_ord"
    "HOL-Library.List_Lexorder"
begin

text \<open>
  Shared material of the development: the machine types of the Rust sources, the \<open>?\<close>
  operator as a combinator on results that carry a state, the parts of the standard
  library's \<open>Vec\<close>, \<open>HashMap\<close> and \<open>String\<close> that several components use, and the lemma
  collections that drive the component proofs.

  Conventions. A Rust \<open>String\<close> or \<open>Vec<u8>\<close> is a list of bytes, an Isabelle \<open>string\<close>.
  A \<open>HashMap\<close> that is only read and written by key is a map; one that is iterated or tested
  for emptiness is an association list with distinct keys, in the (unspecified) iteration
  order. A \<open>Result\<close> is a sum with the error on the left. The release profile
  of the workspace has no overflow checks, so \<open>u32\<close> and \<open>u64\<close> arithmetic wraps and is
  arithmetic on words.
\<close>

section \<open>Machine types\<close>

type_synonym u8 = "8 word"
type_synonym u32 = "32 word"
type_synonym i32 = "32 word"
type_synonym u64 = "64 word"
type_synonym uuid = "128 word"
type_synonym bytes = string

section \<open>Lemma collections\<close>

named_theorems frame_simps \<open>what an operation leaves unchanged\<close>
named_theorems codec_simps \<open>encoders and decoders on each other's output\<close>

section \<open>The \<open>?\<close> operator\<close>

text \<open>
  A fallible operation on a state returns its result together with the state it leaves
  behind, also when it fails: Rust keeps what a method changed through \<open>&mut self\<close> before
  its \<open>?\<close> returned early.
\<close>

type_synonym ('e, 'a, 's) outcome = "('e + 'a) \<times> 's"

definition andThen :: "('e, 'a, 's) outcome \<Rightarrow> ('a \<Rightarrow> 's \<Rightarrow> ('e, 'b, 's) outcome) \<Rightarrow>
    ('e, 'b, 's) outcome" where
  "andThen r k = (case r of (Inl e, s) \<Rightarrow> (Inl e, s) | (Inr x, s) \<Rightarrow> k x s)"

definition mapErr :: "('e \<Rightarrow> 'f) \<Rightarrow> ('e, 'a, 's) outcome \<Rightarrow> ('f, 'a, 's) outcome" where
  "mapErr f r = (case r of (Inl e, s) \<Rightarrow> (Inl (f e), s) | (Inr x, s) \<Rightarrow> (Inr x, s))"

lemma andThen_simps [simp]:
  "andThen (Inl e, s) k = (Inl e, s)"
  "andThen (Inr x, s) k = k x s"
  by (simp_all add: andThen_def)

lemma mapErr_simps [simp]:
  "mapErr f (Inl e, s) = (Inl (f e), s)"
  "mapErr f (Inr x, s) = (Inr x, s)"
  by (simp_all add: mapErr_def)

lemma andThen_Inr_iff:
  "andThen r k = (Inr y, s') \<longleftrightarrow> (\<exists>x s. r = (Inr x, s) \<and> k x s = (Inr y, s'))"
  by (cases r; cases "fst r") auto

lemma andThen_Inl_iff:
  "andThen r k = (Inl e, s') \<longleftrightarrow>
     r = (Inl e, s') \<or> (\<exists>x s. r = (Inr x, s) \<and> k x s = (Inl e, s'))"
  by (cases r; cases "fst r") auto

lemma mapErr_iff [simp]:
  "mapErr f r = (Inr y, s') \<longleftrightarrow> r = (Inr y, s')"
  "mapErr f r = (Inl e, s') \<longleftrightarrow> (\<exists>e'. r = (Inl e', s') \<and> e = f e')"
  by (cases r; cases "fst r"; auto)+

lemma snd_mapErr [simp]: "snd (mapErr f r) = snd r"
  by (cases r; cases "fst r") auto

lemma andThen_assoc:
  "andThen (andThen r k) h = andThen r (\<lambda>x s. andThen (k x s) h)"
  by (cases r; cases "fst r") auto

lemma andThen_return [simp]: "andThen r (\<lambda>x s. (Inr x, s)) = r"
  by (cases r; cases "fst r") auto

lemma andThen_return_unit [simp]: "andThen r (\<lambda>_ s. (Inr (), s)) = r"
  by (cases r; cases "fst r") auto

lemmas andThen_return_eta [simp] = andThen_return [simplified] andThen_return_unit [simplified]

text \<open>A postcondition rule for sequences of fallible steps.\<close>

definition outcome_sat :: "('e, 'a, 's) outcome \<Rightarrow> ('a \<Rightarrow> 's \<Rightarrow> bool) \<Rightarrow> ('e \<Rightarrow> 's \<Rightarrow> bool) \<Rightarrow> bool" where
  "outcome_sat r Q E = (case r of (Inl e, s) \<Rightarrow> E e s | (Inr x, s) \<Rightarrow> Q x s)"

lemma outcome_sat_simps [simp]:
  "outcome_sat (Inl e, s) Q E = E e s"
  "outcome_sat (Inr x, s) Q E = Q x s"
  by (simp_all add: outcome_sat_def)

lemma outcome_sat_andThen:
  assumes "outcome_sat r P E" and "\<And>x s. P x s \<Longrightarrow> outcome_sat (k x s) Q E"
  shows "outcome_sat (andThen r k) Q E"
  using assms by (cases r; cases "fst r") auto

section \<open>Options\<close>

text \<open>\<open>Option::or\<close>.\<close>

fun opt_or :: "'a option \<Rightarrow> 'a option \<Rightarrow> 'a option" where
  "opt_or None b = b"
| "opt_or (Some a) b = Some a"

lemma opt_or_None_iff [simp]: "opt_or a b = None \<longleftrightarrow> a = None \<and> b = None"
  by (cases a) auto

section \<open>Vectors\<close>

text \<open>\<open>Iterator::position\<close>, and \<open>Vec::remove\<close> at an index that \<open>position\<close> returned.\<close>

fun position :: "('a \<Rightarrow> bool) \<Rightarrow> 'a list \<Rightarrow> nat option" where
  "position p [] = None"
| "position p (x # xs) = (if p x then Some 0 else map_option Suc (position p xs))"

definition remove_at :: "nat \<Rightarrow> 'a list \<Rightarrow> 'a list" where
  "remove_at i xs = take i xs @ drop (Suc i) xs"

lemma remove_at_simps [simp]:
  "remove_at 0 (x # xs) = xs"
  "remove_at (Suc i) (x # xs) = x # remove_at i xs"
  "remove_at i [] = []"
  by (simp_all add: remove_at_def)

lemma position_None_iff: "position p xs = None \<longleftrightarrow> (\<forall>x \<in> set xs. \<not> p x)"
  by (induction xs) auto

lemma position_SomeD:
  "position p xs = Some i \<Longrightarrow> i < length xs \<and> p (xs ! i) \<and> (\<forall>j < i. \<not> p (xs ! j))"
proof (induction xs arbitrary: i)
  case (Cons x xs)
  then show ?case
    by (cases i) (auto split: if_splits simp: less_Suc_eq_0_disj)
qed simp

lemma position_split:
  "position p xs = Some i \<Longrightarrow> xs = take i xs @ xs ! i # drop (Suc i) xs"
  using position_SomeD id_take_nth_drop by blast

lemma length_remove_at: "i < length xs \<Longrightarrow> length (remove_at i xs) = length xs - 1"
  by (simp add: remove_at_def)

lemma set_remove_at_subset: "set (remove_at i xs) \<subseteq> set xs"
  by (auto simp: remove_at_def dest: in_set_takeD in_set_dropD)

lemma remove_at_position:
  "position p xs = Some i \<Longrightarrow>
     \<exists>ys x zs. xs = ys @ x # zs \<and> p x \<and> (\<forall>y \<in> set ys. \<not> p y) \<and> length ys = i \<and>
       remove_at i xs = ys @ zs"
proof (induction xs arbitrary: i)
  case (Cons x xs)
  show ?case
  proof (cases "p x")
    case True
    with Cons.prems have "i = 0" by simp
    with True show ?thesis by (intro exI [of _ "[]"]) auto
  next
    case False
    with Cons.prems obtain j where j: "position p xs = Some j" "i = Suc j" by auto
    from Cons.IH [OF j(1)] obtain ys y zs where
      "xs = ys @ y # zs" "p y" "\<forall>y \<in> set ys. \<not> p y" "length ys = j" "remove_at j xs = ys @ zs"
      by blast
    with j(2) False show ?thesis by (intro exI [of _ "x # ys"]) auto
  qed
qed simp

section \<open>Hash maps that are iterated\<close>

type_synonym ('k, 'v) hashmap = "('k \<times> 'v) list"

abbreviation hm_get :: "('k, 'v) hashmap \<Rightarrow> 'k \<Rightarrow> 'v option" where
  "hm_get \<equiv> map_of"

abbreviation hm_insert :: "'k \<Rightarrow> 'v \<Rightarrow> ('k, 'v) hashmap \<Rightarrow> ('k, 'v) hashmap" where
  "hm_insert \<equiv> AList.update"

abbreviation hm_wf :: "('k, 'v) hashmap \<Rightarrow> bool" where
  "hm_wf m \<equiv> distinct (map fst m)"

text \<open>\<open>Extend\<close> and \<open>collect\<close>: later pairs win.\<close>

fun hm_extend :: "('k, 'v) hashmap \<Rightarrow> ('k \<times> 'v) list \<Rightarrow> ('k, 'v) hashmap" where
  "hm_extend m [] = m"
| "hm_extend m ((k, v) # kvs) = hm_extend (hm_insert k v m) kvs"

definition hm_remove :: "'k \<Rightarrow> ('k, 'v) hashmap \<Rightarrow> ('k, 'v) hashmap" where
  "hm_remove k m = AList.delete k m"

lemma hm_get_insert [simp]: "hm_get (hm_insert k v m) = (hm_get m)(k \<mapsto> v)"
  by (rule update_conv')

lemma hm_get_remove [simp]: "hm_get (hm_remove k m) = (hm_get m)(k := None)"
  by (simp add: hm_remove_def delete_conv')

lemma hm_insert_not_Nil [simp]: "hm_insert k v m \<noteq> []"
  by (cases m) (auto split: prod.splits)

lemma hm_extend_Nil_iff [simp]: "hm_extend m kvs = [] \<longleftrightarrow> m = [] \<and> kvs = []"
  by (induction m kvs rule: hm_extend.induct) auto

lemma hm_get_extend: "hm_get (hm_extend m kvs) k =
    (case map_of (rev kvs) k of None \<Rightarrow> hm_get m k | Some v \<Rightarrow> Some v)"
  by (induction m kvs rule: hm_extend.induct) (auto simp: map_add_def split: option.splits)

lemma hm_extend_wf: "hm_wf m \<Longrightarrow> hm_wf (hm_extend m kvs)"
  by (induction m kvs rule: hm_extend.induct) (auto simp: distinct_update)

end
