(* ===== verification/Strings.thy ===== *)
theory Strings
  imports Prelude
begin

text \<open>
  The string and byte operations of the Rust standard library that the sources use:
  decimal printing and parsing of \<open>u64\<close>, \<open>str::split\<close> on a character, \<open>str::split_once\<close>,
  big-endian bytes of a \<open>u64\<close>, and \<open>String::from_utf8\<close>. Strings and byte vectors are
  lists of bytes, ordered lexicographically as \<open>Ord\<close> for \<open>String\<close> and \<open>Vec<u8>\<close> does.
\<close>

section \<open>Decimal numbers\<close>

definition digit_char :: "nat \<Rightarrow> char" where
  "digit_char d = char_of (48 + d)"

definition is_digit :: "char \<Rightarrow> bool" where
  "is_digit c \<longleftrightarrow> 48 \<le> (of_char c :: nat) \<and> (of_char c :: nat) \<le> 57"

definition digit_val :: "char \<Rightarrow> nat" where
  "digit_val c = of_char c - 48"

fun show_nat :: "nat \<Rightarrow> string" where
  "show_nat n = (if n < 10 then [digit_char n] else show_nat (n div 10) @ [digit_char (n mod 10)])"

declare show_nat.simps [simp del]

definition show_u64 :: "u64 \<Rightarrow> string" where
  "show_u64 w = show_nat (unat w)"

fun read_digits :: "nat \<Rightarrow> string \<Rightarrow> nat option" where
  "read_digits acc [] = Some acc"
| "read_digits acc (c # cs) = (if is_digit c then read_digits (10 * acc + digit_val c) cs else None)"

text \<open>\<open>str::parse::<u64>\<close>: an optional plus sign, at least one digit, no overflow.\<close>

definition parse_u64 :: "string \<Rightarrow> u64 option" where
  "parse_u64 s =
     (let ds = (case s of [] \<Rightarrow> [] | c # cs \<Rightarrow> if c = CHR ''+'' then cs else s) in
      if ds = [] then None
      else (case read_digits 0 ds of
              None \<Rightarrow> None
            | Some n \<Rightarrow> if n < 2 ^ 64 then Some (of_nat n) else None))"

lemma of_char_digit: "d < 10 \<Longrightarrow> (of_char (digit_char d) :: nat) = 48 + d"
  by (simp add: digit_char_def)

lemma digit_char_simps [simp]:
  assumes "d < 10"
  shows "is_digit (digit_char d)" "digit_val (digit_char d) = d"
  using assms by (simp_all add: is_digit_def digit_val_def of_char_digit)

lemma is_digit_neq: "is_digit c \<Longrightarrow> c \<noteq> CHR '':'' \<and> c \<noteq> CHR ''+'' \<and> c \<noteq> CHR ''#''"
  by (auto simp: is_digit_def)

lemma show_nat_nonempty [simp]: "show_nat n \<noteq> []"
  by (subst show_nat.simps) simp

lemma show_nat_digits: "\<forall>c \<in> set (show_nat n). is_digit c"
proof (induction n rule: show_nat.induct)
  case (1 n)
  then show ?case by (subst show_nat.simps) auto
qed

lemma read_digits_append:
  "read_digits acc (xs @ ys) = (case read_digits acc xs of None \<Rightarrow> None | Some a \<Rightarrow> read_digits a ys)"
  by (induction acc xs rule: read_digits.induct) auto

lemma read_show_nat [simp]: "read_digits 0 (show_nat n) = Some n"
proof (induction n rule: show_nat.induct)
  case (1 n)
  show ?case
  proof (cases "n < 10")
    case True
    then show ?thesis by (subst show_nat.simps) simp
  next
    case False
    with 1 have "read_digits 0 (show_nat (n div 10)) = Some (n div 10)" by simp
    with False show ?thesis
      by (subst show_nat.simps) (simp add: read_digits_append)
  qed
qed

lemma show_nat_no_colon [simp]: "CHR '':'' \<notin> set (show_nat n)"
  using show_nat_digits [of n] by (auto dest: is_digit_neq)

lemma parse_show_u64 [codec_simps]: "parse_u64 (show_u64 w) = Some w"
proof -
  obtain c cs where s: "show_nat (unat w) = c # cs"
    by (cases "show_nat (unat w)") auto
  with show_nat_digits [of "unat w"] have "c \<noteq> CHR ''+''" by (auto dest: is_digit_neq)
  with s read_show_nat [of "unat w"] show ?thesis
    by (simp add: parse_u64_def show_u64_def unsigned_less [of w, simplified])
qed

section \<open>Splitting\<close>

text \<open>\<open>s.split(c).collect()\<close>: always at least one piece.\<close>

fun split_on :: "char \<Rightarrow> string \<Rightarrow> string list" where
  "split_on c [] = [[]]"
| "split_on c (x # xs) =
     (if x = c then [] # split_on c xs
      else (case split_on c xs of [] \<Rightarrow> [[x]] | p # ps \<Rightarrow> (x # p) # ps))"

text \<open>\<open>s.split_once(c)\<close>: the parts before and after the first occurrence.\<close>

fun split_once :: "char \<Rightarrow> string \<Rightarrow> (string \<times> string) option" where
  "split_once c [] = None"
| "split_once c (x # xs) =
     (if x = c then Some ([], xs) else map_option (\<lambda>(a, b). (x # a, b)) (split_once c xs))"

lemma split_on_nonempty [simp]: "split_on c s \<noteq> []"
  by (induction c s rule: split_on.induct) (auto split: list.splits)

lemma split_on_no_sep: "c \<notin> set s \<Longrightarrow> split_on c s = [s]"
  by (induction c s rule: split_on.induct) auto

lemma split_on_append: "c \<notin> set a \<Longrightarrow> split_on c (a @ c # b) = a # split_on c b"
  by (induction a) auto

lemma split_once_append: "c \<notin> set a \<Longrightarrow> split_once c (a @ c # b) = Some (a, b)"
  by (induction a) auto

definition starts_with :: "string \<Rightarrow> string \<Rightarrow> bool" where
  "starts_with p s \<longleftrightarrow> take (length p) s = p"

text \<open>\<open>str::trim\<close>, \<open>trim_matches\<close>, \<open>replace\<close> of one character by nothing, \<open>to_lowercase\<close>.\<close>

definition is_space :: "char \<Rightarrow> bool" where
  "is_space c \<longleftrightarrow> c = CHR '' '' \<or> (9 \<le> (of_char c :: nat) \<and> (of_char c :: nat) \<le> 13)"

definition trim_matches :: "(char \<Rightarrow> bool) \<Rightarrow> string \<Rightarrow> string" where
  "trim_matches p s = rev (dropWhile p (rev (dropWhile p s)))"

definition str_trim :: "string \<Rightarrow> string" where
  "str_trim = trim_matches is_space"

definition str_remove :: "char \<Rightarrow> string \<Rightarrow> string" where
  "str_remove c s = filter (\<lambda>d. d \<noteq> c) s"

definition lower_char :: "char \<Rightarrow> char" where
  "lower_char c = (if 65 \<le> (of_char c :: nat) \<and> (of_char c :: nat) \<le> 90
                   then char_of (of_char c + 32 :: nat) else c)"

definition to_lowercase :: "string \<Rightarrow> string" where
  "to_lowercase s = map lower_char s"

section \<open>Bytes of a \<open>u64\<close>\<close>

definition to_be_bytes :: "u64 \<Rightarrow> bytes" where
  "to_be_bytes w = map (\<lambda>i. char_of (unat w div 256 ^ i)) [7, 6, 5, 4, 3, 2, 1, 0]"

definition from_be_bytes :: "bytes \<Rightarrow> u64" where
  "from_be_bytes bs = of_nat (foldl (\<lambda>a b. 256 * a + of_char b) 0 bs)"

lemma length_to_be_bytes [simp]: "length (to_be_bytes w) = 8"
  by (simp add: to_be_bytes_def)

lemma be_digits_foldl:
  "foldl (\<lambda>a b. 256 * a + of_char b) acc (map (\<lambda>i. char_of (n div 256 ^ i)) (rev [0..<k])) =
     acc * 256 ^ k + n mod (256 :: nat) ^ k"
proof (induction k arbitrary: acc)
  case (Suc k)
  have "n mod 256 ^ Suc k = 256 ^ k * (n div 256 ^ k mod 256) + n mod 256 ^ k"
    by (metis mod_mult2_eq mult.commute power_Suc)
  with Suc show ?case by (simp add: algebra_simps)
qed simp

lemma be_bytes_roundtrip [codec_simps]: "from_be_bytes (to_be_bytes w) = w"
proof -
  have idx: "[7, 6, 5, 4, 3, 2, 1, 0] = rev [0..<8]"
    by (simp add: upt_rec)
  have "unat w < 256 ^ 8" using unsigned_less [of w] by simp
  then have "foldl (\<lambda>a b. 256 * a + of_char b) 0 (to_be_bytes w) = unat w"
    unfolding to_be_bytes_def idx be_digits_foldl by simp
  then show ?thesis by (simp add: from_be_bytes_def)
qed

section \<open>UTF-8\<close>

text \<open>
  \<open>String::from_utf8\<close> succeeds on well-formed UTF-8 (Unicode, table 3-7) and then is
  the identity on bytes.
\<close>

definition is_cont :: "nat \<Rightarrow> bool" where
  "is_cont b \<longleftrightarrow> 128 \<le> b \<and> b \<le> 191"

definition utf8_two :: "nat \<Rightarrow> nat \<Rightarrow> bool" where
  "utf8_two a b \<longleftrightarrow> 194 \<le> a \<and> a \<le> 223 \<and> is_cont b"

definition utf8_three :: "nat \<Rightarrow> nat \<Rightarrow> nat \<Rightarrow> bool" where
  "utf8_three a b c \<longleftrightarrow> 224 \<le> a \<and> a \<le> 239 \<and> is_cont b \<and> is_cont c \<and>
     (a = 224 \<longrightarrow> 160 \<le> b) \<and> (a = 237 \<longrightarrow> b \<le> 159)"

definition utf8_four :: "nat \<Rightarrow> nat \<Rightarrow> nat \<Rightarrow> nat \<Rightarrow> bool" where
  "utf8_four a b c d \<longleftrightarrow> 240 \<le> a \<and> a \<le> 244 \<and> is_cont b \<and> is_cont c \<and> is_cont d \<and>
     (a = 240 \<longrightarrow> 144 \<le> b) \<and> (a = 244 \<longrightarrow> b \<le> 143)"

fun utf8_codes :: "nat list \<Rightarrow> bool" where
  "utf8_codes [] = True"
| "utf8_codes (a # as) =
     (if a \<le> 127 then utf8_codes as
      else (case as of
              b # bs \<Rightarrow> if utf8_two a b then utf8_codes bs
                else (case bs of
                        c # cs \<Rightarrow> if utf8_three a b c then utf8_codes cs
                          else (case cs of
                                  d # ds \<Rightarrow> utf8_four a b c d \<and> utf8_codes ds
                                | [] \<Rightarrow> False)
                      | [] \<Rightarrow> False)
            | [] \<Rightarrow> False))"

definition from_utf8 :: "bytes \<Rightarrow> string option" where
  "from_utf8 bs = (if utf8_codes (map of_char bs) then Some bs else None)"

definition is_ascii :: "string \<Rightarrow> bool" where
  "is_ascii s \<longleftrightarrow> (\<forall>c \<in> set s. (of_char c :: nat) \<le> 127)"

lemma utf8_codes_ascii: "(\<forall>a \<in> set as. a \<le> 127) \<Longrightarrow> utf8_codes as"
  by (induction as) auto

lemma from_utf8_ascii [codec_simps]: "is_ascii s \<Longrightarrow> from_utf8 s = Some s"
  by (simp add: from_utf8_def is_ascii_def utf8_codes_ascii)

end
