(* ===== verification/Errors.thy ===== *)
theory Errors
  imports Strings
begin

text \<open>
  The error enums of \<open>autopush-common\<close>: \<open>ApcErrorKind\<close> (\<open>errors.rs\<close>), \<open>MutateRowStatus\<close>
  and \<open>BigTableError\<close> (\<open>bigtable_client/error.rs\<close>), \<open>DbError\<close> (\<open>db/error.rs\<close>), with
  the HTTP status and Sentry classification the code derives from them. Where a
  variant wraps an error of another crate the payload is its rendered text.
\<close>

datatype apc_error =
    ApcWs string
  | ApcIo string
  | ApcJson string
  | ApcHttparse string
  | ApcMetricError string
  | ApcUuidError
  | ApcParseIntError
  | ApcParseUrlError string
  | ApcConfigError string
  | ApcTokenHashValidation string
  | ApcRegistrationSecretHash string
  | ApcThread
  | ApcPongTimeout
  | ApcRepeatUaidDisconnect
  | ApcInvalidStateTransition string string
  | ApcInvalidClientMessage string
  | ApcMessageFetch
  | ApcSendError
  | ApcExcessivePing
  | BroadcastError string
  | PayloadError string
  | GeneralError string
  | DatabaseError string
  | ApcRusotoError string

definition apc_status :: "apc_error \<Rightarrow> nat" where
  "apc_status e = (case e of
       ApcJson _ \<Rightarrow> 400 | ApcParseIntError \<Rightarrow> 400 | ApcParseUrlError _ \<Rightarrow> 400 | ApcHttparse _ \<Rightarrow> 400
     | _ \<Rightarrow> 500)"

definition apc_is_sentry_event :: "apc_error \<Rightarrow> bool" where
  "apc_is_sentry_event e = (case e of
       ApcPongTimeout \<Rightarrow> False | ApcExcessivePing \<Rightarrow> False
     | PayloadError _ \<Rightarrow> False
     | _ \<Rightarrow> True)"

definition apc_metric_label :: "apc_error \<Rightarrow> string option" where
  "apc_metric_label e = (case e of
       ApcPongTimeout \<Rightarrow> Some ''pong_timeout''
     | ApcExcessivePing \<Rightarrow> Some ''excessive_ping''
     | PayloadError _ \<Rightarrow> Some ''payload''
     | _ \<Rightarrow> None)"

section \<open>Bigtable errors\<close>

datatype mutate_row_status =
    StOK | StCancelled | StUnknown | StInvalidArgument | StDeadlineExceeded | StNotFound
  | StAlreadyExists | StPermissionDenied | StResourceExhausted | StFailedPrecondition
  | StAborted | StOutOfRange | StUnimplemented | StInternal | StUnavailable | StDataLoss
  | StUnauthenticated

definition mutate_row_status_is_ok :: "mutate_row_status \<Rightarrow> bool" where
  "mutate_row_status_is_ok st \<longleftrightarrow> st = StOK"

definition mutate_row_status_of :: "int \<Rightarrow> mutate_row_status" where
  "mutate_row_status_of v =
     (if v = 0 then StOK
      else if v = 1 then StCancelled
      else if v = 2 then StUnknown
      else if v = 3 then StInvalidArgument
      else if v = 4 then StDeadlineExceeded
      else if v = 5 then StNotFound
      else if v = 6 then StAlreadyExists
      else if v = 7 then StPermissionDenied
      else if v = 8 then StResourceExhausted
      else if v = 9 then StFailedPrecondition
      else if v = 10 then StAborted
      else if v = 11 then StOutOfRange
      else if v = 12 then StUnimplemented
      else if v = 13 then StInternal
      else if v = 14 then StUnavailable
      else if v = 15 then StDataLoss
      else if v = 16 then StUnauthenticated
      else StUnknown)"

definition mutate_row_status_http :: "mutate_row_status \<Rightarrow> nat" where
  "mutate_row_status_http st = (case st of
       StOK \<Rightarrow> 200
     | StAborted \<Rightarrow> 503 | StDeadlineExceeded \<Rightarrow> 503 | StInternal \<Rightarrow> 503
     | StResourceExhausted \<Rightarrow> 503 | StUnavailable \<Rightarrow> 503
     | _ \<Rightarrow> 500)"

datatype bigtable_error =
    InvalidRowResponse string
  | InvalidChunk string
  | BtRead string
  | BtWriteTime string
  | BtWrite string
  | BtGRPC string
  | BtStatus mutate_row_status string
  | BtAdmin string "string option"
  | BtPool string
  | BtPoolTimeout string
  | BtConfig string

definition bigtable_error_status :: "bigtable_error \<Rightarrow> nat" where
  "bigtable_error_status e = (case e of
       BtPoolTimeout _ \<Rightarrow> 503
     | BtStatus st _ \<Rightarrow> mutate_row_status_http st
     | _ \<Rightarrow> 500)"

definition bigtable_error_is_sentry_event :: "bigtable_error \<Rightarrow> bool" where
  "bigtable_error_is_sentry_event e = (case e of BtPoolTimeout _ \<Rightarrow> False | _ \<Rightarrow> True)"

definition bigtable_error_metric_label :: "bigtable_error \<Rightarrow> string option" where
  "bigtable_error_metric_label e = Some (case e of
       InvalidRowResponse _ \<Rightarrow> ''storage.bigtable.error.invalid_row_response''
     | InvalidChunk _ \<Rightarrow> ''storage.bigtable.error.invalid_chunk''
     | BtRead _ \<Rightarrow> ''storage.bigtable.error.read''
     | BtWrite _ \<Rightarrow> ''storage.bigtable.error.write''
     | BtStatus _ _ \<Rightarrow> ''storage.bigtable.error.status''
     | BtWriteTime _ \<Rightarrow> ''storage.bigtable.error.writetime''
     | BtAdmin _ _ \<Rightarrow> ''storage.bigtable.error.admin''
     | BtPool _ \<Rightarrow> ''storage.bigtable.error.pool''
     | BtPoolTimeout _ \<Rightarrow> ''storage.bigtable.error.pool_timeout''
     | BtGRPC _ \<Rightarrow> ''storage.bigtable.error.grpc''
     | BtConfig _ \<Rightarrow> ''storage.bigtable.error.config'')"

section \<open>Database errors\<close>

datatype db_error =
    DdbGetItem string
  | DdbUpdateItem string
  | DdbPutItem string
  | DdbDeleteItem string
  | DdbBatchWriteItem string
  | DdbDescribeTable string
  | DdbQuery string
  | DdbSerialization string
  | DbSerialization string
  | DeserializeU64 string
  | DeserializeString string
  | TableStatusUnknown
  | BTError bigtable_error
  | ConnectionError string
  | Conditional
  | Integrity string "string option"
  | DbGeneral string
  | Backoff string

definition db_error_status :: "db_error \<Rightarrow> nat" where
  "db_error_status e = (case e of
       BTError b \<Rightarrow> bigtable_error_status b
     | Backoff _ \<Rightarrow> 503
     | _ \<Rightarrow> 500)"

definition db_error_is_sentry_event :: "db_error \<Rightarrow> bool" where
  "db_error_is_sentry_event e = (case e of
       BTError b \<Rightarrow> bigtable_error_is_sentry_event b
     | _ \<Rightarrow> False)"

definition db_error_metric_label :: "db_error \<Rightarrow> string option" where
  "db_error_metric_label e = (case e of
       BTError b \<Rightarrow> bigtable_error_metric_label b
     | Backoff _ \<Rightarrow> Some ''storage.error.backoff''
     | _ \<Rightarrow> None)"

end
