(* ===== verification/EpErrors.thy ===== *)
theory EpErrors
  imports Errors
begin

text \<open>
  The errors of \<open>autoendpoint\<close>: \<open>VapidError\<close> (\<open>headers/vapid.rs\<close>), the errors of the three
  bridges (\<open>routers/{adm,apns,fcm}/error.rs\<close>), \<open>RouterError\<close> (\<open>routers/mod.rs\<close>) and
  \<open>ApiErrorKind\<close> with the reply built from it (\<open>error.rs\<close>). Where a variant wraps an
  error of another crate the payload is its rendered text, or what the code reads of it.
\<close>

section \<open>VAPID\<close>

datatype vapid_error =
    MissingToken
  | InvalidVapid string
  | MissingKey
  | InvalidKey string
  | InvalidAudience
  | InvalidExpiry
  | KeyMismatch
  | FutureExpirationToken
  | UnknownScheme

section \<open>Bridges\<close>

datatype adm_error =
    AdmHttp string
  | AdmParseUrl string
  | AdmProfileSettingsDecode string
  | AdmDeserializeResponse string
  | NoRegistrationId
  | NoProfile
  | InvalidProfile

definition adm_status :: "adm_error \<Rightarrow> nat" where
  "adm_status e = (case e of
       AdmParseUrl _ \<Rightarrow> 400
     | NoRegistrationId \<Rightarrow> 410 | NoProfile \<Rightarrow> 410 | InvalidProfile \<Rightarrow> 410
     | AdmHttp _ \<Rightarrow> 500 | AdmProfileSettingsDecode _ \<Rightarrow> 500
     | AdmDeserializeResponse _ \<Rightarrow> 502)"

definition adm_errno :: "adm_error \<Rightarrow> nat option" where
  "adm_errno e = (case e of
       NoRegistrationId \<Rightarrow> Some 106 | NoProfile \<Rightarrow> Some 106 | InvalidProfile \<Rightarrow> Some 106
     | _ \<Rightarrow> None)"

text \<open>\<open>a2::Error\<close>: what the router reads of it, the code and reason of an error response.\<close>

datatype a2_error =
    A2ResponseError nat "string option"
  | A2ConnectionError string
  | A2Other string

datatype apns_error =
    ChannelSettingsDecode string
  | ApnsIo string
  | ApnsClientErr a2_error
  | SizeLimit a2_error
  | ApnsUpstream a2_error
  | ApnsConfig string string
  | NoDeviceToken
  | NoReleaseChannel
  | InvalidReleaseChannel
  | InvalidApsData
  | Unregistered

definition apns_status :: "apns_error \<Rightarrow> nat" where
  "apns_status e = (case e of
       InvalidReleaseChannel \<Rightarrow> 400 | InvalidApsData \<Rightarrow> 400 | SizeLimit _ \<Rightarrow> 400
     | NoDeviceToken \<Rightarrow> 410 | NoReleaseChannel \<Rightarrow> 410 | Unregistered \<Rightarrow> 410
     | ChannelSettingsDecode _ \<Rightarrow> 500 | ApnsIo _ \<Rightarrow> 500 | ApnsClientErr _ \<Rightarrow> 500
     | ApnsConfig _ _ \<Rightarrow> 500
     | ApnsUpstream _ \<Rightarrow> 502)"

definition apns_errno :: "apns_error \<Rightarrow> nat option" where
  "apns_errno e = (case e of
       NoDeviceToken \<Rightarrow> Some 106 | NoReleaseChannel \<Rightarrow> Some 106 | Unregistered \<Rightarrow> Some 106
     | _ \<Rightarrow> None)"

datatype fcm_error =
    CredentialDecode string
  | OAuthClientBuild string
  | OAuthToken string
  | FcmDeserializeResponse string
  | InvalidResponse string string nat
  | EmptyResponse nat
  | NoOAuthToken
  | NoRegistrationToken
  | NoAppId
  | InvalidAppId string

definition fcm_status :: "fcm_error \<Rightarrow> nat" where
  "fcm_status e = (case e of
       NoRegistrationToken \<Rightarrow> 410 | NoAppId \<Rightarrow> 410 | InvalidAppId _ \<Rightarrow> 410
     | CredentialDecode _ \<Rightarrow> 500 | OAuthClientBuild _ \<Rightarrow> 500 | OAuthToken _ \<Rightarrow> 500
     | NoOAuthToken \<Rightarrow> 500
     | FcmDeserializeResponse _ \<Rightarrow> 502 | EmptyResponse _ \<Rightarrow> 502 | InvalidResponse _ _ _ \<Rightarrow> 502)"

definition fcm_errno :: "fcm_error \<Rightarrow> nat option" where
  "fcm_errno e = (case e of
       NoRegistrationToken \<Rightarrow> Some 106 | NoAppId \<Rightarrow> Some 106 | InvalidAppId _ \<Rightarrow> Some 106
     | _ \<Rightarrow> None)"

section \<open>Routers\<close>

text \<open>\<open>reqwest::Error\<close>: the two questions the routers ask it, and its text.\<close>

record reqwest_error =
  re_is_timeout :: bool
  re_is_connect :: bool
  re_text :: string

datatype router_error =
    RAdm adm_error
  | RApns apns_error
  | RFcm fcm_error
  | SaveDb db_error
  | UserWasDeleted
  | TooMuchData nat
  | RAuthentication
  | GCMAuthentication
  | RequestTimeout
  | RConnect reqwest_error
  | RNotFound
  | Upstream string string

definition router_status :: "router_error \<Rightarrow> nat" where
  "router_status e = (case e of
       RAdm a \<Rightarrow> adm_status a
     | RApns a \<Rightarrow> apns_status a
     | RFcm f \<Rightarrow> fcm_status f
     | SaveDb d \<Rightarrow> db_error_status d
     | UserWasDeleted \<Rightarrow> 410 | RNotFound \<Rightarrow> 410
     | TooMuchData _ \<Rightarrow> 413
     | RAuthentication \<Rightarrow> 502 | GCMAuthentication \<Rightarrow> 502 | RequestTimeout \<Rightarrow> 502
     | RConnect _ \<Rightarrow> 502 | Upstream _ _ \<Rightarrow> 502)"

definition router_errno :: "router_error \<Rightarrow> nat option" where
  "router_errno e = (case e of
       RAdm a \<Rightarrow> adm_errno a
     | RApns a \<Rightarrow> apns_errno a
     | RFcm f \<Rightarrow> fcm_errno f
     | TooMuchData _ \<Rightarrow> Some 104
     | UserWasDeleted \<Rightarrow> Some 105
     | RNotFound \<Rightarrow> Some 106
     | SaveDb _ \<Rightarrow> Some 201
     | RAuthentication \<Rightarrow> Some 901
     | RConnect _ \<Rightarrow> Some 902
     | RequestTimeout \<Rightarrow> Some 903
     | GCMAuthentication \<Rightarrow> Some 904
     | Upstream _ _ \<Rightarrow> None)"

definition router_metric_label :: "router_error \<Rightarrow> string option" where
  "router_metric_label e =
     (let err = (case e of
          RAdm InvalidProfile \<Rightarrow> ''notification.bridge.error.adm.profile''
        | RAdm NoProfile \<Rightarrow> ''notification.bridge.error.adm.profile''
        | RApns (SizeLimit _) \<Rightarrow> ''notification.bridge.error.apns.oversized''
        | RFcm (InvalidAppId _) \<Rightarrow> ''notification.bridge.error.fcm.badappid''
        | RFcm NoAppId \<Rightarrow> ''notification.bridge.error.fcm.badappid''
        | TooMuchData _ \<Rightarrow> ''notification.bridge.error.too_much_data''
        | SaveDb d \<Rightarrow> (case db_error_metric_label d of Some l \<Rightarrow> l | None \<Rightarrow> [])
        | _ \<Rightarrow> [])
      in if err \<noteq> [] then Some err else None)"

definition router_is_sentry_event :: "router_error \<Rightarrow> bool" where
  "router_is_sentry_event e = (case e of
       RAdm a \<Rightarrow> \<not> (case a of InvalidProfile \<Rightarrow> True | NoProfile \<Rightarrow> True | _ \<Rightarrow> False)
     | RApns a \<Rightarrow> (case a of SizeLimit _ \<Rightarrow> False | Unregistered \<Rightarrow> False | _ \<Rightarrow> True)
     | RFcm f \<Rightarrow> \<not> (case f of InvalidAppId _ \<Rightarrow> True | NoAppId \<Rightarrow> True | _ \<Rightarrow> False)
     | RAuthentication \<Rightarrow> False | GCMAuthentication \<Rightarrow> False | RConnect _ \<Rightarrow> False
     | RNotFound \<Rightarrow> False | RequestTimeout \<Rightarrow> False | TooMuchData _ \<Rightarrow> False
     | Upstream _ _ \<Rightarrow> False
     | SaveDb d \<Rightarrow> db_error_is_sentry_event d
     | _ \<Rightarrow> True)"

section \<open>Requests\<close>

text \<open>
  \<open>validator::ValidationErrors\<close>, in the iteration order of its hash map: a field holds the
  codes of its failed checks, nested values hold errors of their own.
\<close>

datatype validation_errors = ValidationErrors "(string \<times> validation_kind) list"
  and validation_kind =
    VStruct validation_errors
  | VList "(nat \<times> validation_errors) list"
  | VField "string list"

text \<open>\<open>parse::<usize>\<close> on a 64-bit target, as \<open>u64\<close>.\<close>

definition parse_usize :: "string \<Rightarrow> nat option" where
  "parse_usize s = map_option unat (parse_u64 s)"

definition filter_map :: "('a \<Rightarrow> 'b option) \<Rightarrow> 'a list \<Rightarrow> 'b list" where
  "filter_map f xs = concat (map (\<lambda>x. case f x of None \<Rightarrow> [] | Some y \<Rightarrow> [y]) xs)"

lemma filter_map_simps [simp]:
  "filter_map f [] = []"
  "filter_map f (x # xs) = (case f x of None \<Rightarrow> filter_map f xs | Some y \<Rightarrow> y # filter_map f xs)"
  by (simp_all add: filter_map_def split: option.splits)

definition first_of :: "'a list \<Rightarrow> 'a option" where
  "first_of xs = (case xs of [] \<Rightarrow> None | x # _ \<Rightarrow> Some x)"

fun errno_from_validation_errors :: "validation_errors \<Rightarrow> nat option"
  and errnos_of_kind :: "validation_kind \<Rightarrow> nat list" where
  "errno_from_validation_errors (ValidationErrors es) =
     first_of (concat (map (\<lambda>(_, k). errnos_of_kind k) es))"
| "errnos_of_kind (VStruct e) = (case errno_from_validation_errors e of None \<Rightarrow> [] | Some n \<Rightarrow> [n])"
| "errnos_of_kind (VList es) =
     concat (map (\<lambda>(_, e). case errno_from_validation_errors e of None \<Rightarrow> [] | Some n \<Rightarrow> [n]) es)"
| "errnos_of_kind (VField codes) = filter_map parse_usize codes"

text \<open>\<open>actix_web::Error\<close> of a payload: its status, and whether it is an overflow.\<close>

record payload_error =
  pe_status :: nat
  pe_overflow :: bool
  pe_text :: string

datatype api_error_kind =
    ApiIo string
  | ApiMetrics string
  | ApiValidation validation_errors
  | ApiPayloadError payload_error
  | ApiVapidError vapid_error
  | ApiRouter router_error
  | ApiJwt string
  | ApiTokenHashValidation string
  | ApiRegistrationSecretHash string
  | ApiEndpointUrl apc_error
  | ApiDatabase db_error
  | ApiConditional string
  | InvalidToken
  | NoUser
  | NoSubscription
  | InvalidEncryption string
  | InvalidApiVersion
  | NoTTL
  | InvalidRouterType
  | InvalidRouterToken
  | InvalidMessageId
  | InvalidAuthentication
  | InvalidLocalAuth string
  | ApiGeneral string
  | LogCheck

definition api_status :: "api_error_kind \<Rightarrow> nat" where
  "api_status e = (case e of
       ApiPayloadError p \<Rightarrow> pe_status p
     | ApiRouter r \<Rightarrow> router_status r
     | ApiValidation _ \<Rightarrow> 400 | InvalidEncryption _ \<Rightarrow> 400 | NoTTL \<Rightarrow> 400
     | InvalidRouterType \<Rightarrow> 400 | InvalidRouterToken \<Rightarrow> 400 | InvalidMessageId \<Rightarrow> 400
     | ApiVapidError _ \<Rightarrow> 401 | ApiJwt _ \<Rightarrow> 401 | ApiTokenHashValidation _ \<Rightarrow> 401
     | InvalidAuthentication \<Rightarrow> 401 | InvalidLocalAuth _ \<Rightarrow> 401
     | InvalidToken \<Rightarrow> 404 | InvalidApiVersion \<Rightarrow> 404
     | NoUser \<Rightarrow> 410 | NoSubscription \<Rightarrow> 410
     | LogCheck \<Rightarrow> 418
     | ApiConditional _ \<Rightarrow> 503
     | ApiDatabase d \<Rightarrow> db_error_status d
     | ApiGeneral _ \<Rightarrow> 500 | ApiIo _ \<Rightarrow> 500 | ApiMetrics _ \<Rightarrow> 500 | ApiEndpointUrl _ \<Rightarrow> 500
     | ApiRegistrationSecretHash _ \<Rightarrow> 500)"

definition api_metric_label :: "api_error_kind \<Rightarrow> string option" where
  "api_metric_label e = (case e of
       ApiPayloadError _ \<Rightarrow> Some ''payload_error''
     | ApiRouter r \<Rightarrow> router_metric_label r
     | ApiValidation _ \<Rightarrow> Some ''validation''
     | InvalidEncryption _ \<Rightarrow> Some ''invalid_encryption''
     | NoTTL \<Rightarrow> Some ''no_ttl''
     | InvalidRouterType \<Rightarrow> Some ''invalid_router_type''
     | InvalidRouterToken \<Rightarrow> Some ''invalid_router_token''
     | InvalidMessageId \<Rightarrow> Some ''invalid_message_id''
     | ApiVapidError _ \<Rightarrow> Some ''vapid_error''
     | ApiJwt _ \<Rightarrow> Some ''jwt''
     | ApiTokenHashValidation _ \<Rightarrow> Some ''token_hash_validation''
     | InvalidAuthentication \<Rightarrow> Some ''invalid_authentication''
     | InvalidLocalAuth _ \<Rightarrow> Some ''invalid_local_auth''
     | InvalidToken \<Rightarrow> Some ''invalid_token''
     | InvalidApiVersion \<Rightarrow> Some ''invalid_api_version''
     | NoUser \<Rightarrow> Some ''no_user''
     | NoSubscription \<Rightarrow> Some ''no_subscription''
     | LogCheck \<Rightarrow> Some ''log_check''
     | ApiGeneral _ \<Rightarrow> Some ''general''
     | ApiIo _ \<Rightarrow> Some ''io''
     | ApiMetrics _ \<Rightarrow> Some ''metrics''
     | ApiDatabase d \<Rightarrow> db_error_metric_label d
     | ApiConditional _ \<Rightarrow> Some ''conditional''
     | ApiEndpointUrl a \<Rightarrow> apc_metric_label a
     | ApiRegistrationSecretHash _ \<Rightarrow> Some ''registration_secret_hash'')"

definition api_is_sentry_event :: "api_error_kind \<Rightarrow> bool" where
  "api_is_sentry_event e = (case e of
       ApiRouter r \<Rightarrow> router_is_sentry_event r
     | ApiDatabase d \<Rightarrow> db_error_is_sentry_event d
     | NoTTL \<Rightarrow> False | InvalidEncryption _ \<Rightarrow> False
     | ApiVapidError _ \<Rightarrow> False | ApiJwt _ \<Rightarrow> False | ApiTokenHashValidation _ \<Rightarrow> False
     | InvalidAuthentication \<Rightarrow> False | InvalidLocalAuth _ \<Rightarrow> False
     | NoUser \<Rightarrow> False | NoSubscription \<Rightarrow> False
     | ApiPayloadError _ \<Rightarrow> False | ApiValidation _ \<Rightarrow> False | ApiConditional _ \<Rightarrow> False
     | _ \<Rightarrow> True)"

definition api_errno :: "api_error_kind \<Rightarrow> nat option" where
  "api_errno e = (case e of
       ApiRouter r \<Rightarrow> router_errno r
     | ApiValidation v \<Rightarrow> errno_from_validation_errors v
     | InvalidToken \<Rightarrow> Some 102 | InvalidApiVersion \<Rightarrow> Some 102
     | NoUser \<Rightarrow> Some 103
     | ApiPayloadError p \<Rightarrow> (if pe_overflow p then Some 104 else None)
     | NoSubscription \<Rightarrow> Some 106
     | InvalidRouterType \<Rightarrow> Some 108
     | ApiVapidError _ \<Rightarrow> Some 109 | ApiTokenHashValidation _ \<Rightarrow> Some 109 | ApiJwt _ \<Rightarrow> Some 109
     | InvalidAuthentication \<Rightarrow> Some 109 | InvalidLocalAuth _ \<Rightarrow> Some 109
     | InvalidEncryption _ \<Rightarrow> Some 110
     | NoTTL \<Rightarrow> Some 111
     | LogCheck \<Rightarrow> Some 999
     | _ \<Rightarrow> None)"

section \<open>Replies\<close>

text \<open>
  A reply: status, headers in the order they were added, body. The JSON body of an error
  is kept as its fields.
\<close>

datatype reply_body =
    NoBody
  | ErrorJson nat "nat option" api_error_kind
  | TextBody string

record reply =
  rp_status :: nat
  rp_headers :: "(string \<times> string) list"
  rp_body :: reply_body

definition RETRY_AFTER_PERIOD :: string where "RETRY_AFTER_PERIOD = ''120''"

definition error_response :: "api_error_kind \<Rightarrow> reply" where
  "error_response e =
     \<lparr>rp_status = api_status e,
      rp_headers = (if api_status e = 410 then [(''cache-control'', ''max-age=86400'')]
                    else if api_status e = 503 then [(''retry-after'', RETRY_AFTER_PERIOD)]
                    else []),
      rp_body = ErrorJson (api_status e) (api_errno e) e\<rparr>"

text \<open>
  How a handler fails: with an \<open>ApiError\<close>, or by a failing \<open>expect\<close>, which unwinds out of
  the handler.
\<close>

datatype api_fail = Fail api_error_kind | Panic string

abbreviation fail :: "api_error_kind \<Rightarrow> 's \<Rightarrow> (api_fail, 'a, 's) outcome" where
  "fail e s \<equiv> (Inl (Fail e), s)"

section \<open>Which errors invite a retry\<close>

text \<open>The database errors that pass with time.\<close>

definition transient_db :: "db_error \<Rightarrow> bool" where
  "transient_db d = (case d of
       Backoff _ \<Rightarrow> True
     | BTError (BtPoolTimeout _) \<Rightarrow> True
     | BTError (BtStatus st _) \<Rightarrow>
         st \<in> {StAborted, StDeadlineExceeded, StInternal, StResourceExhausted, StUnavailable}
     | _ \<Rightarrow> False)"

definition transient_error :: "api_error_kind \<Rightarrow> bool" where
  "transient_error e = (case e of
       ApiConditional _ \<Rightarrow> True
     | ApiDatabase d \<Rightarrow> transient_db d
     | ApiRouter (SaveDb d) \<Rightarrow> transient_db d
     | ApiPayloadError p \<Rightarrow> pe_status p = 503
     | _ \<Rightarrow> False)"

lemma db_status_503: "db_error_status d = 503 \<longleftrightarrow> transient_db d"
  by (auto simp: db_error_status_def bigtable_error_status_def mutate_row_status_http_def
      transient_db_def split: db_error.splits bigtable_error.splits mutate_row_status.splits)

lemma bridge_status_not_503 [simp]:
  "adm_status a \<noteq> 503" "apns_status b \<noteq> 503" "fcm_status c \<noteq> 503"
  by (simp_all add: adm_status_def apns_status_def fcm_status_def
      split: adm_error.splits apns_error.splits fcm_error.splits)

lemma router_status_503: "router_status r = 503 \<longleftrightarrow> (\<exists>d. r = SaveDb d \<and> transient_db d)"
  by (auto simp: router_status_def db_status_503 split: router_error.splits)

text \<open>An error reply asks the application server to retry later exactly when the
  cause passes with time: a conditional update that lost a race, a database back-off, a
  pool timeout or a transient Bigtable status, whether it came up while the request was
  checked or while the message was saved. No reply asks both for a retry and for the
  subscription to be given up.\<close>

theorem retry_after_iff_transient:
  "((''retry-after'', RETRY_AFTER_PERIOD) \<in> set (rp_headers (error_response e)) \<longleftrightarrow> transient_error e) \<and>
   ((''cache-control'', ''max-age=86400'') \<in> set (rp_headers (error_response e)) \<longleftrightarrow>
      rp_status (error_response e) = 410) \<and>
   length (rp_headers (error_response e)) \<le> 1"
proof -
  have "api_status e = 503 \<longleftrightarrow> transient_error e"
    by (cases e) (auto simp: api_status_def transient_error_def router_status_503 db_status_503
        split: router_error.splits)
  then show ?thesis by (auto simp: error_response_def)
qed

end
