(* ===== verification/Notification.thy ===== *)
theory Notification
  imports Errors
begin

text \<open>
  Notifications and their storage keys: \<open>autopush-common/src/notification.rs\<close>, and the
  stored form \<open>NotificationRecord\<close> with its key parser in \<open>autopush-common/src/db/mod.rs\<close>
  and \<open>db/models.rs\<close>. What these files take from other crates is a parameter: the
  UUID formatter and parser (\<open>uuid_lib\<close>), the regular expression engine (\<open>regex_set\<close>)
  and the clock and random source (\<open>sys\<close>), which act on an abstract outside world.
\<close>

section \<open>The outside world\<close>

record uuid_lib =
  uuid_hyphenated :: "uuid \<Rightarrow> string"
  uuid_simple :: "uuid \<Rightarrow> string"
  uuid_parse :: "string \<Rightarrow> uuid option"
  uuid_bytes :: "uuid \<Rightarrow> u8 list"

text \<open>
  The clock and the random source: seconds and milliseconds since the epoch,
  \<open>Uuid::new_v4\<close>, the value of \<open>generate_last_connect\<close> (a date and a random digit) and
  \<open>Utc::now().format("%Y%m")\<close>. A reading may change the world, so two readings may differ.
\<close>

record 'x sys =
  sys_now_sec :: "'x \<Rightarrow> u64 \<times> 'x"
  sys_now_ms :: "'x \<Rightarrow> u64 \<times> 'x"
  sys_new_uuid :: "'x \<Rightarrow> uuid \<times> 'x"
  sys_last_connect :: "'x \<Rightarrow> u64 \<times> 'x"
  sys_year_month :: "'x \<Rightarrow> string \<times> 'x"

type_synonym regex_set = "string list \<Rightarrow> string \<Rightarrow> bool"

section \<open>Notifications\<close>

record notification =
  n_channel_id :: uuid
  n_version :: string
  n_ttl :: u64
  n_topic :: "string option"
  n_timestamp :: u64
  n_data :: "string option"
  n_sortkey_timestamp :: "u64 option"
  n_headers :: "(string, string) hashmap option"

definition TOPIC_NOTIFICATION_PREFIX :: string where
  "TOPIC_NOTIFICATION_PREFIX = ''01''"

definition STANDARD_NOTIFICATION_PREFIX :: string where
  "STANDARD_NOTIFICATION_PREFIX = ''02''"

definition chidmessageid :: "uuid_lib \<Rightarrow> 'x sys \<Rightarrow> notification \<Rightarrow> 'x \<Rightarrow> string \<times> 'x" where
  "chidmessageid lib sys n x =
     (let chid = uuid_hyphenated lib (n_channel_id n) in
      case n_topic n of
        Some topic \<Rightarrow> (TOPIC_NOTIFICATION_PREFIX @ '':'' @ chid @ '':'' @ topic, x)
      | None \<Rightarrow>
          (case n_sortkey_timestamp n of
             Some sortkey_timestamp \<Rightarrow>
               (let (ts, x') = (if sortkey_timestamp = 0 then sys_now_ms sys x
                                else (sortkey_timestamp, x))
                in (STANDARD_NOTIFICATION_PREFIX @ '':'' @ show_u64 ts @ '':'' @ chid, x'))
           | None \<Rightarrow> (chid @ '':'' @ n_version n, x)))"

definition expired :: "notification \<Rightarrow> u64 \<Rightarrow> bool" where
  "expired n at_sec \<longleftrightarrow> at_sec \<ge> n_timestamp n + n_ttl n"

section \<open>Stored notifications\<close>

definition MAX_EXPIRY :: u64 where "MAX_EXPIRY = 2592000"
definition USER_RECORD_VERSION :: u64 where "USER_RECORD_VERSION = 1"
definition MAX_CHANNEL_TTL :: u64 where "MAX_CHANNEL_TTL = 30 * 24 * 60 * 60"
definition MAX_ROUTER_TTL :: u64 where "MAX_ROUTER_TTL = MAX_CHANNEL_TTL"

record notification_headers =
  h_crypto_key :: "string option"
  h_encryption :: "string option"
  h_encryption_key :: "string option"
  h_encoding :: "string option"

record range_key =
  rk_channel_id :: uuid
  rk_topic :: "string option"
  rk_sortkey_timestamp :: "u64 option"
  rk_legacy_version :: "string option"

record notification_record =
  nr_uaid :: uuid
  nr_chidmessageid :: string
  nr_current_timestamp :: "u64 option"
  nr_chids :: "string list option"
  nr_timestamp :: "u64 option"
  nr_expiry :: u64
  nr_ttl :: "u64 option"
  nr_data :: "string option"
  nr_headers :: "notification_headers option"
  nr_updateid :: "string option"

definition insert_opt :: "'k \<Rightarrow> 'v option \<Rightarrow> ('k, 'v) hashmap \<Rightarrow> ('k, 'v) hashmap" where
  "insert_opt k v m = (case v of Some x \<Rightarrow> hm_insert k x m | None \<Rightarrow> m)"

definition headers_into_hashmap :: "notification_headers \<Rightarrow> (string, string) hashmap" where
  "headers_into_hashmap h =
     insert_opt ''encoding'' (h_encoding h)
       (insert_opt ''encryption_key'' (h_encryption_key h)
         (insert_opt ''encryption'' (h_encryption h)
           (insert_opt ''crypto_key'' (h_crypto_key h) [])))"

definition headers_from_hashmap :: "(string, string) hashmap \<Rightarrow> notification_headers" where
  "headers_from_hashmap m =
     \<lparr>h_crypto_key = hm_get m ''crypto_key'',
      h_encryption = hm_get m ''encryption'',
      h_encryption_key = hm_get m ''encryption_key'',
      h_encoding = hm_get m ''encoding''\<rparr>"

definition chidmessageid_patterns :: "string list" where
  "chidmessageid_patterns =
     [''^'' @ TOPIC_NOTIFICATION_PREFIX @ '':'' @ [CHR 0x5C] @ ''S+:'' @ [CHR 0x5C] @ ''S+$'',
      ''^'' @ STANDARD_NOTIFICATION_PREFIX @ '':'' @ [CHR 0x5C] @ ''d+:'' @ [CHR 0x5C] @ ''S+$'',
      ''^'' @ [CHR 0x5C] @ ''S{3,}:'' @ [CHR 0x5C] @ ''S+$'']"

definition parse_chidmessageid ::
  "uuid_lib \<Rightarrow> regex_set \<Rightarrow> string \<Rightarrow> apc_error + range_key" where
  "parse_chidmessageid lib re key =
     (if \<not> re chidmessageid_patterns key then Inl (GeneralError ''Invalid chidmessageid'')
      else
        (let v = split_on (CHR '':'') key in
         if v ! 0 = ''01'' then
           (if length v \<noteq> 3 then Inl (GeneralError ''Invalid topic key'')
            else (case uuid_parse lib (v ! 1) of
                    None \<Rightarrow> Inl ApcUuidError
                  | Some channel_id \<Rightarrow>
                      Inr \<lparr>rk_channel_id = channel_id, rk_topic = Some (v ! 2),
                           rk_sortkey_timestamp = None, rk_legacy_version = None\<rparr>))
         else if v ! 0 = ''02'' then
           (if length v \<noteq> 3 then Inl (GeneralError ''Invalid topic key'')
            else (case uuid_parse lib (v ! 2) of
                    None \<Rightarrow> Inl ApcUuidError
                  | Some channel_id \<Rightarrow>
                      (case parse_u64 (v ! 1) of
                         None \<Rightarrow> Inl ApcParseIntError
                       | Some sortkey \<Rightarrow>
                           Inr \<lparr>rk_channel_id = channel_id, rk_topic = None,
                                rk_sortkey_timestamp = Some sortkey, rk_legacy_version = None\<rparr>)))
         else
           (if length v \<noteq> 2 then Inl (GeneralError ''Invalid topic key'')
            else (case uuid_parse lib (v ! 0) of
                    None \<Rightarrow> Inl ApcUuidError
                  | Some channel_id \<Rightarrow>
                      Inr \<lparr>rk_channel_id = channel_id, rk_topic = None,
                           rk_sortkey_timestamp = None, rk_legacy_version = Some (v ! 1)\<rparr>))))"

definition into_notif :: "uuid_lib \<Rightarrow> regex_set \<Rightarrow> notification_record \<Rightarrow> apc_error + notification" where
  "into_notif lib re r =
     (case parse_chidmessageid lib re (nr_chidmessageid r) of
        Inl e \<Rightarrow> Inl e
      | Inr key \<Rightarrow>
          (case (case rk_legacy_version key of Some v \<Rightarrow> Some v | None \<Rightarrow> nr_updateid r) of
             None \<Rightarrow> Inl (GeneralError ''No valid updateid/version found'')
           | Some version \<Rightarrow>
               (case nr_timestamp r of
                  None \<Rightarrow> Inl (GeneralError ''No timestamp found'')
                | Some timestamp \<Rightarrow>
                    Inr \<lparr>n_channel_id = rk_channel_id key, n_version = version,
                         n_ttl = (case nr_ttl r of Some t \<Rightarrow> t | None \<Rightarrow> 0),
                         n_topic = rk_topic key, n_timestamp = timestamp, n_data = nr_data r,
                         n_sortkey_timestamp = rk_sortkey_timestamp key,
                         n_headers = map_option headers_into_hashmap (nr_headers r)\<rparr>)))"

definition from_notif ::
  "uuid_lib \<Rightarrow> 'x sys \<Rightarrow> uuid \<Rightarrow> notification \<Rightarrow> 'x \<Rightarrow> notification_record \<times> 'x" where
  "from_notif lib sys uaid val x =
     (let (key, x1) = chidmessageid lib sys val x;
          (now, x2) = sys_now_sec sys x1
      in (\<lparr>nr_uaid = uaid, nr_chidmessageid = key, nr_current_timestamp = None, nr_chids = None,
           nr_timestamp = Some (n_timestamp val), nr_expiry = now + min (n_ttl val) MAX_EXPIRY,
           nr_ttl = Some (n_ttl val), nr_data = n_data val,
           nr_headers = map_option headers_from_hashmap (n_headers val),
           nr_updateid = Some (n_version val)\<rparr>, x2))"

section \<open>What the code relies on\<close>

text \<open>
  Documented behaviour of the \<open>uuid\<close> crate: the hyphenated and the simple form are
  non-empty hexadecimal text without colons, and parse back. Documented behaviour of the
  \<open>regex\<close> crate on the patterns of \<open>parse_chidmessageid\<close>, for printable ASCII keys.
\<close>

definition graphic :: "char \<Rightarrow> bool" where
  "graphic c \<longleftrightarrow> 33 \<le> (of_char c :: nat) \<and> (of_char c :: nat) \<le> 126"

definition key_text :: "string \<Rightarrow> bool" where
  "key_text s \<longleftrightarrow> s \<noteq> [] \<and> (\<forall>c \<in> set s. graphic c \<and> c \<noteq> CHR '':'')"

definition uuid_lib_ok :: "uuid_lib \<Rightarrow> bool" where
  "uuid_lib_ok lib \<longleftrightarrow>
     (\<forall>u. key_text (uuid_hyphenated lib u) \<and> uuid_parse lib (uuid_hyphenated lib u) = Some u \<and>
          key_text (uuid_simple lib u) \<and> CHR ''#'' \<notin> set (uuid_simple lib u) \<and>
          uuid_parse lib (uuid_simple lib u) = Some u)"

definition regex_set_ok :: "regex_set \<Rightarrow> bool" where
  "regex_set_ok re \<longleftrightarrow>
     (\<forall>a b. key_text a \<and> key_text b \<longrightarrow> re chidmessageid_patterns (''01:'' @ a @ '':'' @ b)) \<and>
     (\<forall>a b. a \<noteq> [] \<and> (\<forall>c \<in> set a. is_digit c) \<and> key_text b \<longrightarrow>
        re chidmessageid_patterns (''02:'' @ a @ '':'' @ b))"

lemma key_textD: "key_text s \<Longrightarrow> s \<noteq> [] \<and> CHR '':'' \<notin> set s"
  by (auto simp: key_text_def)

lemma uuid_hyphenated_props [simp]:
  assumes "uuid_lib_ok lib"
  shows "key_text (uuid_hyphenated lib u)" "CHR '':'' \<notin> set (uuid_hyphenated lib u)"
    "uuid_parse lib (uuid_hyphenated lib u) = Some u"
  using assms by (auto simp: uuid_lib_ok_def dest: key_textD)

section \<open>Round trips\<close>

text \<open>The key of a notification that is not legacy; \<open>ts\<close> is the timestamp written.\<close>

definition topic_key :: "uuid_lib \<Rightarrow> uuid \<Rightarrow> string \<Rightarrow> string" where
  "topic_key lib chid topic = ''01:'' @ uuid_hyphenated lib chid @ '':'' @ topic"

definition standard_key :: "uuid_lib \<Rightarrow> u64 \<Rightarrow> uuid \<Rightarrow> string" where
  "standard_key lib ts chid = ''02:'' @ show_u64 ts @ '':'' @ uuid_hyphenated lib chid"

lemma chidmessageid_topic:
  "n_topic n = Some topic \<Longrightarrow>
     chidmessageid lib sys n x = (topic_key lib (n_channel_id n) topic, x)"
  by (simp add: chidmessageid_def topic_key_def TOPIC_NOTIFICATION_PREFIX_def)

lemma chidmessageid_standard:
  "n_topic n = None \<Longrightarrow> n_sortkey_timestamp n = Some ts \<Longrightarrow> ts \<noteq> 0 \<Longrightarrow>
     chidmessageid lib sys n x = (standard_key lib ts (n_channel_id n), x)"
  by (simp add: chidmessageid_def standard_key_def STANDARD_NOTIFICATION_PREFIX_def)

lemma chidmessageid_zero:
  "n_topic n = None \<Longrightarrow> n_sortkey_timestamp n = Some 0 \<Longrightarrow> sys_now_ms sys x = (ms, x') \<Longrightarrow>
     chidmessageid lib sys n x = (standard_key lib ms (n_channel_id n), x')"
  by (simp add: chidmessageid_def standard_key_def STANDARD_NOTIFICATION_PREFIX_def)

lemma parse_topic_key [codec_simps]:
  assumes "uuid_lib_ok lib" and "regex_set_ok re" and "key_text topic"
  shows "parse_chidmessageid lib re (topic_key lib chid topic) =
    Inr \<lparr>rk_channel_id = chid, rk_topic = Some topic, rk_sortkey_timestamp = None,
         rk_legacy_version = None\<rparr>"
proof -
  let ?u = "uuid_hyphenated lib chid"
  have "split_on (CHR '':'') (topic_key lib chid topic) = [''01'', ?u, topic]"
    using split_on_append [of "CHR '':''" "''01''"] split_on_append [of "CHR '':''" ?u topic]
      split_on_no_sep [of "CHR '':''" topic] assms key_textD [of topic]
    by (simp add: topic_key_def)
  moreover have "re chidmessageid_patterns (topic_key lib chid topic)"
    using assms by (simp add: topic_key_def regex_set_ok_def)
  ultimately show ?thesis using assms(1) by (simp add: parse_chidmessageid_def)
qed

lemma parse_standard_key [codec_simps]:
  assumes "uuid_lib_ok lib" and "regex_set_ok re"
  shows "parse_chidmessageid lib re (standard_key lib ts chid) =
    Inr \<lparr>rk_channel_id = chid, rk_topic = None, rk_sortkey_timestamp = Some ts,
         rk_legacy_version = None\<rparr>"
proof -
  let ?u = "uuid_hyphenated lib chid"
  have "split_on (CHR '':'') (standard_key lib ts chid) = [''02'', show_u64 ts, ?u]"
    using split_on_append [of "CHR '':''" "''02''"] split_on_append [of "CHR '':''" "show_u64 ts" ?u]
      split_on_no_sep [of "CHR '':''" ?u] assms
    by (simp add: standard_key_def show_u64_def)
  moreover have "re chidmessageid_patterns (standard_key lib ts chid)"
    using assms show_nat_digits [of "unat ts"]
    by (simp add: standard_key_def regex_set_ok_def show_u64_def)
  ultimately show ?thesis
    using assms(1) by (simp add: parse_chidmessageid_def parse_show_u64)
qed

text \<open>A notification as storage hands it back.\<close>

definition stored_form :: "notification \<Rightarrow> notification" where
  "stored_form n =
     n\<lparr>n_sortkey_timestamp := (if n_topic n = None then n_sortkey_timestamp n else None),
       n_headers := map_option (headers_into_hashmap \<circ> headers_from_hashmap) (n_headers n)\<rparr>"

definition storable :: "notification \<Rightarrow> bool" where
  "storable n \<longleftrightarrow> (case n_topic n of
      Some topic \<Rightarrow> key_text topic
    | None \<Rightarrow> (\<exists>ts. n_sortkey_timestamp n = Some ts \<and> ts \<noteq> 0))"

text \<open>Claim C38. Storing a notification as a \<open>NotificationRecord\<close> and reading it back returns
  it unchanged, but for the headers storage does not keep and the sort key of a topic
  message, which the key does not hold.\<close>

theorem record_roundtrip:
  assumes "uuid_lib_ok lib" and "regex_set_ok re" and "storable n"
  shows "into_notif lib re (fst (from_notif lib sys uaid n x)) = Inr (stored_form n)"
proof (cases "n_topic n")
  case None
  with assms(3) obtain ts where "n_sortkey_timestamp n = Some ts" "ts \<noteq> 0"
    by (auto simp: storable_def)
  with None assms(1,2) show ?thesis
    by (simp add: from_notif_def into_notif_def chidmessageid_standard parse_standard_key
        stored_form_def option.map_comp split: prod.splits)
next
  case (Some topic)
  with assms(3) have "key_text topic" by (simp add: storable_def)
  with Some assms(1,2) show ?thesis
    by (simp add: from_notif_def into_notif_def chidmessageid_topic parse_topic_key
        stored_form_def option.map_comp split: prod.splits)
qed

text \<open>Of the headers, exactly the four stored names survive.\<close>

lemma hm_get_insert_opt [simp]:
  "hm_get (insert_opt k v m) = (case v of None \<Rightarrow> hm_get m | Some x \<Rightarrow> (hm_get m)(k \<mapsto> x))"
  by (simp add: insert_opt_def split: option.splits)

lemma headers_roundtrip:
  "hm_get (headers_into_hashmap (headers_from_hashmap m)) k =
    (if k \<in> {''crypto_key'', ''encryption'', ''encryption_key'', ''encoding''} then hm_get m k else None)"
proof -
  have "map_of (insert_opt n v h) k = (if k = n \<and> v \<noteq> None then v else map_of h k)" for n v and h :: "(string, string) hashmap"
    by (simp split: option.splits)
  then show ?thesis by (auto simp: headers_into_hashmap_def headers_from_hashmap_def simp del: hm_get_insert_opt)
qed

text \<open>A concrete formatter, used to show that the contracts can hold.\<close>

definition decimal_uuids :: uuid_lib where
  "decimal_uuids =
     \<lparr>uuid_hyphenated = (\<lambda>u. show_nat (unat u)), uuid_simple = (\<lambda>u. show_nat (unat u)),
      uuid_parse = (\<lambda>s. map_option of_nat (read_digits 0 s)), uuid_bytes = (\<lambda>u. [])\<rparr>"

definition any_regex :: regex_set where
  "any_regex ps s = True"

lemma decimal_uuids_ok: "uuid_lib_ok decimal_uuids"
proof -
  have "key_text (show_nat n)" for n
    using show_nat_digits [of n]
    by (auto simp: key_text_def graphic_def is_digit_def)
  moreover have "CHR ''#'' \<notin> set (show_nat n)" for n
    using show_nat_digits [of n] by (auto dest: is_digit_neq)
  ultimately show ?thesis by (simp add: uuid_lib_ok_def decimal_uuids_def)
qed

lemma any_regex_ok: "regex_set_ok any_regex"
  by (simp add: regex_set_ok_def any_regex_def)

definition fixed_sys :: "u64 \<Rightarrow> 'x sys" where
  "fixed_sys now =
     \<lparr>sys_now_sec = (\<lambda>x. (now, x)), sys_now_ms = (\<lambda>x. (now * 1000, x)), sys_new_uuid = (\<lambda>x. (7, x)),
      sys_last_connect = (\<lambda>x. (0, x)), sys_year_month = (\<lambda>x. (''202406'', x))\<rparr>"

definition sample_notification :: notification where
  "sample_notification =
     \<lparr>n_channel_id = 3, n_version = ''v'', n_ttl = 60, n_topic = None, n_timestamp = 10,
      n_data = None, n_sortkey_timestamp = Some 77, n_headers = None\<rparr>"

theorem record_roundtrip_witness:
  "into_notif decimal_uuids any_regex
     (fst (from_notif decimal_uuids (fixed_sys 5) 1 sample_notification ())) =
   Inr (stored_form sample_notification)"
  by (rule record_roundtrip [OF decimal_uuids_ok any_regex_ok])
    (simp add: storable_def sample_notification_def)

end
