(* ===== verification/EpHeaders.thy ===== *)
theory EpHeaders
  imports EpErrors Notification
begin

text \<open>
  Requests and their headers: \<open>autoendpoint/src/headers/{util,crypto_key,vapid}.rs\<close> and
  \<open>extractors/notification_headers.rs\<close>. A request is what the handlers read of actix's:
  the header values, the path parameters and the body. Header values that reach the code
  are visible ASCII, so \<open>trim\<close>, \<open>to_lowercase\<close> and character counts are those of ASCII.
  The \<open>regex\<close> crate is a parameter.
\<close>

section \<open>Requests\<close>

text \<open>
  \<open>rq_header_value\<close> is the lookup of actix's header map, \<open>rq_match_info\<close> that of the path
  parameters, and the body is the result of reading it within the configured limit.
\<close>

record http_request =
  rq_header_value :: "string \<Rightarrow> bytes option"
  rq_match_info :: "string \<Rightarrow> string option"
  rq_body :: "payload_error + u8 list"

text \<open>\<open>HeaderValue::to_str\<close> fails unless every byte is visible ASCII or a tab.\<close>

definition header_to_str :: "bytes \<Rightarrow> string option" where
  "header_to_str v =
     (if \<forall>c \<in> set v. (32 \<le> (of_char c :: nat) \<and> (of_char c :: nat) \<le> 126) \<or> of_char c = (9 :: nat)
      then Some v else None)"

definition get_header :: "http_request \<Rightarrow> string \<Rightarrow> string option" where
  "get_header rq name = (case rq_header_value rq name of None \<Rightarrow> None | Some h \<Rightarrow> header_to_str h)"

definition get_owned_header :: "http_request \<Rightarrow> string \<Rightarrow> string option" where
  "get_owned_header rq name = get_header rq name"

definition split_key_value :: "string \<Rightarrow> (string \<times> string) option" where
  "split_key_value item = split_once (CHR ''='') item"

section \<open>Crypto-Key\<close>

type_synonym crypto_key_header = "(string, string) hashmap list"

fun crypto_key_section :: "string list \<Rightarrow> (string, string) hashmap \<Rightarrow> (string, string) hashmap option" where
  "crypto_key_section [] sec = Some sec"
| "crypto_key_section (item # items) sec =
     (case split_key_value item of
        None \<Rightarrow> None
      | Some (key, val) \<Rightarrow>
          crypto_key_section items
            (hm_insert (str_trim key) (trim_matches (\<lambda>c. c = CHR '' '' \<or> c = CHR 0x22) val) sec))"

fun crypto_key_sections :: "string list \<Rightarrow> crypto_key_header option" where
  "crypto_key_sections [] = Some []"
| "crypto_key_sections (sec # secs) =
     (case crypto_key_section (split_on (CHR '';'') sec) [] of
        None \<Rightarrow> None
      | Some m \<Rightarrow> map_option (\<lambda>ms. m # ms) (crypto_key_sections secs))"

definition crypto_key_parse :: "string \<Rightarrow> crypto_key_header option" where
  "crypto_key_parse header = crypto_key_sections (split_on (CHR '','') header)"

fun get_by_key :: "crypto_key_header \<Rightarrow> string \<Rightarrow> string option" where
  "get_by_key [] key = None"
| "get_by_key (sec # secs) key = (case hm_get sec key of Some v \<Rightarrow> Some v | None \<Rightarrow> get_by_key secs key)"

section \<open>VAPID\<close>

datatype vapid_version_data = VapidVersion1 | VapidVersion2 string

record vapid_header =
  vh_scheme :: string
  vh_token :: string
  vh_version_data :: vapid_version_data

record vapid_header_with_key =
  vk_vapid :: vapid_header
  vk_public_key :: string

definition ALLOWED_SCHEMES :: "string list" where
  "ALLOWED_SCHEMES = [''bearer'', ''webpush'', ''vapid'']"

definition vapid_parse :: "string \<Rightarrow> vapid_error + vapid_header" where
  "vapid_parse header =
     (case split_once (CHR '' '') header of
        None \<Rightarrow> Inl MissingToken
      | Some (scheme0, rest) \<Rightarrow>
          (let scheme = to_lowercase scheme0; data = str_remove (CHR '' '') rest in
           if scheme \<notin> set ALLOWED_SCHEMES then Inl UnknownScheme
           else if scheme = ''vapid'' then
             (let m = hm_extend [] (filter_map split_key_value (split_on (CHR '','') data)) in
              case hm_get m ''k'' of
                None \<Rightarrow> Inl MissingKey
              | Some public_key \<Rightarrow>
                  (case hm_get m ''t'' of
                     None \<Rightarrow> Inl MissingToken
                   | Some token \<Rightarrow>
                       Inr \<lparr>vh_scheme = scheme, vh_token = token,
                            vh_version_data = VapidVersion2 public_key\<rparr>))
           else Inr \<lparr>vh_scheme = scheme, vh_token = data, vh_version_data = VapidVersion1\<rparr>))"

definition vapid_version :: "vapid_header \<Rightarrow> nat" where
  "vapid_version v = (case vh_version_data v of VapidVersion1 \<Rightarrow> 1 | VapidVersion2 _ \<Rightarrow> 2)"

section \<open>Notification headers\<close>

text \<open>
  \<open>regex::Regex\<close>: \<open>is_match\<close> on a pattern and a text, and \<open>replace_all\<close> on a pattern, a
  text and a replacement; \<open>rx_field_order\<close> is the iteration order of a hash map of
  validation errors.
\<close>

record regex_lib =
  rx_is_match :: "string \<Rightarrow> string \<Rightarrow> bool"
  rx_replace_all :: "string \<Rightarrow> string \<Rightarrow> string \<Rightarrow> string"
  rx_field_order :: "(string \<times> validation_kind) list \<Rightarrow> (string \<times> validation_kind) list"

definition VALID_BASE64_URL :: string where
  "VALID_BASE64_URL = ''^[0-9A-Za-z'' @ [CHR 0x5C] @ ''-_]+=*$''"

definition STRIP_PADDING :: string where
  "STRIP_PADDING = ''(?P<head>[0-9A-Za-z'' @ [CHR 0x5C] @ ''-_]+)=+(?P<tail>[,;]|$)''"

definition EP_MAX_TTL :: int where "EP_MAX_TTL = 60 * 60 * 24 * 60"

record ep_headers =
  eh_ttl :: int
  eh_topic :: "string option"
  eh_encoding :: "string option"
  eh_encryption :: "string option"
  eh_encryption_key :: "string option"
  eh_crypto_key :: "string option"

definition ep_headers_into_hashmap :: "ep_headers \<Rightarrow> (string, string) hashmap" where
  "ep_headers_into_hashmap h =
     insert_opt ''crypto_key'' (eh_crypto_key h)
       (insert_opt ''encryption_key'' (eh_encryption_key h)
         (insert_opt ''encryption'' (eh_encryption h)
           (insert_opt ''encoding'' (eh_encoding h) [])))"

text \<open>\<open>parse::<i64>\<close>: an optional sign, at least one digit, within the range.\<close>

definition parse_i64 :: "string \<Rightarrow> int option" where
  "parse_i64 s =
     (let neg = (s \<noteq> [] \<and> hd s = CHR ''-'');
          ds = (if s \<noteq> [] \<and> (hd s = CHR ''-'' \<or> hd s = CHR ''+'') then tl s else s)
      in if ds = [] then None
         else (case read_digits 0 ds of
                 None \<Rightarrow> None
               | Some n \<Rightarrow>
                   (let v = (if neg then - int n else int n) in
                    if - (2 ^ 63) \<le> v \<and> v < 2 ^ 63 then Some v else None)))"

definition strip_header :: "regex_lib \<Rightarrow> string \<Rightarrow> string" where
  "strip_header rx header = rx_replace_all rx STRIP_PADDING (str_remove (CHR 0x22) header) ''$head$tail''"

definition assert_base64_item_exists ::
  "regex_lib \<Rightarrow> string \<Rightarrow> string option \<Rightarrow> string \<Rightarrow> api_error_kind + unit" where
  "assert_base64_item_exists rx header_name header key =
     (case header of
        None \<Rightarrow> Inl (InvalidEncryption (''Missing '' @ header_name @ '' header''))
      | Some h \<Rightarrow>
          (case crypto_key_parse h of
             None \<Rightarrow> Inl (InvalidEncryption (''Invalid '' @ header_name @ '' header''))
           | Some header_data \<Rightarrow>
               (case get_by_key header_data key of
                  None \<Rightarrow> Inl (InvalidEncryption (''Missing '' @ key @ '' value in '' @ header_name @ '' header''))
                | Some v \<Rightarrow>
                    if rx_is_match rx VALID_BASE64_URL v then Inr ()
                    else Inl (InvalidEncryption (''Invalid '' @ key @ '' value in '' @ header_name @ '' header'')))))"

definition assert_not_exists :: "string \<Rightarrow> string option \<Rightarrow> string \<Rightarrow> api_error_kind + unit" where
  "assert_not_exists header_name header key =
     (case header of
        None \<Rightarrow> Inr ()
      | Some h \<Rightarrow>
          (case crypto_key_parse h of
             None \<Rightarrow> Inl (InvalidEncryption (''Invalid '' @ header_name @ '' header''))
           | Some header_data \<Rightarrow>
               if get_by_key header_data key \<noteq> None
               then Inl (InvalidEncryption (''Do not include '' @ [CHR 0x27] @ key @ [CHR 0x27] @
                      '' header in '' @ header_name @ '' header''))
               else Inr ()))"

definition validate_encryption_04_rules :: "regex_lib \<Rightarrow> ep_headers \<Rightarrow> api_error_kind + unit" where
  "validate_encryption_04_rules rx h =
     (case assert_base64_item_exists rx ''Encryption'' (eh_encryption h) ''salt'' of
        Inl e \<Rightarrow> Inl e
      | Inr _ \<Rightarrow>
          if eh_encryption_key h \<noteq> None
          then Inl (InvalidEncryption ''Encryption-Key header is not valid for webpush draft 02 or later'')
          else if eh_crypto_key h \<noteq> None
          then assert_base64_item_exists rx ''Crypto-Key'' (eh_crypto_key h) ''dh''
          else Inr ())"

definition validate_encryption_06_rules :: "ep_headers \<Rightarrow> api_error_kind + unit" where
  "validate_encryption_06_rules h =
     (case assert_not_exists ''aes128gcm Encryption'' (eh_encryption h) ''salt'' of
        Inl e \<Rightarrow> Inl e
      | Inr _ \<Rightarrow> assert_not_exists ''aes128gcm Crypto-Key'' (eh_crypto_key h) ''dh'')"

definition validate_encryption :: "regex_lib \<Rightarrow> ep_headers \<Rightarrow> api_error_kind + unit" where
  "validate_encryption rx h =
     (case eh_encoding h of
        None \<Rightarrow> Inl (InvalidEncryption ''Missing Content-Encoding header'')
      | Some encoding \<Rightarrow>
          if encoding = ''aesgcm'' then validate_encryption_04_rules rx h
          else if encoding = ''aes128gcm'' then validate_encryption_06_rules h
          else Inl (InvalidEncryption ''Unknown Content-Encoding header''))"

text \<open>The derived \<open>Validate\<close>: a range on the TTL, a length and a pattern on the topic.\<close>

definition headers_validate :: "regex_lib \<Rightarrow> ep_headers \<Rightarrow> validation_errors + unit" where
  "headers_validate rx h =
     (let ttl_codes = (if 0 \<le> eh_ttl h then [] else [''114'']);
          topic_codes = (case eh_topic h of
              None \<Rightarrow> []
            | Some t \<Rightarrow> (if length t \<le> 32 then [] else [''113'']) @
                        (if rx_is_match rx VALID_BASE64_URL t then [] else [''113'']));
          errs = (if ttl_codes = [] then [] else [(''ttl'', VField ttl_codes)]) @
                 (if topic_codes = [] then [] else [(''topic'', VField topic_codes)])
      in if errs = [] then Inr () else Inl (ValidationErrors (rx_field_order rx errs)))"

definition headers_from_request ::
  "regex_lib \<Rightarrow> http_request \<Rightarrow> bool \<Rightarrow> api_error_kind + ep_headers" where
  "headers_from_request rx rq has_data =
     (case (case get_header rq ''ttl'' of None \<Rightarrow> None | Some t \<Rightarrow> parse_i64 t) of
        None \<Rightarrow> Inl NoTTL
      | Some ttl0 \<Rightarrow>
          (let ttl = min ttl0 EP_MAX_TTL;
               topic = get_owned_header rq ''topic'';
               headers =
                 (if has_data then
                    \<lparr>eh_ttl = ttl, eh_topic = topic,
                     eh_encoding = get_owned_header rq ''content-encoding'',
                     eh_encryption = map_option (strip_header rx) (get_owned_header rq ''encryption''),
                     eh_encryption_key = get_owned_header rq ''encryption-key'',
                     eh_crypto_key = map_option (strip_header rx) (get_owned_header rq ''crypto-key'')\<rparr>
                  else
                    \<lparr>eh_ttl = ttl, eh_topic = topic, eh_encoding = None, eh_encryption = None,
                     eh_encryption_key = None, eh_crypto_key = None\<rparr>);
               finish = (case headers_validate rx headers of
                   Inl e \<Rightarrow> Inl (ApiValidation e) | Inr _ \<Rightarrow> Inr headers)
           in if has_data then
                (case validate_encryption rx headers of Inl e \<Rightarrow> Inl e | Inr _ \<Rightarrow> finish)
              else finish))"

section \<open>Printing a VAPID header\<close>

text \<open>
  An authorization header as an application server writes it, with the scheme spelled as it
  likes.
\<close>

definition vapid_render :: "string \<Rightarrow> vapid_header \<Rightarrow> string" where
  "vapid_render scheme v = scheme @ '' '' @ (case vh_version_data v of
       VapidVersion1 \<Rightarrow> vh_token v
     | VapidVersion2 key \<Rightarrow> ''t='' @ vh_token v @ '', k='' @ key)"

definition vapid_wf :: "vapid_header \<Rightarrow> bool" where
  "vapid_wf v \<longleftrightarrow> CHR '' '' \<notin> set (vh_token v) \<and>
     (case vh_version_data v of
        VapidVersion1 \<Rightarrow> vh_scheme v \<in> {''bearer'', ''webpush''}
      | VapidVersion2 key \<Rightarrow> vh_scheme v = ''vapid'' \<and> CHR '','' \<notin> set (vh_token v) \<and>
          CHR '' '' \<notin> set key \<and> CHR '','' \<notin> set key)"

lemma str_remove_simps [simp]:
  "str_remove c (xs @ ys) = str_remove c xs @ str_remove c ys"
  "str_remove c (x # xs) = (if x = c then str_remove c xs else x # str_remove c xs)"
  "str_remove c [] = []"
  by (simp_all add: str_remove_def)

lemma str_remove_id [simp]: "c \<notin> set s \<Longrightarrow> str_remove c s = s"
  by (auto simp: str_remove_def filter_id_conv)

text \<open>A VAPID authorization header that an application server prints, in either
  version of the draft, is read back as the same scheme, token and public key, whatever the
  case of the scheme.\<close>

theorem vapid_parse_render:
  assumes "vapid_wf v" and "to_lowercase scheme = vh_scheme v" and "CHR '' '' \<notin> set scheme"
  shows "vapid_parse (vapid_render scheme v) = Inr v"
proof -
  have sp: "split_once (CHR '' '') (scheme @ CHR '' '' # r) = Some (scheme, r)" for r
    using assms(3) by (rule split_once_append)
  show ?thesis
  proof (cases "vh_version_data v")
    case VapidVersion1
    with assms(1,2) sp show ?thesis
      by (cases v) (auto simp: vapid_parse_def vapid_render_def vapid_wf_def ALLOWED_SCHEMES_def)
  next
    case (VapidVersion2 key)
    let ?d = "CHR ''t'' # CHR ''='' # vh_token v @ CHR '','' # CHR ''k'' # CHR ''='' # key"
    from VapidVersion2 assms(1) have wf: "CHR '','' \<notin> set (vh_token v)" "CHR '','' \<notin> set key"
      "CHR '' '' \<notin> set key" "CHR '' '' \<notin> set (vh_token v)" "vh_scheme v = ''vapid''"
      by (simp_all add: vapid_wf_def)
    then have "split_on (CHR '','') ?d = [''t='' @ vh_token v, ''k='' @ key]"
      using split_on_append [of "CHR '',''" "''t='' @ vh_token v" "''k='' @ key"]
        split_on_no_sep [of "CHR '',''" "''k='' @ key"] by simp
    with wf VapidVersion2 assms(2) sp show ?thesis
      by (cases v) (simp add: vapid_parse_def vapid_render_def ALLOWED_SCHEMES_def split_key_value_def)
  qed
qed

theorem vapid_parse_render_witness:
  "vapid_parse ''VAPID t=a.b=, k=BA=='' =
     Inr \<lparr>vh_scheme = ''vapid'', vh_token = ''a.b='', vh_version_data = VapidVersion2 ''BA==''\<rparr>"
  using vapid_parse_render [of "\<lparr>vh_scheme = ''vapid'', vh_token = ''a.b='',
      vh_version_data = VapidVersion2 ''BA==''\<rparr>" "''VAPID''"]
  by (simp add: vapid_wf_def vapid_render_def to_lowercase_def lower_char_def char_of_eq_iff)

section \<open>What an accepted notification's headers satisfy\<close>

text \<open>What a header of parameters says of one of them: \<open>None\<close> if it cannot be read.\<close>

definition header_item :: "string \<Rightarrow> string \<Rightarrow> string option option" where
  "header_item header key = map_option (\<lambda>ck. get_by_key ck key) (crypto_key_parse header)"

lemma assert_base64_item_iff:
  "assert_base64_item_exists rx name header key = Inr () \<longleftrightarrow>
     (\<exists>h v. header = Some h \<and> header_item h key = Some (Some v) \<and> rx_is_match rx VALID_BASE64_URL v)"
  by (auto simp: assert_base64_item_exists_def header_item_def split: option.splits)

lemma assert_not_exists_iff:
  "assert_not_exists name header key = Inr () \<longleftrightarrow> (\<forall>h. header = Some h \<longrightarrow> header_item h key = Some None)"
  by (auto simp: assert_not_exists_def header_item_def split: option.splits)

lemma validate_encryption_iff:
  "validate_encryption rx h = Inr () \<longleftrightarrow>
     eh_encoding h = Some ''aesgcm'' \<and> eh_encryption_key h = None \<and>
       (\<exists>e salt. eh_encryption h = Some e \<and> header_item e ''salt'' = Some (Some salt) \<and> rx_is_match rx VALID_BASE64_URL salt) \<and>
       (\<forall>k. eh_crypto_key h = Some k \<longrightarrow>
          (\<exists>dh. header_item k ''dh'' = Some (Some dh) \<and> rx_is_match rx VALID_BASE64_URL dh)) \<or>
     eh_encoding h = Some ''aes128gcm'' \<and>
       (\<forall>e. eh_encryption h = Some e \<longrightarrow> header_item e ''salt'' = Some None) \<and>
       (\<forall>k. eh_crypto_key h = Some k \<longrightarrow> header_item k ''dh'' = Some None)"
proof -
  have "validate_encryption_04_rules rx h = Inr () \<longleftrightarrow>
      assert_base64_item_exists rx ''Encryption'' (eh_encryption h) ''salt'' = Inr () \<and> eh_encryption_key h = None \<and>
      (eh_crypto_key h \<noteq> None \<longrightarrow> assert_base64_item_exists rx ''Crypto-Key'' (eh_crypto_key h) ''dh'' = Inr ())"
    by (auto simp: validate_encryption_04_rules_def split: sum.splits)
  moreover have "validate_encryption_06_rules h = Inr () \<longleftrightarrow>
      assert_not_exists ''aes128gcm Encryption'' (eh_encryption h) ''salt'' = Inr () \<and>
      assert_not_exists ''aes128gcm Crypto-Key'' (eh_crypto_key h) ''dh'' = Inr ()"
    by (auto simp: validate_encryption_06_rules_def split: sum.splits)
  ultimately show ?thesis
    unfolding assert_base64_item_iff assert_not_exists_iff
    by (auto simp: validate_encryption_def split: option.splits)
qed

lemma headers_validate_iff:
  "headers_validate rx h = Inr () \<longleftrightarrow> 0 \<le> eh_ttl h \<and>
     (\<forall>t. eh_topic h = Some t \<longrightarrow> length t \<le> 32 \<and> rx_is_match rx VALID_BASE64_URL t)"
  by (auto simp: headers_validate_def Let_def split: option.splits)

text \<open>Claim C35. Exactly which headers of a notification are accepted, and as what. The TTL is the
  one asked for, not negative and cut to 60 days; a topic has at most 32 characters of the
  URL-safe alphabet. With a body the four encryption headers are those of the request, without
  padding and quotes, and follow their draft: \<open>aesgcm\<close> needs a salt in \<open>Encryption\<close>, has no
  \<open>Encryption-Key\<close>, and a \<open>Crypto-Key\<close>, if there is one, holds a key \<open>dh\<close>; \<open>aes128gcm\<close> has neither
  salt nor \<open>dh\<close>, and no other encoding is accepted. Without a body they are dropped unread.\<close>

theorem accepted_headers:
  "headers_from_request rx rq has_data = Inr h \<longleftrightarrow>
     (\<exists>t asked. get_header rq ''ttl'' = Some t \<and> parse_i64 t = Some asked \<and> 0 \<le> asked \<and>
        eh_ttl h = min asked (60 * 24 * 60 * 60)) \<and>
     eh_topic h = get_header rq ''topic'' \<and>
     (\<forall>t. eh_topic h = Some t \<longrightarrow> length t \<le> 32 \<and> rx_is_match rx VALID_BASE64_URL t) \<and>
     (if has_data then
        eh_encoding h = get_header rq ''content-encoding'' \<and>
        eh_encryption h = map_option (strip_header rx) (get_header rq ''encryption'') \<and>
        eh_encryption_key h = get_header rq ''encryption-key'' \<and>
        eh_crypto_key h = map_option (strip_header rx) (get_header rq ''crypto-key'') \<and>
        (eh_encoding h = Some ''aesgcm'' \<and> eh_encryption_key h = None \<and>
           (\<exists>e salt. eh_encryption h = Some e \<and> header_item e ''salt'' = Some (Some salt) \<and> rx_is_match rx VALID_BASE64_URL salt) \<and>
           (\<forall>k. eh_crypto_key h = Some k \<longrightarrow>
              (\<exists>dh. header_item k ''dh'' = Some (Some dh) \<and> rx_is_match rx VALID_BASE64_URL dh)) \<or>
         eh_encoding h = Some ''aes128gcm'' \<and>
           (\<forall>e. eh_encryption h = Some e \<longrightarrow> header_item e ''salt'' = Some None) \<and>
           (\<forall>k. eh_crypto_key h = Some k \<longrightarrow> header_item k ''dh'' = Some None))
      else eh_encoding h = None \<and> eh_encryption h = None \<and> eh_encryption_key h = None \<and> eh_crypto_key h = None)"
proof -
  have max: "EP_MAX_TTL = 60 * 24 * 60 * 60" by (simp add: EP_MAX_TTL_def)
  show ?thesis
  proof (cases "case get_header rq ''ttl'' of None \<Rightarrow> None | Some t \<Rightarrow> parse_i64 t")
    case None
    then show ?thesis by (auto simp: headers_from_request_def split: option.splits)
  next
    case (Some asked)
    define built where "built = (if has_data then
        \<lparr>eh_ttl = min asked EP_MAX_TTL, eh_topic = get_header rq ''topic'',
         eh_encoding = get_header rq ''content-encoding'',
         eh_encryption = map_option (strip_header rx) (get_header rq ''encryption''),
         eh_encryption_key = get_header rq ''encryption-key'',
         eh_crypto_key = map_option (strip_header rx) (get_header rq ''crypto-key'')\<rparr>
      else \<lparr>eh_ttl = min asked EP_MAX_TTL, eh_topic = get_header rq ''topic'', eh_encoding = None,
         eh_encryption = None, eh_encryption_key = None, eh_crypto_key = None\<rparr>)"
    have "headers_from_request rx rq has_data = Inr h \<longleftrightarrow>
        h = built \<and> (has_data \<longrightarrow> validate_encryption rx h = Inr ()) \<and> headers_validate rx h = Inr ()"
      using Some by (auto simp: headers_from_request_def get_owned_header_def built_def Let_def split: sum.splits)
    moreover have "0 \<le> min asked EP_MAX_TTL \<longleftrightarrow> 0 \<le> asked" by (simp add: max)
    ultimately show ?thesis
      using Some unfolding validate_encryption_iff headers_validate_iff
      by (cases h; cases has_data) (auto simp: built_def max split: option.splits)
  qed
qed

text \<open>A request of the older draft, against a matcher of the token alphabet.\<close>

definition token_char :: "char \<Rightarrow> bool" where
  "token_char c \<longleftrightarrow> is_digit c \<or> c = CHR ''-'' \<or> c = CHR ''_'' \<or> c = CHR ''='' \<or>
     (97 \<le> (of_char (lower_char c) :: nat) \<and> (of_char (lower_char c) :: nat) \<le> 122)"

definition demo_rx :: regex_lib where
  "demo_rx = \<lparr>rx_is_match = (\<lambda>p s. s \<noteq> [] \<and> list_all token_char s),
     rx_replace_all = (\<lambda>p s r. s), rx_field_order = (\<lambda>es. es)\<rparr>"

definition header_list :: "(string \<times> bytes) list \<Rightarrow> http_request" where
  "header_list hs = \<lparr>rq_header_value = map_of hs, rq_match_info = (\<lambda>_. None), rq_body = Inr []\<rparr>"

definition demo_headers_rq :: http_request where
  "demo_headers_rq = header_list [(''ttl'', ''99999999''), (''content-encoding'', ''aesgcm''),
     (''encryption'', ''keyid=p; salt=ab-1''), (''topic'', ''t1'')]"

definition demo_headers :: ep_headers where
  "demo_headers = \<lparr>eh_ttl = 5184000, eh_topic = Some ''t1'', eh_encoding = Some ''aesgcm'',
     eh_encryption = Some ''keyid=p; salt=ab-1'', eh_encryption_key = None, eh_crypto_key = None\<rparr>"

lemma demo_header_values:
  "get_header demo_headers_rq ''ttl'' = Some ''99999999''"
  "get_header demo_headers_rq ''topic'' = Some ''t1''"
  "get_header demo_headers_rq ''content-encoding'' = Some ''aesgcm''"
  "get_header demo_headers_rq ''encryption'' = Some ''keyid=p; salt=ab-1''"
  "get_header demo_headers_rq ''encryption-key'' = None"
  "get_header demo_headers_rq ''crypto-key'' = None"
  by (simp_all add: demo_headers_rq_def header_list_def get_header_def header_to_str_def)

lemma demo_ttl_header: "parse_i64 ''99999999'' = Some 99999999"
  by (simp add: parse_i64_def is_digit_def digit_val_def)

lemma demo_salt:
  "crypto_key_parse ''keyid=p; salt=ab-1'' = Some [[(''keyid'', ''p''), (''salt'', ''ab-1'')]]"
  by (simp add: crypto_key_parse_def split_key_value_def str_trim_def trim_matches_def is_space_def)

lemma demo_strip: "strip_header demo_rx ''keyid=p; salt=ab-1'' = ''keyid=p; salt=ab-1''"
  by (simp add: strip_header_def demo_rx_def)

lemma demo_match: "rx_is_match demo_rx p ''ab-1''" "rx_is_match demo_rx p ''t1''"
  by (simp_all add: demo_rx_def token_char_def is_digit_def lower_char_def)

lemma demo_headers_accepted: "headers_from_request demo_rx demo_headers_rq True = Inr demo_headers"
  by (simp add: headers_from_request_def demo_header_values demo_ttl_header demo_strip demo_salt demo_match
      get_owned_header_def validate_encryption_def validate_encryption_04_rules_def
      assert_base64_item_exists_def headers_validate_def demo_headers_def EP_MAX_TTL_def)

text \<open>The same request with a \<open>Crypto-Key\<close> that holds no key.\<close>

definition demo_keyless_rq :: http_request where
  "demo_keyless_rq = header_list [(''ttl'', ''99999999''), (''content-encoding'', ''aesgcm''),
     (''encryption'', ''keyid=p; salt=ab-1''), (''topic'', ''t1''), (''crypto-key'', ''keyid=p'')]"

lemma demo_keyless: "get_header demo_keyless_rq ''content-encoding'' = Some ''aesgcm''"
  "get_header demo_keyless_rq ''crypto-key'' = Some ''keyid=p''" "header_item ''keyid=p'' ''dh'' = Some None"
  "strip_header demo_rx ''keyid=p'' = ''keyid=p''"
  by (simp_all add: demo_keyless_rq_def header_list_def get_header_def header_to_str_def header_item_def crypto_key_parse_def
      split_key_value_def str_trim_def trim_matches_def is_space_def strip_header_def demo_rx_def)

theorem accepted_headers_witness:
  "0 \<le> eh_ttl demo_headers \<and> eh_topic demo_headers = Some ''t1'' \<and>
   (\<forall>h. headers_from_request demo_rx demo_keyless_rq True \<noteq> Inr h)"
  using accepted_headers [of demo_rx demo_headers_rq True demo_headers] demo_headers_accepted
    accepted_headers [of demo_rx demo_keyless_rq True]
  by (auto simp: demo_keyless demo_header_values)

end
