(* ===== verification/Endpoint.thy ===== *)
theory Endpoint
  imports Notification
begin

text \<open>
  Push endpoints and user agents: \<open>autopush-common/src/endpoint.rs\<close>, the Base64 wrapper of
  \<open>util/mod.rs\<close> and \<open>util/user_agent.rs\<close>. URLs, Base64, SHA-256, the Fernet cipher and
  the user-agent parser are other crates' and are parameters.
\<close>

section \<open>Endpoints\<close>

text \<open>
  \<open>'u\<close> is \<open>url::Url\<close>. A parse error of the first two calls becomes an \<open>ApcParseUrlError\<close>;
  encryption draws a random initialisation vector, so it acts on the outside world.
\<close>

record ('u, 'x) endpoint_lib =
  el_url_parse :: "string \<Rightarrow> string + 'u"
  el_url_join :: "'u \<Rightarrow> string \<Rightarrow> string + 'u"
  el_url_to_string :: "'u \<Rightarrow> string"
  el_b64_url_no_pad_decode :: "string \<Rightarrow> string + u8 list"
  el_sha256 :: "u8 list \<Rightarrow> string + u8 list"
  el_fernet_encrypt :: "u8 list \<Rightarrow> 'x \<Rightarrow> string \<times> 'x"

definition trim_end_eq :: "string \<Rightarrow> string" where
  "trim_end_eq s = rev (dropWhile (\<lambda>c. c = CHR ''='') (rev s))"

definition trim_eq :: "string \<Rightarrow> string" where
  "trim_eq s = trim_end_eq (dropWhile (\<lambda>c. c = CHR ''='') s)"

definition b64_decode_url :: "('u, 'x) endpoint_lib \<Rightarrow> string \<Rightarrow> string + u8 list" where
  "b64_decode_url el s = el_b64_url_no_pad_decode el (trim_end_eq s)"

definition make_endpoint ::
  "uuid_lib \<Rightarrow> ('u, 'x) endpoint_lib \<Rightarrow> uuid \<Rightarrow> uuid \<Rightarrow> string option \<Rightarrow> string \<Rightarrow> 'x \<Rightarrow>
     (apc_error, string, 'x) outcome" where
  "make_endpoint lib el uaid chid key endpoint_url x =
     (case el_url_parse el endpoint_url of
        Inl e \<Rightarrow> (Inl (ApcParseUrlError e), x)
      | Inr url \<Rightarrow>
          (case el_url_join el url ''wpush/'' of
             Inl e \<Rightarrow> (Inl (ApcParseUrlError e), x)
           | Inr root \<Rightarrow>
               (let base = uuid_bytes lib uaid @ uuid_bytes lib chid;
                    finish = (\<lambda>prefix base.
                      (let (token, x1) = el_fernet_encrypt el base x in
                       case el_url_join el root (prefix @ trim_eq token) of
                         Inl e \<Rightarrow> (Inl (GeneralError (''Encrypted endpoint data is not URL-safe '' @ e)), x1)
                       | Inr final_url \<Rightarrow> (Inr (el_url_to_string el final_url), x1)))
                in case key of
                     Some k \<Rightarrow>
                       (case b64_decode_url el k of
                          Inl _ \<Rightarrow> (Inl (PayloadError ''Error decoding VAPID key''), x)
                        | Inr raw_key \<Rightarrow>
                            (case el_sha256 el raw_key of
                               Inl _ \<Rightarrow> (Inl (PayloadError ''Error creating message digest for key''), x)
                             | Inr key_digest \<Rightarrow> finish ''v2/'' (base @ key_digest)))
                   | None \<Rightarrow> finish ''v1/'' base)))"

section \<open>User agents\<close>

text \<open>The fields of \<open>woothee\<close>'s result that are used; \<open>None\<close> from its parser is the default.\<close>

record woothee_result =
  wr_name :: string
  wr_category :: string
  wr_os :: string
  wr_os_version :: string
  wr_version :: string

record user_agent_info =
  ua_user_agent_string :: string
  ua_category :: string
  ua_browser_name :: string
  ua_browser_version :: string
  ua_metrics_browser :: string
  ua_metrics_os :: string
  ua_os_version :: string
  ua_os :: string

definition VALID_UA_BROWSER :: "string list" where
  "VALID_UA_BROWSER = [''Chrome'', ''Firefox'', ''Safari'', ''Opera'']"

definition VALID_UA_OS :: "string list" where
  "VALID_UA_OS = [''Firefox OS'', ''Linux'', ''Mac OSX'']"

definition user_agent_info_from ::
  "(string \<Rightarrow> woothee_result option) \<Rightarrow> woothee_result \<Rightarrow> string \<Rightarrow> user_agent_info" where
  "user_agent_info_from parser default_result user_agent_string =
     (let w = (case parser user_agent_string of Some r \<Rightarrow> r | None \<Rightarrow> default_result);
          metrics_os = (if starts_with ''Windows'' (wr_os w) then ''Windows''
                        else if wr_os w \<in> set VALID_UA_OS then wr_os w else ''Other'');
          metrics_browser = (if wr_name w \<in> set VALID_UA_BROWSER then wr_name w else ''Other'')
      in \<lparr>ua_user_agent_string = user_agent_string, ua_category = wr_category w,
          ua_browser_name = wr_name w, ua_browser_version = wr_version w,
          ua_metrics_browser = metrics_browser, ua_metrics_os = metrics_os,
          ua_os_version = wr_os_version w, ua_os = wr_os w\<rparr>)"

text \<open>Metric tags come from a fixed set, whatever the header.\<close>

lemma metrics_tags_bounded:
  "ua_metrics_os (user_agent_info_from p d s) \<in> set (''Windows'' # ''Other'' # VALID_UA_OS)"
  "ua_metrics_browser (user_agent_info_from p d s) \<in> set (''Other'' # VALID_UA_BROWSER)"
  by (auto simp: user_agent_info_from_def Let_def)

end
