(* ===== verification/MessageId.thy ===== *)
theory MessageId
  imports EpHeaders Endpoint
begin

text \<open>
  Message ids: \<open>autoendpoint/src/extractors/message_id.rs\<close>. A message id is the encrypted
  name of a stored message: an application server gets one for each notification it sends
  and hands it back to delete the message. The Fernet cipher is a parameter.
\<close>

section \<open>Bytes and text\<close>

definition as_bytes :: "string \<Rightarrow> u8 list" where
  "as_bytes s = map (\<lambda>c. of_nat (of_char c)) s"

definition of_bytes :: "u8 list \<Rightarrow> string" where
  "of_bytes bs = map (\<lambda>b. char_of (unat b)) bs"

lemma unat_of_char [simp]: "unat (of_nat (of_char c) :: u8) = of_char c"
proof -
  have "(of_char c :: nat) < 256" by (rule nat_of_char_less_256)
  then show ?thesis by (simp add: unat_of_nat)
qed

lemma of_as_bytes [simp]: "of_bytes (as_bytes s) = s"
  by (simp add: of_bytes_def as_bytes_def comp_def)

text \<open>
  \<open>String::from_utf8_lossy\<close>: every maximal ill-formed prefix of a character is replaced by
  the bytes of U+FFFD.
\<close>

definition replacement :: "nat list" where
  "replacement = [239, 191, 189]"

definition three_ok :: "nat \<Rightarrow> nat \<Rightarrow> bool" where
  "three_ok a b \<longleftrightarrow> 224 \<le> a \<and> a \<le> 239 \<and> is_cont b \<and> (a = 224 \<longrightarrow> 160 \<le> b) \<and> (a = 237 \<longrightarrow> b \<le> 159)"

definition four_ok :: "nat \<Rightarrow> nat \<Rightarrow> bool" where
  "four_ok a b \<longleftrightarrow> 240 \<le> a \<and> a \<le> 244 \<and> is_cont b \<and> (a = 240 \<longrightarrow> 144 \<le> b) \<and> (a = 244 \<longrightarrow> b \<le> 143)"

fun utf8_lossy :: "nat list \<Rightarrow> nat list" where
  "utf8_lossy [] = []"
| "utf8_lossy [a] = (if a \<le> 127 then [a] else replacement)"
| "utf8_lossy (a # b # as) =
     (if a \<le> 127 then a # utf8_lossy (b # as)
      else if utf8_two a b then a # b # utf8_lossy as
      else if three_ok a b then
        (case as of
           c # cs \<Rightarrow> if is_cont c then a # b # c # utf8_lossy cs else replacement @ utf8_lossy as
         | [] \<Rightarrow> replacement)
      else if four_ok a b then
        (case as of
           c # cs \<Rightarrow> if is_cont c then
             (case cs of
                d # ds \<Rightarrow> if is_cont d then a # b # c # d # utf8_lossy ds
                  else replacement @ utf8_lossy cs
              | [] \<Rightarrow> replacement)
             else replacement @ utf8_lossy as
         | [] \<Rightarrow> replacement)
      else replacement @ utf8_lossy (b # as))"

definition from_utf8_lossy :: "u8 list \<Rightarrow> string" where
  "from_utf8_lossy bs = map char_of (utf8_lossy (map unat bs))"

text \<open>Well-formed text is not changed.\<close>

lemma utf8_lossy_ascii: "\<forall>a \<in> set as. a \<le> 127 \<Longrightarrow> utf8_lossy as = as"
  by (induction as rule: utf8_lossy.induct) auto

lemma from_utf8_lossy_ascii [codec_simps]:
  assumes "is_ascii s"
  shows "from_utf8_lossy (as_bytes s) = s"
proof -
  have codes: "map unat (as_bytes s) = map of_char s"
    by (simp add: as_bytes_def)
  moreover have "utf8_lossy (map of_char s) = map of_char s"
    using assms by (intro utf8_lossy_ascii) (auto simp: is_ascii_def)
  ultimately show ?thesis
    by (simp add: from_utf8_lossy_def comp_def)
qed

section \<open>Message ids\<close>

datatype message_id =
    WithTopic uuid uuid string
  | WithoutTopic uuid uuid u64

definition message_id_text :: "uuid_lib \<Rightarrow> message_id \<Rightarrow> string" where
  "message_id_text lib m = (case m of
       WithTopic uaid chid topic \<Rightarrow>
         TOPIC_NOTIFICATION_PREFIX @ '':'' @ uuid_simple lib uaid @ '':'' @ uuid_simple lib chid @
           '':'' @ topic
     | WithoutTopic uaid chid timestamp \<Rightarrow>
         STANDARD_NOTIFICATION_PREFIX @ '':'' @ uuid_simple lib uaid @ '':'' @ uuid_simple lib chid @
           '':'' @ show_u64 timestamp)"

definition message_id_encrypt ::
  "uuid_lib \<Rightarrow> ('u, 'x) endpoint_lib \<Rightarrow> message_id \<Rightarrow> 'x \<Rightarrow> string \<times> 'x" where
  "message_id_encrypt lib el m x = el_fernet_encrypt el (as_bytes (message_id_text lib m)) x"

definition message_id_decrypt ::
  "uuid_lib \<Rightarrow> (string \<Rightarrow> u8 list option) \<Rightarrow> string \<Rightarrow> api_error_kind + message_id" where
  "message_id_decrypt lib decrypt s =
     (case decrypt s of
        None \<Rightarrow> Inl InvalidMessageId
      | Some decrypted_bytes \<Rightarrow>
          (let segments = split_on (CHR '':'') (from_utf8_lossy decrypted_bytes) in
           if length segments \<noteq> 4 then Inl InvalidMessageId
           else if segments ! 0 = ''01'' then
             (case uuid_parse lib (segments ! 1) of
                None \<Rightarrow> Inl InvalidMessageId
              | Some uaid \<Rightarrow>
                  (case uuid_parse lib (segments ! 2) of
                     None \<Rightarrow> Inl InvalidMessageId
                   | Some channel_id \<Rightarrow> Inr (WithTopic uaid channel_id (segments ! 3))))
           else if segments ! 0 = ''02'' then
             (case uuid_parse lib (segments ! 1) of
                None \<Rightarrow> Inl InvalidMessageId
              | Some uaid \<Rightarrow>
                  (case uuid_parse lib (segments ! 2) of
                     None \<Rightarrow> Inl InvalidMessageId
                   | Some channel_id \<Rightarrow>
                       (case parse_u64 (segments ! 3) of
                          None \<Rightarrow> Inl InvalidMessageId
                        | Some timestamp \<Rightarrow> Inr (WithoutTopic uaid channel_id timestamp))))
           else Inl InvalidMessageId))"

definition message_id_uaid :: "message_id \<Rightarrow> uuid" where
  "message_id_uaid m = (case m of WithTopic uaid _ _ \<Rightarrow> uaid | WithoutTopic uaid _ _ \<Rightarrow> uaid)"

definition message_id_sort_key :: "uuid_lib \<Rightarrow> message_id \<Rightarrow> string" where
  "message_id_sort_key lib m = (case m of
       WithTopic _ chid topic \<Rightarrow>
         TOPIC_NOTIFICATION_PREFIX @ '':'' @ uuid_hyphenated lib chid @ '':'' @ topic
     | WithoutTopic _ chid timestamp \<Rightarrow>
         STANDARD_NOTIFICATION_PREFIX @ '':'' @ show_u64 timestamp @ '':'' @ uuid_hyphenated lib chid)"

section \<open>Round trip\<close>

text \<open>What the code relies on of Fernet: what was encrypted with the keys decrypts.\<close>

definition fernet_ok :: "('u, 'x) endpoint_lib \<Rightarrow> (string \<Rightarrow> u8 list option) \<Rightarrow> bool" where
  "fernet_ok el decrypt \<longleftrightarrow> (\<forall>bs x. decrypt (fst (el_fernet_encrypt el bs x)) = Some bs)"

definition message_id_wf :: "message_id \<Rightarrow> bool" where
  "message_id_wf m = (case m of
       WithTopic _ _ topic \<Rightarrow> is_ascii topic \<and> CHR '':'' \<notin> set topic
     | WithoutTopic _ _ _ \<Rightarrow> True)"

lemma key_text_ascii: "key_text s \<Longrightarrow> is_ascii s"
  by (fastforce simp: key_text_def is_ascii_def graphic_def)

lemma show_u64_ascii: "is_ascii (show_u64 w)"
  using show_nat_digits [of "unat w"] by (fastforce simp: is_ascii_def is_digit_def show_u64_def)

lemma is_ascii_simps [simp]:
  "is_ascii (a @ b) \<longleftrightarrow> is_ascii a \<and> is_ascii b"
  "is_ascii (c # s) \<longleftrightarrow> (of_char c :: nat) \<le> 127 \<and> is_ascii s"
  "is_ascii []"
  by (auto simp: is_ascii_def)

lemma split_on_four:
  assumes "CHR '':'' \<notin> set a" "CHR '':'' \<notin> set b" "CHR '':'' \<notin> set c" "CHR '':'' \<notin> set d"
  shows "split_on (CHR '':'') (a @ CHR '':'' # b @ CHR '':'' # c @ CHR '':'' # d) = [a, b, c, d]"
  using assms by (simp add: split_on_append split_on_no_sep)

lemma uuid_simple_props:
  assumes "uuid_lib_ok lib"
  shows "key_text (uuid_simple lib u)" "CHR '':'' \<notin> set (uuid_simple lib u)"
    "uuid_parse lib (uuid_simple lib u) = Some u"
proof -
  from assms have "key_text (uuid_simple lib u) \<and> uuid_parse lib (uuid_simple lib u) = Some u"
    unfolding uuid_lib_ok_def by blast
  then show "key_text (uuid_simple lib u)" "CHR '':'' \<notin> set (uuid_simple lib u)"
    "uuid_parse lib (uuid_simple lib u) = Some u"
    using key_textD by blast+
qed

lemma message_id_roundtrip:
  assumes lib: "uuid_lib_ok lib" and f: "fernet_ok el decrypt" and wf: "message_id_wf m"
  shows "message_id_decrypt lib decrypt (fst (message_id_encrypt lib el m x)) = Inr m"
proof -
  note u = uuid_simple_props [OF lib]
  have "decrypt (fst (message_id_encrypt lib el m x)) = Some (as_bytes (message_id_text lib m))"
    using f unfolding fernet_ok_def message_id_encrypt_def by blast
  moreover have "is_ascii (message_id_text lib m)"
    using wf u(1) [THEN key_text_ascii] show_u64_ascii
    by (cases m) (simp_all add: message_id_text_def message_id_wf_def
        TOPIC_NOTIFICATION_PREFIX_def STANDARD_NOTIFICATION_PREFIX_def)
  ultimately show ?thesis
  proof (cases m)
    case (WithTopic uaid chid topic)
    with wf have "CHR '':'' \<notin> set topic" by (simp add: message_id_wf_def)
    then have "split_on (CHR '':'') (message_id_text lib m) =
        [''01'', uuid_simple lib uaid, uuid_simple lib chid, topic]"
      using WithTopic u(2) split_on_four [of "''01''" "uuid_simple lib uaid" "uuid_simple lib chid" topic]
      by (simp add: message_id_text_def TOPIC_NOTIFICATION_PREFIX_def)
    with \<open>is_ascii _\<close> \<open>decrypt _ = _\<close> WithTopic u(3) show ?thesis
      by (simp add: message_id_decrypt_def from_utf8_lossy_ascii)
  next
    case (WithoutTopic uaid chid timestamp)
    then have "split_on (CHR '':'') (message_id_text lib m) =
        [''02'', uuid_simple lib uaid, uuid_simple lib chid, show_u64 timestamp]"
      using u(2) split_on_four [of "''02''" "uuid_simple lib uaid" "uuid_simple lib chid" "show_u64 timestamp"]
      by (simp add: message_id_text_def STANDARD_NOTIFICATION_PREFIX_def show_u64_def)
    with \<open>is_ascii _\<close> \<open>decrypt _ = _\<close> WithoutTopic u(3) show ?thesis
      by (simp add: message_id_decrypt_def from_utf8_lossy_ascii parse_show_u64)
  qed
qed

end
