(* ===== verification/Storage.thy ===== *)
theory Storage
  imports Notification
begin

text \<open>
  The data model and the interface of the database layer:
  \<open>User\<close> and \<open>CheckStorageResponse\<close> of \<open>autopush-common/src/db/mod.rs\<close> and the trait
  \<open>DbClient\<close> of \<open>db/client.rs\<close> as a record of operations on an outside world. An
  operation returns its result and the world it leaves, so a theorem over an
  arbitrary \<open>db_client\<close> holds for every backend, failures and interference by other
  tasks included.
\<close>

section \<open>Users\<close>

text \<open>Values of \<open>router_data\<close> are JSON text.\<close>

record user =
  u_uaid :: uuid
  u_connected_at :: u64
  u_router_type :: string
  u_router_data :: "(string, string) hashmap option"
  u_last_connect :: "u64 option"
  u_node_id :: "string option"
  u_record_version :: "u64 option"
  u_current_month :: "string option"
  u_current_timestamp :: "u64 option"
  u_version :: "uuid option"

definition user_default :: "'x sys \<Rightarrow> 'x \<Rightarrow> user \<times> 'x" where
  "user_default sys x =
     (let (uaid, x1) = sys_new_uuid sys x;
          (connected_at, x2) = sys_now_ms sys x1;
          (last_connect, x3) = sys_last_connect sys x2;
          (version, x4) = sys_new_uuid sys x3
      in (\<lparr>u_uaid = uaid, u_connected_at = connected_at, u_router_type = ''webpush'',
           u_router_data = None, u_last_connect = Some last_connect, u_node_id = None,
           u_record_version = Some USER_RECORD_VERSION, u_current_month = None,
           u_current_timestamp = None, u_version = Some version\<rparr>, x4))"

definition has_connected_this_month :: "'x sys \<Rightarrow> user \<Rightarrow> 'x \<Rightarrow> bool \<times> 'x" where
  "has_connected_this_month sys user x =
     (case u_last_connect user of
        None \<Rightarrow> (False, x)
      | Some v \<Rightarrow> (let (pat, x') = sys_year_month sys x in (starts_with pat (show_u64 v), x')))"

definition set_last_connect :: "'x sys \<Rightarrow> user \<Rightarrow> 'x \<Rightarrow> user \<times> 'x" where
  "set_last_connect sys user x =
     (let (this_month, x1) = has_connected_this_month sys user x in
      if this_month then (user\<lparr>u_last_connect := None\<rparr>, x1)
      else (let (lc, x2) = sys_last_connect sys x1 in (user\<lparr>u_last_connect := Some lc\<rparr>, x2)))"

lemma set_last_connect_frame [frame_simps]:
  assumes "set_last_connect sys user x = (user', x')"
  shows "u_uaid user' = u_uaid user" "u_connected_at user' = u_connected_at user"
    "u_current_timestamp user' = u_current_timestamp user" "u_node_id user' = u_node_id user"
    "u_version user' = u_version user"
  using assms by (auto simp: set_last_connect_def Let_def split: prod.splits if_splits)

section \<open>Responses\<close>

record check_storage_response =
  cs_include_topic :: bool
  cs_messages :: "notification list"
  cs_timestamp :: "u64 option"

record fetch_message_response =
  fm_timestamp :: "u64 option"
  fm_messages :: "notification list"

definition fetch_default :: fetch_message_response where
  "fetch_default = \<lparr>fm_timestamp = None, fm_messages = []\<rparr>"

section \<open>The database client\<close>

type_synonym ('a, 'x) db_op = "'x \<Rightarrow> (db_error, 'a, 'x) outcome"

record 'x db_client =
  db_add_user :: "user \<Rightarrow> (unit, 'x) db_op"
  db_update_user :: "user \<Rightarrow> 'x \<Rightarrow> (db_error, bool, user \<times> 'x) outcome"
  db_get_user :: "uuid \<Rightarrow> (user option, 'x) db_op"
  db_remove_user :: "uuid \<Rightarrow> (unit, 'x) db_op"
  db_add_channel :: "uuid \<Rightarrow> uuid \<Rightarrow> (unit, 'x) db_op"
  db_add_channels :: "uuid \<Rightarrow> uuid list \<Rightarrow> (unit, 'x) db_op"
  db_get_channels :: "uuid \<Rightarrow> (uuid list, 'x) db_op"
  db_remove_channel :: "uuid \<Rightarrow> uuid \<Rightarrow> (bool, 'x) db_op"
  db_remove_node_id :: "uuid \<Rightarrow> string \<Rightarrow> u64 \<Rightarrow> uuid option \<Rightarrow> (bool, 'x) db_op"
  db_save_message :: "uuid \<Rightarrow> notification \<Rightarrow> (unit, 'x) db_op"
  db_save_messages :: "uuid \<Rightarrow> notification list \<Rightarrow> (unit, 'x) db_op"
  db_fetch_topic_messages :: "uuid \<Rightarrow> nat \<Rightarrow> (fetch_message_response, 'x) db_op"
  db_fetch_timestamp_messages ::
    "uuid \<Rightarrow> u64 option \<Rightarrow> nat \<Rightarrow> (fetch_message_response, 'x) db_op"
  db_increment_storage :: "uuid \<Rightarrow> u64 \<Rightarrow> (unit, 'x) db_op"
  db_remove_message :: "uuid \<Rightarrow> string \<Rightarrow> (unit, 'x) db_op"
  db_router_table_exists :: "(bool, 'x) db_op"
  db_message_table_exists :: "(bool, 'x) db_op"
  db_health_check :: "(bool, 'x) db_op"
  db_rotating_message_table :: "string option"
  db_name :: string

section \<open>The contract of the interface\<close>

text \<open>
  What the comments of \<open>DbClient\<close> promise, as an executable key-value store: users and
  channels by UAID, messages by UAID and sort key. \<open>get\<close> and \<open>put\<close> say where in the outside
  world the store is, so that two stores can stand side by side.
\<close>

record mem_db =
  m_users :: "(uuid, user) hashmap"
  m_channels :: "(uuid, uuid list) hashmap"
  m_messages :: "(uuid \<times> string, notification) hashmap"

definition mem_empty :: mem_db where
  "mem_empty = \<lparr>m_users = [], m_channels = [], m_messages = []\<rparr>"

definition mem_add_user :: "user \<Rightarrow> mem_db \<Rightarrow> (db_error, unit, mem_db) outcome" where
  "mem_add_user u m =
     (case hm_get (m_users m) (u_uaid u) of
        Some _ \<Rightarrow> (Inl Conditional, m)
      | None \<Rightarrow> (Inr (), m\<lparr>m_users := hm_insert (u_uaid u) u (m_users m)\<rparr>))"

definition mem_update_user :: "user \<Rightarrow> mem_db \<Rightarrow> (db_error, bool, mem_db) outcome" where
  "mem_update_user u m =
     (case hm_get (m_users m) (u_uaid u) of
        None \<Rightarrow> (Inr False, m)
      | Some old \<Rightarrow>
          if u_router_type old = u_router_type u \<and> u_connected_at old < u_connected_at u
          then (Inr True, m\<lparr>m_users := hm_insert (u_uaid u) u (m_users m)\<rparr>)
          else (Inr False, m))"

definition mem_channels_of :: "uuid \<Rightarrow> mem_db \<Rightarrow> uuid list" where
  "mem_channels_of uaid m = (case hm_get (m_channels m) uaid of None \<Rightarrow> [] | Some cs \<Rightarrow> cs)"

definition mem_add_channels :: "uuid \<Rightarrow> uuid list \<Rightarrow> mem_db \<Rightarrow> mem_db" where
  "mem_add_channels uaid cs m =
     m\<lparr>m_channels := hm_insert uaid (fold List.insert cs (mem_channels_of uaid m)) (m_channels m)\<rparr>"

definition mem_of_user :: "uuid \<Rightarrow> mem_db \<Rightarrow> notification list" where
  "mem_of_user uaid m = map snd (filter (\<lambda>((u, k), n). u = uaid) (m_messages m))"

definition mem_topic_messages :: "uuid \<Rightarrow> nat \<Rightarrow> mem_db \<Rightarrow> notification list" where
  "mem_topic_messages uaid limit m =
     take limit (filter (\<lambda>n. n_topic n \<noteq> None) (mem_of_user uaid m))"

definition mem_timestamp_messages :: "uuid \<Rightarrow> u64 option \<Rightarrow> nat \<Rightarrow> mem_db \<Rightarrow> notification list" where
  "mem_timestamp_messages uaid ts limit m =
     take limit (sort_key (\<lambda>n. the (n_sortkey_timestamp n))
       (filter (\<lambda>n. case n_sortkey_timestamp n of
            None \<Rightarrow> False
          | Some sk \<Rightarrow> n_topic n = None \<and> (case ts of None \<Rightarrow> True | Some t \<Rightarrow> t < sk))
         (mem_of_user uaid m)))"

definition in_world :: "('x \<Rightarrow> 'm) \<Rightarrow> ('m \<Rightarrow> 'x \<Rightarrow> 'x) \<Rightarrow> ('m \<Rightarrow> ('e, 'a, 'm) outcome) \<Rightarrow>
    'x \<Rightarrow> ('e, 'a, 'x) outcome" where
  "in_world get put f x = (let (r, m) = f (get x) in (r, put m x))"

definition mem_save_message ::
  "uuid_lib \<Rightarrow> 'x sys \<Rightarrow> ('x \<Rightarrow> mem_db) \<Rightarrow> (mem_db \<Rightarrow> 'x \<Rightarrow> 'x) \<Rightarrow> uuid \<Rightarrow> notification \<Rightarrow> 'x \<Rightarrow> 'x" where
  "mem_save_message lib sys get put uaid n x =
     (let (k, x1) = chidmessageid lib sys n x; m = get x1;
          n' = (if n_topic n \<noteq> None then n\<lparr>n_sortkey_timestamp := None\<rparr>
                else if n_sortkey_timestamp n = Some 0
                then n\<lparr>n_sortkey_timestamp := Some (fst (sys_now_ms sys x))\<rparr> else n)
      in put (m\<lparr>m_messages := hm_insert (uaid, k) n' (m_messages m)\<rparr>) x1)"

definition mem_client ::
  "uuid_lib \<Rightarrow> 'x sys \<Rightarrow> ('x \<Rightarrow> mem_db) \<Rightarrow> (mem_db \<Rightarrow> 'x \<Rightarrow> 'x) \<Rightarrow> 'x db_client" where
  "mem_client lib sys get put =
     \<lparr>db_add_user = (\<lambda>u. in_world get put (mem_add_user u)),
      db_update_user = (\<lambda>u x. let (r, x') = in_world get put (mem_update_user u) x in (r, (u, x'))),
      db_get_user = (\<lambda>uaid x. (Inr (hm_get (m_users (get x)) uaid), x)),
      db_remove_user = (\<lambda>uaid. in_world get put (\<lambda>m. (Inr (), m\<lparr>m_users := hm_remove uaid (m_users m)\<rparr>))),
      db_add_channel = (\<lambda>uaid c. in_world get put (\<lambda>m. (Inr (), mem_add_channels uaid [c] m))),
      db_add_channels = (\<lambda>uaid cs. in_world get put (\<lambda>m. (Inr (), mem_add_channels uaid cs m))),
      db_get_channels = (\<lambda>uaid x. (Inr (mem_channels_of uaid (get x)), x)),
      db_remove_channel = (\<lambda>uaid c. in_world get put (\<lambda>m.
        (Inr (c \<in> set (mem_channels_of uaid m)),
         m\<lparr>m_channels := hm_insert uaid (filter (\<lambda>d. d \<noteq> c) (mem_channels_of uaid m)) (m_channels m)\<rparr>))),
      db_remove_node_id = (\<lambda>uaid node conn ver. in_world get put (\<lambda>m.
        (case hm_get (m_users m) uaid of
           Some u \<Rightarrow> if u_node_id u = Some node \<and> u_connected_at u = conn
             then (Inr True, m\<lparr>m_users := hm_insert uaid (u\<lparr>u_node_id := None\<rparr>) (m_users m)\<rparr>)
             else (Inr False, m)
         | None \<Rightarrow> (Inr False, m)))),
      db_save_message = (\<lambda>uaid n x. (Inr (), mem_save_message lib sys get put uaid n x)),
      db_save_messages = (\<lambda>uaid ns x. (Inr (), fold (mem_save_message lib sys get put uaid) ns x)),
      db_fetch_topic_messages = (\<lambda>uaid limit x.
        (Inr \<lparr>fm_timestamp = None, fm_messages = mem_topic_messages uaid limit (get x)\<rparr>, x)),
      db_fetch_timestamp_messages = (\<lambda>uaid ts limit x.
        (let ms = mem_timestamp_messages uaid ts limit (get x) in
         (Inr \<lparr>fm_timestamp = (if ms = [] then None else n_sortkey_timestamp (last ms)),
               fm_messages = ms\<rparr>, x))),
      db_increment_storage = (\<lambda>uaid ts. in_world get put (\<lambda>m.
        (Inr (), (case hm_get (m_users m) uaid of
           Some u \<Rightarrow> m\<lparr>m_users := hm_insert uaid (u\<lparr>u_current_timestamp := Some ts\<rparr>) (m_users m)\<rparr>
         | None \<Rightarrow> m)))),
      db_remove_message = (\<lambda>uaid k. in_world get put (\<lambda>m.
        (Inr (), m\<lparr>m_messages := hm_remove (uaid, k) (m_messages m)\<rparr>))),
      db_router_table_exists = (\<lambda>x. (Inr True, x)),
      db_message_table_exists = (\<lambda>x. (Inr True, x)),
      db_health_check = (\<lambda>x. (Inr True, x)),
      db_rotating_message_table = None,
      db_name = ''Mem''\<rparr>"

end
