(* ===== verification/Instances.thy ===== *)
theory Instances
  imports Endpoint
begin

text \<open>
  Concrete versions of the libraries the sources use, to show that what the theorems rely on
  can hold: a UUID format, the bytes of a UUID, and a cipher with padded tokens.
\<close>

section \<open>UUIDs\<close>

text \<open>UUIDs as 39 decimal digits.\<close>

definition padded :: "nat \<Rightarrow> nat \<Rightarrow> string" where
  "padded k n = replicate (k - length (show_nat n)) (CHR ''0'') @ show_nat n"

lemma length_show_nat: "n < 10 ^ k \<Longrightarrow> 0 < k \<Longrightarrow> length (show_nat n) \<le> k"
proof (induction k arbitrary: n)
  case (Suc k)
  show ?case
  proof (cases "n < 10")
    case True
    then show ?thesis by (subst show_nat.simps) simp
  next
    case False
    with Suc.prems have "n div 10 < 10 ^ k" "0 < k" by (auto intro: gr0I)
    from Suc.IH [OF this] False show ?thesis by (subst show_nat.simps) simp
  qed
qed simp

lemma read_zeros: "read_digits 0 (replicate k (CHR ''0'') @ s) = read_digits 0 s"
  by (induction k) (simp_all add: is_digit_def digit_val_def)

definition fixed_uuids :: uuid_lib where
  "fixed_uuids =
     \<lparr>uuid_hyphenated = (\<lambda>u. padded 39 (unat u)), uuid_simple = (\<lambda>u. padded 39 (unat u)),
      uuid_parse = (\<lambda>s. map_option of_nat (read_digits 0 s)),
      uuid_bytes = (\<lambda>u. map (\<lambda>i. of_nat (unat u div 256 ^ i)) (rev [0..<16]))\<rparr>"

lemma padded_props:
  "set (padded k n) \<subseteq> {c. is_digit c}" "padded k n \<noteq> []" "read_digits 0 (padded k n) = Some n"
  using show_nat_digits [of n] by (auto simp: padded_def read_zeros is_digit_def)

lemma unat_uuid_bound: "unat (u :: uuid) < 10 ^ 39"
proof -
  have "unat u < 2 ^ 128" using unsigned_less [of u] by simp
  also have "\<dots> < (10 :: nat) ^ 39" by simp
  finally show ?thesis .
qed

lemma length_padded: "length (padded 39 (unat (u :: uuid))) = 39"
  using length_show_nat [OF unat_uuid_bound, of u] by (simp add: padded_def)

lemma fixed_uuids_lib_ok: "uuid_lib_ok fixed_uuids"
proof -
  have "key_text (padded k n)" for k n
    using padded_props [of k n] by (auto simp: key_text_def graphic_def is_digit_def)
  moreover have "CHR ''#'' \<notin> set (padded k n)" for k n
    using padded_props(1) [of k n] by (auto dest: is_digit_neq)
  ultimately show ?thesis by (simp add: uuid_lib_ok_def fixed_uuids_def padded_props)
qed

definition uuid_of_u8s :: "u8 list \<Rightarrow> uuid" where
  "uuid_of_u8s bs = of_nat (foldl (\<lambda>a b. 256 * a + unat b) 0 bs)"

lemma foldl_unat_bytes:
  "foldl (\<lambda>a b. 256 * a + unat b) acc (map (\<lambda>i. of_nat (f i) :: u8) is) =
   foldl (\<lambda>a b. 256 * a + of_char b) acc (map (\<lambda>i. char_of (f i)) is)"
  by (induction "is" arbitrary: acc) (simp_all add: unat_of_nat)

lemma uuid_of_u8s_fixed: "uuid_of_u8s (uuid_bytes fixed_uuids u) = u"
proof -
  have "unat u < 256 ^ 16" using unsigned_less [of u] by simp
  then show ?thesis
    unfolding uuid_of_u8s_def fixed_uuids_def uuid_lib.simps foldl_unat_bytes be_digits_foldl by simp
qed

lemma length_uuid_bytes_fixed: "length (uuid_bytes fixed_uuids u) = 16"
  by (simp add: fixed_uuids_def)

section \<open>A cipher\<close>

text \<open>Four characters first, then four for every byte, two of them filling.\<close>

definition nibble :: "nat \<Rightarrow> char" where "nibble n = char_of (65 + n)"

definition demo_token_of :: "u8 list \<Rightarrow> string" where
  "demo_token_of bs = concat (map (\<lambda>b. [CHR ''g'', CHR ''A'', nibble (unat b div 16), nibble (unat b mod 16)]) bs)"

fun demo_untoken_of :: "string \<Rightarrow> u8 list option" where
  "demo_untoken_of [] = Some []"
| "demo_untoken_of (a # b # c # d # s) =
     map_option (\<lambda>bs. of_nat ((of_char c - 65) * 16 + (of_char d - 65)) # bs) (demo_untoken_of s)"
| "demo_untoken_of _ = None"

definition demo_token :: "u8 list \<Rightarrow> string" where
  "demo_token bs = ''gAAA'' @ demo_token_of bs"

definition demo_untoken :: "string \<Rightarrow> u8 list option" where
  "demo_untoken s = demo_untoken_of (drop 4 s)"

lemma nibble_val: "n < 16 \<Longrightarrow> of_char (nibble n) = 65 + (n :: nat)"
  by (simp add: nibble_def)

lemma nibble_not_eq: "n < 16 \<Longrightarrow> nibble n \<noteq> CHR ''=''"
  using nibble_val [of n] by auto

lemma demo_untoken_token_of: "demo_untoken_of (demo_token_of bs) = Some bs"
proof (induction bs)
  case (Cons b bs)
  have "unat b < 256" using unsigned_less [of b] by simp
  then have "unat b div 16 < 16" by simp
  then have "of_nat ((of_char (nibble (unat b div 16)) - 65) * 16 + (of_char (nibble (unat b mod 16)) - 65)) = b"
    by (simp add: nibble_val)
  with Cons show ?case by (simp add: demo_token_of_def)
qed (simp add: demo_token_of_def)

lemma demo_untoken_token: "demo_untoken (demo_token bs) = Some bs"
  by (simp add: demo_untoken_def demo_token_def demo_untoken_token_of)

lemma demo_token_of_chars: "c \<in> set (demo_token_of bs) \<Longrightarrow> c \<in> {CHR ''g'', CHR ''A''} \<or> (\<exists>n < 16. c = nibble n)"
proof (induction bs)
  case (Cons b bs)
  have "unat b < 256" using unsigned_less [of b] by simp
  then have "unat b div 16 < 16" "unat b mod 16 < 16" by simp_all
  moreover from Cons.prems have "c \<in> {CHR ''g'', CHR ''A''} \<or> c = nibble (unat b div 16) \<or>
      c = nibble (unat b mod 16) \<or> c \<in> set (demo_token_of bs)"
    unfolding demo_token_of_def by (simp only: list.map concat.simps set_append Un_iff list.set) blast
  ultimately show ?case using Cons.IH by blast
qed (simp add: demo_token_of_def)

lemma demo_token_chars: "c \<in> set (demo_token bs) \<Longrightarrow> c \<in> {CHR ''g'', CHR ''A''} \<or> (\<exists>n < 16. c = nibble n)"
  using demo_token_of_chars [of c bs] by (auto simp: demo_token_def)

lemma length_demo_token: "length (demo_token bs) = 4 * Suc (length bs)"
proof -
  have "length (demo_token_of bs) = 4 * length bs"
    by (induction bs) (simp_all add: demo_token_of_def)
  then show ?thesis by (simp add: demo_token_def)
qed

lemma demo_token_shape: "CHR ''='' \<notin> set (demo_token bs) \<and> 4 dvd length (demo_token bs)"
proof
  show "CHR ''='' \<notin> set (demo_token bs)"
    using demo_token_chars [of "CHR ''=''" bs] nibble_not_eq by fastforce
qed (simp add: length_demo_token)

end
