(* ===== verification/EpApp.thy ===== *)
theory EpApp
  imports MessageId Storage Instances
begin

text \<open>
  The state of \<open>autoendpoint\<close> and its users: \<open>AppState\<close> of \<open>server.rs\<close> with the parts of
  \<open>settings.rs\<close> the handlers read, \<open>auth.rs\<close>, \<open>RouterType\<close> of \<open>extractors/routers.rs\<close> and
  \<open>extractors/user.rs\<close>. Base64, Fernet, HMAC, JSON Web Tokens, the metrics sink and the HTTP
  client are parameters; a counter that is sent with \<open>?\<close> may fail, the others are not
  modelled.
\<close>

section \<open>Values\<close>

text \<open>\<open>serde_json::Value\<close>, with floats as their text.\<close>

datatype json =
    JNull
  | JBool bool
  | JInt int
  | JFloat string
  | JStr string
  | JArr "json list"
  | JObj "(string \<times> json) list"

definition json_as_str :: "json \<Rightarrow> string option" where
  "json_as_str j = (case j of JStr s \<Rightarrow> Some s | _ \<Rightarrow> None)"

definition json_as_object :: "json \<Rightarrow> (string \<times> json) list option" where
  "json_as_object j = (case j of JObj m \<Rightarrow> Some m | _ \<Rightarrow> None)"

definition json_as_array :: "json \<Rightarrow> json list option" where
  "json_as_array j = (case j of JArr xs \<Rightarrow> Some xs | _ \<Rightarrow> None)"

definition json_opt_str :: "string option \<Rightarrow> json" where
  "json_opt_str s = (case s of None \<Rightarrow> JNull | Some t \<Rightarrow> JStr t)"

section \<open>State\<close>

record vapid_claims =
  vc_exp :: u64
  vc_aud :: string
  vc_sub :: string

text \<open>
  A failed JWT: a JSON error, with whether its category is \<open>Data\<close> and its text, or another.
\<close>

datatype jwt_error = JwtJson bool string | JwtOther string

record ep_settings =
  es_scheme :: string
  es_host :: string
  es_port :: nat
  es_endpoint_url :: string
  es_auth_keys :: string

record ('u, 'x) ep_app =
  ea_db :: "'x db_client"
  ea_settings :: ep_settings
  ea_sys :: "'x sys"
  ea_uuid :: uuid_lib
  ea_uuid_from_slice :: "u8 list \<Rightarrow> uuid"
  ea_lib :: "('u, 'x) endpoint_lib"
  ea_fernet_decrypt :: "string \<Rightarrow> u8 list option"
  ea_b64_std_no_pad_decode :: "string \<Rightarrow> string + u8 list"
  ea_b64_url_no_pad_encode :: "u8 list \<Rightarrow> string"
  ea_rx :: regex_lib
  ea_jwt_decode :: "string \<Rightarrow> u8 list \<Rightarrow> 'x \<Rightarrow> (jwt_error + vapid_claims) \<times> 'x"
  ea_hmac_sha256 :: "u8 list \<Rightarrow> u8 list \<Rightarrow> string + u8 list"
  ea_hex_encode :: "u8 list \<Rightarrow> string"
  ea_json_value :: "string \<Rightarrow> json"
  ea_json_text :: "json \<Rightarrow> string"
  ea_metrics_incr :: "string \<Rightarrow> 'x \<Rightarrow> (string + unit) \<times> 'x"
  ea_http_put :: "string \<Rightarrow> (string \<times> json) list option \<Rightarrow> 'x \<Rightarrow> (reqwest_error + nat) \<times> 'x"

text \<open>Lifting a result without effects, and the error conversions of \<open>?\<close>.\<close>

definition pure_step :: "api_error_kind + 'a \<Rightarrow> 's \<Rightarrow> (api_fail, 'a, 's) outcome" where
  "pure_step r s = (case r of Inl e \<Rightarrow> fail e s | Inr v \<Rightarrow> (Inr v, s))"

definition db_step :: "(db_error, 'a, 's) outcome \<Rightarrow> (api_fail, 'a, 's) outcome" where
  "db_step r = mapErr (\<lambda>e. Fail (ApiDatabase e)) r"

definition incr_step :: "('u, 'x) ep_app \<Rightarrow> string \<Rightarrow> 'x \<Rightarrow> (api_fail, unit, 'x) outcome" where
  "incr_step A name x = mapErr (\<lambda>e. Fail (ApiMetrics e)) (ea_metrics_incr A name x)"

definition ok_step :: "'a \<times> 's \<Rightarrow> (api_fail, 'a, 's) outcome" where
  "ok_step p = (Inr (fst p), snd p)"

lemma ok_step_iff [simp]: "ok_step p = (Inr v, s) \<longleftrightarrow> p = (v, s)"
  by (cases p) (simp add: ok_step_def)

lemma ok_step_simps [simp]: "ok_step (v, s) = (Inr v, s)"
  by simp

lemma pure_step_simps [simp]:
  "pure_step (Inl e) s = fail e s"
  "pure_step (Inr v) s = (Inr v, s)"
  by (simp_all add: pure_step_def)

lemma pure_step_iff [simp]:
  "pure_step r s = (Inr v, s') \<longleftrightarrow> r = Inr v \<and> s' = s"
  by (cases r) (auto simp: pure_step_def)

lemma db_step_iff [simp]: "db_step r = (Inr v, s) \<longleftrightarrow> r = (Inr v, s)"
  by (simp add: db_step_def)

lemma db_step_simps [simp]:
  "db_step (Inl e, s) = fail (ApiDatabase e) s"
  "db_step (Inr v, s) = (Inr v, s)"
  by (simp_all add: db_step_def)

section \<open>Settings\<close>

text \<open>
  \<open>read_list_from_str\<close> on a list without quotes and spaces; it panics on text that is not in
  brackets. The slice \<open>[1..len - 1]\<close> of the one-byte text \<open>[\<close>, which ends with no bracket, is
  never taken.
\<close>

definition read_list_from_str :: "string \<Rightarrow> string \<Rightarrow> string + string list" where
  "read_list_from_str list_str panic_msg =
     (if \<not> (starts_with ''['' list_str \<and> starts_with '']'' (rev list_str)) then Inl panic_msg
      else Inr (split_on (CHR '','') (butlast (tl list_str))))"

definition settings_auth_keys :: "ep_settings \<Rightarrow> string + string list" where
  "settings_auth_keys st =
     read_list_from_str (filter (\<lambda>c. c \<noteq> CHR 0x22 \<and> c \<noteq> CHR '' '') (es_auth_keys st))
       ''Invalid AUTOEND_AUTH_KEYS''"

definition settings_endpoint_url :: "('u, 'x) ep_app \<Rightarrow> string + 'u" where
  "settings_endpoint_url A =
     (let st = ea_settings A;
          endpoint = (if es_endpoint_url st = []
                      then es_scheme st @ ''://'' @ es_host st @ '':'' @ show_nat (es_port st)
                      else es_endpoint_url st)
      in case el_url_parse (ea_lib A) endpoint of
           Inl _ \<Rightarrow> Inl ''Invalid endpoint URL''
         | Inr u \<Rightarrow> Inr u)"

definition panic_step :: "string + 'a \<Rightarrow> 's \<Rightarrow> (api_fail, 'a, 's) outcome" where
  "panic_step r s = (case r of Inl e \<Rightarrow> (Inl (Panic e), s) | Inr v \<Rightarrow> (Inr v, s))"

lemma panic_step_simps [simp]:
  "panic_step (Inl e) s = (Inl (Panic e), s)"
  "panic_step (Inr v) s = (Inr v, s)"
  by (simp_all add: panic_step_def)

lemma panic_step_iff [simp]:
  "panic_step r s = (Inr v, s') \<longleftrightarrow> r = Inr v \<and> s' = s"
  by (cases r) (auto simp: panic_step_def)

section \<open>Signatures\<close>

text \<open>\<open>sign_with_key\<close>: the HMAC in hexadecimal.\<close>

definition sign_with_key :: "('u, 'x) ep_app \<Rightarrow> u8 list \<Rightarrow> u8 list \<Rightarrow> string + string" where
  "sign_with_key A key data =
     (case ea_hmac_sha256 A key data of Inl e \<Rightarrow> Inl e | Inr mac \<Rightarrow> Inr (ea_hex_encode A mac))"

section \<open>Router types\<close>

datatype router_type = WebPush | FCM | GCM | APNS | ADM

text \<open>Lower-casing text outside ASCII never gives one of the names.\<close>

definition router_type_from_str :: "string \<Rightarrow> router_type option" where
  "router_type_from_str s =
     (let t = to_lowercase s in
      if t = ''webpush'' then Some WebPush
      else if t = ''fcm'' then Some FCM
      else if t = ''gcm'' then Some GCM
      else if t = ''apns'' then Some APNS
      else if t = ''adm'' then Some ADM
      else None)"

definition router_type_to_string :: "router_type \<Rightarrow> string" where
  "router_type_to_string r = (case r of
       WebPush \<Rightarrow> ''webpush'' | FCM \<Rightarrow> ''fcm'' | GCM \<Rightarrow> ''gcm'' | APNS \<Rightarrow> ''apns'' | ADM \<Rightarrow> ''adm'')"

lemma router_type_roundtrip [codec_simps]:
  "router_type_from_str (router_type_to_string r) = Some r"
  by (cases r) (simp_all add: router_type_from_str_def router_type_to_string_def to_lowercase_def
      lower_char_def)

section \<open>Users\<close>

definition drop_user :: "('u, 'x) ep_app \<Rightarrow> uuid \<Rightarrow> 'x \<Rightarrow> (api_fail, unit, 'x) outcome" where
  "drop_user A uaid x = db_step (db_remove_user (ea_db A) uaid x)"

definition validate_webpush_user ::
  "('u, 'x) ep_app \<Rightarrow> user \<Rightarrow> uuid \<Rightarrow> 'x \<Rightarrow> (api_fail, unit, 'x) outcome" where
  "validate_webpush_user A user channel_id x =
     (let drop = andThen (drop_user A (u_uaid user) x) (\<lambda>_ x1. fail NoSubscription x1);
          check_channel = andThen (db_step (db_get_channels (ea_db A) (u_uaid user) x))
            (\<lambda>channel_ids x1. if channel_id \<notin> set channel_ids then fail NoSubscription x1
                             else (Inr (), x1))
      in case db_rotating_message_table (ea_db A) of
           None \<Rightarrow> check_channel
         | Some rotating_message_table \<Rightarrow>
             (case u_current_month user of
                None \<Rightarrow> drop
              | Some current_month \<Rightarrow>
                  if current_month \<noteq> rotating_message_table then drop else check_channel))"

definition validate_user ::
  "('u, 'x) ep_app \<Rightarrow> user \<Rightarrow> uuid \<Rightarrow> 'x \<Rightarrow> (api_fail, router_type, 'x) outcome" where
  "validate_user A user channel_id x =
     (case router_type_from_str (u_router_type user) of
        None \<Rightarrow> andThen (drop_user A (u_uaid user) x) (\<lambda>_ x1. fail NoSubscription x1)
      | Some GCM \<Rightarrow> andThen (drop_user A (u_uaid user) x) (\<lambda>_ x1. fail (ApiRouter RNotFound) x1)
      | Some WebPush \<Rightarrow> andThen (validate_webpush_user A user channel_id x) (\<lambda>_ x1. (Inr WebPush, x1))
      | Some r \<Rightarrow> (Inr r, x))"

lemma validate_user_Inr:
  assumes "validate_user A user chid x = (Inr r, x')"
  shows "router_type_from_str (u_router_type user) = Some r" and "r \<noteq> GCM"
    and "r = WebPush \<Longrightarrow>
      (\<exists>chids. db_get_channels (ea_db A) (u_uaid user) x = (Inr chids, x') \<and> chid \<in> set chids) \<and>
      (case db_rotating_message_table (ea_db A) of None \<Rightarrow> True
         | Some t \<Rightarrow> u_current_month user = Some t)"
    and "r \<noteq> WebPush \<Longrightarrow> x' = x"
  using assms
  by (auto simp: validate_user_def validate_webpush_user_def Let_def andThen_Inr_iff
      split: option.splits router_type.splits if_splits)

section \<open>A concrete server\<close>

definition demo_claims :: vapid_claims where
  "demo_claims = \<lparr>vc_exp = 1500, vc_aud = ''https://push/'', vc_sub = ''mailto:a''\<rparr>"

text \<open>URLs of one host, as their text.\<close>

definition demo_join :: "string \<Rightarrow> string \<Rightarrow> string" where
  "demo_join u s = ''https://push'' @
     (if starts_with ''/'' s then s else rev (dropWhile (\<lambda>c. c \<noteq> CHR ''/'') (rev (drop 12 u))) @ s)"

definition demo_lib :: "(string, 'x) endpoint_lib" where
  "demo_lib =
     \<lparr>el_url_parse = Inr, el_url_join = (\<lambda>u s. Inr (demo_join u s)), el_url_to_string = (\<lambda>u. u),
      el_b64_url_no_pad_decode = (\<lambda>s. Inr (as_bytes s)),
      el_sha256 = (\<lambda>bs. Inr (take 32 (bs @ replicate 32 0))),
      el_fernet_encrypt = (\<lambda>bs x. (demo_token bs, x))\<rparr>"

definition demo_ep_settings :: ep_settings where
  "demo_ep_settings = \<lparr>es_scheme = ''https'', es_host = ''push'', es_port = 443,
     es_endpoint_url = ''https://push/'', es_auth_keys = ''[k1, k2]''\<rparr>"

definition demo_ep_with ::
  "'x db_client \<Rightarrow> (string \<Rightarrow> (string \<times> json) list option \<Rightarrow> 'x \<Rightarrow> (reqwest_error + nat) \<times> 'x) \<Rightarrow> (string, 'x) ep_app" where
  "demo_ep_with db put =
     \<lparr>ea_db = db, ea_settings = demo_ep_settings, ea_sys = fixed_sys 1000, ea_uuid = fixed_uuids,
      ea_uuid_from_slice = uuid_of_u8s, ea_lib = demo_lib, ea_fernet_decrypt = demo_untoken,
      ea_b64_std_no_pad_decode = (\<lambda>s. Inr (as_bytes s)), ea_b64_url_no_pad_encode = demo_token,
      ea_rx = demo_rx, ea_jwt_decode = (\<lambda>t k x. (Inr demo_claims, x)),
      ea_hmac_sha256 = (\<lambda>k d. Inr (k @ d)), ea_hex_encode = demo_token,
      ea_json_value = JStr, ea_json_text = (\<lambda>j. case j of JStr s \<Rightarrow> s | _ \<Rightarrow> ''null''),
      ea_metrics_incr = (\<lambda>name x. (Inr (), x)), ea_http_put = put\<rparr>"

text \<open>With a store, and no connection server.\<close>

abbreviation demo_ep :: "(string, mem_db) ep_app" where
  "demo_ep \<equiv> demo_ep_with (mem_client fixed_uuids (fixed_sys 1000) (\<lambda>m. m) (\<lambda>m _. m)) (\<lambda>url body x. (Inr 404, x))"

definition demo_ep_user :: user where
  "demo_ep_user =
     \<lparr>u_uaid = 5, u_connected_at = 1, u_router_type = ''webpush'', u_router_data = None,
      u_last_connect = None, u_node_id = Some ''http://node'', u_record_version = Some 1,
      u_current_month = None, u_current_timestamp = None, u_version = None\<rparr>"

definition demo_ep_store :: mem_db where
  "demo_ep_store = \<lparr>m_users = [(5, demo_ep_user)], m_channels = [(5, [6, 9])], m_messages = []\<rparr>"

lemma demo_ep_codec: "uuid_lib_ok (ea_uuid demo_ep)" "fernet_ok (ea_lib demo_ep) (ea_fernet_decrypt demo_ep)"
  using fixed_uuids_lib_ok by (simp_all add: demo_ep_with_def fernet_ok_def demo_lib_def demo_untoken_token)

end
