(* ===== verification/Subscription.thy ===== *)
theory Subscription
  imports EpApp
begin

text \<open>
  Who may send to a subscription: \<open>autoendpoint/src/extractors/{token_info,subscription}.rs\<close>.
  The token in the push URL is decrypted to a user, a channel and, in version 2, the hash of
  the application server's VAPID key; the theorems say what a request that is let through
  has proved, and that the URL \<open>make_endpoint\<close> builds is let through.
\<close>

section \<open>Token information\<close>

datatype api_version = Version1 | Version2

record token_info =
  ti_api_version :: api_version
  ti_token :: string
  ti_crypto_key_header :: "string option"
  ti_auth_header :: "string option"

definition api_version_from_str :: "string \<Rightarrow> api_error_kind + api_version" where
  "api_version_from_str s =
     (if s = ''v1'' then Inr Version1 else if s = ''v2'' then Inr Version2 else Inl InvalidApiVersion)"

definition token_info_from_request :: "http_request \<Rightarrow> 'x \<Rightarrow> (api_fail, token_info, 'x) outcome" where
  "token_info_from_request rq x =
     andThen (pure_step (api_version_from_str
        (case rq_match_info rq ''api_version'' of Some v \<Rightarrow> v | None \<Rightarrow> ''v1'')) x)
       (\<lambda>version x.
         case rq_match_info rq ''token'' of
           None \<Rightarrow> (Inl (Panic ''{token} must be part of the webpush path''), x)
         | Some token \<Rightarrow>
             (Inr \<lparr>ti_api_version = version, ti_token = token,
                   ti_crypto_key_header = get_owned_header rq ''crypto-key'',
                   ti_auth_header = get_owned_header rq ''authorization''\<rparr>, x))"

section \<open>Checks\<close>

definition ONE_DAY_IN_SECONDS :: u64 where "ONE_DAY_IN_SECONDS = 60 * 60 * 24"

record ep_subscription =
  su_user :: user
  su_channel_id :: uuid
  su_vapid :: "vapid_header_with_key option"

definition repad_base64 :: "string \<Rightarrow> string" where
  "repad_base64 data =
     (let trailing_chars = length data mod 4 in
      if trailing_chars \<noteq> 0 then data @ replicate (4 - trailing_chars) (CHR ''='') else data)"

definition parse_vapid :: "token_info \<Rightarrow> api_error_kind + vapid_header option" where
  "parse_vapid ti =
     (case ti_auth_header ti of
        None \<Rightarrow> Inr None
      | Some header \<Rightarrow>
          (case vapid_parse header of Inl e \<Rightarrow> Inl (ApiVapidError e) | Inr v \<Rightarrow> Inr (Some v)))"

definition extract_public_key ::
  "vapid_header \<Rightarrow> token_info \<Rightarrow> api_error_kind + vapid_header_with_key" where
  "extract_public_key v ti =
     (case vh_version_data v of
        VapidVersion1 \<Rightarrow>
          (case ti_crypto_key_header ti of
             None \<Rightarrow> Inl (InvalidEncryption ''Missing Crypto-Key header'')
           | Some header \<Rightarrow>
               (case crypto_key_parse header of
                  None \<Rightarrow> Inl (InvalidEncryption ''Invalid Crypto-Key header'')
                | Some header_data \<Rightarrow>
                    (case get_by_key header_data ''p256ecdsa'' of
                       None \<Rightarrow> Inl (InvalidEncryption ''Missing p256ecdsa in Crypto-Key header'')
                     | Some public_key \<Rightarrow> Inr \<lparr>vk_vapid = v, vk_public_key = public_key\<rparr>)))
      | VapidVersion2 public_key \<Rightarrow> Inr \<lparr>vk_vapid = v, vk_public_key = public_key\<rparr>)"

definition vapid_of_request :: "token_info \<Rightarrow> api_error_kind + vapid_header_with_key option" where
  "vapid_of_request ti =
     (case parse_vapid ti of
        Inl e \<Rightarrow> Inl e
      | Inr None \<Rightarrow> Inr None
      | Inr (Some v) \<Rightarrow> (case extract_public_key v ti of Inl e \<Rightarrow> Inl e | Inr k \<Rightarrow> Inr (Some k)))"

definition version_1_validation :: "u8 list \<Rightarrow> api_error_kind + unit" where
  "version_1_validation token = (if length token \<noteq> 32 then Inl InvalidToken else Inr ())"

definition b64_decode_std :: "('u, 'x) ep_app \<Rightarrow> string \<Rightarrow> string + u8 list" where
  "b64_decode_std A s = ea_b64_std_no_pad_decode A (trim_end_eq s)"

definition decode_public_key :: "('u, 'x) ep_app \<Rightarrow> string \<Rightarrow> api_error_kind + u8 list" where
  "decode_public_key A public_key =
     (case (if CHR ''/'' \<in> set public_key \<or> CHR ''+'' \<in> set public_key
            then b64_decode_std A (trim_end_eq public_key)
            else b64_decode_url (ea_lib A) (trim_end_eq public_key)) of
        Inl e \<Rightarrow> Inl (ApiVapidError (InvalidKey e))
      | Inr bs \<Rightarrow> Inr bs)"

definition version_2_validation ::
  "('u, 'x) ep_app \<Rightarrow> u8 list \<Rightarrow> vapid_header_with_key option \<Rightarrow> api_error_kind + unit" where
  "version_2_validation A token vapid =
     (if length token \<noteq> 64 then Inl InvalidToken
      else
        (case vapid of
           None \<Rightarrow> Inl (ApiVapidError MissingKey)
         | Some v \<Rightarrow>
             (case decode_public_key A (vk_public_key v) of
                Inl e \<Rightarrow> Inl e
              | Inr public_key \<Rightarrow>
                  (case el_sha256 (ea_lib A) public_key of
                     Inl e \<Rightarrow> Inl (ApiTokenHashValidation e)
                   | Inr key_hash \<Rightarrow>
                       if key_hash \<noteq> drop 32 token then Inl (ApiVapidError KeyMismatch) else Inr ()))))"

definition validate_vapid_jwt ::
  "('u, 'x) ep_app \<Rightarrow> vapid_header_with_key \<Rightarrow> 'u \<Rightarrow> 'x \<Rightarrow> (api_fail, unit, 'x) outcome" where
  "validate_vapid_jwt A v domain x =
     andThen (pure_step (decode_public_key A (vk_public_key v)) x) (\<lambda>public_key x.
       (let (r, x1) = ea_jwt_decode A (vh_token (vk_vapid v)) public_key x in
        case r of
          Inl (JwtJson is_data e) \<Rightarrow>
            fail (ApiVapidError (InvalidVapid
              (if is_data then ''A value in the vapid claims is either missing or incorrectly specified (e.g. '' @
                 [CHR 0x22] @ ''exp'' @ [CHR 0x22] @ '':'' @ [CHR 0x22] @ ''12345'' @ [CHR 0x22] @ '' or '' @
                 [CHR 0x22] @ ''sub'' @ [CHR 0x22] @ '':null). Please correct and retry.''
               else e))) x1
        | Inl (JwtOther e) \<Rightarrow> fail (ApiJwt e) x1
        | Inr claims \<Rightarrow>
            (let (now, x2) = sys_now_sec (ea_sys A) x1 in
             if vc_exp claims > now + ONE_DAY_IN_SECONDS then fail (ApiVapidError FutureExpirationToken) x2
             else
               (case el_url_parse (ea_lib A) (vc_aud claims) of
                  Inl _ \<Rightarrow> fail (ApiVapidError InvalidAudience) x2
                | Inr aud \<Rightarrow>
                    if domain \<noteq> aud then fail (ApiVapidError InvalidAudience) x2 else (Inr (), x2)))))"

section \<open>The extractor\<close>

definition token_validation ::
  "('u, 'x) ep_app \<Rightarrow> api_version \<Rightarrow> u8 list \<Rightarrow> vapid_header_with_key option \<Rightarrow> api_error_kind + unit" where
  "token_validation A version token vapid = (case version of
       Version1 \<Rightarrow> version_1_validation token
     | Version2 \<Rightarrow> version_2_validation A token vapid)"

definition check_vapid ::
  "('u, 'x) ep_app \<Rightarrow> vapid_header_with_key option \<Rightarrow> 'x \<Rightarrow> (api_fail, unit, 'x) outcome" where
  "check_vapid A vapid x = (case vapid of
       None \<Rightarrow> (Inr (), x)
     | Some v \<Rightarrow>
         andThen (panic_step (settings_endpoint_url A) x) (\<lambda>domain x.
         andThen (validate_vapid_jwt A v domain x) (\<lambda>_ x.
           incr_step A (''updates.vapid.draft0'' @ show_nat (vapid_version (vk_vapid v))) x)))"

definition subscription_from_request ::
  "('u, 'x) ep_app \<Rightarrow> http_request \<Rightarrow> 'x \<Rightarrow> (api_fail, ep_subscription, 'x) outcome" where
  "subscription_from_request A rq x =
     andThen (token_info_from_request rq x) (\<lambda>ti x.
     case ea_fernet_decrypt A (repad_base64 (ti_token ti)) of
       None \<Rightarrow> fail InvalidToken x
     | Some token \<Rightarrow>
         andThen (pure_step (vapid_of_request ti) x) (\<lambda>vapid x.
         andThen (pure_step (token_validation A (ti_api_version ti) token vapid) x) (\<lambda>_ x.
         (let uaid = ea_uuid_from_slice A (take 16 token);
              channel_id = ea_uuid_from_slice A (take 16 (drop 16 token))
          in andThen (db_step (db_get_user (ea_db A) uaid x)) (\<lambda>found x.
             case found of
               None \<Rightarrow> fail NoSubscription x
             | Some user \<Rightarrow>
                 andThen (validate_user A user channel_id x) (\<lambda>_ x.
                 andThen (check_vapid A vapid x) (\<lambda>_ x.
                   (Inr \<lparr>su_user = user, su_channel_id = channel_id, su_vapid = vapid\<rparr>, x))))))))"

section \<open>What a request that is let through has proved\<close>

text \<open>The signature was checked under the key, and the claims name this server and expire
  within a day.\<close>

definition jwt_verified :: "('u, 'x) ep_app \<Rightarrow> vapid_header_with_key \<Rightarrow> bool" where
  "jwt_verified A v \<longleftrightarrow>
     (\<exists>key claims x x1 now x2 domain.
        decode_public_key A (vk_public_key v) = Inr key \<and>
        ea_jwt_decode A (vh_token (vk_vapid v)) key x = (Inr claims, x1) \<and>
        sys_now_sec (ea_sys A) x1 = (now, x2) \<and> vc_exp claims \<le> now + ONE_DAY_IN_SECONDS \<and>
        settings_endpoint_url A = Inr domain \<and> el_url_parse (ea_lib A) (vc_aud claims) = Inr domain)"

lemma validate_vapid_jwt_Inr:
  assumes "validate_vapid_jwt A v domain x = (Inr (), x')"
  shows "\<exists>key claims x1 now.
    decode_public_key A (vk_public_key v) = Inr key \<and>
    ea_jwt_decode A (vh_token (vk_vapid v)) key x = (Inr claims, x1) \<and>
    sys_now_sec (ea_sys A) x1 = (now, x') \<and> vc_exp claims \<le> now + ONE_DAY_IN_SECONDS \<and>
    el_url_parse (ea_lib A) (vc_aud claims) = Inr domain"
proof -
  from assms obtain key where key: "decode_public_key A (vk_public_key v) = Inr key"
    by (auto simp: validate_vapid_jwt_def andThen_Inr_iff)
  obtain r x1 where r: "ea_jwt_decode A (vh_token (vk_vapid v)) key x = (r, x1)" by fastforce
  with assms key obtain claims where claims: "r = Inr claims"
    by (auto simp: validate_vapid_jwt_def split: sum.splits jwt_error.splits)
  obtain now x2 where now: "sys_now_sec (ea_sys A) x1 = (now, x2)" by fastforce
  from assms show ?thesis
    by (auto simp: validate_vapid_jwt_def key r claims now not_less split: sum.splits if_splits)
qed

lemma check_vapid_verified:
  assumes "check_vapid A (Some v) x = (Inr (), x')"
  shows "jwt_verified A v"
proof -
  from assms obtain domain x1 where "settings_endpoint_url A = Inr domain"
      "validate_vapid_jwt A v domain x = (Inr (), x1)"
    by (auto simp: check_vapid_def andThen_Inr_iff)
  with validate_vapid_jwt_Inr [OF this(2)] show ?thesis unfolding jwt_verified_def by metis
qed

lemma version_2_validation_Inr:
  "version_2_validation A token vapid = Inr () \<longleftrightarrow>
     length token = 64 \<and>
     (\<exists>v key. vapid = Some v \<and> decode_public_key A (vk_public_key v) = Inr key \<and>
        el_sha256 (ea_lib A) key = Inr (drop 32 token))"
  by (auto simp: version_2_validation_def split: option.splits sum.splits)


section \<open>Endpoints are let through\<close>

text \<open>
  What the code relies on: Fernet decrypts what it encrypted and its tokens are padded
  Base64, a UUID is its 16 bytes, and a SHA-256 digest has 32.
\<close>

definition fernet_tokens :: "('u, 'x) endpoint_lib \<Rightarrow> bool" where
  "fernet_tokens el \<longleftrightarrow>
     (\<forall>bs x. \<exists>body k. fst (el_fernet_encrypt el bs x) = body @ replicate k (CHR ''='') \<and>
        CHR ''='' \<notin> set body \<and> k \<le> 2 \<and> 4 dvd length body + k)"

definition token_codec_ok :: "('u, 'x) ep_app \<Rightarrow> bool" where
  "token_codec_ok A \<longleftrightarrow>
     fernet_ok (ea_lib A) (ea_fernet_decrypt A) \<and> fernet_tokens (ea_lib A) \<and>
     (\<forall>u. length (uuid_bytes (ea_uuid A) u) = 16 \<and> ea_uuid_from_slice A (uuid_bytes (ea_uuid A) u) = u) \<and>
     (\<forall>bs h. el_sha256 (ea_lib A) bs = Inr h \<longrightarrow> length h = 32)"

lemma repad_trim:
  assumes "t = body @ replicate k (CHR ''='')" "CHR ''='' \<notin> set body" "k \<le> 2" "4 dvd length body + k"
  shows "repad_base64 (trim_eq t) = t"
proof -
  have k: "body = [] \<Longrightarrow> k = 0" using assms(3,4) by (auto dest: dvd_imp_le)
  have hd: "dropWhile (\<lambda>c. c = CHR ''='') t = t"
    using assms(1,2) k by (cases body) auto
  have "dropWhile (\<lambda>c. c = CHR ''='') (replicate k (CHR ''='') @ rev body) = rev body"
    using assms(2) by (induction k) (auto simp: dropWhile_eq_self_iff hd_rev dest: last_in_set)
  with hd assms(1) have "trim_eq t = body" by (simp add: trim_eq_def trim_end_eq_def)
  moreover from assms(3,4) have "(if length body mod 4 \<noteq> 0 then 4 - length body mod 4 else 0) = k"
    by presburger
  ultimately show ?thesis using assms(1) by (auto simp: repad_base64_def Let_def split: if_splits)
qed

lemma fernet_repad:
  assumes "fernet_ok el dec" and "fernet_tokens el" and "el_fernet_encrypt el bs x = (t, x')"
  shows "dec (repad_base64 (trim_eq t)) = Some bs"
proof -
  from assms(2) obtain body k where t: "fst (el_fernet_encrypt el bs x) = body @ replicate k (CHR ''='')"
      "CHR ''='' \<notin> set body" "k \<le> 2" "4 dvd length body + k"
    unfolding fernet_tokens_def by blast
  from assms(1) have "dec (fst (el_fernet_encrypt el bs x)) = Some bs"
    unfolding fernet_ok_def by blast
  with repad_trim [OF t] assms(3) show ?thesis by simp
qed

text \<open>
  A token of a version lets a request through for a channel of a user when storage has the
  user, its router is in order and the VAPID check passes; \<open>raw_key\<close> is the key the token was
  made for, if any.
\<close>

definition lets_through ::
  "('u, 'x) ep_app \<Rightarrow> string \<Rightarrow> string \<Rightarrow> u8 list option \<Rightarrow> uuid \<Rightarrow> uuid \<Rightarrow> bool" where
  "lets_through A version token raw_key uaid chid \<longleftrightarrow>
     (\<forall>rq x ti vapid user x1 r x2 x3.
        rq_match_info rq ''api_version'' = Some version \<longrightarrow> rq_match_info rq ''token'' = Some token \<longrightarrow>
        token_info_from_request rq x = (Inr ti, x) \<longrightarrow> vapid_of_request ti = Inr vapid \<longrightarrow>
        (case raw_key of None \<Rightarrow> True
           | Some k \<Rightarrow> \<exists>v. vapid = Some v \<and> decode_public_key A (vk_public_key v) = Inr k) \<longrightarrow>
        db_get_user (ea_db A) uaid x = (Inr (Some user), x1) \<longrightarrow>
        validate_user A user chid x1 = (Inr r, x2) \<longrightarrow> check_vapid A vapid x2 = (Inr (), x3) \<longrightarrow>
        subscription_from_request A rq x =
          (Inr \<lparr>su_user = user, su_channel_id = chid, su_vapid = vapid\<rparr>, x3))"

lemma lets_throughD:
  assumes "lets_through A version token raw_key uaid chid"
    and "rq_match_info rq ''api_version'' = Some version" "rq_match_info rq ''token'' = Some token"
    and "token_info_from_request rq x = (Inr ti, x)" "vapid_of_request ti = Inr vapid"
    and "case raw_key of None \<Rightarrow> True
           | Some k \<Rightarrow> \<exists>v. vapid = Some v \<and> decode_public_key A (vk_public_key v) = Inr k"
    and "db_get_user (ea_db A) uaid x = (Inr (Some user), x1)"
    and "validate_user A user chid x1 = (Inr r, x2)" "check_vapid A vapid x2 = (Inr (), x3)"
  shows "subscription_from_request A rq x =
    (Inr \<lparr>su_user = user, su_channel_id = chid, su_vapid = vapid\<rparr>, x3)"
  using assms(1) [unfolded lets_through_def, rule_format, OF assms(2-9)] .

lemma lets_throughI:
  assumes dec: "ea_fernet_decrypt A (repad_base64 token) =
      Some (uuid_bytes (ea_uuid A) uaid @ uuid_bytes (ea_uuid A) chid @ digest)"
    and ids: "\<And>u. length (uuid_bytes (ea_uuid A) u) = 16"
      "\<And>u. ea_uuid_from_slice A (uuid_bytes (ea_uuid A) u) = u"
    and ver: "(version = ''v1'' \<and> raw_key = None \<and> digest = []) \<or>
      (version = ''v2'' \<and> (\<exists>k. raw_key = Some k \<and> el_sha256 (ea_lib A) k = Inr digest \<and> length digest = 32))"
  shows "lets_through A version token raw_key uaid chid"
  unfolding lets_through_def
proof (intro allI impI)
  fix rq x ti vapid user x1 r x2 x3
  let ?token = "uuid_bytes (ea_uuid A) uaid @ uuid_bytes (ea_uuid A) chid @ digest"
  assume mv: "rq_match_info rq ''api_version'' = Some version" and mt: "rq_match_info rq ''token'' = Some token"
    and ti: "token_info_from_request rq x = (Inr ti, x)" and vap: "vapid_of_request ti = Inr vapid"
    and key: "case raw_key of None \<Rightarrow> True
           | Some k \<Rightarrow> \<exists>v. vapid = Some v \<and> decode_public_key A (vk_public_key v) = Inr k"
    and get: "db_get_user (ea_db A) uaid x = (Inr (Some user), x1)"
    and usr: "validate_user A user chid x1 = (Inr r, x2)" and chk: "check_vapid A vapid x2 = (Inr (), x3)"
  from ti mv mt have "ti_token ti = token" and "api_version_from_str version = Inr (ti_api_version ti)"
    by (auto simp: token_info_from_request_def andThen_Inr_iff)
  moreover have "token_validation A (ti_api_version ti) ?token vapid = Inr ()"
    using calculation(2) ver key ids(1)
    by (auto simp: api_version_from_str_def token_validation_def version_1_validation_def
        version_2_validation_def split: if_splits)
  ultimately show "subscription_from_request A rq x =
      (Inr \<lparr>su_user = user, su_channel_id = chid, su_vapid = vapid\<rparr>, x3)"
    using ti dec vap get usr chk ids by (simp add: subscription_from_request_def)
qed

lemma make_endpoint_parts:
  assumes codec: "token_codec_ok A"
    and made: "make_endpoint (ea_uuid A) (ea_lib A) uaid chid key url x = (Inr ep, x')"
  shows "\<exists>version token raw_key parsed root final.
    el_url_parse (ea_lib A) url = Inr parsed \<and> el_url_join (ea_lib A) parsed ''wpush/'' = Inr root \<and>
    el_url_join (ea_lib A) root (version @ ''/'' @ token) = Inr final \<and>
    ep = el_url_to_string (ea_lib A) final \<and>
    (case key of None \<Rightarrow> raw_key = None
       | Some k \<Rightarrow> \<exists>bs. b64_decode_url (ea_lib A) k = Inr bs \<and> raw_key = Some bs) \<and>
    lets_through A version token raw_key uaid chid \<and> version \<in> {''v1'', ''v2''} \<and>
    (\<exists>bs y. token = trim_eq (fst (el_fernet_encrypt (ea_lib A) bs y)))"
proof -
  from codec have f: "fernet_ok (ea_lib A) (ea_fernet_decrypt A)" "fernet_tokens (ea_lib A)"
    and ids: "\<And>u. length (uuid_bytes (ea_uuid A) u) = 16"
      "\<And>u. ea_uuid_from_slice A (uuid_bytes (ea_uuid A) u) = u"
    and sha: "\<And>bs h. el_sha256 (ea_lib A) bs = Inr h \<Longrightarrow> length h = 32"
    unfolding token_codec_ok_def by blast+
  let ?ids = "uuid_bytes (ea_uuid A) uaid @ uuid_bytes (ea_uuid A) chid"
  from made obtain parsed root where p: "el_url_parse (ea_lib A) url = Inr parsed"
      "el_url_join (ea_lib A) parsed ''wpush/'' = Inr root"
    by (auto simp: make_endpoint_def split: sum.splits)
  show ?thesis
  proof (cases key)
    case None
    obtain t x1 where t: "el_fernet_encrypt (ea_lib A) ?ids x = (t, x1)" by fastforce
    then have "\<exists>bs y. trim_eq t = trim_eq (fst (el_fernet_encrypt (ea_lib A) bs y))"
      by (intro exI [of _ "?ids"] exI [of _ x]) simp
    moreover from t made None p obtain final where "el_url_join (ea_lib A) root (''v1/'' @ trim_eq t) = Inr final"
        "ep = el_url_to_string (ea_lib A) final"
      by (auto simp: make_endpoint_def split: sum.splits)
    moreover have "lets_through A ''v1'' (trim_eq t) None uaid chid"
      using fernet_repad [OF f t] ids by (intro lets_throughI [where digest = "[]"]) simp_all
    ultimately show ?thesis using None p
      by (intro exI [of _ "''v1''"] exI [of _ "trim_eq t"] exI [of _ None] exI [of _ parsed]
          exI [of _ root] exI [of _ final]) simp
  next
    case (Some k)
    with made p obtain raw digest where k: "b64_decode_url (ea_lib A) k = Inr raw"
        "el_sha256 (ea_lib A) raw = Inr digest"
      by (auto simp: make_endpoint_def Let_def split: sum.splits)
    obtain t x1 where t: "el_fernet_encrypt (ea_lib A) (?ids @ digest) x = (t, x1)" by fastforce
    then have "\<exists>bs y. trim_eq t = trim_eq (fst (el_fernet_encrypt (ea_lib A) bs y))"
      by (intro exI [of _ "?ids @ digest"] exI [of _ x]) simp
    moreover from t made Some p k obtain final where "el_url_join (ea_lib A) root (''v2/'' @ trim_eq t) = Inr final"
        "ep = el_url_to_string (ea_lib A) final"
      by (auto simp: make_endpoint_def Let_def split: sum.splits)
    moreover have "lets_through A ''v2'' (trim_eq t) (Some raw) uaid chid"
      using fernet_repad [OF f t] ids k(2) sha [OF k(2)]
      by (intro lets_throughI [where digest = digest]) simp_all
    ultimately show ?thesis using Some p k
      by (intro exI [of _ "''v2''"] exI [of _ "trim_eq t"] exI [of _ "Some raw"] exI [of _ parsed]
          exI [of _ root] exI [of _ final]) simp
  qed
qed

lemma make_endpoint_opens:
  assumes codec: "token_codec_ok A"
    and made: "make_endpoint (ea_uuid A) (ea_lib A) uaid chid key url x = (Inr ep, x')"
  shows "\<exists>version token raw_key parsed root final.
    el_url_parse (ea_lib A) url = Inr parsed \<and> el_url_join (ea_lib A) parsed ''wpush/'' = Inr root \<and>
    el_url_join (ea_lib A) root (version @ ''/'' @ token) = Inr final \<and>
    ep = el_url_to_string (ea_lib A) final \<and>
    (case key of None \<Rightarrow> raw_key = None
       | Some k \<Rightarrow> \<exists>bs. b64_decode_url (ea_lib A) k = Inr bs \<and> raw_key = Some bs) \<and>
    lets_through A version token raw_key uaid chid"
  using make_endpoint_parts [OF assms] by blast

text \<open>The URL the connection server hands out for a channel opens exactly that
  channel at the endpoint server: it ends in a version and a token, and a push request with
  them reaches the user and the channel the URL was made for, without a VAPID key if none was
  registered and with the registered key, in whatever spelling that decodes to the same
  bytes, if one was.\<close>

theorem endpoint_opens_its_channel:
  assumes codec: "token_codec_ok A"
    and made: "make_endpoint (ea_uuid A) (ea_lib A) uaid chid key url x = (Inr ep, x')"
  shows "\<exists>version token raw_key parsed root final.
    el_url_parse (ea_lib A) url = Inr parsed \<and> el_url_join (ea_lib A) parsed ''wpush/'' = Inr root \<and>
    el_url_join (ea_lib A) root (version @ ''/'' @ token) = Inr final \<and>
    ep = el_url_to_string (ea_lib A) final \<and>
    (case key of None \<Rightarrow> raw_key = None
       | Some k \<Rightarrow> \<exists>bs. b64_decode_url (ea_lib A) k = Inr bs \<and> raw_key = Some bs) \<and>
    lets_through A version token raw_key uaid chid"
  using make_endpoint_opens [OF assms] .

section \<open>Witnesses\<close>

definition demo_push :: "string \<Rightarrow> string \<Rightarrow> (string \<times> bytes) list \<Rightarrow> http_request" where
  "demo_push version token hs = (header_list hs)\<lparr>rq_match_info :=
     (\<lambda>n. if n = ''api_version'' then Some version else if n = ''token'' then Some token else None)\<rparr>"

lemma demo_token_codec: "token_codec_ok demo_ep"
proof -
  have "fernet_tokens (ea_lib demo_ep)"
    unfolding fernet_tokens_def demo_ep_with_def demo_lib_def
    using demo_token_shape by (auto intro!: exI [of _ 0])
  moreover have "length h = 32" if "el_sha256 (ea_lib demo_ep) bs = Inr h" for bs h
    using that by (auto simp: demo_ep_with_def demo_lib_def)
  ultimately show ?thesis
    using demo_ep_codec(2) length_uuid_bytes_fixed uuid_of_u8s_fixed unfolding token_codec_ok_def
    by (simp add: demo_ep_with_def)
qed

theorem endpoint_opens_its_channel_witness:
  "\<exists>version token raw_key. raw_key = Some (as_bytes ''BAkey'') \<and> lets_through demo_ep version token raw_key 5 6"
proof -
  obtain ep where "make_endpoint (ea_uuid demo_ep) (ea_lib demo_ep) 5 6 (Some ''BAkey'') ''https://push/'' demo_ep_store =
      (Inr ep, demo_ep_store)"
    by (simp add: make_endpoint_def demo_ep_with_def demo_lib_def b64_decode_url_def Let_def)
  from endpoint_opens_its_channel [OF demo_token_codec this] show ?thesis
    by (auto simp: demo_ep_with_def demo_lib_def b64_decode_url_def trim_end_eq_def as_bytes_def)
qed

definition demo_v2_token :: string where
  "demo_v2_token = demo_token (uuid_bytes fixed_uuids 5 @ uuid_bytes fixed_uuids 6 @
     take 32 (as_bytes ''BAkey'' @ replicate 32 0))"

definition demo_v2_vapid :: vapid_header_with_key where
  "demo_v2_vapid = \<lparr>vk_vapid = \<lparr>vh_scheme = ''vapid'', vh_token = ''jwt'',
      vh_version_data = VapidVersion2 ''BAkey''\<rparr>, vk_public_key = ''BAkey''\<rparr>"

definition demo_v2_request :: http_request where
  "demo_v2_request = demo_push ''v2'' demo_v2_token [(''authorization'', ''vapid t=jwt,k=BAkey'')]"

lemma demo_v2_info:
  "token_info_from_request demo_v2_request x =
     (Inr \<lparr>ti_api_version = Version2, ti_token = demo_v2_token, ti_crypto_key_header = None,
           ti_auth_header = Some ''vapid t=jwt,k=BAkey''\<rparr>, x)"
  by (simp add: token_info_from_request_def demo_v2_request_def demo_push_def header_list_def
      api_version_from_str_def get_owned_header_def get_header_def header_to_str_def)

lemma demo_v2_vapid_of:
  "vapid_of_request \<lparr>ti_api_version = v, ti_token = t, ti_crypto_key_header = None,
     ti_auth_header = Some ''vapid t=jwt,k=BAkey''\<rparr> = Inr (Some demo_v2_vapid)"
  by (simp add: vapid_of_request_def parse_vapid_def vapid_parse_def to_lowercase_def lower_char_def
      ALLOWED_SCHEMES_def split_key_value_def extract_public_key_def demo_v2_vapid_def)

lemma demo_v2_let_through:
  "subscription_from_request demo_ep demo_v2_request demo_ep_store =
     (Inr \<lparr>su_user = demo_ep_user, su_channel_id = 6, su_vapid = Some demo_v2_vapid\<rparr>, demo_ep_store)"
proof -
  have l: "lets_through demo_ep ''v2'' demo_v2_token (Some (as_bytes ''BAkey'')) 5 6"
  proof (rule lets_throughI)
    have "repad_base64 demo_v2_token = demo_v2_token"
      using demo_token_shape by (simp add: repad_base64_def demo_v2_token_def dvd_eq_mod_eq_0)
    then show "ea_fernet_decrypt demo_ep (repad_base64 demo_v2_token) =
        Some (uuid_bytes (ea_uuid demo_ep) 5 @ uuid_bytes (ea_uuid demo_ep) 6 @
          take 32 (as_bytes ''BAkey'' @ replicate 32 0))"
      by (simp add: demo_v2_token_def demo_ep_with_def demo_untoken_token)
  qed (auto simp: demo_ep_with_def demo_lib_def length_uuid_bytes_fixed uuid_of_u8s_fixed)
  have u: "validate_user demo_ep demo_ep_user 6 demo_ep_store = (Inr WebPush, demo_ep_store)"
    by (simp add: validate_user_def router_type_from_str_def demo_ep_user_def to_lowercase_def lower_char_def
        validate_webpush_user_def demo_ep_with_def mem_client_def mem_channels_of_def demo_ep_store_def Let_def)
  have c: "check_vapid demo_ep (Some demo_v2_vapid) demo_ep_store = (Inr (), demo_ep_store)"
    by (simp add: check_vapid_def settings_endpoint_url_def demo_ep_with_def demo_ep_settings_def demo_lib_def
        validate_vapid_jwt_def decode_public_key_def demo_v2_vapid_def b64_decode_url_def demo_claims_def
        fixed_sys_def ONE_DAY_IN_SECONDS_def incr_step_def Let_def)
  have m: "rq_match_info demo_v2_request ''api_version'' = Some ''v2''"
    "rq_match_info demo_v2_request ''token'' = Some demo_v2_token"
    by (simp_all add: demo_v2_request_def demo_push_def)
  have k: "decode_public_key demo_ep (vk_public_key demo_v2_vapid) = Inr (as_bytes ''BAkey'')"
    by (simp add: decode_public_key_def demo_v2_vapid_def demo_ep_with_def demo_lib_def b64_decode_url_def
        trim_end_eq_def)
  have g: "db_get_user (ea_db demo_ep) 5 demo_ep_store = (Inr (Some demo_ep_user), demo_ep_store)"
    by (simp add: demo_ep_with_def mem_client_def demo_ep_store_def)
  show ?thesis
    using k by (intro lets_throughD [OF l m demo_v2_info demo_v2_vapid_of _ g u c]) simp
qed


end
