(* ===== verification/EpNotification.thy ===== *)
theory EpNotification
  imports Subscription
begin

text \<open>
  Notifications as the endpoint server handles them:
  \<open>autoendpoint/src/extractors/notification.rs\<close>, with the form stored in the database and
  the form delivered to a connection server, which that server reads back with the
  \<open>Deserialize\<close> derived in \<open>autopush-common/src/notification.rs\<close>.
\<close>

record ep_notification =
  en_message_id :: string
  en_subscription :: ep_subscription
  en_headers :: ep_headers
  en_timestamp :: u64
  en_sort_key_timestamp :: u64
  en_data :: "string option"

abbreviation en_user :: "ep_notification \<Rightarrow> user" where
  "en_user n \<equiv> su_user (en_subscription n)"

definition ep_into_notification :: "ep_notification \<Rightarrow> notification" where
  "ep_into_notification n =
     (let headers = ep_headers_into_hashmap (en_headers n); topic = eh_topic (en_headers n) in
      \<lparr>n_channel_id = su_channel_id (en_subscription n), n_version = en_message_id n,
       n_ttl = of_int (eh_ttl (en_headers n)), n_topic = topic, n_timestamp = en_timestamp n,
       n_data = en_data n,
       n_sortkey_timestamp = (if topic = None then Some (en_sort_key_timestamp n) else None),
       n_headers = (if headers = [] then None else Some headers)\<rparr>)"

definition message_id_of :: "uuid \<Rightarrow> uuid \<Rightarrow> string option \<Rightarrow> u64 \<Rightarrow> message_id" where
  "message_id_of uaid chid topic timestamp = (case topic of
       Some t \<Rightarrow> WithTopic uaid chid t
     | None \<Rightarrow> WithoutTopic uaid chid timestamp)"

definition generate_message_id ::
  "('u, 'x) ep_app \<Rightarrow> uuid \<Rightarrow> uuid \<Rightarrow> string option \<Rightarrow> u64 \<Rightarrow> 'x \<Rightarrow> string \<times> 'x" where
  "generate_message_id A uaid chid topic timestamp x =
     message_id_encrypt (ea_uuid A) (ea_lib A) (message_id_of uaid chid topic timestamp) x"

text \<open>The part of the extractor after the checks.\<close>

definition build_notification ::
  "('u, 'x) ep_app \<Rightarrow> ep_subscription \<Rightarrow> ep_headers \<Rightarrow> string option \<Rightarrow> 'x \<Rightarrow> ep_notification \<times> 'x" where
  "build_notification A sub headers data x =
     (let (timestamp, x1) = sys_now_sec (ea_sys A) x;
          (sort_key_timestamp, x2) = sys_now_ms (ea_sys A) x1;
          (message_id, x3) = generate_message_id A (u_uaid (su_user sub)) (su_channel_id sub)
            (eh_topic headers) sort_key_timestamp x2
      in (\<lparr>en_message_id = message_id, en_subscription = sub, en_headers = headers,
           en_timestamp = timestamp, en_sort_key_timestamp = sort_key_timestamp,
           en_data = data\<rparr>, x3))"

definition notification_from_request ::
  "('u, 'x) ep_app \<Rightarrow> http_request \<Rightarrow> 'x \<Rightarrow> (api_fail, ep_notification, 'x) outcome" where
  "notification_from_request A rq x =
     andThen (subscription_from_request A rq x) (\<lambda>sub x.
     andThen (pure_step (case rq_body rq of Inl e \<Rightarrow> Inl (ApiPayloadError e) | Inr bs \<Rightarrow> Inr bs) x) (\<lambda>body x.
     (let data = (if body = [] then None else Some (ea_b64_url_no_pad_encode A body)) in
      andThen (pure_step (headers_from_request (ea_rx A) rq (data \<noteq> None)) x) (\<lambda>headers x.
        ok_step (build_notification A sub headers data x)))))"

definition serialize_for_delivery ::
  "('u, 'x) ep_app \<Rightarrow> ep_notification \<Rightarrow> (string \<times> json) list" where
  "serialize_for_delivery A n =
     [(''channelID'', JStr (uuid_hyphenated (ea_uuid A) (su_channel_id (en_subscription n)))),
      (''version'', JStr (en_message_id n)),
      (''ttl'', JInt (eh_ttl (en_headers n))),
      (''topic'', json_opt_str (eh_topic (en_headers n))),
      (''timestamp'', JInt (uint (en_timestamp n)))] @
     (case en_data n of
        None \<Rightarrow> []
      | Some data \<Rightarrow>
          [(''data'', JStr data),
           (''headers'', JObj (map (\<lambda>(k, v). (k, JStr v)) (ep_headers_into_hashmap (en_headers n))))])"

section \<open>The connection server's side\<close>

text \<open>The derived \<open>Deserialize\<close>: a missing TTL is 0, missing options are \<open>None\<close>.\<close>

definition json_u64 :: "json \<Rightarrow> u64 option" where
  "json_u64 j = (case j of JInt i \<Rightarrow> (if 0 \<le> i \<and> i < 2 ^ 64 then Some (of_int i) else None) | _ \<Rightarrow> None)"

definition json_opt :: "(json \<Rightarrow> 'a option) \<Rightarrow> json option \<Rightarrow> 'a option option" where
  "json_opt f j = (case j of None \<Rightarrow> Some None | Some JNull \<Rightarrow> Some None | Some v \<Rightarrow> map_option Some (f v))"

fun json_string_pairs :: "(string \<times> json) list \<Rightarrow> (string \<times> string) list option" where
  "json_string_pairs [] = Some []"
| "json_string_pairs ((k, v) # kvs) =
     (case json_as_str v of None \<Rightarrow> None | Some s \<Rightarrow> map_option (\<lambda>ps. (k, s) # ps) (json_string_pairs kvs))"

definition json_string_map :: "json \<Rightarrow> (string, string) hashmap option" where
  "json_string_map j = (case j of
       JObj kvs \<Rightarrow> map_option (hm_extend []) (json_string_pairs kvs)
     | _ \<Rightarrow> None)"

definition notification_from_json :: "uuid_lib \<Rightarrow> (string \<times> json) list \<Rightarrow> notification option" where
  "notification_from_json lib m =
     (case Option.bind (Option.bind (map_of m ''channelID'') json_as_str) (uuid_parse lib) of
        None \<Rightarrow> None
      | Some channel_id \<Rightarrow>
     (case Option.bind (map_of m ''version'') json_as_str of
        None \<Rightarrow> None
      | Some version \<Rightarrow>
     (case (case map_of m ''ttl'' of None \<Rightarrow> Some 0 | Some j \<Rightarrow> json_u64 j) of
        None \<Rightarrow> None
      | Some ttl \<Rightarrow>
     (case json_opt json_as_str (map_of m ''topic'') of
        None \<Rightarrow> None
      | Some topic \<Rightarrow>
     (case Option.bind (map_of m ''timestamp'') json_u64 of
        None \<Rightarrow> None
      | Some timestamp \<Rightarrow>
     (case json_opt json_as_str (map_of m ''data'') of
        None \<Rightarrow> None
      | Some data \<Rightarrow>
     (case json_opt json_u64 (map_of m ''sortkey_timestamp'') of
        None \<Rightarrow> None
      | Some sortkey \<Rightarrow>
     (case json_opt json_string_map (map_of m ''headers'') of
        None \<Rightarrow> None
      | Some headers \<Rightarrow>
          Some \<lparr>n_channel_id = channel_id, n_version = version, n_ttl = ttl, n_topic = topic,
                n_timestamp = timestamp, n_data = data, n_sortkey_timestamp = sortkey,
                n_headers = headers\<rparr>))))))))"

text \<open>
  A notification as a connected session receives it: as the one that would be stored, without
  a sort key, and with a header table, perhaps empty, exactly when it has data.
\<close>

definition delivered_form :: "ep_notification \<Rightarrow> notification" where
  "delivered_form n =
     (ep_into_notification n)\<lparr>n_sortkey_timestamp := None,
       n_headers := (if en_data n = None then None
                     else Some (ep_headers_into_hashmap (en_headers n)))\<rparr>"

lemma json_string_pairs_map [simp]: "json_string_pairs (map (\<lambda>(k, v). (k, JStr v)) m) = Some m"
  by (induction m) (auto simp: json_as_str_def)

lemma hm_insert_new: "k \<notin> fst ` set m \<Longrightarrow> hm_insert k v m = m @ [(k, v)]"
  by (induction m) auto

lemma hm_extend_distinct:
  "hm_wf (m @ kvs) \<Longrightarrow> hm_extend m kvs = m @ kvs"
  by (induction m kvs rule: hm_extend.induct) (auto simp: hm_insert_new)

lemma ep_headers_wf: "hm_wf (ep_headers_into_hashmap h)"
  by (simp add: ep_headers_into_hashmap_def insert_opt_def distinct_update split: option.splits)

lemma delivery_roundtrip:
  assumes lib: "uuid_lib_ok (ea_uuid A)" and ttl: "0 \<le> eh_ttl (en_headers n)" "eh_ttl (en_headers n) \<le> EP_MAX_TTL"
  shows "notification_from_json (ea_uuid A) (serialize_for_delivery A n) = Some (delivered_form n)"
proof -
  have ts: "json_u64 (JInt (uint (en_timestamp n))) = Some (en_timestamp n)"
    using uint_bounded [of "en_timestamp n"] by (simp add: json_u64_def)
  have tt: "json_u64 (JInt (eh_ttl (en_headers n))) = Some (of_int (eh_ttl (en_headers n)))"
    using ttl by (simp add: json_u64_def EP_MAX_TTL_def)
  have hd: "json_string_map (JObj (map (\<lambda>(k, v). (k, JStr v)) (ep_headers_into_hashmap h))) =
      Some (ep_headers_into_hashmap h)" for h
    using hm_extend_distinct [of "[]" "ep_headers_into_hashmap h"] ep_headers_wf
    by (simp add: json_string_map_def)
  have id: "uuid_parse (ea_uuid A) (uuid_hyphenated (ea_uuid A) u) = Some u" for u
    using uuid_hyphenated_props [OF lib] by simp
  show ?thesis
    by (cases "eh_topic (en_headers n)"; cases "en_data n")
      (simp_all add: notification_from_json_def serialize_for_delivery_def json_as_str_def id ts tt hd
        json_opt_def json_opt_str_def delivered_form_def ep_into_notification_def Let_def)
qed

section \<open>What an extracted notification satisfies\<close>

lemma notification_from_request_Inr:
  assumes "notification_from_request A rq x = (Inr n, x')"
  shows "0 \<le> eh_ttl (en_headers n)" "eh_ttl (en_headers n) \<le> EP_MAX_TTL"
    and "eh_topic (en_headers n) = Some t \<Longrightarrow> rx_is_match (ea_rx A) VALID_BASE64_URL t"
    and "\<exists>y. en_message_id n = fst (message_id_encrypt (ea_uuid A) (ea_lib A)
           (message_id_of (u_uaid (en_user n)) (su_channel_id (en_subscription n))
             (eh_topic (en_headers n)) (en_sort_key_timestamp n)) y)"
    and "\<exists>y. en_sort_key_timestamp n = fst (sys_now_ms (ea_sys A) y)"
proof -
  let ?ms = "\<lambda>s. sys_now_ms (ea_sys A) (snd (sys_now_sec (ea_sys A) s))"
  from assms obtain sub d headers data s where h: "headers_from_request (ea_rx A) rq d = Inr headers"
    and built: "build_notification A sub headers data s = (n, x')"
    by (auto simp: notification_from_request_def andThen_Inr_iff Let_def)
  from built have n: "n = \<lparr>en_message_id = fst (generate_message_id A (u_uaid (su_user sub)) (su_channel_id sub)
          (eh_topic headers) (fst (?ms s)) (snd (?ms s))),
        en_subscription = sub, en_headers = headers, en_timestamp = fst (sys_now_sec (ea_sys A) s),
        en_sort_key_timestamp = fst (?ms s), en_data = data\<rparr>"
    by (simp add: build_notification_def Let_def case_prod_beta)
  from h obtain a where a: "eh_ttl headers = min a EP_MAX_TTL" "headers_validate (ea_rx A) headers = Inr ()"
    by (auto simp: headers_from_request_def Let_def split: option.splits if_splits sum.splits)
  then show "0 \<le> eh_ttl (en_headers n)" "eh_ttl (en_headers n) \<le> EP_MAX_TTL"
    "eh_topic (en_headers n) = Some t \<Longrightarrow> rx_is_match (ea_rx A) VALID_BASE64_URL t"
    unfolding n by (auto simp: headers_validate_def Let_def split: if_splits)
  show "\<exists>y. en_message_id n = fst (message_id_encrypt (ea_uuid A) (ea_lib A)
           (message_id_of (u_uaid (en_user n)) (su_channel_id (en_subscription n))
             (eh_topic (en_headers n)) (en_sort_key_timestamp n)) y)"
    unfolding n generate_message_id_def ep_notification.simps by blast
  show "\<exists>y. en_sort_key_timestamp n = fst (sys_now_ms (ea_sys A) y)"
    unfolding n ep_notification.simps by blast
qed

end
