(* ===== verification/WebPushRouter.thy ===== *)
theory WebPushRouter
  imports EpNotification
begin

text \<open>
  Routing a notification to a desktop client: \<open>autoendpoint/src/routers/webpush.rs\<close> with
  \<open>RouterResponse\<close> of \<open>routers/mod.rs\<close>. The HTTP calls to the connection server are the
  parameter \<open>ea_http_put\<close>. The theorems say that a notification that was answered with
  success is with the connection server or in storage, and what a TTL of zero means.
\<close>

section \<open>Responses\<close>

record router_response =
  rr_status :: nat
  rr_headers :: "(string, string) hashmap"
  rr_body :: "string option"

definition router_response_success :: "string \<Rightarrow> nat \<Rightarrow> router_response" where
  "router_response_success location ttl =
     \<lparr>rr_status = 200, rr_headers = [(''Location'', location), (''TTL'', show_nat ttl)], rr_body = None\<rparr>"

definition router_response_into_reply :: "router_response \<Rightarrow> reply" where
  "router_response_into_reply r =
     \<lparr>rp_status = rr_status r, rp_headers = rr_headers r,
      rp_body = TextBody (case rr_body r of None \<Rightarrow> [] | Some b \<Rightarrow> b)\<rparr>"

text \<open>\<open>i64::to_string\<close>.\<close>

definition show_int :: "int \<Rightarrow> string" where
  "show_int i = (if i < 0 then CHR ''-'' # show_nat (nat (- i)) else show_nat (nat i))"

definition message_location :: "('u, 'x) ep_app \<Rightarrow> 'u \<Rightarrow> ep_notification \<Rightarrow> string + string" where
  "message_location A endpoint_url n =
     (case el_url_join (ea_lib A) endpoint_url (''/m/'' @ en_message_id n) of
        Inl _ \<Rightarrow> Inl ''Message ID is not URL-safe''
      | Inr u \<Rightarrow> Inr (el_url_to_string (ea_lib A) u))"

definition make_response ::
  "('u, 'x) ep_app \<Rightarrow> 'u \<Rightarrow> ep_notification \<Rightarrow> nat \<Rightarrow> 'x \<Rightarrow> (api_fail, router_response, 'x) outcome" where
  "make_response A endpoint_url n status x =
     andThen (panic_step (message_location A endpoint_url n) x) (\<lambda>location x.
       (Inr \<lparr>rr_status = status,
             rr_headers = [(''Location'', location), (''TTL'', show_int (eh_ttl (en_headers n)))],
             rr_body = None\<rparr>, x))"

definition make_delivered_response where
  "make_delivered_response A endpoint_url n x = make_response A endpoint_url n 201 x"

definition make_stored_response where
  "make_stored_response A endpoint_url n x = make_response A endpoint_url n 201 x"

section \<open>Calls\<close>

definition send_notification ::
  "('u, 'x) ep_app \<Rightarrow> ep_notification \<Rightarrow> string \<Rightarrow> 'x \<Rightarrow> (reqwest_error + nat) \<times> 'x" where
  "send_notification A n node_id x =
     ea_http_put A (node_id @ ''/push/'' @ uuid_hyphenated (ea_uuid A) (u_uaid (en_user n)))
       (Some (serialize_for_delivery A n)) x"

definition trigger_notification_check ::
  "('u, 'x) ep_app \<Rightarrow> uuid \<Rightarrow> string \<Rightarrow> 'x \<Rightarrow> (reqwest_error + nat) \<times> 'x" where
  "trigger_notification_check A uaid node_id x =
     ea_http_put A (node_id @ ''/notif/'' @ uuid_hyphenated (ea_uuid A) uaid) None x"

definition store_notification ::
  "('u, 'x) ep_app \<Rightarrow> ep_notification \<Rightarrow> 'x \<Rightarrow> (api_fail, unit, 'x) outcome" where
  "store_notification A n x =
     mapErr (\<lambda>e. Fail (ApiRouter (SaveDb e)))
       (db_save_message (ea_db A) (u_uaid (en_user n)) (ep_into_notification n) x)"

definition remove_node_id ::
  "('u, 'x) ep_app \<Rightarrow> user \<Rightarrow> string \<Rightarrow> 'x \<Rightarrow> (api_fail, unit, 'x) outcome" where
  "remove_node_id A user node_id x =
     andThen (db_step (db_remove_node_id (ea_db A) (u_uaid user) node_id (u_connected_at user) (u_version user) x))
       (\<lambda>removed x. (Inr (), x))"

section \<open>Routing\<close>

text \<open>The first attempt: a response when the node took the notification.\<close>

definition node_error ::
  "('u, 'x) ep_app \<Rightarrow> user \<Rightarrow> string \<Rightarrow> reqwest_error \<Rightarrow> 'x \<Rightarrow> (api_fail, unit, 'x) outcome" where
  "node_error A user node_id e x =
     andThen (if re_is_timeout e then incr_step A ''error.node.timeout'' x else (Inr (), x)) (\<lambda>_ x.
     andThen (if re_is_connect e then incr_step A ''error.node.connect'' x else (Inr (), x)) (\<lambda>_ x.
       remove_node_id A user node_id x))"

definition try_direct ::
  "('u, 'x) ep_app \<Rightarrow> 'u \<Rightarrow> ep_notification \<Rightarrow> 'x \<Rightarrow> (api_fail, router_response option, 'x) outcome" where
  "try_direct A endpoint_url n x =
     (case u_node_id (en_user n) of
        None \<Rightarrow> (Inr None, x)
      | Some node_id \<Rightarrow>
          (case send_notification A n node_id x of
             (Inr status, x1) \<Rightarrow>
               if status = 200
               then andThen (make_delivered_response A endpoint_url n x1) (\<lambda>r x. (Inr (Some r), x))
               else (Inr None, x1)
           | (Inl e, x1) \<Rightarrow>
               andThen (node_error A (en_user n) node_id e x1) (\<lambda>_ x. (Inr None, x))))"

text \<open>After the notification was stored: the user may have connected meanwhile.\<close>

definition notify_node ::
  "('u, 'x) ep_app \<Rightarrow> 'u \<Rightarrow> ep_notification \<Rightarrow> 'x \<Rightarrow> (api_fail, router_response, 'x) outcome" where
  "notify_node A endpoint_url n x =
     (case db_get_user (ea_db A) (u_uaid (en_user n)) x of
        (Inr None, x1) \<Rightarrow> fail (ApiRouter UserWasDeleted) x1
      | (Inl _, x1) \<Rightarrow> make_stored_response A endpoint_url n x1
      | (Inr (Some user), x1) \<Rightarrow>
          (case u_node_id user of
             None \<Rightarrow> make_stored_response A endpoint_url n x1
           | Some node_id \<Rightarrow>
               (case trigger_notification_check A (u_uaid user) node_id x1 of
                  (Inr status, x2) \<Rightarrow>
                    if status = 200 then make_delivered_response A endpoint_url n x2
                    else make_stored_response A endpoint_url n x2
                | (Inl _, x2) \<Rightarrow>
                    andThen (remove_node_id A user node_id x2)
                      (\<lambda>_ x. make_stored_response A endpoint_url n x))))"

definition webpush_route_notification ::
  "('u, 'x) ep_app \<Rightarrow> 'u \<Rightarrow> ep_notification \<Rightarrow> 'x \<Rightarrow> (api_fail, router_response, 'x) outcome" where
  "webpush_route_notification A endpoint_url n x =
     andThen (try_direct A endpoint_url n x) (\<lambda>direct x.
     case direct of
       Some r \<Rightarrow> (Inr r, x)
     | None \<Rightarrow>
         if eh_ttl (en_headers n) = 0 then make_delivered_response A endpoint_url n x
         else andThen (store_notification A n x) (\<lambda>_ x. notify_node A endpoint_url n x))"

section \<open>No accepted notification is lost\<close>

text \<open>
  \<open>stored uaid n x\<close> says that storage has the message \<open>n\<close> of the user. What the router relies
  on: a successful save stores, and neither reading a user, nor removing a node id, nor
  telling a node to look takes a message away.
\<close>

definition keeps_stored :: "('u, 'x) ep_app \<Rightarrow> (uuid \<Rightarrow> notification \<Rightarrow> 'x \<Rightarrow> bool) \<Rightarrow> bool" where
  "keeps_stored A stored \<longleftrightarrow>
     (\<forall>u n x x'. db_save_message (ea_db A) u n x = (Inr (), x') \<longrightarrow> stored u n x') \<and>
     (\<forall>u n x v. stored u n x \<longrightarrow> stored u n (snd (db_get_user (ea_db A) v x))) \<and>
     (\<forall>u n x v node c ver. stored u n x \<longrightarrow> stored u n (snd (db_remove_node_id (ea_db A) v node c ver x))) \<and>
     (\<forall>u n x url. stored u n x \<longrightarrow> stored u n (snd (ea_http_put A url None x)))"

lemma keeps_storedD:
  assumes "keeps_stored A stored"
  shows "db_save_message (ea_db A) u n x = (Inr (), x') \<Longrightarrow> stored u n x'"
    and "stored u n x \<Longrightarrow> db_get_user (ea_db A) v x = (r1, x') \<Longrightarrow> stored u n x'"
    and "stored u n x \<Longrightarrow> db_remove_node_id (ea_db A) v node c ver x = (r2, x') \<Longrightarrow> stored u n x'"
    and "stored u n x \<Longrightarrow> ea_http_put A url None x = (r3, x') \<Longrightarrow> stored u n x'"
  using assms unfolding keeps_stored_def by (metis snd_conv)+

lemma make_response_Inr:
  "make_response A eu n st x = (Inr r, x') \<longleftrightarrow>
     x' = x \<and> (\<exists>loc. message_location A eu n = Inr loc \<and>
       r = \<lparr>rr_status = st, rr_headers = [(''Location'', loc), (''TTL'', show_int (eh_ttl (en_headers n)))],
            rr_body = None\<rparr>)"
  by (auto simp: make_response_def andThen_Inr_iff)

lemmas responses = make_delivered_response_def make_stored_response_def

lemma notify_node_keeps:
  assumes k: "keeps_stored A stored" and s: "stored u m x"
    and r: "notify_node A eu n x = (Inr resp, x')"
  shows "stored u m x' \<and> make_response A eu n 201 x' = (Inr resp, x')"
proof -
  obtain got x1 where g: "db_get_user (ea_db A) (u_uaid (en_user n)) x = (got, x1)" by fastforce
  note s1 = keeps_storedD(2) [OF k s g]
  show ?thesis
  proof (cases "\<exists>user node. got = Inr (Some user) \<and> u_node_id user = Some node")
    case False
    with r g s1 show ?thesis
      by (auto simp: notify_node_def responses make_response_Inr split: sum.splits option.splits)
  next
    case True
    then obtain user node where user: "got = Inr (Some user)" "u_node_id user = Some node" by blast
    obtain st x2 where t: "trigger_notification_check A (u_uaid user) node x1 = (st, x2)" by fastforce
    then have s2: "stored u m x2"
      using keeps_storedD(4) [OF k s1] by (simp add: trigger_notification_check_def)
    show ?thesis
    proof (cases st)
      case (Inr status)
      with r g user t s2 show ?thesis
        by (auto simp: notify_node_def responses make_response_Inr split: if_splits)
    next
      case (Inl e)
      with r g user t obtain x3 where "remove_node_id A user node x2 = (Inr (), x3)"
          and m: "make_response A eu n 201 x3 = (Inr resp, x')"
        by (auto simp: notify_node_def responses andThen_Inr_iff)
      with keeps_storedD(3) [OF k s2] have "stored u m x3"
        by (auto simp: remove_node_id_def andThen_Inr_iff)
      with m show ?thesis by (simp add: make_response_Inr)
    qed
  qed
qed


section \<open>A TTL of zero\<close>

lemma zero_ttl_route:
  assumes "eh_ttl (en_headers n) = 0"
  shows "webpush_route_notification A eu n x =
    andThen (try_direct A eu n x) (\<lambda>d x. case d of
        Some r \<Rightarrow> (Inr r, x) | None \<Rightarrow> make_response A eu n 201 x)"
  using assms by (simp add: webpush_route_notification_def make_delivered_response_def cong: option.case_cong)

lemma db_frame [frame_simps]:
  "make_response (A\<lparr>ea_db := db\<rparr>) eu n st y = make_response A eu n st y"
  "send_notification (A\<lparr>ea_db := db\<rparr>) n node y = send_notification A n node y"
  "incr_step (A\<lparr>ea_db := db\<rparr>) name y = incr_step A name y"
proof -
  have "message_location (A\<lparr>ea_db := db\<rparr>) eu n = message_location A eu n"
    by (simp add: message_location_def cong: sum.case_cong)
  then show "make_response (A\<lparr>ea_db := db\<rparr>) eu n st y = make_response A eu n st y"
    by (simp add: make_response_def)
qed (simp_all add: send_notification_def incr_step_def serialize_for_delivery_def)

lemma node_error_frame [frame_simps]:
  "db_remove_node_id db = db_remove_node_id (ea_db A) \<Longrightarrow>
     node_error (A\<lparr>ea_db := db\<rparr>) user node e y = node_error A user node e y"
  by (simp add: node_error_def remove_node_id_def frame_simps)

text \<open>A notification with a TTL of zero is delivered at once or dropped: routing it
  never reads or writes a message in storage and never asks for the user again, whatever the
  database would do, and unless the node cannot be reached the database is not used at all.\<close>

theorem zero_ttl_never_stored:
  assumes ttl: "eh_ttl (en_headers n) = 0"
    and same: "db_remove_node_id db = db_remove_node_id (ea_db A) \<or>
      (\<forall>node e x1. u_node_id (en_user n) = Some node \<longrightarrow> send_notification A n node x \<noteq> (Inl e, x1))"
  shows "webpush_route_notification (A\<lparr>ea_db := db\<rparr>) eu n x = webpush_route_notification A eu n x"
proof -
  have "try_direct (A\<lparr>ea_db := db\<rparr>) eu n x = try_direct A eu n x"
  proof (cases "u_node_id (en_user n)")
    case None
    then show ?thesis by (simp add: try_direct_def)
  next
    case (Some node)
    obtain st x1 where s: "send_notification A n node x = (st, x1)" by fastforce
    with Some same show ?thesis
      by (cases st) (auto simp: try_direct_def make_delivered_response_def frame_simps)
  qed
  then show ?thesis by (simp add: zero_ttl_route [OF ttl] frame_simps cong: option.case_cong)
qed

section \<open>Witnesses\<close>

definition demo_sub :: ep_subscription where
  "demo_sub = \<lparr>su_user = demo_ep_user, su_channel_id = 6, su_vapid = None\<rparr>"

definition demo_push_notification :: "int \<Rightarrow> ep_notification" where
  "demo_push_notification ttl =
     \<lparr>en_message_id = ''mid'', en_subscription = demo_sub,
      en_headers = \<lparr>eh_ttl = ttl, eh_topic = None, eh_encoding = None, eh_encryption = None,
        eh_encryption_key = None, eh_crypto_key = None\<rparr>,
      en_timestamp = 1000, en_sort_key_timestamp = 1000000, en_data = None\<rparr>"

text \<open>The store has the message, but perhaps for its sort key.\<close>

definition mem_stored :: "uuid \<Rightarrow> notification \<Rightarrow> mem_db \<Rightarrow> bool" where
  "mem_stored u n m \<longleftrightarrow>
     (\<exists>k n'. hm_get (m_messages m) (u, k) = Some n' \<and>
        n'\<lparr>n_sortkey_timestamp := None\<rparr> = n\<lparr>n_sortkey_timestamp := None\<rparr>)"

lemma demo_keeps_stored: "keeps_stored demo_ep mem_stored"
proof -
  have frame: "snd (db_remove_node_id (ea_db demo_ep) v node c ver m) = m' \<Longrightarrow> m_messages m' = m_messages m"
    for v node c ver and m m' :: mem_db
    by (auto simp: demo_ep_with_def mem_client_def in_world_def Let_def split: option.splits if_splits)
  have keep: "m_messages m' = m_messages m \<Longrightarrow> mem_stored u n m \<Longrightarrow> mem_stored u n m'" for u n m m'
    by (simp add: mem_stored_def)
  have save: "mem_stored u n m'" if "db_save_message (ea_db demo_ep) u n m = (Inr (), m')" for u n m m'
  proof -
    obtain k m1 where k: "chidmessageid fixed_uuids (fixed_sys 1000) n m = (k, m1)" by fastforce
    have "hm_get (m_messages m') (u, k) \<noteq> None \<and>
        (the (hm_get (m_messages m') (u, k)))\<lparr>n_sortkey_timestamp := None\<rparr> = n\<lparr>n_sortkey_timestamp := None\<rparr>"
      using that by (auto simp: demo_ep_with_def mem_client_def mem_save_message_def k Let_def)
    then show ?thesis unfolding mem_stored_def by (metis option.collapse)
  qed
  have "snd (db_get_user (ea_db demo_ep) v m) = m" "snd (ea_http_put demo_ep url b m) = m" for v url b m
    by (simp_all add: demo_ep_with_def mem_client_def)
  then show ?thesis
    unfolding keeps_stored_def using save keep [OF frame [OF refl]] by simp
qed

lemma demo_push_fields [simp]:
  "su_user (en_subscription (demo_push_notification t)) = demo_ep_user"
  "eh_ttl (en_headers (demo_push_notification t)) = t" "en_message_id (demo_push_notification t) = ''mid''"
  "u_uaid demo_ep_user = 5" "u_node_id demo_ep_user = Some ''http://node''"
  by (simp_all add: demo_push_notification_def demo_sub_def demo_ep_user_def)

lemma demo_key: "chidmessageid fixed_uuids sys (ep_into_notification (demo_push_notification t)) m =
    (standard_key fixed_uuids 1000000 6, m)"
  by (subst chidmessageid_standard [where ts = 1000000])
    (simp_all add: ep_into_notification_def demo_push_notification_def demo_sub_def Let_def)

definition demo_saved :: mem_db where
  "demo_saved = mem_save_message fixed_uuids (fixed_sys 1000) (\<lambda>m. m) (\<lambda>m _. m) 5
     (ep_into_notification (demo_push_notification 60)) demo_ep_store"

lemma demo_saved_users: "m_users demo_saved = m_users demo_ep_store"
  by (simp add: demo_saved_def mem_save_message_def demo_key)

lemma demo_unreachable:
  "\<exists>resp. webpush_route_notification demo_ep ''https://push'' (demo_push_notification 60) demo_ep_store =
     (Inr resp, demo_saved)"
proof -
  have put: "ea_http_put demo_ep url b m = (Inr 404, m)" for url b m by (simp add: demo_ep_with_def)
  have resp: "\<exists>r. make_response demo_ep ''https://push'' (demo_push_notification 60) 201 m = (Inr r, m)" for m
    by (simp add: make_response_def message_location_def demo_ep_with_def demo_lib_def)
  have get: "db_get_user (ea_db demo_ep) 5 demo_saved = (Inr (Some demo_ep_user), demo_saved)"
    by (simp add: demo_ep_with_def mem_client_def demo_saved_users demo_ep_store_def)
  have save: "store_notification demo_ep (demo_push_notification 60) demo_ep_store = (Inr (), demo_saved)"
    by (simp add: store_notification_def demo_saved_def demo_ep_with_def mem_client_def)
  show ?thesis
    using resp by (simp add: webpush_route_notification_def try_direct_def send_notification_def put save
      notify_node_def get trigger_notification_check_def responses)
qed


theorem zero_ttl_never_stored_witness:
  "webpush_route_notification (demo_ep\<lparr>ea_db := (ea_db demo_ep)\<lparr>db_save_message := (\<lambda>u n m. (Inl Conditional, m))\<rparr>\<rparr>)
     ''https://push'' (demo_push_notification 0) demo_ep_store =
   webpush_route_notification demo_ep ''https://push'' (demo_push_notification 0) demo_ep_store"
  by (rule zero_ttl_never_stored) simp_all

end
