(* ===== verification/Bridges.thy ===== *)
theory Bridges
  imports WebPushRouter
begin

text \<open>
  What the three mobile bridges share: \<open>routers/common.rs\<close>, \<open>RouterDataInput\<close> and the trait
  \<open>Router\<close> of \<open>routers/mod.rs\<close>, and the router for Firebase,
  \<open>routers/fcm/{settings,client,router}.rs\<close>. OAuth, the file system, JSON decoding and the
  HTTP client are parameters.
\<close>

section \<open>Common parts\<close>

record router_data_input =
  ri_token :: string
  ri_channel_id :: "uuid option"
  ri_key :: "string option"
  ri_aps :: "string option"

text \<open>A reply of a bridge: its status, and its body or why it could not be read.\<close>

record http_response =
  hr_status :: nat
  hr_body :: "string + u8 list"

definition build_message_data :: "('u, 'x) ep_app \<Rightarrow> ep_notification \<Rightarrow> (string, string) hashmap" where
  "build_message_data A n =
     (let m = [(''chid'', uuid_hyphenated (ea_uuid A) (su_channel_id (en_subscription n)))]; h = en_headers n in
      case en_data n of
        None \<Rightarrow> m
      | Some data \<Rightarrow>
          insert_opt ''enckey'' (eh_encryption_key h)
            (insert_opt ''cryptokey'' (eh_crypto_key h)
              (insert_opt ''enc'' (eh_encryption h)
                (insert_opt ''con'' (eh_encoding h) (hm_insert ''body'' data m)))))"

definition json_of_strings :: "(string, string) hashmap \<Rightarrow> json" where
  "json_of_strings m = JObj (map (\<lambda>(k, v). (k, JStr v)) m)"

definition message_size_check :: "string \<Rightarrow> nat \<Rightarrow> router_error + unit" where
  "message_size_check data max_data =
     (if length data > max_data then Inl (TooMuchData (length data - max_data)) else Inr ())"

text \<open>\<open>handle_error\<close>: a recipient the bridge no longer knows is removed.\<close>

definition handle_error :: "('u, 'x) ep_app \<Rightarrow> router_error \<Rightarrow> uuid \<Rightarrow> 'x \<Rightarrow> api_fail \<times> 'x" where
  "handle_error A e uaid x =
     (case e of
        RNotFound \<Rightarrow> (Fail (ApiRouter e), snd (db_remove_user (ea_db A) uaid x))
      | _ \<Rightarrow> (Fail (ApiRouter e), x))"

text \<open>A call to a bridge and what becomes of its error.\<close>

definition bridge_call ::
  "('u, 'x) ep_app \<Rightarrow> uuid \<Rightarrow> (api_fail + router_error + 'a) \<times> 'x \<Rightarrow> (api_fail, 'a, 'x) outcome" where
  "bridge_call A uaid r = (case r of
       (Inl p, x) \<Rightarrow> (Inl p, x)
     | (Inr (Inl e), x) \<Rightarrow> (let (f, x1) = handle_error A e uaid x in (Inl f, x1))
     | (Inr (Inr v), x) \<Rightarrow> (Inr v, x))"

definition bridge_success ::
  "('u, 'x) ep_app \<Rightarrow> 'u \<Rightarrow> ep_notification \<Rightarrow> 'x \<Rightarrow> (api_fail, router_response, 'x) outcome" where
  "bridge_success A endpoint_url n x =
     andThen (panic_step (message_location A endpoint_url n) x) (\<lambda>location x.
       (Inr (router_response_success location (nat (eh_ttl (en_headers n)))), x))"

text \<open>Router data are JSON text by key.\<close>

definition router_datum :: "('u, 'x) ep_app \<Rightarrow> (string, string) hashmap \<Rightarrow> string \<Rightarrow> json option" where
  "router_datum A data key = map_option (ea_json_value A) (hm_get data key)"

definition router_str :: "('u, 'x) ep_app \<Rightarrow> (string, string) hashmap \<Rightarrow> string \<Rightarrow> string option" where
  "router_str A data key = Option.bind (router_datum A data key) json_as_str"

section \<open>Firebase Cloud Messaging\<close>

record fcm_settings =
  fs_min_ttl :: nat
  fs_server_credentials :: string
  fs_max_data :: nat
  fs_base_url :: string
  fs_timeout :: nat

record fcm_credential =
  fk_project_id :: string
  fk_is_gcm :: "bool option"
  fk_server_access_token :: string

text \<open>
  \<open>'k\<close> is a service account key and \<open>'a\<close> an authenticator: parsing a key, building an
  authenticator, asking it for a token, reading files, posting, decoding an error reply into
  the status and message it may hold, and the credentials of the settings.
\<close>

record ('k, 'a, 'x) fcm_lib =
  fl_key_from_str :: "string \<Rightarrow> string + 'k"
  fl_build :: "'k \<Rightarrow> 'x \<Rightarrow> (string + 'a) \<times> 'x"
  fl_exists :: "string \<Rightarrow> 'x \<Rightarrow> bool"
  fl_read :: "string \<Rightarrow> 'x \<Rightarrow> string + string"
  fl_join :: "string \<Rightarrow> string \<Rightarrow> string + string"
  fl_token :: "'a \<Rightarrow> 'x \<Rightarrow> (string + string option) \<times> 'x"
  fl_post :: "string \<Rightarrow> string \<Rightarrow> json \<Rightarrow> nat \<Rightarrow> 'x \<Rightarrow> (reqwest_error + http_response) \<times> 'x"
  fl_response :: "u8 list \<Rightarrow> string + (string \<times> string) option"
  fl_utf8_error :: "u8 list \<Rightarrow> string"
  fl_credentials :: "string \<Rightarrow> string + (string \<times> fcm_credential) list"

record 'a fcm_client =
  fc_endpoint :: string
  fc_timeout :: nat
  fc_max_data :: nat
  fc_authenticator :: "'a option"
  fc_is_gcm :: bool

definition fcm_authenticator ::
  "('k, 'a, 'x) fcm_lib \<Rightarrow> string \<Rightarrow> 'x \<Rightarrow> (string, 'a option, 'x) outcome" where
  "fcm_authenticator L json x =
     (case fl_key_from_str L json of
        Inl e \<Rightarrow> (Inl e, x)
      | Inr key \<Rightarrow> andThen (fl_build L key x) (\<lambda>a x. (Inr (Some a), x)))"

text \<open>The outer error is the panic of \<open>expect("Project ID is not URL-safe")\<close>.\<close>

definition fcm_client_new ::
  "('k, 'a, 'x) fcm_lib \<Rightarrow> fcm_settings \<Rightarrow> fcm_credential \<Rightarrow> 'x \<Rightarrow>
     (api_fail + string, 'a fcm_client, 'x) outcome" where
  "fcm_client_new L st cred x =
     andThen
       (mapErr Inr
         (if CHR 0x7B \<in> set (fk_server_access_token cred)
          then fcm_authenticator L (fk_server_access_token cred) x
          else if fl_exists L (fk_server_access_token cred) x
          then (case fl_read L (fk_server_access_token cred) x of
                  Inl e \<Rightarrow> (Inl e, x)
                | Inr content \<Rightarrow> fcm_authenticator L content x)
          else (Inr None, x)))
       (\<lambda>auth x.
         case fl_join L (fs_base_url st) (''v1/projects/'' @ fk_project_id cred @ ''/messages:send'') of
           Inl _ \<Rightarrow> (Inl (Inl (Panic ''Project ID is not URL-safe'')), x)
         | Inr endpoint \<Rightarrow>
             (Inr \<lparr>fc_endpoint = endpoint, fc_timeout = fs_timeout st, fc_max_data = fs_max_data st,
                   fc_authenticator = auth,
                   fc_is_gcm = (case fk_is_gcm cred of Some b \<Rightarrow> b | None \<Rightarrow> False)\<rparr>, x))"

definition fcm_error_of :: "('k, 'a, 'x) fcm_lib \<Rightarrow> (nat \<Rightarrow> string) \<Rightarrow> http_response \<Rightarrow> router_error" where
  "fcm_error_of L show_status r =
     (case hr_body r of
        Inl e \<Rightarrow> RFcm (FcmDeserializeResponse e)
      | Inr raw_data \<Rightarrow>
          if raw_data = [] then RFcm (EmptyResponse (hr_status r))
          else
            (case fl_response L raw_data of
               Inl e \<Rightarrow> RFcm (InvalidResponse e
                   (case from_utf8 (of_bytes raw_data) of Some s \<Rightarrow> s | None \<Rightarrow> fl_utf8_error L raw_data)
                   (hr_status r))
             | Inr err \<Rightarrow>
                 if hr_status r = 401 then RAuthentication
                 else if hr_status r = 404 then RNotFound
                 else (case err of
                         Some (st, msg) \<Rightarrow> Upstream st msg
                       | None \<Rightarrow> Upstream (show_status (hr_status r)) ''Unknown reason'')))"

text \<open>\<open>send\<close> returns a router error, or panics: \<open>authenticator.as_ref().unwrap()\<close>.\<close>

definition fcm_send ::
  "('u, 'x) ep_app \<Rightarrow> ('k, 'a, 'x) fcm_lib \<Rightarrow> (nat \<Rightarrow> string) \<Rightarrow> 'a fcm_client \<Rightarrow>
     (string, string) hashmap \<Rightarrow> string \<Rightarrow> nat \<Rightarrow> 'x \<Rightarrow> (api_fail + router_error + unit) \<times> 'x" where
  "fcm_send A L show_status c data routing_token ttl x =
     (case message_size_check (ea_json_text A (json_of_strings data)) (fc_max_data c) of
        Inl e \<Rightarrow> (Inr (Inl e), x)
      | Inr _ \<Rightarrow>
          (let message = JObj [(''message'', JObj [(''token'', JStr routing_token),
                 (''android'', JObj [(''ttl'', JStr (show_nat ttl @ ''s'')), (''data'', json_of_strings data)])])]
           in case fc_authenticator c of
                None \<Rightarrow> (Inl (Panic ''called Option::unwrap() on a None value''), x)
              | Some auth \<Rightarrow>
                  (case fl_token L auth x of
                     (Inl e, x1) \<Rightarrow> (Inr (Inl (RFcm (OAuthToken e))), x1)
                   | (Inr None, x1) \<Rightarrow> (Inr (Inl (RFcm NoOAuthToken)), x1)
                   | (Inr (Some token), x1) \<Rightarrow>
                       (case fl_post L (fc_endpoint c) (''Bearer '' @ token) message (fc_timeout c) x1 of
                          (Inl e, x2) \<Rightarrow>
                            (Inr (Inl (if re_is_timeout e then RequestTimeout else RConnect e)), x2)
                        | (Inr r, x2) \<Rightarrow>
                            if 400 \<le> hr_status r \<and> hr_status r < 600
                            then (Inr (Inl (fcm_error_of L show_status r)), x2)
                            else (Inr (Inr ()), x2)))))"

definition FCM_MAX_TTL :: nat where "FCM_MAX_TTL = 28 * 24 * 60 * 60"

record ('k, 'a, 'x) fcm_router =
  fr_settings :: fcm_settings
  fr_clients :: "(string, 'a fcm_client) hashmap"
  fr_lib :: "('k, 'a, 'x) fcm_lib"

fun fcm_create_clients ::
  "('k, 'a, 'x) fcm_lib \<Rightarrow> fcm_settings \<Rightarrow> (string \<times> fcm_credential) list \<Rightarrow> (string, 'a fcm_client) hashmap \<Rightarrow> 'x \<Rightarrow>
     (api_fail + string, (string, 'a fcm_client) hashmap, 'x) outcome" where
  "fcm_create_clients L st [] clients x = (Inr clients, x)"
| "fcm_create_clients L st ((profile, cred) # creds) clients x =
     andThen (fcm_client_new L st cred x) (\<lambda>c x. fcm_create_clients L st creds (hm_insert profile c clients) x)"

definition fcm_router_new ::
  "('k, 'a, 'x) fcm_lib \<Rightarrow> fcm_settings \<Rightarrow> 'x \<Rightarrow> (api_fail, ('k, 'a, 'x) fcm_router, 'x) outcome" where
  "fcm_router_new L st x =
     (case fl_credentials L (fs_server_credentials st) of
        Inl e \<Rightarrow> fail (ApiRouter (RFcm (CredentialDecode e))) x
      | Inr creds \<Rightarrow>
          andThen
            (mapErr (case_sum (\<lambda>p. p) (\<lambda>e. Fail (ApiRouter (RFcm (OAuthClientBuild e)))))
              (fcm_create_clients L st creds [] x))
            (\<lambda>clients x. (Inr \<lparr>fr_settings = st, fr_clients = clients, fr_lib = L\<rparr>, x)))"

definition fcm_active :: "('k, 'a, 'x) fcm_router \<Rightarrow> bool" where
  "fcm_active R \<longleftrightarrow> fr_clients R \<noteq> []"

definition fcm_routing_info ::
  "('u, 'x) ep_app \<Rightarrow> (string, string) hashmap \<Rightarrow> fcm_error + string \<times> string" where
  "fcm_routing_info A data =
     (let creds = Option.bind (router_datum A data ''creds'') json_as_object in
      case router_str A data ''token'' of
        None \<Rightarrow> Inl NoRegistrationToken
      | Some routing_token \<Rightarrow>
          (case router_str A data ''app_id'' of
             Some app_id \<Rightarrow> Inr (routing_token, app_id)
           | None \<Rightarrow>
               (case creds of
                  None \<Rightarrow> Inl NoAppId
                | Some cs \<Rightarrow>
                    (case Option.bind (map_of cs ''senderID'') json_as_str of
                       Some v \<Rightarrow> Inr (routing_token, v)
                     | None \<Rightarrow> Inl NoAppId))))"

definition fcm_register ::
  "('u, 'x) ep_app \<Rightarrow> ('k, 'a, 'x) fcm_router \<Rightarrow> router_data_input \<Rightarrow> string \<Rightarrow>
     router_error + (string, string) hashmap" where
  "fcm_register A R inp app_id =
     (if hm_get (fr_clients R) app_id = None then Inl (RFcm (InvalidAppId app_id))
      else Inr (hm_insert ''app_id'' (ea_json_text A (JStr app_id))
             [(''token'', ea_json_text A (JStr (ri_token inp)))]))"

definition fcm_ttl :: "('k, 'a, 'x) fcm_router \<Rightarrow> ep_notification \<Rightarrow> nat" where
  "fcm_ttl R n = min FCM_MAX_TTL (max (fs_min_ttl (fr_settings R)) (nat (eh_ttl (en_headers n))))"

definition fcm_route_notification ::
  "('u, 'x) ep_app \<Rightarrow> 'u \<Rightarrow> (nat \<Rightarrow> string) \<Rightarrow> ('k, 'a, 'x) fcm_router \<Rightarrow> ep_notification \<Rightarrow> 'x \<Rightarrow>
     (api_fail, router_response, 'x) outcome" where
  "fcm_route_notification A endpoint_url show_status R n x =
     (case u_router_data (en_user n) of
        None \<Rightarrow> fail (ApiRouter (RFcm NoRegistrationToken)) x
      | Some router_data \<Rightarrow>
          (case fcm_routing_info A router_data of
             Inl e \<Rightarrow> fail (ApiRouter (RFcm e)) x
           | Inr (routing_token, app_id) \<Rightarrow>
               (case hm_get (fr_clients R) app_id of
                  None \<Rightarrow> fail (ApiRouter (RFcm (InvalidAppId app_id))) x
                | Some client \<Rightarrow>
                    andThen
                      (bridge_call A (u_uaid (en_user n))
                        (fcm_send A (fr_lib R) show_status client (build_message_data A n) routing_token
                          (fcm_ttl R n) x))
                      (\<lambda>_ x. bridge_success A endpoint_url n x))))"

section \<open>What a bridge promises\<close>

text \<open>
  A bridge reports that a recipient is gone with the error \<open>gone\<close>, and only after it has
  asked the database to remove the user.
\<close>

definition removal_of :: "('u, 'x) ep_app \<Rightarrow> uuid \<Rightarrow> 'x \<Rightarrow> bool" where
  "removal_of A uaid x' \<longleftrightarrow> (\<exists>x. x' = snd (db_remove_user (ea_db A) uaid x))"

locale bridge =
  fixes A :: "('u, 'x) ep_app"
    and route :: "ep_notification \<Rightarrow> 'x \<Rightarrow> (api_fail, router_response, 'x) outcome"
    and gone :: router_error
  assumes gone_removes: "route n x = (Inl (Fail (ApiRouter gone)), x') \<Longrightarrow> removal_of A (u_uaid (en_user n)) x'"
    and success: "route n x = (Inr resp, x') \<Longrightarrow>
      rr_status resp = 200 \<and> hm_get (rr_headers resp) ''TTL'' = Some (show_nat (nat (eh_ttl (en_headers n))))"
begin

lemma forgets:
  assumes "\<And>u x. \<not> known u (snd (db_remove_user (ea_db A) u x))"
    and "route n x = (Inl (Fail (ApiRouter gone)), x')"
  shows "\<not> known (u_uaid (en_user n)) x'"
  using gone_removes [OF assms(2)] assms(1) by (auto simp: removal_of_def)

end

lemma bridge_call_Inr [simp]: "bridge_call A u r = (Inr v, x) \<longleftrightarrow> r = (Inr (Inr v), x)"
  by (cases r) (auto simp: bridge_call_def handle_error_def split: sum.splits router_error.splits)

lemma bridge_call_gone:
  assumes "bridge_call A u r = (Inl (Fail (ApiRouter RNotFound)), x)" and "fst r \<noteq> Inl (Fail (ApiRouter RNotFound))"
  shows "removal_of A u x"
  using assms
  by (cases r) (auto simp: bridge_call_def handle_error_def removal_of_def
      split: sum.splits router_error.splits)

lemma bridge_success_Inr:
  "bridge_success A eu n x = (Inr resp, x') \<Longrightarrow>
     x' = x \<and> rr_status resp = 200 \<and> hm_get (rr_headers resp) ''TTL'' = Some (show_nat (nat (eh_ttl (en_headers n))))"
  by (auto simp: bridge_success_def andThen_Inr_iff router_response_success_def)

lemma bridge_success_Inl:
  "bridge_success A eu n x \<noteq> (Inl (Fail e), x')"
  by (auto simp: bridge_success_def andThen_Inl_iff panic_step_def split: sum.splits)

lemma fcm_send_panics: "fst (fcm_send A L show c data t ttl x) = Inl p \<Longrightarrow> \<exists>msg. p = Panic msg"
  by (auto simp: fcm_send_def Let_def split: sum.splits option.splits prod.splits if_splits)

interpretation fcm: bridge A "fcm_route_notification A eu show R" RNotFound for A eu "show" R
proof unfold_locales
  fix n x x'
  assume "fcm_route_notification A eu show R n x = (Inl (Fail (ApiRouter RNotFound)), x')"
  then obtain c data t ttl where
      b: "bridge_call A (u_uaid (en_user n)) (fcm_send A (fr_lib R) show c data t ttl x) =
        (Inl (Fail (ApiRouter RNotFound)), x')"
    by (auto simp: fcm_route_notification_def andThen_Inl_iff bridge_success_Inl
        split: option.splits sum.splits)
  moreover have "fst (fcm_send A (fr_lib R) show c data t ttl x) \<noteq> Inl (Fail (ApiRouter RNotFound))"
    using fcm_send_panics by fastforce
  ultimately show "removal_of A (u_uaid (en_user n)) x'" by (rule bridge_call_gone)
next
  fix n x resp x'
  assume "fcm_route_notification A eu show R n x = (Inr resp, x')"
  then obtain x1 where "bridge_success A eu n x1 = (Inr resp, x')"
    by (auto simp: fcm_route_notification_def andThen_Inr_iff split: option.splits sum.splits)
  from bridge_success_Inr [OF this] show
    "rr_status resp = 200 \<and> hm_get (rr_headers resp) ''TTL'' = Some (show_nat (nat (eh_ttl (en_headers n))))"
    by simp
qed

section \<open>Firebase\<close>

text \<open>The message Firebase gets, and what it says of a notification.\<close>

definition fcm_message :: "string \<Rightarrow> nat \<Rightarrow> (string, string) hashmap \<Rightarrow> json" where
  "fcm_message routing_token ttl msg_data =
     JObj [(''message'', JObj [(''token'', JStr routing_token),
       (''android'', JObj [(''ttl'', JStr (show_nat ttl @ ''s'')), (''data'', json_of_strings msg_data)])])]"

definition notification_field :: "('u, 'x) ep_app \<Rightarrow> ep_notification \<Rightarrow> string \<Rightarrow> string option" where
  "notification_field A n key =
     (if key = ''chid'' then Some (uuid_hyphenated (ea_uuid A) (su_channel_id (en_subscription n)))
      else if en_data n = None then None
      else if key = ''body'' then en_data n
      else if key = ''con'' then eh_encoding (en_headers n)
      else if key = ''enc'' then eh_encryption (en_headers n)
      else if key = ''cryptokey'' then eh_crypto_key (en_headers n)
      else if key = ''enckey'' then eh_encryption_key (en_headers n)
      else None)"

lemma hm_get_insert_opt_at:
  "hm_get (insert_opt k v m) j = (if j = k \<and> v \<noteq> None then v else hm_get m j)"
  by (simp add: insert_opt_def split: option.splits)

lemma build_message_data_fields: "hm_get (build_message_data A n) = notification_field A n"
proof
  show "hm_get (build_message_data A n) key = notification_field A n key" for key
  proof (cases "en_data n")
    case None
    then show ?thesis by (simp add: build_message_data_def notification_field_def)
  next
    case (Some d)
    show ?thesis
      by (simp add: build_message_data_def notification_field_def Some Let_def hm_get_insert_opt_at
          del: hm_get_insert_opt)
  qed
qed

lemma fcm_routing_info_Inr:
  assumes "fcm_routing_info A data = Inr (token, app_id)"
  shows "router_str A data ''token'' = Some token"
    "case router_str A data ''app_id'' of Some i \<Rightarrow> i = app_id
     | None \<Rightarrow> \<exists>creds. Option.bind (router_datum A data ''creds'') json_as_object = Some creds \<and>
         Option.bind (map_of creds ''senderID'') json_as_str = Some app_id"
  using assms by (auto simp: fcm_routing_info_def Let_def split: option.splits)

text \<open>Claim C40. When a notification routed over Firebase is answered with success, exactly one
  message was posted for it and answered with neither a client nor a server error. It is
  addressed to the registration token in the user's record and goes through the client of the
  application in that record (or of the sender in its credentials), under an access token. Its
  data are the channel and, with a body, the body and the encryption headers, no larger than
  the limit; its life is the TTL of the notification, but no shorter than the configured
  minimum and no longer than 28 days.\<close>

theorem fcm_success_means_accepted:
  assumes route: "fcm_route_notification A eu show_status R n x = (Inr resp, x')"
  shows "\<exists>data token app_id client auth access msg_data x1 r.
    u_router_data (en_user n) = Some data \<and> router_str A data ''token'' = Some token \<and>
    (case router_str A data ''app_id'' of Some i \<Rightarrow> i = app_id
     | None \<Rightarrow> \<exists>creds. Option.bind (router_datum A data ''creds'') json_as_object = Some creds \<and>
         Option.bind (map_of creds ''senderID'') json_as_str = Some app_id) \<and>
    hm_get (fr_clients R) app_id = Some client \<and> fc_authenticator client = Some auth \<and>
    fl_token (fr_lib R) auth x = (Inr (Some access), x1) \<and>
    hm_get msg_data = notification_field A n \<and> length (ea_json_text A (json_of_strings msg_data)) \<le> fc_max_data client \<and>
    fl_post (fr_lib R) (fc_endpoint client) (''Bearer '' @ access)
      (fcm_message token (min (28 * 24 * 60 * 60) (max (fs_min_ttl (fr_settings R)) (nat (eh_ttl (en_headers n))))) msg_data)
      (fc_timeout client) x1 = (Inr r, x') \<and>
    \<not> (400 \<le> hr_status r \<and> hr_status r < 600)"
proof -
  from route obtain data token app_id client x2 where
      d: "u_router_data (en_user n) = Some data" "fcm_routing_info A data = Inr (token, app_id)"
        "hm_get (fr_clients R) app_id = Some client"
    and s: "fcm_send A (fr_lib R) show_status client (build_message_data A n) token (fcm_ttl R n) x = (Inr (Inr ()), x2)"
    and f: "bridge_success A eu n x2 = (Inr resp, x')"
    by (auto simp: fcm_route_notification_def andThen_Inr_iff split: option.splits sum.splits prod.splits)
  from bridge_success_Inr [OF f] have x2: "x2 = x'" by simp
  from s obtain auth access x1 r where
      "fc_authenticator client = Some auth" "fl_token (fr_lib R) auth x = (Inr (Some access), x1)"
      "length (ea_json_text A (json_of_strings (build_message_data A n))) \<le> fc_max_data client"
      "fl_post (fr_lib R) (fc_endpoint client) (''Bearer '' @ access) (fcm_message token (fcm_ttl R n) (build_message_data A n))
        (fc_timeout client) x1 = (Inr r, x')"
      "\<not> (400 \<le> hr_status r \<and> hr_status r < 600)"
    unfolding x2
    by (auto simp: fcm_send_def fcm_message_def message_size_check_def Let_def not_less
        split: sum.splits option.splits prod.splits if_splits)
  note sent = this [unfolded fcm_ttl_def FCM_MAX_TTL_def]
  show ?thesis
    by (rule exI [of _ data], rule exI [of _ token], rule exI [of _ app_id], rule exI [of _ client], rule exI [of _ auth],
        rule exI [of _ access], rule exI [of _ "build_message_data A n"], rule exI [of _ x1], rule exI [of _ r])
      (intro conjI d(1) d(3) fcm_routing_info_Inr [OF d(2)] build_message_data_fields sent)
qed

text \<open>The JSON reader and writer agree on strings.\<close>

definition json_text_ok :: "('u, 'x) ep_app \<Rightarrow> bool" where
  "json_text_ok A \<longleftrightarrow> (\<forall>s. ea_json_value A (ea_json_text A (JStr s)) = JStr s)"

lemma json_text_ok_str [simp]: "json_text_ok A \<Longrightarrow> ea_json_value A (ea_json_text A (JStr s)) = JStr s"
  unfolding json_text_ok_def by blast

lemma fcm_registered_routing:
  assumes "json_text_ok A" and "fcm_register A R inp app_id = Inr data"
  shows "fcm_routing_info A data = Inr (ri_token inp, app_id)"
  using assms by (auto simp: fcm_register_def fcm_routing_info_def router_str_def router_datum_def
      json_as_str_def split: if_splits)

text \<open>A credential that is neither a JSON key nor the path of one is taken for an old
  GCM key: the client is built without an authenticator and the application counts as known.
  Users can then register for it, but every notification of acceptable size for such a user
  panics in the router instead of being answered.\<close>

theorem fcm_gcm_credential_panics:
  assumes json: "json_text_ok A"
    and cred: "CHR 0x7B \<notin> set (fk_server_access_token cred)" "\<not> fl_exists (fr_lib R) (fk_server_access_token cred) y"
    and built: "fcm_client_new (fr_lib R) (fr_settings R) cred y = (Inr client, y')"
    and known: "hm_get (fr_clients R) app_id = Some client"
    and user: "u_router_data (en_user n) = Some data" "fcm_register A R inp app_id = Inr data"
    and small: "length (ea_json_text A (json_of_strings (build_message_data A n))) \<le> fs_max_data (fr_settings R)"
  shows "(\<exists>d. fcm_register A R other app_id = Inr d) \<and>
    fcm_route_notification A eu show_status R n x = (Inl (Panic ''called Option::unwrap() on a None value''), x)"
proof -
  have c: "fc_authenticator client = None" "fc_max_data client = fs_max_data (fr_settings R)"
    using built cred by (auto simp: fcm_client_new_def split: sum.splits)
  have "fcm_routing_info A data = Inr (ri_token inp, app_id)"
    by (rule fcm_registered_routing [OF json user(2)])
  with c known user(1) small show ?thesis
    by (simp add: fcm_route_notification_def fcm_register_def fcm_send_def message_size_check_def
        bridge_call_def Let_def)
qed

section \<open>Witnesses\<close>

definition demo_fcm_lib :: "(string, string, mem_db) fcm_lib" where
  "demo_fcm_lib =
     \<lparr>fl_key_from_str = Inr, fl_build = (\<lambda>k x. (Inr k, x)), fl_exists = (\<lambda>p x. False),
      fl_read = (\<lambda>p x. Inl ''no file''), fl_join = (\<lambda>u s. Inr (u @ s)),
      fl_token = (\<lambda>a x. (Inr (Some a), x)),
      fl_post = (\<lambda>url auth body timeout x. (Inr \<lparr>hr_status = 200, hr_body = Inr []\<rparr>, x)),
      fl_response = (\<lambda>bs. Inr None), fl_utf8_error = (\<lambda>bs. []), fl_credentials = (\<lambda>s. Inr [])\<rparr>"

definition demo_fcm_settings :: fcm_settings where
  "demo_fcm_settings = \<lparr>fs_min_ttl = 60, fs_server_credentials = ''{}'', fs_max_data = 4096,
     fs_base_url = ''https://fcm/'', fs_timeout = 3\<rparr>"

definition demo_fcm_client :: "string option \<Rightarrow> string fcm_client" where
  "demo_fcm_client auth = \<lparr>fc_endpoint = ''https://fcm/v1/projects/p/messages:send'', fc_timeout = 3,
     fc_max_data = 4096, fc_authenticator = auth, fc_is_gcm = False\<rparr>"

definition demo_fcm_router :: "string option \<Rightarrow> (string, string, mem_db) fcm_router" where
  "demo_fcm_router auth = \<lparr>fr_settings = demo_fcm_settings, fr_clients = [(''app'', demo_fcm_client auth)],
     fr_lib = demo_fcm_lib\<rparr>"

definition demo_fcm_data :: "(string, string) hashmap" where
  "demo_fcm_data = [(''token'', ''token-1''), (''app_id'', ''app'')]"

definition demo_fcm_push :: ep_notification where
  "demo_fcm_push = (demo_push_notification 30)\<lparr>en_subscription := demo_sub\<lparr>su_user :=
     demo_ep_user\<lparr>u_router_data := Some demo_fcm_data\<rparr>\<rparr>\<rparr>"

lemma demo_json: "json_text_ok demo_ep"
  by (simp add: json_text_ok_def demo_ep_with_def)

lemma demo_fcm_registered: "fcm_register demo_ep (demo_fcm_router auth)
    \<lparr>ri_token = ''token-1'', ri_channel_id = None, ri_key = None, ri_aps = None\<rparr> ''app'' = Inr demo_fcm_data"
  by (simp add: fcm_register_def demo_fcm_router_def demo_ep_with_def demo_fcm_data_def)

theorem fcm_success_means_accepted_witness:
  "\<exists>resp x1 r msg_data. fcm_route_notification demo_ep ''https://push'' show_nat (demo_fcm_router (Some ''key'')) demo_fcm_push
      demo_ep_store = (Inr resp, demo_ep_store) \<and>
     fl_post demo_fcm_lib ''https://fcm/v1/projects/p/messages:send'' ''Bearer key'' (fcm_message ''token-1'' 60 msg_data) 3 x1 =
       (Inr r, demo_ep_store)"
proof -
  let ?R = "demo_fcm_router (Some ''key'')"
  have data: "u_router_data (en_user demo_fcm_push) = Some demo_fcm_data"
    by (simp add: demo_fcm_push_def)
  have info: "fcm_routing_info demo_ep demo_fcm_data = Inr (''token-1'', ''app'')"
    by (rule fcm_registered_routing [OF demo_json demo_fcm_registered, simplified])
  have strs: "router_str demo_ep demo_fcm_data ''token'' = Some ''token-1''" "router_str demo_ep demo_fcm_data ''app_id'' = Some ''app''"
    by (simp_all add: router_str_def router_datum_def demo_fcm_data_def demo_ep_with_def json_as_str_def)
  have "\<exists>resp. fcm_route_notification demo_ep ''https://push'' show_nat ?R demo_fcm_push demo_ep_store =
      (Inr resp, demo_ep_store)"
    by (simp add: fcm_route_notification_def data info)
      (simp add: demo_fcm_router_def demo_fcm_client_def fcm_send_def message_size_check_def json_of_strings_def demo_ep_with_def demo_fcm_lib_def bridge_call_def
        bridge_success_def message_location_def demo_lib_def Let_def)
  then obtain resp where r: "fcm_route_notification demo_ep ''https://push'' show_nat ?R demo_fcm_push demo_ep_store =
      (Inr resp, demo_ep_store)" by blast
  have clients: "hm_get (fr_clients ?R) i = Some c \<Longrightarrow> c = demo_fcm_client (Some ''key'')" for i c
    by (auto simp: demo_fcm_router_def split: if_splits)
  have ttl: "min (28 * 24 * 60 * 60) (max (fs_min_ttl (fr_settings ?R)) (nat (eh_ttl (en_headers demo_fcm_push)))) = 60"
    "fr_lib ?R = demo_fcm_lib"
    by (simp_all add: demo_fcm_router_def demo_fcm_settings_def demo_fcm_push_def demo_push_notification_def)
  have c: "fc_endpoint (demo_fcm_client a) = ''https://fcm/v1/projects/p/messages:send''" "fc_timeout (demo_fcm_client a) = 3"
    "fc_authenticator (demo_fcm_client a) = a" "fl_token demo_fcm_lib k y = (Inr (Some k), y)" for a k y
    by (simp_all add: demo_fcm_client_def demo_fcm_lib_def)
  from fcm_success_means_accepted [OF r, unfolded ttl data]
  obtain msg_data x1 resp' where "fl_post demo_fcm_lib ''https://fcm/v1/projects/p/messages:send'' ''Bearer key''
      (fcm_message ''token-1'' 60 msg_data) 3 x1 = (Inr resp', demo_ep_store)"
    by (auto dest!: clients simp: c strs)
  with r show ?thesis by blast
qed

theorem fcm_gcm_credential_panics_witness:
  "fcm_route_notification demo_ep ''https://push'' show_nat (demo_fcm_router None) demo_fcm_push demo_ep_store =
     (Inl (Panic ''called Option::unwrap() on a None value''), demo_ep_store)"
proof -
  let ?cred = "\<lparr>fk_project_id = ''p'', fk_is_gcm = None, fk_server_access_token = ''abcd0123457''\<rparr>"
  have built: "fcm_client_new (fr_lib (demo_fcm_router None)) (fr_settings (demo_fcm_router None)) ?cred demo_ep_store =
      (Inr (demo_fcm_client None), demo_ep_store)"
    by (simp add: fcm_client_new_def demo_fcm_router_def demo_fcm_lib_def demo_fcm_settings_def demo_fcm_client_def)
  have small: "length (ea_json_text demo_ep (json_of_strings (build_message_data demo_ep demo_fcm_push))) \<le>
      fs_max_data (fr_settings (demo_fcm_router None))"
    by (simp add: json_of_strings_def demo_ep_with_def demo_fcm_router_def demo_fcm_settings_def)
  show ?thesis
    using fcm_gcm_credential_panics [OF demo_json _ _ built _ _ demo_fcm_registered small]
    by (simp add: demo_fcm_router_def demo_fcm_lib_def demo_fcm_push_def)
qed

end
