(* ===== verification/Adm.thy ===== *)
theory Adm
  imports Bridges
begin

text \<open>
  Amazon Device Messaging: \<open>routers/adm/{settings,client,router}.rs\<close>. The cached access token
  of a profile, a mutex in the code, is a part of the world that the library functions
  \<open>al_token_info\<close> and \<open>al_set_token_info\<close> read and write. The theorems say when a token is
  taken from the cache and that a changed registration id reaches the user record.
\<close>

section \<open>Client\<close>

record adm_settings =
  as_profiles :: string
  as_max_data :: nat
  as_base_url :: string
  as_timeout :: nat
  as_min_ttl :: nat

record adm_profile =
  ap_client_id :: string
  ap_client_secret :: string

record adm_token_info =
  at_token :: string
  at_expiration_time :: u64

text \<open>
  Joining URLs, posting a form or a JSON text, decoding a token reply into token and lifetime,
  an error reply into its reason, a send reply into the registration id, and the profiles of
  the settings.
\<close>

record 'x adm_lib =
  al_join :: "string \<Rightarrow> string \<Rightarrow> string + string"
  al_post_form :: "string \<Rightarrow> (string \<times> string) list \<Rightarrow> 'x \<Rightarrow> (reqwest_error + http_response) \<times> 'x"
  al_post :: "string \<Rightarrow> (string \<times> string) list \<Rightarrow> string \<Rightarrow> nat \<Rightarrow> 'x \<Rightarrow> (reqwest_error + http_response) \<times> 'x"
  al_token_response :: "u8 list \<Rightarrow> string + string \<times> u64"
  al_error_response :: "u8 list \<Rightarrow> string + string option"
  al_send_response :: "u8 list \<Rightarrow> string + string"
  al_profiles :: "string \<Rightarrow> string + (string \<times> adm_profile) list"
  al_token_info :: "string \<Rightarrow> 'x \<Rightarrow> adm_token_info"
  al_set_token_info :: "string \<Rightarrow> adm_token_info \<Rightarrow> 'x \<Rightarrow> 'x"

text \<open>A client knows the name of its profile, under which its token is cached.\<close>

record adm_client =
  ac_name :: string
  ac_base_url :: string
  ac_profile :: adm_profile
  ac_timeout :: nat
  ac_max_data :: nat

definition adm_client_new :: "adm_settings \<Rightarrow> string \<Rightarrow> adm_profile \<Rightarrow> adm_client" where
  "adm_client_new st name profile =
     \<lparr>ac_name = name, ac_base_url = as_base_url st, ac_profile = profile, ac_timeout = as_timeout st,
      ac_max_data = as_max_data st\<rparr>"

text \<open>\<open>response.json()\<close>.\<close>

definition adm_json :: "(u8 list \<Rightarrow> string + 'a) \<Rightarrow> http_response \<Rightarrow> router_error + 'a" where
  "adm_json decode r =
     (case hr_body r of
        Inl e \<Rightarrow> Inl (RAdm (AdmDeserializeResponse e))
      | Inr bs \<Rightarrow> (case decode bs of Inl e \<Rightarrow> Inl (RAdm (AdmDeserializeResponse e)) | Inr v \<Rightarrow> Inr v))"

definition adm_token_form :: "adm_client \<Rightarrow> (string \<times> string) list" where
  "adm_token_form c =
     [(''grant_type'', ''client_credentials''), (''scope'', ''messaging:push''),
      (''client_id'', ap_client_id (ac_profile c)), (''client_secret'', ap_client_secret (ac_profile c))]"

definition adm_request_token ::
  "('u, 'x) ep_app \<Rightarrow> 'x adm_lib \<Rightarrow> (nat \<Rightarrow> string) \<Rightarrow> adm_client \<Rightarrow> 'x \<Rightarrow> (api_fail + router_error + string) \<times> 'x" where
  "adm_request_token A L show_status c x =
     (case al_join L (ac_base_url c) ''auth/O2/token'' of
        Inl _ \<Rightarrow> (Inl (Panic ''called Result::unwrap() on an Err value''), x)
      | Inr oauth_url \<Rightarrow>
          (case al_post_form L oauth_url (adm_token_form c) x of
             (Inl e, x1) \<Rightarrow> (Inr (Inl (RAdm (AdmHttp (re_text e)))), x1)
           | (Inr r, x1) \<Rightarrow>
               if hr_status r \<noteq> 200 then
                 (case adm_json (al_error_response L) r of
                    Inl e \<Rightarrow> (Inr (Inl e), x1)
                  | Inr reason \<Rightarrow>
                      (Inr (Inl (Upstream (show_status (hr_status r))
                         (case reason of Some m \<Rightarrow> m | None \<Rightarrow> ''Unknown reason''))), x1))
               else
                 (case adm_json (al_token_response L) r of
                    Inl e \<Rightarrow> (Inr (Inl e), x1)
                  | Inr (access_token, expires_in) \<Rightarrow>
                      (let (now, x2) = sys_now_sec (ea_sys A) x1 in
                       (Inr (Inr access_token),
                        al_set_token_info L (ac_name c)
                          \<lparr>at_token = access_token, at_expiration_time = now + expires_in\<rparr> x2)))))"

definition adm_get_access_token ::
  "('u, 'x) ep_app \<Rightarrow> 'x adm_lib \<Rightarrow> (nat \<Rightarrow> string) \<Rightarrow> adm_client \<Rightarrow> 'x \<Rightarrow> (api_fail + router_error + string) \<times> 'x" where
  "adm_get_access_token A L show_status c x =
     (let ti = al_token_info L (ac_name c) x; (now, x1) = sys_now_sec (ea_sys A) x in
      if at_expiration_time ti > now + 60 then (Inr (Inr (at_token ti)), x1)
      else adm_request_token A L show_status c x1)"

definition adm_send ::
  "('u, 'x) ep_app \<Rightarrow> 'x adm_lib \<Rightarrow> (nat \<Rightarrow> string) \<Rightarrow> adm_client \<Rightarrow> (string, string) hashmap \<Rightarrow> string \<Rightarrow> nat \<Rightarrow> 'x \<Rightarrow>
     (api_fail + router_error + string) \<times> 'x" where
  "adm_send A L show_status c data registration_id ttl x =
     (let message_json = ea_json_text A (JObj [(''data'', json_of_strings data), (''expiresAfter'', JInt (int ttl))]) in
      case message_size_check message_json (ac_max_data c) of
        Inl e \<Rightarrow> (Inr (Inl e), x)
      | Inr _ \<Rightarrow>
          (case adm_get_access_token A L show_status c x of
             (Inl p, x1) \<Rightarrow> (Inl p, x1)
           | (Inr (Inl e), x1) \<Rightarrow> (Inr (Inl e), x1)
           | (Inr (Inr access_token), x1) \<Rightarrow>
               (case al_join L (ac_base_url c) (''messaging/registrations/'' @ registration_id @ ''/messages'') of
                  Inl e \<Rightarrow> (Inr (Inl (RAdm (AdmParseUrl e))), x1)
                | Inr url \<Rightarrow>
                    (case al_post L url
                        [(''Authorization'', ''Bearer '' @ access_token), (''Content-Type'', ''application/json''),
                         (''Accept'', ''application/json''),
                         (''X-Amzn-Type-Version'', ''com.amazon.device.messaging.ADMMessage@1.0''),
                         (''X-Amzn-Accept-Type'', ''com.amazon.device.messaging.ADMSendResult@1.0'')]
                        message_json (ac_timeout c) x1 of
                       (Inl e, x2) \<Rightarrow> (Inr (Inl (if re_is_timeout e then RequestTimeout else RConnect e)), x2)
                     | (Inr r, x2) \<Rightarrow>
                         if hr_status r \<noteq> 200 then
                           (case adm_json (al_error_response L) r of
                              Inl e \<Rightarrow> (Inr (Inl e), x2)
                            | Inr reason \<Rightarrow>
                                (Inr (Inl
                                   (if hr_status r = 401 then RAuthentication
                                    else if hr_status r = 404 then RNotFound
                                    else Upstream (show_status (hr_status r))
                                      (case reason of Some m \<Rightarrow> m | None \<Rightarrow> ''Unknown reason''))), x2))
                         else (Inr (adm_json (al_send_response L) r), x2)))))"

section \<open>Router\<close>

definition ADM_MAX_TTL :: nat where "ADM_MAX_TTL = 2419200"

record 'x adm_router =
  ar_settings :: adm_settings
  ar_clients :: "(string, adm_client) hashmap"
  ar_lib :: "'x adm_lib"

definition adm_router_new :: "'x adm_lib \<Rightarrow> adm_settings \<Rightarrow> adm_error + 'x adm_router" where
  "adm_router_new L st =
     (case al_profiles L (as_profiles st) of
        Inl e \<Rightarrow> Inl (AdmProfileSettingsDecode e)
      | Inr profiles \<Rightarrow>
          Inr \<lparr>ar_settings = st,
               ar_clients = hm_extend [] (map (\<lambda>(name, profile). (name, adm_client_new st name profile)) profiles),
               ar_lib = L\<rparr>)"

definition adm_active :: "'x adm_router \<Rightarrow> bool" where
  "adm_active R \<longleftrightarrow> ar_clients R \<noteq> []"

definition adm_register ::
  "('u, 'x) ep_app \<Rightarrow> 'x adm_router \<Rightarrow> router_data_input \<Rightarrow> string \<Rightarrow> router_error + (string, string) hashmap" where
  "adm_register A R inp app_id =
     (if hm_get (ar_clients R) app_id = None then Inl (RAdm InvalidProfile)
      else Inr (hm_insert ''creds'' (ea_json_text A (JObj [(''profile'', JStr app_id)]))
             [(''token'', ea_json_text A (JStr (ri_token inp)))]))"

definition adm_profile_of :: "('u, 'x) ep_app \<Rightarrow> (string, string) hashmap \<Rightarrow> string option" where
  "adm_profile_of A data =
     Option.bind (Option.bind (Option.bind (router_datum A data ''creds'') json_as_object)
       (\<lambda>obj. map_of obj ''profile'')) json_as_str"

definition adm_ttl :: "'x adm_router \<Rightarrow> ep_notification \<Rightarrow> nat" where
  "adm_ttl R n = min ADM_MAX_TTL (max (as_min_ttl (ar_settings R)) (nat (eh_ttl (en_headers n))))"

definition adm_update_registration ::
  "('u, 'x) ep_app \<Rightarrow> user \<Rightarrow> (string, string) hashmap \<Rightarrow> string \<Rightarrow> string \<Rightarrow> 'x \<Rightarrow> (api_fail, unit, 'x) outcome" where
  "adm_update_registration A user router_data registration_id new_registration_id x =
     (if new_registration_id = registration_id then (Inr (), x)
      else
        (case db_update_user (ea_db A)
            (user\<lparr>u_router_data := Some (hm_insert ''token'' (ea_json_text A (JStr new_registration_id)) router_data)\<rparr>) x of
           (Inl e, (_, x1)) \<Rightarrow> fail (ApiDatabase e) x1
         | (Inr updated, (_, x1)) \<Rightarrow>
             if \<not> updated then fail (ApiGeneral ''Conditional update failed'') x1 else (Inr (), x1)))"

definition adm_route_notification ::
  "('u, 'x) ep_app \<Rightarrow> 'u \<Rightarrow> (nat \<Rightarrow> string) \<Rightarrow> 'x adm_router \<Rightarrow> ep_notification \<Rightarrow> 'x \<Rightarrow>
     (api_fail, router_response, 'x) outcome" where
  "adm_route_notification A endpoint_url show_status R n x =
     (case u_router_data (en_user n) of
        None \<Rightarrow> fail (ApiRouter (RAdm NoRegistrationId)) x
      | Some router_data \<Rightarrow>
          (case router_str A router_data ''token'' of
             None \<Rightarrow> fail (ApiRouter (RAdm NoRegistrationId)) x
           | Some registration_id \<Rightarrow>
               (case adm_profile_of A router_data of
                  None \<Rightarrow> fail (ApiRouter (RAdm NoProfile)) x
                | Some profile \<Rightarrow>
                    (case hm_get (ar_clients R) profile of
                       None \<Rightarrow> fail (ApiRouter (RAdm InvalidProfile)) x
                     | Some client \<Rightarrow>
                         andThen
                           (bridge_call A (u_uaid (en_user n))
                             (adm_send A (ar_lib R) show_status client (build_message_data A n) registration_id
                               (adm_ttl R n) x))
                           (\<lambda>new_id x.
                         andThen (adm_update_registration A (en_user n) router_data registration_id new_id x) (\<lambda>_ x.
                           bridge_success A endpoint_url n x))))))"

section \<open>The bridge's promise\<close>

lemma adm_request_token_panics: "fst (adm_request_token A L show c x) = Inl p \<Longrightarrow> \<exists>msg. p = Panic msg"
  by (auto simp: adm_request_token_def Let_def split: sum.splits option.splits prod.splits if_splits)

lemma adm_get_access_token_panics: "fst (adm_get_access_token A L show c x) = Inl p \<Longrightarrow> \<exists>msg. p = Panic msg"
  by (auto simp: adm_get_access_token_def Let_def split: prod.splits if_splits dest: adm_request_token_panics)

lemma adm_send_panics:
  assumes "fst (adm_send A L show c data t ttl x) = Inl p"
  shows "\<exists>msg. p = Panic msg"
proof (cases "fst (adm_get_access_token A L show c x)")
  case (Inl q)
  with assms adm_get_access_token_panics [OF Inl] show ?thesis
    by (cases "adm_get_access_token A L show c x")
      (auto simp: adm_send_def Let_def split: sum.splits)
next
  case (Inr q)
  with assms show ?thesis
    by (cases "adm_get_access_token A L show c x")
      (auto simp: adm_send_def Let_def split: sum.splits prod.splits if_splits)
qed

lemma adm_update_not_gone:
  "adm_update_registration A user data old new x \<noteq> (Inl (Fail (ApiRouter e)), x')"
  by (auto simp: adm_update_registration_def split: sum.splits prod.splits)

interpretation adm: bridge A "adm_route_notification A eu show R" RNotFound for A eu "show" R
proof unfold_locales
  fix n x x'
  assume "adm_route_notification A eu show R n x = (Inl (Fail (ApiRouter RNotFound)), x')"
  then obtain c data t ttl where
      b: "bridge_call A (u_uaid (en_user n)) (adm_send A (ar_lib R) show c data t ttl x) =
        (Inl (Fail (ApiRouter RNotFound)), x')"
    by (auto simp: adm_route_notification_def andThen_Inl_iff bridge_success_Inl adm_update_not_gone
        split: option.splits)
  moreover have "fst (adm_send A (ar_lib R) show c data t ttl x) \<noteq> Inl (Fail (ApiRouter RNotFound))"
    using adm_send_panics by fastforce
  ultimately show "removal_of A (u_uaid (en_user n)) x'" by (rule bridge_call_gone)
next
  fix n x resp x'
  assume "adm_route_notification A eu show R n x = (Inr resp, x')"
  then obtain x1 where "bridge_success A eu n x1 = (Inr resp, x')"
    by (auto simp: adm_route_notification_def andThen_Inr_iff split: option.splits)
  from bridge_success_Inr [OF this] show
    "rr_status resp = 200 \<and> hm_get (rr_headers resp) ''TTL'' = Some (show_nat (nat (eh_ttl (en_headers n))))"
    by simp
qed

section \<open>The access token\<close>

text \<open>What the cache relies on: it keeps what was put, and neither the clock nor a request
  changes it.\<close>

definition token_cache_ok :: "('u, 'x) ep_app \<Rightarrow> 'x adm_lib \<Rightarrow> bool" where
  "token_cache_ok A L \<longleftrightarrow>
     (\<forall>p q ti x. al_token_info L p (al_set_token_info L q ti x) = (if p = q then ti else al_token_info L p x)) \<and>
     (\<forall>p x. al_token_info L p (snd (sys_now_sec (ea_sys A) x)) = al_token_info L p x) \<and>
     (\<forall>p url form x. al_token_info L p (snd (al_post_form L url form x)) = al_token_info L p x)"

text \<open>A request to Amazon always carries a token that was fresh when it was taken:
  either the cached one, if more than a minute of its life is left, and then no token is
  requested, or a new one, which is cached with its expiry for the next request. A token
  request that fails leaves the cache of every profile as it was, and no request touches the
  cache of another profile.\<close>

theorem adm_access_token_fresh:
  assumes cache: "token_cache_ok A L" and get: "adm_get_access_token A L show_status c x = (r, x')"
    and now: "sys_now_sec (ea_sys A) x = (now, x1)"
  shows "(if at_expiration_time (al_token_info L (ac_name c) x) > now + 60
     then r = Inr (Inr (at_token (al_token_info L (ac_name c) x))) \<and> x' = x1
     else (\<forall>token. r = Inr (Inr token) \<longrightarrow>
       (\<exists>url resp x2 lifetime now2 x3. al_post_form L url (adm_token_form c) x1 = (Inr resp, x2) \<and>
          hr_status resp = 200 \<and> adm_json (al_token_response L) resp = Inr (token, lifetime) \<and>
          sys_now_sec (ea_sys A) x2 = (now2, x3) \<and>
          al_token_info L (ac_name c) x' = \<lparr>at_token = token, at_expiration_time = now2 + lifetime\<rparr>))) \<and>
     (\<forall>p. p \<noteq> ac_name c \<or> (\<forall>token. r \<noteq> Inr (Inr token)) \<longrightarrow> al_token_info L p x' = al_token_info L p x)"
proof -
  from cache have put: "\<And>p q ti y. al_token_info L p (al_set_token_info L q ti y) =
        (if p = q then ti else al_token_info L p y)"
    and clock: "\<And>p y t y'. sys_now_sec (ea_sys A) y = (t, y') \<Longrightarrow> al_token_info L p y' = al_token_info L p y"
    and post: "\<And>p url form y t y'. al_post_form L url form y = (t, y') \<Longrightarrow> al_token_info L p y' = al_token_info L p y"
    unfolding token_cache_ok_def by (metis snd_conv)+
  show ?thesis
  proof (cases "at_expiration_time (al_token_info L (ac_name c) x) > now + 60")
    case True
    with get now clock show ?thesis by (auto simp: adm_get_access_token_def)
  next
    case False
    then have req: "adm_request_token A L show_status c x1 = (r, x')"
      using get now by (simp add: adm_get_access_token_def)
    show ?thesis
    proof (cases "\<exists>token. r = Inr (Inr token)")
      case True
      then obtain token url resp x2 lifetime now2 x3 where
          t: "al_post_form L url (adm_token_form c) x1 = (Inr resp, x2)" "hr_status resp = 200"
          "adm_json (al_token_response L) resp = Inr (token, lifetime)" "sys_now_sec (ea_sys A) x2 = (now2, x3)"
          "x' = al_set_token_info L (ac_name c) \<lparr>at_token = token, at_expiration_time = now2 + lifetime\<rparr> x3"
          "r = Inr (Inr token)"
        using req by (auto simp: adm_request_token_def Let_def split: sum.splits prod.splits if_splits)
      have "al_token_info L p x3 = al_token_info L p x" for p
        using clock [OF t(4)] post [OF t(1)] clock [OF now] by simp
      then have other: "p \<noteq> ac_name c \<Longrightarrow> al_token_info L p x' = al_token_info L p x" for p
        using t(5) put by simp
      have "al_token_info L (ac_name c) x' = \<lparr>at_token = token, at_expiration_time = now2 + lifetime\<rparr>"
        using t(5) put by simp
      with t(1-4) have "\<exists>url resp x2 lifetime now2 x3. al_post_form L url (adm_token_form c) x1 = (Inr resp, x2) \<and>
          hr_status resp = 200 \<and> adm_json (al_token_response L) resp = Inr (token, lifetime) \<and>
          sys_now_sec (ea_sys A) x2 = (now2, x3) \<and>
          al_token_info L (ac_name c) x' = \<lparr>at_token = token, at_expiration_time = now2 + lifetime\<rparr>"
        by blast
      with other False t(6) show ?thesis by simp
    next
      case no: False
      then have "al_token_info L p x' = al_token_info L p x1" for p
        using req post by (auto simp: adm_request_token_def Let_def split: sum.splits prod.splits if_splits)
      with no False clock [OF now] show ?thesis by auto
    qed
  qed
qed

text \<open>When Amazon accepts a message under a new registration id, the sender is told
  of success only after the user record was updated to the new id; otherwise the database is
  not written.\<close>

theorem adm_new_registration_recorded:
  assumes "adm_route_notification A eu show_status R n x = (Inr resp, x')"
  shows "\<exists>data old new client x1.
    u_router_data (en_user n) = Some data \<and> router_str A data ''token'' = Some old \<and>
    adm_send A (ar_lib R) show_status client (build_message_data A n) old (adm_ttl R n) x = (Inr (Inr new), x1) \<and>
    adm_ttl R n \<le> 28 * 24 * 60 * 60 \<and>
    (if new = old then x' = x1
     else \<exists>user'. db_update_user (ea_db A)
       ((en_user n)\<lparr>u_router_data := Some (hm_insert ''token'' (ea_json_text A (JStr new)) data)\<rparr>) x1 =
         (Inr True, (user', x')))"
proof -
  from assms obtain data old client new x1 x2 where
      u: "u_router_data (en_user n) = Some data" "router_str A data ''token'' = Some old"
    and s: "adm_send A (ar_lib R) show_status client (build_message_data A n) old (adm_ttl R n) x = (Inr (Inr new), x1)"
    and up: "adm_update_registration A (en_user n) data old new x1 = (Inr (), x2)"
    and fin: "bridge_success A eu n x2 = (Inr resp, x')"
    by (auto simp: adm_route_notification_def andThen_Inr_iff split: option.splits)
  from bridge_success_Inr [OF fin] up have "if new = old then x' = x1
     else \<exists>user'. db_update_user (ea_db A)
       ((en_user n)\<lparr>u_router_data := Some (hm_insert ''token'' (ea_json_text A (JStr new)) data)\<rparr>) x1 =
         (Inr True, (user', x'))"
    by (auto simp: adm_update_registration_def split: sum.splits prod.splits if_splits)
  with u s show ?thesis by (fastforce simp: adm_ttl_def ADM_MAX_TTL_def)
qed

section \<open>Witnesses\<close>

text \<open>A world that is the token cache, with a service that grants tokens for an hour.\<close>

definition demo_adm_lib :: "(string \<Rightarrow> adm_token_info) adm_lib" where
  "demo_adm_lib =
     \<lparr>al_join = (\<lambda>u s. Inr (u @ s)),
      al_post_form = (\<lambda>url form x. (Inr \<lparr>hr_status = 200, hr_body = Inr []\<rparr>, x)),
      al_post = (\<lambda>url hs body timeout x. (Inr \<lparr>hr_status = 200, hr_body = Inr []\<rparr>, x)),
      al_token_response = (\<lambda>bs. Inr (''grant'', 3600)), al_error_response = (\<lambda>bs. Inr None),
      al_send_response = (\<lambda>bs. Inr ''id2''), al_profiles = (\<lambda>s. Inr []),
      al_token_info = (\<lambda>p x. x p), al_set_token_info = (\<lambda>p ti x. x(p := ti))\<rparr>"

definition demo_adm_db :: "(string \<Rightarrow> adm_token_info) db_client" where
  "demo_adm_db = mem_client fixed_uuids (fixed_sys 1000) (\<lambda>_. mem_empty) (\<lambda>_ x. x)"

abbreviation demo_adm_app :: "(string, string \<Rightarrow> adm_token_info) ep_app" where
  "demo_adm_app \<equiv> demo_ep_with (demo_adm_db\<lparr>db_update_user := (\<lambda>u x. (Inr True, (u, x)))\<rparr>) (\<lambda>url body x. (Inr 404, x))"

definition demo_adm_client :: adm_client where
  "demo_adm_client = \<lparr>ac_name = ''p'', ac_base_url = ''b'', ac_profile = \<lparr>ap_client_id = ''i'', ap_client_secret = ''s''\<rparr>,
     ac_timeout = 3, ac_max_data = 6000\<rparr>"

definition demo_cache :: "string \<Rightarrow> adm_token_info" where
  "demo_cache = (\<lambda>p. \<lparr>at_token = ''old'', at_expiration_time = 1030\<rparr>)"

lemma demo_cache_ok: "token_cache_ok demo_adm_app demo_adm_lib"
  by (simp add: token_cache_ok_def demo_adm_lib_def demo_ep_with_def fixed_sys_def)

theorem adm_access_token_fresh_witness:
  "\<exists>x'. adm_get_access_token demo_adm_app demo_adm_lib show_nat demo_adm_client demo_cache = (Inr (Inr ''grant''), x') \<and>
     x' ''p'' = \<lparr>at_token = ''grant'', at_expiration_time = 4600\<rparr> \<and> x' ''q'' = demo_cache ''q''"
proof -
  have now: "sys_now_sec (ea_sys demo_adm_app) demo_cache = (1000, demo_cache)"
    by (simp add: demo_ep_with_def fixed_sys_def)
  obtain x' where get: "adm_get_access_token demo_adm_app demo_adm_lib show_nat demo_adm_client demo_cache =
      (Inr (Inr ''grant''), x')"
    by (simp add: adm_get_access_token_def adm_request_token_def demo_adm_lib_def demo_ep_with_def fixed_sys_def
        demo_cache_def adm_json_def Let_def)
  from adm_access_token_fresh [OF demo_cache_ok get now] get show ?thesis
    by (simp add: demo_adm_lib_def demo_adm_client_def demo_cache_def demo_ep_with_def fixed_sys_def adm_json_def)
qed

definition demo_adm_router :: "(string \<Rightarrow> adm_token_info) adm_router" where
  "demo_adm_router = \<lparr>ar_settings = \<lparr>as_profiles = ''{}'', as_max_data = 6000, as_base_url = ''b'', as_timeout = 3,
     as_min_ttl = 60\<rparr>, ar_clients = [(''p'', demo_adm_client)], ar_lib = demo_adm_lib\<rparr>"

text \<open>Router data whose JSON values are read by key: the app's JSON reader is the table.\<close>

abbreviation demo_adm_json :: "(string, string \<Rightarrow> adm_token_info) ep_app" where
  "demo_adm_json \<equiv> demo_adm_app\<lparr>ea_json_value :=
     (\<lambda>s. if s = ''creds'' then JObj [(''profile'', JStr ''p'')] else JStr s)\<rparr>"

definition demo_adm_push :: ep_notification where
  "demo_adm_push = (demo_push_notification 60)\<lparr>en_subscription := demo_sub\<lparr>su_user :=
     demo_ep_user\<lparr>u_router_data := Some [(''token'', ''id1''), (''creds'', ''creds'')]\<rparr>\<rparr>\<rparr>"

theorem adm_new_registration_recorded_witness:
  "\<exists>resp x'. adm_route_notification demo_adm_json ''https://push'' show_nat demo_adm_router demo_adm_push demo_cache =
     (Inr resp, x') \<and> adm_ttl demo_adm_router demo_adm_push \<le> 28 * 24 * 60 * 60"
proof -
  obtain resp x' where r: "adm_route_notification demo_adm_json ''https://push'' show_nat demo_adm_router
      demo_adm_push demo_cache = (Inr resp, x')"
    by (simp add: adm_route_notification_def demo_adm_push_def demo_push_notification_def demo_sub_def
        router_str_def router_datum_def json_as_str_def demo_ep_with_def adm_profile_of_def json_as_object_def
        demo_adm_router_def demo_adm_client_def adm_send_def message_size_check_def adm_get_access_token_def
        adm_request_token_def demo_adm_lib_def fixed_sys_def demo_cache_def adm_json_def Let_def
        adm_update_registration_def bridge_success_def message_location_def demo_lib_def bridge_call_def
        json_of_strings_def)
  with adm_new_registration_recorded [OF r] show ?thesis by blast
qed

end
