(* ===== verification/Apns.thy ===== *)
theory Apns
  imports Bridges
begin

text \<open>
  The Apple Push Notification service: \<open>routers/apns/{settings,router}.rs\<close>. The \<open>a2\<close> crate
  is a parameter: its notification builder is kept as the values the code sets on it, and its
  client as a function from the finished payload to an outcome.
\<close>

section \<open>Settings and clients\<close>

record apns_channel =
  nc_cert :: string
  nc_key :: string
  nc_topic :: "string option"
  nc_sandbox :: bool

record apns_settings =
  ns_channels :: string
  ns_max_data :: nat

text \<open>What \<open>DefaultNotificationBuilder\<close> was told.\<close>

record aps_builder =
  ab_title :: "string option"
  ab_subtitle :: "string option"
  ab_body :: "string option"
  ab_title_loc_key :: "string option"
  ab_title_loc_args :: "string list option"
  ab_action_loc_key :: "string option"
  ab_loc_key :: "string option"
  ab_loc_args :: "string list option"
  ab_launch_image :: "string option"
  ab_mutable_content :: bool

record apns_payload =
  py_aps :: aps_builder
  py_device_token :: string
  py_high_priority :: bool
  py_topic :: string
  py_expiration :: u64
  py_data :: "(string \<times> json) list"

text \<open>
  \<open>'c\<close> is \<open>a2::Client\<close>: the channels of the settings, reading a file, making a client from
  certificate, key and whether it is for the sandbox, sending, the JSON text of a payload,
  whether a text decodes as APS data, and \<open>as_f64\<close> of a number, cast to \<open>i64\<close>.
\<close>

record ('c, 'x) apns_lib =
  nl_channels :: "string \<Rightarrow> string + (string \<times> apns_channel) list"
  nl_read :: "string \<Rightarrow> 'x \<Rightarrow> (string + u8 list) \<times> 'x"
  nl_certificate_parts :: "u8 list \<Rightarrow> u8 list \<Rightarrow> bool \<Rightarrow> a2_error + 'c"
  nl_send :: "'c \<Rightarrow> apns_payload \<Rightarrow> 'x \<Rightarrow> (a2_error + unit) \<times> 'x"
  nl_payload_json :: "apns_payload \<Rightarrow> a2_error + string"
  nl_is_aps :: "string \<Rightarrow> bool"
  nl_float_to_int :: "json \<Rightarrow> int"

record 'c apns_client_data =
  nd_client :: 'c
  nd_topic :: string

definition apns_pem :: "('c, 'x) apns_lib \<Rightarrow> string \<Rightarrow> 'x \<Rightarrow> (apns_error, u8 list, 'x) outcome" where
  "apns_pem L s x =
     (if \<not> starts_with ''-'' s then mapErr ApnsIo (nl_read L s x) else (Inr (as_bytes s), x))"

definition apns_create_client ::
  "('c, 'x) apns_lib \<Rightarrow> string \<Rightarrow> apns_channel \<Rightarrow> 'x \<Rightarrow> (apns_error, string \<times> 'c apns_client_data, 'x) outcome" where
  "apns_create_client L name ch x =
     andThen (apns_pem L (nc_cert ch) x) (\<lambda>cert x.
     andThen (apns_pem L (nc_key ch) x) (\<lambda>key x.
       (case nl_certificate_parts L cert key (nc_sandbox ch) of
          Inl e \<Rightarrow> (Inl (ApnsClientErr e), x)
        | Inr client \<Rightarrow>
            (Inr (name, \<lparr>nd_client = client,
               nd_topic = (case nc_topic ch of Some t \<Rightarrow> t | None \<Rightarrow> ''com.mozilla.org.'' @ name)\<rparr>), x))))"

fun apns_create_clients ::
  "('c, 'x) apns_lib \<Rightarrow> (string \<times> apns_channel) list \<Rightarrow> (string, 'c apns_client_data) hashmap \<Rightarrow> 'x \<Rightarrow>
     (apns_error, (string, 'c apns_client_data) hashmap, 'x) outcome" where
  "apns_create_clients L [] m x = (Inr m, x)"
| "apns_create_clients L ((name, ch) # chs) m x =
     andThen (apns_create_client L name ch x) (\<lambda>(k, c) x. apns_create_clients L chs (hm_insert k c m) x)"

record ('c, 'x) apns_router =
  nr_clients :: "(string, 'c apns_client_data) hashmap"
  nr_settings :: apns_settings
  nr_lib :: "('c, 'x) apns_lib"

definition apns_router_new ::
  "('c, 'x) apns_lib \<Rightarrow> apns_settings \<Rightarrow> 'x \<Rightarrow> (apns_error, ('c, 'x) apns_router, 'x) outcome" where
  "apns_router_new L st x =
     (case nl_channels L (ns_channels st) of
        Inl e \<Rightarrow> (Inl (ChannelSettingsDecode e), x)
      | Inr channels \<Rightarrow>
          andThen (apns_create_clients L channels [] x) (\<lambda>clients x.
            (Inr \<lparr>nr_clients = clients, nr_settings = st, nr_lib = L\<rparr>, x)))"

definition apns_active :: "('c, 'x) apns_router \<Rightarrow> bool" where
  "apns_active R \<longleftrightarrow> nr_clients R \<noteq> []"

section \<open>APS data\<close>

definition default_aps :: aps_builder where
  "default_aps =
     \<lparr>ab_title = None, ab_subtitle = None, ab_body = None,
      ab_title_loc_key = Some ''SentTab.NoTabArrivingNotification.title'', ab_title_loc_args = None,
      ab_action_loc_key = None, ab_loc_key = Some ''SentTab.NoTabArrivingNotification.body'',
      ab_loc_args = None, ab_launch_image = None, ab_mutable_content = True\<rparr>"

fun convert_value_float_to_int :: "(json \<Rightarrow> int) \<Rightarrow> json \<Rightarrow> json"
  and convert_members :: "(json \<Rightarrow> int) \<Rightarrow> (string \<times> json) list \<Rightarrow> (string \<times> json) list" where
  "convert_value_float_to_int f (JInt i) = JInt (f (JInt i))"
| "convert_value_float_to_int f (JFloat s) = JInt (f (JFloat s))"
| "convert_value_float_to_int f (JObj m) = JObj (convert_members f m)"
| "convert_value_float_to_int f v = v"
| "convert_members f [] = []"
| "convert_members f ((k, v) # m) = (k, convert_value_float_to_int f v) # convert_members f m"

definition json_get :: "json \<Rightarrow> string \<Rightarrow> json option" where
  "json_get j key = (case j of JObj m \<Rightarrow> map_of m key | _ \<Rightarrow> None)"

definition json_as_i64 :: "json \<Rightarrow> int option" where
  "json_as_i64 j = (case j of JInt i \<Rightarrow> (if - (2 ^ 63) \<le> i \<and> i < 2 ^ 63 then Some i else None) | _ \<Rightarrow> None)"

text \<open>One of the nine replacements of \<open>derive_aps\<close>: a string, or a list of strings.\<close>

definition replace_str ::
  "json \<Rightarrow> string \<Rightarrow> (string \<Rightarrow> aps_builder \<Rightarrow> aps_builder) \<Rightarrow> apns_error + aps_builder \<Rightarrow> apns_error + aps_builder" where
  "replace_str j key set_it r =
     (case r of
        Inl e \<Rightarrow> Inl e
      | Inr aps \<Rightarrow>
          (case json_get j key of
             None \<Rightarrow> Inr aps
           | Some v \<Rightarrow> (case json_as_str v of Some s \<Rightarrow> Inr (set_it s aps) | None \<Rightarrow> Inl InvalidApsData)))"

fun json_strs :: "json list \<Rightarrow> string list option" where
  "json_strs [] = Some []"
| "json_strs (v # vs) = (case json_as_str v of None \<Rightarrow> None | Some s \<Rightarrow> map_option (\<lambda>ss. s # ss) (json_strs vs))"

definition replace_strs ::
  "json \<Rightarrow> string \<Rightarrow> (string list \<Rightarrow> aps_builder \<Rightarrow> aps_builder) \<Rightarrow> apns_error + aps_builder \<Rightarrow> apns_error + aps_builder" where
  "replace_strs j key set_it r =
     (case r of
        Inl e \<Rightarrow> Inl e
      | Inr aps \<Rightarrow>
          (case json_get j key of
             None \<Rightarrow> Inr aps
           | Some v \<Rightarrow>
               (case Option.bind (json_as_array v) json_strs of
                  Some ss \<Rightarrow> Inr (set_it ss aps)
                | None \<Rightarrow> Inl InvalidApsData)))"

definition replace_mutable :: "json \<Rightarrow> apns_error + aps_builder \<Rightarrow> apns_error + aps_builder" where
  "replace_mutable j r =
     (case r of
        Inl e \<Rightarrow> Inl e
      | Inr aps \<Rightarrow>
          (case json_get j ''mutable-content'' of
             None \<Rightarrow> Inr aps
           | Some v \<Rightarrow>
               (case json_as_i64 v of
                  Some i \<Rightarrow> Inr (if i \<noteq> 0 then aps\<lparr>ab_mutable_content := True\<rparr> else aps)
                | None \<Rightarrow> Inl InvalidApsData)))"

definition derive_aps :: "json \<Rightarrow> apns_error + aps_builder" where
  "derive_aps j =
     replace_mutable j
       (replace_str j ''launch_image'' (\<lambda>s a. a\<lparr>ab_launch_image := Some s\<rparr>)
       (replace_strs j ''loc_args'' (\<lambda>s a. a\<lparr>ab_loc_args := Some s\<rparr>)
       (replace_str j ''loc_key'' (\<lambda>s a. a\<lparr>ab_loc_key := Some s\<rparr>)
       (replace_str j ''action_loc_key'' (\<lambda>s a. a\<lparr>ab_action_loc_key := Some s\<rparr>)
       (replace_strs j ''title_loc_args'' (\<lambda>s a. a\<lparr>ab_title_loc_args := Some s\<rparr>)
       (replace_str j ''title_loc_key'' (\<lambda>s a. a\<lparr>ab_title_loc_key := Some s\<rparr>)
       (replace_str j ''body'' (\<lambda>s a. a\<lparr>ab_body := Some s\<rparr>)
       (replace_str j ''subtitle'' (\<lambda>s a. a\<lparr>ab_subtitle := Some s\<rparr>)
       (replace_str j ''title'' (\<lambda>s a. a\<lparr>ab_title := Some s\<rparr>) (Inr default_aps))))))))))"

section \<open>Router\<close>

definition apns_handle_error :: "('u, 'x) ep_app \<Rightarrow> a2_error \<Rightarrow> uuid \<Rightarrow> 'x \<Rightarrow> api_fail \<times> 'x" where
  "apns_handle_error A e uaid x =
     (case e of
        A2ResponseError code reason \<Rightarrow>
          if code = 410
          then (Fail (ApiRouter (RApns Unregistered)), snd (db_remove_user (ea_db A) uaid x))
          else (Fail (ApiRouter (RApns (ApnsUpstream e))), x)
      | _ \<Rightarrow> (Fail (ApiRouter (RApns (ApnsUpstream e))), x))"

definition apns_register ::
  "('u, 'x) ep_app \<Rightarrow> ('c, 'x) apns_router \<Rightarrow> router_data_input \<Rightarrow> string \<Rightarrow> router_error + (string, string) hashmap" where
  "apns_register A R inp app_id =
     (if hm_get (nr_clients R) app_id = None then Inl (RApns InvalidReleaseChannel)
      else
        (let data = hm_insert ''rel_channel'' (ea_json_text A (JStr app_id))
               [(''token'', ea_json_text A (JStr (ri_token inp)))]
         in case ri_aps inp of
              None \<Rightarrow> Inr data
            | Some aps \<Rightarrow>
                if \<not> nl_is_aps (nr_lib R) aps then Inl (RApns InvalidApsData)
                else Inr (hm_insert ''aps'' (ea_json_text A (JStr aps)) data)))"

definition apns_payload_of ::
  "('u, 'x) ep_app \<Rightarrow> ep_notification \<Rightarrow> aps_builder \<Rightarrow> string \<Rightarrow> string \<Rightarrow> apns_payload" where
  "apns_payload_of A n aps token topic =
     \<lparr>py_aps = aps, py_device_token = token, py_high_priority = True, py_topic = topic,
      py_expiration = en_timestamp n + of_int (eh_ttl (en_headers n)),
      py_data = map (\<lambda>(k, v). (k, JStr v)) (hm_insert ''ver'' (en_message_id n) (build_message_data A n))\<rparr>"

text \<open>The APS data of a notification: derived from the user's, or the default.\<close>

definition apns_aps_of ::
  "('u, 'x) ep_app \<Rightarrow> ('c, 'x) apns_router \<Rightarrow> (string, string) hashmap \<Rightarrow> apns_error + aps_builder" where
  "apns_aps_of A R router_data =
     (case router_datum A router_data ''aps'' of
        None \<Rightarrow> Inr default_aps
      | Some v \<Rightarrow> derive_aps (convert_value_float_to_int (nl_float_to_int (nr_lib R)) v))"

definition apns_route_notification ::
  "('u, 'x) ep_app \<Rightarrow> 'u \<Rightarrow> ('c, 'x) apns_router \<Rightarrow> ep_notification \<Rightarrow> 'x \<Rightarrow> (api_fail, router_response, 'x) outcome" where
  "apns_route_notification A endpoint_url R n x =
     (case u_router_data (en_user n) of
        None \<Rightarrow> fail (ApiRouter (RApns NoDeviceToken)) x
      | Some router_data \<Rightarrow>
          (case router_str A router_data ''token'' of
             None \<Rightarrow> fail (ApiRouter (RApns NoDeviceToken)) x
           | Some token \<Rightarrow>
               (case router_str A router_data ''rel_channel'' of
                  None \<Rightarrow> fail (ApiRouter (RApns NoReleaseChannel)) x
                | Some channel \<Rightarrow>
                    (case hm_get (nr_clients R) channel of
                       None \<Rightarrow> fail (ApiRouter (RApns InvalidReleaseChannel)) x
                     | Some cd \<Rightarrow>
                         (case apns_aps_of A R router_data of
                            Inl e \<Rightarrow> fail (ApiRouter (RApns e)) x
                          | Inr aps \<Rightarrow>
                              (let payload = apns_payload_of A n aps token (nd_topic cd) in
                               case nl_payload_json (nr_lib R) payload of
                                 Inl e \<Rightarrow> fail (ApiRouter (RApns (SizeLimit e))) x
                               | Inr payload_json \<Rightarrow>
                                   (case message_size_check payload_json (ns_max_data (nr_settings R)) of
                                      Inl e \<Rightarrow> fail (ApiRouter e) x
                                    | Inr _ \<Rightarrow>
                                        (case nl_send (nr_lib R) (nd_client cd) payload x of
                                           (Inl e, x1) \<Rightarrow>
                                             (let (f, x2) = apns_handle_error A e (u_uaid (en_user n)) x1 in (Inl f, x2))
                                         | (Inr _, x1) \<Rightarrow> bridge_success A endpoint_url n x1))))))))"

section \<open>The bridge's promise\<close>

lemma replace_not_unregistered:
  "r \<noteq> Inl Unregistered \<Longrightarrow> replace_str j k f r \<noteq> Inl Unregistered"
  "r \<noteq> Inl Unregistered \<Longrightarrow> replace_strs j k g r \<noteq> Inl Unregistered"
  "r \<noteq> Inl Unregistered \<Longrightarrow> replace_mutable j r \<noteq> Inl Unregistered"
  by (auto simp: replace_str_def replace_strs_def replace_mutable_def split: sum.splits option.splits)

lemma derive_aps_not_unregistered: "derive_aps j \<noteq> Inl Unregistered"
  unfolding derive_aps_def by (intro replace_not_unregistered) simp

lemma apns_aps_not_unregistered: "apns_aps_of A R data \<noteq> Inl Unregistered"
  by (simp add: apns_aps_of_def derive_aps_not_unregistered split: option.split)

lemma size_check_not_bridge: "message_size_check d m \<noteq> Inl (RApns e)"
  by (simp add: message_size_check_def)

interpretation apns: bridge A "apns_route_notification A eu R" "RApns Unregistered" for A eu R
proof unfold_locales
  fix n x x'
  assume "apns_route_notification A eu R n x = (Inl (Fail (ApiRouter (RApns Unregistered))), x')"
  then obtain e x1 where "apns_handle_error A e (u_uaid (en_user n)) x1 = (Fail (ApiRouter (RApns Unregistered)), x')"
    by (auto simp: apns_route_notification_def bridge_success_Inl apns_aps_not_unregistered
        size_check_not_bridge Let_def split: option.splits sum.splits prod.splits)
  then show "removal_of A (u_uaid (en_user n)) x'"
    by (auto simp: apns_handle_error_def removal_of_def split: a2_error.splits if_splits)
next
  fix n x resp x'
  assume "apns_route_notification A eu R n x = (Inr resp, x')"
  then obtain x1 where "bridge_success A eu n x1 = (Inr resp, x')"
    by (auto simp: apns_route_notification_def Let_def split: option.splits sum.splits prod.splits)
  from bridge_success_Inr [OF this] show
    "rr_status resp = 200 \<and> hm_get (rr_headers resp) ''TTL'' = Some (show_nat (nat (eh_ttl (en_headers n))))"
    by simp
qed

section \<open>Registered APS data\<close>

text \<open>The APS data a client registers with is stored as a JSON string and looked up
  as a JSON object: routing a notification for a user that registered APS data does exactly
  what it does for one that registered none, whatever the data say.\<close>

theorem apns_registered_aps_ignored:
  assumes json: "json_text_ok A" and data: "u_router_data (en_user n) = Some data"
    and reg: "apns_register A R inp app_id = Inr data"
    and plain: "apns_register A R (inp\<lparr>ri_aps := None\<rparr>) app_id = Inr plain"
  shows "apns_route_notification A eu R n x =
    apns_route_notification A eu R
      (n\<lparr>en_subscription := (en_subscription n)\<lparr>su_user := (en_user n)\<lparr>u_router_data := Some plain\<rparr>\<rparr>\<rparr>) x"
proof -
  have fields: "router_str A data ''token'' = Some (ri_token inp)" "router_str A plain ''token'' = Some (ri_token inp)"
    "router_str A data ''rel_channel'' = Some app_id" "router_str A plain ''rel_channel'' = Some app_id"
    "router_datum A plain ''aps'' = None"
    "router_datum A data ''aps'' = None \<or> (\<exists>s. router_datum A data ''aps'' = Some (JStr s))"
    using reg plain json
    by (auto simp: apns_register_def Let_def router_str_def router_datum_def json_as_str_def
        split: if_splits option.splits)
  have str: "derive_aps (convert_value_float_to_int f (JStr s)) = Inr default_aps" for f s
    by (simp add: derive_aps_def replace_mutable_def replace_str_def replace_strs_def json_get_def)
  let ?n = "n\<lparr>en_subscription := (en_subscription n)\<lparr>su_user := (en_user n)\<lparr>u_router_data := Some plain\<rparr>\<rparr>\<rparr>"
  have same: "apns_payload_of A ?n = apns_payload_of A n" "bridge_success A eu ?n = bridge_success A eu n"
    by (simp_all add: fun_eq_iff apns_payload_of_def build_message_data_def bridge_success_def message_location_def)
  have aps: "apns_aps_of A R data = Inr default_aps" "apns_aps_of A R plain = Inr default_aps"
    using fields(5,6) str by (auto simp: apns_aps_of_def)
  show ?thesis
    using data fields(1-4) same aps
    by (cases "hm_get (nr_clients R) app_id") (simp_all add: apns_route_notification_def Let_def cong: sum.case_cong prod.case_cong)
qed

section \<open>Witness\<close>

definition demo_apns_router :: "(unit, mem_db) apns_router" where
  "demo_apns_router = \<lparr>nr_clients = [(''beta'', \<lparr>nd_client = (), nd_topic = ''com.mozilla.org.beta''\<rparr>)],
     nr_settings = \<lparr>ns_channels = ''{}'', ns_max_data = 4096\<rparr>,
     nr_lib = \<lparr>nl_channels = (\<lambda>s. Inr []), nl_read = (\<lambda>p x. (Inl ''no file'', x)),
       nl_certificate_parts = (\<lambda>c k s. Inr ()), nl_send = (\<lambda>c p x. (Inr (), x)),
       nl_payload_json = (\<lambda>p. Inr ''{}''), nl_is_aps = (\<lambda>s. True), nl_float_to_int = (\<lambda>j. 0)\<rparr>\<rparr>"

definition demo_aps :: "(string, string) hashmap" where
  "demo_aps = [(''token'', ''device''), (''rel_channel'', ''beta''), (''aps'', ''{title: hello}'')]"

theorem apns_registered_aps_ignored_witness:
  "apns_route_notification demo_ep ''https://push'' demo_apns_router
     (demo_push_notification 60\<lparr>en_subscription := demo_sub\<lparr>su_user := demo_ep_user\<lparr>u_router_data := Some demo_aps\<rparr>\<rparr>\<rparr>)
     demo_ep_store =
   apns_route_notification demo_ep ''https://push'' demo_apns_router
     (demo_push_notification 60\<lparr>en_subscription := demo_sub\<lparr>su_user := demo_ep_user\<lparr>u_router_data :=
        Some [(''token'', ''device''), (''rel_channel'', ''beta'')]\<rparr>\<rparr>\<rparr>)
     demo_ep_store"
proof -
  let ?n = "demo_push_notification 60\<lparr>en_subscription := demo_sub\<lparr>su_user := demo_ep_user\<lparr>u_router_data := Some demo_aps\<rparr>\<rparr>\<rparr>"
  let ?inp = "\<lparr>ri_token = ''device'', ri_channel_id = None, ri_key = None, ri_aps = Some ''{title: hello}''\<rparr>"
  have "apns_register demo_ep demo_apns_router ?inp ''beta'' = Inr demo_aps"
    "apns_register demo_ep demo_apns_router (?inp\<lparr>ri_aps := None\<rparr>) ''beta'' =
       Inr [(''token'', ''device''), (''rel_channel'', ''beta'')]"
    by (simp_all add: apns_register_def demo_apns_router_def demo_aps_def demo_ep_with_def)
  from apns_registered_aps_ignored [OF demo_json _ this, of ?n "''https://push''" demo_ep_store] show ?thesis
    by simp
qed

end
