(* ===== verification/EpRoutes.thy ===== *)
theory EpRoutes
  imports Adm Apns
begin

text \<open>
  The endpoint server's routes: \<open>autoendpoint/src/routes/{webpush,registration,health}.rs\<close>
  with the extractors they take, \<open>extractors/{authorization_check, message_id,
  registration_path_args, registration_path_args_with_uaid, router_data_input,
  new_channel_data, routers}.rs\<close>. Extractors run in the order of the handler's arguments.
  The theorems are in \<open>EpFlows\<close>.
\<close>

section \<open>Routers\<close>

text \<open>\<open>er_show_status\<close> renders a status code.\<close>

record ('k, 'a, 'c, 'x) ep_routers =
  er_fcm :: "('k, 'a, 'x) fcm_router"
  er_apns :: "('c, 'x) apns_router"
  er_adm :: "'x adm_router"
  er_show_status :: "nat \<Rightarrow> string"

definition routers_register ::
  "('u, 'x) ep_app \<Rightarrow> ('k, 'a, 'c, 'x) ep_routers \<Rightarrow> router_type \<Rightarrow> router_data_input \<Rightarrow> string \<Rightarrow>
     router_error + (string, string) hashmap" where
  "routers_register A RT t inp app_id = (case t of
       WebPush \<Rightarrow> Inr []
     | FCM \<Rightarrow> fcm_register A (er_fcm RT) inp app_id
     | GCM \<Rightarrow> fcm_register A (er_fcm RT) inp app_id
     | APNS \<Rightarrow> apns_register A (er_apns RT) inp app_id
     | ADM \<Rightarrow> adm_register A (er_adm RT) inp app_id)"

definition routers_route ::
  "('u, 'x) ep_app \<Rightarrow> ('k, 'a, 'c, 'x) ep_routers \<Rightarrow> 'u \<Rightarrow> router_type \<Rightarrow> ep_notification \<Rightarrow> 'x \<Rightarrow>
     (api_fail, router_response, 'x) outcome" where
  "routers_route A RT endpoint_url t n x = (case t of
       WebPush \<Rightarrow> webpush_route_notification A endpoint_url n x
     | FCM \<Rightarrow> fcm_route_notification A endpoint_url (er_show_status RT) (er_fcm RT) n x
     | GCM \<Rightarrow> fcm_route_notification A endpoint_url (er_show_status RT) (er_fcm RT) n x
     | APNS \<Rightarrow> apns_route_notification A endpoint_url (er_apns RT) n x
     | ADM \<Rightarrow> adm_route_notification A endpoint_url (er_show_status RT) (er_adm RT) n x)"

section \<open>Push and delete\<close>

definition webpush_route ::
  "('u, 'x) ep_app \<Rightarrow> ('k, 'a, 'c, 'x) ep_routers \<Rightarrow> http_request \<Rightarrow> 'x \<Rightarrow> (api_fail, reply, 'x) outcome" where
  "webpush_route A RT rq x =
     andThen (notification_from_request A rq x) (\<lambda>n x.
     andThen (panic_step (settings_endpoint_url A) x) (\<lambda>endpoint_url x.
     (case router_type_from_str (u_router_type (en_user n)) of
        None \<Rightarrow> fail InvalidRouterType x
      | Some t \<Rightarrow>
          andThen (routers_route A RT endpoint_url t n x) (\<lambda>r x. (Inr (router_response_into_reply r), x)))))"

definition message_id_from_request ::
  "('u, 'x) ep_app \<Rightarrow> http_request \<Rightarrow> 'x \<Rightarrow> (api_fail, message_id, 'x) outcome" where
  "message_id_from_request A rq x =
     (case rq_match_info rq ''message_id'' of
        None \<Rightarrow> (Inl (Panic ''{message_id} must be part of the path''), x)
      | Some s \<Rightarrow> pure_step (message_id_decrypt (ea_uuid A) (ea_fernet_decrypt A) s) x)"

definition empty_reply :: "nat \<Rightarrow> reply" where
  "empty_reply status = \<lparr>rp_status = status, rp_headers = [], rp_body = NoBody\<rparr>"

definition delete_notification_route ::
  "('u, 'x) ep_app \<Rightarrow> http_request \<Rightarrow> 'x \<Rightarrow> (api_fail, reply, 'x) outcome" where
  "delete_notification_route A rq x =
     andThen (message_id_from_request A rq x) (\<lambda>m x.
     andThen (db_step (db_remove_message (ea_db A) (message_id_uaid m) (message_id_sort_key (ea_uuid A) m) x))
       (\<lambda>_ x. (Inr (empty_reply 204), x)))"

section \<open>Authorization\<close>

definition generate_token :: "('u, 'x) ep_app \<Rightarrow> string \<Rightarrow> uuid \<Rightarrow> string + string" where
  "generate_token A auth_key uaid =
     sign_with_key A (as_bytes auth_key) (as_bytes (uuid_simple (ea_uuid A) uaid))"

fun validate_token :: "('u, 'x) ep_app \<Rightarrow> string \<Rightarrow> uuid \<Rightarrow> string list \<Rightarrow> api_error_kind + unit" where
  "validate_token A token uaid [] = Inl (InvalidLocalAuth ''incorrect auth token'')"
| "validate_token A token uaid (key # keys) =
     (case sign_with_key A (as_bytes key) (as_bytes (uuid_simple (ea_uuid A) uaid)) of
        Inl e \<Rightarrow> Inl (ApiRegistrationSecretHash e)
      | Inr expected_token \<Rightarrow>
          if length expected_token = length token \<and> expected_token = token then Inr ()
          else validate_token A token uaid keys)"

definition get_token_from_auth_header :: "string \<Rightarrow> string option" where
  "get_token_from_auth_header header =
     (case split_once (CHR '' '') header of
        None \<Rightarrow> None
      | Some (scheme, token) \<Rightarrow>
          if to_lowercase scheme \<notin> {''bearer'', ''webpush''} then None else Some token)"

definition path_uaid :: "('u, 'x) ep_app \<Rightarrow> http_request \<Rightarrow> 'x \<Rightarrow> (api_fail, uuid, 'x) outcome" where
  "path_uaid A rq x =
     (case rq_match_info rq ''uaid'' of
        None \<Rightarrow> (Inl (Panic ''{uaid} must be part of the path''), x)
      | Some s \<Rightarrow> (case uuid_parse (ea_uuid A) s of None \<Rightarrow> fail NoUser x | Some uaid \<Rightarrow> (Inr uaid, x)))"

definition authorization_check :: "('u, 'x) ep_app \<Rightarrow> http_request \<Rightarrow> 'x \<Rightarrow> (api_fail, unit, 'x) outcome" where
  "authorization_check A rq x =
     andThen (path_uaid A rq x) (\<lambda>uaid x.
     (case get_header rq ''Authorization'' of
        None \<Rightarrow> fail (InvalidLocalAuth ''missing auth header'') x
      | Some auth_header \<Rightarrow>
          (case get_token_from_auth_header auth_header of
             None \<Rightarrow> fail (InvalidLocalAuth ''missing auth token'') x
           | Some token \<Rightarrow>
               andThen (panic_step (settings_auth_keys (ea_settings A)) x) (\<lambda>keys x.
                 pure_step (validate_token A token uaid keys) x))))"

section \<open>Path arguments and bodies\<close>

definition registration_path_args :: "http_request \<Rightarrow> 'x \<Rightarrow> (api_fail, router_type \<times> string, 'x) outcome" where
  "registration_path_args rq x =
     (case rq_match_info rq ''router_type'' of
        None \<Rightarrow> (Inl (Panic ''{router_type} must be part of the path''), x)
      | Some s \<Rightarrow>
          (case router_type_from_str s of
             None \<Rightarrow> fail InvalidRouterType x
           | Some t \<Rightarrow>
               (case rq_match_info rq ''app_id'' of
                  None \<Rightarrow> (Inl (Panic ''{app_id} must be part of the path''), x)
                | Some app_id \<Rightarrow> (Inr (t, app_id), x))))"

definition registration_path_args_with_uaid ::
  "('u, 'x) ep_app \<Rightarrow> http_request \<Rightarrow> 'x \<Rightarrow> (api_fail, router_type \<times> string \<times> user, 'x) outcome" where
  "registration_path_args_with_uaid A rq x =
     andThen (registration_path_args rq x) (\<lambda>(t, app_id) x.
     andThen (path_uaid A rq x) (\<lambda>uaid x.
     andThen (db_step (db_get_user (ea_db A) uaid x)) (\<lambda>found x.
       (case found of None \<Rightarrow> fail NoUser x | Some user \<Rightarrow> (Inr (t, app_id, user), x)))))"

text \<open>The two JSON bodies, as \<open>serde\<close> decodes them.\<close>

record ep_json =
  ej_router_data_input :: "payload_error + u8 list \<Rightarrow> payload_error + router_data_input"
  ej_new_channel_data :: "payload_error + u8 list \<Rightarrow> (uuid option \<times> string option) option"

definition VALID_TOKEN :: string where "VALID_TOKEN = ''^[^ ]{8,}$''"
definition VALID_ADM_TOKEN :: string where "VALID_ADM_TOKEN = ''^amzn1.adm-registration.v3.[^ ]{256,}$''"

definition router_data_input_from_request ::
  "('u, 'x) ep_app \<Rightarrow> ep_json \<Rightarrow> http_request \<Rightarrow> 'x \<Rightarrow> (api_fail, router_data_input, 'x) outcome" where
  "router_data_input_from_request A J rq x =
     andThen (registration_path_args rq x) (\<lambda>(t, app_id) x.
     (case ej_router_data_input J (rq_body rq) of
        Inl e \<Rightarrow> fail (ApiPayloadError e) x
      | Inr data \<Rightarrow>
          (let is_valid = (case t of
               WebPush \<Rightarrow> True
             | ADM \<Rightarrow> rx_is_match (ea_rx A) VALID_ADM_TOKEN (ri_token data)
             | _ \<Rightarrow> rx_is_match (ea_rx A) VALID_TOKEN (ri_token data))
           in if \<not> is_valid then fail InvalidRouterToken x else (Inr data, x))))"

section \<open>Registration\<close>

text \<open>The fields of the JSON replies.\<close>

record registration_reply =
  rg_uaid :: "uuid option"
  rg_channel_id :: "uuid option"
  rg_endpoint :: "string option"
  rg_secret :: "string option"
  rg_channel_ids :: "uuid list option"

definition ok_reply :: registration_reply where
  "ok_reply = \<lparr>rg_uaid = None, rg_channel_id = None, rg_endpoint = None, rg_secret = None, rg_channel_ids = None\<rparr>"

definition uuid_or_new :: "('u, 'x) ep_app \<Rightarrow> uuid option \<Rightarrow> 'x \<Rightarrow> uuid \<times> 'x" where
  "uuid_or_new A u x = (case u of Some v \<Rightarrow> (v, x) | None \<Rightarrow> sys_new_uuid (ea_sys A) x)"

definition endpoint_step ::
  "('u, 'x) ep_app \<Rightarrow> uuid \<Rightarrow> uuid \<Rightarrow> string option \<Rightarrow> 'x \<Rightarrow> (api_fail, string, 'x) outcome" where
  "endpoint_step A uaid channel_id key x =
     andThen (panic_step (settings_endpoint_url A) x) (\<lambda>u x.
       mapErr (\<lambda>e. Fail (ApiEndpointUrl e))
         (make_endpoint (ea_uuid A) (ea_lib A) uaid channel_id key (el_url_to_string (ea_lib A) u) x))"

definition first_auth_key :: "('u, 'x) ep_app \<Rightarrow> string + string" where
  "first_auth_key A = (case settings_auth_keys (ea_settings A) of
       Inl e \<Rightarrow> Inl e
     | Inr [] \<Rightarrow> Inl ''At least one auth key must be provided in the settings''
     | Inr (auth_key # _) \<Rightarrow> Inr auth_key)"

definition register_uaid_route ::
  "('u, 'x) ep_app \<Rightarrow> ('k, 'a, 'c, 'x) ep_routers \<Rightarrow> ep_json \<Rightarrow> http_request \<Rightarrow> 'x \<Rightarrow>
     (api_fail, registration_reply, 'x) outcome" where
  "register_uaid_route A RT J rq x =
     andThen (registration_path_args rq x) (\<lambda>(t, app_id) x.
     andThen (router_data_input_from_request A J rq x) (\<lambda>inp x.
     andThen (panic_step (settings_endpoint_url A) x) (\<lambda>_ x.
     andThen (pure_step (map_sum ApiRouter id (routers_register A RT t inp app_id)) x)
       (\<lambda>router_data x.
     (let (dflt, x1) = user_default (ea_sys A) x;
          user = dflt\<lparr>u_router_type := router_type_to_string t, u_router_data := Some router_data,
                     u_current_month := db_rotating_message_table (ea_db A)\<rparr>;
          (channel_id, x2) = uuid_or_new A (ri_channel_id inp) x1
      in andThen (db_step (db_add_user (ea_db A) user x2)) (\<lambda>_ x.
         andThen (db_step (db_add_channel (ea_db A) (u_uaid user) channel_id x)) (\<lambda>_ x.
         andThen (endpoint_step A (u_uaid user) channel_id (ri_key inp) x) (\<lambda>endpoint_url x.
         andThen (panic_step (first_auth_key A) x) (\<lambda>auth_key x.
         andThen (pure_step (map_sum ApiRegistrationSecretHash id (generate_token A auth_key (u_uaid user))) x)
           (\<lambda>secret x.
             (Inr (ok_reply\<lparr>rg_uaid := Some (u_uaid user), rg_channel_id := Some channel_id,
                    rg_endpoint := Some endpoint_url, rg_secret := Some secret\<rparr>), x)))))))))))"

definition unregister_user_route ::
  "('u, 'x) ep_app \<Rightarrow> http_request \<Rightarrow> 'x \<Rightarrow> (api_fail, registration_reply, 'x) outcome" where
  "unregister_user_route A rq x =
     andThen (authorization_check A rq x) (\<lambda>_ x.
     andThen (registration_path_args_with_uaid A rq x) (\<lambda>(t, app_id, user) x.
     andThen (db_step (db_remove_user (ea_db A) (u_uaid user) x)) (\<lambda>_ x. (Inr ok_reply, x))))"

definition update_token_route ::
  "('u, 'x) ep_app \<Rightarrow> ('k, 'a, 'c, 'x) ep_routers \<Rightarrow> ep_json \<Rightarrow> http_request \<Rightarrow> 'x \<Rightarrow>
     (api_fail, registration_reply, 'x) outcome" where
  "update_token_route A RT J rq x =
     andThen (authorization_check A rq x) (\<lambda>_ x.
     andThen (registration_path_args_with_uaid A rq x) (\<lambda>(t, app_id, user) x.
     andThen (router_data_input_from_request A J rq x) (\<lambda>inp x.
     andThen (panic_step (settings_endpoint_url A) x) (\<lambda>_ x.
     andThen (pure_step (map_sum ApiRouter id (routers_register A RT t inp app_id)) x)
       (\<lambda>router_data x.
     (case db_update_user (ea_db A)
         (user\<lparr>u_router_type := router_type_to_string t, u_router_data := Some router_data\<rparr>) x of
        (Inl e, (_, x1)) \<Rightarrow> fail (ApiDatabase e) x1
      | (Inr updated, (_, x1)) \<Rightarrow>
          if \<not> updated then fail (ApiConditional ''update_user'') x1 else (Inr ok_reply, x1)))))))"

definition new_channel_route ::
  "('u, 'x) ep_app \<Rightarrow> ep_json \<Rightarrow> http_request \<Rightarrow> 'x \<Rightarrow> (api_fail, registration_reply, 'x) outcome" where
  "new_channel_route A J rq x =
     andThen (authorization_check A rq x) (\<lambda>_ x.
     andThen (registration_path_args_with_uaid A rq x) (\<lambda>(t, app_id, user) x.
     (let (chid, key) = (case ej_new_channel_data J (rq_body rq) of None \<Rightarrow> (None, None) | Some d \<Rightarrow> d);
          (channel_id, x1) = uuid_or_new A chid x
      in andThen (db_step (db_add_channel (ea_db A) (u_uaid user) channel_id x1)) (\<lambda>_ x.
         andThen (endpoint_step A (u_uaid user) channel_id key x) (\<lambda>endpoint_url x.
           (Inr (ok_reply\<lparr>rg_channel_id := Some channel_id, rg_endpoint := Some endpoint_url\<rparr>), x))))))"

definition get_channels_route ::
  "('u, 'x) ep_app \<Rightarrow> http_request \<Rightarrow> 'x \<Rightarrow> (api_fail, registration_reply, 'x) outcome" where
  "get_channels_route A rq x =
     andThen (authorization_check A rq x) (\<lambda>_ x.
     andThen (registration_path_args_with_uaid A rq x) (\<lambda>(t, app_id, user) x.
     andThen (db_step (db_get_channels (ea_db A) (u_uaid user) x)) (\<lambda>channel_ids x.
       (Inr (ok_reply\<lparr>rg_uaid := Some (u_uaid user), rg_channel_ids := Some channel_ids\<rparr>), x))))"

definition unregister_channel_route ::
  "('u, 'x) ep_app \<Rightarrow> http_request \<Rightarrow> 'x \<Rightarrow> (api_fail, registration_reply, 'x) outcome" where
  "unregister_channel_route A rq x =
     andThen (authorization_check A rq x) (\<lambda>_ x.
     andThen (registration_path_args_with_uaid A rq x) (\<lambda>(t, app_id, user) x.
     (case rq_match_info rq ''chid'' of
        None \<Rightarrow> (Inl (Panic ''{chid} must be part of the path''), x)
      | Some s \<Rightarrow>
          (case uuid_parse (ea_uuid A) s of
             None \<Rightarrow> fail NoSubscription x
           | Some channel_id \<Rightarrow>
               andThen (db_step (db_remove_channel (ea_db A) (u_uaid user) channel_id x)) (\<lambda>channel_did_exist x.
                 if channel_did_exist then (Inr ok_reply, x) else fail NoSubscription x)))))"

section \<open>Health\<close>

datatype table_health = TableOk | TableNotOk string

definition interpret_table_health :: "(db_error \<Rightarrow> string) \<Rightarrow> db_error + bool \<Rightarrow> table_health" where
  "interpret_table_health render h = (case h of
       Inr True \<Rightarrow> TableOk
     | Inr False \<Rightarrow> TableNotOk ''Nonexistent table''
     | Inl e \<Rightarrow> TableNotOk (render e))"

record ep_health =
  eh_router_table :: table_health
  eh_message_table :: table_health
  eh_adm_active :: bool
  eh_apns_active :: bool
  eh_fcm_active :: bool

definition ep_health_route ::
  "('u, 'x) ep_app \<Rightarrow> ('k, 'a, 'c, 'x) ep_routers \<Rightarrow> (db_error \<Rightarrow> string) \<Rightarrow> 'x \<Rightarrow> ep_health \<times> 'x" where
  "ep_health_route A RT render x =
     (let (r, x1) = db_router_table_exists (ea_db A) x; (m, x2) = db_message_table_exists (ea_db A) x1 in
      (\<lparr>eh_router_table = interpret_table_health render r, eh_message_table = interpret_table_health render m,
        eh_adm_active = adm_active (er_adm RT), eh_apns_active = apns_active (er_apns RT),
        eh_fcm_active = fcm_active (er_fcm RT)\<rparr>, x2))"

end
