(* ===== verification/EpFlows.thy ===== *)
theory EpFlows
  imports EpRoutes
begin

text \<open>
  Properties that span the endpoint's routes: the secret a registration returns is what the
  owner's routes ask for, its endpoint lets pushes through to it, the message id a push
  returns deletes that message, and a recipient reported gone is forgotten.
\<close>

section \<open>Gone recipients\<close>

text \<open>
  What counts as a bridge saying that a recipient is gone, with the world it leaves: Firebase
  answers the message with 404 and a body that can be read, so does Amazon, and Apple answers 410.
\<close>

definition fcm_says_gone :: "('u, 'x) ep_app \<Rightarrow> ('k, 'a, 'x) fcm_router \<Rightarrow> ep_notification \<Rightarrow> 'x \<Rightarrow> 'x \<Rightarrow> bool" where
  "fcm_says_gone A R n x x1 \<longleftrightarrow>
     (\<exists>data token app_id client auth access x0 r body answer.
        u_router_data (en_user n) = Some data \<and> fcm_routing_info A data = Inr (token, app_id) \<and>
        hm_get (fr_clients R) app_id = Some client \<and> fc_authenticator client = Some auth \<and>
        length (ea_json_text A (json_of_strings (build_message_data A n))) \<le> fc_max_data client \<and>
        fl_token (fr_lib R) auth x = (Inr (Some access), x0) \<and>
        fl_post (fr_lib R) (fc_endpoint client) (''Bearer '' @ access)
          (fcm_message token (fcm_ttl R n) (build_message_data A n)) (fc_timeout client) x0 = (Inr r, x1) \<and>
        hr_status r = 404 \<and> hr_body r = Inr body \<and> body \<noteq> [] \<and> fl_response (fr_lib R) body = Inr answer)"

definition adm_says_gone ::
  "('u, 'x) ep_app \<Rightarrow> (nat \<Rightarrow> string) \<Rightarrow> 'x adm_router \<Rightarrow> ep_notification \<Rightarrow> 'x \<Rightarrow> 'x \<Rightarrow> bool" where
  "adm_says_gone A show_status R n x x1 \<longleftrightarrow>
     (\<exists>data registration_id profile client message access x0 url r body reason.
        u_router_data (en_user n) = Some data \<and> router_str A data ''token'' = Some registration_id \<and>
        adm_profile_of A data = Some profile \<and> hm_get (ar_clients R) profile = Some client \<and>
        message = ea_json_text A (JObj [(''data'', json_of_strings (build_message_data A n)), (''expiresAfter'', JInt (int (adm_ttl R n)))]) \<and>
        length message \<le> ac_max_data client \<and>
        adm_get_access_token A (ar_lib R) show_status client x = (Inr (Inr access), x0) \<and>
        al_join (ar_lib R) (ac_base_url client) (''messaging/registrations/'' @ registration_id @ ''/messages'') = Inr url \<and>
        al_post (ar_lib R) url
          [(''Authorization'', ''Bearer '' @ access), (''Content-Type'', ''application/json''),
           (''Accept'', ''application/json''),
           (''X-Amzn-Type-Version'', ''com.amazon.device.messaging.ADMMessage@1.0''),
           (''X-Amzn-Accept-Type'', ''com.amazon.device.messaging.ADMSendResult@1.0'')]
          message (ac_timeout client) x0 = (Inr r, x1) \<and>
        hr_status r = 404 \<and> hr_body r = Inr body \<and> al_error_response (ar_lib R) body = Inr reason)"

definition apns_says_gone :: "('u, 'x) ep_app \<Rightarrow> ('c, 'x) apns_router \<Rightarrow> ep_notification \<Rightarrow> 'x \<Rightarrow> 'x \<Rightarrow> bool" where
  "apns_says_gone A R n x x1 \<longleftrightarrow>
     (\<exists>data token channel cd aps payload text reason.
        u_router_data (en_user n) = Some data \<and> router_str A data ''token'' = Some token \<and>
        router_str A data ''rel_channel'' = Some channel \<and> hm_get (nr_clients R) channel = Some cd \<and>
        apns_aps_of A R data = Inr aps \<and> payload = apns_payload_of A n aps token (nd_topic cd) \<and>
        nl_payload_json (nr_lib R) payload = Inr text \<and> length text \<le> ns_max_data (nr_settings R) \<and>
        nl_send (nr_lib R) (nd_client cd) payload x = (Inl (A2ResponseError 410 reason), x1))"

definition says_gone ::
  "('u, 'x) ep_app \<Rightarrow> ('k, 'a, 'c, 'x) ep_routers \<Rightarrow> router_type \<Rightarrow> ep_notification \<Rightarrow> 'x \<Rightarrow> 'x \<Rightarrow> bool" where
  "says_gone A RT t n x x1 \<longleftrightarrow> (case t of
       WebPush \<Rightarrow> False
     | FCM \<Rightarrow> fcm_says_gone A (er_fcm RT) n x x1 | GCM \<Rightarrow> fcm_says_gone A (er_fcm RT) n x x1
     | ADM \<Rightarrow> adm_says_gone A (er_show_status RT) (er_adm RT) n x x1
     | APNS \<Rightarrow> apns_says_gone A (er_apns RT) n x x1)"

definition gone_error :: "router_type \<Rightarrow> router_error" where
  "gone_error t = (if t = APNS then RApns Unregistered else RNotFound)"

lemma bridge_call_gone_iff:
  assumes "fst r \<noteq> Inl (Fail (ApiRouter RNotFound))"
  shows "bridge_call A u r = (Inl (Fail (ApiRouter RNotFound)), x') \<longleftrightarrow>
    (\<exists>x1. r = (Inr (Inl RNotFound), x1) \<and> x' = snd (db_remove_user (ea_db A) u x1))"
  using assms by (cases r) (auto simp: bridge_call_def handle_error_def split: sum.splits router_error.splits)

lemma fcm_error_of_gone:
  "fcm_error_of L show r = RNotFound \<longleftrightarrow>
     hr_status r = 404 \<and> (\<exists>body answer. hr_body r = Inr body \<and> body \<noteq> [] \<and> fl_response L body = Inr answer)"
  by (auto simp: fcm_error_of_def split: sum.splits option.splits)

lemma fcm_send_gone:
  "fcm_send A L show c data token ttl x = (Inr (Inl RNotFound), x1) \<longleftrightarrow>
     (\<exists>auth access x0 r. fc_authenticator c = Some auth \<and> length (ea_json_text A (json_of_strings data)) \<le> fc_max_data c \<and>
        fl_token L auth x = (Inr (Some access), x0) \<and>
        fl_post L (fc_endpoint c) (''Bearer '' @ access) (fcm_message token ttl data) (fc_timeout c) x0 = (Inr r, x1) \<and>
        400 \<le> hr_status r \<and> hr_status r < 600 \<and> fcm_error_of L show r = RNotFound)"
  by (auto simp: fcm_send_def fcm_message_def message_size_check_def Let_def not_less
      split: sum.splits option.splits prod.splits if_splits)

lemma fcm_gone:
  "fcm_route_notification A eu show R n x = (Inl (Fail (ApiRouter RNotFound)), x') \<longleftrightarrow>
     (\<exists>x1. fcm_says_gone A R n x x1 \<and> x' = snd (db_remove_user (ea_db A) (u_uaid (en_user n)) x1))"
proof -
  have not: "fst (fcm_send A (fr_lib R) show c d t ttl x) \<noteq> Inl (Fail (ApiRouter RNotFound))" for c d t ttl
    using fcm_send_panics by fastforce
  have "fcm_route_notification A eu show R n x = (Inl (Fail (ApiRouter RNotFound)), x') \<longleftrightarrow>
      (\<exists>data token app_id client x1. u_router_data (en_user n) = Some data \<and> fcm_routing_info A data = Inr (token, app_id) \<and>
        hm_get (fr_clients R) app_id = Some client \<and>
        fcm_send A (fr_lib R) show client (build_message_data A n) token (fcm_ttl R n) x = (Inr (Inl RNotFound), x1) \<and>
        x' = snd (db_remove_user (ea_db A) (u_uaid (en_user n)) x1))"
    by (auto simp: fcm_route_notification_def andThen_Inl_iff bridge_success_Inl bridge_call_gone_iff [OF not]
        split: option.split sum.split prod.split)
  also have "\<dots> \<longleftrightarrow> (\<exists>x1. fcm_says_gone A R n x x1 \<and> x' = snd (db_remove_user (ea_db A) (u_uaid (en_user n)) x1))"
    unfolding fcm_send_gone fcm_error_of_gone fcm_says_gone_def by (rule iffI; (elim exE conjE); fastforce)
  finally show ?thesis .
qed

lemma adm_send_gone:
  "adm_send A L show c data token ttl x = (Inr (Inl RNotFound), x1) \<longleftrightarrow>
     (\<exists>message access x0 url r body reason.
        message = ea_json_text A (JObj [(''data'', json_of_strings data), (''expiresAfter'', JInt (int ttl))]) \<and>
        length message \<le> ac_max_data c \<and> adm_get_access_token A L show c x = (Inr (Inr access), x0) \<and>
        al_join L (ac_base_url c) (''messaging/registrations/'' @ token @ ''/messages'') = Inr url \<and>
        al_post L url
          [(''Authorization'', ''Bearer '' @ access), (''Content-Type'', ''application/json''),
           (''Accept'', ''application/json''),
           (''X-Amzn-Type-Version'', ''com.amazon.device.messaging.ADMMessage@1.0''),
           (''X-Amzn-Accept-Type'', ''com.amazon.device.messaging.ADMSendResult@1.0'')]
          message (ac_timeout c) x0 = (Inr r, x1) \<and>
        hr_status r = 404 \<and> hr_body r = Inr body \<and> al_error_response L body = Inr reason)"
proof -
  have no: "adm_get_access_token A L show c x \<noteq> (Inr (Inl RNotFound), y)" for y
    by (auto simp: adm_get_access_token_def adm_request_token_def adm_json_def Let_def
        split: sum.splits prod.splits if_splits)
  show ?thesis
    by (auto simp: adm_send_def message_size_check_def adm_json_def no Let_def not_less
        split: sum.splits prod.splits if_splits)
qed

lemma adm_gone:
  "adm_route_notification A eu show R n x = (Inl (Fail (ApiRouter RNotFound)), x') \<longleftrightarrow>
     (\<exists>x1. adm_says_gone A show R n x x1 \<and> x' = snd (db_remove_user (ea_db A) (u_uaid (en_user n)) x1))"
proof -
  have not: "fst (adm_send A (ar_lib R) show c d t ttl x) \<noteq> Inl (Fail (ApiRouter RNotFound))" for c d t ttl
    using adm_send_panics by fastforce
  have "adm_route_notification A eu show R n x = (Inl (Fail (ApiRouter RNotFound)), x') \<longleftrightarrow>
      (\<exists>data registration_id profile client x1. u_router_data (en_user n) = Some data \<and>
        router_str A data ''token'' = Some registration_id \<and> adm_profile_of A data = Some profile \<and>
        hm_get (ar_clients R) profile = Some client \<and>
        adm_send A (ar_lib R) show client (build_message_data A n) registration_id (adm_ttl R n) x = (Inr (Inl RNotFound), x1) \<and>
        x' = snd (db_remove_user (ea_db A) (u_uaid (en_user n)) x1))"
    by (auto simp: adm_route_notification_def andThen_Inl_iff bridge_success_Inl adm_update_not_gone
        bridge_call_gone_iff [OF not] split: option.split)
  also have "\<dots> \<longleftrightarrow> (\<exists>x1. adm_says_gone A show R n x x1 \<and> x' = snd (db_remove_user (ea_db A) (u_uaid (en_user n)) x1))"
    unfolding adm_send_gone adm_says_gone_def by (rule iffI; (elim exE conjE); fastforce)
  finally show ?thesis .
qed

lemma apns_handle_error_gone:
  "apns_handle_error A e u x = (Fail (ApiRouter (RApns Unregistered)), x') \<longleftrightarrow>
     (\<exists>reason. e = A2ResponseError 410 reason) \<and> x' = snd (db_remove_user (ea_db A) u x)"
  by (auto simp: apns_handle_error_def split: a2_error.splits)

lemma apns_gone:
  "apns_route_notification A eu R n x = (Inl (Fail (ApiRouter (RApns Unregistered))), x') \<longleftrightarrow>
     (\<exists>x1. apns_says_gone A R n x x1 \<and> x' = snd (db_remove_user (ea_db A) (u_uaid (en_user n)) x1))"
proof
  assume "apns_route_notification A eu R n x = (Inl (Fail (ApiRouter (RApns Unregistered))), x')"
  then show "\<exists>x1. apns_says_gone A R n x x1 \<and> x' = snd (db_remove_user (ea_db A) (u_uaid (en_user n)) x1)"
    by (auto simp: apns_route_notification_def bridge_success_Inl apns_aps_not_unregistered size_check_not_bridge
        apns_says_gone_def message_size_check_def apns_handle_error_gone Let_def not_less
        split: option.splits sum.splits prod.splits if_splits)
next
  assume "\<exists>x1. apns_says_gone A R n x x1 \<and> x' = snd (db_remove_user (ea_db A) (u_uaid (en_user n)) x1)"
  then show "apns_route_notification A eu R n x = (Inl (Fail (ApiRouter (RApns Unregistered))), x')"
    by (auto simp: apns_route_notification_def apns_says_gone_def message_size_check_def apns_handle_error_def Let_def)
qed

text \<open>Claim C33. When Firebase, Amazon or Apple answers a notification by saying that its recipient
  is gone, and only then, the router removes the user from the database (whatever the database
  answers) and the sender is answered 410 with errno 106, so that it gives the subscription up.\<close>

theorem bridges_forget_gone_users:
  assumes "t \<noteq> WebPush"
  shows "(routers_route A RT eu t n x = (Inl (Fail (ApiRouter (gone_error t))), x') \<longleftrightarrow>
      (\<exists>x1. says_gone A RT t n x x1 \<and> x' = snd (db_remove_user (ea_db A) (u_uaid (en_user n)) x1))) \<and>
    rp_status (error_response (ApiRouter (gone_error t))) = 410 \<and>
    rp_body (error_response (ApiRouter (gone_error t))) = ErrorJson 410 (Some 106) (ApiRouter (gone_error t))"
proof -
  have "api_status (ApiRouter (gone_error t)) = 410 \<and> api_errno (ApiRouter (gone_error t)) = Some 106"
    by (simp add: gone_error_def api_status_def api_errno_def router_status_def router_errno_def apns_status_def apns_errno_def)
  moreover have "routers_route A RT eu t n x = (Inl (Fail (ApiRouter (gone_error t))), x') \<longleftrightarrow>
      (\<exists>x1. says_gone A RT t n x x1 \<and> x' = snd (db_remove_user (ea_db A) (u_uaid (en_user n)) x1))"
    using assms by (cases t) (simp_all add: routers_route_def gone_error_def says_gone_def fcm_gone adm_gone apns_gone)
  ultimately show ?thesis by (simp add: error_response_def)
qed

section \<open>The secret of a registration\<close>

lemma validate_token_sound:
  "validate_token A token uaid keys = Inr () \<Longrightarrow> \<exists>key \<in> set keys. generate_token A key uaid = Inr token"
  by (induction keys) (auto simp: generate_token_def split: sum.splits if_splits)

lemma validate_token_complete:
  "generate_token A key uaid = Inr token \<Longrightarrow> key \<in> set keys \<Longrightarrow>
     (\<forall>k \<in> set keys. \<exists>t. generate_token A k uaid = Inr t) \<Longrightarrow> validate_token A token uaid keys = Inr ()"
  by (induction keys) (auto simp: generate_token_def)

text \<open>The token a request presents for a user, and the keys it is checked against.\<close>

definition presents_secret :: "('u, 'x) ep_app \<Rightarrow> http_request \<Rightarrow> bool" where
  "presents_secret A rq \<longleftrightarrow>
     (\<exists>path uaid header token keys key.
        rq_match_info rq ''uaid'' = Some path \<and> uuid_parse (ea_uuid A) path = Some uaid \<and>
        get_header rq ''Authorization'' = Some header \<and> get_token_from_auth_header header = Some token \<and>
        settings_auth_keys (ea_settings A) = Inr keys \<and> key \<in> set keys \<and>
        generate_token A key uaid = Inr token)"

lemma authorization_check_sound:
  assumes "authorization_check A rq x = (Inr (), x')"
  shows "presents_secret A rq \<and> x' = x"
  using assms validate_token_sound
  by (fastforce simp: authorization_check_def path_uaid_def andThen_Inr_iff presents_secret_def
      split: option.splits)

lemma authorization_check_frame: "snd (authorization_check A rq x) = x"
  by (auto simp: authorization_check_def path_uaid_def panic_step_def pure_step_def
      split: option.splits sum.splits)

lemma needs_authorization:
  assumes "andThen (authorization_check A rq x) k = (r, x')" and "x' \<noteq> x \<or> (\<exists>v. r = Inr v)"
  shows "presents_secret A rq"
proof (cases "fst (authorization_check A rq x)")
  case (Inl e)
  with assms authorization_check_frame [of A rq x] show ?thesis
    by (cases "authorization_check A rq x") auto
next
  case (Inr u)
  then have "authorization_check A rq x = (Inr (), x)"
    using authorization_check_frame [of A rq x] by (cases "authorization_check A rq x") auto
  then show ?thesis by (rule authorization_check_sound [THEN conjunct1])
qed

text \<open>Claim C19. Only the holder of a registration's secret can act on it: a request to list
  or add channels, to change the router token, to remove a channel or the user has an effect,
  on the database or anywhere else, or is answered with success, only if it carries a token
  that is the signature of the user id in its path under one of the configured keys.\<close>

theorem owner_routes_need_secret:
  assumes "route \<in> {unregister_user_route A, update_token_route A RT J, new_channel_route A J,
      get_channels_route A, unregister_channel_route A}"
    and "route rq x = (r, x')" and "x' \<noteq> x \<or> (\<exists>v. r = Inr v)"
  shows "presents_secret A rq"
  using assms(1)
proof (elim insertE)
  assume "route = unregister_user_route A"
  with assms(2,3) show ?thesis by (simp only: unregister_user_route_def needs_authorization)
next
  assume "route = update_token_route A RT J"
  with assms(2,3) show ?thesis by (simp only: update_token_route_def needs_authorization)
next
  assume "route = new_channel_route A J"
  with assms(2,3) show ?thesis by (simp only: new_channel_route_def needs_authorization)
next
  assume "route = get_channels_route A"
  with assms(2,3) show ?thesis by (simp only: get_channels_route_def needs_authorization)
next
  assume "route = unregister_channel_route A"
  with assms(2,3) show ?thesis by (simp only: unregister_channel_route_def needs_authorization)
qed simp

lemma map_sum_Inr_iff [simp]: "map_sum f id r = Inr v \<longleftrightarrow> r = Inr v"
  by (cases r) auto

section \<open>What a registration leads to\<close>

lemma register_uaid_route_Inr:
  assumes "register_uaid_route A RT J rq x = (Inr reply, x')"
  obtains t path app_id inp router_data user chid ep secret url key z y0 y1 y2 y3
  where "rq_match_info rq ''router_type'' = Some path" and "router_type_from_str path = Some t"
    and "routers_register A RT t inp app_id = Inr router_data"
    and "db_add_user (ea_db A) (user\<lparr>u_router_type := router_type_to_string t,
      u_router_data := Some router_data, u_current_month := db_rotating_message_table (ea_db A)\<rparr>) y0 = (Inr (), y1)"
    and "db_add_channel (ea_db A) (u_uaid user) chid y1 = (Inr (), y2)"
    and "make_endpoint (ea_uuid A) (ea_lib A) (u_uaid user) chid (ri_key inp) (el_url_to_string (ea_lib A) url) y2 = (Inr ep, y3)"
    and "first_auth_key A = Inr key" and "generate_token A key (u_uaid user) = Inr secret"
    and "reply = ok_reply\<lparr>rg_uaid := Some (u_uaid user), rg_channel_id := Some chid,
      rg_endpoint := Some ep, rg_secret := Some secret\<rparr>"
    and "rq_match_info rq ''app_id'' = Some app_id" and "ej_router_data_input J (rq_body rq) = Inr inp"
    and "user_default (ea_sys A) x = (user, z)" and "uuid_or_new A (ri_channel_id inp) z = (chid, y0)"
    and "settings_endpoint_url A = Inr url"
proof -
  have frame: "\<exists>path. rq_match_info rq ''router_type'' = Some path \<and> router_type_from_str path = Some (fst p) \<and>
      rq_match_info rq ''app_id'' = Some (snd p) \<and> x1 = y"
    if "registration_path_args rq y = (Inr p, x1)" for p x1 and y :: 'x
    using that by (auto simp: registration_path_args_def split: option.splits)
  have body: "ej_router_data_input J (rq_body rq) = Inr d \<and> x1 = y"
    if "router_data_input_from_request A J rq y = (Inr d, x1)" for d x1 y
    using that by (cases "ej_router_data_input J (rq_body rq)")
      (auto simp: router_data_input_from_request_def andThen_Inr_iff Let_def split: if_splits dest!: frame)
  obtain user z where user: "user_default (ea_sys A) x = (user, z)" by (rule prod.exhaust)
  show ?thesis
    using assms user
    by (clarsimp simp: register_uaid_route_def endpoint_step_def andThen_Inr_iff Let_def case_prod_beta
        dest!: frame body) (rule that, (assumption | rule refl | rule prod.collapse [symmetric])+)
qed

text \<open>Claim C20. The secret that a registration returns opens the owner's routes for its user id:
  sent in an authorization header of either scheme it is accepted by every server whose list
  of keys contains the key that was first at the time, wherever it stands in the list now, so
  that keys can be rotated.\<close>

theorem registration_secret_authorizes:
  assumes reg: "register_uaid_route A RT J rq x = (Inr reply, x')" and key: "first_auth_key A = Inr key"
    and lib: "ea_uuid B = ea_uuid A" "ea_hmac_sha256 B = ea_hmac_sha256 A" "ea_hex_encode B = ea_hex_encode A"
    and keys: "settings_auth_keys (ea_settings B) = Inr keys" "key \<in> set keys"
    and hmac: "\<forall>k \<in> set keys. \<exists>t u. rg_uaid reply = Some u \<and> generate_token B k u = Inr t"
    and path: "rq_match_info rq' ''uaid'' = Some path" "uuid_parse (ea_uuid B) path = rg_uaid reply"
    and header: "get_header rq' ''Authorization'' = Some (scheme @ '' '' @ secret)" "rg_secret reply = Some secret"
    and scheme: "CHR '' '' \<notin> set scheme" "to_lowercase scheme \<in> {''bearer'', ''webpush''}"
  shows "authorization_check B rq' y = (Inr (), y)"
proof -
  from reg key obtain u where u: "rg_uaid reply = Some u" "generate_token A key u = Inr secret"
    using header(2) by (elim register_uaid_route_Inr) (simp add: ok_reply_def)
  have "generate_token B key u = Inr secret"
    using u(2) lib by (simp add: generate_token_def sign_with_key_def split: sum.splits)
  then have "validate_token B secret u keys = Inr ()"
    using hmac u(1) keys(2) by (intro validate_token_complete) auto
  moreover have "get_token_from_auth_header (scheme @ '' '' @ secret) = Some secret"
    using scheme by (simp add: get_token_from_auth_header_def split_once_append)
  ultimately show ?thesis
    using path header(1) keys(1) u(1) by (simp add: authorization_check_def path_uaid_def)
qed

section \<open>Deleting a message\<close>

text \<open>Matches of \<open>^[0-9A-Za-z\-_]+=*$\<close> are ASCII text without a colon.\<close>

definition base64_regex_ok :: "regex_lib \<Rightarrow> bool" where
  "base64_regex_ok rx \<longleftrightarrow>
     (\<forall>t. rx_is_match rx VALID_BASE64_URL t \<longrightarrow> is_ascii t \<and> CHR '':'' \<notin> set t)"

lemma pushed_message_id:
  assumes lib: "uuid_lib_ok (ea_uuid A)" "fernet_ok (ea_lib A) (ea_fernet_decrypt A)" "base64_regex_ok (ea_rx A)"
    and push: "notification_from_request A rq x = (Inr n, x')"
  shows "message_id_decrypt (ea_uuid A) (ea_fernet_decrypt A) (en_message_id n) =
    Inr (message_id_of (u_uaid (en_user n)) (su_channel_id (en_subscription n)) (eh_topic (en_headers n))
      (en_sort_key_timestamp n))" (is "_ = Inr ?m")
proof -
  from notification_from_request_Inr(4) [OF push] obtain y where
    y: "en_message_id n = fst (message_id_encrypt (ea_uuid A) (ea_lib A) ?m y)" ..
  have "message_id_wf ?m"
    using notification_from_request_Inr(3) [OF push] lib(3)
    by (auto simp: message_id_wf_def message_id_of_def base64_regex_ok_def split: option.split)
  with message_id_roundtrip [OF lib(1,2) this, of y] show ?thesis by (simp only: y)
qed

lemma message_id_sort_key_stored:
  assumes "en_sort_key_timestamp n \<noteq> 0"
  shows "chidmessageid lib sys (ep_into_notification n) x =
    (message_id_sort_key lib (message_id_of u (su_channel_id (en_subscription n)) (eh_topic (en_headers n))
      (en_sort_key_timestamp n)), x)"
  using assms by (simp add: chidmessageid_def message_id_sort_key_def message_id_of_def ep_into_notification_def Let_def
      split: option.split)

text \<open>The message id that a push request is answered with deletes that very message:
  the delete route asks the database to remove, for the user the subscription belongs to, the
  message with the sort key under which the notification is stored, and answers 204.\<close>

theorem delete_hits_pushed_message:
  assumes lib: "uuid_lib_ok (ea_uuid A)" "fernet_ok (ea_lib A) (ea_fernet_decrypt A)" "base64_regex_ok (ea_rx A)"
    and push: "notification_from_request A rq x = (Inr n, x')"
    and clock: "\<And>y. fst (sys_now_ms (ea_sys A) y) \<noteq> 0"
    and del: "rq_match_info rq' ''message_id'' = Some (en_message_id n)"
  shows "delete_notification_route A rq' y =
    (case db_remove_message (ea_db A) (u_uaid (en_user n))
         (fst (chidmessageid (ea_uuid A) (ea_sys A) (ep_into_notification n) z)) y of
       (Inl e, y') \<Rightarrow> (Inl (Fail (ApiDatabase e)), y')
     | (Inr _, y') \<Rightarrow> (Inr (empty_reply 204), y'))"
proof -
  from notification_from_request_Inr(5) [OF push] clock have "en_sort_key_timestamp n \<noteq> 0" by auto
  note key = message_id_sort_key_stored [OF this, of "ea_uuid A" "ea_sys A" z "u_uaid (en_user n)"]
  have "message_id_uaid (message_id_of u c t s) = u" for u c t s
    by (simp add: message_id_uaid_def message_id_of_def split: option.split)
  with key pushed_message_id [OF lib push] del show ?thesis
    by (simp add: delete_notification_route_def message_id_from_request_def db_step_def andThen_def mapErr_def
        split: prod.split sum.split)
qed

section \<open>The endpoint of a registration\<close>

text \<open>The router data of a registration for the application \<open>app_id\<close>: JSON text by key.\<close>

definition registered_fields ::
  "('u, 'x) ep_app \<Rightarrow> router_type \<Rightarrow> router_data_input \<Rightarrow> string \<Rightarrow> string \<Rightarrow> string option" where
  "registered_fields A t inp app_id =
     (let json_str = (\<lambda>s. ea_json_text A (JStr s)); token = [''token'' \<mapsto> json_str (ri_token inp)] in
      case t of
        WebPush \<Rightarrow> Map.empty
      | ADM \<Rightarrow> token(''creds'' \<mapsto> ea_json_text A (JObj [(''profile'', JStr app_id)]))
      | APNS \<Rightarrow> (case ri_aps inp of
            None \<Rightarrow> token(''rel_channel'' \<mapsto> json_str app_id)
          | Some aps \<Rightarrow> token(''rel_channel'' \<mapsto> json_str app_id, ''aps'' \<mapsto> json_str aps))
      | _ \<Rightarrow> token(''app_id'' \<mapsto> json_str app_id))"

lemma routers_register_fields:
  "routers_register A RT t inp app_id = Inr data \<Longrightarrow> hm_get data = registered_fields A t inp app_id"
  by (cases t) (auto simp: routers_register_def registered_fields_def fcm_register_def adm_register_def apns_register_def
      Let_def fun_eq_iff split: if_splits option.splits)

text \<open>Claim C25. A registration for a mobile bridge stores a new user of that router type whose router
  data are the token of the request's body and the application of its path, and the channel the
  body names (or a new one). It returns their ids and an endpoint below the server's own URL that
  lets pushes through to exactly this user and channel, under the registered key if there is
  one. The user passes the checks of a push for FCM, APNS and ADM; a registration for GCM is
  accepted in the same way, but the first push to it removes the user and fails with 410.\<close>

theorem registration_outcome:
  assumes codec: "token_codec_ok A"
    and reg: "register_uaid_route A RT J rq x = (Inr reply, x')"
    and path: "rq_match_info rq ''router_type'' = Some path" "router_type_from_str path = Some t" "t \<noteq> WebPush"
  shows "\<exists>dflt user data app_id inp chid ep version token raw_key url parsed root final z y0 y1 y2.
    rq_match_info rq ''app_id'' = Some app_id \<and> ej_router_data_input J (rq_body rq) = Inr inp \<and>
    user_default (ea_sys A) x = (dflt, z) \<and> uuid_or_new A (ri_channel_id inp) z = (chid, y0) \<and>
    user = dflt\<lparr>u_router_type := router_type_to_string t, u_router_data := Some data,
      u_current_month := db_rotating_message_table (ea_db A)\<rparr> \<and>
    hm_get data = registered_fields A t inp app_id \<and>
    db_add_user (ea_db A) user y0 = (Inr (), y1) \<and>
    db_add_channel (ea_db A) (u_uaid user) chid y1 = (Inr (), y2) \<and>
    rg_uaid reply = Some (u_uaid user) \<and> rg_channel_id reply = Some chid \<and> rg_endpoint reply = Some ep \<and>
    settings_endpoint_url A = Inr url \<and> el_url_parse (ea_lib A) (el_url_to_string (ea_lib A) url) = Inr parsed \<and>
    el_url_join (ea_lib A) parsed ''wpush/'' = Inr root \<and>
    el_url_join (ea_lib A) root (version @ ''/'' @ token) = Inr final \<and> ep = el_url_to_string (ea_lib A) final \<and>
    lets_through A version token raw_key (u_uaid user) chid \<and>
    (case ri_key inp of None \<Rightarrow> raw_key = None
     | Some k \<Rightarrow> \<exists>bs. b64_decode_url (ea_lib A) k = Inr bs \<and> raw_key = Some bs) \<and>
    (\<forall>y. validate_user A user chid y =
       (if t = GCM then andThen (drop_user A (u_uaid user) y) (\<lambda>_ y. fail (ApiRouter RNotFound) y)
        else (Inr t, y)))"
proof -
  obtain t' path' app_id inp data dflt chid ep secret url key z y0 y1 y2 y3
    where path': "rq_match_info rq ''router_type'' = Some path'" "router_type_from_str path' = Some t'"
      and data: "routers_register A RT t' inp app_id = Inr data"
      and add': "db_add_user (ea_db A) (dflt\<lparr>u_router_type := router_type_to_string t',
        u_router_data := Some data, u_current_month := db_rotating_message_table (ea_db A)\<rparr>) y0 = (Inr (), y1)"
      and chan: "db_add_channel (ea_db A) (u_uaid dflt) chid y1 = (Inr (), y2)"
      and made: "make_endpoint (ea_uuid A) (ea_lib A) (u_uaid dflt) chid (ri_key inp) (el_url_to_string (ea_lib A) url) y2 = (Inr ep, y3)"
      and "first_auth_key A = Inr key" "generate_token A key (u_uaid dflt) = Inr secret"
      and reply: "reply = ok_reply\<lparr>rg_uaid := Some (u_uaid dflt), rg_channel_id := Some chid,
        rg_endpoint := Some ep, rg_secret := Some secret\<rparr>"
      and rest: "rq_match_info rq ''app_id'' = Some app_id" "ej_router_data_input J (rq_body rq) = Inr inp"
        "user_default (ea_sys A) x = (dflt, z)" "uuid_or_new A (ri_channel_id inp) z = (chid, y0)"
        "settings_endpoint_url A = Inr url"
    by (rule register_uaid_route_Inr [OF reg])
  have "t' = t" using path path' by simp
  note add = add' [unfolded this] and fields = routers_register_fields [OF data [unfolded this]]
  let ?user = "dflt\<lparr>u_router_type := router_type_to_string t, u_router_data := Some data,
    u_current_month := db_rotating_message_table (ea_db A)\<rparr>"
  obtain version token raw_key parsed root final where ep:
    "el_url_parse (ea_lib A) (el_url_to_string (ea_lib A) url) = Inr parsed" "el_url_join (ea_lib A) parsed ''wpush/'' = Inr root"
    "el_url_join (ea_lib A) root (version @ ''/'' @ token) = Inr final" "ep = el_url_to_string (ea_lib A) final"
    "case ri_key inp of None \<Rightarrow> raw_key = None | Some k \<Rightarrow> \<exists>bs. b64_decode_url (ea_lib A) k = Inr bs \<and> raw_key = Some bs"
    "lets_through A version token raw_key (u_uaid ?user) chid"
    using make_endpoint_opens [OF codec made] by auto
  have "validate_user A ?user chid y =
      (if t = GCM then andThen (drop_user A (u_uaid ?user) y) (\<lambda>_ y. fail (ApiRouter RNotFound) y) else (Inr t, y))" for y
    using path(3) by (cases t) (simp_all add: validate_user_def router_type_roundtrip)
  moreover have "rg_uaid reply = Some (u_uaid ?user)" "rg_channel_id reply = Some chid" "rg_endpoint reply = Some ep"
    "db_add_channel (ea_db A) (u_uaid ?user) chid y1 = (Inr (), y2)"
    using reply chan by simp_all
  ultimately show ?thesis
    by - (rule exI [of _ dflt], rule exI [of _ ?user], rule exI [of _ data], rule exI [of _ app_id], rule exI [of _ inp], rule exI [of _ chid], rule exI [of _ ep], rule exI [of _ version], rule exI [of _ token],
        rule exI [of _ raw_key], rule exI [of _ url], rule exI [of _ parsed], rule exI [of _ root], rule exI [of _ final], rule exI [of _ z], rule exI [of _ y0], rule exI [of _ y1], rule exI [of _ y2],
        (intro conjI rest fields add ep refl allI; assumption))
qed

section \<open>Witnesses\<close>

definition demo_mem_adm :: "mem_db adm_router" where
  "demo_mem_adm = \<lparr>ar_settings = ar_settings demo_adm_router, ar_clients = [],
     ar_lib = \<lparr>al_join = (\<lambda>u s. Inr (u @ s)),
       al_post_form = (\<lambda>url form x. (Inr \<lparr>hr_status = 200, hr_body = Inr []\<rparr>, x)),
       al_post = (\<lambda>url hs body timeout x. (Inr \<lparr>hr_status = 200, hr_body = Inr []\<rparr>, x)),
       al_token_response = (\<lambda>bs. Inr (''grant'', 3600)), al_error_response = (\<lambda>bs. Inr None),
       al_send_response = (\<lambda>bs. Inr ''id2''), al_profiles = (\<lambda>s. Inr []),
       al_token_info = (\<lambda>p x. \<lparr>at_token = [], at_expiration_time = 0\<rparr>), al_set_token_info = (\<lambda>p ti x. x)\<rparr>\<rparr>"

text \<open>Firebase answers 404 to every message.\<close>

definition demo_gone_fcm :: "(string, string, mem_db) fcm_router" where
  "demo_gone_fcm = (demo_fcm_router (Some ''key''))\<lparr>fr_lib := demo_fcm_lib\<lparr>fl_post :=
     (\<lambda>url auth body timeout x. (Inr \<lparr>hr_status = 404, hr_body = Inr [1]\<rparr>, x))\<rparr>\<rparr>"

definition demo_routers :: "(string, string, unit, mem_db) ep_routers" where
  "demo_routers = \<lparr>er_fcm = demo_gone_fcm, er_apns = demo_apns_router, er_adm = demo_mem_adm,
     er_show_status = show_nat\<rparr>"

lemma demo_says_gone: "says_gone demo_ep demo_routers FCM demo_fcm_push demo_ep_store demo_ep_store"
proof -
  have "u_router_data (en_user demo_fcm_push) = Some demo_fcm_data"
    by (simp add: demo_fcm_push_def demo_sub_def)
  moreover have "fcm_routing_info demo_ep demo_fcm_data = Inr (''token-1'', ''app'')"
    by (rule fcm_registered_routing [OF demo_json demo_fcm_registered, simplified])
  moreover have "hm_get (fr_clients demo_gone_fcm) ''app'' = Some (demo_fcm_client (Some ''key''))"
    "fc_authenticator (demo_fcm_client (Some ''key'')) = Some ''key''"
    by (simp_all add: demo_gone_fcm_def demo_fcm_router_def demo_fcm_client_def)
  moreover have "length (ea_json_text demo_ep (json_of_strings (build_message_data demo_ep demo_fcm_push))) \<le>
      fc_max_data (demo_fcm_client (Some ''key''))"
    by (simp add: demo_fcm_client_def json_of_strings_def demo_ep_with_def)
  moreover have "fl_token (fr_lib demo_gone_fcm) ''key'' demo_ep_store = (Inr (Some ''key''), demo_ep_store)"
    "fl_post (fr_lib demo_gone_fcm) u b m tm demo_ep_store = (Inr \<lparr>hr_status = 404, hr_body = Inr [1]\<rparr>, demo_ep_store)"
    "fl_response (fr_lib demo_gone_fcm) [1] = Inr None" for u b m tm
    by (simp_all add: demo_gone_fcm_def demo_fcm_lib_def)
  ultimately show ?thesis by (simp add: says_gone_def fcm_says_gone_def demo_routers_def)
qed

theorem bridges_forget_gone_users_witness:
  "\<exists>x'. routers_route demo_ep demo_routers ''https://push'' FCM demo_fcm_push demo_ep_store =
     (Inl (Fail (ApiRouter RNotFound)), x') \<and> hm_get (m_users x') 5 = None \<and>
     rp_status (error_response (ApiRouter RNotFound)) = 410"
proof -
  have user: "u_uaid (en_user demo_fcm_push) = 5" by (simp add: demo_fcm_push_def demo_sub_def)
  have "hm_get (m_users (snd (db_remove_user (ea_db demo_ep) u m))) u = None" for u m
    by (simp add: demo_ep_with_def mem_client_def in_world_def)
  with bridges_forget_gone_users [of FCM demo_ep demo_routers "''https://push''" demo_fcm_push demo_ep_store] demo_says_gone user
  show ?thesis by (auto simp: gone_error_def)
qed

text \<open>A request to the owner's routes, and one to register, with a body of the fields given.\<close>

definition demo_owner_request :: "uuid \<Rightarrow> string \<Rightarrow> http_request" where
  "demo_owner_request u secret = (header_list [(''Authorization'', ''Bearer '' @ secret)])\<lparr>rq_match_info :=
     [''uaid'' \<mapsto> uuid_simple fixed_uuids u, ''router_type'' \<mapsto> ''fcm'', ''app_id'' \<mapsto> ''app'']\<rparr>"

definition demo_register_request :: http_request where
  "demo_register_request = (header_list [])\<lparr>rq_match_info := [''router_type'' \<mapsto> ''fcm'', ''app_id'' \<mapsto> ''app'']\<rparr>"

definition demo_bodies :: ep_json where
  "demo_bodies = \<lparr>ej_router_data_input = (\<lambda>_. Inr \<lparr>ri_token = ''token-1'', ri_channel_id = Some 9, ri_key = None, ri_aps = None\<rparr>),
     ej_new_channel_data = (\<lambda>_. None)\<rparr>"

definition demo_secret :: "string \<Rightarrow> uuid \<Rightarrow> string" where
  "demo_secret key u = demo_token (as_bytes key @ as_bytes (uuid_simple fixed_uuids u))"

lemma demo_generate_token: "generate_token demo_ep key u = Inr (demo_secret key u)"
  by (simp add: generate_token_def sign_with_key_def demo_ep_with_def demo_secret_def)

lemma demo_auth_keys: "settings_auth_keys (ea_settings demo_ep) = Inr [''k1'', ''k2'']"
  by (simp add: settings_auth_keys_def demo_ep_with_def demo_ep_settings_def read_list_from_str_def starts_with_def)

lemma demo_path_uaid: "uuid_parse (ea_uuid demo_ep) (uuid_simple fixed_uuids u) = Some u"
  using uuid_simple_props [OF demo_ep_codec(1)] by (simp add: demo_ep_with_def)

lemma demo_header: "get_token_from_auth_header (''Bearer '' @ s) = Some s"
  by (simp add: get_token_from_auth_header_def to_lowercase_def lower_char_def char_of_eq_iff)

lemma demo_token_printable: "c \<in> set (demo_token bs) \<Longrightarrow> 32 \<le> (of_char c :: nat) \<and> (of_char c :: nat) \<le> 126"
  using demo_token_chars [of c bs] by (auto simp: nibble_val)

lemma demo_owner_fields:
  "get_header (demo_owner_request u (demo_secret key v)) ''Authorization'' = Some (''Bearer '' @ demo_secret key v)"
  "rq_match_info (demo_owner_request u s) ''uaid'' = Some (uuid_simple fixed_uuids u)"
  "rq_match_info (demo_owner_request u s) ''router_type'' = Some ''fcm''"
  "rq_match_info (demo_owner_request u s) ''app_id'' = Some ''app''"
  using demo_token_printable
  by (simp_all add: demo_owner_request_def header_list_def get_header_def header_to_str_def demo_secret_def)

lemma demo_authorized:
  assumes "key \<in> {''k1'', ''k2''}"
  shows "authorization_check demo_ep (demo_owner_request u (demo_secret key u)) x = (Inr (), x)"
proof -
  have "validate_token demo_ep (demo_secret key u) u [''k1'', ''k2''] = Inr ()"
    using assms by (intro validate_token_complete [OF demo_generate_token]) (auto simp: demo_generate_token)
  then show ?thesis
    by (simp only: authorization_check_def path_uaid_def demo_owner_fields demo_path_uaid demo_header
        demo_auth_keys andThen_simps panic_step_simps pure_step_simps option.case)
qed

lemma demo_get_channels:
  "get_channels_route demo_ep (demo_owner_request 5 (demo_secret ''k2'' 5)) demo_ep_store =
     (Inr (ok_reply\<lparr>rg_uaid := Some 5, rg_channel_ids := Some [6, 9]\<rparr>), demo_ep_store)"
proof -
  have "db_get_user (ea_db demo_ep) 5 demo_ep_store = (Inr (Some demo_ep_user), demo_ep_store)"
    "db_get_channels (ea_db demo_ep) 5 demo_ep_store = (Inr [6, 9], demo_ep_store)"
    by (simp_all add: demo_ep_with_def mem_client_def demo_ep_store_def mem_channels_of_def)
  moreover have "router_type_from_str ''fcm'' = Some FCM"
    by (simp add: router_type_from_str_def to_lowercase_def lower_char_def)
  ultimately show ?thesis
    by (simp add: get_channels_route_def demo_authorized registration_path_args_with_uaid_def
        registration_path_args_def path_uaid_def demo_owner_fields demo_path_uaid)
qed

theorem owner_routes_need_secret_witness:
  "presents_secret demo_ep (demo_owner_request 5 (demo_secret ''k2'' 5))"
  by (rule owner_routes_need_secret [where route = "get_channels_route demo_ep", OF _ demo_get_channels]) simp_all

lemma demo_first_key: "first_auth_key demo_ep = Inr ''k1''"
  by (simp add: first_auth_key_def demo_auth_keys)

lemma demo_registered:
  "\<exists>ep x'. register_uaid_route demo_ep demo_routers demo_bodies demo_register_request demo_ep_store =
     (Inr (ok_reply\<lparr>rg_uaid := Some 7, rg_channel_id := Some 9, rg_endpoint := Some ep,
        rg_secret := Some (demo_secret ''k1'' 7)\<rparr>), x')"
proof -
  have t: "router_type_from_str ''fcm'' = Some FCM"
    by (simp add: router_type_from_str_def to_lowercase_def lower_char_def)
  have args: "registration_path_args demo_register_request x = (Inr (FCM, ''app''), x)" for x :: mem_db
    by (simp add: registration_path_args_def demo_register_request_def t)
  have tok: "rx_is_match (ea_rx demo_ep) VALID_TOKEN ''token-1''"
    by (simp add: demo_ep_with_def demo_rx_def token_char_def is_digit_def lower_char_def)
  have inp: "router_data_input_from_request demo_ep demo_bodies demo_register_request x =
      (Inr \<lparr>ri_token = ''token-1'', ri_channel_id = Some 9, ri_key = None, ri_aps = None\<rparr>, x)" for x
    using tok by (simp add: router_data_input_from_request_def args demo_bodies_def)
  have reg: "routers_register demo_ep demo_routers FCM
      \<lparr>ri_token = ''token-1'', ri_channel_id = Some 9, ri_key = None, ri_aps = None\<rparr> ''app'' = Inr demo_fcm_data"
    by (simp add: routers_register_def demo_routers_def demo_gone_fcm_def fcm_register_def demo_fcm_router_def
        demo_ep_with_def demo_fcm_data_def)
  have sys: "ea_sys demo_ep = fixed_sys 1000" by (simp add: demo_ep_with_def)
  have url: "settings_endpoint_url demo_ep = Inr ''https://push/''"
    by (simp add: settings_endpoint_url_def demo_ep_with_def demo_ep_settings_def demo_lib_def)
  have made: "\<exists>ep. make_endpoint (ea_uuid demo_ep) (ea_lib demo_ep) 7 9 None u m = (Inr ep, m)" for u m
    by (simp add: make_endpoint_def demo_ep_with_def demo_lib_def Let_def)
  have add: "\<exists>m'. db_add_user (ea_db demo_ep) u demo_ep_store = (Inr (), m')" if "u_uaid u = 7" for u
    using that by (simp add: demo_ep_with_def mem_client_def in_world_def mem_add_user_def demo_ep_store_def)
  have chan: "\<exists>m'. db_add_channel (ea_db demo_ep) u c m = (Inr (), m')" for u c m
    by (simp add: demo_ep_with_def mem_client_def in_world_def)
  obtain u where u: "\<And>m :: mem_db. user_default (fixed_sys 1000) m = (u, m)" "u_uaid u = 7"
    by (simp add: user_default_def fixed_sys_def)
  let ?user = "u\<lparr>u_router_type := ''fcm'', u_router_data := Some demo_fcm_data,
    u_current_month := db_rotating_message_table (ea_db demo_ep)\<rparr>"
  obtain m1 where m1: "db_add_user (ea_db demo_ep) ?user demo_ep_store = (Inr (), m1)"
    using add [of ?user] u(2) by auto
  obtain m2 where m2: "db_add_channel (ea_db demo_ep) 7 9 m1 = (Inr (), m2)" using chan by blast
  obtain ep where ep: "make_endpoint (ea_uuid demo_ep) (ea_lib demo_ep) 7 9 None
      (el_url_to_string (ea_lib demo_ep) ''https://push/'') m2 = (Inr ep, m2)" using made by blast
  show ?thesis
    using m1 m2 ep u
    by (intro exI [of _ ep] exI [of _ m2]) (simp add: register_uaid_route_def args inp url reg demo_first_key demo_generate_token sys Let_def
        uuid_or_new_def endpoint_step_def router_type_to_string_def)
qed

theorem registration_secret_authorizes_witness:
  "\<exists>reply x' secret. register_uaid_route demo_ep demo_routers demo_bodies demo_register_request demo_ep_store = (Inr reply, x') \<and>
     rg_secret reply = Some secret \<and>
     authorization_check (demo_ep\<lparr>ea_settings := demo_ep_settings\<lparr>es_auth_keys := ''[k0,k1]''\<rparr>\<rparr>)
       (demo_owner_request 7 secret) demo_ep_store = (Inr (), demo_ep_store)"
proof -
  let ?B = "demo_ep\<lparr>ea_settings := demo_ep_settings\<lparr>es_auth_keys := ''[k0,k1]''\<rparr>\<rparr>"
  from demo_registered obtain ep x' where r: "register_uaid_route demo_ep demo_routers demo_bodies demo_register_request
      demo_ep_store = (Inr (ok_reply\<lparr>rg_uaid := Some 7, rg_channel_id := Some 9, rg_endpoint := Some ep,
        rg_secret := Some (demo_secret ''k1'' 7)\<rparr>), x')" by blast
  have keys: "settings_auth_keys (ea_settings ?B) = Inr [''k0'', ''k1'']"
    by (simp add: settings_auth_keys_def demo_ep_settings_def read_list_from_str_def starts_with_def)
  have gen: "generate_token ?B k u = Inr (demo_secret k u)" for k u
    by (simp add: generate_token_def sign_with_key_def demo_ep_with_def demo_secret_def)
  have scheme: "to_lowercase ''Bearer'' = ''bearer''"
    by (simp add: to_lowercase_def lower_char_def char_of_eq_iff)
  have "authorization_check ?B (demo_owner_request 7 (demo_secret ''k1'' 7)) demo_ep_store = (Inr (), demo_ep_store)"
  proof (rule registration_secret_authorizes [OF r demo_first_key _ _ _ keys])
    show "uuid_parse (ea_uuid ?B) (uuid_simple fixed_uuids 7) = rg_uaid (ok_reply\<lparr>rg_uaid := Some 7,
        rg_channel_id := Some 9, rg_endpoint := Some ep, rg_secret := Some (demo_secret ''k1'' 7)\<rparr>)"
      using demo_path_uaid by simp
    show "get_header (demo_owner_request 7 (demo_secret ''k1'' 7)) ''Authorization'' =
        Some (''Bearer'' @ '' '' @ demo_secret ''k1'' 7)"
      by (simp add: demo_owner_fields)
  qed (simp_all add: gen scheme demo_owner_fields)
  with r show ?thesis by fastforce
qed

theorem registration_outcome_witness:
  "\<exists>version token user y0 y1 data. lets_through demo_ep version token None 7 9 \<and>
     db_add_user (ea_db demo_ep) user y0 = (Inr (), y1) \<and> u_uaid user = 7 \<and> u_router_data user = Some data \<and>
     hm_get data ''token'' = Some (ea_json_text demo_ep (JStr ''token-1'')) \<and>
     hm_get data ''app_id'' = Some (ea_json_text demo_ep (JStr ''app''))"
proof -
  from demo_registered obtain ep x' where r: "register_uaid_route demo_ep demo_routers demo_bodies demo_register_request
      demo_ep_store = (Inr (ok_reply\<lparr>rg_uaid := Some 7, rg_channel_id := Some 9, rg_endpoint := Some ep,
        rg_secret := Some (demo_secret ''k1'' 7)\<rparr>), x')" by blast
  have t: "rq_match_info demo_register_request ''router_type'' = Some ''fcm''" "router_type_from_str ''fcm'' = Some FCM"
    by (simp_all add: demo_register_request_def router_type_from_str_def to_lowercase_def lower_char_def)
  from registration_outcome [OF demo_token_codec r t] obtain dflt user data app_id inp chid version token raw_key y0 y1
    where "rq_match_info demo_register_request ''app_id'' = Some app_id" "ej_router_data_input demo_bodies (rq_body demo_register_request) = Inr inp"
      "user = dflt\<lparr>u_router_type := router_type_to_string FCM, u_router_data := Some data, u_current_month := db_rotating_message_table (ea_db demo_ep)\<rparr>"
      "hm_get data = registered_fields demo_ep FCM inp app_id" "db_add_user (ea_db demo_ep) user y0 = (Inr (), y1)"
      "lets_through demo_ep version token raw_key (u_uaid user) chid" "chid = 9" "u_uaid user = 7"
      "case ri_key inp of None \<Rightarrow> raw_key = None | Some k \<Rightarrow> \<exists>bs. b64_decode_url (ea_lib demo_ep) k = Inr bs \<and> raw_key = Some bs"
    by (auto simp del: fun_upd_apply)
  then have "lets_through demo_ep version token None 7 9" "u_uaid user = 7" "u_router_data user = Some data"
    "hm_get data ''token'' = Some (ea_json_text demo_ep (JStr ''token-1''))"
    "hm_get data ''app_id'' = Some (ea_json_text demo_ep (JStr ''app''))" "db_add_user (ea_db demo_ep) user y0 = (Inr (), y1)"
    by (auto simp: demo_register_request_def demo_bodies_def registered_fields_def)
  then show ?thesis by blast
qed

text \<open>A push without authorization to an endpoint of the first API version, for an hour.\<close>

definition demo_v1_request :: http_request where
  "demo_v1_request = demo_push ''v1'' (demo_token (uuid_bytes fixed_uuids 5 @ uuid_bytes fixed_uuids 6)) [(''ttl'', ''3600'')]"

lemma demo_v1_subscription:
  "subscription_from_request demo_ep demo_v1_request demo_ep_store =
     (Inr \<lparr>su_user = demo_ep_user, su_channel_id = 6, su_vapid = None\<rparr>, demo_ep_store)"
proof -
  let ?token = "demo_token (uuid_bytes fixed_uuids 5 @ uuid_bytes fixed_uuids 6)"
  have l: "lets_through demo_ep ''v1'' ?token None 5 6"
  proof (rule lets_throughI)
    have "repad_base64 ?token = ?token"
      using demo_token_shape by (simp add: repad_base64_def dvd_eq_mod_eq_0)
    then show "ea_fernet_decrypt demo_ep (repad_base64 ?token) =
        Some (uuid_bytes (ea_uuid demo_ep) 5 @ uuid_bytes (ea_uuid demo_ep) 6 @ [])"
      by (simp add: demo_ep_with_def demo_untoken_token)
  qed (auto simp: demo_ep_with_def length_uuid_bytes_fixed uuid_of_u8s_fixed)
  have u: "validate_user demo_ep demo_ep_user 6 demo_ep_store = (Inr WebPush, demo_ep_store)"
    by (simp add: validate_user_def router_type_from_str_def demo_ep_user_def to_lowercase_def lower_char_def
        validate_webpush_user_def demo_ep_with_def mem_client_def mem_channels_of_def demo_ep_store_def Let_def)
  have c: "check_vapid demo_ep None demo_ep_store = (Inr (), demo_ep_store)"
    by (simp add: check_vapid_def)
  have m: "rq_match_info demo_v1_request ''api_version'' = Some ''v1''"
    "rq_match_info demo_v1_request ''token'' = Some ?token"
    by (simp_all add: demo_v1_request_def demo_push_def)
  have i: "token_info_from_request demo_v1_request demo_ep_store =
      (Inr \<lparr>ti_api_version = Version1, ti_token = ?token, ti_crypto_key_header = None, ti_auth_header = None\<rparr>, demo_ep_store)"
    by (simp add: token_info_from_request_def demo_v1_request_def demo_push_def header_list_def
      api_version_from_str_def get_owned_header_def get_header_def header_to_str_def)
  have v: "vapid_of_request \<lparr>ti_api_version = Version1, ti_token = ?token, ti_crypto_key_header = None, ti_auth_header = None\<rparr> = Inr None"
    by (simp add: vapid_of_request_def parse_vapid_def)
  have g: "db_get_user (ea_db demo_ep) 5 demo_ep_store = (Inr (Some demo_ep_user), demo_ep_store)"
    by (simp add: demo_ep_with_def mem_client_def demo_ep_store_def)
  show ?thesis
    by (intro lets_throughD [OF l m i v _ g u c]) simp
qed

lemma demo_v1_push:
  "\<exists>n x'. notification_from_request demo_ep demo_v1_request demo_ep_store = (Inr n, x') \<and> u_uaid (en_user n) = 5"
proof -
  have "parse_i64 ''3600'' = Some 3600" by (simp add: parse_i64_def is_digit_def digit_val_def)
  then have "\<exists>h. headers_from_request (ea_rx demo_ep) demo_v1_request False = Inr h"
    by (simp add: headers_from_request_def demo_v1_request_def demo_push_def header_list_def get_owned_header_def
        get_header_def header_to_str_def headers_validate_def EP_MAX_TTL_def Let_def)
  moreover have "rq_body demo_v1_request = Inr []"
    by (simp add: demo_v1_request_def demo_push_def header_list_def)
  ultimately show ?thesis
    by (auto simp: notification_from_request_def demo_v1_subscription build_notification_def Let_def case_prod_beta)
qed

lemma demo_base64_regex: "base64_regex_ok (ea_rx demo_ep)"
proof -
  have "(of_char c :: nat) \<le> 127 \<and> c \<noteq> CHR '':''" if "token_char c" for c
    using that by (auto simp: token_char_def is_digit_def lower_char_def split: if_splits)
  then show ?thesis
    by (auto simp: base64_regex_ok_def demo_ep_with_def demo_rx_def is_ascii_def list_all_iff)
qed

theorem delete_hits_pushed_message_witness:
  "\<exists>n x' k y'. notification_from_request demo_ep demo_v1_request demo_ep_store = (Inr n, x') \<and>
     db_remove_message (ea_db demo_ep) 5 k x' = (Inr (), y') \<and>
     delete_notification_route demo_ep (demo_v1_request\<lparr>rq_match_info := [''message_id'' \<mapsto> en_message_id n]\<rparr>) x' =
       (Inr (empty_reply 204), y')"
proof -
  from demo_v1_push obtain n x' where push: "notification_from_request demo_ep demo_v1_request demo_ep_store = (Inr n, x')"
    and u: "u_uaid (en_user n) = 5" by blast
  have clock: "fst (sys_now_ms (ea_sys demo_ep) y) \<noteq> 0" for y
    by (simp add: demo_ep_with_def fixed_sys_def)
  let ?del = "demo_v1_request\<lparr>rq_match_info := [''message_id'' \<mapsto> en_message_id n]\<rparr>"
  have del: "rq_match_info ?del ''message_id'' = Some (en_message_id n)" by simp
  let ?k = "fst (chidmessageid (ea_uuid demo_ep) (ea_sys demo_ep) (ep_into_notification n) x')"
  obtain y' where "db_remove_message (ea_db demo_ep) 5 ?k x' = (Inr (), y')"
    by (simp add: demo_ep_with_def mem_client_def in_world_def)
  with delete_hits_pushed_message [OF demo_ep_codec demo_base64_regex push clock del, of x' x'] push u show ?thesis
    by (auto intro!: exI [of _ n] exI [of _ ?k])
qed

end
