(* ===== verification/Dual.thy ===== *)
theory Dual
  imports Storage
begin

text \<open>
  The dual data store: \<open>autopush-common/src/db/dual/mod.rs\<close>. \<open>DualClientImpl\<close> is itself
  a \<open>DbClient\<close> built from two others, a primary (Bigtable) and a secondary (DynamoDB), and
  migrates users on the fly: an allowance computed from the bytes of the UAID says which
  users live in the primary. The model is a function from two arbitrary \<open>db_client\<close>s to a
  \<open>db_client\<close>.
\<close>

section \<open>Settings and allotment\<close>

record dual_settings =
  dual_write_to_secondary :: bool
  dual_median :: "u8 option"
  dual_end_median :: "u8 option"

text \<open>
  The parsing of \<open>median\<close> and \<open>end_median\<close> in \<open>new\<close>; \<open>what\<close> is the setting's name.
  \<open>hex\<close> is \<open>hex::decode\<close> with its error as text. The outer \<open>None\<close> is the panic of
  indexing byte 0 of an empty vector.
\<close>

definition parse_median ::
  "(string \<Rightarrow> string + u8 list) \<Rightarrow> string \<Rightarrow> string option \<Rightarrow> (db_error + u8 option) option" where
  "parse_median hex what setting =
     (case setting of
        None \<Rightarrow> Some (Inr None)
      | Some s \<Rightarrow>
          (case hex s of
             Inl e \<Rightarrow> Some (Inl (DbGeneral (''Could not parse '' @ what @
                 '' string. Please use a valid Hex identifier: '' @ e)))
           | Inr [] \<Rightarrow> None
           | Inr (b # _) \<Rightarrow> Some (Inr (Some b))))"

definition should_migrate :: "uuid_lib \<Rightarrow> dual_settings \<Rightarrow> uuid \<Rightarrow> bool" where
  "should_migrate lib cfg uaid =
     (let bytes = uuid_bytes lib uaid;
          r1 = (case dual_median cfg of
                  None \<Rightarrow> False
                | Some median \<Rightarrow> bytes = [] \<or> hd bytes \<le> median);
          r2 = (case dual_end_median cfg of
                  None \<Rightarrow> False
                | Some end_median \<Rightarrow> bytes = [] \<or> last bytes \<le> end_median)
      in r1 \<or> r2)"

definition allot ::
  "uuid_lib \<Rightarrow> dual_settings \<Rightarrow> 'x db_client \<Rightarrow> 'x db_client \<Rightarrow> uuid \<Rightarrow> 'x db_client \<times> bool" where
  "allot lib cfg primary secondary uaid =
     (if should_migrate lib cfg uaid then (primary, True) else (secondary, False))"

text \<open>A call whose result is discarded (\<open>let _ = ...\<close>): only its effect remains.\<close>

definition discard :: "('e, 'a, 's) outcome \<Rightarrow> 's" where
  "discard r = snd r"

section \<open>Operations\<close>

definition dual_add_user where
  "dual_add_user lib cfg p s user x =
     (let (target, is_primary) = allot lib cfg p s (u_uaid user) in
      andThen (db_add_user target user x) (\<lambda>result x1.
        (Inr result,
         if is_primary \<and> dual_write_to_secondary cfg then discard (db_add_user s user x1) else x1)))"

definition dual_update_user where
  "dual_update_user lib cfg p s user x =
     (let (target, is_primary) = allot lib cfg p s (u_uaid user) in
      andThen (db_update_user target user x) (\<lambda>result ux.
        (Inr result,
         if is_primary \<and> dual_write_to_secondary cfg
         then discard (db_update_user s (fst ux) (snd ux)) else ux)))"

definition dual_get_user where
  "dual_get_user lib sys cfg p s uaid x =
     (let (target, is_primary) = allot lib cfg p s uaid in
      case db_get_user target uaid x of
        (Inl err, x1) \<Rightarrow> (Inl err, x1)
      | (Inr (Some user), x1) \<Rightarrow> (Inr (Some user), x1)
      | (Inr None, x1) \<Rightarrow>
          if is_primary then
            (case db_get_user s uaid x1 of
               (Inr (Some user0), x2) \<Rightarrow>
                 (let (version, x3) = sys_new_uuid sys x2;
                      user = user0\<lparr>u_version := Some version\<rparr>
                  in case db_add_user p user x3 of
                       (Inl e, x4) \<Rightarrow>
                         if e \<noteq> Conditional then (Inl e, x4)
                         else andThen (db_get_user p uaid x4) (\<lambda>found x5.
                           if found = None then (Inl (Backoff ''Move in progress''), x5)
                           else (Inr found, x5))
                     | (Inr _, x4) \<Rightarrow>
                         andThen (db_get_channels s uaid x4) (\<lambda>channels x5.
                           if channels \<noteq> [] then
                             andThen (db_add_channels p uaid channels x5) (\<lambda>_ x6.
                               (Inr (Some user), x6))
                           else (Inr (Some user), x5)))
             | (_, x2) \<Rightarrow> (Inr None, x2))
          else (Inr None, x1))"

definition dual_remove_user where
  "dual_remove_user lib cfg p s uaid x =
     (let (target, is_primary) = allot lib cfg p s uaid in
      andThen (db_remove_user target uaid x) (\<lambda>result x1.
        (Inr result, if is_primary then discard (db_remove_user s uaid x1) else x1)))"

definition dual_add_channel where
  "dual_add_channel lib cfg p s uaid channel_id x =
     (let (target, is_primary) = allot lib cfg p s uaid;
          (result, x1) = db_add_channel target uaid channel_id x
      in (result,
          if is_primary \<and> dual_write_to_secondary cfg
          then discard (db_add_channel s uaid channel_id x1) else x1))"

definition dual_add_channels where
  "dual_add_channels lib cfg p s uaid channels x =
     (let (target, is_primary) = allot lib cfg p s uaid;
          (result, x1) = db_add_channels target uaid channels x
      in (result,
          if is_primary \<and> dual_write_to_secondary cfg
          then discard (db_add_channels s uaid channels x1) else x1))"

definition dual_get_channels where
  "dual_get_channels lib cfg p s uaid x = db_get_channels (fst (allot lib cfg p s uaid)) uaid x"

definition dual_remove_channel where
  "dual_remove_channel lib cfg p s uaid channel_id x =
     (let (target, is_primary) = allot lib cfg p s uaid in
      andThen (db_remove_channel target uaid channel_id x) (\<lambda>result x1.
        (Inr result, if is_primary then discard (db_remove_channel s uaid channel_id x1) else x1)))"

definition dual_remove_node_id where
  "dual_remove_node_id lib cfg p s uaid node_id connected_at version x =
     (let (target, is_primary) = allot lib cfg p s uaid in
      andThen (db_remove_node_id target uaid node_id connected_at version x) (\<lambda>result x1.
        if is_primary then
          (let (r2, x2) = db_remove_node_id s uaid node_id connected_at version x1
           in (Inr ((case r2 of Inr b \<Rightarrow> b | Inl e \<Rightarrow> False) \<or> result), x2))
        else (Inr result, x1)))"

definition dual_save_message where
  "dual_save_message lib cfg p s uaid message x =
     (let (target, is_primary) = allot lib cfg p s uaid in
      if is_primary \<and> dual_write_to_secondary cfg then
        andThen (db_save_message s uaid message x) (\<lambda>_ x1. db_save_message target uaid message x1)
      else db_save_message target uaid message x)"

definition dual_remove_message where
  "dual_remove_message lib cfg p s uaid key x =
     (let (target, is_primary) = allot lib cfg p s uaid in
      andThen (db_remove_message target uaid key x) (\<lambda>result x1.
        (Inr result, if is_primary then discard (db_remove_message s uaid key x1) else x1)))"

definition dual_fetch_topic_messages where
  "dual_fetch_topic_messages lib cfg p s uaid limit x =
     (let (target, is_primary) = allot lib cfg p s uaid in
      andThen (db_fetch_topic_messages target uaid limit x) (\<lambda>result x1.
        if fm_messages result = [] \<and> is_primary then db_fetch_topic_messages s uaid limit x1
        else (Inr result, x1)))"

definition dual_fetch_timestamp_messages where
  "dual_fetch_timestamp_messages lib cfg p s uaid timestamp limit x =
     (let (target, is_primary) = allot lib cfg p s uaid in
      andThen (db_fetch_timestamp_messages target uaid timestamp limit x) (\<lambda>result x1.
        if fm_messages result = [] \<and> is_primary
        then db_fetch_timestamp_messages s uaid timestamp limit x1
        else (Inr result, x1)))"

definition dual_save_messages where
  "dual_save_messages lib cfg p s uaid messages x =
     (let (target, is_primary) = allot lib cfg p s uaid in
      if is_primary \<and> dual_write_to_secondary cfg then
        andThen (db_save_messages s uaid messages x) (\<lambda>_ x1. db_save_messages target uaid messages x1)
      else db_save_messages target uaid messages x)"

definition dual_increment_storage where
  "dual_increment_storage lib cfg p s uaid timestamp x =
     (let (target, is_primary) = allot lib cfg p s uaid;
          x1 = (if is_primary then discard (db_increment_storage s uaid timestamp x) else x)
      in db_increment_storage target uaid timestamp x1)"

definition dual_health_check where
  "dual_health_check p s x =
     andThen (db_health_check p x) (\<lambda>ok x1. if ok then db_health_check s x1 else (Inr False, x1))"

definition dual_client ::
  "uuid_lib \<Rightarrow> 'x sys \<Rightarrow> dual_settings \<Rightarrow> 'x db_client \<Rightarrow> 'x db_client \<Rightarrow> 'x db_client" where
  "dual_client lib sys cfg p s =
     \<lparr>db_add_user = dual_add_user lib cfg p s,
      db_update_user = dual_update_user lib cfg p s,
      db_get_user = dual_get_user lib sys cfg p s,
      db_remove_user = dual_remove_user lib cfg p s,
      db_add_channel = dual_add_channel lib cfg p s,
      db_add_channels = dual_add_channels lib cfg p s,
      db_get_channels = dual_get_channels lib cfg p s,
      db_remove_channel = dual_remove_channel lib cfg p s,
      db_remove_node_id = dual_remove_node_id lib cfg p s,
      db_save_message = dual_save_message lib cfg p s,
      db_save_messages = dual_save_messages lib cfg p s,
      db_fetch_topic_messages = dual_fetch_topic_messages lib cfg p s,
      db_fetch_timestamp_messages = dual_fetch_timestamp_messages lib cfg p s,
      db_increment_storage = dual_increment_storage lib cfg p s,
      db_remove_message = dual_remove_message lib cfg p s,
      db_router_table_exists = db_router_table_exists p,
      db_message_table_exists = db_message_table_exists p,
      db_health_check = dual_health_check p s,
      db_rotating_message_table = None,
      db_name = ''Dual''\<rparr>"

section \<open>Mirrored operations\<close>

text \<open>
  Four operations share one contract: run the operation on the allotted store, and on
  success (only) repeat it on the secondary, ignoring what comes of it.
\<close>

locale mirrored_op =
  fixes main :: "'x \<Rightarrow> ('e, 'a, 'x) outcome"
    and mirror :: "'x \<Rightarrow> ('f, 'b, 'x) outcome"
    and mirrored :: bool
    and op :: "'x \<Rightarrow> ('e, 'a, 'x) outcome"
  assumes op_eq: "op x = andThen (main x) (\<lambda>r x1. (Inr r, if mirrored then snd (mirror x1) else x1))"
begin

lemma same_result: "fst (op x) = fst (main x)"
  by (cases "main x"; cases "fst (main x)") (auto simp: op_eq)

lemma failure_not_mirrored: "main x = (Inl e, x1) \<Longrightarrow> op x = (Inl e, x1)"
  by (simp add: op_eq)

lemma success_mirrored: "main x = (Inr r, x1) \<Longrightarrow> mirrored \<Longrightarrow> op x = (Inr r, snd (mirror x1))"
  by (simp add: op_eq)

lemma not_mirrored: "\<not> mirrored \<Longrightarrow> op x = main x"
  by (cases "main x"; cases "fst (main x)") (auto simp: op_eq)

end

abbreviation target_of where
  "target_of lib cfg p s uaid \<equiv> if should_migrate lib cfg uaid then p else s"

interpretation add_user_mirror: mirrored_op
  "db_add_user (target_of lib cfg p s (u_uaid user)) user" "db_add_user s user"
  "should_migrate lib cfg (u_uaid user) \<and> dual_write_to_secondary cfg"
  "dual_add_user lib cfg p s user" for lib cfg p s user
  by unfold_locales (simp add: dual_add_user_def allot_def discard_def cong: if_cong)

interpretation remove_user_mirror: mirrored_op
  "db_remove_user (target_of lib cfg p s uaid) uaid" "db_remove_user s uaid"
  "should_migrate lib cfg uaid" "dual_remove_user lib cfg p s uaid" for lib cfg p s uaid
  by unfold_locales (simp add: dual_remove_user_def allot_def discard_def cong: if_cong)

interpretation remove_channel_mirror: mirrored_op
  "db_remove_channel (target_of lib cfg p s uaid) uaid chid" "db_remove_channel s uaid chid"
  "should_migrate lib cfg uaid" "dual_remove_channel lib cfg p s uaid chid"
  for lib cfg p s uaid chid
  by unfold_locales (simp add: dual_remove_channel_def allot_def discard_def cong: if_cong)

interpretation remove_message_mirror: mirrored_op
  "db_remove_message (target_of lib cfg p s uaid) uaid key" "db_remove_message s uaid key"
  "should_migrate lib cfg uaid" "dual_remove_message lib cfg p s uaid key"
  for lib cfg p s uaid key
  by unfold_locales (simp add: dual_remove_message_def allot_def discard_def cong: if_cong)

section \<open>Properties\<close>

text \<open>For a user outside the allowance the dual client is the secondary alone: every
  per-user operation is the secondary's, and the primary is never called.\<close>

theorem dual_outside_allowance:
  assumes "\<not> should_migrate lib cfg uaid" and "u_uaid user = uaid"
  shows "db_add_user (dual_client lib sys cfg p s) user = db_add_user s user \<and>
    db_update_user (dual_client lib sys cfg p s) user = db_update_user s user \<and>
    db_get_user (dual_client lib sys cfg p s) uaid = db_get_user s uaid \<and>
    db_remove_user (dual_client lib sys cfg p s) uaid = db_remove_user s uaid \<and>
    db_add_channel (dual_client lib sys cfg p s) uaid = db_add_channel s uaid \<and>
    db_add_channels (dual_client lib sys cfg p s) uaid = db_add_channels s uaid \<and>
    db_get_channels (dual_client lib sys cfg p s) uaid = db_get_channels s uaid \<and>
    db_remove_channel (dual_client lib sys cfg p s) uaid = db_remove_channel s uaid \<and>
    db_remove_node_id (dual_client lib sys cfg p s) uaid = db_remove_node_id s uaid \<and>
    db_save_message (dual_client lib sys cfg p s) uaid = db_save_message s uaid \<and>
    db_save_messages (dual_client lib sys cfg p s) uaid = db_save_messages s uaid \<and>
    db_fetch_topic_messages (dual_client lib sys cfg p s) uaid = db_fetch_topic_messages s uaid \<and>
    db_fetch_timestamp_messages (dual_client lib sys cfg p s) uaid = db_fetch_timestamp_messages s uaid \<and>
    db_increment_storage (dual_client lib sys cfg p s) uaid = db_increment_storage s uaid \<and>
    db_remove_message (dual_client lib sys cfg p s) uaid = db_remove_message s uaid"
  using assms
  by (intro conjI ext)
    (simp_all add: dual_client_def allot_def
      dual_add_user_def dual_update_user_def dual_get_user_def dual_remove_user_def
      dual_add_channel_def dual_add_channels_def dual_get_channels_def dual_remove_channel_def
      dual_remove_node_id_def dual_save_message_def dual_save_messages_def
      dual_fetch_topic_messages_def dual_fetch_timestamp_messages_def
      dual_increment_storage_def dual_remove_message_def
      split: prod.splits sum.splits option.splits)

text \<open>The mirror is invisible: whatever the secondary does, the result of adding,
  updating or removing a user, a channel or a message is the result of the same call on
  the store the user is allotted to.\<close>

theorem dual_mirror_invisible:
  "fst (db_add_user (dual_client lib sys cfg p s) user x) =
     fst (db_add_user (target_of lib cfg p s (u_uaid user)) user x) \<and>
   fst (db_update_user (dual_client lib sys cfg p s) user x) =
     fst (db_update_user (target_of lib cfg p s (u_uaid user)) user x) \<and>
   fst (db_remove_user (dual_client lib sys cfg p s) uaid x) =
     fst (db_remove_user (target_of lib cfg p s uaid) uaid x) \<and>
   fst (db_add_channel (dual_client lib sys cfg p s) uaid chid x) =
     fst (db_add_channel (target_of lib cfg p s uaid) uaid chid x) \<and>
   fst (db_remove_channel (dual_client lib sys cfg p s) uaid chid x) =
     fst (db_remove_channel (target_of lib cfg p s uaid) uaid chid x) \<and>
   fst (db_remove_message (dual_client lib sys cfg p s) uaid key x) =
     fst (db_remove_message (target_of lib cfg p s uaid) uaid key x)"
proof -
  have "fst (dual_update_user lib cfg p s user x) =
      fst (db_update_user (target_of lib cfg p s (u_uaid user)) user x)"
    by (cases "db_update_user (target_of lib cfg p s (u_uaid user)) user x";
        cases "fst (db_update_user (target_of lib cfg p s (u_uaid user)) user x)")
      (auto simp: dual_update_user_def allot_def split: if_splits)
  moreover have "fst (dual_add_channel lib cfg p s uaid chid x) =
      fst (db_add_channel (target_of lib cfg p s uaid) uaid chid x)"
    by (simp add: dual_add_channel_def allot_def case_prod_beta)
  ultimately show ?thesis
    by (simp only: dual_client_def db_client.simps add_user_mirror.same_result
        remove_user_mirror.same_result remove_channel_mirror.same_result
        remove_message_mirror.same_result)
qed

text \<open>Two stores side by side in one world: writing the primary leaves the secondary as it is,
  and drawing a random id changes neither.\<close>

definition side_by_side ::
  "'x sys \<Rightarrow> ('x \<Rightarrow> mem_db) \<Rightarrow> (mem_db \<Rightarrow> 'x \<Rightarrow> 'x) \<Rightarrow> ('x \<Rightarrow> mem_db) \<Rightarrow> bool" where
  "side_by_side sys getp putp gets \<longleftrightarrow>
     (\<forall>m x. getp (putp m x) = m \<and> gets (putp m x) = gets x) \<and>
     (\<forall>x. getp (snd (sys_new_uuid sys x)) = getp x \<and> gets (snd (sys_new_uuid sys x)) = gets x)"

lemma side_by_sideD:
  assumes "side_by_side sys getp putp gets"
  shows "getp (putp m x) = m" "gets (putp m x) = gets x"
    "getp (snd (sys_new_uuid sys x)) = getp x" "gets (snd (sys_new_uuid sys x)) = gets x"
  using assms by (simp_all add: side_by_side_def)

lemma set_fold_insert: "set (fold List.insert cs ds) = set ds \<union> set cs"
  by (induction cs arbitrary: ds) auto

lemma mem_channels_of_add:
  "set (mem_channels_of c (mem_add_channels uaid cs m)) =
     set (mem_channels_of c m) \<union> (if c = uaid then set cs else {})"
  by (auto simp: mem_channels_of_def mem_add_channels_def set_fold_insert split: option.splits)

lemma mem_add_channels_rest [simp]:
  "m_users (mem_add_channels uaid cs m) = m_users m" "m_messages (mem_add_channels uaid cs m) = m_messages m"
  by (simp_all add: mem_add_channels_def)

text \<open>The primary after the migration of \<open>user\<close> with the channels \<open>cs\<close>.\<close>

definition migrated_into :: "user \<Rightarrow> uuid list \<Rightarrow> mem_db \<Rightarrow> mem_db \<Rightarrow> bool" where
  "migrated_into user cs before after \<longleftrightarrow>
     m_users after = hm_insert (u_uaid user) user (m_users before) \<and>
     m_messages after = m_messages before \<and>
     (\<forall>c. set (mem_channels_of c after) =
        set (mem_channels_of c before) \<union> (if c = u_uaid user then set cs else {}))"

lemma migrating_step:
  assumes stores: "side_by_side sys getp putp gets"
    and "p = mem_client lib sys getp putp" and "s = mem_client lib sys gets puts"
    and "should_migrate lib cfg uaid" and "hm_get (m_users (getp x)) uaid = None"
    and "hm_get (m_users (gets x)) uaid = Some user" and "u_uaid user = uaid"
    and "db_get_user (dual_client lib sys cfg p s) uaid x = (r, x')"
  defines "user' \<equiv> user\<lparr>u_version := Some (fst (sys_new_uuid sys x))\<rparr>"
  shows "r = Inr (Some user')" and "gets x' = gets x"
    and "migrated_into user' (mem_channels_of uaid (gets x)) (getp x) (getp x')"
proof -
  let ?y = "snd (sys_new_uuid sys x)" and ?cs = "mem_channels_of uaid (gets x)"
  let ?m1 = "(getp x)\<lparr>m_users := hm_insert uaid user' (m_users (getp x))\<rparr>"
  note laws = side_by_sideD [OF stores]
  have "db_get_user (dual_client lib sys cfg p s) uaid x =
      (Inr (Some user'), if ?cs = [] then putp ?m1 ?y else putp (mem_add_channels uaid ?cs ?m1) (putp ?m1 ?y))"
    using assms(2-7) laws
    by (simp add: dual_client_def dual_get_user_def allot_def mem_client_def in_world_def mem_add_user_def user'_def
        split_beta Let_def)
  with assms(8) have r: "r = Inr (Some user')"
    and x': "x' = (if ?cs = [] then putp ?m1 ?y else putp (mem_add_channels uaid ?cs ?m1) (putp ?m1 ?y))"
    by simp_all
  show "r = Inr (Some user')" by (rule r)
  show "gets x' = gets x" using x' laws by simp
  have "getp x' = (if ?cs = [] then ?m1 else mem_add_channels uaid ?cs ?m1)" using x' laws by simp
  moreover have "mem_channels_of c ?m1 = mem_channels_of c (getp x)" for c by (simp add: mem_channels_of_def)
  ultimately show "migrated_into user' ?cs (getp x) (getp x')"
    using assms(7) by (simp add: migrated_into_def mem_channels_of_add user'_def)
qed

text \<open>Claim C39. Looking a user up in a primary and a secondary store that keep the contract of
  the interface and do not disturb each other. Outside the allowance the answer is the
  secondary's. Inside it, a user the primary knows is answered from there; one that neither
  knows is unknown; and one that only the secondary knows is migrated: it is returned under a
  fresh version, the primary then holds exactly that record, with the secondary's channels
  added to its own and nothing of another user changed, and from then on the lookup and the
  channels are answered by the primary, whatever the secondary. The secondary is never changed.\<close>

theorem dual_migrates_user:
  assumes stores: "side_by_side sys getp putp gets"
    and p: "p = mem_client lib sys getp putp" and s: "s = mem_client lib sys gets puts"
    and keyed: "\<forall>user. hm_get (m_users (gets x)) uaid = Some user \<longrightarrow> u_uaid user = uaid"
    and get: "db_get_user (dual_client lib sys cfg p s) uaid x = (r, x')"
  shows "gets x' = gets x \<and>
    (if \<not> should_migrate lib cfg uaid then r = Inr (hm_get (m_users (gets x)) uaid) \<and> x' = x
     else case (hm_get (m_users (getp x)) uaid, hm_get (m_users (gets x)) uaid) of
       (Some user, _) \<Rightarrow> r = Inr (Some user) \<and> x' = x
     | (None, None) \<Rightarrow> r = Inr None \<and> x' = x
     | (None, Some user) \<Rightarrow>
         (let user' = user\<lparr>u_version := Some (fst (sys_new_uuid sys x))\<rparr> in
          r = Inr (Some user') \<and> migrated_into user' (mem_channels_of uaid (gets x)) (getp x) (getp x') \<and>
          (\<forall>s'. db_get_user (dual_client lib sys cfg p s') uaid x' = (Inr (Some user'), x') \<and>
            db_get_channels (dual_client lib sys cfg p s') uaid x' = (Inr (mem_channels_of uaid (getp x')), x'))))"
proof (cases "should_migrate lib cfg uaid \<and> hm_get (m_users (getp x)) uaid = None \<and> hm_get (m_users (gets x)) uaid \<noteq> None")
  case False
  then show ?thesis
    using get by (auto simp: p s dual_client_def dual_get_user_def allot_def mem_client_def split: if_splits option.splits)
next
  case True
  then obtain user where user: "should_migrate lib cfg uaid" "hm_get (m_users (getp x)) uaid = None"
    "hm_get (m_users (gets x)) uaid = Some user" by auto
  have id: "u_uaid user = uaid" using keyed user(3) by simp
  let ?user = "user\<lparr>u_version := Some (fst (sys_new_uuid sys x))\<rparr>"
  note step = migrating_step [OF stores p s user id get]
  from step(3) id have "hm_get (m_users (getp x')) uaid = Some ?user" by (simp add: migrated_into_def)
  then have "db_get_user (dual_client lib sys cfg p s') uaid x' = (Inr (Some ?user), x')"
    "db_get_channels (dual_client lib sys cfg p s') uaid x' = (Inr (mem_channels_of uaid (getp x')), x')" for s'
    using user(1) by (simp_all add: p dual_client_def dual_get_user_def dual_get_channels_def allot_def mem_client_def)
  with step user show ?thesis by (simp add: Let_def)
qed

text \<open>
  A concrete pair of stores for the witnesses: the primary in the first, the secondary in
  the second component of the world, both behaving as the interface promises.
\<close>

type_synonym two_stores = "mem_db \<times> mem_db"

definition demo_primary :: "two_stores db_client" where
  "demo_primary = mem_client decimal_uuids (fixed_sys 5) fst (\<lambda>m x. (m, snd x))"

definition demo_secondary :: "two_stores db_client" where
  "demo_secondary = mem_client decimal_uuids (fixed_sys 5) snd (\<lambda>m x. (fst x, m))"

definition demo_user :: user where
  "demo_user =
     \<lparr>u_uaid = 1, u_connected_at = 10, u_router_type = ''webpush'', u_router_data = None,
      u_last_connect = None, u_node_id = None, u_record_version = Some 1, u_current_month = None,
      u_current_timestamp = None, u_version = None\<rparr>"

definition demo_unmigrated :: two_stores where
  "demo_unmigrated = (mem_empty, \<lparr>m_users = [(1, demo_user)], m_channels = [(1, [5])], m_messages = []\<rparr>)"

definition demo_allowance :: dual_settings where
  "demo_allowance = \<lparr>dual_write_to_secondary = True, dual_median = Some 255, dual_end_median = None\<rparr>"

lemmas demo_stores = demo_primary_def demo_secondary_def mem_client_def demo_unmigrated_def
  mem_empty_def in_world_def mem_add_user_def mem_channels_of_def mem_add_channels_def

lemma demo_migrates: "should_migrate decimal_uuids demo_allowance 1"
  by (simp add: should_migrate_def demo_allowance_def decimal_uuids_def)

lemma demo_side_by_side: "side_by_side (fixed_sys 5) fst (\<lambda>m x. (m, snd x)) snd"
  by (simp add: side_by_side_def fixed_sys_def)

theorem dual_migrates_user_witness:
  "\<exists>x. db_get_user (dual_client decimal_uuids (fixed_sys 5) demo_allowance demo_primary demo_secondary)
     1 demo_unmigrated = (Inr (Some (demo_user\<lparr>u_version := Some 7\<rparr>)), x) \<and>
     migrated_into (demo_user\<lparr>u_version := Some 7\<rparr>) [5] mem_empty (fst x) \<and> snd x = snd demo_unmigrated"
proof -
  obtain r x where get: "db_get_user (dual_client decimal_uuids (fixed_sys 5) demo_allowance
      demo_primary demo_secondary) 1 demo_unmigrated = (r, x)"
    by (rule prod.exhaust)
  have "\<forall>user. hm_get (m_users (snd demo_unmigrated)) 1 = Some user \<longrightarrow> u_uaid user = 1"
    by (simp add: demo_unmigrated_def demo_user_def)
  from dual_migrates_user [OF demo_side_by_side demo_primary_def demo_secondary_def this get] demo_migrates
  have "r = Inr (Some (demo_user\<lparr>u_version := Some 7\<rparr>)) \<and> snd x = snd demo_unmigrated \<and>
      migrated_into (demo_user\<lparr>u_version := Some 7\<rparr>) [5] mem_empty (fst x)"
    by (simp add: demo_unmigrated_def mem_empty_def mem_channels_of_def fixed_sys_def Let_def)
  with get show ?thesis by simp
qed

theorem dual_outside_allowance_witness:
  "db_get_user (dual_client decimal_uuids (fixed_sys 5)
      \<lparr>dual_write_to_secondary = True, dual_median = None, dual_end_median = None\<rparr>
      demo_primary demo_secondary) 1 = db_get_user demo_secondary 1"
proof -
  have "\<not> should_migrate decimal_uuids
      \<lparr>dual_write_to_secondary = True, dual_median = None, dual_end_median = None\<rparr> 1"
    by (simp add: should_migrate_def)
  from dual_outside_allowance [OF this, of demo_user "fixed_sys 5" demo_primary demo_secondary]
  show ?thesis by (simp add: demo_user_def)
qed

text \<open>A migration that fails after the user was written is never resumed: once the
  primary returns the user, \<open>get_user\<close> and \<open>get_channels\<close> go to the primary alone, so the
  channels the failed \<open>get_user\<close> did not copy are out of reach of every later call.\<close>

theorem dual_interrupted_migration:
  assumes "should_migrate lib cfg uaid"
    and "db_get_user p uaid x = (Inr None, x1)"
    and "db_get_user s uaid x1 = (Inr (Some user), x2)"
    and "sys_new_uuid sys x2 = (v, x3)"
    and "db_add_user p (user\<lparr>u_version := Some v\<rparr>) x3 = (Inr (), x4)"
    and "db_get_channels s uaid x4 = (Inl e, x5)"
    and "db_get_user p uaid x5 = (Inr (Some user'), x6)"
  shows "db_get_user (dual_client lib sys cfg p s) uaid x = (Inl e, x5) \<and>
    db_get_user (dual_client lib sys cfg p s) uaid x5 = (Inr (Some user'), x6) \<and>
    db_get_channels (dual_client lib sys cfg p s) uaid x6 = db_get_channels p uaid x6"
  using assms by (simp add: dual_client_def dual_get_user_def dual_get_channels_def allot_def)

theorem dual_interrupted_migration_witness:
  "let s = demo_secondary\<lparr>db_get_channels := (\<lambda>uaid x. (Inl (DbGeneral ''down''), x))\<rparr>;
       dual = dual_client decimal_uuids (fixed_sys 5) demo_allowance demo_primary s;
       x5 = (\<lparr>m_users = [(1, demo_user\<lparr>u_version := Some 7\<rparr>)], m_channels = [], m_messages = []\<rparr>,
             snd demo_unmigrated)
   in db_get_user dual 1 demo_unmigrated = (Inl (DbGeneral ''down''), x5) \<and>
      db_get_channels dual 1 x5 = (Inr [], x5)"
proof -
  let ?s = "demo_secondary\<lparr>db_get_channels := (\<lambda>uaid x. (Inl (DbGeneral ''down''), x))\<rparr>"
  let ?u = "demo_user\<lparr>u_version := Some 7\<rparr>"
  let ?x5 = "(\<lparr>m_users = [(1, ?u)], m_channels = [], m_messages = []\<rparr>, snd demo_unmigrated)"
  have "db_get_user (dual_client decimal_uuids (fixed_sys 5) demo_allowance demo_primary ?s)
      1 demo_unmigrated = (Inl (DbGeneral ''down''), ?x5) \<and>
    db_get_user (dual_client decimal_uuids (fixed_sys 5) demo_allowance demo_primary ?s)
      1 ?x5 = (Inr (Some ?u), ?x5) \<and>
    db_get_channels (dual_client decimal_uuids (fixed_sys 5) demo_allowance demo_primary ?s) 1 ?x5 =
      db_get_channels demo_primary 1 ?x5"
    by (rule dual_interrupted_migration [OF demo_migrates, where user = demo_user
          and ?x1.0 = demo_unmigrated and ?x2.0 = demo_unmigrated and ?x3.0 = demo_unmigrated
          and ?x4.0 = ?x5 and v = 7])
      (simp_all add: demo_stores fixed_sys_def demo_user_def)
  then show ?thesis by (simp add: Let_def) (simp add: demo_stores)
qed

end
