(* ===== verification/Dynamo.thy ===== *)
theory Dynamo
  imports Storage Instances
begin

text \<open>
  The DynamoDB client: \<open>autopush-common/src/db/dynamodb/{mod,retry,macros}.rs\<close>. DynamoDB
  itself is a parameter, a function from requests to replies; requests keep their condition
  and update expressions as the texts the client writes. Users and notification records are
  items as \<open>serde_dynamodb\<close> makes them of the derived \<open>Serialize\<close>: text is an \<open>S\<close>, an integer
  an \<open>N\<close> in decimal, an absent option \<open>NULL\<close> unless its field is skipped, a map an \<open>M\<close>.
\<close>

section \<open>Items and requests\<close>

text \<open>\<open>AttrJson\<close> is a JSON value of the router data, kept as text.\<close>

datatype attr =
    AttrS string
  | AttrN string
  | AttrSS "string list"
  | AttrM "(string, attr) hashmap"
  | AttrNull
  | AttrJson string

type_synonym ddb_item = "(string, attr) hashmap"

record put_input =
  pi_table :: string
  pi_item :: ddb_item
  pi_values :: ddb_item
  pi_condition :: "string option"

record update_input =
  ui_table :: string
  ui_key :: ddb_item
  ui_update :: string
  ui_values :: ddb_item
  ui_condition :: "string option"
  ui_return_values :: "string option"

record query_input =
  qi_table :: string
  qi_key_condition :: string
  qi_values :: ddb_item
  qi_limit :: nat

text \<open>\<open>RusotoError\<close> of the services, as far as the client tells them apart.\<close>

datatype ddb_error =
    HttpDispatch string
  | InternalServerError string
  | ProvisionedThroughputExceeded string
  | ConditionalCheckFailed string
  | ResourceNotFound string
  | RusotoOther string

primrec ddb_error_text :: "ddb_error \<Rightarrow> string" where
  "ddb_error_text (HttpDispatch s) = s"
| "ddb_error_text (InternalServerError s) = s"
| "ddb_error_text (ProvisionedThroughputExceeded s) = s"
| "ddb_error_text (ConditionalCheckFailed s) = s"
| "ddb_error_text (ResourceNotFound s) = s"
| "ddb_error_text (RusotoOther s) = s"

type_synonym ('a, 'x) ddb_call = "'x \<Rightarrow> (ddb_error + 'a) \<times> 'x"

text \<open>
  The service. Reads are consistent; an update returns the attributes asked for,
  \<open>describe_table\<close> the status of the table, if it tells one, \<open>list_tables\<close> at most a number of
  names after the one given and where to go on.
\<close>

record 'x ddb_lib =
  dl_put_item :: "put_input \<Rightarrow> (unit, 'x) ddb_call"
  dl_update_item :: "update_input \<Rightarrow> (ddb_item option, 'x) ddb_call"
  dl_get_item :: "string \<Rightarrow> ddb_item \<Rightarrow> (ddb_item option, 'x) ddb_call"
  dl_delete_item :: "string \<Rightarrow> ddb_item \<Rightarrow> (unit, 'x) ddb_call"
  dl_query :: "query_input \<Rightarrow> (ddb_item list option, 'x) ddb_call"
  dl_batch_write_item :: "(string, ddb_item list) hashmap \<Rightarrow> (unit, 'x) ddb_call"
  dl_describe_table :: "string \<Rightarrow> (string option, 'x) ddb_call"
  dl_list_tables :: "string option \<Rightarrow> nat option \<Rightarrow> (string list option \<times> string option, 'x) ddb_call"

record ddb_settings =
  ds_router_table :: string
  ds_message_table :: string
  ds_db_routing_table :: "string option"

text \<open>\<open>dd_max_retries\<close> is the number of retries of \<open>RetryPolicy::default\<close>.\<close>

record 'x ddb_client =
  dd_settings :: ddb_settings
  dd_lib :: "'x ddb_lib"
  dd_max_retries :: nat
  dd_uuid :: uuid_lib
  dd_regex :: regex_set
  dd_sys :: "'x sys"

section \<open>Retries\<close>

definition ddb_retryable :: "ddb_error \<Rightarrow> bool" where
  "ddb_retryable e = (case e of
       HttpDispatch _ \<Rightarrow> True | InternalServerError _ \<Rightarrow> True | ProvisionedThroughputExceeded _ \<Rightarrow> True
     | _ \<Rightarrow> False)"

definition ddb_retryable_describe_table :: "ddb_error \<Rightarrow> bool" where
  "ddb_retryable_describe_table e = (case e of InternalServerError _ \<Rightarrow> True | _ \<Rightarrow> False)"

text \<open>\<open>again::RetryPolicy::retry_if\<close>: the call, repeated while it fails in a retryable way.\<close>

fun retry_if :: "nat \<Rightarrow> (ddb_error \<Rightarrow> bool) \<Rightarrow> ('a, 'x) ddb_call \<Rightarrow> ('a, 'x) ddb_call" where
  "retry_if 0 retryable f x = f x"
| "retry_if (Suc n) retryable f x =
     (case f x of
        (Inl e, x1) \<Rightarrow> if retryable e then retry_if n retryable f x1 else (Inl e, x1)
      | (Inr v, x1) \<Rightarrow> (Inr v, x1))"

definition ddb_call ::
  "'x ddb_client \<Rightarrow> (string \<Rightarrow> db_error) \<Rightarrow> ('a, 'x) ddb_call \<Rightarrow> ('a, 'x) db_op" where
  "ddb_call D err f x = mapErr (\<lambda>e. err (ddb_error_text e)) (retry_if (dd_max_retries D) ddb_retryable f x)"

text \<open>A conditional update: a failed condition is an answer, not an error.\<close>

definition ddb_conditional_update :: "'x ddb_client \<Rightarrow> update_input \<Rightarrow> (bool, 'x) db_op" where
  "ddb_conditional_update D inp x =
     (case retry_if (dd_max_retries D) ddb_retryable (dl_update_item (dd_lib D) inp) x of
        (Inr _, x1) \<Rightarrow> (Inr True, x1)
      | (Inl (ConditionalCheckFailed _), x1) \<Rightarrow> (Inr False, x1)
      | (Inl e, x1) \<Rightarrow> (Inl (DdbUpdateItem (ddb_error_text e)), x1))"

section \<open>Users as items\<close>

definition attr_n :: "u64 \<Rightarrow> attr" where "attr_n v = AttrN (show_u64 v)"

definition skip_none :: "string \<Rightarrow> ('a \<Rightarrow> attr) \<Rightarrow> 'a option \<Rightarrow> ddb_item" where
  "skip_none name f v = (case v of None \<Rightarrow> [] | Some w \<Rightarrow> [(name, f w)])"

text \<open>The version is never serialized.\<close>

definition user_to_item :: "uuid_lib \<Rightarrow> user \<Rightarrow> ddb_item" where
  "user_to_item lib u =
     [(''uaid'', AttrS (uuid_simple lib (u_uaid u))), (''connected_at'', attr_n (u_connected_at u)),
      (''router_type'', AttrS (u_router_type u)),
      (''router_data'', (case u_router_data u of None \<Rightarrow> AttrNull | Some m \<Rightarrow> AttrM (map (\<lambda>(k, v). (k, AttrJson v)) m)))] @
     skip_none ''last_connect'' attr_n (u_last_connect u) @ skip_none ''node_id'' AttrS (u_node_id u) @
     skip_none ''record_version'' attr_n (u_record_version u) @ skip_none ''current_month'' AttrS (u_current_month u) @
     skip_none ''current_timestamp'' attr_n (u_current_timestamp u)"

definition attr_string :: "attr \<Rightarrow> string option" where
  "attr_string a = (case a of AttrS s \<Rightarrow> Some s | _ \<Rightarrow> None)"

definition attr_u64 :: "attr \<Rightarrow> u64 option" where
  "attr_u64 a = (case a of AttrN s \<Rightarrow> parse_u64 s | _ \<Rightarrow> None)"

definition attr_json :: "attr \<Rightarrow> string option" where
  "attr_json a = (case a of AttrJson s \<Rightarrow> Some s | _ \<Rightarrow> None)"

text \<open>A field that must be there, one that may be absent or \<open>NULL\<close>, the values of a map.\<close>

definition field :: "ddb_item \<Rightarrow> string \<Rightarrow> (attr \<Rightarrow> 'a option) \<Rightarrow> string + 'a" where
  "field i name f = (case hm_get i name of
       None \<Rightarrow> Inl (''missing field '' @ name)
     | Some a \<Rightarrow> (case f a of None \<Rightarrow> Inl (''invalid field '' @ name) | Some v \<Rightarrow> Inr v))"

definition opt_field :: "ddb_item \<Rightarrow> string \<Rightarrow> (attr \<Rightarrow> 'a option) \<Rightarrow> string + 'a option" where
  "opt_field i name f = (case hm_get i name of
       None \<Rightarrow> Inr None
     | Some AttrNull \<Rightarrow> Inr None
     | Some a \<Rightarrow> (case f a of None \<Rightarrow> Inl (''invalid field '' @ name) | Some v \<Rightarrow> Inr (Some v)))"

fun map_values :: "('a \<Rightarrow> 'b option) \<Rightarrow> (string \<times> 'a) list \<Rightarrow> (string \<times> 'b) list option" where
  "map_values f [] = Some []"
| "map_values f ((k, v) # m) =
     (case f v of None \<Rightarrow> None | Some w \<Rightarrow> map_option (\<lambda>m'. (k, w) # m') (map_values f m))"

definition attr_map :: "(attr \<Rightarrow> 'b option) \<Rightarrow> attr \<Rightarrow> (string, 'b) hashmap option" where
  "attr_map f a = (case a of AttrM m \<Rightarrow> map_values f m | _ \<Rightarrow> None)"

definition sum_bind :: "'e + 'a \<Rightarrow> ('a \<Rightarrow> 'e + 'b) \<Rightarrow> 'e + 'b" where
  "sum_bind r k = (case r of Inl e \<Rightarrow> Inl e | Inr v \<Rightarrow> k v)"

lemma sum_bind_simps [simp]: "sum_bind (Inl e) k = Inl e" "sum_bind (Inr v) k = k v"
  by (simp_all add: sum_bind_def)

definition user_from_item :: "uuid_lib \<Rightarrow> ddb_item \<Rightarrow> string + user" where
  "user_from_item lib i =
     sum_bind (field i ''uaid'' (\<lambda>a. Option.bind (attr_string a) (uuid_parse lib))) (\<lambda>uaid.
     sum_bind (field i ''connected_at'' attr_u64) (\<lambda>connected_at.
     sum_bind (field i ''router_type'' attr_string) (\<lambda>router_type.
     sum_bind (opt_field i ''router_data'' (attr_map attr_json)) (\<lambda>router_data.
     sum_bind (opt_field i ''last_connect'' attr_u64) (\<lambda>last_connect.
     sum_bind (opt_field i ''node_id'' attr_string) (\<lambda>node_id.
     sum_bind (opt_field i ''record_version'' attr_u64) (\<lambda>record_version.
     sum_bind (opt_field i ''current_month'' attr_string) (\<lambda>current_month.
     sum_bind (opt_field i ''current_timestamp'' attr_u64) (\<lambda>current_timestamp.
     sum_bind (opt_field i ''version'' (\<lambda>a. Option.bind (attr_string a) (uuid_parse lib))) (\<lambda>version.
       Inr \<lparr>u_uaid = uaid, u_connected_at = connected_at, u_router_type = router_type,
            u_router_data = router_data, u_last_connect = last_connect, u_node_id = node_id,
            u_record_version = record_version, u_current_month = current_month,
            u_current_timestamp = current_timestamp, u_version = version\<rparr>))))))))))"

section \<open>Notification records as items\<close>

definition headers_to_item :: "notification_headers \<Rightarrow> ddb_item" where
  "headers_to_item h =
     skip_none ''crypto_key'' AttrS (h_crypto_key h) @ skip_none ''encryption'' AttrS (h_encryption h) @
     skip_none ''encryption_key'' AttrS (h_encryption_key h) @ skip_none ''encoding'' AttrS (h_encoding h)"

text \<open>The channel ids are never serialized.\<close>

definition record_to_item :: "uuid_lib \<Rightarrow> notification_record \<Rightarrow> ddb_item" where
  "record_to_item lib r =
     [(''uaid'', AttrS (uuid_simple lib (nr_uaid r))), (''chidmessageid'', AttrS (nr_chidmessageid r))] @
     skip_none ''current_timestamp'' attr_n (nr_current_timestamp r) @
     skip_none ''timestamp'' attr_n (nr_timestamp r) @ [(''expiry'', attr_n (nr_expiry r))] @
     skip_none ''ttl'' attr_n (nr_ttl r) @ skip_none ''data'' AttrS (nr_data r) @
     skip_none ''headers'' (\<lambda>h. AttrM (headers_to_item h)) (nr_headers r) @
     skip_none ''updateid'' AttrS (nr_updateid r)"

definition headers_from_item :: "ddb_item \<Rightarrow> string + notification_headers" where
  "headers_from_item i =
     sum_bind (opt_field i ''crypto_key'' attr_string) (\<lambda>crypto_key.
     sum_bind (opt_field i ''encryption'' attr_string) (\<lambda>encryption.
     sum_bind (opt_field i ''encryption_key'' attr_string) (\<lambda>encryption_key.
     sum_bind (opt_field i ''encoding'' attr_string) (\<lambda>encoding.
       Inr \<lparr>h_crypto_key = crypto_key, h_encryption = encryption, h_encryption_key = encryption_key,
            h_encoding = encoding\<rparr>))))"

definition attr_headers :: "attr \<Rightarrow> notification_headers option" where
  "attr_headers a = (case a of
       AttrM i \<Rightarrow> (case headers_from_item i of Inl _ \<Rightarrow> None | Inr h \<Rightarrow> Some h)
     | _ \<Rightarrow> None)"

definition attr_ss :: "attr \<Rightarrow> string list option" where
  "attr_ss a = (case a of AttrSS l \<Rightarrow> Some l | _ \<Rightarrow> None)"

definition record_from_item :: "uuid_lib \<Rightarrow> ddb_item \<Rightarrow> string + notification_record" where
  "record_from_item lib i =
     sum_bind (field i ''uaid'' (\<lambda>a. Option.bind (attr_string a) (uuid_parse lib))) (\<lambda>uaid.
     sum_bind (field i ''chidmessageid'' attr_string) (\<lambda>chidmessageid.
     sum_bind (opt_field i ''current_timestamp'' attr_u64) (\<lambda>current_timestamp.
     sum_bind (opt_field i ''chids'' attr_ss) (\<lambda>chids.
     sum_bind (opt_field i ''timestamp'' attr_u64) (\<lambda>timestamp.
     sum_bind (field i ''expiry'' attr_u64) (\<lambda>expiry.
     sum_bind (opt_field i ''ttl'' attr_u64) (\<lambda>ttl.
     sum_bind (opt_field i ''data'' attr_string) (\<lambda>data.
     sum_bind (opt_field i ''headers'' attr_headers) (\<lambda>headers.
     sum_bind (opt_field i ''updateid'' attr_string) (\<lambda>updateid.
       Inr \<lparr>nr_uaid = uaid, nr_chidmessageid = chidmessageid, nr_current_timestamp = current_timestamp,
            nr_chids = chids, nr_timestamp = timestamp, nr_expiry = expiry, nr_ttl = ttl, nr_data = data,
            nr_headers = headers, nr_updateid = updateid\<rparr>))))))))))"

section \<open>Operations on users\<close>

definition uaid_key :: "'x ddb_client \<Rightarrow> uuid \<Rightarrow> ddb_item" where
  "uaid_key D uaid = [(''uaid'', AttrS (uuid_simple (dd_uuid D) uaid))]"

definition router_table :: "'x ddb_client \<Rightarrow> string" where
  "router_table D = ds_router_table (dd_settings D)"

definition message_table :: "'x ddb_client \<Rightarrow> string" where
  "message_table D = ds_message_table (dd_settings D)"

definition ddb_add_user :: "'x ddb_client \<Rightarrow> user \<Rightarrow> (unit, 'x) db_op" where
  "ddb_add_user D user x =
     ddb_call D DdbPutItem (dl_put_item (dd_lib D)
       \<lparr>pi_table = router_table D, pi_item = user_to_item (dd_uuid D) user, pi_values = [],
        pi_condition = Some ''attribute_not_exists(uaid)''\<rparr>) x"

text \<open>The line breaks of the condition are spaces here.\<close>

definition UPDATE_USER_CONDITION :: string where
  "UPDATE_USER_CONDITION =
     ''attribute_exists(uaid) and ( attribute_not_exists(router_type) or '' @
     ''(router_type = :router_type) ) and ( attribute_not_exists(node_id) or (connected_at < :connected_at) )''"

fun join_with :: "string \<Rightarrow> string list \<Rightarrow> string" where
  "join_with sep [] = []"
| "join_with sep [s] = s"
| "join_with sep (s # t # ss) = s @ sep @ join_with sep (t # ss)"

definition set_expression :: "string list \<Rightarrow> string" where
  "set_expression keys = ''SET '' @ join_with '', '' (map (\<lambda>k. k @ ''=:'' @ k) keys)"

definition ddb_update_user :: "'x ddb_client \<Rightarrow> user \<Rightarrow> 'x \<Rightarrow> (db_error, bool, user \<times> 'x) outcome" where
  "ddb_update_user D user x =
     (let user_map = hm_remove ''uaid'' (user_to_item (dd_uuid D) user);
          (r, x1) = ddb_conditional_update D
            \<lparr>ui_table = router_table D, ui_key = uaid_key D (u_uaid user),
             ui_update = set_expression (map fst user_map),
             ui_values = map (\<lambda>(k, v). (CHR '':'' # k, v)) user_map,
             ui_condition = Some UPDATE_USER_CONDITION, ui_return_values = None\<rparr> x
      in (r, (user, x1)))"

definition ddb_get_user :: "'x ddb_client \<Rightarrow> uuid \<Rightarrow> (user option, 'x) db_op" where
  "ddb_get_user D uaid x =
     andThen (ddb_call D DdbGetItem (dl_get_item (dd_lib D) (router_table D) (uaid_key D uaid)) x) (\<lambda>item x1.
       (case item of
          None \<Rightarrow> (Inr None, x1)
        | Some i \<Rightarrow>
            (case user_from_item (dd_uuid D) i of
               Inl e \<Rightarrow> (Inl (DdbSerialization e), x1)
             | Inr u \<Rightarrow> (Inr (Some u), x1))))"

definition ddb_remove_user :: "'x ddb_client \<Rightarrow> uuid \<Rightarrow> (unit, 'x) db_op" where
  "ddb_remove_user D uaid x =
     ddb_call D DdbDeleteItem (dl_delete_item (dd_lib D) (router_table D) (uaid_key D uaid)) x"

definition ddb_remove_node_id ::
  "'x ddb_client \<Rightarrow> uuid \<Rightarrow> string \<Rightarrow> u64 \<Rightarrow> uuid option \<Rightarrow> (bool, 'x) db_op" where
  "ddb_remove_node_id D uaid node_id connected_at version x =
     ddb_conditional_update D
       \<lparr>ui_table = router_table D, ui_key = uaid_key D uaid, ui_update = ''REMOVE node_id'',
        ui_values = [('':node'', AttrS node_id), ('':conn'', attr_n connected_at)],
        ui_condition = Some ''(node_id = :node) and (connected_at = :conn)'', ui_return_values = None\<rparr> x"

section \<open>Operations on channels\<close>

text \<open>The channels of a user are in the row of the message table whose sort key is a space.\<close>

definition chid_key :: "'x ddb_client \<Rightarrow> uuid \<Rightarrow> string \<Rightarrow> ddb_item" where
  "chid_key D uaid k =
     [(''uaid'', AttrS (uuid_simple (dd_uuid D) uaid)), (''chidmessageid'', AttrS k)]"

definition channel_update :: "'x ddb_client \<Rightarrow> uuid \<Rightarrow> uuid \<Rightarrow> string \<Rightarrow> string option \<Rightarrow> (ddb_item option, 'x) db_op" where
  "channel_update D uaid channel_id expression return_values x =
     (let (now, x1) = sys_now_sec (dd_sys D) x in
      ddb_call D DdbUpdateItem (dl_update_item (dd_lib D)
        \<lparr>ui_table = message_table D, ui_key = chid_key D uaid '' '', ui_update = expression,
         ui_values = [('':channel_id'', AttrSS [uuid_hyphenated (dd_uuid D) channel_id]),
           ('':expiry'', attr_n (now + MAX_CHANNEL_TTL))],
         ui_condition = None, ui_return_values = return_values\<rparr>) x1)"

definition ddb_add_channel :: "'x ddb_client \<Rightarrow> uuid \<Rightarrow> uuid \<Rightarrow> (unit, 'x) db_op" where
  "ddb_add_channel D uaid channel_id x =
     andThen (channel_update D uaid channel_id ''ADD chids :channel_id SET expiry = :expiry'' None x)
       (\<lambda>_ x1. (Inr (), x1))"

fun ddb_add_channels :: "'x ddb_client \<Rightarrow> uuid \<Rightarrow> uuid list \<Rightarrow> (unit, 'x) db_op" where
  "ddb_add_channels D uaid [] x = (Inr (), x)"
| "ddb_add_channels D uaid (c # cs) x = andThen (ddb_add_channel D uaid c x) (\<lambda>_ x1. ddb_add_channels D uaid cs x1)"

definition ddb_get_channels :: "'x ddb_client \<Rightarrow> uuid \<Rightarrow> (uuid list, 'x) db_op" where
  "ddb_get_channels D uaid x =
     andThen (ddb_call D DdbGetItem (dl_get_item (dd_lib D) (message_table D) (chid_key D uaid '' '')) x) (\<lambda>item x1.
       (case item of
          None \<Rightarrow> (Inr [], x1)
        | Some i \<Rightarrow>
            (case record_from_item (dd_uuid D) i of
               Inl e \<Rightarrow> (Inl (DdbSerialization e), x1)
             | Inr n \<Rightarrow>
                 (Inr (remdups (List.map_filter (uuid_parse (dd_uuid D))
                   (case nr_chids n of None \<Rightarrow> [] | Some l \<Rightarrow> l))), x1))))"

definition ddb_remove_channel :: "'x ddb_client \<Rightarrow> uuid \<Rightarrow> uuid \<Rightarrow> (bool, 'x) db_op" where
  "ddb_remove_channel D uaid channel_id x =
     andThen (channel_update D uaid channel_id ''DELETE chids :channel_id SET expiry = :expiry'' (Some ''UPDATED_OLD'') x)
       (\<lambda>attributes x1.
         (Inr (case Option.bind (Option.bind attributes (\<lambda>m. hm_get m ''chids'')) attr_ss of
                 None \<Rightarrow> False
               | Some channel_ids \<Rightarrow> uuid_hyphenated (dd_uuid D) channel_id \<in> set channel_ids), x1))"

section \<open>Operations on messages\<close>

text \<open>\<open>ok_or_inspect\<close>: what cannot be decoded is left out.\<close>

definition ok_of :: "'e + 'a \<Rightarrow> 'a option" where
  "ok_of r = (case r of Inl _ \<Rightarrow> None | Inr v \<Rightarrow> Some v)"

definition ddb_query :: "'x ddb_client \<Rightarrow> uuid \<Rightarrow> string \<Rightarrow> string \<Rightarrow> nat \<Rightarrow> (notification_record list, 'x) db_op" where
  "ddb_query D uaid condition range_key limit x =
     andThen
       (ddb_call D DdbQuery (dl_query (dd_lib D)
         \<lparr>qi_table = message_table D, qi_key_condition = condition,
          qi_values = [('':uaid'', AttrS (uuid_simple (dd_uuid D) uaid)), ('':cmi'', AttrS range_key)],
          qi_limit = limit\<rparr>) x)
       (\<lambda>items x1.
         (Inr (case items of None \<Rightarrow> [] | Some is \<Rightarrow> List.map_filter (\<lambda>i. ok_of (record_from_item (dd_uuid D) i)) is), x1))"

definition into_notifs :: "'x ddb_client \<Rightarrow> notification_record list \<Rightarrow> notification list" where
  "into_notifs D rs = List.map_filter (\<lambda>r. ok_of (into_notif (dd_uuid D) (dd_regex D) r)) rs"

definition ddb_fetch_topic_messages :: "'x ddb_client \<Rightarrow> uuid \<Rightarrow> nat \<Rightarrow> (fetch_message_response, 'x) db_op" where
  "ddb_fetch_topic_messages D uaid limit x =
     andThen (ddb_query D uaid ''uaid = :uaid AND chidmessageid < :cmi'' ''02'' limit x) (\<lambda>notifs x1.
       (case notifs of
          [] \<Rightarrow> (Inr fetch_default, x1)
        | first # rest \<Rightarrow>
            (Inr \<lparr>fm_timestamp = nr_current_timestamp first, fm_messages = into_notifs D rest\<rparr>, x1)))"

definition opt_max :: "u64 list \<Rightarrow> u64 option" where
  "opt_max ts = (if ts = [] then None else Some (Max (set ts)))"

definition ddb_fetch_timestamp_messages ::
  "'x ddb_client \<Rightarrow> uuid \<Rightarrow> u64 option \<Rightarrow> nat \<Rightarrow> (fetch_message_response, 'x) db_op" where
  "ddb_fetch_timestamp_messages D uaid timestamp limit x =
     (let range_key = (case timestamp of Some ts \<Rightarrow> ''02:'' @ show_u64 ts @ '':z'' | None \<Rightarrow> ''01;'') in
      andThen (ddb_query D uaid ''uaid = :uaid AND chidmessageid > :cmi'' range_key limit x) (\<lambda>notifs x1.
        (let messages = into_notifs D notifs in
         (Inr \<lparr>fm_timestamp = opt_max (List.map_filter n_sortkey_timestamp messages), fm_messages = messages\<rparr>, x1))))"

definition ddb_increment_storage :: "'x ddb_client \<Rightarrow> uuid \<Rightarrow> u64 \<Rightarrow> (unit, 'x) db_op" where
  "ddb_increment_storage D uaid timestamp x =
     (let (now, x1) = sys_now_sec (dd_sys D) x in
      andThen
        (ddb_call D DdbUpdateItem (dl_update_item (dd_lib D)
          \<lparr>ui_table = message_table D, ui_key = chid_key D uaid '' '',
           ui_update = ''SET current_timestamp = :timestamp, expiry = :expiry'',
           ui_values = [('':timestamp'', attr_n timestamp), ('':expiry'', attr_n (now + 2 * MAX_EXPIRY))],
           ui_condition = None, ui_return_values = None\<rparr>) x1)
        (\<lambda>_ x2. (Inr (), x2)))"

definition ddb_save_message :: "'x ddb_client \<Rightarrow> uuid \<Rightarrow> notification \<Rightarrow> (unit, 'x) db_op" where
  "ddb_save_message D uaid message x =
     (let (r, x1) = from_notif (dd_uuid D) (dd_sys D) uaid message x in
      ddb_call D DdbPutItem (dl_put_item (dd_lib D)
        \<lparr>pi_table = message_table D, pi_item = record_to_item (dd_uuid D) r, pi_values = [], pi_condition = None\<rparr>) x1)"

fun from_notifs :: "'x ddb_client \<Rightarrow> uuid \<Rightarrow> notification list \<Rightarrow> 'x \<Rightarrow> notification_record list \<times> 'x" where
  "from_notifs D uaid [] x = ([], x)"
| "from_notifs D uaid (n # ns) x =
     (let (r, x1) = from_notif (dd_uuid D) (dd_sys D) uaid n x; (rs, x2) = from_notifs D uaid ns x1 in (r # rs, x2))"

definition ddb_save_messages :: "'x ddb_client \<Rightarrow> uuid \<Rightarrow> notification list \<Rightarrow> (unit, 'x) db_op" where
  "ddb_save_messages D uaid messages x =
     (let (rs, x1) = from_notifs D uaid messages x in
      ddb_call D DdbBatchWriteItem (dl_batch_write_item (dd_lib D)
        [(message_table D, map (record_to_item (dd_uuid D)) rs)]) x1)"

definition ddb_remove_message :: "'x ddb_client \<Rightarrow> uuid \<Rightarrow> string \<Rightarrow> (unit, 'x) db_op" where
  "ddb_remove_message D uaid key x =
     ddb_call D DdbDeleteItem (dl_delete_item (dd_lib D) (message_table D) (chid_key D uaid key)) x"

section \<open>Tables\<close>

definition upper_char :: "char \<Rightarrow> char" where
  "upper_char c = (if 97 \<le> (of_char c :: nat) \<and> (of_char c :: nat) \<le> 122 then char_of (of_char c - 32 :: nat) else c)"

definition ddb_table_exists :: "'x ddb_client \<Rightarrow> string \<Rightarrow> (bool, 'x) db_op" where
  "ddb_table_exists D table_name x =
     (case retry_if (dd_max_retries D) ddb_retryable_describe_table (dl_describe_table (dd_lib D) table_name) x of
        (Inl (ResourceNotFound _), x1) \<Rightarrow> (Inr False, x1)
      | (Inl e, x1) \<Rightarrow> (Inl (DdbDescribeTable (ddb_error_text e)), x1)
      | (Inr None, x1) \<Rightarrow> (Inl TableStatusUnknown, x1)
      | (Inr (Some status), x1) \<Rightarrow>
          (Inr (map upper_char status \<in> {''CREATING'', ''UPDATING'', ''ACTIVE''}), x1))"

definition ddb_health_check :: "'x ddb_client \<Rightarrow> (bool, 'x) db_op" where
  "ddb_health_check D x =
     (case dl_list_tables (dd_lib D) (Some (message_table D)) None x of
        (Inl e, x1) \<Rightarrow> (Inl (DbGeneral (''DynamoDB health check failure: '' @ ddb_error_text e)), x1)
      | (Inr (Some names, _), x1) \<Rightarrow> (Inr (names \<noteq> []), x1)
      | (Inr (None, _), x1) \<Rightarrow> (Inl (DbGeneral ''DynamoDB health check failure: No message table found''), x1))"

definition dynamo_client :: "'x ddb_client \<Rightarrow> 'x db_client" where
  "dynamo_client D =
     \<lparr>db_add_user = ddb_add_user D, db_update_user = ddb_update_user D, db_get_user = ddb_get_user D,
      db_remove_user = ddb_remove_user D, db_add_channel = ddb_add_channel D,
      db_add_channels = ddb_add_channels D, db_get_channels = ddb_get_channels D,
      db_remove_channel = ddb_remove_channel D, db_remove_node_id = ddb_remove_node_id D,
      db_save_message = ddb_save_message D, db_save_messages = ddb_save_messages D,
      db_fetch_topic_messages = ddb_fetch_topic_messages D,
      db_fetch_timestamp_messages = ddb_fetch_timestamp_messages D,
      db_increment_storage = ddb_increment_storage D, db_remove_message = ddb_remove_message D,
      db_router_table_exists = ddb_table_exists D (router_table D),
      db_message_table_exists = ddb_table_exists D (message_table D),
      db_health_check = ddb_health_check D, db_rotating_message_table = Some (message_table D),
      db_name = ''DynamoDb''\<rparr>"

end
