(* ===== verification/RowMerger.thy ===== *)
theory RowMerger
  imports Strings Errors
begin

text \<open>
  Reading rows from Bigtable: \<open>cell.rs\<close>, \<open>row.rs\<close> and \<open>merge.rs\<close> of
  \<open>autopush-common/src/db/bigtable/bigtable_client/\<close>. The server streams a row as chunks, and
  \<open>RowMerger\<close> is the state machine that puts the rows together again. The theory shows that
  each committed row becomes exactly one row of the result, that rows sent one chunk per
  cell are read back exactly, retried rows included, and that a cell sent in several chunks
  is always refused.
\<close>

section \<open>Rows and cells\<close>

text \<open>\<open>SystemTime\<close>: nanoseconds since the epoch, negative before it.\<close>

type_synonym system_time = int

record cell =
  cell_family :: string
  cell_qualifier :: string
  cell_value :: bytes
  cell_value_index :: nat
  cell_timestamp :: system_time
  cell_labels :: "string list"

definition cell_default :: "('x \<Rightarrow> system_time \<times> 'x) \<Rightarrow> 'x \<Rightarrow> cell \<times> 'x" where
  "cell_default now x =
     (let (t, x1) = now x in
      (\<lparr>cell_family = [], cell_qualifier = [], cell_value = [], cell_value_index = 0,
        cell_timestamp = t, cell_labels = []\<rparr>, x1))"

record row =
  row_key :: string
  row_cells :: "(string, cell list) hashmap"

definition row_new :: "string \<Rightarrow> row" where
  "row_new k = \<lparr>row_key = k, row_cells = []\<rparr>"

definition take_cells :: "string \<Rightarrow> row \<Rightarrow> cell list option \<times> row" where
  "take_cells column r = (hm_get (row_cells r) column, r\<lparr>row_cells := hm_remove column (row_cells r)\<rparr>)"

text \<open>\<open>Vec::pop\<close> takes the last element.\<close>

definition take_cell :: "string \<Rightarrow> row \<Rightarrow> cell option \<times> row" where
  "take_cell column r =
     (let (cells, r1) = take_cells column r in
      case cells of
        Some cs \<Rightarrow> (if cs = [] then None else Some (last cs), r1)
      | None \<Rightarrow> (None, r1))"

definition take_required_cell :: "string \<Rightarrow> row \<Rightarrow> (db_error, cell, row) outcome" where
  "take_required_cell column r =
     (let (c, r1) = take_cell column r in
      case c of
        Some c \<Rightarrow> (Inr c, r1)
      | None \<Rightarrow> (Inl (Integrity (''Expected column: '' @ column) None), r1))"

definition add_cells :: "string \<Rightarrow> cell list \<Rightarrow> row \<Rightarrow> cell list option \<times> row" where
  "add_cells family cells r =
     (hm_get (row_cells r) family, r\<lparr>row_cells := hm_insert family cells (row_cells r)\<rparr>)"

section \<open>The state of the merger\<close>

datatype read_state = RowStart | CellStart | CellInProgress | CellComplete | RowComplete

record partial_cell =
  pc_family :: string
  pc_qualifier :: string
  pc_timestamp :: system_time
  pc_labels :: "string list"
  pc_value :: bytes
  pc_value_index :: nat

definition partial_cell_default :: "('x \<Rightarrow> system_time \<times> 'x) \<Rightarrow> 'x \<Rightarrow> partial_cell \<times> 'x" where
  "partial_cell_default now x =
     (let (t, x1) = now x in
      (\<lparr>pc_family = [], pc_qualifier = [], pc_timestamp = t, pc_labels = [], pc_value = [],
        pc_value_index = 0\<rparr>, x1))"

definition cell_of_partial :: "partial_cell \<Rightarrow> cell" where
  "cell_of_partial p =
     \<lparr>cell_family = pc_family p, cell_qualifier = pc_qualifier p, cell_value = pc_value p,
      cell_value_index = pc_value_index p, cell_timestamp = pc_timestamp p, cell_labels = pc_labels p\<rparr>"

record partial_row =
  pr_row_key :: string
  pr_cells :: "(string, partial_cell list) hashmap"
  pr_last_family :: string
  pr_last_collected_cells :: "(string, cell list) hashmap"
  pr_last_qualifier :: string
  pr_cell_in_progress :: partial_cell

definition partial_row_default :: "('x \<Rightarrow> system_time \<times> 'x) \<Rightarrow> 'x \<Rightarrow> partial_row \<times> 'x" where
  "partial_row_default now x =
     (let (c, x1) = partial_cell_default now x in
      (\<lparr>pr_row_key = [], pr_cells = [], pr_last_family = [], pr_last_collected_cells = [],
        pr_last_qualifier = [], pr_cell_in_progress = c\<rparr>, x1))"

record row_merger =
  rm_state :: read_state
  rm_last_seen_row_key :: "string option"
  rm_last_seen_cell_family :: "string option"
  rm_row :: partial_row

definition row_merger_default :: "('x \<Rightarrow> system_time \<times> 'x) \<Rightarrow> 'x \<Rightarrow> row_merger \<times> 'x" where
  "row_merger_default now x =
     (let (r, x1) = partial_row_default now x in
      (\<lparr>rm_state = RowStart, rm_last_seen_row_key = None, rm_last_seen_cell_family = None, rm_row = r\<rparr>, x1))"

text \<open>
  The message \<open>ReadRowsResponse_CellChunk\<close>: \<open>reset_row\<close> and \<open>commit_row\<close> are the two
  cases of a \<open>oneof\<close>, the family and the qualifier are wrapped and may be absent, the other
  fields have their protobuf default when they are absent.
\<close>

datatype row_status = ResetRow bool | CommitRow bool

record cell_chunk =
  ck_row_key :: bytes
  ck_family_name :: "string option"
  ck_qualifier :: "bytes option"
  ck_timestamp_micros :: u64
  ck_labels :: "string list"
  ck_value :: bytes
  ck_value_size :: i32
  ck_row_status :: "row_status option"

definition get_reset_row :: "cell_chunk \<Rightarrow> bool" where
  "get_reset_row c = (case ck_row_status c of Some (ResetRow b) \<Rightarrow> b | _ \<Rightarrow> False)"

definition has_commit_row :: "cell_chunk \<Rightarrow> bool" where
  "has_commit_row c = (case ck_row_status c of Some (CommitRow _) \<Rightarrow> True | _ \<Rightarrow> False)"

record read_rows_response =
  rr_chunks :: "cell_chunk list"
  rr_last_scanned_row_key :: bytes

definition utf8_or_default :: "bytes \<Rightarrow> string" where
  "utf8_or_default bs = (case from_utf8 bs of Some s \<Rightarrow> s | None \<Rightarrow> [])"

section \<open>The steps of the merger\<close>

text \<open>
  A step works on the merger, the chunk, whose fields it takes, and the world, which has
  the clock.
\<close>

type_synonym 'x rm = "row_merger \<times> cell_chunk \<times> 'x"

definition reset_row :: "('x \<Rightarrow> system_time \<times> 'x) \<Rightarrow> 'x rm \<Rightarrow> (bigtable_error, unit, 'x rm) outcome" where
  "reset_row now s =
     (let (m, chunk, x) = s in
      if rm_state m = RowStart then (Inl (InvalidChunk ''Bare Reset''), s)
      else if ck_row_key chunk \<noteq> [] then (Inl (InvalidChunk ''Reset chunk has a row key''), s)
      else if ck_family_name chunk \<noteq> None then (Inl (InvalidChunk ''Reset chunk has a family_name''), s)
      else if ck_qualifier chunk \<noteq> None then (Inl (InvalidChunk ''Reset chunk has a qualifier''), s)
      else if 0 < sint (ck_timestamp_micros chunk) then (Inl (InvalidChunk ''Reset chunk has a timestamp''), s)
      else if ck_labels chunk \<noteq> [] then (Inl (InvalidChunk ''Reset chunk has a labels''), s)
      else if ck_value chunk \<noteq> [] then (Inl (InvalidChunk ''Reset chunk has value''), s)
      else (let (row, x1) = partial_row_default now x in
            (Inr (), m\<lparr>rm_state := RowStart, rm_row := row\<rparr>, chunk, x1)))"

definition row_start :: "('x \<Rightarrow> system_time \<times> 'x) \<Rightarrow> 'x rm \<Rightarrow> (bigtable_error, unit, 'x rm) outcome" where
  "row_start now s =
     (let (m, chunk, x) = s in
      if ck_row_key chunk = [] then (Inl (InvalidChunk ''New row is missing a row key''), s)
      else
        (let m1 = (case ck_family_name chunk of
                     Some f \<Rightarrow> m\<lparr>rm_last_seen_cell_family := Some f\<rparr> | None \<Rightarrow> m)
         in if (case rm_last_seen_row_key m1 of Some last_key \<Rightarrow> ck_row_key chunk \<le> last_key | None \<Rightarrow> False)
            then (Inl (InvalidChunk ''Out of order row keys''), m1, chunk, x)
            else (let (c, x1) = partial_cell_default now x in
                  (Inr (),
                   m1\<lparr>rm_row := (rm_row m1)\<lparr>pr_row_key := utf8_or_default (ck_row_key chunk),
                                           pr_cell_in_progress := c\<rparr>,
                      rm_state := CellStart\<rparr>, chunk, x1))))"

definition cell_start :: "'x rm \<Rightarrow> (bigtable_error, unit, 'x rm) outcome" where
  "cell_start s =
     (let (m, chunk, x) = s in
      case ck_qualifier chunk of
        None \<Rightarrow> (Inr (), m\<lparr>rm_state := CellComplete\<rparr>, chunk, x)
      | Some qualifier \<Rightarrow>
          (let chunk1 = chunk\<lparr>ck_qualifier := None\<rparr>; row = rm_row m; cell = pr_cell_in_progress row in
           if pr_cells row \<noteq> [] \<and> ck_row_key chunk \<noteq> [] \<and> ck_row_key chunk \<noteq> pr_row_key row
           then (Inl (InvalidChunk ''Row key changed mid row''), m, chunk1, x)
           else
             (case opt_or (ck_family_name chunk) (rm_last_seen_cell_family m) of
                None \<Rightarrow> (Inl (InvalidChunk ''Cell missing family for new cell''), m, chunk1, x)
              | Some family \<Rightarrow>
                  (let cell1 = cell\<lparr>pc_family := family, pc_qualifier := utf8_or_default qualifier,
                          pc_timestamp := 1000 * uint (ck_timestamp_micros chunk),
                          pc_labels := pc_labels cell @ rev (ck_labels chunk)\<rparr>;
                       (cell2, st) = (if 0 < sint (ck_value_size chunk)
                          then (cell1\<lparr>pc_value := []\<rparr>, CellInProgress)
                          else (cell1\<lparr>pc_value := pc_value cell1 @ ck_value chunk\<rparr>, CellComplete))
                   in (Inr (), m\<lparr>rm_row := row\<lparr>pr_cell_in_progress := cell2\<rparr>, rm_state := st\<rparr>,
                       chunk1\<lparr>ck_family_name := None, ck_labels := []\<rparr>, x)))))"

definition cell_in_progress :: "'x rm \<Rightarrow> (bigtable_error, unit, 'x rm) outcome" where
  "cell_in_progress s =
     (let (m, chunk, x) = s; row = rm_row m; cell = pr_cell_in_progress row; go = pc_value_index cell > 0 in
      if go \<and> ck_row_key chunk \<noteq> [] then (Inl (InvalidChunk ''Found row key mid cell''), s)
      else if go \<and> ck_family_name chunk \<noteq> None then (Inl (InvalidChunk ''Found family name mid cell''), s)
      else if go \<and> ck_qualifier chunk \<noteq> None then (Inl (InvalidChunk ''Found qualifier mid cell''), s)
      else if go \<and> 0 < sint (ck_timestamp_micros chunk) then (Inl (InvalidChunk ''Found timestamp mid cell''), s)
      else if go \<and> ck_labels chunk = [] then (Inl (InvalidChunk ''Found labels mid cell''), s)
      else
        (let val = ck_value chunk;
             cell1 = cell\<lparr>pc_value_index := pc_value_index cell + length val, pc_value := pc_value cell @ val\<rparr>
         in (Inr (), m\<lparr>rm_row := row\<lparr>pr_cell_in_progress := cell1\<rparr>,
                       rm_state := (if 0 < sint (ck_value_size chunk) then CellInProgress else CellComplete)\<rparr>,
             chunk\<lparr>ck_value := []\<rparr>, x)))"

definition cell_complete :: "('x \<Rightarrow> system_time \<times> 'x) \<Rightarrow> 'x rm \<Rightarrow> (bigtable_error, unit, 'x rm) outcome" where
  "cell_complete now s =
     (let (m, chunk, x) = s; row = rm_row m; cip = pr_cell_in_progress row;
          family_changed = (pr_last_family row \<noteq> pc_family cip);
          row1 = (if family_changed
             then row\<lparr>pr_last_family := pc_family cip,
                    pr_cells := hm_insert (pc_family cip)
                      (case hm_get (pr_cells row) (pc_family cip) of
                         Some cells \<Rightarrow> cells @ [cip] | None \<Rightarrow> [cip]) (pr_cells row)\<rparr>
             else row);
          (row2, x1) = (if family_changed \<or> pr_last_qualifier row1 \<noteq> pc_qualifier cip
             then (let (d, x') = cell_default now x in
                   (row1\<lparr>pr_last_qualifier := pc_qualifier cip,
                      pr_last_collected_cells := hm_insert (pc_qualifier cip)
                        [d\<lparr>cell_family := pc_family cip, cell_timestamp := pc_timestamp cip,
                           cell_labels := pc_labels cip, cell_qualifier := pc_qualifier cip,
                           cell_value := pc_value cip\<rparr>]
                        (pr_last_collected_cells row1)\<rparr>, x'))
             else (row1, x));
          (t, x2) = now x1;
          row3 = row2\<lparr>pr_cell_in_progress := cip\<lparr>pc_timestamp := t, pc_value := [], pc_value_index := 0\<rparr>\<rparr>
      in (Inr (), m\<lparr>rm_row := row3,
                    rm_state := (if has_commit_row chunk then RowComplete else CellStart)\<rparr>, chunk, x2))"

definition row_complete :: "('x \<Rightarrow> system_time \<times> 'x) \<Rightarrow> 'x rm \<Rightarrow> (bigtable_error, row, 'x rm) outcome" where
  "row_complete now s =
     (let (m, chunk, x) = s; row = rm_row m; (fresh, x1) = partial_row_default now x in
      (Inr \<lparr>row_key = pr_row_key row, row_cells = pr_last_collected_cells row\<rparr>,
       m\<lparr>rm_row := fresh, rm_state := RowStart, rm_last_seen_row_key := Some (pr_row_key row)\<rparr>, chunk, x1))"

definition finalize :: "row_merger \<Rightarrow> bigtable_error + unit" where
  "finalize m =
     (if rm_state m \<noteq> RowStart then Inl (InvalidChunk ''The row remains partial / is not committed.'')
      else Inr ())"

section \<open>The stream\<close>

text \<open>\<open>BTreeMap\<close>: an association list in ascending key order.\<close>

fun btree_insert :: "'k::linorder \<Rightarrow> 'v \<Rightarrow> ('k \<times> 'v) list \<Rightarrow> ('k \<times> 'v) list" where
  "btree_insert k v [] = [(k, v)]"
| "btree_insert k v ((k', v') # m) =
     (if k < k' then (k, v) # (k', v') # m
      else if k = k' then (k, v) # m
      else (k', v') # btree_insert k v m)"

type_synonym rows = "(string \<times> row) list"

definition on_state :: "read_state \<Rightarrow> ('x rm \<Rightarrow> (bigtable_error, unit, 'x rm) outcome) \<Rightarrow> 'x rm \<Rightarrow>
    (bigtable_error, unit, 'x rm) outcome" where
  "on_state st step s = (if rm_state (fst s) = st then step s else (Inr (), s))"

definition state_name :: "read_state \<Rightarrow> string" where
  "state_name st = (case st of RowStart \<Rightarrow> ''RowStart'' | CellStart \<Rightarrow> ''CellStart''
     | CellInProgress \<Rightarrow> ''CellInProgress'' | CellComplete \<Rightarrow> ''CellComplete'' | RowComplete \<Rightarrow> ''RowComplete'')"

definition finish_chunk :: "('x \<Rightarrow> system_time \<times> 'x) \<Rightarrow> rows \<Rightarrow> 'x rm \<Rightarrow> (bigtable_error, rows, 'x rm) outcome" where
  "finish_chunk now rows s =
     (if rm_state (fst s) = RowComplete
      then andThen (row_complete now s) (\<lambda>r s1. (Inr (btree_insert (row_key r) r rows), s1))
      else if has_commit_row (fst (snd s))
      then (Inl (InvalidChunk (''Chunk tried to commit in row in wrong state '' @ state_name (rm_state (fst s)))), s)
      else (Inr rows, s))"

definition process_chunk :: "('x \<Rightarrow> system_time \<times> 'x) \<Rightarrow> rows \<Rightarrow> 'x rm \<Rightarrow> (bigtable_error, rows, 'x rm) outcome" where
  "process_chunk now rows s =
     (if get_reset_row (fst (snd s)) then andThen (reset_row now s) (\<lambda>_ s1. (Inr rows, s1))
      else
        andThen (on_state RowStart (row_start now) s) (\<lambda>_ s1.
        andThen (on_state CellStart cell_start s1) (\<lambda>_ s2.
        andThen (on_state CellInProgress cell_in_progress s2) (\<lambda>_ s3.
        andThen (on_state CellComplete (cell_complete now) s3) (\<lambda>_ s4.
        finish_chunk now rows s4)))))"

fun process_chunk_list :: "('x \<Rightarrow> system_time \<times> 'x) \<Rightarrow> cell_chunk list \<Rightarrow> rows \<Rightarrow> row_merger \<times> 'x \<Rightarrow>
    (bigtable_error, rows, row_merger \<times> 'x) outcome" where
  "process_chunk_list now [] rows s = (Inr rows, s)"
| "process_chunk_list now (chunk # chunks) rows s =
     (case process_chunk now rows (fst s, chunk, snd s) of
        (Inl e, m, _, x) \<Rightarrow> (Inl e, m, x)
      | (Inr rows1, m, _, x) \<Rightarrow> process_chunk_list now chunks rows1 (m, x))"

definition last_scanned :: "bytes \<Rightarrow> row_merger \<Rightarrow> bigtable_error + row_merger" where
  "last_scanned key m =
     (if key = [] then Inr m
      else (let row_key = utf8_or_default key in
            if row_key \<le> (case rm_last_seen_row_key m of Some k \<Rightarrow> k | None \<Rightarrow> [])
            then Inl (InvalidChunk ''Last scanned row key is out of order'')
            else Inr (m\<lparr>rm_last_seen_row_key := Some row_key\<rparr>)))"

text \<open>The items of the stream: a response, or the error of the transport.\<close>

fun process_responses :: "('x \<Rightarrow> system_time \<times> 'x) \<Rightarrow> (string + read_rows_response) list \<Rightarrow> rows \<Rightarrow>
    row_merger \<times> 'x \<Rightarrow> (bigtable_error, rows, row_merger \<times> 'x) outcome" where
  "process_responses now [] rows s = (Inr rows, s)"
| "process_responses now (Inl e # stream) rows s = (Inl (InvalidRowResponse e), s)"
| "process_responses now (Inr r # stream) rows s =
     (case last_scanned (rr_last_scanned_row_key r) (fst s) of
        Inl e \<Rightarrow> (Inl e, s)
      | Inr m \<Rightarrow> andThen (process_chunk_list now (rr_chunks r) rows (m, snd s))
          (\<lambda>rows1 s1. process_responses now stream rows1 s1))"

definition process_chunks :: "('x \<Rightarrow> system_time \<times> 'x) \<Rightarrow> (string + read_rows_response) list \<Rightarrow> 'x \<Rightarrow>
    (bigtable_error, rows, 'x) outcome" where
  "process_chunks now stream x =
     (let (m, x1) = row_merger_default now x in
      case process_responses now stream [] (m, x1) of
        (Inl e, _, x2) \<Rightarrow> (Inl e, x2)
      | (Inr rows, m1, x2) \<Rightarrow> (case finalize m1 of Inl e \<Rightarrow> (Inl e, x2) | Inr _ \<Rightarrow> (Inr rows, x2)))"


section \<open>What each step touches\<close>

text \<open>
  The keys a merger remembers, and the status of a chunk, on which the whole result
  depends.
\<close>

definition keys_kept :: "'x rm \<Rightarrow> 'x rm \<Rightarrow> bool" where
  "keys_kept s s' \<longleftrightarrow> rm_last_seen_row_key (fst s') = rm_last_seen_row_key (fst s) \<and>
     pr_row_key (rm_row (fst s')) = pr_row_key (rm_row (fst s)) \<and>
     ck_row_status (fst (snd s')) = ck_row_status (fst (snd s))"

lemma cell_start_frame:
  assumes "cell_start s = (r, s')"
  shows "keys_kept s s'" and "r = Inr u \<Longrightarrow> rm_state (fst s') \<in> {CellComplete, CellInProgress}"
  using assms
  by (auto simp: cell_start_def keys_kept_def Let_def split: prod.splits option.splits if_splits)

lemma cell_in_progress_frame:
  assumes "cell_in_progress s = (r, s')"
  shows "keys_kept s s'" and "r = Inr u \<Longrightarrow> rm_state (fst s') \<in> {CellComplete, CellInProgress}"
  using assms by (auto simp: cell_in_progress_def keys_kept_def Let_def split: prod.splits if_splits)

lemma cell_complete_frame:
  assumes "cell_complete now s = (r, s')"
  shows "keys_kept s s'"
    and "rm_state (fst s') = (if has_commit_row (fst (snd s)) then RowComplete else CellStart)"
  using assms by (auto simp: cell_complete_def keys_kept_def Let_def split: prod.splits if_splits)

lemma row_start_frame:
  assumes "row_start now s = (Inr u, s')"
  shows "rm_last_seen_row_key (fst s') = rm_last_seen_row_key (fst s)"
    and "ck_row_status (fst (snd s')) = ck_row_status (fst (snd s))"
    and "rm_state (fst s') = CellStart"
    and "pr_row_key (rm_row (fst s')) = utf8_or_default (ck_row_key (fst (snd s)))"
    and "rm_last_seen_row_key (fst s) = Some k \<Longrightarrow> k < ck_row_key (fst (snd s))"
  using assms
  by (auto simp: row_start_def Let_def not_le split: prod.splits option.splits if_splits)

lemma reset_row_frame:
  assumes "reset_row now s = (Inr u, s')"
  shows "rm_last_seen_row_key (fst s') = rm_last_seen_row_key (fst s)" and "rm_state (fst s') = RowStart"
  using assms by (auto simp: reset_row_def Let_def split: prod.splits if_splits)

lemma row_complete_frame:
  assumes "row_complete now s = (q, s')"
  shows "\<exists>r. q = Inr r \<and> row_key r = pr_row_key (rm_row (fst s))" "rm_state (fst s') = RowStart"
    "rm_last_seen_row_key (fst s') = Some (pr_row_key (rm_row (fst s)))"
  using assms by (auto simp: row_complete_def Let_def split: prod.splits)

lemma on_state_cases:
  assumes "on_state st step s = (r, s')"
  obtains (skip) "rm_state (fst s) \<noteq> st" "r = Inr ()" "s' = s" | (run) "rm_state (fst s) = st" "step s = (r, s')"
  using assms by (auto simp: on_state_def split: if_splits)

lemma keys_kept_refl [simp]: "keys_kept s s"
  by (simp add: keys_kept_def)

lemma keys_kept_trans: "keys_kept s s1 \<Longrightarrow> keys_kept s1 s2 \<Longrightarrow> keys_kept s s2"
  by (simp add: keys_kept_def)

text \<open>The cell steps of a chunk together.\<close>

lemma cell_steps_frame:
  assumes "on_state CellStart cell_start s1 = (Inr u1, s2)"
    and "on_state CellInProgress cell_in_progress s2 = (Inr u2, s3)"
    and "on_state CellComplete (cell_complete now) s3 = (Inr u3, s4)"
    and "rm_state (fst s1) \<noteq> RowStart" "rm_state (fst s1) \<noteq> RowComplete"
  shows "keys_kept s1 s4 \<and> rm_state (fst s4) \<noteq> RowStart \<and>
    (rm_state (fst s4) = RowComplete \<longrightarrow> has_commit_row (fst (snd s1)))"
proof -
  have 1: "keys_kept s1 s2 \<and> rm_state (fst s2) \<noteq> RowStart \<and> rm_state (fst s2) \<noteq> RowComplete"
    using assms(1) by (cases rule: on_state_cases) (use assms(4,5) in \<open>auto dest: cell_start_frame\<close>)
  have 2: "keys_kept s2 s3 \<and> rm_state (fst s3) \<noteq> RowStart \<and> rm_state (fst s3) \<noteq> RowComplete"
    using assms(2) by (cases rule: on_state_cases) (use 1 in \<open>auto dest: cell_in_progress_frame\<close>)
  have 3: "keys_kept s1 s3" using 1 2 keys_kept_trans by blast
  then have c: "has_commit_row (fst (snd s3)) = has_commit_row (fst (snd s1))"
    by (simp add: keys_kept_def has_commit_row_def)
  show ?thesis using assms(3)
  proof (cases rule: on_state_cases)
    case skip
    with 2 3 show ?thesis by auto
  next
    case run
    from cell_complete_frame(1) [OF run(2)] 3 have "keys_kept s1 s4" by (simp add: keys_kept_def)
    with cell_complete_frame(2) [OF run(2)] c show ?thesis by (auto split: if_splits)
  qed
qed

section \<open>One row for each commit\<close>

lemma btree_insert_keys: "fst ` set (btree_insert k v m) = insert k (fst ` set m)"
  by (induction k v m rule: btree_insert.induct) auto

lemma btree_insert_sorted:
  "sorted_wrt (<) (map fst m) \<Longrightarrow> sorted_wrt (<) (map fst (btree_insert k v m))"
proof (induction k v m rule: btree_insert.induct)
  case (2 k v k' v' m)
  have "fst ` set (btree_insert k v m) = insert k (fst ` set m)" by (rule btree_insert_keys)
  with 2 show ?case by (auto simp: not_less)
qed simp

lemma btree_insert_last: "\<forall>k' \<in> fst ` set m. k' < k \<Longrightarrow> btree_insert k v m = m @ [(k, v)]"
  by (induction k v m rule: btree_insert.induct) auto

text \<open>The finished rows are below the key last seen and below the row being read.\<close>

definition merge_inv :: "rows \<Rightarrow> row_merger \<Rightarrow> bool" where
  "merge_inv rows m \<longleftrightarrow>
     sorted_wrt (<) (map fst rows) \<and> (\<forall>(k, r) \<in> set rows. row_key r = k) \<and>
     (\<forall>k \<in> fst ` set rows. \<exists>l. rm_last_seen_row_key m = Some l \<and> k \<le> l) \<and>
     (rm_state m \<noteq> RowStart \<longrightarrow> (\<forall>k \<in> fst ` set rows. k < pr_row_key (rm_row m))) \<and>
     rm_state m \<noteq> RowComplete"

definition commits :: "cell_chunk list \<Rightarrow> nat" where
  "commits cs = length (filter has_commit_row cs)"

definition chunk_key_ok :: "cell_chunk \<Rightarrow> bool" where
  "chunk_key_ok c \<longleftrightarrow> from_utf8 (ck_row_key c) \<noteq> None"

lemma from_utf8_SomeD: "from_utf8 b = Some s \<Longrightarrow> s = b"
  by (simp add: from_utf8_def split: if_splits)

lemma utf8_or_default_ok: "from_utf8 b \<noteq> None \<Longrightarrow> utf8_or_default b = b"
  by (auto simp: utf8_or_default_def dest: from_utf8_SomeD)

lemma finish_chunk_inv:
  assumes "finish_chunk now rows s = (Inr rows', s')"
    and "merge_inv rows m" and "rm_last_seen_row_key (fst s) = rm_last_seen_row_key m"
    and "\<forall>k \<in> fst ` set rows. k < pr_row_key (rm_row (fst s))" and "rm_state (fst s) \<noteq> RowStart"
    and "rm_state (fst s) = RowComplete \<longrightarrow> has_commit_row (fst (snd s))"
  shows "merge_inv rows' (fst s') \<and> length rows' = length rows + (if has_commit_row (fst (snd s)) then 1 else 0)"
proof (cases "rm_state (fst s) = RowComplete")
  case True
  obtain q s1 where q: "row_complete now s = (q, s1)" by (rule prod.exhaust)
  note f = row_complete_frame [OF q]
  from f(1) obtain r where r: "q = Inr r" "row_key r = pr_row_key (rm_row (fst s))" by blast
  from assms(1) True q r have rows': "rows' = rows @ [(row_key r, r)]" and s': "s' = s1"
    by (simp_all add: finish_chunk_def btree_insert_last [OF assms(4)])
  have "\<forall>k \<in> fst ` set rows. k < row_key r" using assms(4) r(2) by simp
  then show ?thesis
    using assms(2,6) True f r(2)
    by (auto simp: merge_inv_def rows' s' sorted_wrt_append less_imp_le)
next
  case False
  with assms(1) have "rows' = rows" "s' = s" "\<not> has_commit_row (fst (snd s))"
    by (auto simp: finish_chunk_def split: if_splits)
  with assms False show ?thesis by (auto simp: merge_inv_def)
qed

lemma process_chunk_inv:
  assumes p: "process_chunk now rows (m, c, x) = (Inr rows', s')"
    and inv: "merge_inv rows m" and c: "chunk_key_ok c"
  shows "merge_inv rows' (fst s') \<and> length rows' = length rows + (if has_commit_row c then 1 else 0)"
proof (cases "get_reset_row c")
  case True
  with p obtain u where "reset_row now (m, c, x) = (Inr u, s')" "rows' = rows"
    by (auto simp: process_chunk_def andThen_Inr_iff)
  with reset_row_frame [OF this(1)] inv True show ?thesis
    by (auto simp: merge_inv_def get_reset_row_def has_commit_row_def split: option.splits row_status.splits)
next
  case False
  with p obtain u s1 u1 s2 u2 s3 u3 s4 where
    0: "on_state RowStart (row_start now) (m, c, x) = (Inr u, s1)" and
    1: "on_state CellStart cell_start s1 = (Inr u1, s2)"
      "on_state CellInProgress cell_in_progress s2 = (Inr u2, s3)"
      "on_state CellComplete (cell_complete now) s3 = (Inr u3, s4)" and
    2: "finish_chunk now rows s4 = (Inr rows', s')"
    by (auto simp: process_chunk_def andThen_Inr_iff)
  from 0 have a: "rm_state (fst s1) \<noteq> RowStart \<and> rm_state (fst s1) \<noteq> RowComplete \<and>
      rm_last_seen_row_key (fst s1) = rm_last_seen_row_key m \<and>
      ck_row_status (fst (snd s1)) = ck_row_status c \<and> (\<forall>k \<in> fst ` set rows. k < pr_row_key (rm_row (fst s1)))"
  proof (cases rule: on_state_cases)
    case skip
    with inv show ?thesis by (simp add: merge_inv_def)
  next
    case run
    note f = row_start_frame [OF run(2)]
    have "k < pr_row_key (rm_row (fst s1))" if "k \<in> fst ` set rows" for k
    proof -
      from inv that obtain l where l: "rm_last_seen_row_key m = Some l" "k \<le> l" by (auto simp: merge_inv_def)
      with f(5) [of l] f(4) c show ?thesis by (simp add: chunk_key_ok_def utf8_or_default_ok)
    qed
    with f show ?thesis by simp
  qed
  from cell_steps_frame [OF 1] a have b: "keys_kept s1 s4" "rm_state (fst s4) \<noteq> RowStart"
    "rm_state (fst s4) = RowComplete \<longrightarrow> has_commit_row (fst (snd s1))" by blast+
  then have same: "has_commit_row (fst (snd s4)) = has_commit_row c" "has_commit_row (fst (snd s1)) = has_commit_row c"
    using a by (simp_all add: keys_kept_def has_commit_row_def)
  from finish_chunk_inv [OF 2 inv] a b same show ?thesis by (simp add: keys_kept_def)
qed

lemma process_chunk_list_inv:
  assumes "process_chunk_list now cs rows s = (Inr rows', s')" "merge_inv rows (fst s)" "list_all chunk_key_ok cs"
  shows "merge_inv rows' (fst s') \<and> length rows' = length rows + commits cs"
  using assms
proof (induction cs arbitrary: rows s)
  case (Cons c cs)
  then obtain rows1 m c1 x where 1: "process_chunk now rows (fst s, c, snd s) = (Inr rows1, m, c1, x)"
    "process_chunk_list now cs rows1 (m, x) = (Inr rows', s')"
    by (auto split: prod.splits sum.splits)
  from process_chunk_inv [OF 1(1)] Cons.prems
  have i: "merge_inv rows1 m" "length rows1 = length rows + (if has_commit_row c then 1 else 0)" by simp_all
  from Cons.IH [OF 1(2)] Cons.prems(3) i show ?case by (simp add: commits_def)
qed (simp add: commits_def)

lemma last_scanned_inv:
  assumes "last_scanned k m = Inr m'" "merge_inv rows m"
  shows "merge_inv rows m'"
  using assms
  by (auto simp: last_scanned_def merge_inv_def Let_def split: if_splits option.splits)

definition stream_chunks :: "(string + read_rows_response) list \<Rightarrow> cell_chunk list" where
  "stream_chunks rs = concat (map (\<lambda>r. case r of Inl _ \<Rightarrow> [] | Inr r \<Rightarrow> rr_chunks r) rs)"

lemma process_responses_inv:
  assumes "process_responses now rs rows s = (Inr rows', s')" "merge_inv rows (fst s)"
    "list_all chunk_key_ok (stream_chunks rs)"
  shows "merge_inv rows' (fst s') \<and> length rows' = length rows + commits (stream_chunks rs)"
  using assms
proof (induction now rs rows s rule: process_responses.induct)
  case (3 now r rs rows s)
  then obtain m where m: "last_scanned (rr_last_scanned_row_key r) (fst s) = Inr m"
    by (auto split: sum.splits)
  with 3 obtain rows1 s1 where 1: "process_chunk_list now (rr_chunks r) rows (m, snd s) = (Inr rows1, s1)"
    "process_responses now rs rows1 s1 = (Inr rows', s')" by (auto simp: andThen_Inr_iff)
  from 3(4) have k: "list_all chunk_key_ok (rr_chunks r)" "list_all chunk_key_ok (stream_chunks rs)"
    by (simp_all add: stream_chunks_def)
  from process_chunk_list_inv [OF 1(1) _ k(1)] last_scanned_inv [OF m] 3(3)
  have i: "merge_inv rows1 (fst s1)" "length rows1 = length rows + commits (rr_chunks r)" by auto
  have e: "commits (stream_chunks (Inr r # rs)) = commits (rr_chunks r) + commits (stream_chunks rs)"
    by (simp add: stream_chunks_def commits_def)
  from 3(1) [OF m 1(2) i(1) k(2)] i(2) show ?case unfolding e by simp
qed (simp_all add: stream_chunks_def commits_def)

lemma row_merger_default_inv:
  assumes "row_merger_default now x = (m, x')"
  shows "merge_inv [] m"
  using assms by (auto simp: row_merger_default_def merge_inv_def Let_def split: prod.splits)

text \<open>Claim C12. Reading loses and invents no row: if a stream whose row keys are text is read
  without an error, the result has exactly one row for each chunk that commits a row, the
  keys are strictly ascending, and each row sits under its own key.\<close>

theorem one_row_per_commit:
  assumes "process_chunks now stream x = (Inr rows, x')" "list_all chunk_key_ok (stream_chunks stream)"
  shows "length rows = commits (stream_chunks stream) \<and> sorted_wrt (<) (map fst rows) \<and>
    (\<forall>(k, r) \<in> set rows. row_key r = k)"
proof -
  obtain m x1 where m: "row_merger_default now x = (m, x1)" by (rule prod.exhaust)
  with assms(1) obtain m1 x2 where "process_responses now stream [] (m, x1) = (Inr rows, m1, x2)"
    by (auto simp: process_chunks_def split: prod.splits sum.splits)
  from process_responses_inv [OF this _ assms(2)] row_merger_default_inv [OF m]
  show ?thesis by (simp add: merge_inv_def)
qed

section \<open>Rows sent one chunk per cell\<close>

text \<open>
  What a server sends for a row whose cells each fit one chunk: the key with the first
  cell, the commit with the last. A chunk may leave out the name of its family
  (\<open>wc_named\<close>), which then is that of the cell before. A row may also be cut off and reset,
  to be sent again.
\<close>

record wire_cell =
  wc_family :: string
  wc_named :: bool
  wc_qualifier :: string
  wc_micros :: u64
  wc_value :: bytes

record wire_row =
  wr_key :: string
  wr_cells :: "wire_cell list"

definition cell_chunk_of :: "bytes \<Rightarrow> bool \<Rightarrow> wire_cell \<Rightarrow> cell_chunk" where
  "cell_chunk_of key commit c =
     \<lparr>ck_row_key = key, ck_family_name = (if wc_named c then Some (wc_family c) else None),
      ck_qualifier = Some (wc_qualifier c),
      ck_timestamp_micros = wc_micros c, ck_labels = [], ck_value = wc_value c, ck_value_size = 0,
      ck_row_status = (if commit then Some (CommitRow True) else None)\<rparr>"

fun cell_chunks :: "bytes \<Rightarrow> wire_cell list \<Rightarrow> cell_chunk list" where
  "cell_chunks key [] = []"
| "cell_chunks key [c] = [cell_chunk_of key True c]"
| "cell_chunks key (c # cs) = cell_chunk_of key False c # cell_chunks [] cs"

definition reset_chunk :: cell_chunk where
  "reset_chunk =
     \<lparr>ck_row_key = [], ck_family_name = None, ck_qualifier = None, ck_timestamp_micros = 0, ck_labels = [],
      ck_value = [], ck_value_size = 0, ck_row_status = Some (ResetRow True)\<rparr>"

datatype sent = Committed wire_row | CutOff wire_row nat

fun sent_chunks :: "sent \<Rightarrow> cell_chunk list" where
  "sent_chunks (Committed w) = cell_chunks (wr_key w) (wr_cells w)"
| "sent_chunks (CutOff w n) = take n (cell_chunks (wr_key w) (wr_cells w)) @ [reset_chunk]"

text \<open>
  A row of this kind: its columns are distinct, its first chunk names its family, and only
  cells of that same family leave the name out.
\<close>

definition wire_row_ok :: "string option \<Rightarrow> wire_row \<Rightarrow> bool" where
  "wire_row_ok prev w \<longleftrightarrow>
     wr_key w \<noteq> [] \<and> from_utf8 (wr_key w) \<noteq> None \<and>
     (case prev of None \<Rightarrow> True | Some k \<Rightarrow> k < wr_key w) \<and> wr_cells w \<noteq> [] \<and>
     distinct (map wc_qualifier (wr_cells w)) \<and> wc_named (hd (wr_cells w)) \<and>
     list_all (\<lambda>c. wc_family c \<noteq> [] \<and> from_utf8 (wc_qualifier c) \<noteq> None \<and>
       (wc_named c \<or> wc_family c = wc_family (hd (wr_cells w)))) (wr_cells w)"

fun sent_ok :: "string option \<Rightarrow> sent list \<Rightarrow> bool" where
  "sent_ok prev [] \<longleftrightarrow> True"
| "sent_ok prev (Committed w # ss) \<longleftrightarrow> wire_row_ok prev w \<and> sent_ok (Some (wr_key w)) ss"
| "sent_ok prev (CutOff w n # ss) \<longleftrightarrow> wire_row_ok prev w \<and> 0 < n \<and> n < length (wr_cells w) \<and> sent_ok prev ss"

definition wire_entry :: "wire_cell \<Rightarrow> string \<times> cell list" where
  "wire_entry c = (wc_qualifier c,
     [\<lparr>cell_family = wc_family c, cell_qualifier = wc_qualifier c, cell_value = wc_value c, cell_value_index = 0,
       cell_timestamp = 1000 * uint (wc_micros c), cell_labels = []\<rparr>])"

fun expected_rows :: "sent list \<Rightarrow> rows" where
  "expected_rows [] = []"
| "expected_rows (Committed w # ss) =
     (wr_key w, \<lparr>row_key = wr_key w, row_cells = map wire_entry (wr_cells w)\<rparr>) # expected_rows ss"
| "expected_rows (CutOff w n # ss) = expected_rows ss"

text \<open>The states between two rows, and inside a row whose first family is \<open>fam\<close> after the
  cells \<open>done\<close>.\<close>

definition blank :: "partial_cell \<Rightarrow> bool" where
  "blank c \<longleftrightarrow> pc_value c = [] \<and> pc_labels c = [] \<and> pc_value_index c = 0"

definition idle :: "string option \<Rightarrow> row_merger \<Rightarrow> bool" where
  "idle prev m \<longleftrightarrow> rm_state m = RowStart \<and> rm_last_seen_row_key m = prev \<and> pr_cells (rm_row m) = [] \<and>
     pr_last_family (rm_row m) = [] \<and> pr_last_qualifier (rm_row m) = [] \<and> pr_last_collected_cells (rm_row m) = []"

definition midrow :: "string \<Rightarrow> string option \<Rightarrow> string \<Rightarrow> wire_cell list \<Rightarrow> row_merger \<Rightarrow> bool" where
  "midrow fam prev key done m \<longleftrightarrow> rm_state m = CellStart \<and> rm_last_seen_row_key m = prev \<and>
     rm_last_seen_cell_family m = Some fam \<and> pr_row_key (rm_row m) = key \<and> (done = [] \<longrightarrow> pr_cells (rm_row m) = []) \<and>
     pr_last_collected_cells (rm_row m) = map wire_entry done \<and> blank (pr_cell_in_progress (rm_row m)) \<and>
     pr_last_family (rm_row m) = (if done = [] then [] else wc_family (last done)) \<and>
     pr_last_qualifier (rm_row m) = (if done = [] then [] else wc_qualifier (last done))"

lemma hm_insert_fresh: "k \<notin> fst ` set m \<Longrightarrow> hm_insert k v m = m @ [(k, v)]"
  by (induction m) auto

lemma row_start_midrow:
  assumes "idle prev m" "ck_row_key c = key" "ck_family_name c = Some fam" "key \<noteq> []" "from_utf8 key \<noteq> None"
    "case prev of None \<Rightarrow> True | Some k \<Rightarrow> k < key"
  shows "\<exists>m' x'. row_start now (m, c, x) = (Inr (), m', c, x') \<and> midrow fam prev key [] m'"
  using assms
  by (auto simp: row_start_def idle_def midrow_def partial_cell_default_def blank_def utf8_or_default_ok Let_def
      not_le [symmetric] split: prod.splits option.splits)

lemma cell_start_whole:
  assumes "midrow fam prev key done m" "ck_row_key c = [] \<or> done = []" "ck_qualifier c = Some q" "from_utf8 q \<noteq> None"
    "ck_family_name c = Some f \<or> ck_family_name c = None \<and> f = fam" "ck_labels c = []" "ck_value_size c = 0"
  shows "\<exists>cip. cell_start (m, c, x) =
      (Inr (), m\<lparr>rm_row := (rm_row m)\<lparr>pr_cell_in_progress := cip\<rparr>, rm_state := CellComplete\<rparr>,
       c\<lparr>ck_qualifier := None, ck_family_name := None, ck_labels := []\<rparr>, x) \<and>
    pc_family cip = f \<and> pc_qualifier cip = q \<and> pc_timestamp cip = 1000 * uint (ck_timestamp_micros c) \<and>
    pc_labels cip = [] \<and> pc_value cip = ck_value c \<and> pc_value_index cip = 0"
  using assms by (auto simp: cell_start_def midrow_def blank_def utf8_or_default_ok Let_def)

lemma cell_complete_whole:
  assumes "midrow fam prev key done m" and f: "wc_family w \<noteq> []" and q: "wc_qualifier w \<notin> wc_qualifier ` set done"
    and cip: "pc_family cip = wc_family w" "pc_qualifier cip = wc_qualifier w"
      "pc_timestamp cip = 1000 * uint (wc_micros w)" "pc_labels cip = []" "pc_value cip = wc_value w"
  shows "\<exists>m' x'. cell_complete now
      (m\<lparr>rm_row := (rm_row m)\<lparr>pr_cell_in_progress := cip\<rparr>, rm_state := CellComplete\<rparr>, c, x) = (Inr (), m', c, x') \<and>
    midrow fam prev key (done @ [w]) (m'\<lparr>rm_state := CellStart\<rparr>) \<and>
    rm_state m' = (if has_commit_row c then RowComplete else CellStart)"
proof -
  let ?row = "(rm_row m)\<lparr>pr_cell_in_progress := cip\<rparr>"
  have changed: "pr_last_family ?row \<noteq> pc_family cip \<or> pr_last_qualifier ?row \<noteq> pc_qualifier cip"
  proof (cases "done = []")
    case False
    then have "wc_qualifier (last done) \<in> wc_qualifier ` set done" by simp
    with q have "wc_qualifier (last done) \<noteq> wc_qualifier w" by metis
    with assms(1) cip False show ?thesis by (simp add: midrow_def)
  qed (use assms in \<open>simp add: midrow_def\<close>)
  have fresh: "pc_qualifier cip \<notin> fst ` set (map wire_entry done)"
    using q cip by (auto simp: wire_entry_def)
  show ?thesis
    using assms(1) changed hm_insert_fresh [OF fresh] cip
    by (auto simp: cell_complete_def midrow_def cell_default_def blank_def wire_entry_def Let_def split: prod.splits)
qed

lemma get_reset_row_whole [simp]: "\<not> get_reset_row (cell_chunk_of key commit w)"
  by (simp add: get_reset_row_def cell_chunk_of_def)

lemma process_cell:
  assumes m: "midrow fam prev key done m" and k: "k = [] \<or> done = []" and w: "wc_family w \<noteq> []" "from_utf8 (wc_qualifier w) \<noteq> None" "wc_named w \<or> wc_family w = fam"
    and q: "wc_qualifier w \<notin> wc_qualifier ` set done" and rows: "\<forall>k \<in> fst ` set rows. k < key"
  shows "\<exists>m' c' x'. process_chunk now rows (m, cell_chunk_of k commit w, x) =
      (Inr (if commit then rows @ [(key, \<lparr>row_key = key, row_cells = map wire_entry (done @ [w])\<rparr>)] else rows), m', c', x') \<and>
    (if commit then idle (Some key) m' else midrow fam prev key (done @ [w]) m')"
proof -
  let ?c = "cell_chunk_of k commit w"
  let ?c1 = "?c\<lparr>ck_qualifier := None, ck_family_name := None, ck_labels := []\<rparr>"
  have "\<exists>cip. cell_start (m, ?c, x) =
      (Inr (), m\<lparr>rm_row := (rm_row m)\<lparr>pr_cell_in_progress := cip\<rparr>, rm_state := CellComplete\<rparr>, ?c1, x) \<and>
    pc_family cip = wc_family w \<and> pc_qualifier cip = wc_qualifier w \<and> pc_timestamp cip = 1000 * uint (wc_micros w) \<and>
    pc_labels cip = [] \<and> pc_value cip = wc_value w \<and> pc_value_index cip = 0"
    using cell_start_whole [OF m, of ?c "wc_qualifier w" "wc_family w" x] k w
    by (cases "wc_named w") (simp_all add: cell_chunk_of_def)
  then obtain cip where s: "cell_start (m, ?c, x) =
      (Inr (), m\<lparr>rm_row := (rm_row m)\<lparr>pr_cell_in_progress := cip\<rparr>, rm_state := CellComplete\<rparr>, ?c1, x)"
    and cip: "pc_family cip = wc_family w" "pc_qualifier cip = wc_qualifier w"
      "pc_timestamp cip = 1000 * uint (wc_micros w)" "pc_labels cip = []" "pc_value cip = wc_value w" by blast
  from cell_complete_whole [OF m w(1) q cip, of now ?c1 x] obtain m2 x2 where
    d: "cell_complete now (m\<lparr>rm_row := (rm_row m)\<lparr>pr_cell_in_progress := cip\<rparr>, rm_state := CellComplete\<rparr>, ?c1, x) =
      (Inr (), m2, ?c1, x2)" and
    m2: "midrow fam prev key (done @ [w]) (m2\<lparr>rm_state := CellStart\<rparr>)"
      "rm_state m2 = (if has_commit_row ?c1 then RowComplete else CellStart)" by blast
  have commit: "has_commit_row ?c1 = commit" by (simp add: has_commit_row_def cell_chunk_of_def)
  have p: "process_chunk now rows (m, ?c, x) = finish_chunk now rows (m2, ?c1, x2)"
    using m s d by (simp add: process_chunk_def on_state_def midrow_def)
  show ?thesis
  proof (cases commit)
    case False
    with m2 commit have "m2\<lparr>rm_state := CellStart\<rparr> = m2" by simp
    with p False commit m2 show ?thesis by (simp add: finish_chunk_def)
  next
    case True
    with m2 commit have r: "pr_row_key (rm_row m2) = key" "pr_last_collected_cells (rm_row m2) = map wire_entry (done @ [w])"
      by (simp_all add: midrow_def)
    obtain fr x3 where fr: "partial_row_default now x2 = (fr, x3)" by (rule prod.exhaust)
    then have f: "pr_cells fr = []" "pr_last_family fr = []" "pr_last_qualifier fr = []" "pr_last_collected_cells fr = []"
      by (auto simp: partial_row_default_def split: prod.splits)
    from p True m2 commit r fr show ?thesis
      by (simp add: finish_chunk_def row_complete_def btree_insert_last [OF rows] idle_def f)
  qed
qed

lemma process_chunk_list_Cons:
  "process_chunk now rows (m, c, x) = (Inr rows1, m1, c1, x1) \<Longrightarrow>
     process_chunk_list now (c # cs) rows (m, x) = process_chunk_list now cs rows1 (m1, x1)"
  by simp

declare process_chunk_list.simps(2) [simp del]

lemma process_chunk_list_append:
  "process_chunk_list now (cs @ ds) rows s =
     andThen (process_chunk_list now cs rows s) (\<lambda>rows1 s1. process_chunk_list now ds rows1 s1)"
  by (induction cs arbitrary: rows s) (auto simp: process_chunk_list.simps(2) split: prod.splits sum.splits)

text \<open>The cells of a row after the first ones, up to the commit or up to the cut.\<close>

definition cells_ok :: "string \<Rightarrow> wire_cell list \<Rightarrow> wire_cell list \<Rightarrow> bool" where
  "cells_ok fam done ws \<longleftrightarrow> distinct (map wc_qualifier (done @ ws)) \<and>
     list_all (\<lambda>c. wc_family c \<noteq> [] \<and> from_utf8 (wc_qualifier c) \<noteq> None \<and> (wc_named c \<or> wc_family c = fam)) ws"

lemma cells_ok_Cons: "cells_ok fam done (w # ws) \<longleftrightarrow> wc_family w \<noteq> [] \<and> from_utf8 (wc_qualifier w) \<noteq> None \<and>
    (wc_named w \<or> wc_family w = fam) \<and> wc_qualifier w \<notin> wc_qualifier ` set done \<and> cells_ok fam (done @ [w]) ws"
  by (auto simp: cells_ok_def)

lemma process_cells:
  assumes "midrow fam prev key done m" "k = [] \<or> done = []" "ws \<noteq> []" "cells_ok fam done ws" "\<forall>k \<in> fst ` set rows. k < key"
  shows "\<exists>m' x'. process_chunk_list now (cell_chunks k ws) rows (m, x) =
    (Inr (rows @ [(key, \<lparr>row_key = key, row_cells = map wire_entry (done @ ws)\<rparr>)]), m', x') \<and> idle (Some key) m'"
  using assms
proof (induction k ws arbitrary: "done" m x rule: cell_chunks.induct)
  case (2 k w)
  then have w: "wc_family w \<noteq> []" "from_utf8 (wc_qualifier w) \<noteq> None" "wc_named w \<or> wc_family w = fam" "wc_qualifier w \<notin> wc_qualifier ` set done"
    by (simp_all add: cells_ok_Cons)
  from process_cell [OF 2(1,2) w 2(5), of now True x] process_chunk_list_Cons
  show ?case by (auto simp: process_chunk_list_Cons)
next
  case (3 k w v vs)
  then have w: "wc_family w \<noteq> []" "from_utf8 (wc_qualifier w) \<noteq> None" "wc_named w \<or> wc_family w = fam" "wc_qualifier w \<notin> wc_qualifier ` set done"
    and r: "cells_ok fam (done @ [w]) (v # vs)" by (simp_all add: cells_ok_Cons)
  from process_cell [OF 3(2,3) w 3(6), of now False x] obtain m1 c1 x1 where
    p: "process_chunk now rows (m, cell_chunk_of k False w, x) = (Inr rows, m1, c1, x1)"
    and m1: "midrow fam prev key (done @ [w]) m1" by auto
  from 3(1) [OF m1 _ _ r 3(6), of x1] process_chunk_list_Cons [OF p] show ?case by simp
qed simp

lemma process_cells_cut:
  assumes "midrow fam prev key done m" "k = [] \<or> done = []" "cells_ok fam done ws" "\<forall>k \<in> fst ` set rows. k < key" "n < length ws"
  shows "\<exists>m' x'. process_chunk_list now (take n (cell_chunks k ws)) rows (m, x) = (Inr rows, m', x') \<and>
    midrow fam prev key (done @ take n ws) m'"
  using assms
proof (induction k ws arbitrary: "done" m x n rule: cell_chunks.induct)
  case (3 k w v vs)
  show ?case
  proof (cases n)
    case 0
    with 3 show ?thesis by simp
  next
    case (Suc j)
    from 3 have w: "wc_family w \<noteq> []" "from_utf8 (wc_qualifier w) \<noteq> None" "wc_named w \<or> wc_family w = fam" "wc_qualifier w \<notin> wc_qualifier ` set done"
      and r: "cells_ok fam (done @ [w]) (v # vs)" by (simp_all add: cells_ok_Cons)
    from process_cell [OF 3(2,3) w 3(5), of now False x] obtain m1 c1 x1 where
      p: "process_chunk now rows (m, cell_chunk_of k False w, x) = (Inr rows, m1, c1, x1)"
      and m1: "midrow fam prev key (done @ [w]) m1" by auto
    from 3(1) [OF m1 _ r 3(5), of j x1] 3(6) Suc process_chunk_list_Cons [OF p] show ?thesis by simp
  qed
qed simp_all

lemma process_reset:
  assumes "midrow fam prev key done m"
  shows "\<exists>m' x'. process_chunk_list now [reset_chunk] rows (m, x) = (Inr rows, m', x') \<and> idle prev m'"
  using assms
  by (auto simp: process_chunk_list.simps(2) process_chunk_def get_reset_row_def reset_chunk_def reset_row_def midrow_def
      partial_row_default_def partial_cell_default_def idle_def split: prod.splits)

lemma cell_chunks_first:
  assumes "w # ws = wr_cells r"
  obtains commit cs where "cell_chunks k (wr_cells r) = cell_chunk_of k commit w # cs"
  using assms [symmetric] by (cases ws) auto

text \<open>The first chunk of a row starts it, and then is an ordinary cell chunk.\<close>

lemma process_first:
  assumes i: "idle prev m" and w: "wc_named w" "wc_family w = fam" and k: "key \<noteq> []" "from_utf8 key \<noteq> None" "case prev of None \<Rightarrow> True | Some k \<Rightarrow> k < key"
  shows "\<exists>m1 x1. midrow fam prev key [] m1 \<and> process_chunk_list now (cell_chunk_of key commit w # cs) rows (m, x) =
    process_chunk_list now (cell_chunk_of key commit w # cs) rows (m1, x1)"
proof -
  let ?c = "cell_chunk_of key commit w"
  from row_start_midrow [OF i _ _ k, of ?c fam now x] w obtain m1 x1 where
    s: "row_start now (m, ?c, x) = (Inr (), m1, ?c, x1)" and m1: "midrow fam prev key [] m1"
    by (auto simp: cell_chunk_of_def)
  have "process_chunk now rows (m, ?c, x) = process_chunk now rows (m1, ?c, x1)"
    using i m1 s by (simp add: process_chunk_def on_state_def idle_def midrow_def)
  with m1 show ?thesis by (auto simp: process_chunk_list.simps(2))
qed

lemma process_sent:
  assumes "idle prev m" "wire_row_ok prev w" "\<forall>k \<in> fst ` set rows. \<exists>l. prev = Some l \<and> k \<le> l"
  shows "\<exists>m' x'. process_chunk_list now (sent_chunks (Committed w)) rows (m, x) =
      (Inr (rows @ [(wr_key w, \<lparr>row_key = wr_key w, row_cells = map wire_entry (wr_cells w)\<rparr>)]), m', x') \<and>
      idle (Some (wr_key w)) m'"
    and "0 < n \<Longrightarrow> n < length (wr_cells w) \<Longrightarrow>
      \<exists>m' x'. process_chunk_list now (sent_chunks (CutOff w n)) rows (m, x) = (Inr rows, m', x') \<and> idle prev m'"
proof -
  from assms(2) have k: "wr_key w \<noteq> []" "from_utf8 (wr_key w) \<noteq> None" "case prev of None \<Rightarrow> True | Some k \<Rightarrow> k < wr_key w"
    and c: "cells_ok (wc_family (hd (wr_cells w))) [] (wr_cells w)" and named: "wc_named (hd (wr_cells w))" and ne: "wr_cells w \<noteq> []"
    by (auto simp: wire_row_ok_def cells_ok_def)
  have rows: "\<forall>k \<in> fst ` set rows. k < wr_key w"
    using assms(3) k(3) by fastforce
  from ne obtain v vs where v: "v # vs = wr_cells w" by (cases "wr_cells w") auto
  have hd: "wc_named v" and c: "cells_ok (wc_family v) [] (wr_cells w)" using c named by (simp_all add: v [symmetric])
  obtain commit cs where cs: "cell_chunks (wr_key w) (wr_cells w) = cell_chunk_of (wr_key w) commit v # cs"
    using cell_chunks_first [OF v] .
  from process_first [OF assms(1) _ _ k, of v "wc_family v" now commit cs rows x] hd obtain m1 x1 where m1: "midrow (wc_family v) prev (wr_key w) [] m1"
    and e: "process_chunk_list now (cell_chunks (wr_key w) (wr_cells w)) rows (m, x) =
      process_chunk_list now (cell_chunks (wr_key w) (wr_cells w)) rows (m1, x1)" unfolding cs by blast
  from process_cells [OF m1 _ ne c rows, of "wr_key w" now x1] e
  show "\<exists>m' x'. process_chunk_list now (sent_chunks (Committed w)) rows (m, x) =
      (Inr (rows @ [(wr_key w, \<lparr>row_key = wr_key w, row_cells = map wire_entry (wr_cells w)\<rparr>)]), m', x') \<and>
      idle (Some (wr_key w)) m'" by simp
  assume n: "0 < n" "n < length (wr_cells w)"
  from n(1) obtain j where j: "n = Suc j" by (cases n) auto
  from process_first [OF assms(1) _ _ k, of v "wc_family v" now commit "take j cs" rows x] hd obtain m2 x2 where m2: "midrow (wc_family v) prev (wr_key w) [] m2"
    and e2: "process_chunk_list now (take n (cell_chunks (wr_key w) (wr_cells w))) rows (m, x) =
      process_chunk_list now (take n (cell_chunks (wr_key w) (wr_cells w))) rows (m2, x2)" unfolding cs j by auto
  from process_cells_cut [OF m2 _ c rows n(2), of "wr_key w" now x2] obtain m3 x3 where
    m3: "process_chunk_list now (take n (cell_chunks (wr_key w) (wr_cells w))) rows (m2, x2) = (Inr rows, m3, x3)"
      "midrow (wc_family v) prev (wr_key w) (take n (wr_cells w)) m3" by auto
  from process_reset [OF m3(2), of now rows x3] e2 m3(1)
  show "\<exists>m' x'. process_chunk_list now (sent_chunks (CutOff w n)) rows (m, x) = (Inr rows, m', x') \<and> idle prev m'"
    by (simp add: process_chunk_list_append)
qed

lemma process_all_sent:
  assumes "sent_ok prev ss" "idle prev m" "\<forall>k \<in> fst ` set rows. \<exists>l. prev = Some l \<and> k \<le> l"
  shows "\<exists>m' x'. process_chunk_list now (concat (map sent_chunks ss)) rows (m, x) = (Inr (rows @ expected_rows ss), m', x') \<and>
    rm_state m' = RowStart"
  using assms
proof (induction prev ss arbitrary: rows m x rule: sent_ok.induct)
  case (1 prev)
  then show ?case by (simp add: idle_def)
next
  case (2 prev w ss)
  let ?rows = "rows @ [(wr_key w, \<lparr>row_key = wr_key w, row_cells = map wire_entry (wr_cells w)\<rparr>)]"
  from 2(2) have w: "wire_row_ok prev w" "sent_ok (Some (wr_key w)) ss" by simp_all
  from process_sent(1) [OF 2(3) w(1) 2(4), of now x] obtain m1 x1 where
    p: "process_chunk_list now (sent_chunks (Committed w)) rows (m, x) = (Inr ?rows, m1, x1)" "idle (Some (wr_key w)) m1" by blast
  have "\<forall>k \<in> fst ` set ?rows. \<exists>l. Some (wr_key w) = Some l \<and> k \<le> l"
    using 2(4) w(1) by (fastforce simp: wire_row_ok_def)
  from 2(1) [OF w(2) p(2) this, of x1] p(1) show ?case by (simp add: process_chunk_list_append)
next
  case (3 prev w n ss)
  from 3(2) have w: "wire_row_ok prev w" "0 < n" "n < length (wr_cells w)" "sent_ok prev ss" by simp_all
  from process_sent(2) [OF 3(3) w(1) 3(4) w(2,3), of now x] obtain m1 x1 where
    p: "process_chunk_list now (sent_chunks (CutOff w n)) rows (m, x) = (Inr rows, m1, x1)" "idle prev m1" by blast
  from 3(1) [OF w(4) p(2) 3(4), of x1] p(1) show ?case
    by (simp add: process_chunk_list_append del: sent_chunks.simps)
qed

text \<open>How the chunks are spread over responses does not matter.\<close>

definition plain_stream :: "(string + read_rows_response) list \<Rightarrow> bool" where
  "plain_stream rs \<longleftrightarrow> list_all (\<lambda>r. case r of Inl _ \<Rightarrow> False | Inr r \<Rightarrow> rr_last_scanned_row_key r = []) rs"

lemma process_responses_plain:
  "plain_stream rs \<Longrightarrow> process_responses now rs rows s = process_chunk_list now (stream_chunks rs) rows s"
proof (induction rs arbitrary: rows s)
  case (Cons q rs)
  then obtain r where r: "q = Inr r" "plain_stream rs" "rr_last_scanned_row_key r = []"
    by (auto simp: plain_stream_def split: sum.splits)
  have "stream_chunks (q # rs) = rr_chunks r @ stream_chunks rs" by (simp add: stream_chunks_def r(1))
  moreover from Cons.IH [OF r(2)] have "process_responses now rs = process_chunk_list now (stream_chunks rs)" by blast
  ultimately show ?case using r by (simp add: last_scanned_def process_chunk_list_append)
qed (simp add: stream_chunks_def)

lemma process_chunks_sent:
  assumes "sent_ok None ss" "plain_stream stream" "stream_chunks stream = concat (map sent_chunks ss)"
  shows "\<exists>x'. process_chunks now stream x = (Inr (expected_rows ss), x')"
proof -
  obtain m x1 where m: "row_merger_default now x = (m, x1)" by (rule prod.exhaust)
  then have "idle None m" by (auto simp: row_merger_default_def partial_row_default_def idle_def split: prod.splits)
  from process_all_sent [OF assms(1) this, of "[]" now x1] obtain m' x' where
    "process_responses now stream [] (m, x1) = (Inr (expected_rows ss), m', x')" "rm_state m' = RowStart"
    by (auto simp: process_responses_plain [OF assms(2)] assms(3))
  with m show ?thesis by (simp add: process_chunks_def finalize_def)
qed

text \<open>Claim C9. Rows with distinct columns and no labels whose cells each fit one chunk are read
  back exactly, in whatever way the chunks are spread over the responses of the stream, as
  long as a chunk that leaves out the name of its family belongs to the family of its row's
  first cell: every cell of every committed row is in the result under its column with its
  value, family and timestamp, and a row that was cut off and reset leaves no trace.\<close>

theorem rows_read_back:
  assumes "sent_ok None ss" "plain_stream stream" "stream_chunks stream = concat (map sent_chunks ss)"
  shows "fst (process_chunks now stream x) = Inr (expected_rows ss)"
  using process_chunks_sent [OF assms, of now x] by auto

section \<open>A family that is left out\<close>

text \<open>A chunk that leaves out its family belongs, by the protocol, to the family of the cell
  before. The merger remembers a family only when a row starts, so that after a change of
  family inside the row the cell is given to the family of the row's first cell.\<close>

definition two_families :: "string \<Rightarrow> string \<Rightarrow> wire_row" where
  "two_families f g =
     \<lparr>wr_key = ''k'', wr_cells =
        [\<lparr>wc_family = f, wc_named = True, wc_qualifier = ''a'', wc_micros = 0, wc_value = ''x''\<rparr>,
         \<lparr>wc_family = g, wc_named = True, wc_qualifier = ''b'', wc_micros = 0, wc_value = ''y''\<rparr>,
         \<lparr>wc_family = g, wc_named = False, wc_qualifier = ''c'', wc_micros = 0, wc_value = ''z''\<rparr>]\<rparr>"

theorem later_family_misread:
  assumes "f \<noteq> []" and "g \<noteq> []"
  shows "\<exists>cells. fst (process_chunks now
      [Inr \<lparr>rr_chunks = sent_chunks (Committed (two_families f g)), rr_last_scanned_row_key = []\<rparr>] x) =
      Inr [(''k'', \<lparr>row_key = ''k'', row_cells = cells\<rparr>)] \<and>
    map_option (map cell_family) (hm_get cells ''b'') = Some [g] \<and>
    map_option (map cell_family) (hm_get cells ''c'') = Some [f]"
proof -
  let ?cells = "[\<lparr>wc_family = f, wc_named = True, wc_qualifier = ''a'', wc_micros = 0, wc_value = ''x''\<rparr>,
    \<lparr>wc_family = g, wc_named = True, wc_qualifier = ''b'', wc_micros = 0, wc_value = ''y''\<rparr>,
    \<lparr>wc_family = f, wc_named = False, wc_qualifier = ''c'', wc_micros = 0, wc_value = ''z''\<rparr>]"
  let ?row = "\<lparr>wr_key = ''k'', wr_cells = ?cells\<rparr>"
  let ?stream = "[Inr \<lparr>rr_chunks = sent_chunks (Committed (two_families f g)), rr_last_scanned_row_key = []\<rparr>]"
  have "sent_chunks (Committed (two_families f g)) = sent_chunks (Committed ?row)"
    by (simp add: two_families_def cell_chunk_of_def)
  then have c: "stream_chunks ?stream = concat (map sent_chunks [Committed ?row])" by (simp add: stream_chunks_def)
  have ok: "sent_ok None [Committed ?row]" using assms by (simp add: wire_row_ok_def from_utf8_def)
  have plain: "plain_stream ?stream" by (simp add: plain_stream_def)
  from process_chunks_sent [OF ok plain c, of now x]
  have "fst (process_chunks now ?stream x) = Inr (expected_rows [Committed ?row])" by auto
  then show ?thesis by (simp add: wire_entry_def)
qed

section \<open>Cells sent in several chunks\<close>

text \<open>
  The first chunk of a cell whose value continues has the size of the whole value; the
  chunks that follow carry nothing but more of the value.
\<close>

definition opening_chunk :: "bytes \<Rightarrow> i32 \<Rightarrow> wire_cell \<Rightarrow> cell_chunk" where
  "opening_chunk key sz w = (cell_chunk_of key False w)\<lparr>ck_value_size := sz\<rparr>"

definition continuation :: "bytes \<Rightarrow> i32 \<Rightarrow> bool \<Rightarrow> cell_chunk" where
  "continuation v sz commit =
     \<lparr>ck_row_key = [], ck_family_name = None, ck_qualifier = None, ck_timestamp_micros = 0, ck_labels = [],
      ck_value = v, ck_value_size = sz, ck_row_status = (if commit then Some (CommitRow True) else None)\<rparr>"

text \<open>A value that is sent in several chunks cannot be read: the check for labels in
  \<open>cell_in_progress\<close> is inverted, so the first continuation chunk, which has none, is
  refused, whatever follows it.\<close>

theorem split_cell_refused:
  assumes "wr_key w \<noteq> []" "wr_cells w = [c]" "wc_named c" "wc_value c \<noteq> []" "0 < sint sz"
  shows "fst (process_chunks now
    (Inr \<lparr>rr_chunks = opening_chunk (wr_key w) sz c # continuation v sz' commit # cs, rr_last_scanned_row_key = []\<rparr> # rest) x) =
    Inl (InvalidChunk ''Found labels mid cell'')"
proof -
  obtain t x1 where t: "now x = (t, x1)" by (rule prod.exhaust)
  obtain t2 x2 where t2: "now x1 = (t2, x2)" by (rule prod.exhaust)
  show ?thesis
    using assms t t2
    by (simp add: process_chunks_def row_merger_default_def partial_row_default_def partial_cell_default_def
        last_scanned_def process_chunk_list.simps(2) process_chunk_def opening_chunk_def cell_chunk_of_def get_reset_row_def
        on_state_def row_start_def cell_start_def cell_in_progress_def finish_chunk_def has_commit_row_def continuation_def Let_def)
qed

theorem split_cell_refused_witness:
  "let c = \<lparr>wc_family = ''message'', wc_named = True, wc_qualifier = ''data'', wc_micros = 5000, wc_value = ''ab''\<rparr> in
   fst (process_chunks (\<lambda>x. (7, x))
     [Inr \<lparr>rr_chunks = [opening_chunk ''k'' 4 c, continuation ''cd'' 0 True], rr_last_scanned_row_key = []\<rparr>] ()) =
   Inl (InvalidChunk ''Found labels mid cell'')"
  unfolding Let_def
  using split_cell_refused [of "\<lparr>wr_key = ''k'', wr_cells =
      [\<lparr>wc_family = ''message'', wc_named = True, wc_qualifier = ''data'', wc_micros = 5000, wc_value = ''ab''\<rparr>]\<rparr>"
      "\<lparr>wc_family = ''message'', wc_named = True, wc_qualifier = ''data'', wc_micros = 5000, wc_value = ''ab''\<rparr>" 4]
  by simp

section \<open>A concrete stream\<close>

text \<open>A row that is cut off after its first cell and sent again, in two responses; its second cell
  has the family of the first and does not name it.\<close>

definition demo_row :: wire_row where
  "demo_row =
     \<lparr>wr_key = ''k'', wr_cells =
        [\<lparr>wc_family = ''message'', wc_named = True, wc_qualifier = ''ttl'', wc_micros = 5000, wc_value = ''ab''\<rparr>,
         \<lparr>wc_family = ''message'', wc_named = False, wc_qualifier = ''data'', wc_micros = 5000, wc_value = ''cd''\<rparr>]\<rparr>"

definition demo_stream :: "(string + read_rows_response) list" where
  "demo_stream =
     [Inr \<lparr>rr_chunks = sent_chunks (CutOff demo_row 1), rr_last_scanned_row_key = []\<rparr>,
      Inr \<lparr>rr_chunks = sent_chunks (Committed demo_row), rr_last_scanned_row_key = []\<rparr>]"

lemma demo_sent: "sent_ok None [CutOff demo_row 1, Committed demo_row]" "plain_stream demo_stream"
    "stream_chunks demo_stream = concat (map sent_chunks [CutOff demo_row 1, Committed demo_row])"
  by (simp_all add: demo_row_def wire_row_ok_def from_utf8_def plain_stream_def demo_stream_def stream_chunks_def)

theorem rows_read_back_witness:
  "fst (process_chunks (\<lambda>x. (7, x)) demo_stream ()) = Inr (expected_rows [Committed demo_row])"
  using rows_read_back [OF demo_sent] by simp

theorem one_row_per_commit_witness:
  "\<exists>rows x'. process_chunks (\<lambda>x. (7, x)) demo_stream () = (Inr rows, x') \<and> length rows = 1"
proof -
  obtain x' where p: "process_chunks (\<lambda>x. (7, x)) demo_stream () =
      (Inr (expected_rows [CutOff demo_row 1, Committed demo_row]), x')"
    using process_chunks_sent [OF demo_sent, of "\<lambda>x. (7, x)" "()"] by blast
  have k: "list_all chunk_key_ok (stream_chunks demo_stream)" "commits (stream_chunks demo_stream) = 1"
    by (simp_all add: stream_chunks_def demo_stream_def demo_row_def chunk_key_ok_def cell_chunk_of_def reset_chunk_def
        from_utf8_def commits_def has_commit_row_def)
  from one_row_per_commit [OF p k(1)] k(2) p show ?thesis by auto
qed

end
