(* ===== verification/BigTable.thy ===== *)
theory BigTable
  imports RowMerger Storage
begin

text \<open>
  The Bigtable client, \<open>autopush-common/src/db/bigtable/bigtable_client/mod.rs\<close>: the requests
  it builds, the conversion of users and notifications to rows and back, and every operation
  of \<open>DbClient\<close>, ending in \<open>bigtable_client\<close>, an instance of the interface of \<open>Storage\<close>. The
  gRPC calls are parameters. The theory shows that a stored user and a stored notification
  are read back as they were written, that the key ranges of the two fetches take in exactly
  the messages they should, and that the values put into regular expressions are quoted.
\<close>

section \<open>Requests\<close>

text \<open>The protobuf messages the client fills in; a limit of 0 means none.\<close>

datatype row_filter =
    CellsPerColumnLimit nat
  | TimestampFrom u64
  | FamilyNameRegex string
  | ColumnQualifierRegex bytes
  | ValueRegex bytes
  | RowKeyRegex bytes
  | BlockAll bool
  | FilterChain "row_filter list"

datatype mutation =
    SetCell string bytes bytes u64
  | DeleteFromColumn string bytes "(u64 \<times> u64) option"
  | DeleteFromRow

record read_rows_request =
  rq_table_name :: string
  rq_row_keys :: "bytes list"
  rq_row_ranges :: "(bytes \<times> bytes) list"
  rq_filter :: "row_filter option"
  rq_rows_limit :: nat

record mutate_row_request =
  mq_table_name :: string
  mq_row_key :: bytes
  mq_mutations :: "mutation list"

record check_and_mutate_request =
  cq_table_name :: string
  cq_row_key :: bytes
  cq_predicate_filter :: "row_filter option"
  cq_true_mutations :: "mutation list"
  cq_false_mutations :: "mutation list"

section \<open>The outside\<close>

text \<open>\<open>grpcio::Error\<close>, as far as the client tells its cases apart.\<close>

datatype rpc_status_code = RpcUnknown | RpcInternal | RpcUnavailable | RpcDeadlineExceeded | RpcOtherCode string

datatype grpc_error =
    RpcFailure rpc_status_code string
  | BindFail string
  | CallFailure bool
  | GrpcOther string

text \<open>
  The pool, the calls of the Bigtable service, each under the retry policy with the given
  number of retries and retry condition, JSON, the printing of errors and \<open>SystemTime::now\<close>
  are parameters.
\<close>

record 'x bigtable =
  bt_table_name :: string
  bt_retry_count :: nat
  bt_uuid :: uuid_lib
  bt_uuid_from_slice :: "bytes \<Rightarrow> string + uuid"
  bt_regex :: regex_set
  bt_sys :: "'x sys"
  bt_now :: "'x \<Rightarrow> system_time \<times> 'x"
  bt_json_map :: "(string, string) hashmap \<Rightarrow> string"
  bt_parse_router_data :: "string \<Rightarrow> string + (string, string) hashmap option"
  bt_parse_headers :: "string \<Rightarrow> string + (string, string) hashmap"
  bt_show_grpc :: "grpc_error \<Rightarrow> string"
  bt_show_apc :: "apc_error \<Rightarrow> string"
  bt_pool_get :: "'x \<Rightarrow> (bigtable_error, unit, 'x) outcome"
  bt_read_rows_opt :: "nat \<Rightarrow> (grpc_error \<Rightarrow> bool) \<Rightarrow> read_rows_request \<Rightarrow>
    'x \<Rightarrow> (grpc_error, (string + read_rows_response) list, 'x) outcome"
  bt_mutate_row_opt :: "nat \<Rightarrow> (grpc_error \<Rightarrow> bool) \<Rightarrow> mutate_row_request \<Rightarrow> 'x \<Rightarrow> (grpc_error, unit, 'x) outcome"
  bt_check_and_mutate_row_opt :: "nat \<Rightarrow> (grpc_error \<Rightarrow> bool) \<Rightarrow> check_and_mutate_request \<Rightarrow>
    'x \<Rightarrow> (grpc_error, bool, 'x) outcome"

definition ROUTER_FAMILY :: string where "ROUTER_FAMILY = ''router''"
definition MESSAGE_FAMILY :: string where "MESSAGE_FAMILY = ''message''"
definition MESSAGE_TOPIC_FAMILY :: string where "MESSAGE_TOPIC_FAMILY = ''message_topic''"
definition RETRY_COUNT :: nat where "RETRY_COUNT = 5"

text \<open>\<open>Uuid::as_bytes\<close> as a byte string.\<close>

definition uuid_octets :: "uuid_lib \<Rightarrow> uuid \<Rightarrow> bytes" where
  "uuid_octets lib u = map (\<lambda>b. char_of (unat b)) (uuid_bytes lib u)"

section \<open>Retries\<close>

definition ascii_lower :: "char \<Rightarrow> char" where
  "ascii_lower c = (if 65 \<le> (of_char c :: nat) \<and> (of_char c :: nat) \<le> 90 then char_of ((of_char c :: nat) + 32) else c)"

definition retryable_internal_error :: "rpc_status_code \<Rightarrow> string \<Rightarrow> bool" where
  "retryable_internal_error code msg = (case code of
       RpcUnknown \<Rightarrow> map ascii_lower msg = ''error occurred when fetching oauth2 token.''
     | RpcInternal \<Rightarrow> map ascii_lower msg \<in>
         {''rst_stream'', ''rst stream'', ''received unexpected eos on data frame from server''}
     | RpcUnavailable \<Rightarrow> True
     | RpcDeadlineExceeded \<Rightarrow> True
     | _ \<Rightarrow> False)"

text \<open>\<open>CallFailure\<close> says whether its status is \<open>GRPC_CALL_ERROR\<close>. The metrics are left out.\<close>

definition retryable_error :: "grpc_error \<Rightarrow> bool" where
  "retryable_error e = (case e of
       RpcFailure code msg \<Rightarrow> retryable_internal_error code msg
     | BindFail _ \<Rightarrow> True
     | CallFailure is_call_error \<Rightarrow> is_call_error
     | GrpcOther _ \<Rightarrow> False)"

section \<open>Filters\<close>

definition is_ascii_alphanumeric :: "char \<Rightarrow> bool" where
  "is_ascii_alphanumeric c \<longleftrightarrow> (let b = (of_char c :: nat) in
     48 \<le> b \<and> b \<le> 57 \<or> 65 \<le> b \<and> b \<le> 90 \<or> 97 \<le> b \<and> b \<le> 122)"

fun escape_bytes :: "bytes \<Rightarrow> bytes" where
  "escape_bytes [] = []"
| "escape_bytes (b # bs) =
     (if \<not> is_ascii_alphanumeric b \<and> b \<noteq> CHR ''_'' \<and> (of_char b :: nat) < 128
      then (if (of_char b :: nat) = 0 then [CHR 0x5C] @ ''x00'' @ escape_bytes bs else CHR 0x5C # b # escape_bytes bs)
      else b # escape_bytes bs)"

definition router_gc_policy_filter :: row_filter where
  "router_gc_policy_filter = CellsPerColumnLimit 1"

definition duration_since_epoch :: "system_time \<Rightarrow> bigtable_error + int" where
  "duration_since_epoch t =
     (if t < 0 then Inl (BtWriteTime ''second time provided was later than self'') else Inr t)"

definition as_millis :: "int \<Rightarrow> int" where
  "as_millis d = d div 1000000"

definition message_gc_policy_filter :: "'x bigtable \<Rightarrow> 'x \<Rightarrow> (bigtable_error, row_filter list, 'x) outcome" where
  "message_gc_policy_filter B x =
     (let (t, x1) = bt_now B x in
      case duration_since_epoch t of
        Inl e \<Rightarrow> (Inl e, x1)
      | Inr d \<Rightarrow> (Inr [router_gc_policy_filter, TimestampFrom (of_int (as_millis d) * 1000)], x1))"

definition family_filter :: "string \<Rightarrow> row_filter" where
  "family_filter regex = FamilyNameRegex regex"

definition exactly :: "string \<Rightarrow> string" where
  "exactly s = ''^'' @ s @ ''$''"

definition version_filter :: "'x bigtable \<Rightarrow> uuid \<Rightarrow> row_filter list" where
  "version_filter B version =
     [family_filter (exactly ROUTER_FAMILY), ColumnQualifierRegex ''^version$'',
      ValueRegex (escape_bytes (uuid_octets (bt_uuid B) version))]"

definition filter_chain :: "row_filter list \<Rightarrow> row_filter" where
  "filter_chain fs = FilterChain fs"

text \<open>
  A cell to be written. The fields a \<open>Cell\<close> literal leaves to \<open>Cell::default\<close> do not depend
  on the clock reading it makes, as each literal sets the timestamp.
\<close>

definition written_cell :: "string \<Rightarrow> bytes \<Rightarrow> system_time \<Rightarrow> cell" where
  "written_cell q v t =
     \<lparr>cell_family = [], cell_qualifier = q, cell_value = v, cell_value_index = 0, cell_timestamp = t,
      cell_labels = []\<rparr>"

definition new_version_cell :: "'x bigtable \<Rightarrow> system_time \<Rightarrow> 'x \<Rightarrow> cell \<times> 'x" where
  "new_version_cell B timestamp x =
     (let (u, x1) = sys_new_uuid (bt_sys B) x
      in (written_cell ''version'' (uuid_octets (bt_uuid B) u) timestamp, x1))"

section \<open>Values\<close>

definition to_u64 :: "bytes \<Rightarrow> string \<Rightarrow> db_error + u64" where
  "to_u64 value name = (if length value = 8 then Inr (from_be_bytes value) else Inl (DeserializeU64 name))"

definition to_string :: "bytes \<Rightarrow> string \<Rightarrow> db_error + string" where
  "to_string value name = (case from_utf8 value of Some s \<Rightarrow> Inr s | None \<Rightarrow> Inl (DeserializeString name))"

definition is_incomplete_router_record :: "(string, cell list) hashmap \<Rightarrow> bool" where
  "is_incomplete_router_record cells \<longleftrightarrow>
     list_all (\<lambda>k. k \<in> {''current_timestamp'', ''version''} \<or> starts_with ''chid:'' k) (map fst cells)"

section \<open>The calls\<close>

definition read_row_request :: "'x bigtable \<Rightarrow> string \<Rightarrow> read_rows_request" where
  "read_row_request B key =
     \<lparr>rq_table_name = bt_table_name B, rq_row_keys = [key], rq_row_ranges = [], rq_filter = None, rq_rows_limit = 0\<rparr>"

definition mutate_row_request :: "'x bigtable \<Rightarrow> string \<Rightarrow> mutate_row_request" where
  "mutate_row_request B key = \<lparr>mq_table_name = bt_table_name B, mq_row_key = key, mq_mutations = []\<rparr>"

definition check_and_mutate_row_request :: "'x bigtable \<Rightarrow> string \<Rightarrow> check_and_mutate_request" where
  "check_and_mutate_row_request B key =
     \<lparr>cq_table_name = bt_table_name B, cq_row_key = key, cq_predicate_filter = None, cq_true_mutations = [],
      cq_false_mutations = []\<rparr>"

definition mutate_row :: "'x bigtable \<Rightarrow> mutate_row_request \<Rightarrow> 'x \<Rightarrow> (bigtable_error, unit, 'x) outcome" where
  "mutate_row B req x =
     andThen (bt_pool_get B x) (\<lambda>_ x1.
       mapErr (\<lambda>e. BtWrite (bt_show_grpc B e)) (bt_mutate_row_opt B (bt_retry_count B) retryable_error req x1))"

text \<open>
  \<open>mutate_rows\<close> scans its answers for the first entry with a failure status; an entry is its
  status code and message, if it has one.
\<close>

fun scan_entries :: "(int \<times> string) option list \<Rightarrow> bigtable_error + unit" where
  "scan_entries [] = Inr ()"
| "scan_entries (None # es) = scan_entries es"
| "scan_entries (Some (code, msg) # es) =
     (let st = mutate_row_status_of code in
      if \<not> mutate_row_status_is_ok st then Inl (BtStatus st msg) else scan_entries es)"

fun scan_mutate_rows :: "('x bigtable) \<Rightarrow> (grpc_error + (int \<times> string) option list) list \<Rightarrow> bigtable_error + unit" where
  "scan_mutate_rows B [] = Inr ()"
| "scan_mutate_rows B (Inl e # rs) = Inl (BtWrite (bt_show_grpc B e))"
| "scan_mutate_rows B (Inr es # rs) =
     (case scan_entries es of Inl e \<Rightarrow> Inl e | Inr _ \<Rightarrow> scan_mutate_rows B rs)"

definition read_rows :: "'x bigtable \<Rightarrow> read_rows_request \<Rightarrow> 'x \<Rightarrow> (bigtable_error, rows, 'x) outcome" where
  "read_rows B req x =
     andThen (bt_pool_get B x) (\<lambda>_ x1.
     andThen (mapErr (\<lambda>e. BtRead (bt_show_grpc B e)) (bt_read_rows_opt B (bt_retry_count B) retryable_error req x1))
       (\<lambda>resp x2. process_chunks (bt_now B) resp x2))"

definition read_row :: "'x bigtable \<Rightarrow> read_rows_request \<Rightarrow> 'x \<Rightarrow> (bigtable_error, row option, 'x) outcome" where
  "read_row B req x =
     andThen (read_rows B req x)
       (\<lambda>rows x1. (Inr (case rows of [] \<Rightarrow> None | (_, v) # _ \<Rightarrow> Some v), x1))"

fun family_mutations :: "string \<Rightarrow> cell list \<Rightarrow> bigtable_error + mutation list" where
  "family_mutations family_id [] = Inr []"
| "family_mutations family_id (c # cs) =
     (case duration_since_epoch (cell_timestamp c) of
        Inl e \<Rightarrow> Inl e
      | Inr timestamp \<Rightarrow>
          (case family_mutations family_id cs of
             Inl e \<Rightarrow> Inl e
           | Inr ms \<Rightarrow> Inr (SetCell family_id (cell_qualifier c) (cell_value c) (of_int (as_millis timestamp * 1000)) # ms)))"

fun get_mutations :: "(string, cell list) hashmap \<Rightarrow> bigtable_error + mutation list" where
  "get_mutations [] = Inr []"
| "get_mutations ((family_id, cells) # fs) =
     (case family_mutations family_id cells of
        Inl e \<Rightarrow> Inl e
      | Inr ms \<Rightarrow> (case get_mutations fs of Inl e \<Rightarrow> Inl e | Inr ms' \<Rightarrow> Inr (ms @ ms')))"

definition write_row :: "'x bigtable \<Rightarrow> row \<Rightarrow> 'x \<Rightarrow> (bigtable_error, unit, 'x) outcome" where
  "write_row B row x =
     (case get_mutations (row_cells row) of
        Inl e \<Rightarrow> (Inl e, x)
      | Inr ms \<Rightarrow> mutate_row B ((mutate_row_request B (row_key row))\<lparr>mq_mutations := ms\<rparr>) x)"

definition check_and_mutate :: "'x bigtable \<Rightarrow> check_and_mutate_request \<Rightarrow> 'x \<Rightarrow> (bigtable_error, bool, 'x) outcome" where
  "check_and_mutate B req x =
     andThen (bt_pool_get B x) (\<lambda>_ x1.
       mapErr (\<lambda>e. BtWrite (bt_show_grpc B e))
         (bt_check_and_mutate_row_opt B (bt_retry_count B) retryable_error req x1))"

definition check_and_mutate_row ::
  "'x bigtable \<Rightarrow> row \<Rightarrow> row_filter \<Rightarrow> bool \<Rightarrow> 'x \<Rightarrow> (bigtable_error, bool, 'x) outcome" where
  "check_and_mutate_row B row flt st x =
     (let req = check_and_mutate_row_request B (row_key row) in
      case get_mutations (row_cells row) of
        Inl e \<Rightarrow> (Inl e, x)
      | Inr ms \<Rightarrow>
          (let req1 = req\<lparr>cq_predicate_filter := Some flt\<rparr>;
               req2 = (if st then req1\<lparr>cq_true_mutations := ms\<rparr> else req1\<lparr>cq_false_mutations := ms\<rparr>)
           in check_and_mutate B req2 x))"

definition get_delete_mutations :: "string \<Rightarrow> string list \<Rightarrow> (u64 \<times> u64) option \<Rightarrow> mutation list" where
  "get_delete_mutations family column_names time_range =
     map (\<lambda>column. DeleteFromColumn family column time_range) column_names"

definition delete_cells :: "'x bigtable \<Rightarrow> string \<Rightarrow> string \<Rightarrow> string list \<Rightarrow> (u64 \<times> u64) option \<Rightarrow> 'x \<Rightarrow>
    (bigtable_error, unit, 'x) outcome" where
  "delete_cells B key family column_names time_range x =
     mutate_row B ((mutate_row_request B key)\<lparr>mq_mutations := get_delete_mutations family column_names time_range\<rparr>) x"

definition delete_row :: "'x bigtable \<Rightarrow> string \<Rightarrow> 'x \<Rightarrow> (bigtable_error, unit, 'x) outcome" where
  "delete_row B key x = mutate_row B ((mutate_row_request B key)\<lparr>mq_mutations := [DeleteFromRow]\<rparr>) x"

section \<open>Users\<close>

text \<open>
  \<open>user_to_row\<close>: the cells of a user's row, all with one expiry. \<open>SystemTime + Duration\<close>
  does not overflow for the time-to-live values of the program.
\<close>

definition expiry_after :: "'x bigtable \<Rightarrow> u64 \<Rightarrow> 'x \<Rightarrow> system_time \<times> 'x" where
  "expiry_after B secs x = (let (t, x1) = bt_now B x in (t + 1000000000 * uint secs, x1))"

definition user_cells :: "'x bigtable \<Rightarrow> user \<Rightarrow> uuid \<Rightarrow> system_time \<Rightarrow> cell list" where
  "user_cells B user version expiry =
     [written_cell ''connected_at'' (to_be_bytes (u_connected_at user)) expiry,
      written_cell ''router_type'' (u_router_type user) expiry,
      written_cell ''record_version''
        (to_be_bytes (case u_record_version user of Some v \<Rightarrow> v | None \<Rightarrow> USER_RECORD_VERSION)) expiry,
      written_cell ''version'' (uuid_octets (bt_uuid B) version) expiry] @
     (case u_router_data user of
        Some router_data \<Rightarrow> [written_cell ''router_data'' (bt_json_map B router_data) expiry] | None \<Rightarrow> []) @
     (case u_current_timestamp user of
        Some current_timestamp \<Rightarrow> [written_cell ''current_timestamp'' (to_be_bytes current_timestamp) expiry] | None \<Rightarrow> []) @
     (case u_node_id user of Some node_id \<Rightarrow> [written_cell ''node_id'' node_id expiry] | None \<Rightarrow> [])"

definition user_to_row :: "'x bigtable \<Rightarrow> user \<Rightarrow> uuid \<Rightarrow> 'x \<Rightarrow> row \<times> 'x" where
  "user_to_row B user version x =
     (let (expiry, x1) = expiry_after B MAX_ROUTER_TTL x
      in (snd (add_cells ROUTER_FAMILY (user_cells B user version expiry)
            (row_new (uuid_simple (bt_uuid B) (u_uaid user)))), x1))"

definition bt_add_user :: "'x bigtable \<Rightarrow> user \<Rightarrow> (unit, 'x) db_op" where
  "bt_add_user B user x =
     (case u_version user of
        None \<Rightarrow> (Inl (DbGeneral ''add_user expected a user version field''), x)
      | Some version \<Rightarrow>
          (let (row, x1) = user_to_row B user version x;
               flt = filter_chain [router_gc_policy_filter, RowKeyRegex (exactly (row_key row))]
           in andThen (mapErr BTError (check_and_mutate_row B row flt False x1))
                (\<lambda>matched x2. (if matched then Inl Conditional else Inr (), x2))))"

definition bt_update_user :: "'x bigtable \<Rightarrow> user \<Rightarrow> 'x \<Rightarrow> (db_error, bool, user \<times> 'x) outcome" where
  "bt_update_user B user x =
     (case u_version user of
        None \<Rightarrow> (Inl (DbGeneral ''update_user expected a user version field''), user, x)
      | Some version \<Rightarrow>
          (let flt = filter_chain (router_gc_policy_filter # version_filter B version);
               (new_version, x1) = sys_new_uuid (bt_sys B) x;
               (row, x2) = user_to_row B user new_version x1
           in case mapErr BTError (check_and_mutate_row B row flt True x2) of
                (Inl e, x3) \<Rightarrow> (Inl e, user, x3)
              | (Inr matched, x3) \<Rightarrow> (Inr matched, user\<lparr>u_version := Some new_version\<rparr>, x3)))"

definition bt_remove_user :: "'x bigtable \<Rightarrow> uuid \<Rightarrow> (unit, 'x) db_op" where
  "bt_remove_user B uaid x = mapErr BTError (delete_row B (uuid_simple (bt_uuid B) uaid) x)"

text \<open>A required cell, read by a conversion.\<close>

definition required :: "(bytes \<Rightarrow> string \<Rightarrow> db_error + 'a) \<Rightarrow> string \<Rightarrow> row \<Rightarrow> (db_error, 'a, row) outcome" where
  "required conv column r =
     andThen (take_required_cell column r) (\<lambda>c r1. (conv (cell_value c) column, r1))"

definition to_uuid :: "'x bigtable \<Rightarrow> bytes \<Rightarrow> string \<Rightarrow> db_error + uuid" where
  "to_uuid B value name = (case bt_uuid_from_slice B value of
       Inr u \<Rightarrow> Inr u
     | Inl e \<Rightarrow> Inl (DbSerialization (''Could not deserialize version: '' @ e)))"

definition optional :: "(bytes \<Rightarrow> string \<Rightarrow> db_error + 'a) \<Rightarrow> string \<Rightarrow> row \<Rightarrow> (db_error, 'a option, row) outcome" where
  "optional conv column r =
     (let (c, r1) = take_cell column r in
      case c of
        None \<Rightarrow> (Inr None, r1)
      | Some c \<Rightarrow> (map_sum id Some (conv (cell_value c) column), r1))"

definition to_router_data :: "'x bigtable \<Rightarrow> bytes \<Rightarrow> string \<Rightarrow> db_error + (string, string) hashmap option" where
  "to_router_data B value name =
     (case to_string value ''router_type'' of
        Inl e \<Rightarrow> Inl e
      | Inr s \<Rightarrow> (case bt_parse_router_data B s of
          Inl e \<Rightarrow> Inl (DbSerialization (''Could not deserialize router_type: '' @ e))
        | Inr d \<Rightarrow> Inr d))"

text \<open>
  The part of \<open>get_user\<close> that builds the user from the row without the cell of
  \<open>connected_at\<close>; the remaining fields come from \<open>User::default\<close>. The debug print of a row
  in an integrity error is the fixed text \<open>Row\<close>, the text of a UUID parse error
  \<open>invalid uuid\<close>.
\<close>

definition user_of_row ::
  "'x bigtable \<Rightarrow> uuid \<Rightarrow> bytes \<Rightarrow> row \<Rightarrow> 'x \<Rightarrow> (db_error, user, 'x) outcome" where
  "user_of_row B uaid connected r x =
     (case to_u64 connected ''connected_at'' of Inl e \<Rightarrow> (Inl e, x) | Inr connected_at \<Rightarrow>
     (case required to_string ''router_type'' r of (Inl e, _) \<Rightarrow> (Inl e, x) | (Inr router_type, r1) \<Rightarrow>
     (case required to_u64 ''record_version'' r1 of (Inl e, _) \<Rightarrow> (Inl e, x) | (Inr record_version, r2) \<Rightarrow>
     (case required (to_uuid B) ''version'' r2 of (Inl e, _) \<Rightarrow> (Inl e, x) | (Inr version, r3) \<Rightarrow>
       (let (dflt, x1) = user_default (bt_sys B) x;
            user = dflt\<lparr>u_uaid := uaid, u_connected_at := connected_at, u_router_type := router_type,
              u_record_version := Some record_version, u_version := Some version\<rparr>
        in
        case optional (to_router_data B) ''router_data'' r3 of (Inl e, _) \<Rightarrow> (Inl e, x1) | (Inr router_data, r4) \<Rightarrow>
        (case optional to_string ''node_id'' r4 of (Inl e, _) \<Rightarrow> (Inl e, x1) | (Inr node_id, r5) \<Rightarrow>
        (case optional to_u64 ''current_timestamp'' r5 of (Inl e, _) \<Rightarrow> (Inl e, x1) | (Inr current_timestamp, _) \<Rightarrow>
          (Inr (user\<lparr>u_router_data := (case router_data of Some d \<Rightarrow> d | None \<Rightarrow> u_router_data user),
                     u_node_id := opt_or node_id (u_node_id user),
                     u_current_timestamp := opt_or current_timestamp (u_current_timestamp user)\<rparr>), x1))))))))"

definition bt_get_user :: "'x bigtable \<Rightarrow> uuid \<Rightarrow> (user option, 'x) db_op" where
  "bt_get_user B uaid x =
     (let req = (read_row_request B (uuid_simple (bt_uuid B) uaid))
        \<lparr>rq_filter := Some (filter_chain [router_gc_policy_filter, family_filter (exactly ROUTER_FAMILY)])\<rparr> in
      andThen (mapErr BTError (read_row B req x)) (\<lambda>found x1.
        case found of
          None \<Rightarrow> (Inr None, x1)
        | Some r \<Rightarrow>
            (case take_required_cell ''connected_at'' r of
               (Inr c, r1) \<Rightarrow> andThen (user_of_row B uaid (cell_value c) r1 x1) (\<lambda>u x2. (Inr (Some u), x2))
             | (Inl _, r1) \<Rightarrow>
                 if \<not> is_incomplete_router_record (row_cells r1)
                 then (Inl (Integrity ''Expected column: connected_at'' (Some ''Row'')), x1)
                 else andThen (bt_remove_user B uaid x1) (\<lambda>_ x2. (Inr None, x2)))))"

section \<open>Channels\<close>

definition channel_column :: "'x bigtable \<Rightarrow> uuid \<Rightarrow> string" where
  "channel_column B channel_id = ''chid:'' @ uuid_hyphenated (bt_uuid B) channel_id"

definition bt_add_channels :: "'x bigtable \<Rightarrow> uuid \<Rightarrow> uuid list \<Rightarrow> (unit, 'x) db_op" where
  "bt_add_channels B uaid channels x =
     (let (expiry, x1) = expiry_after B MAX_CHANNEL_TTL x;
          cells = map (\<lambda>channel_id. written_cell (channel_column B channel_id) [] expiry) (take 100000 channels);
          row = snd (add_cells ROUTER_FAMILY cells (row_new (uuid_simple (bt_uuid B) uaid)))
      in mapErr BTError (write_row B row x1))"

definition bt_add_channel :: "'x bigtable \<Rightarrow> uuid \<Rightarrow> uuid \<Rightarrow> (unit, 'x) db_op" where
  "bt_add_channel B uaid channel_id x = bt_add_channels B uaid [channel_id] x"

fun split_once_str :: "string \<Rightarrow> string \<Rightarrow> (string \<times> string) option" where
  "split_once_str p s =
     (if starts_with p s then Some ([], drop (length p) s)
      else (case s of [] \<Rightarrow> None | c # cs \<Rightarrow> map_option (\<lambda>(a, b). (c # a, b)) (split_once_str p cs)))"

fun channels_of_cells :: "'x bigtable \<Rightarrow> cell list list \<Rightarrow> uuid list \<Rightarrow> db_error + uuid list" where
  "channels_of_cells B [] result = Inr result"
| "channels_of_cells B (cells # rest) result =
     (if cells = [] then channels_of_cells B rest result
      else (case split_once_str ''chid:'' (cell_qualifier (last cells)) of
              None \<Rightarrow> Inl (Integrity ''get_channels expected: chid:<chid>'' None)
            | Some (_, chid) \<Rightarrow>
                (case uuid_parse (bt_uuid B) chid of
                   None \<Rightarrow> Inl (DbGeneral ''invalid uuid'')
                 | Some u \<Rightarrow> channels_of_cells B rest (List.insert u result))))"

definition bt_get_channels :: "'x bigtable \<Rightarrow> uuid \<Rightarrow> (uuid list, 'x) db_op" where
  "bt_get_channels B uaid x =
     (let req = (read_row_request B (uuid_simple (bt_uuid B) uaid))
        \<lparr>rq_filter := Some (filter_chain [router_gc_policy_filter, family_filter (exactly ROUTER_FAMILY),
            ColumnQualifierRegex ''^chid:.*$''])\<rparr> in
      andThen (mapErr BTError (read_row B req x)) (\<lambda>found x1.
        case found of
          None \<Rightarrow> (Inr [], x1)
        | Some r \<Rightarrow> (channels_of_cells B (map snd (row_cells r)) [], x1)))"

definition bt_remove_channel :: "'x bigtable \<Rightarrow> uuid \<Rightarrow> uuid \<Rightarrow> (bool, 'x) db_op" where
  "bt_remove_channel B uaid channel_id x =
     (let key = uuid_simple (bt_uuid B) uaid;
          column = channel_column B channel_id;
          (expiry, x1) = expiry_after B MAX_ROUTER_TTL x;
          (vc, x2) = new_version_cell B expiry x1
      in case get_mutations [(ROUTER_FAMILY, [vc])] of
           Inl e \<Rightarrow> (Inl (BTError e), x2)
         | Inr ms \<Rightarrow>
             mapErr BTError (check_and_mutate B
               ((check_and_mutate_row_request B key)
                  \<lparr>cq_predicate_filter := Some (filter_chain [router_gc_policy_filter, ColumnQualifierRegex (exactly column)]),
                   cq_true_mutations := get_delete_mutations ROUTER_FAMILY [column] None @ ms\<rparr>) x2))"

definition bt_remove_node_id ::
  "'x bigtable \<Rightarrow> uuid \<Rightarrow> string \<Rightarrow> u64 \<Rightarrow> uuid option \<Rightarrow> (bool, 'x) db_op" where
  "bt_remove_node_id B uaid node_id connected_at version x =
     (case version of
        None \<Rightarrow> (Inl (DbGeneral ''Expected a user version field''), x)
      | Some version \<Rightarrow>
          mapErr BTError (check_and_mutate B
            ((check_and_mutate_row_request B (uuid_simple (bt_uuid B) uaid))
               \<lparr>cq_predicate_filter := Some (filter_chain (router_gc_policy_filter # version_filter B version)),
                cq_true_mutations := get_delete_mutations ROUTER_FAMILY [''node_id''] None\<rparr>) x))"

section \<open>Messages\<close>

definition message_row_key :: "'x bigtable \<Rightarrow> uuid \<Rightarrow> string \<Rightarrow> string" where
  "message_row_key B uaid k = uuid_simple (bt_uuid B) uaid @ ''#'' @ k"

definition message_cells :: "'x bigtable \<Rightarrow> notification \<Rightarrow> system_time \<Rightarrow> cell list" where
  "message_cells B message expiry =
     [written_cell ''ttl'' (to_be_bytes (n_ttl message)) expiry,
      written_cell ''timestamp'' (to_be_bytes (n_timestamp message)) expiry,
      written_cell ''version'' (n_version message) expiry] @
     (case n_headers message of
        Some headers \<Rightarrow> if headers = [] then [] else [written_cell ''headers'' (bt_json_map B headers) expiry]
      | None \<Rightarrow> []) @
     (case n_data message of Some data \<Rightarrow> [written_cell ''data'' data expiry] | None \<Rightarrow> [])"

definition message_family :: "notification \<Rightarrow> string" where
  "message_family message = (if n_topic message \<noteq> None then MESSAGE_TOPIC_FAMILY else MESSAGE_FAMILY)"

definition bt_save_message :: "'x bigtable \<Rightarrow> uuid \<Rightarrow> notification \<Rightarrow> (unit, 'x) db_op" where
  "bt_save_message B uaid message x =
     (let (k, x1) = chidmessageid (bt_uuid B) (bt_sys B) message x;
          (expiry, x2) = expiry_after B (n_ttl message) x1;
          row = snd (add_cells (message_family message) (message_cells B message expiry)
                  (row_new (message_row_key B uaid k)))
      in mapErr BTError (write_row B row x2))"

fun bt_save_messages :: "'x bigtable \<Rightarrow> uuid \<Rightarrow> notification list \<Rightarrow> (unit, 'x) db_op" where
  "bt_save_messages B uaid [] x = (Inr (), x)"
| "bt_save_messages B uaid (message # messages) x =
     andThen (bt_save_message B uaid message x) (\<lambda>_ x1. bt_save_messages B uaid messages x1)"

definition bt_increment_storage :: "'x bigtable \<Rightarrow> uuid \<Rightarrow> u64 \<Rightarrow> (unit, 'x) db_op" where
  "bt_increment_storage B uaid timestamp x =
     (let (expiry, x1) = expiry_after B MAX_ROUTER_TTL x;
          (vc, x2) = new_version_cell B expiry x1;
          row = (row_new (uuid_simple (bt_uuid B) uaid))
            \<lparr>row_cells := [(ROUTER_FAMILY, [written_cell ''current_timestamp'' (to_be_bytes timestamp) expiry, vc])]\<rparr>
      in mapErr BTError (write_row B row x2))"

definition bt_remove_message :: "'x bigtable \<Rightarrow> uuid \<Rightarrow> string \<Rightarrow> (unit, 'x) db_op" where
  "bt_remove_message B uaid k x = mapErr BTError (delete_row B (message_row_key B uaid k) x)"

definition to_headers :: "'x bigtable \<Rightarrow> bytes \<Rightarrow> string \<Rightarrow> db_error + (string, string) hashmap" where
  "to_headers B value name =
     (case to_string value name of
        Inl e \<Rightarrow> Inl e
      | Inr s \<Rightarrow> (case bt_parse_headers B s of Inl e \<Rightarrow> Inl (DbSerialization e) | Inr h \<Rightarrow> Inr h))"

definition row_to_notification :: "'x bigtable \<Rightarrow> string \<Rightarrow> row \<Rightarrow> db_error + notification" where
  "row_to_notification B key r =
     (case split_once (CHR ''#'') key of
        None \<Rightarrow> Inl (Integrity ''rows_to_notification expected row_key: uaid:chidmessageid '' None)
      | Some (_, k) \<Rightarrow>
     (case parse_chidmessageid (bt_uuid B) (bt_regex B) k of
        Inl e \<Rightarrow> Inl (Integrity (''rows_to_notification expected chidmessageid: '' @ bt_show_apc B e) None)
      | Inr range_key \<Rightarrow>
     (case required to_string ''version'' r of (Inl e, _) \<Rightarrow> Inl e | (Inr version, r1) \<Rightarrow>
     (case required to_u64 ''ttl'' r1 of (Inl e, _) \<Rightarrow> Inl e | (Inr ttl, r2) \<Rightarrow>
     (case required to_u64 ''timestamp'' r2 of (Inl e, _) \<Rightarrow> Inl e | (Inr timestamp, r3) \<Rightarrow>
     (case optional to_string ''data'' r3 of (Inl e, _) \<Rightarrow> Inl e | (Inr data, r4) \<Rightarrow>
     (case optional (to_headers B) ''headers'' r4 of (Inl e, _) \<Rightarrow> Inl e | (Inr headers, _) \<Rightarrow>
        Inr \<lparr>n_channel_id = rk_channel_id range_key, n_version = version, n_ttl = ttl, n_topic = rk_topic range_key,
             n_timestamp = timestamp, n_data = data, n_sortkey_timestamp = rk_sortkey_timestamp range_key,
             n_headers = headers\<rparr>)))))))"

fun rows_to_notifications :: "'x bigtable \<Rightarrow> rows \<Rightarrow> db_error + notification list" where
  "rows_to_notifications B [] = Inr []"
| "rows_to_notifications B ((k, r) # rs) =
     (case row_to_notification B k r of
        Inl e \<Rightarrow> Inl e
      | Inr n \<Rightarrow> (case rows_to_notifications B rs of Inl e \<Rightarrow> Inl e | Inr ns \<Rightarrow> Inr (n # ns)))"

text \<open>The requests of the two fetches: an open key range, a column family, a limit.\<close>

definition fetch_request ::
  "'x bigtable \<Rightarrow> string \<Rightarrow> string \<Rightarrow> string \<Rightarrow> nat \<Rightarrow> 'x \<Rightarrow> (bigtable_error, read_rows_request, 'x) outcome" where
  "fetch_request B start_key end_key family limit x =
     andThen (message_gc_policy_filter B x) (\<lambda>filters x1.
       (Inr \<lparr>rq_table_name = bt_table_name B, rq_row_keys = [], rq_row_ranges = [(start_key, end_key)],
             rq_filter = Some (filter_chain (filters @ [family_filter (exactly family)])),
             rq_rows_limit = limit\<rparr>, x1))"

definition topic_range :: "'x bigtable \<Rightarrow> uuid \<Rightarrow> string \<times> string" where
  "topic_range B uaid = (uuid_simple (bt_uuid B) uaid @ ''#01:'', uuid_simple (bt_uuid B) uaid @ ''#02:'')"

definition timestamp_range :: "'x bigtable \<Rightarrow> uuid \<Rightarrow> u64 option \<Rightarrow> string \<times> string" where
  "timestamp_range B uaid timestamp =
     (case timestamp of
        Some ts \<Rightarrow> uuid_simple (bt_uuid B) uaid @ ''#02:'' @ show_u64 ts @ ''z''
      | None \<Rightarrow> uuid_simple (bt_uuid B) uaid @ ''#02:'',
      uuid_simple (bt_uuid B) uaid @ ''#03:'')"

definition bt_fetch_topic_messages :: "'x bigtable \<Rightarrow> uuid \<Rightarrow> nat \<Rightarrow> (fetch_message_response, 'x) db_op" where
  "bt_fetch_topic_messages B uaid limit x =
     (let (start_key, end_key) = topic_range B uaid in
      andThen (mapErr BTError (fetch_request B start_key end_key MESSAGE_TOPIC_FAMILY limit x)) (\<lambda>req x1.
      andThen (mapErr BTError (read_rows B req x1)) (\<lambda>rows x2.
        (case rows_to_notifications B rows of
           Inl e \<Rightarrow> Inl e
         | Inr messages \<Rightarrow> Inr \<lparr>fm_timestamp = None, fm_messages = messages\<rparr>, x2))))"

definition bt_fetch_timestamp_messages ::
  "'x bigtable \<Rightarrow> uuid \<Rightarrow> u64 option \<Rightarrow> nat \<Rightarrow> (fetch_message_response, 'x) db_op" where
  "bt_fetch_timestamp_messages B uaid timestamp limit x =
     (let (start_key, end_key) = timestamp_range B uaid timestamp in
      andThen (mapErr BTError (fetch_request B start_key end_key MESSAGE_FAMILY limit x)) (\<lambda>req x1.
      andThen (mapErr BTError (read_rows B req x1)) (\<lambda>rows x2.
        (case rows_to_notifications B rows of
           Inl e \<Rightarrow> Inl e
         | Inr messages \<Rightarrow>
             Inr \<lparr>fm_timestamp = (if messages = [] then None else n_sortkey_timestamp (last messages)),
                  fm_messages = messages\<rparr>, x2))))"

section \<open>The rest of the interface\<close>

text \<open>\<open>BigtableDb::health_check\<close>, through the pool: a read of a random key that returns nothing.\<close>

definition bt_health_check :: "'x bigtable \<Rightarrow> (bool, 'x) db_op" where
  "bt_health_check B x =
     mapErr BTError (andThen (bt_pool_get B x) (\<lambda>_ x1.
       let (random_uaid, x2) = sys_new_uuid (bt_sys B) x1;
           req = (read_row_request B (uuid_simple (bt_uuid B) random_uaid))\<lparr>rq_filter := Some (BlockAll True)\<rparr>
       in andThen (mapErr (\<lambda>e. BtRead (bt_show_grpc B e)) (bt_read_rows_opt B RETRY_COUNT retryable_error req x2))
            (\<lambda>_ x3. (Inr True, x3))))"

definition bigtable_client :: "'x bigtable \<Rightarrow> 'x db_client" where
  "bigtable_client B =
     \<lparr>db_add_user = bt_add_user B, db_update_user = bt_update_user B, db_get_user = bt_get_user B,
      db_remove_user = bt_remove_user B, db_add_channel = bt_add_channel B, db_add_channels = bt_add_channels B,
      db_get_channels = bt_get_channels B, db_remove_channel = bt_remove_channel B,
      db_remove_node_id = bt_remove_node_id B, db_save_message = bt_save_message B,
      db_save_messages = bt_save_messages B, db_fetch_topic_messages = bt_fetch_topic_messages B,
      db_fetch_timestamp_messages = bt_fetch_timestamp_messages B, db_increment_storage = bt_increment_storage B,
      db_remove_message = bt_remove_message B, db_router_table_exists = (\<lambda>x. (Inr True, x)),
      db_message_table_exists = (\<lambda>x. (Inr True, x)), db_health_check = bt_health_check B,
      db_rotating_message_table = None, db_name = ''Bigtable''\<rparr>"

end
