(* ===== verification/StorageStart.thy ===== *)
theory StorageStart
  imports Dual Dynamo BigTable
begin

text \<open>
  Which storage a server opens and with which settings: \<open>StorageType\<close> and \<open>DbSettings\<close> of
  \<open>autopush-common/src/db/mod.rs\<close>, the settings of \<open>db/bigtable/mod.rs\<close>, the headers of
  \<open>bigtable_client/metadata.rs\<close>, the pool of \<open>db/bigtable/pool.rs\<close> and the constructors of the
  three clients. The derived \<open>Deserialize\<close>s, \<open>Url\<close>, \<open>form_urlencoded\<close>, the channels of gRPC and the
  pool of \<open>deadpool\<close> are parameters; a client is known by what it was made from.
\<close>

section \<open>The type of storage\<close>

datatype storage_type = StInvalid | StBigTable | StDynamoDb | StDual

text \<open>With which of the features the program was built; \<open>dual\<close> includes the other two.\<close>

record features =
  ft_bigtable :: bool
  ft_dynamodb :: bool
  ft_dual :: bool

definition storage_from_name :: "features \<Rightarrow> string \<Rightarrow> storage_type" where
  "storage_from_name F name =
     (let n = to_lowercase name in
      if ft_bigtable F \<and> n = ''bigtable'' then StBigTable
      else if ft_dual F \<and> n = ''dual'' then StDual
      else if ft_dynamodb F \<and> n = ''dynamodb'' then StDynamoDb
      else StInvalid)"

definition storage_available :: "features \<Rightarrow> string list" where
  "storage_available F =
     (if ft_dynamodb F then [''DynamoDB''] else []) @ (if ft_bigtable F then [''Bigtable''] else []) @
     (if ft_bigtable F \<and> ft_dynamodb F then [''Dual''] else [])"

text \<open>A build without any storage panics at the first entry of the empty list: \<open>None\<close>.\<close>

definition storage_from_dsn :: "features \<Rightarrow> string option \<Rightarrow> storage_type option" where
  "storage_from_dsn F dsn =
     (case dsn of
        None \<Rightarrow> (case storage_available F of [] \<Rightarrow> None | d # _ \<Rightarrow> Some (storage_from_name F d))
      | Some dsn \<Rightarrow> Some
          (if ft_dynamodb F \<and> starts_with ''http'' dsn then StDynamoDb
           else if ft_bigtable F \<and> starts_with ''grpc'' dsn then StBigTable
           else if ft_bigtable F \<and> ft_dynamodb F \<and> to_lowercase dsn = ''dual'' then StDual
           else StInvalid))"

record db_settings =
  ds_dsn :: "string option"
  ds_db_settings :: string

section \<open>Bigtable\<close>

record bt_db_settings =
  bs_table_name :: string
  bs_router_family :: string
  bs_message_family :: string
  bs_message_topic_family :: string
  bs_database_pool_max_size :: "u32 option"
  bs_database_pool_create_timeout :: "nat option"
  bs_database_pool_wait_timeout :: "nat option"
  bs_database_pool_recycle_timeout :: "nat option"
  bs_database_pool_connection_ttl :: "nat option"
  bs_database_pool_max_idle :: "nat option"
  bs_route_to_leader :: bool
  bs_retry_count :: nat

text \<open>What the pool is built with; no maximal size is that of \<open>deadpool\<close>.\<close>

record pool_config =
  po_max_size :: "u32 option"
  po_wait :: "nat option"
  po_create :: "nat option"
  po_recycle :: "nat option"

text \<open>
  The derived \<open>Deserialize\<close> of the settings of each storage; \<open>Url\<close> as host, port and path; the
  error with which \<open>grpcio\<close> refuses a header, if it does; a pair appended to a form; and whether
  \<open>BIGTABLE_EMULATOR_HOST\<close> is set.
\<close>

record open_lib =
  ol_bigtable_settings :: "string \<Rightarrow> string + bt_db_settings"
  ol_ddb_settings :: "string \<Rightarrow> string + ddb_settings"
  ol_dual_settings :: "string \<Rightarrow> string + db_settings \<times> db_settings \<times> bool \<times> string option \<times> string option"
  ol_url :: "string \<Rightarrow> string + string option \<times> nat option \<times> string"
  ol_hex :: "string \<Rightarrow> string + u8 list"
  ol_build_pool :: "pool_config \<Rightarrow> string + unit"
  ol_refuse_header :: "string \<Rightarrow> string \<Rightarrow> string option"
  ol_append_pair :: "string \<Rightarrow> string \<Rightarrow> string \<Rightarrow> string"
  ol_emulator :: bool
  ol_credentials :: "string + unit"

definition bt_settings_try_from :: "open_lib \<Rightarrow> string \<Rightarrow> db_error + bt_db_settings" where
  "bt_settings_try_from L setting_string =
     (case ol_bigtable_settings L setting_string of
        Inl e \<Rightarrow> Inl (DbGeneral (''Could not parse DdbSettings: '' @ e))
      | Inr me \<Rightarrow>
          if starts_with ''/'' (bs_table_name me) then Inl (ConnectionError ''Table name path begins with a /'')
          else Inr me)"

section \<open>The headers of a call\<close>

definition PREFIX_KEY :: string where "PREFIX_KEY = ''google-cloud-resource-prefix''"
definition METRICS_KEY :: string where "METRICS_KEY = ''x-goog-api-client''"
definition ROUTING_KEY :: string where "ROUTING_KEY = ''x-goog-request-params''"
definition LEADER_AWARE_KEY :: string where "LEADER_AWARE_KEY = ''x-goog-spanner-route-to-leader''"
definition USER_AGENT :: string where "USER_AGENT = ''gl-external/1.0 gccl/1.0''"

record metadata_builder =
  mb_prefix :: string
  mb_routing_params :: "(string \<times> string) list"
  mb_route_to_leader :: bool

definition with_prefix :: "string \<Rightarrow> metadata_builder" where
  "with_prefix p = \<lparr>mb_prefix = p, mb_routing_params = [], mb_route_to_leader = False\<rparr>"

definition routing_param :: "string \<Rightarrow> string \<Rightarrow> metadata_builder \<Rightarrow> metadata_builder" where
  "routing_param key val b = b\<lparr>mb_routing_params := mb_routing_params b @ [(key, val)]\<rparr>"

definition route_to_leader :: "bool \<Rightarrow> metadata_builder \<Rightarrow> metadata_builder" where
  "route_to_leader r b = b\<lparr>mb_route_to_leader := r\<rparr>"

function replace_2F :: "string \<Rightarrow> string" where
  "replace_2F s =
     (if starts_with ''%2F'' s then CHR ''/'' # replace_2F (drop 3 s)
      else (case s of [] \<Rightarrow> [] | c # cs \<Rightarrow> c # replace_2F cs))"
  by pat_completeness auto
termination
proof (relation "measure length")
  show "starts_with ''%2F'' s \<Longrightarrow> (drop 3 s, s) \<in> measure length" for s
    by (cases s) (auto simp: starts_with_def)
qed auto

declare replace_2F.simps [simp del]

definition routing_header :: "open_lib \<Rightarrow> metadata_builder \<Rightarrow> string" where
  "routing_header L b = replace_2F (foldl (\<lambda>form (k, v). ol_append_pair L form k v) [] (mb_routing_params b))"

text \<open>The headers in their order, up to the first that is refused.\<close>

fun add_headers :: "open_lib \<Rightarrow> (string \<times> string) list \<Rightarrow> string + (string \<times> string) list" where
  "add_headers L [] = Inr []"
| "add_headers L ((k, v) # hs) =
     (case ol_refuse_header L k v of
        Some e \<Rightarrow> Inl e
      | None \<Rightarrow> sum_bind (add_headers L hs) (\<lambda>rest. Inr ((k, v) # rest)))"

definition metadata_build :: "open_lib \<Rightarrow> metadata_builder \<Rightarrow> string + (string \<times> string) list" where
  "metadata_build L b = add_headers L
     ([(PREFIX_KEY, mb_prefix b), (METRICS_KEY, USER_AGENT)] @
      (if mb_route_to_leader b then [(LEADER_AWARE_KEY, ''true'')] else []) @
      (if mb_routing_params b \<noteq> [] then [(ROUTING_KEY, routing_header L b)] else []))"

definition bt_metadata :: "open_lib \<Rightarrow> bt_db_settings \<Rightarrow> bigtable_error + (string \<times> string) list" where
  "bt_metadata L st =
     (case metadata_build L (route_to_leader (bs_route_to_leader st)
         (routing_param ''table_name'' (bs_table_name st) (with_prefix (bs_table_name st)))) of
        Inl e \<Rightarrow> Inl (BtGRPC e) | Inr m \<Rightarrow> Inr m)"

definition admin_metadata :: "open_lib \<Rightarrow> bt_db_settings \<Rightarrow> bigtable_error + (string \<times> string) list" where
  "admin_metadata L st =
     (case split_once_str ''/tables/'' (bs_table_name st) of
        None \<Rightarrow> Inl (BtConfig ''Invalid table name specified'')
      | Some (admin_prefix, _) \<Rightarrow>
          (case metadata_build L (route_to_leader (bs_route_to_leader st)
              (routing_param ''name'' (bs_table_name st) (with_prefix admin_prefix))) of
             Inl e \<Rightarrow> Inl (BtGRPC e) | Inr m \<Rightarrow> Inr m))"

fun join_slash :: "string list \<Rightarrow> string" where
  "join_slash [] = []"
| "join_slash [p] = p"
| "join_slash (p # ps) = p @ CHR ''/'' # join_slash ps"

definition get_instance_name :: "bt_db_settings \<Rightarrow> string + string" where
  "get_instance_name st =
     (let parts = split_on (CHR ''/'') (bs_table_name st) in
      if length parts < 4 \<or> parts ! 0 \<noteq> ''projects'' \<or> parts ! 2 \<noteq> ''instances''
      then Inl ''Invalid table name specified. Cannot parse instance''
      else Inr (join_slash (take 4 parts)))"

section \<open>The pool\<close>

definition DEFAULT_GRPC_PORT :: nat where "DEFAULT_GRPC_PORT = 443"

definition pool_new :: "open_lib \<Rightarrow> db_settings \<Rightarrow> db_error + bt_db_settings \<times> string" where
  "pool_new L settings =
     (case ds_dsn settings of
        None \<Rightarrow> Inl (ConnectionError ''No DSN specified in settings'')
      | Some endpoint \<Rightarrow>
          sum_bind (bt_settings_try_from L (ds_db_settings settings)) (\<lambda>bt_settings.
          (case ol_url L endpoint of
             Inl e \<Rightarrow> Inl (ConnectionError (''Invalid DSN: '' @ endpoint @ '' : '' @ e))
           | Inr (host, port, path) \<Rightarrow>
               (case host of
                  None \<Rightarrow> Inl (ConnectionError (''Invalid DSN: Unparsable host '' @ endpoint))
                | Some h \<Rightarrow>
                    (let connection = h @ '':'' @ show_nat (case port of Some p \<Rightarrow> p | None \<Rightarrow> DEFAULT_GRPC_PORT) in
                     if path \<noteq> []
                     then Inl (ConnectionError (''Invalid DSN: Table paths belong in AUTO*_DB_SETTINGS `tab: '' @ endpoint))
                     else
                       (case ol_build_pool L
                            \<lparr>po_max_size = bs_database_pool_max_size bt_settings,
                             po_wait = bs_database_pool_wait_timeout bt_settings,
                             po_create = bs_database_pool_create_timeout bt_settings,
                             po_recycle = bs_database_pool_recycle_timeout bt_settings\<rparr> of
                          Inl e \<Rightarrow> Inl (BTError (BtConfig e))
                        | Inr _ \<Rightarrow> Inr (bt_settings, connection)))))))"

text \<open>A channel, with credentials or, against the emulator, without.\<close>

definition create_channel :: "open_lib \<Rightarrow> string option \<Rightarrow> bigtable_error + bool" where
  "create_channel L dsn =
     (if (case dsn of None \<Rightarrow> False | Some v \<Rightarrow> split_once_str ''localhost'' v \<noteq> None) \<or> ol_emulator L
      then Inr False
      else (case ol_credentials L of Inl e \<Rightarrow> Inl (BtGRPC e) | Inr _ \<Rightarrow> Inr True))"

text \<open>A new connection: the end of its channel, its headers and the table it asks for.\<close>

definition pool_create ::
  "open_lib \<Rightarrow> bt_db_settings \<Rightarrow> string option \<Rightarrow> string \<Rightarrow>
     bigtable_error + (string \<times> bool) \<times> (string \<times> string) list \<times> string" where
  "pool_create L st dsn connection =
     sum_bind (create_channel L dsn) (\<lambda>credentials.
     sum_bind (bt_metadata L st) (\<lambda>health_metadata.
       Inr ((connection, credentials), health_metadata, bs_table_name st)))"

text \<open>A round of the sweeper, over the times since each idle connection was used; no limit, no sweeper.\<close>

definition pool_sweep :: "bt_db_settings \<Rightarrow> nat list \<Rightarrow> nat list" where
  "pool_sweep st unused =
     (case bs_database_pool_max_idle st of None \<Rightarrow> unused | Some max_idle \<Rightarrow> filter (\<lambda>t. t < max_idle) unused)"

text \<open>Whether a pooled connection is used again: how long it lives, how long it was idle, its health.\<close>

definition pool_recycle :: "bt_db_settings \<Rightarrow> nat \<Rightarrow> nat option \<Rightarrow> string + bool \<Rightarrow> string + unit" where
  "pool_recycle st age since_recycled health =
     (if (case bs_database_pool_connection_ttl st of None \<Rightarrow> False | Some t \<Rightarrow> age > t)
      then Inl ''Connection too old''
      else if (case (bs_database_pool_max_idle st, since_recycled) of
          (Some t, Some d) \<Rightarrow> d > t | _ \<Rightarrow> False)
      then Inl ''Connection too idle''
      else (case health of Inl e \<Rightarrow> Inl e | Inr ok \<Rightarrow> if ok then Inr () else Inl ''Health check failed''))"

section \<open>The clients\<close>

record bigtable_state =
  bc_settings :: bt_db_settings
  bc_connection :: string
  bc_metadata :: "(string \<times> string) list"
  bc_admin_metadata :: "(string \<times> string) list"

datatype storage_client =
    DdbStore ddb_settings
  | BigTableStore bigtable_state
  | DualStore bigtable_state ddb_settings dual_settings

definition bigtable_client_new :: "open_lib \<Rightarrow> db_settings \<Rightarrow> db_error + bigtable_state" where
  "bigtable_client_new L settings =
     sum_bind (bt_settings_try_from L (ds_db_settings settings)) (\<lambda>st.
     sum_bind (pool_new L settings) (\<lambda>(_, connection).
     (case bt_metadata L st of
        Inl e \<Rightarrow> Inl (BTError e)
      | Inr metadata \<Rightarrow>
          (case admin_metadata L st of
             Inl e \<Rightarrow> Inl (BTError e)
           | Inr admin \<Rightarrow> Inr \<lparr>bc_settings = st, bc_connection = connection, bc_metadata = metadata,
               bc_admin_metadata = admin\<rparr>))))"

definition ddb_client_new :: "open_lib \<Rightarrow> db_settings \<Rightarrow> db_error + ddb_settings" where
  "ddb_client_new L settings =
     (case ol_ddb_settings L (ds_db_settings settings) of
        Inl e \<Rightarrow> Inl (DbGeneral (''Could not parse DdbSettings: '' @ e)) | Inr st \<Rightarrow> Inr st)"

text \<open>The panics, of a median without a byte and of a build without storage, are \<open>None\<close>.\<close>

definition dual_client_new :: "features \<Rightarrow> open_lib \<Rightarrow> db_settings \<Rightarrow> (db_error + storage_client) option" where
  "dual_client_new F L settings =
     (case ol_dual_settings L (ds_db_settings settings) of
        Inl e \<Rightarrow> Some (Inl (DbGeneral (''Could not parse DualDBSettings string '' @ e)))
      | Inr (primary, secondary, write_to_secondary, median, end_median) \<Rightarrow>
          (case storage_from_dsn F (ds_dsn primary) of
             None \<Rightarrow> None
           | Some ty1 \<Rightarrow>
               if ty1 \<noteq> StBigTable
               then Some (Inl (DbGeneral ''Invalid primary DSN specified (must be BigTable type)''))
               else if storage_from_dsn F (ds_dsn secondary) \<noteq> Some StDynamoDb
               then Some (Inl (DbGeneral ''Invalid secondary DSN specified (must be DynamoDB type)''))
               else
                 (case parse_median (ol_hex L) ''median'' median of
                    None \<Rightarrow> None
                  | Some (Inl e) \<Rightarrow> Some (Inl e)
                  | Some (Inr m) \<Rightarrow>
                      (case parse_median (ol_hex L) ''end_median'' end_median of
                         None \<Rightarrow> None
                       | Some (Inl e) \<Rightarrow> Some (Inl e)
                       | Some (Inr em) \<Rightarrow> Some
                           (sum_bind (bigtable_client_new L primary) (\<lambda>bt.
                            sum_bind (ddb_client_new L secondary) (\<lambda>ddb.
                              Inr (DualStore bt ddb
                                \<lparr>dual_write_to_secondary = write_to_secondary, dual_median = m, dual_end_median = em\<rparr>))))))))"

text \<open>The storage of a server, by its DSN; an invalid one is a panic, \<open>None\<close> here.\<close>

definition open_storage :: "features \<Rightarrow> open_lib \<Rightarrow> db_settings \<Rightarrow> (db_error + storage_client) option" where
  "open_storage F L settings =
     (case storage_from_dsn F (ds_dsn settings) of
        Some StDynamoDb \<Rightarrow> Some (sum_bind (ddb_client_new L settings) (\<lambda>st. Inr (DdbStore st)))
      | Some StBigTable \<Rightarrow> Some (sum_bind (bigtable_client_new L settings) (\<lambda>bt. Inr (BigTableStore bt)))
      | Some StDual \<Rightarrow> dual_client_new F L settings
      | _ \<Rightarrow> None)"

section \<open>Requests nothing sends yet\<close>

text \<open>
  \<open>mutate_rows\<close> and \<open>delete_rows\<close> have no caller. The first gives up at the first entry that failed,
  although the other rows of its request may have been changed; the second can fail before or
  after it is sent.
\<close>

definition mutate_rows ::
  "'x bigtable \<Rightarrow> (nat \<Rightarrow> (grpc_error \<Rightarrow> bool) \<Rightarrow> 'q \<Rightarrow> 'x \<Rightarrow> (grpc_error, (grpc_error + (int \<times> string) option list) list, 'x) outcome) \<Rightarrow>
     'q \<Rightarrow> 'x \<Rightarrow> (bigtable_error, unit, 'x) outcome" where
  "mutate_rows B mutate_rows_opt req x =
     andThen (bt_pool_get B x) (\<lambda>_ x1.
     andThen (mapErr (\<lambda>e. BtWrite (bt_show_grpc B e)) (mutate_rows_opt (bt_retry_count B) retryable_error req x1))
       (\<lambda>resp x2. (scan_mutate_rows B resp, x2)))"

record drop_row_range =
  dr_name :: string
  dr_row_key_prefix :: string

definition delete_rows ::
  "open_lib \<Rightarrow> bigtable_state \<Rightarrow> string option \<Rightarrow>
     ((string \<times> string) list \<Rightarrow> drop_row_range \<Rightarrow> 'x \<Rightarrow> (string, string + unit, 'x) outcome) \<Rightarrow>
     string \<Rightarrow> 'x \<Rightarrow> (bigtable_error, bool, 'x) outcome" where
  "delete_rows L B dsn drop_row_range_async_opt key x =
     (case create_channel L dsn of
        Inl e \<Rightarrow> (Inl e, x)
      | Inr _ \<Rightarrow>
          (let tab = bs_table_name (bc_settings B) in
           case drop_row_range_async_opt (bc_admin_metadata B) \<lparr>dr_name = tab, dr_row_key_prefix = key\<rparr> x of
             (Inl e, x1) \<Rightarrow> (Inl (BtAdmin (''Could not send delete command for '' @ tab) (Some e)), x1)
           | (Inr (Inl e), x1) \<Rightarrow> (Inl (BtAdmin (''Could not delete data from table '' @ tab) (Some e)), x1)
           | (Inr (Inr _), x1) \<Rightarrow> (Inr True, x1)))"

lemma scan_entries_ok:
  "scan_entries es = Inr () \<longleftrightarrow> (\<forall>code msg. Some (code, msg) \<in> set es \<longrightarrow> mutate_row_status_is_ok (mutate_row_status_of code))"
  by (induction es rule: scan_entries.induct) (auto simp: Let_def)

lemma scan_mutate_rows_ok: "scan_mutate_rows B rs = Inr () \<longleftrightarrow> (\<forall>r \<in> set rs. \<exists>es. r = Inr es \<and> scan_entries es = Inr ())"
  by (induction B rs rule: scan_mutate_rows.induct) (auto split: sum.splits)

section \<open>What is opened\<close>

lemma storage_from_dsn_built:
  assumes "storage_from_dsn F dsn = Some ty"
  shows "ty = StBigTable \<Longrightarrow> ft_bigtable F" and "ty = StDynamoDb \<Longrightarrow> ft_dynamodb F"
    and "ty = StDual \<Longrightarrow> ft_bigtable F \<and> ft_dynamodb F \<or> ft_dual F"
  using assms by (auto simp: storage_from_dsn_def storage_from_name_def Let_def split: option.splits list.splits if_splits)

lemma dual_client_new_parts:
  assumes "dual_client_new F L settings = Some (Inr c)"
  obtains primary secondary bt ddb ds where "storage_from_dsn F (ds_dsn primary) = Some StBigTable"
    and "storage_from_dsn F (ds_dsn secondary) = Some StDynamoDb" and "bigtable_client_new L primary = Inr bt"
    and "ddb_client_new L secondary = Inr ddb" and "c = DualStore bt ddb ds"
  using assms
  by (auto simp: dual_client_new_def sum_bind_def split: sum.splits option.splits if_splits prod.splits)

text \<open>The resources named for a table: calls are routed by its name, administrative ones by its instance.\<close>

lemma split_once_str_skip:
  assumes "CHR ''/'' \<notin> set a"
  shows "split_once_str (CHR ''/'' # p) (a @ CHR ''/'' # s) =
    map_option (\<lambda>(u, v). (a @ u, v)) (split_once_str (CHR ''/'' # p) (CHR ''/'' # s))"
  using assms by (induction a) (auto simp: starts_with_def option.map_comp o_def case_prod_beta
    simp del: split_once_str.simps(1) simp: split_once_str.simps [of _ "_ # _"] intro!: option.map_cong)

end
