(* ===== verification/BigTableKeys.thy ===== *)
theory BigTableKeys
  imports BigTable Instances
begin

text \<open>
  What the encodings of the Bigtable client achieve: row keys and the key ranges of the two
  fetches, values quoted for regular expressions, and the rows of users and notifications
  read back.
\<close>

section \<open>The order of keys\<close>

lemma append_less_same: "(xs @ ys :: 'a::linorder list) < xs @ zs \<longleftrightarrow> ys < zs"
  by (induction xs) simp_all

lemma Nil_less_iff: "([] :: 'a::linorder list) < xs \<longleftrightarrow> xs \<noteq> []"
  by (cases xs) simp_all

lemma append_less_diff:
  "length a = length b \<Longrightarrow> a \<noteq> b \<Longrightarrow> (a @ x :: 'a::linorder list) < b @ y \<longleftrightarrow> a < b"
  by (induction a b rule: list_induct2) auto

lemma char_less_iff: "(c :: char) < d \<longleftrightarrow> (of_char c :: nat) < of_char d"
  by (simp add: less_char_def)

lemma digits_read:
  assumes "\<forall>c \<in> set xs. is_digit c"
  shows "read_digits acc xs = Some (acc * 10 ^ length xs + foldl (\<lambda>a c. 10 * a + digit_val c) 0 xs)"
proof -
  have shift: "foldl (\<lambda>a c. 10 * a + digit_val c) acc xs =
      acc * 10 ^ length xs + foldl (\<lambda>a c. 10 * a + digit_val c) 0 xs" for acc xs
  proof (induction xs arbitrary: acc)
    case (Cons x xs)
    from Cons [of "10 * acc + digit_val x"] Cons [of "digit_val x"] show ?case by (simp add: algebra_simps)
  qed simp
  have "read_digits acc xs = Some (foldl (\<lambda>a c. 10 * a + digit_val c) acc xs)"
    using assms by (induction xs arbitrary: acc) simp_all
  with shift [of acc xs] show ?thesis by simp
qed

lemma read_digits_less:
  assumes "length xs = length ys" "\<forall>c \<in> set xs. is_digit c" "\<forall>c \<in> set ys. is_digit c"
    "read_digits 0 xs = Some a" "read_digits 0 ys = Some b"
  shows "xs < ys \<longleftrightarrow> a < b"
  using assms
proof (induction xs ys arbitrary: a b rule: list_induct2)
  case (Cons x xs y ys)
  let ?v = "\<lambda>zs. foldl (\<lambda>a c. 10 * a + digit_val c) 0 zs"
  have dx: "digit_val x < 10" "(of_char x :: nat) = 48 + digit_val x"
    and dy: "digit_val y < 10" "(of_char y :: nat) = 48 + digit_val y"
    using Cons.prems by (auto simp: digit_val_def is_digit_def)
  have v: "read_digits 0 xs = Some (?v xs)" "read_digits 0 ys = Some (?v ys)"
    using digits_read [of xs 0] digits_read [of ys 0] Cons.prems by simp_all
  have b: "?v zs < 10 ^ length zs" if "\<forall>c \<in> set zs. is_digit c" for zs
    using that
  proof (induction zs rule: rev_induct)
    case (snoc z zs)
    then have "digit_val z < 10" by (auto simp: digit_val_def is_digit_def)
    with snoc show ?case by simp
  qed simp
  have a: "a = digit_val x * 10 ^ length xs + ?v xs" "b = digit_val y * 10 ^ length ys + ?v ys"
    using digits_read [of xs "digit_val x"] digits_read [of ys "digit_val y"] Cons.prems by simp_all
  have bx: "?v xs < 10 ^ length xs" "?v ys < 10 ^ length xs"
    using b [of xs] b [of ys] Cons.prems(1,2) Cons.hyps by simp_all
  have c: "i * n + s < j * n + t" if "i < j" "s < n" for i j n s t :: nat
  proof -
    have "Suc i * n \<le> j * n" using that(1) by (intro mult_le_mono1) simp
    with that(2) show ?thesis by simp
  qed
  show ?case
  proof (cases "digit_val x" "digit_val y" rule: linorder_cases)
    case less
    with c [OF less bx(1), of "?v ys"] show ?thesis
      using dx(2) dy(2) a Cons.hyps by (simp add: char_less_iff)
  next
    case equal
    then have "x = y" using dx(2) dy(2) by (metis of_char_eq_iff)
    with Cons.IH [OF _ _ v] Cons.prems(1,2) equal a Cons.hyps show ?thesis by simp
  next
    case greater
    with c [OF greater bx(2), of "?v xs"] show ?thesis
      using dx(2) dy(2) a Cons.hyps by (auto simp: char_less_iff)
  qed
qed simp

lemma show_nat_less:
  "length (show_nat a) = length (show_nat b) \<Longrightarrow> show_nat a < show_nat b \<longleftrightarrow> a < b"
  using read_digits_less [of "show_nat a" "show_nat b" a b] show_nat_digits by simp

section \<open>Which messages a fetch takes in\<close>

definition in_range :: "string \<times> string \<Rightarrow> string \<Rightarrow> bool" where
  "in_range r k \<longleftrightarrow> fst r < k \<and> k < snd r"

text \<open>The simple form of a UUID is 32 hexadecimal digits.\<close>

definition simple_form_ok :: "uuid_lib \<Rightarrow> bool" where
  "simple_form_ok lib \<longleftrightarrow> uuid_lib_ok lib \<and> (\<forall>u v. length (uuid_simple lib u) = length (uuid_simple lib v))"

lemma simple_form_inj:
  assumes "simple_form_ok lib"
  shows "uuid_simple lib u = uuid_simple lib v \<longleftrightarrow> u = v"
proof
  assume "uuid_simple lib u = uuid_simple lib v"
  then have "uuid_parse lib (uuid_simple lib u) = uuid_parse lib (uuid_simple lib v)" by (rule arg_cong)
  moreover have "uuid_parse lib (uuid_simple lib w) = Some w" for w
    using assms unfolding simple_form_ok_def uuid_lib_ok_def by blast
  ultimately show "u = v" by simp
qed simp

text \<open>A range whose two ends are for one user only takes in keys of that user.\<close>

lemma in_range_user:
  assumes "simple_form_ok lib"
  shows "in_range (uuid_simple lib u @ lo, uuid_simple lib u @ hi) (uuid_simple lib v @ k) \<longleftrightarrow>
    u = v \<and> lo < k \<and> k < hi"
proof (cases "u = v")
  case True
  then show ?thesis by (simp add: in_range_def append_less_same)
next
  case False
  with assms have l: "length (uuid_simple lib u) = length (uuid_simple lib v)" "uuid_simple lib u \<noteq> uuid_simple lib v"
    by (simp_all add: simple_form_inj simple_form_ok_def)
  with append_less_diff [OF l] append_less_diff [OF l(1) [symmetric] l(2) [symmetric]] False
  show ?thesis by (auto simp: in_range_def)
qed

text \<open>The key a notification is stored under when its sort key is set.\<close>

definition stored_key :: "'x bigtable \<Rightarrow> notification \<Rightarrow> string" where
  "stored_key B n = (case n_topic n of
       Some topic \<Rightarrow> topic_key (bt_uuid B) (n_channel_id n) topic
     | None \<Rightarrow> standard_key (bt_uuid B) (the (n_sortkey_timestamp n)) (n_channel_id n))"

lemma stored_key_chidmessageid:
  "storable n \<Longrightarrow> chidmessageid (bt_uuid B) sys n x = (stored_key B n, x)"
  by (auto simp: storable_def stored_key_def chidmessageid_topic chidmessageid_standard split: option.splits)

lemma standard_key_range:
  assumes "uuid_lib_ok lib" "length (show_u64 ts) = length (show_u64 sk)"
  shows "''#02:'' @ show_u64 ts @ ''z'' < ''#'' @ standard_key lib sk chid \<longleftrightarrow> ts < sk"
proof (cases "show_u64 ts = show_u64 sk")
  case True
  then have "parse_u64 (show_u64 ts) = parse_u64 (show_u64 sk)" by (rule arg_cong)
  then have "ts = sk" by (simp only: parse_show_u64 option.inject)
  with True show ?thesis by (simp add: standard_key_def append_less_same char_less_iff)
next
  case False
  have "show_u64 ts @ ''z'' < show_u64 sk @ '':'' @ uuid_hyphenated lib chid \<longleftrightarrow> show_u64 ts < show_u64 sk"
    by (rule append_less_diff [OF assms(2) False])
  also have "\<dots> \<longleftrightarrow> ts < sk"
    using show_nat_less [of "unat ts" "unat sk"] assms(2) by (simp add: show_u64_def word_less_nat_alt)
  finally show ?thesis by (simp add: standard_key_def)
qed

text \<open>Claim C16. A fetch asks for exactly the right rows. The open key range of the timestamp
  fetch takes in the row of a stored message exactly when it is this user's, has no topic
  and a sort key after the one given, provided the two sort keys have the same number of
  digits, as milliseconds since 2001 have; the range of the topic fetch takes in exactly this
  user's topic messages.\<close>

theorem fetch_ranges_exact:
  assumes "simple_form_ok (bt_uuid B)" "storable n"
    and "\<And>sk. n_sortkey_timestamp n = Some sk \<Longrightarrow> length (show_u64 ts) = length (show_u64 sk)"
  shows "(in_range (timestamp_range B uaid (Some ts)) (message_row_key B uaid' (stored_key B n)) \<longleftrightarrow>
      uaid = uaid' \<and> n_topic n = None \<and> ts < the (n_sortkey_timestamp n)) \<and>
    (in_range (timestamp_range B uaid None) (message_row_key B uaid' (stored_key B n)) \<longleftrightarrow>
      uaid = uaid' \<and> n_topic n = None) \<and>
    (in_range (topic_range B uaid) (message_row_key B uaid' (stored_key B n)) \<longleftrightarrow>
      uaid = uaid' \<and> n_topic n \<noteq> None)"
proof -
  note u = in_range_user [OF assms(1)]
  have k: "message_row_key B uaid' (stored_key B n) = uuid_simple (bt_uuid B) uaid' @ ''#'' @ stored_key B n"
    by (simp add: message_row_key_def)
  have ne: "uuid_hyphenated (bt_uuid B) c \<noteq> []" for c
    using assms(1) by (auto simp: simple_form_ok_def uuid_lib_ok_def key_text_def)
  have topic: "''#02:'' @ show_u64 ts @ ''z'' < ''#'' @ stored_key B n \<longleftrightarrow>
      n_topic n = None \<and> ts < the (n_sortkey_timestamp n)"
  proof (cases "n_topic n")
    case None
    with assms(2) obtain sk where sk: "n_sortkey_timestamp n = Some sk" by (auto simp: storable_def)
    with None standard_key_range [OF _ assms(3) [OF sk], of "bt_uuid B" "n_channel_id n"] assms(1)
    show ?thesis by (simp add: stored_key_def simple_form_ok_def)
  next
    case (Some t)
    then show ?thesis by (simp add: stored_key_def topic_key_def char_less_iff)
  qed
  have upper: "''#'' @ stored_key B n < ''#03:''"
    by (simp add: stored_key_def topic_key_def standard_key_def char_less_iff split: option.split)
  have lower: "''#02:'' < ''#'' @ stored_key B n \<longleftrightarrow> n_topic n = None"
    by (auto simp: stored_key_def topic_key_def standard_key_def char_less_iff show_u64_def Nil_less_iff
        split: option.split)
  have topics: "''#01:'' < ''#'' @ stored_key B n \<and> ''#'' @ stored_key B n < ''#02:'' \<longleftrightarrow> n_topic n \<noteq> None"
    using ne [of "n_channel_id n"]
    by (auto simp: stored_key_def topic_key_def standard_key_def char_less_iff Nil_less_iff split: option.split)
  show ?thesis
    unfolding k timestamp_range_def topic_range_def option.case u using topic upper lower topics by blast
qed

section \<open>Quoting for regular expressions\<close>

text \<open>
  The documented meaning of an RE2 pattern that is a sequence of literals: a backslash
  before a punctuation character stands for that character, \<open>\x00\<close> for the null byte, and
  a character that is not special for itself. Anything else is not a literal.
\<close>

definition re_special :: "char \<Rightarrow> bool" where
  "re_special c \<longleftrightarrow> c \<in> set ''.+*?()|[]{}^$'' \<or> c = CHR 0x5C \<or> (of_char c :: nat) = 0"

fun literal_of_regex :: "bytes \<Rightarrow> bytes option" where
  "literal_of_regex [] = Some []"
| "literal_of_regex (c # cs) =
     (if c = CHR 0x5C then
        (case cs of
           [] \<Rightarrow> None
         | d # ds \<Rightarrow>
             if d = CHR ''x'' then
               (if take 2 ds = ''00'' then map_option (\<lambda>l. char_of (0 :: nat) # l) (literal_of_regex (drop 2 ds)) else None)
             else if is_ascii_alphanumeric d then None
             else map_option (\<lambda>l. d # l) (literal_of_regex ds))
      else if re_special c then None
      else map_option (\<lambda>l. c # l) (literal_of_regex cs))"

lemma re_special_escaped:
  "re_special c \<Longrightarrow> \<not> is_ascii_alphanumeric c \<and> c \<noteq> CHR ''_'' \<and> (of_char c :: nat) < 128"
  by (auto simp: re_special_def is_ascii_alphanumeric_def)

text \<open>A value that is put into a filter matches itself and nothing else: the escaped
  bytes, read as an RE2 pattern, are a sequence of literals, and they spell the value.\<close>

theorem escape_bytes_literal:
  "literal_of_regex (escape_bytes v) = Some v"
proof (induction v)
  case (Cons b bs)
  have zero: "b = char_of (0 :: nat)" if "(of_char b :: nat) = 0"
    using that by (metis char_of_char)
  show ?case
  proof (cases "\<not> is_ascii_alphanumeric b \<and> b \<noteq> CHR ''_'' \<and> (of_char b :: nat) < 128")
    case True
    have "b \<noteq> CHR ''x''" using True by (auto simp: is_ascii_alphanumeric_def)
    with True Cons zero show ?thesis by simp
  next
    case False
    with re_special_escaped [of b] have s: "\<not> re_special b" by blast
    then have "b \<noteq> CHR 0x5C" by (simp add: re_special_def)
    moreover have "escape_bytes (b # bs) = b # escape_bytes bs" using False by auto
    ultimately show ?thesis using s Cons by simp
  qed
qed simp

section \<open>Rows read back\<close>

text \<open>What a row has under a column: the value of the cell that \<open>take_cell\<close> takes.\<close>

definition column :: "row \<Rightarrow> string \<Rightarrow> bytes option" where
  "column r q = (case hm_get (row_cells r) q of
       Some cs \<Rightarrow> if cs = [] then None else Some (cell_value (last cs)) | None \<Rightarrow> None)"

definition columns_of :: "cell list \<Rightarrow> string \<Rightarrow> bytes option" where
  "columns_of cells = map_of (map (\<lambda>c. (cell_qualifier c, cell_value c)) cells)"

text \<open>
  Documented behaviour of \<open>serde_json\<close> and \<open>uuid\<close>: what is printed is text that is parsed
  back, and the bytes of a UUID make it up again.
\<close>

definition codecs_ok :: "'x bigtable \<Rightarrow> bool" where
  "codecs_ok B \<longleftrightarrow> uuid_lib_ok (bt_uuid B) \<and> regex_set_ok (bt_regex B) \<and>
     (\<forall>u. bt_uuid_from_slice B (uuid_octets (bt_uuid B) u) = Inr u) \<and>
     (\<forall>m. from_utf8 (bt_json_map B m) = Some (bt_json_map B m) \<and>
          bt_parse_router_data B (bt_json_map B m) = Inr (Some m) \<and>
          bt_parse_headers B (bt_json_map B m) = Inr m)"

lemma codecs_okD:
  assumes "codecs_ok B"
  shows "uuid_lib_ok (bt_uuid B)" "regex_set_ok (bt_regex B)" "bt_uuid_from_slice B (uuid_octets (bt_uuid B) u) = Inr u"
    "from_utf8 (bt_json_map B m) = Some (bt_json_map B m)" "bt_parse_router_data B (bt_json_map B m) = Inr (Some m)"
    "bt_parse_headers B (bt_json_map B m) = Inr m"
  using assms unfolding codecs_ok_def by blast+

definition is_text :: "string \<Rightarrow> bool" where
  "is_text s \<longleftrightarrow> from_utf8 s \<noteq> None"

lemma is_text_eq: "is_text s \<longleftrightarrow> from_utf8 s = Some s"
  by (auto simp: is_text_def dest: from_utf8_SomeD)

lemma to_string_text: "is_text s \<Longrightarrow> to_string s name = Inr s"
  by (simp add: is_text_eq to_string_def)

lemma to_u64_be [codec_simps]: "to_u64 (to_be_bytes w) name = Inr w"
  by (simp add: to_u64_def be_bytes_roundtrip)

lemma column_singletons:
  "column \<lparr>row_key = k, row_cells = map (\<lambda>c. (cell_qualifier c, [c])) cells\<rparr> = columns_of cells"
  by (induction cells) (auto simp: column_def columns_of_def fun_eq_iff)

lemma column_wire:
  "column \<lparr>row_key = k, row_cells = map wire_entry ws\<rparr> = map_of (map (\<lambda>w. (wc_qualifier w, wc_value w)) ws)"
  by (induction ws) (auto simp: column_def wire_entry_def fun_eq_iff)

lemma take_cell_column: "take_cell q r = (c, r') \<Longrightarrow>
    map_option cell_value c = column r q \<and> column r' = (column r)(q := None)"
  by (auto simp: take_cell_def take_cells_def column_def fun_eq_iff split: option.splits if_splits)

lemma required_eq: "required conv q r = (case column r q of
    None \<Rightarrow> Inl (Integrity (''Expected column: '' @ q) None) | Some v \<Rightarrow> conv v q, snd (take_cell q r))"
proof -
  obtain c r' where t: "take_cell q r = (c, r')" by (rule prod.exhaust)
  with take_cell_column [OF t] show ?thesis
    by (cases c) (auto simp: required_def take_required_cell_def split: option.splits)
qed

lemma optional_eq: "optional conv q r = (case column r q of
    None \<Rightarrow> Inr None | Some v \<Rightarrow> map_sum id Some (conv v q), snd (take_cell q r))"
proof -
  obtain c r' where t: "take_cell q r = (c, r')" by (rule prod.exhaust)
  with take_cell_column [OF t] show ?thesis
    by (cases c) (auto simp: optional_def split: option.splits)
qed

lemma column_snd_take [simp]: "column (snd (take_cell q r)) = (column r)(q := None)"
  using take_cell_column [of q r] by (cases "take_cell q r") simp

lemmas codec_laws = to_string_text to_u64_be to_uuid_def to_router_data_def to_headers_def

definition message_text :: "notification \<Rightarrow> bool" where
  "message_text n \<longleftrightarrow> is_text (n_version n) \<and> (case n_data n of Some d \<Rightarrow> is_text d | None \<Rightarrow> True)"

text \<open>A notification as Bigtable hands it back: no headers for an empty table of headers.\<close>

definition bt_stored_form :: "notification \<Rightarrow> notification" where
  "bt_stored_form n =
     n\<lparr>n_sortkey_timestamp := (if n_topic n = None then n_sortkey_timestamp n else None),
       n_headers := (if n_headers n = Some [] then None else n_headers n)\<rparr>"

lemma stored_key_parse:
  assumes "codecs_ok B" "storable n"
  shows "parse_chidmessageid (bt_uuid B) (bt_regex B) (stored_key B n) =
    Inr \<lparr>rk_channel_id = n_channel_id n, rk_topic = n_topic n,
         rk_sortkey_timestamp = n_sortkey_timestamp (bt_stored_form n), rk_legacy_version = None\<rparr>"
proof (cases "n_topic n")
  case None
  with assms(2) obtain sk where "n_sortkey_timestamp n = Some sk" by (auto simp: storable_def)
  with None parse_standard_key [OF codecs_okD(1,2) [OF assms(1)]] show ?thesis
    by (simp add: stored_key_def bt_stored_form_def)
next
  case (Some topic)
  with assms(2) have "key_text topic" by (simp add: storable_def)
  from parse_topic_key [OF codecs_okD(1,2) [OF assms(1)] this] Some show ?thesis
    by (simp add: stored_key_def bt_stored_form_def)
qed

text \<open>Claim C17. A notification survives storage: a row that has, column by column, the values
  \<open>save_message\<close> writes for it is read as the same notification, except that a topic message
  has no sort key and an empty table of headers is no table.\<close>

theorem message_row_roundtrip:
  assumes "codecs_ok B" "storable n" "message_text n" "column r = columns_of (message_cells B n expiry)"
  shows "row_to_notification B (message_row_key B uaid (stored_key B n)) r = Inr (bt_stored_form n)"
proof -
  have "CHR ''#'' \<notin> set (uuid_simple (bt_uuid B) uaid)"
    using codecs_okD(1) [OF assms(1)] unfolding uuid_lib_ok_def by blast
  then have "split_once (CHR ''#'') (message_row_key B uaid (stored_key B n)) =
      Some (uuid_simple (bt_uuid B) uaid, stored_key B n)"
    by (simp add: message_row_key_def split_once_append)
  moreover note stored_key_parse [OF assms(1,2)]
  ultimately show ?thesis
    using assms(3,4) codecs_okD(4,6) [OF assms(1)]
    by (cases "n_headers n"; cases "n_data n")
      (simp_all add: row_to_notification_def required_eq optional_eq columns_of_def message_cells_def written_cell_def
        message_text_def codec_laws bt_stored_form_def is_text_eq)
qed

text \<open>A user as \<open>get_user\<close> returns it when \<open>version\<close> was written.\<close>

definition user_read_back :: "user \<Rightarrow> uuid \<Rightarrow> user \<Rightarrow> user" where
  "user_read_back user version dflt =
     user\<lparr>u_record_version := Some (case u_record_version user of Some v \<Rightarrow> v | None \<Rightarrow> USER_RECORD_VERSION),
          u_version := Some version, u_last_connect := u_last_connect dflt, u_current_month := u_current_month dflt\<rparr>"

definition user_text :: "user \<Rightarrow> bool" where
  "user_text u \<longleftrightarrow> is_text (u_router_type u) \<and> (case u_node_id u of Some d \<Rightarrow> is_text d | None \<Rightarrow> True)"

lemma user_default_fields:
  "user_default sys x = (d, x') \<Longrightarrow>
     u_router_data d = None \<and> u_node_id d = None \<and> u_current_timestamp d = None \<and> u_current_month d = None"
  by (auto simp: user_default_def Let_def split: prod.splits)

definition user_request :: "'x bigtable \<Rightarrow> uuid \<Rightarrow> read_rows_request" where
  "user_request B uaid = (read_row_request B (uuid_simple (bt_uuid B) uaid))
     \<lparr>rq_filter := Some (filter_chain [router_gc_policy_filter, family_filter (exactly ROUTER_FAMILY)])\<rparr>"

text \<open>A user survives storage: when the server returns a row that has, column by
  column, the values \<open>user_to_row\<close> writes for a user and a version, \<open>get_user\<close> returns that
  user, with the version written and the defaults for the two fields that are not stored.\<close>

theorem user_row_roundtrip:
  assumes "codecs_ok B" "user_text user"
    and "read_row B (user_request B (u_uaid user)) x = (Inr (Some r), x1)"
    and "column r = columns_of (user_cells B user version expiry)"
    and "user_default (bt_sys B) x1 = (dflt, x2)"
  shows "bt_get_user B (u_uaid user) x = (Inr (Some (user_read_back user version dflt)), x2)"
proof -
  note d = user_default_fields [OF assms(5)]
  obtain c r1 where t: "take_cell ''connected_at'' r = (c, r1)" by (rule prod.exhaust)
  note tc = take_cell_column [OF t]
  have "column r ''connected_at'' = Some (to_be_bytes (u_connected_at user))"
    using assms(4) by (simp add: columns_of_def user_cells_def written_cell_def)
  with tc obtain v where c: "c = Some v" "cell_value v = to_be_bytes (u_connected_at user)" by auto
  have "user_of_row B (u_uaid user) (to_be_bytes (u_connected_at user)) r1 x1 =
    (Inr (user_read_back user version dflt), x2)"
    using assms(2,4,5) d codecs_okD(3,4,5) [OF assms(1)] tc
    by (cases user; cases dflt; cases "u_router_data user"; cases "u_node_id user"; cases "u_current_timestamp user")
      (simp_all add: user_of_row_def required_eq optional_eq columns_of_def user_cells_def written_cell_def user_text_def
        codec_laws is_text_eq user_read_back_def to_string_def)
  with assms(3) t c show ?thesis
    by (simp add: bt_get_user_def user_request_def take_required_cell_def)
qed

section \<open>A concrete client\<close>

text \<open>Tables of strings with their characters spelled in letters.\<close>

lemma fixed_uuids_ok: "uuid_lib_ok fixed_uuids" "simple_form_ok fixed_uuids"
proof -
  show "uuid_lib_ok fixed_uuids" by (rule fixed_uuids_lib_ok)
  moreover have "length (uuid_simple fixed_uuids u) = 39" for u
    by (simp add: fixed_uuids_def length_padded)
  ultimately show "simple_form_ok fixed_uuids" by (simp add: simple_form_ok_def)
qed

definition uuid_of_octets :: "bytes \<Rightarrow> string + uuid" where
  "uuid_of_octets bs = (if length bs = 16 then Inr (of_nat (foldl (\<lambda>a b. 256 * a + of_char b) 0 bs))
     else Inl ''invalid length'')"

lemma uuid_octets_fixed: "uuid_of_octets (uuid_octets fixed_uuids u) = Inr u"
proof -
  have m: "char_of (unat (of_nat m :: u8)) = (char_of m :: char)" for m
    by (simp add: unat_of_nat char_of_mod_256 [of m, simplified])
  have "uuid_octets fixed_uuids u = map (\<lambda>i. char_of (unat u div 256 ^ i)) (rev [0..<16])"
    unfolding uuid_octets_def fixed_uuids_def by (simp only: uuid_lib.simps map_map comp_def m)
  moreover have "unat u < 256 ^ 16" using unsigned_less [of u] by simp
  ultimately show ?thesis by (simp only: uuid_of_octets_def be_digits_foldl) simp
qed

definition letters :: "string \<Rightarrow> string" where
  "letters s = concat (map (\<lambda>c. [char_of (65 + of_char c div 16 :: nat), char_of (65 + of_char c mod 16 :: nat)]) s) @ ''.''"

fun unletters :: "string \<Rightarrow> string \<times> string" where
  "unletters (a # b # cs) =
     (if a = CHR ''.'' then ([], b # cs)
      else (let (s, r) = unletters cs in (char_of ((of_char a - 65) * 16 + (of_char b - 65) :: nat) # s, r)))"
| "unletters cs = ([], [])"

fun spell :: "(string, string) hashmap \<Rightarrow> string" where
  "spell [] = []"
| "spell ((k, v) # m) = letters k @ letters v @ spell m"

fun unspell :: "nat \<Rightarrow> string \<Rightarrow> (string, string) hashmap" where
  "unspell 0 cs = []"
| "unspell (Suc n) cs =
     (if cs = [] then []
      else (let (k, r) = unletters cs; (v, r') = unletters r in (k, v) # unspell n r'))"

definition demo_bt :: "'x sys \<Rightarrow> (read_rows_request \<Rightarrow> (string + read_rows_response) list) \<Rightarrow> 'x bigtable" where
  "demo_bt sys answer =
     \<lparr>bt_table_name = ''t'', bt_retry_count = 5, bt_uuid = fixed_uuids, bt_uuid_from_slice = uuid_of_octets,
      bt_regex = any_regex, bt_sys = sys, bt_now = (\<lambda>x. (1000000000, x)), bt_json_map = spell,
      bt_parse_router_data = (\<lambda>s. Inr (Some (unspell (length s) s))),
      bt_parse_headers = (\<lambda>s. Inr (unspell (length s) s)),
      bt_show_grpc = (\<lambda>e. ''grpc''), bt_show_apc = (\<lambda>e. ''apc''), bt_pool_get = (\<lambda>x. (Inr (), x)),
      bt_read_rows_opt = (\<lambda>n c req x. (Inr (answer req), x)),
      bt_mutate_row_opt = (\<lambda>n c req x. (Inr (), x)),
      bt_check_and_mutate_row_opt = (\<lambda>n c req x. (Inr True, x))\<rparr>"

lemma char_div_16: "(of_char (c :: char) :: nat) div 16 < 16"
  by (rule less_mult_imp_div_less) simp

lemma unletters_letters: "unletters (letters s @ r) = (s, r)"
proof (induction s)
  case Nil
  then show ?case by (cases r) (simp_all add: letters_def)
next
  case (Cons c s)
  let ?h = "(of_char c :: nat) div 16" and ?l = "(of_char c :: nat) mod 16"
  have b: "?h < 16" "?l < 16" using char_div_16 [of c] by simp_all
  then have o: "(of_char (char_of (65 + ?h) :: char) :: nat) = 65 + ?h" "(of_char (char_of (65 + ?l) :: char) :: nat) = 65 + ?l"
    by simp_all
  have "char_of (65 + ?h) \<noteq> CHR ''.''"
  proof
    assume "char_of (65 + ?h) = CHR ''.''"
    then have "(of_char (char_of (65 + ?h) :: char) :: nat) = of_char (CHR ''.'')" by (rule arg_cong)
    with o(1) show False by simp
  qed
  moreover have "letters (c # s) @ r = char_of (65 + ?h) # char_of (65 + ?l) # letters s @ r"
    by (simp add: letters_def)
  moreover have "char_of (?h * 16 + ?l) = c" by simp
  ultimately show ?case using Cons o by simp
qed

lemma spell_length: "length m \<le> length (spell m)"
  by (induction m rule: spell.induct) (auto simp: letters_def)

lemma unspell_spell: "length m \<le> n \<Longrightarrow> unspell n (spell m) = m"
proof (induction m arbitrary: n rule: spell.induct)
  case 1
  then show ?case by (cases n) simp_all
next
  case (2 k v m)
  then obtain j where "n = Suc j" "length m \<le> j" by (cases n) auto
  moreover have "letters k \<noteq> []" by (simp add: letters_def)
  ultimately show ?case using 2 by (simp add: unletters_letters)
qed

lemma spell_text: "from_utf8 (spell m) = Some (spell m)"
proof -
  have "(65 + (of_char y :: nat) div 16) mod 256 \<le> 127" for y :: char using char_div_16 [of y] by simp
  then have "is_ascii (letters s)" for s by (auto simp: letters_def is_ascii_def)
  then have "is_ascii (spell m)" by (induction m rule: spell.induct) (auto simp: is_ascii_def)
  then show ?thesis by (rule from_utf8_ascii)
qed

lemma demo_bt_codecs: "codecs_ok (demo_bt sys answer)"
  using fixed_uuids_ok(1) any_regex_ok uuid_octets_fixed spell_text unspell_spell [OF spell_length]
  unfolding codecs_ok_def demo_bt_def by simp

theorem fetch_ranges_exact_witness:
  "let B = demo_bt (fixed_sys 5) (\<lambda>r. []) :: unit bigtable in
   in_range (timestamp_range B 1 (Some 76)) (message_row_key B 1 (stored_key B sample_notification)) \<and>
   \<not> in_range (timestamp_range B 1 (Some 77)) (message_row_key B 1 (stored_key B sample_notification))"
proof -
  let ?B = "demo_bt (fixed_sys 5) (\<lambda>r. []) :: unit bigtable"
  have s: "simple_form_ok (bt_uuid ?B)" using fixed_uuids_ok(2) by (simp add: demo_bt_def)
  have n: "storable sample_notification" "n_sortkey_timestamp sample_notification = Some 77"
    "n_topic sample_notification = None" by (simp_all add: storable_def sample_notification_def)
  have l: "length (show_u64 76) = 2" "length (show_u64 77) = 2"
    by (simp_all add: show_u64_def show_nat.simps [of 76] show_nat.simps [of 77] show_nat.simps [of 7])
  show ?thesis
    using fetch_ranges_exact [OF s n(1), of 76 1 1] fetch_ranges_exact [OF s n(1), of 77 1 1] n l
    by (simp add: Let_def)
qed

theorem message_row_roundtrip_witness:
  "let B = demo_bt (fixed_sys 5) (\<lambda>r. []) :: unit bigtable; n = sample_notification\<lparr>n_headers := Some [(''encoding'', ''aesgcm'')]\<rparr> in
   row_to_notification B (message_row_key B 1 (stored_key B n))
     \<lparr>row_key = ''k'', row_cells = map (\<lambda>c. (cell_qualifier c, [c])) (message_cells B n 9)\<rparr> = Inr n"
proof -
  let ?n = "sample_notification\<lparr>n_headers := Some [(''encoding'', ''aesgcm'')]\<rparr>"
  have n: "storable ?n" "message_text ?n" "bt_stored_form ?n = ?n"
    by (simp_all add: storable_def message_text_def bt_stored_form_def sample_notification_def is_text_def from_utf8_def)
  let ?r = "\<lparr>row_key = ''k'', row_cells = map (\<lambda>c. (cell_qualifier c, [c])) (message_cells (demo_bt (fixed_sys 5) (\<lambda>r. []) :: unit bigtable) ?n 9)\<rparr>"
  have "column ?r = columns_of (message_cells (demo_bt (fixed_sys 5) (\<lambda>r. []) :: unit bigtable) ?n 9)"
    by (rule column_singletons)
  from message_row_roundtrip [OF demo_bt_codecs n(1,2) this] n(3) show ?thesis by (simp add: Let_def)
qed

definition demo_user :: user where
  "demo_user =
     \<lparr>u_uaid = 1, u_connected_at = 4000, u_router_type = ''webpush'', u_router_data = Some [(''token'', ''t'')],
      u_last_connect = None, u_node_id = Some ''http://n'', u_record_version = Some 1, u_current_month = None,
      u_current_timestamp = Some 3, u_version = Some 7\<rparr>"

text \<open>The chunks of a user's row, as a server that stores it would send them.\<close>

definition user_wire :: "'x bigtable \<Rightarrow> user \<Rightarrow> uuid \<Rightarrow> wire_row" where
  "user_wire B user version =
     \<lparr>wr_key = uuid_simple (bt_uuid B) (u_uaid user),
      wr_cells = map (\<lambda>c. \<lparr>wc_family = ROUTER_FAMILY, wc_named = True, wc_qualifier = cell_qualifier c, wc_micros = 0, wc_value = cell_value c\<rparr>)
        (user_cells B user version 0)\<rparr>"

definition demo_answer :: "(string + read_rows_response) list" where
  "demo_answer =
     [Inr \<lparr>rr_chunks = sent_chunks (Committed (user_wire (demo_bt (fixed_sys 5) (\<lambda>r. []) :: unit bigtable) demo_user 8)),
           rr_last_scanned_row_key = []\<rparr>]"

theorem user_row_roundtrip_witness:
  "\<exists>x'. bt_get_user (demo_bt (fixed_sys 5) (\<lambda>r. demo_answer)) 1 () =
     (Inr (Some (demo_user\<lparr>u_version := Some 8, u_last_connect := Some 0\<rparr>)), x')"
proof -
  let ?B = "demo_bt (fixed_sys 5) (\<lambda>r. demo_answer) :: unit bigtable"
  let ?W = "user_wire (demo_bt (fixed_sys 5) (\<lambda>r. []) :: unit bigtable) demo_user 8"
  have "is_ascii (padded 39 1)" using padded_props(1) [of 39 1] by (auto simp: is_ascii_def is_digit_def)
  then have k: "from_utf8 (padded 39 1) \<noteq> None" by (simp add: from_utf8_ascii)
  have ok: "sent_ok None [Committed ?W]"
    using k padded_props(2) [of 39 1]
    by (simp add: wire_row_ok_def user_wire_def demo_bt_def fixed_uuids_def demo_user_def user_cells_def written_cell_def
        ROUTER_FAMILY_def from_utf8_def)
  have stream: "plain_stream demo_answer" "stream_chunks demo_answer = concat (map sent_chunks [Committed ?W])"
    by (simp_all add: plain_stream_def demo_answer_def stream_chunks_def)
  from process_chunks_sent [OF ok stream, of "bt_now ?B" "()"]
  have p: "process_chunks (bt_now ?B) demo_answer () = (Inr (expected_rows [Committed ?W]), ())" by simp
  let ?r = "\<lparr>row_key = wr_key ?W, row_cells = map wire_entry (wr_cells ?W)\<rparr>"
  have r: "read_row ?B (user_request ?B (u_uaid demo_user)) () = (Inr (Some ?r), ())"
    using p by (simp add: read_row_def read_rows_def) (simp add: demo_bt_def)
  have e: "user_cells (demo_bt (fixed_sys 5) (\<lambda>r. []) :: unit bigtable) demo_user 8 0 = user_cells ?B demo_user 8 0"
    by (simp add: demo_bt_def user_cells_def demo_user_def)
  have c: "column ?r = columns_of (user_cells ?B demo_user 8 0)"
    unfolding column_wire
    unfolding user_wire_def wire_row.simps map_map comp_def wire_cell.simps columns_of_def e
    by (rule refl)
  have t: "user_text demo_user" by (simp add: user_text_def demo_user_def is_text_def from_utf8_def)
  obtain d x2 where d: "user_default (bt_sys ?B) () = (d, x2)" by (rule prod.exhaust)
  then have "u_last_connect d = Some 0" "u_current_month d = None"
    by (auto simp: user_default_def demo_bt_def fixed_sys_def Let_def)
  with user_row_roundtrip [OF demo_bt_codecs t r c d] show ?thesis
    by (simp add: user_read_back_def demo_user_def)
qed

end
