(* ===== verification/EpServer.thy ===== *)
theory EpServer
  imports EpFlows StorageStart BigTableKeys
begin

text \<open>
  The endpoint server as a whole: \<open>autoendpoint/src/server.rs\<close> and the rest of \<open>settings.rs\<close>,
  with the constant routes of \<open>routes/health.rs\<close>. The server is put together from its settings,
  and a request goes from its method and path to the route that takes it and back. How actix
  matches a path against a pattern is a parameter; what is relied on is \<open>patterns_ok\<close>.
\<close>

section \<open>Settings\<close>

record ep_all_settings = ep_settings +
  es_db_dsn :: "string option"
  es_db_settings :: string
  es_router_table_name :: string
  es_message_table_name :: string
  es_max_data_bytes :: nat
  es_crypto_keys :: string
  es_human_logs :: bool
  es_connection_timeout_millis :: nat
  es_request_timeout_millis :: nat
  es_statsd_host :: "string option"
  es_statsd_port :: nat
  es_statsd_label :: string
  es_fcm :: fcm_settings
  es_apns :: apns_settings
  es_adm :: adm_settings

definition fcm_settings_default :: fcm_settings where
  "fcm_settings_default = \<lparr>fs_min_ttl = 60, fs_server_credentials = ''{}'', fs_max_data = 4096,
     fs_base_url = ''https://fcm.googleapis.com'', fs_timeout = 3\<rparr>"

definition adm_settings_default :: adm_settings where
  "adm_settings_default = \<lparr>as_profiles = ''{}'', as_max_data = 6000, as_base_url = ''https://api.amazon.com'',
     as_timeout = 3, as_min_ttl = 60\<rparr>"

definition apns_settings_default :: apns_settings where
  "apns_settings_default = \<lparr>ns_channels = ''{}'', ns_max_data = 4096\<rparr>"

definition ep_settings_default :: "string \<Rightarrow> ep_all_settings" where
  "ep_settings_default generated_key =
     \<lparr>es_scheme = ''http'', es_host = ''127.0.0.1'', es_port = 8000, es_endpoint_url = '''',
      es_auth_keys = ''['' @ [CHR 0x22] @ ''AAAAAAAAAAAAAAAAAAAAAAAAAAAAAAAAAAAAAAAAAAB='' @ [CHR 0x22] @ '']'',
      es_db_dsn = None, es_db_settings = '''', es_router_table_name = ''router'',
      es_message_table_name = ''message'', es_max_data_bytes = 5630, es_crypto_keys = ''['' @ generated_key @ '']'',
      es_human_logs = False, es_connection_timeout_millis = 1000, es_request_timeout_millis = 3000,
      es_statsd_host = None, es_statsd_port = 8125, es_statsd_label = ''autoendpoint'',
      es_fcm = fcm_settings_default, es_apns = apns_settings_default, es_adm = adm_settings_default\<rparr>"

text \<open>A key that Fernet does not take is a panic, as is a setting without brackets.\<close>

definition make_fernet :: "(string \<Rightarrow> 'f option) \<Rightarrow> string \<Rightarrow> string + 'f list" where
  "make_fernet fernet_new crypto_keys =
     sum_bind (read_list_from_str (filter (\<lambda>c. c \<noteq> CHR 0x22 \<and> c \<noteq> CHR '' '') crypto_keys) ''Invalid AUTOEND_CRYPTO_KEYS'')
       (\<lambda>keys. if \<exists>key \<in> set keys. fernet_new key = None then Inl ''Invalid AUTOEND_CRYPTO_KEYS''
               else Inr (List.map_filter fernet_new keys))"

section \<open>Start\<close>

text \<open>Settings of the storage from before there were any.\<close>

definition ep_db_settings :: "(json \<Rightarrow> string) \<Rightarrow> 'z ep_all_settings_scheme \<Rightarrow> db_settings" where
  "ep_db_settings json_text st =
     \<lparr>ds_dsn = es_db_dsn st,
      ds_db_settings =
        (if es_db_settings st = []
         then json_text (JObj [(''message_table'', JStr (es_message_table_name st)),
                               (''router_table'', JStr (es_router_table_name st))])
         else es_db_settings st)\<rparr>"

text \<open>Here a DSN that is not known is an error, and \<open>None\<close> is a build without any storage.\<close>

definition ep_open_storage :: "features \<Rightarrow> open_lib \<Rightarrow> db_settings \<Rightarrow> (api_error_kind + storage_client) option" where
  "ep_open_storage F L settings =
     (case storage_from_dsn F (ds_dsn settings) of
        None \<Rightarrow> None
      | Some StDynamoDb \<Rightarrow> Some (map_sum ApiDatabase DdbStore (ddb_client_new L settings))
      | Some StBigTable \<Rightarrow> Some (map_sum ApiDatabase BigTableStore (bigtable_client_new L settings))
      | Some ty \<Rightarrow>
          if ty = StDual \<and> ft_bigtable F \<and> ft_dual F
          then map_option (map_sum ApiDatabase id) (dual_client_new F L settings)
          else Some (Inl (ApiGeneral ''Invalid or Unsupported DSN specified'')))"

text \<open>
  What a start uses from outside. \<open>st_bigtable\<close> and \<open>st_ddb\<close> are clients up to their settings,
  \<open>st_app\<close> is a state up to storage, settings and keys.
\<close>

record ('f, 'k, 'a, 'c, 'u, 'x) ep_start =
  st_features :: features
  st_open :: open_lib
  st_bigtable :: "'x bigtable"
  st_ddb :: "'x ddb_client"
  st_app :: "('u, 'x) ep_app"
  st_fernet_new :: "string \<Rightarrow> 'f option"
  st_decrypt :: "'f list \<Rightarrow> string \<Rightarrow> u8 list option"
  st_encrypt :: "'f list \<Rightarrow> u8 list \<Rightarrow> 'x \<Rightarrow> string \<times> 'x"
  st_metrics :: "string option \<Rightarrow> nat \<Rightarrow> string \<Rightarrow> api_error_kind + unit"
  st_http :: "nat \<Rightarrow> nat \<Rightarrow> string + unit"
  st_fcm :: "('k, 'a, 'x) fcm_lib"
  st_apns :: "('c, 'x) apns_lib"
  st_adm :: "'x adm_lib"
  st_show_status :: "nat \<Rightarrow> string"
  st_bind :: "string \<Rightarrow> string + unit"

definition client_of :: "'x bigtable \<Rightarrow> 'x ddb_client \<Rightarrow> storage_client \<Rightarrow> 'x db_client" where
  "client_of B D c =
     (let bt = (\<lambda>b. bigtable_client (B\<lparr>bt_table_name := bs_table_name (bc_settings b),
                  bt_retry_count := bs_retry_count (bc_settings b)\<rparr>));
          ddb = (\<lambda>st. dynamo_client (D\<lparr>dd_settings := st\<rparr>))
      in case c of
           DdbStore st \<Rightarrow> ddb st
         | BigTableStore b \<Rightarrow> bt b
         | DualStore b st ds \<Rightarrow> dual_client (bt_uuid B) (bt_sys B) ds (bt b) (ddb st))"

definition ep_app_of ::
  "('f, 'k, 'a, 'c, 'u, 'x) ep_start \<Rightarrow> ep_all_settings \<Rightarrow> 'f list \<Rightarrow> storage_client \<Rightarrow> ('u, 'x) ep_app" where
  "ep_app_of S st fernet c =
     (st_app S)\<lparr>ea_db := client_of (st_bigtable S) (st_ddb S) c, ea_settings := ep_settings.truncate st,
        ea_lib := (ea_lib (st_app S))\<lparr>el_fernet_encrypt := st_encrypt S fernet\<rparr>,
        ea_fernet_decrypt := st_decrypt S fernet\<rparr>"

definition server_with_settings ::
  "('f, 'k, 'a, 'c, 'u, 'x) ep_start \<Rightarrow> ep_all_settings \<Rightarrow> 'x \<Rightarrow>
     (api_fail, ('u, 'x) ep_app \<times> ('k, 'a, 'c, 'x) ep_routers, 'x) outcome" where
  "server_with_settings S st x =
     andThen (pure_step (st_metrics S (es_statsd_host st) (es_statsd_port st) (es_statsd_label st)) x) (\<lambda>_ x.
     andThen (panic_step (make_fernet (st_fernet_new S) (es_crypto_keys st)) x) (\<lambda>fernet x.
     andThen (panic_step (settings_endpoint_url ((st_app S)\<lparr>ea_settings := ep_settings.truncate st\<rparr>)) x) (\<lambda>_ x.
     (case ep_open_storage (st_features S) (st_open S) (ep_db_settings (ea_json_text (st_app S)) st) of
        None \<Rightarrow> (Inl (Panic ''index out of bounds''), x)
      | Some opened \<Rightarrow>
          andThen (pure_step opened x) (\<lambda>db x.
          andThen (panic_step (st_http S (es_connection_timeout_millis st) (es_request_timeout_millis st)) x) (\<lambda>_ x.
          andThen (fcm_router_new (st_fcm S) (es_fcm st) x) (\<lambda>fcm x.
          andThen (mapErr (\<lambda>e. Fail (ApiRouter (RApns e))) (apns_router_new (st_apns S) (es_apns st) x)) (\<lambda>apns x.
          andThen (pure_step (map_sum (\<lambda>e. ApiRouter (RAdm e)) id (adm_router_new (st_adm S) (es_adm st))) x) (\<lambda>adm x.
          andThen (pure_step (map_sum ApiIo id (st_bind S (es_host st @ '':'' @ show_nat (es_port st)))) x) (\<lambda>_ x.
            (Inr (ep_app_of S st fernet db,
               \<lparr>er_fcm = fcm, er_apns = apns, er_adm = adm, er_show_status = st_show_status S\<rparr>), x)))))))))))"

section \<open>Routes\<close>

datatype http_method = GET | POST | PUT | DELETE | OtherMethod string

datatype ep_route =
    RouteWebpush | RouteDeleteNotification | RouteRegisterUaid | RouteUpdateToken | RouteGetChannels
  | RouteUnregisterUser | RouteNewChannel | RouteUnregisterChannel | RouteStatus | RouteHealth
  | RouteLogCheck | RouteLbHeartbeat | RouteVersion

definition ep_resources :: "(string list \<times> (http_method \<times> ep_route) list) list" where
  "ep_resources =
     [([''/wpush/{api_version}/{token}'', ''/wpush/{token}''], [(POST, RouteWebpush)]),
      ([''/m/{message_id}''], [(DELETE, RouteDeleteNotification)]),
      ([''/v1/{router_type}/{app_id}/registration''], [(POST, RouteRegisterUaid)]),
      ([''/v1/{router_type}/{app_id}/registration/{uaid}''],
        [(PUT, RouteUpdateToken), (GET, RouteGetChannels), (DELETE, RouteUnregisterUser)]),
      ([''/v1/{router_type}/{app_id}/registration/{uaid}/subscription''], [(POST, RouteNewChannel)]),
      ([''/v1/{router_type}/{app_id}/registration/{uaid}/subscription/{chid}''], [(DELETE, RouteUnregisterChannel)]),
      ([''/status''], [(GET, RouteStatus)]),
      ([''/health''], [(GET, RouteHealth)]),
      ([''/v1/err''], [(GET, RouteLogCheck)]),
      ([''/__error__''], [(GET, RouteLogCheck)]),
      ([''/__heartbeat__''], [(GET, RouteHealth)]),
      ([''/__lbheartbeat__''], [(GET, RouteLbHeartbeat)]),
      ([''/__version__''], [(GET, RouteVersion)])]"

text \<open>
  The first resource with a pattern that matches takes the request; without a route for the
  method it answers 405, and without a resource the answer is 404. A matcher gives what a
  pattern binds in a path.
\<close>

type_synonym path_matcher = "string \<Rightarrow> string \<Rightarrow> (string \<times> string) list option"

datatype ep_target = NoResource | MethodNotAllowed | Handler ep_route "(string \<times> string) list"

fun match_any :: "path_matcher \<Rightarrow> string list \<Rightarrow> string \<Rightarrow> (string \<times> string) list option" where
  "match_any m [] path = None"
| "match_any m (p # ps) path = (case m p path of None \<Rightarrow> match_any m ps path | Some b \<Rightarrow> Some b)"

fun dispatch_in ::
  "path_matcher \<Rightarrow> (string list \<times> (http_method \<times> ep_route) list) list \<Rightarrow> http_method \<Rightarrow> string \<Rightarrow> ep_target" where
  "dispatch_in m [] verb path = NoResource"
| "dispatch_in m ((patterns, routes) # resources) verb path =
     (case match_any m patterns path of
        None \<Rightarrow> dispatch_in m resources verb path
      | Some b \<Rightarrow> (case map_of routes verb of None \<Rightarrow> MethodNotAllowed | Some r \<Rightarrow> Handler r b))"

definition ep_dispatch :: "path_matcher \<Rightarrow> http_method \<Rightarrow> string \<Rightarrow> ep_target" where
  "ep_dispatch m verb path = dispatch_in m ep_resources verb path"

datatype ep_answer =
    Replied reply | Registered registration_reply | Health ep_health | StatusOk | VersionText

definition answer_status :: "ep_answer \<Rightarrow> nat" where
  "answer_status a = (case a of Replied r \<Rightarrow> rp_status r | _ \<Rightarrow> 200)"

definition run_route ::
  "('u, 'x) ep_app \<Rightarrow> ('k, 'a, 'c, 'x) ep_routers \<Rightarrow> ep_json \<Rightarrow> (db_error \<Rightarrow> string) \<Rightarrow> ep_route \<Rightarrow> http_request \<Rightarrow> 'x \<Rightarrow>
     (api_fail, ep_answer, 'x) outcome" where
  "run_route A RT J render route rq x =
     (let replied = (\<lambda>r. andThen r (\<lambda>a x. (Inr (Replied a), x)));
          registered = (\<lambda>r. andThen r (\<lambda>a x. (Inr (Registered a), x)))
      in case route of
           RouteWebpush \<Rightarrow> replied (webpush_route A RT rq x)
         | RouteDeleteNotification \<Rightarrow> replied (delete_notification_route A rq x)
         | RouteRegisterUaid \<Rightarrow> registered (register_uaid_route A RT J rq x)
         | RouteUpdateToken \<Rightarrow> registered (update_token_route A RT J rq x)
         | RouteGetChannels \<Rightarrow> registered (get_channels_route A rq x)
         | RouteUnregisterUser \<Rightarrow> registered (unregister_user_route A rq x)
         | RouteNewChannel \<Rightarrow> registered (new_channel_route A J rq x)
         | RouteUnregisterChannel \<Rightarrow> registered (unregister_channel_route A rq x)
         | RouteStatus \<Rightarrow> (Inr StatusOk, x)
         | RouteHealth \<Rightarrow> (let (h, x1) = ep_health_route A RT render x in (Inr (Health h), x1))
         | RouteLogCheck \<Rightarrow> fail LogCheck x
         | RouteLbHeartbeat \<Rightarrow> (Inr (Replied (empty_reply 200)), x)
         | RouteVersion \<Rightarrow> (Inr VersionText, x))"

text \<open>The middleware: whatever answers 404, a route or none, is replaced by an empty 404.\<close>

definition render_404 :: "ep_answer \<Rightarrow> ep_answer" where
  "render_404 a = (if answer_status a = 404 then Replied (empty_reply 404) else a)"

text \<open>What a handler came to, as an answer or the panic that closes the connection.\<close>

definition answered_of :: "(api_fail, ep_answer, 'x) outcome \<Rightarrow> (string + ep_answer) \<times> 'x" where
  "answered_of r = (case r of
       (Inr a, x) \<Rightarrow> (Inr (render_404 a), x)
     | (Inl (Fail e), x) \<Rightarrow> (Inr (render_404 (Replied (error_response e))), x)
     | (Inl (Panic s), x) \<Rightarrow> (Inl s, x))"

definition ep_serve ::
  "path_matcher \<Rightarrow> ('u, 'x) ep_app \<Rightarrow> ('k, 'a, 'c, 'x) ep_routers \<Rightarrow> ep_json \<Rightarrow> (db_error \<Rightarrow> string) \<Rightarrow>
     http_method \<Rightarrow> string \<Rightarrow> http_request \<Rightarrow> 'x \<Rightarrow> (string + ep_answer) \<times> 'x" where
  "ep_serve m A RT J render verb path rq x =
     (case ep_dispatch m verb path of
        NoResource \<Rightarrow> answered_of (Inr (Replied (empty_reply 404)), x)
      | MethodNotAllowed \<Rightarrow> answered_of (Inr (Replied (empty_reply 405)), x)
      | Handler route bound \<Rightarrow> answered_of (run_route A RT J render route (rq\<lparr>rq_match_info := map_of bound\<rparr>) x))"

section \<open>Which route takes a request\<close>

text \<open>
  What is relied on of the matcher: segments in braces match any segment that is not empty and
  bind it, the others match themselves.
\<close>

fun match_segments :: "string list \<Rightarrow> string list \<Rightarrow> (string \<times> string) list option" where
  "match_segments [] [] = Some []"
| "match_segments (p # ps) (s # ss) =
     (if starts_with ''{'' p
      then (if s = [] then None else map_option ((#) (butlast (tl p), s)) (match_segments ps ss))
      else if p = s then match_segments ps ss else None)"
| "match_segments _ _ = None"

definition match_path :: path_matcher where
  "match_path pattern path = match_segments (split_on (CHR ''/'') pattern) (split_on (CHR ''/'') path)"

definition patterns_ok :: "path_matcher \<Rightarrow> bool" where
  "patterns_ok m \<longleftrightarrow> (\<forall>(patterns, routes) \<in> set ep_resources. \<forall>p \<in> set patterns. \<forall>path. m p path = match_path p path)"

text \<open>Patterns that take a common path agree in every segment that is not in braces.\<close>

fun compatible :: "string list \<Rightarrow> string list \<Rightarrow> bool" where
  "compatible [] [] = True"
| "compatible (p # ps) (q # qs) \<longleftrightarrow>
     (starts_with ''{'' p \<or> starts_with ''{'' q \<or> p = q) \<and> compatible ps qs"
| "compatible _ _ = False"

lemma match_segments_compatible:
  "match_segments ps ss = Some b \<Longrightarrow> match_segments qs ss = Some c \<Longrightarrow> compatible ps qs"
proof (induction ps ss arbitrary: b c qs rule: match_segments.induct)
  case 1
  then show ?case by (cases qs) auto
next
  case (2 p ps s ss)
  then show ?case by (cases qs) (auto split: if_splits)
qed auto

definition ep_patterns :: "string list" where
  "ep_patterns = concat (map fst ep_resources)"

lemma ep_segments: "map (split_on (CHR ''/'')) ep_patterns =
   [['''', ''wpush'', ''{api_version}'', ''{token}''], ['''', ''wpush'', ''{token}''], ['''', ''m'', ''{message_id}''],
    ['''', ''v1'', ''{router_type}'', ''{app_id}'', ''registration''],
    ['''', ''v1'', ''{router_type}'', ''{app_id}'', ''registration'', ''{uaid}''],
    ['''', ''v1'', ''{router_type}'', ''{app_id}'', ''registration'', ''{uaid}'', ''subscription''],
    ['''', ''v1'', ''{router_type}'', ''{app_id}'', ''registration'', ''{uaid}'', ''subscription'', ''{chid}''],
    ['''', ''status''], ['''', ''health''], ['''', ''v1'', ''err''], ['''', ''__error__''], ['''', ''__heartbeat__''],
    ['''', ''__lbheartbeat__''], ['''', ''__version__'']]"
  by (simp add: ep_patterns_def ep_resources_def)

lemma ep_segments_exclusive: "sorted_wrt (\<lambda>ps qs. \<not> compatible ps qs) (map (split_on (CHR ''/'')) ep_patterns)"
  unfolding ep_segments by (simp add: starts_with_def)

lemma compatible_refl: "compatible ps ps"
  by (induction ps) auto

lemma compatible_sym: "compatible ps qs \<Longrightarrow> compatible qs ps"
  by (induction ps qs rule: compatible.induct) auto

lemma sorted_wrt_exclusive:
  assumes "sorted_wrt (\<lambda>p q. \<not> compatible (f p) (f q)) ps"
  shows "distinct ps" and "p \<in> set ps \<Longrightarrow> q \<in> set ps \<Longrightarrow> compatible (f p) (f q) \<Longrightarrow> p = q"
  using assms by (induction ps) (auto simp: compatible_refl dest: compatible_sym)

lemmas ep_patterns_distinct = sorted_wrt_exclusive(1) [OF ep_segments_exclusive [unfolded sorted_wrt_map]]

lemmas ep_patterns_exclusive = sorted_wrt_exclusive(2) [OF ep_segments_exclusive [unfolded sorted_wrt_map]]

lemma one_pattern_matches:
  assumes "p \<in> set ep_patterns" "q \<in> set ep_patterns" "match_path p path = Some b" "match_path q path = Some c"
  shows "p = q"
  using assms(3,4) unfolding match_path_def
  by (intro ep_patterns_exclusive [OF assms(1,2)]) (rule match_segments_compatible)

lemma match_any_only:
  assumes "p \<in> set ps" and b: "m p path = Some b" and only: "\<And>q c. q \<in> set ps \<Longrightarrow> m q path = Some c \<Longrightarrow> q = p"
  shows "match_any m ps path = Some b"
proof -
  have "match_any m qs path = Some b" if "p \<in> set qs" "set qs \<subseteq> set ps" for qs
    using that
  proof (induction qs)
    case (Cons q qs)
    show ?case
    proof (cases "m q path")
      case None
      with b have "q \<noteq> p" by auto
      with Cons None show ?thesis by simp
    next
      case (Some c)
      with only [of q c] Cons.prems(2) b show ?thesis by simp
    qed
  qed simp
  with assms(1) show ?thesis by simp
qed

lemma match_any_none: "(\<And>q. q \<in> set ps \<Longrightarrow> m q path = None) \<Longrightarrow> match_any m ps path = None"
  by (induction ps) auto

lemma dispatch_in_only:
  assumes "(ps, routes) \<in> set rs" "p \<in> set ps" "m p path = Some b" "distinct (concat (map fst rs))"
    and only: "\<And>q c. q \<in> set (concat (map fst rs)) \<Longrightarrow> m q path = Some c \<Longrightarrow> q = p"
  shows "dispatch_in m rs verb path =
    (case map_of routes verb of None \<Rightarrow> MethodNotAllowed | Some r \<Rightarrow> Handler r b)"
  using assms
proof (induction rs)
  case Nil
  from Nil.prems(1) show ?case by simp
next
  case (Cons r rs)
  obtain qs routes' where r: "r = (qs, routes')" by (cases r)
  show ?case
  proof (cases "r = (ps, routes)")
    case True
    have "match_any m ps path = Some b"
      using Cons.prems(2,3,5) True by (intro match_any_only [where p = p and m = m and path = path and ps = ps]) simp_all
    with True show ?thesis by simp
  next
    case False
    with Cons.prems(1) have rest: "(ps, routes) \<in> set rs" by simp
    with Cons.prems(2,4) r have "p \<notin> set qs" by force
    moreover have "q = p" if "q \<in> set qs" "m q path = Some c" for q c
      using Cons.prems(5) [of q c] that r by simp
    ultimately have "m q path = None" if "q \<in> set qs" for q
      using that by (metis not_None_eq)
    then have "match_any m qs path = None" by (rule match_any_none)
    moreover have "dispatch_in m rs verb path =
        (case map_of routes verb of None \<Rightarrow> MethodNotAllowed | Some r \<Rightarrow> Handler r b)"
      using Cons.prems(4,5) by (intro Cons.IH [OF rest Cons.prems(2,3)]) simp_all
    ultimately show ?thesis by (simp add: r)
  qed
qed

lemma ep_dispatch_hit:
  assumes ok: "patterns_ok m" and r: "(ps, routes) \<in> set ep_resources" and p: "p \<in> set ps" "match_path p path = Some b"
  shows "ep_dispatch m verb path = (case map_of routes verb of None \<Rightarrow> MethodNotAllowed | Some r \<Rightarrow> Handler r b)"
proof -
  from r p have all: "p \<in> set ep_patterns" by (force simp: ep_patterns_def)
  have m: "m q path = match_path q path" if "q \<in> set ep_patterns" for q
    using ok that unfolding patterns_ok_def ep_patterns_def by fastforce
  with p all have b: "m p path = Some b" by simp
  have only: "q = p" if "q \<in> set (concat (map fst ep_resources))" "m q path = Some c" for q c
    using that m [of q] one_pattern_matches [OF _ all _ p(2)] by (simp add: ep_patterns_def)
  show ?thesis
    unfolding ep_dispatch_def
    using r p(1) b ep_patterns_distinct [unfolded ep_patterns_def] only by (rule dispatch_in_only)
qed

lemma ep_dispatch_miss:
  assumes ok: "patterns_ok m" and none: "\<forall>p \<in> set ep_patterns. match_path p path = None"
  shows "ep_dispatch m verb path = NoResource"
proof -
  have "dispatch_in m rs verb path = NoResource" if "\<forall>q \<in> set (concat (map fst rs)). m q path = None" for rs
    using that by (induction rs) (auto simp: match_any_none)
  moreover have "\<forall>q \<in> set (concat (map fst ep_resources)). m q path = None"
    using ok none unfolding patterns_ok_def ep_patterns_def by fastforce
  ultimately show ?thesis by (simp add: ep_dispatch_def)
qed

text \<open>Claim C18. The routes of the endpoint server do not overlap: a path that one pattern of a
  resource matches is taken by this resource, whatever the order of the resources, with what the
  pattern binds; a method it has no route for is answered with 405, and a path that no pattern
  matches with 404.\<close>

theorem ep_routes_do_not_overlap:
  assumes ok: "patterns_ok m"
  shows "(\<forall>(patterns, routes) \<in> set ep_resources. \<forall>p \<in> set patterns. \<forall>b. match_path p path = Some b \<longrightarrow>
      ep_dispatch m verb path = (case map_of routes verb of None \<Rightarrow> MethodNotAllowed | Some r \<Rightarrow> Handler r b)) \<and>
    (ep_dispatch m verb path = NoResource \<longleftrightarrow> (\<forall>p \<in> set ep_patterns. match_path p path = None))"
proof -
  have "match_path p path = None" if "ep_dispatch m verb path = NoResource" "p \<in> set ep_patterns" for p
  proof (rule ccontr)
    assume "match_path p path \<noteq> None"
    with that(2) obtain ps routes b where "(ps, routes) \<in> set ep_resources" "p \<in> set ps" "match_path p path = Some b"
      by (force simp: ep_patterns_def)
    from ep_dispatch_hit [OF ok this] that(1) show False by (simp split: option.splits)
  qed
  with ep_dispatch_hit [OF ok] ep_dispatch_miss [OF ok] show ?thesis by blast
qed

lemma token_resources:
  "([''/wpush/{api_version}/{token}'', ''/wpush/{token}''], [(POST, RouteWebpush)]) \<in> set ep_resources"
  "([''/m/{message_id}''], [(DELETE, RouteDeleteNotification)]) \<in> set ep_resources"
  by (simp_all add: ep_resources_def)

section \<open>The URLs the server hands out\<close>

text \<open>
  What is relied on of URLs: a relative reference of harmless characters replaces what follows
  the last slash of the path, or all of it when it begins with a slash; and the tokens of
  Fernet are text of this kind, and not only padding.
\<close>

definition harmless :: "char \<Rightarrow> bool" where
  "harmless c \<longleftrightarrow> is_ascii_alphanumeric c \<or> c = CHR ''-'' \<or> c = CHR ''_'' \<or> c = CHR ''=''"

definition upto_slash :: "string \<Rightarrow> string" where
  "upto_slash p = rev (dropWhile (\<lambda>c. c \<noteq> CHR ''/'') (rev p))"

definition url_paths_ok :: "('u, 'x) endpoint_lib \<Rightarrow> ('u \<Rightarrow> string) \<Rightarrow> bool" where
  "url_paths_ok el path_of \<longleftrightarrow>
     (\<forall>u s v. el_url_join el u s = Inr v \<longrightarrow> s \<noteq> [] \<longrightarrow> (\<forall>c \<in> set s. harmless c \<or> c = CHR ''/'') \<longrightarrow>
        \<not> starts_with ''//'' s \<longrightarrow>
        path_of v = (if starts_with ''/'' s then s else upto_slash (path_of u) @ s))"

definition tokens_harmless :: "('u, 'x) endpoint_lib \<Rightarrow> bool" where
  "tokens_harmless el \<longleftrightarrow>
     (\<forall>bs x. (\<forall>c \<in> set (fst (el_fernet_encrypt el bs x)). harmless c) \<and> trim_eq (fst (el_fernet_encrypt el bs x)) \<noteq> [])"

lemma harmless_not_slash: "\<forall>c \<in> set s. harmless c \<Longrightarrow> CHR ''/'' \<notin> set s"
  by (auto simp: harmless_def is_ascii_alphanumeric_def)

lemma joined_path:
  assumes "url_paths_ok el path_of" "el_url_join el u (c # s) = Inr v" "\<forall>d \<in> set (c # s). harmless d \<or> d = CHR ''/''"
  shows "c \<noteq> CHR ''/'' \<Longrightarrow> path_of v = upto_slash (path_of u) @ c # s"
    and "c = CHR ''/'' \<Longrightarrow> \<not> starts_with ''/'' s \<Longrightarrow> path_of v = c # s"
  using assms(1) [unfolded url_paths_ok_def, rule_format, OF assms(2) _ bspec [OF assms(3)]]
  by (simp_all add: starts_with_def)

lemma harmless_version: "version \<in> {''v1'', ''v2''} \<Longrightarrow> c \<in> set version \<Longrightarrow> harmless c"
  by (auto simp: harmless_def is_ascii_alphanumeric_def)

lemma set_trim_eq: "set (trim_eq s) \<subseteq> set s"
  by (auto simp: trim_eq_def trim_end_eq_def dest!: set_dropWhileD)

lemma upto_slash_append: "upto_slash (p @ [CHR ''/'']) = p @ [CHR ''/'']"
  by (simp add: upto_slash_def)

text \<open>Claim C8. The URL the connection server hands out for a channel opens exactly that channel at
  the endpoint server: a \<open>POST\<close> to its path is taken by the push route with the version and the
  token of the URL, and a push with them reaches the user and the channel the URL was made for,
  without a VAPID key if none was registered and with the registered key, in whatever spelling
  that decodes to the same bytes, if one was.\<close>

theorem endpoint_url_served:
  assumes m: "patterns_ok m" and codec: "token_codec_ok A" and tokens: "tokens_harmless (ea_lib A)"
    and urls: "url_paths_ok (ea_lib A) path_of" "\<forall>u. el_url_parse (ea_lib A) url = Inr u \<longrightarrow> path_of u = ''/''"
    and made: "make_endpoint (ea_uuid A) (ea_lib A) uaid chid key url x = (Inr ep, x')"
  shows "\<exists>final version token raw_key. ep = el_url_to_string (ea_lib A) final \<and>
    (\<forall>RT J render rq y. ep_serve m A RT J render POST (path_of final) rq y =
       answered_of (run_route A RT J render RouteWebpush
         (rq\<lparr>rq_match_info := [''api_version'' \<mapsto> version, ''token'' \<mapsto> token]\<rparr>) y)) \<and>
    (case key of None \<Rightarrow> raw_key = None
       | Some k \<Rightarrow> \<exists>bs. b64_decode_url (ea_lib A) k = Inr bs \<and> raw_key = Some bs) \<and>
    lets_through A version token raw_key uaid chid"
proof -
  from make_endpoint_parts [OF codec made] obtain version token raw_key parsed root final bs y where
    p: "el_url_parse (ea_lib A) url = Inr parsed" "el_url_join (ea_lib A) parsed ''wpush/'' = Inr root"
      "el_url_join (ea_lib A) root (version @ ''/'' @ token) = Inr final" "ep = el_url_to_string (ea_lib A) final"
    and k: "case key of None \<Rightarrow> raw_key = None
       | Some k \<Rightarrow> \<exists>bs. b64_decode_url (ea_lib A) k = Inr bs \<and> raw_key = Some bs"
    and l: "lets_through A version token raw_key uaid chid"
    and v: "version \<in> {''v1'', ''v2''}" and t: "token = trim_eq (fst (el_fernet_encrypt (ea_lib A) bs y))"
    by blast
  have token: "token \<noteq> []" "\<forall>c \<in> set token. harmless c"
    using tokens set_trim_eq unfolding t tokens_harmless_def by blast+
  have "path_of root = ''/wpush/''"
    using joined_path(1) [OF urls(1) p(2)] urls(2) p(1)
    by (auto simp: harmless_def is_ascii_alphanumeric_def upto_slash_def)
  moreover obtain c s where s: "version @ ''/'' @ token = c # s" "c \<noteq> CHR ''/''" using v by auto
  moreover have "\<forall>d \<in> set (c # s). harmless d \<or> d = CHR ''/''"
    unfolding s(1) [symmetric] using harmless_version [OF v] token(2) by auto
  ultimately have path: "path_of final = ''/wpush/'' @ version @ ''/'' @ token"
    using joined_path(1) [OF urls(1), of root c s final] p(3) by (simp add: upto_slash_def)
  have v2: "CHR ''/'' \<notin> set version" using v by auto
  have "split_on (CHR ''/'') (path_of final) = ['''', ''wpush'', version, token]"
    unfolding path using split_on_append [of "CHR ''/''" "''wpush''"] split_on_append [OF v2]
      split_on_no_sep [OF harmless_not_slash [OF token(2)]] by simp
  then have "match_path ''/wpush/{api_version}/{token}'' (path_of final) = Some [(''api_version'', version), (''token'', token)]"
    using v token by (auto simp: match_path_def starts_with_def)
  from ep_dispatch_hit [OF m token_resources(1) _ this, of POST]
  have "ep_dispatch m POST (path_of final) = Handler RouteWebpush [(''api_version'', version), (''token'', token)]"
    by simp
  moreover have "map_of [(''api_version'', version), (''token'', token)] = [''api_version'' \<mapsto> version, ''token'' \<mapsto> token]"
    by (auto simp: fun_upd_def)
  ultimately have "ep_serve m A RT J render POST (path_of final) rq y =
      answered_of (run_route A RT J render RouteWebpush
        (rq\<lparr>rq_match_info := [''api_version'' \<mapsto> version, ''token'' \<mapsto> token]\<rparr>) y)" for RT J render rq y
    by (simp only: ep_serve_def ep_target.case)
  with p(4) k l show ?thesis by blast
qed

text \<open>Claim C10. A push is undone by its own answer: the \<open>Location\<close> header of a push request's
  answer is a URL whose path the delete route takes, and a \<open>DELETE\<close> to it asks the database to
  remove, for the user of the subscription, the message with the sort key under which the
  notification is stored, and is answered with 204.\<close>

theorem location_deletes_message:
  assumes m: "patterns_ok m" and urls: "url_paths_ok (ea_lib A) path_of" and tokens: "tokens_harmless (ea_lib A)"
    and lib: "uuid_lib_ok (ea_uuid A)" "fernet_ok (ea_lib A) (ea_fernet_decrypt A)" "base64_regex_ok (ea_rx A)"
    and push: "notification_from_request A rq x = (Inr n, x')"
    and clock: "\<And>y. fst (sys_now_ms (ea_sys A) y) \<noteq> 0"
    and location: "message_location A endpoint_url n = Inr loc"
  shows "\<exists>u. loc = el_url_to_string (ea_lib A) u \<and>
    (\<forall>RT J render rq' y z. ep_serve m A RT J render DELETE (path_of u) rq' y =
       (case db_remove_message (ea_db A) (u_uaid (en_user n))
            (fst (chidmessageid (ea_uuid A) (ea_sys A) (ep_into_notification n) z)) y of
          (Inl e, y') \<Rightarrow> (Inr (render_404 (Replied (error_response (ApiDatabase e)))), y')
        | (Inr _, y') \<Rightarrow> (Inr (Replied (empty_reply 204)), y')))"
proof -
  from location obtain u where u: "el_url_join (ea_lib A) endpoint_url (''/m/'' @ en_message_id n) = Inr u"
    "loc = el_url_to_string (ea_lib A) u" by (auto simp: message_location_def split: sum.splits)
  from notification_from_request_Inr(4) [OF push] obtain bs y where
    i: "en_message_id n = fst (el_fernet_encrypt (ea_lib A) bs y)" unfolding message_id_encrypt_def by blast
  have id: "\<forall>c \<in> set (en_message_id n). harmless c" "trim_eq (en_message_id n) \<noteq> []"
    using tokens [unfolded tokens_harmless_def, rule_format, of bs y] by (simp_all add: i)
  from id(2) have nonempty: "en_message_id n \<noteq> []" by (auto simp: trim_eq_def trim_end_eq_def)
  have "path_of u = ''/m/'' @ en_message_id n"
    using joined_path(2) [OF urls, of endpoint_url "CHR ''/''" "''m/'' @ en_message_id n" u] u(1) id(1)
    by (auto simp: starts_with_def harmless_def is_ascii_alphanumeric_def)
  then have "split_on (CHR ''/'') (path_of u) = ['''', ''m'', en_message_id n]"
    using split_on_append [of "CHR ''/''" "''m''"] split_on_no_sep [OF harmless_not_slash [OF id(1)]] by simp
  then have "match_path ''/m/{message_id}'' (path_of u) = Some [(''message_id'', en_message_id n)]"
    using nonempty by (simp add: match_path_def starts_with_def)
  from ep_dispatch_hit [OF m token_resources(2) _ this, of DELETE]
  have d: "ep_dispatch m DELETE (path_of u) = Handler RouteDeleteNotification [(''message_id'', en_message_id n)]"
    by simp
  have "rq_match_info (rq'\<lparr>rq_match_info := map_of [(''message_id'', en_message_id n)]\<rparr>) ''message_id'' =
    Some (en_message_id n)" for rq' :: http_request by simp
  note deleted = delete_hits_pushed_message [OF lib push clock this]
  have "ep_serve m A RT J render DELETE (path_of u) rq' y =
       (case db_remove_message (ea_db A) (u_uaid (en_user n))
            (fst (chidmessageid (ea_uuid A) (ea_sys A) (ep_into_notification n) z)) y of
          (Inl e, y') \<Rightarrow> (Inr (render_404 (Replied (error_response (ApiDatabase e)))), y')
        | (Inr _, y') \<Rightarrow> (Inr (Replied (empty_reply 204)), y'))" for RT J render rq' y z
    unfolding ep_serve_def d ep_target.case run_route_def Let_def ep_route.case deleted [of rq' y z]
    by (cases "db_remove_message (ea_db A) (u_uaid (en_user n))
            (fst (chidmessageid (ea_uuid A) (ea_sys A) (ep_into_notification n) z)) y")
      (auto simp: answered_of_def andThen_def render_404_def answer_status_def empty_reply_def split: sum.split)
  with u(2) show ?thesis by blast
qed

text \<open>What a client sees of an error: the status, the headers and the body of the error, but for a
  404, whose body with the error number is replaced by an empty one. The numbers of an invalid
  URL and of an unknown version of the API are never sent.\<close>

lemma error_as_served:
  assumes "ep_dispatch m verb path = Handler route bound"
    and "run_route A RT J render route (rq\<lparr>rq_match_info := map_of bound\<rparr>) x = (Inl (Fail e), x')"
  shows "ep_serve m A RT J render verb path rq x =
      (Inr (Replied (if api_status e = 404 then empty_reply 404 else error_response e)), x')"
  using assms by (simp add: ep_serve_def answered_of_def render_404_def answer_status_def error_response_def)

lemma answered_404_empty:
  assumes "ep_serve m A RT J render verb path rq x = (Inr a, x')" and "answer_status a = 404"
  shows "a = Replied (empty_reply 404)"
  using assms
  by (auto simp: ep_serve_def answered_of_def render_404_def answer_status_def
      split: ep_target.splits prod.splits sum.splits api_fail.splits if_splits)

lemma truncate_auth_keys:
  "ep_settings.truncate (st\<lparr>es_auth_keys := keys\<rparr>) = (ep_settings.truncate st)\<lparr>es_auth_keys := keys\<rparr>"
  by (simp add: ep_settings.truncate_def)

lemma settings_endpoint_url_auth_keys:
  "settings_endpoint_url (A\<lparr>ea_settings := st\<lparr>es_auth_keys := keys\<rparr>\<rparr>) = settings_endpoint_url (A\<lparr>ea_settings := st\<rparr>)"
  by (simp add: settings_endpoint_url_def)

lemma ep_app_of_auth_keys:
  "ep_app_of S (st\<lparr>es_auth_keys := keys\<rparr>) fernet c =
    (ep_app_of S st fernet c)\<lparr>ea_settings := (ea_settings (ep_app_of S st fernet c))\<lparr>es_auth_keys := keys\<rparr>\<rparr>"
  by (simp add: ep_app_of_def truncate_auth_keys)

lemma ep_db_settings_auth_keys: "ep_db_settings json_text (st\<lparr>es_auth_keys := keys\<rparr>) = ep_db_settings json_text st"
  by (simp add: ep_db_settings_def)

lemma server_with_settings_auth_keys:
  assumes "server_with_settings S st x = (Inr (A, RT), x')"
  shows "server_with_settings S (st\<lparr>es_auth_keys := keys\<rparr>) x =
    (Inr (A\<lparr>ea_settings := (ea_settings A)\<lparr>es_auth_keys := keys\<rparr>\<rparr>, RT), x')"
  using assms unfolding server_with_settings_def truncate_auth_keys settings_endpoint_url_auth_keys ep_db_settings_auth_keys
  by (auto simp: andThen_Inr_iff ep_app_of_auth_keys split: option.splits)

text \<open>Only the last steps of a registration need the keys.\<close>

lemma register_uaid_route_other_keys:
  assumes "register_uaid_route A RT J rq x = (Inr reply, x')"
    and "B = A\<lparr>ea_settings := (ea_settings A)\<lparr>es_auth_keys := keys\<rparr>\<rparr>" and "first_auth_key B = Inl msg"
  shows "register_uaid_route B RT J rq x = (Inl (Panic msg), x')"
proof -
  have fields: "ea_db B = ea_db A" "ea_sys B = ea_sys A" "ea_uuid B = ea_uuid A" "ea_lib B = ea_lib A" "ea_rx B = ea_rx A"
    "ea_json_text B = ea_json_text A" by (simp_all add: assms(2))
  have url: "settings_endpoint_url B = settings_endpoint_url A"
    using settings_endpoint_url_auth_keys [where A = A and st = "ea_settings A" and keys = keys] by (simp add: assms(2))
  have "endpoint_step B = endpoint_step A" "router_data_input_from_request B = router_data_input_from_request A"
    "uuid_or_new B = uuid_or_new A" "routers_register B RT = routers_register A RT"
    unfolding fun_eq_iff endpoint_step_def router_data_input_from_request_def uuid_or_new_def routers_register_def
      fcm_register_def apns_register_def adm_register_def url fields by simp_all
  note same = this url fields
  show ?thesis
    using assms(1) unfolding register_uaid_route_def same assms(3)
    by (clarsimp simp: andThen_Inr_iff Let_def case_prod_beta)
qed

text \<open>Claim C23. The keys that sign registrations are not looked at when the server starts: it starts
  with any, and with keys that are not in brackets no registration is answered and no request of
  an owner is let through. A registration that good keys would have answered is stored first, the
  user and the channel as they would have been, and only then is the server's panic.\<close>

theorem bad_auth_keys_found_late:
  assumes start: "server_with_settings S st x = (Inr (A, RT), x')"
    and bad: "\<not> (starts_with ''['' keys \<and> starts_with '']'' (rev keys))" "CHR 0x22 \<notin> set keys" "CHR '' '' \<notin> set keys"
  defines "B \<equiv> A\<lparr>ea_settings := (ea_settings A)\<lparr>es_auth_keys := keys\<rparr>\<rparr>"
  shows "server_with_settings S (st\<lparr>es_auth_keys := keys\<rparr>) x = (Inr (B, RT), x') \<and>
    (\<forall>J rq y reply y'. register_uaid_route A RT J rq y = (Inr reply, y') \<longrightarrow>
       register_uaid_route B RT J rq y = (Inl (Panic ''Invalid AUTOEND_AUTH_KEYS''), y')) \<and>
    (\<forall>J rq y reply. fst (register_uaid_route B RT J rq y) \<noteq> Inr reply) \<and>
    (\<forall>rq y. fst (authorization_check B rq y) \<noteq> Inr ())"
proof -
  have "filter (\<lambda>c. c \<noteq> CHR 0x22 \<and> c \<noteq> CHR '' '') keys = keys"
    using bad(2,3) by (auto simp: filter_id_conv)
  then have k: "settings_auth_keys (ea_settings B) = Inl ''Invalid AUTOEND_AUTH_KEYS''"
    using bad(1) by (simp add: settings_auth_keys_def read_list_from_str_def B_def)
  then have first: "first_auth_key B = Inl ''Invalid AUTOEND_AUTH_KEYS''" by (simp add: first_auth_key_def)
  have "fst (register_uaid_route B RT J rq y) \<noteq> Inr reply" for J rq y reply
  proof
    assume "fst (register_uaid_route B RT J rq y) = Inr reply"
    then obtain y' where "register_uaid_route B RT J rq y = (Inr reply, y')" by (cases "register_uaid_route B RT J rq y") simp
    then show False by (rule register_uaid_route_Inr) (simp add: first)
  qed
  moreover have "fst (authorization_check B rq y) \<noteq> Inr ()" for rq y
    using authorization_check_sound [of B rq y] k by (cases "authorization_check B rq y") (auto simp: presents_secret_def)
  moreover note register_uaid_route_other_keys [OF _ _ first, of A _ _ _ _ _ _ keys]
  ultimately show ?thesis using server_with_settings_auth_keys [OF start, of keys] unfolding B_def by blast
qed

section \<open>Witnesses\<close>

lemma match_path_ok: "patterns_ok match_path"
  by (auto simp: patterns_ok_def)

theorem ep_routes_do_not_overlap_witness:
  "ep_dispatch match_path DELETE ''/m/id'' = Handler RouteDeleteNotification [(''message_id'', ''id'')] \<and>
   ep_dispatch match_path GET ''/m/id'' = MethodNotAllowed \<and> ep_dispatch match_path GET ''/m/'' = NoResource"
proof -
  have m: "(''/m/{message_id}'') \<in> set [''/m/{message_id}'']" "match_path ''/m/{message_id}'' ''/m/id'' = Some [(''message_id'', ''id'')]"
    by (simp_all add: match_path_def starts_with_def)
  have none: "\<forall>p \<in> set ep_patterns. match_path p ''/m/'' = None"
    by (simp add: ep_patterns_def ep_resources_def match_path_def starts_with_def)
  note r = ep_routes_do_not_overlap [OF match_path_ok, of "''/m/id''", THEN conjunct1, THEN bspec, OF token_resources(2)]
  have "ep_dispatch match_path verb ''/m/id'' =
      (case map_of [(DELETE, RouteDeleteNotification)] verb of None \<Rightarrow> MethodNotAllowed
       | Some r \<Rightarrow> Handler r [(''message_id'', ''id'')])" for verb
    using r [of verb] m by simp
  moreover have "ep_dispatch match_path GET ''/m/'' = NoResource"
    using ep_routes_do_not_overlap [OF match_path_ok, of "''/m/''" GET] none by blast
  ultimately show ?thesis by simp
qed

lemma demo_url_paths: "url_paths_ok (ea_lib demo_ep) (drop 12)"
  by (auto simp: url_paths_ok_def demo_ep_with_def demo_lib_def demo_join_def upto_slash_def)

lemma nibble_harmless: "n < 16 \<Longrightarrow> harmless (nibble n)"
  by (simp add: harmless_def is_ascii_alphanumeric_def nibble_val Let_def)

lemma demo_tokens_harmless: "tokens_harmless (ea_lib demo_ep)"
proof -
  have "harmless c" if "c \<in> set (demo_token bs)" for c bs
    using demo_token_chars [OF that]
  proof
    assume "\<exists>n < 16. c = nibble n"
    with nibble_harmless show ?thesis by auto
  qed (auto simp: harmless_def is_ascii_alphanumeric_def)
  moreover have "trim_eq (demo_token bs) \<noteq> []" for bs
    by (simp add: demo_token_def trim_eq_def trim_end_eq_def)
  ultimately show ?thesis by (simp add: tokens_harmless_def demo_ep_with_def demo_lib_def)
qed

theorem endpoint_url_served_witness:
  "\<exists>ep final version token. make_endpoint fixed_uuids (ea_lib demo_ep) 5 6 (Some ''BAkey'') ''https://push/'' demo_ep_store =
     (Inr ep, demo_ep_store) \<and> ep = el_url_to_string (ea_lib demo_ep) final \<and>
     (\<forall>rq y. ep_serve match_path demo_ep demo_routers demo_bodies (\<lambda>_. []) POST (drop 12 final) rq y =
       answered_of (run_route demo_ep demo_routers demo_bodies (\<lambda>_. []) RouteWebpush
         (rq\<lparr>rq_match_info := [''api_version'' \<mapsto> version, ''token'' \<mapsto> token]\<rparr>) y)) \<and>
     lets_through demo_ep version token (Some (as_bytes ''BAkey'')) 5 6"
proof -
  have u: "ea_uuid demo_ep = fixed_uuids" by (simp add: demo_ep_with_def)
  have root: "\<forall>u. el_url_parse (ea_lib demo_ep) ''https://push/'' = Inr u \<longrightarrow> drop 12 u = ''/''"
    by (simp add: demo_ep_with_def demo_lib_def)
  obtain ep where made: "make_endpoint (ea_uuid demo_ep) (ea_lib demo_ep) 5 6 (Some ''BAkey'') ''https://push/'' demo_ep_store =
      (Inr ep, demo_ep_store)"
    by (simp add: make_endpoint_def demo_ep_with_def demo_lib_def b64_decode_url_def Let_def)
  have key: "b64_decode_url (ea_lib demo_ep) ''BAkey'' = Inr (as_bytes ''BAkey'')"
    by (simp add: demo_ep_with_def demo_lib_def b64_decode_url_def trim_end_eq_def)
  from endpoint_url_served [OF match_path_ok demo_token_codec demo_tokens_harmless demo_url_paths root made] key made u
  show ?thesis by (simp only: option.case sum.inject) blast
qed

theorem location_deletes_message_witness:
  "\<exists>n x' loc u y'. notification_from_request demo_ep demo_v1_request demo_ep_store = (Inr n, x') \<and>
     message_location demo_ep ''https://push/'' n = Inr loc \<and> loc = el_url_to_string (ea_lib demo_ep) u \<and>
     ep_serve match_path demo_ep demo_routers demo_bodies (\<lambda>_. []) DELETE (drop 12 u) demo_v1_request x' =
       (Inr (Replied (empty_reply 204)), y')"
proof -
  from demo_v1_push obtain n x' where push: "notification_from_request demo_ep demo_v1_request demo_ep_store = (Inr n, x')"
    and uaid: "u_uaid (en_user n) = 5" by blast
  have clock: "fst (sys_now_ms (ea_sys demo_ep) y) \<noteq> 0" for y
    by (simp add: demo_ep_with_def fixed_sys_def)
  obtain loc where loc: "message_location demo_ep ''https://push/'' n = Inr loc"
    by (simp add: message_location_def demo_ep_with_def demo_lib_def)
  let ?k = "fst (chidmessageid (ea_uuid demo_ep) (ea_sys demo_ep) (ep_into_notification n) x')"
  obtain y' where "db_remove_message (ea_db demo_ep) 5 ?k x' = (Inr (), y')"
    by (simp add: demo_ep_with_def mem_client_def in_world_def)
  moreover from location_deletes_message [OF match_path_ok demo_url_paths demo_tokens_harmless demo_ep_codec demo_base64_regex
      push clock loc]
  obtain u where "loc = el_url_to_string (ea_lib demo_ep) u"
    and "ep_serve match_path demo_ep demo_routers demo_bodies (\<lambda>_. []) DELETE (drop 12 u) demo_v1_request x' =
       (case db_remove_message (ea_db demo_ep) (u_uaid (en_user n)) ?k x' of
          (Inl e, y') \<Rightarrow> (Inr (render_404 (Replied (error_response (ApiDatabase e)))), y')
        | (Inr _, y') \<Rightarrow> (Inr (Replied (empty_reply 204)), y'))" by blast
  ultimately show ?thesis using push loc uaid by (intro exI [of _ n] exI [of _ x'] exI [of _ loc] exI [of _ u] exI [of _ y']) simp
qed

text \<open>A server on a DynamoDB that takes every write and holds nothing, without bridges.\<close>

definition demo_ddb :: "mem_db ddb_client" where
  "demo_ddb =
     \<lparr>dd_settings = \<lparr>ds_router_table = ''r'', ds_message_table = ''m'', ds_db_routing_table = None\<rparr>,
      dd_lib = \<lparr>dl_put_item = (\<lambda>i x. (Inr (), x)), dl_update_item = (\<lambda>i x. (Inr None, x)),
        dl_get_item = (\<lambda>t k x. (Inr None, x)), dl_delete_item = (\<lambda>t k x. (Inr (), x)),
        dl_query = (\<lambda>q x. (Inr None, x)), dl_batch_write_item = (\<lambda>w x. (Inr (), x)),
        dl_describe_table = (\<lambda>t x. (Inr None, x)), dl_list_tables = (\<lambda>t n x. (Inr (None, None), x))\<rparr>,
      dd_max_retries = 0, dd_uuid = fixed_uuids, dd_regex = any_regex, dd_sys = fixed_sys 1000\<rparr>"

definition demo_open :: open_lib where
  "demo_open =
     \<lparr>ol_bigtable_settings = (\<lambda>s. Inl ''none''), ol_ddb_settings = (\<lambda>s. Inr (dd_settings demo_ddb)),
      ol_dual_settings = (\<lambda>s. Inl ''none''), ol_url = (\<lambda>s. Inl ''none''), ol_hex = (\<lambda>s. Inr []),
      ol_build_pool = (\<lambda>c. Inr ()), ol_refuse_header = (\<lambda>k v. None), ol_append_pair = (\<lambda>s k v. s),
      ol_emulator = False, ol_credentials = Inr ()\<rparr>"

definition demo_start :: "(string, string, string, unit, string, mem_db) ep_start" where
  "demo_start =
     \<lparr>st_features = \<lparr>ft_bigtable = False, ft_dynamodb = True, ft_dual = False\<rparr>, st_open = demo_open,
      st_bigtable = demo_bt (fixed_sys 1000) (\<lambda>_. []), st_ddb = demo_ddb, st_app = demo_ep,
      st_fernet_new = Some, st_decrypt = (\<lambda>keys. demo_untoken), st_encrypt = (\<lambda>keys bs x. (demo_token bs, x)),
      st_metrics = (\<lambda>h p l. Inr ()), st_http = (\<lambda>c r. Inr ()), st_fcm = demo_fcm_lib,
      st_apns = nr_lib demo_apns_router, st_adm = ar_lib demo_mem_adm, st_show_status = show_nat,
      st_bind = (\<lambda>a. Inr ())\<rparr>"

definition demo_settings :: ep_all_settings where
  "demo_settings = (ep_settings_default ''key'')\<lparr>es_endpoint_url := ''https://push/''\<rparr>"

definition demo_no_bridges :: "(string, string, unit, mem_db) ep_routers" where
  "demo_no_bridges =
     \<lparr>er_fcm = \<lparr>fr_settings = fcm_settings_default, fr_clients = [], fr_lib = demo_fcm_lib\<rparr>,
      er_apns = \<lparr>nr_clients = [], nr_settings = apns_settings_default, nr_lib = nr_lib demo_apns_router\<rparr>,
      er_adm = \<lparr>ar_settings = adm_settings_default, ar_clients = [], ar_lib = ar_lib demo_mem_adm\<rparr>,
      er_show_status = show_nat\<rparr>"

definition demo_served :: "(string, mem_db) ep_app" where
  "demo_served = ep_app_of demo_start demo_settings [''key''] (DdbStore (dd_settings demo_ddb))"

lemma demo_starts: "server_with_settings demo_start demo_settings x = (Inr (demo_served, demo_no_bridges), x)"
proof -
  have fernet: "make_fernet (st_fernet_new demo_start) (es_crypto_keys demo_settings) = Inr [''key'']"
    by (simp add: make_fernet_def demo_start_def demo_settings_def ep_settings_default_def read_list_from_str_def
        starts_with_def List.map_filter_def)
  have url: "settings_endpoint_url ((st_app demo_start)\<lparr>ea_settings := ep_settings.truncate demo_settings\<rparr>) = Inr ''https://push/''"
    by (simp add: settings_endpoint_url_def demo_start_def demo_settings_def ep_settings.truncate_def demo_ep_with_def demo_lib_def)
  have db: "ep_open_storage (st_features demo_start) (st_open demo_start) (ep_db_settings (ea_json_text (st_app demo_start)) demo_settings) =
      Some (Inr (DdbStore (dd_settings demo_ddb)))"
    by (simp add: ep_open_storage_def ep_db_settings_def storage_from_dsn_def storage_available_def storage_from_name_def
        demo_start_def demo_settings_def ep_settings_default_def demo_open_def ddb_client_new_def
        to_lowercase_def lower_char_def char_of_eq_iff)
  have bridges: "fcm_router_new (st_fcm demo_start) (es_fcm demo_settings) x = (Inr (er_fcm demo_no_bridges), x)"
    "apns_router_new (st_apns demo_start) (es_apns demo_settings) x = (Inr (er_apns demo_no_bridges), x)"
    "adm_router_new (st_adm demo_start) (es_adm demo_settings) = Inr (er_adm demo_no_bridges)" for x
    by (simp_all add: fcm_router_new_def apns_router_new_def adm_router_new_def demo_start_def demo_settings_def
        ep_settings_default_def demo_no_bridges_def demo_fcm_lib_def demo_apns_router_def demo_mem_adm_def)
  have rest: "st_metrics demo_start h p l = Inr ()" "st_http demo_start c r = Inr ()" "st_bind demo_start a = Inr ()"
    "st_show_status demo_start = er_show_status demo_no_bridges" for h p l c r a
    by (simp_all add: demo_start_def demo_no_bridges_def)
  show ?thesis by (simp add: server_with_settings_def fernet url db bridges rest demo_served_def)
qed

definition demo_webpush_register :: http_request where
  "demo_webpush_register = (header_list [])\<lparr>rq_match_info := [''router_type'' \<mapsto> ''webpush'', ''app_id'' \<mapsto> ''app'']\<rparr>"

lemma demo_served_registers:
  "\<exists>reply. register_uaid_route demo_served demo_no_bridges demo_bodies demo_webpush_register x = (Inr reply, x)"
proof -
  have t: "router_type_from_str ''webpush'' = Some WebPush"
    by (simp add: router_type_from_str_def to_lowercase_def lower_char_def)
  have args: "registration_path_args demo_webpush_register x = (Inr (WebPush, ''app''), x)" for x :: mem_db
    by (simp add: registration_path_args_def demo_webpush_register_def t)
  have fields: "ea_db demo_served = dynamo_client demo_ddb" "ea_sys demo_served = fixed_sys 1000"
    "ea_uuid demo_served = fixed_uuids" "ea_lib demo_served = demo_lib" "ea_hmac_sha256 demo_served k d = Inr (k @ d)"
    "es_endpoint_url (ea_settings demo_served) = ''https://push/''" for k d
    by (simp_all add: demo_served_def ep_app_of_def client_of_def demo_start_def demo_settings_def ep_settings.truncate_def
        demo_ep_with_def demo_lib_def)
  have keys: "first_auth_key demo_served = Inr ''AAAAAAAAAAAAAAAAAAAAAAAAAAAAAAAAAAAAAAAAAAB=''"
    by (simp add: first_auth_key_def settings_auth_keys_def demo_served_def ep_app_of_def demo_settings_def
        ep_settings_default_def ep_settings.truncate_def read_list_from_str_def starts_with_def)
  have db: "ddb_add_user demo_ddb u x = (Inr (), x)" "ddb_add_channel demo_ddb a c x = (Inr (), x)" for u a c x
    by (simp_all add: ddb_add_user_def ddb_add_channel_def channel_update_def ddb_call_def demo_ddb_def fixed_sys_def)
  have made: "\<exists>ep. make_endpoint fixed_uuids demo_lib a c None u m = (Inr ep, m)" for a c u and m :: mem_db
    by (simp add: make_endpoint_def demo_lib_def Let_def)
  obtain u where u: "\<And>m :: mem_db. user_default (fixed_sys 1000) m = (u, m)"
    by (simp add: user_default_def fixed_sys_def)
  obtain ep where ep: "make_endpoint fixed_uuids demo_lib (u_uaid u) 9 None ''https://push/'' x = (Inr ep, x)"
    using made by blast
  have url: "settings_endpoint_url demo_served = Inr ''https://push/''" "el_url_to_string demo_lib = (\<lambda>u. u)"
    by (simp_all add: settings_endpoint_url_def fields demo_lib_def)
  have secret: "\<exists>s. generate_token demo_served k a = Inr s" for k a
    by (simp add: generate_token_def sign_with_key_def fields)
  obtain s where s: "generate_token demo_served ''AAAAAAAAAAAAAAAAAAAAAAAAAAAAAAAAAAAAAAAAAAB='' (u_uaid u) = Inr s" using secret by blast
  show ?thesis
    by (simp add: register_uaid_route_def router_data_input_from_request_def demo_bodies_def args url keys fields dynamo_client_def
        db u ep s routers_register_def uuid_or_new_def endpoint_step_def Let_def)
qed

theorem bad_auth_keys_found_late_witness:
  "\<exists>B reply. server_with_settings demo_start (demo_settings\<lparr>es_auth_keys := ''key1''\<rparr>) demo_ep_store =
       (Inr (B, demo_no_bridges), demo_ep_store) \<and>
     register_uaid_route demo_served demo_no_bridges demo_bodies demo_webpush_register demo_ep_store = (Inr reply, demo_ep_store) \<and>
     register_uaid_route B demo_no_bridges demo_bodies demo_webpush_register demo_ep_store =
       (Inl (Panic ''Invalid AUTOEND_AUTH_KEYS''), demo_ep_store)"
proof -
  have bad: "\<not> (starts_with ''['' ''key1'' \<and> starts_with '']'' (rev ''key1''))" "CHR 0x22 \<notin> set ''key1''" "CHR '' '' \<notin> set ''key1''"
    by (simp_all add: starts_with_def)
  from demo_served_registers [of demo_ep_store] bad_auth_keys_found_late [OF demo_starts bad] show ?thesis by blast
qed

end
