(* ===== verification/Broadcast.thy ===== *)
theory Broadcast
  imports Errors
begin

text \<open>
  Megaphone broadcasts: \<open>autoconnect-common/src/broadcast.rs\<close>. A \<open>BroadcastRegistry\<close>
  interns broadcast ids as 32-bit keys, the \<open>BroadcastChangeTracker\<close> keeps the current
  version of every broadcast and a list of revisions ordered by a change counter, and a
  client keeps the keys it subscribed to and the counter it has seen
  (\<open>BroadcastSubs\<close>). The theory models every operation and shows the tracker's
  well-formedness invariant and that a client that applies the deltas it is sent ends up
  with the server's versions.
\<close>

section \<open>Data\<close>

type_synonym broadcast_key = u32

record broadcast_subs =
  subs_list :: "broadcast_key list"
  subs_count :: u32

record broadcast_registry =
  reg_lookup :: "string \<rightharpoonup> broadcast_key"
  reg_table :: "string list"

record broadcast_revision =
  rev_count :: u32
  rev_key :: broadcast_key

record broadcast =
  b_id :: string
  b_version :: string

record broadcast_tracker =
  tr_list :: "broadcast_revision list"
  tr_registry :: broadcast_registry
  tr_versions :: "broadcast_key \<rightharpoonup> string"
  tr_count :: u32

text \<open>\<open>BroadcastValue\<close> of \<open>protocol.rs\<close>.\<close>

datatype broadcast_value = BValue string | BNested "(string \<times> broadcast_value) list"

section \<open>The registry of ids\<close>

definition registry_new :: broadcast_registry where
  "registry_new = \<lparr>reg_lookup = Map.empty, reg_table = []\<rparr>"

definition registry_add :: "string \<Rightarrow> broadcast_registry \<Rightarrow> broadcast_key \<times> broadcast_registry" where
  "registry_add bid r =
     (case reg_lookup r bid of
        Some k \<Rightarrow> (k, r)
      | None \<Rightarrow>
          (let i = of_nat (length (reg_table r)) in
           (i, r\<lparr>reg_table := reg_table r @ [bid], reg_lookup := (reg_lookup r)(bid \<mapsto> i)\<rparr>)))"

definition lookup_id :: "broadcast_registry \<Rightarrow> broadcast_key \<Rightarrow> string option" where
  "lookup_id r k =
     (if unat k < length (reg_table r) then Some (reg_table r ! unat k) else None)"

definition lookup_key :: "broadcast_registry \<Rightarrow> string \<Rightarrow> broadcast_key option" where
  "lookup_key r bid = reg_lookup r bid"

section \<open>Broadcasts\<close>

definition broadcast_error :: "broadcast \<Rightarrow> broadcast" where
  "broadcast_error b = \<lparr>b_id = b_id b, b_version = ''Broadcast not found''\<rparr>"

definition broadcast_of_pair :: "string \<times> string \<Rightarrow> broadcast" where
  "broadcast_of_pair p = \<lparr>b_id = fst p, b_version = snd p\<rparr>"

definition pair_of_broadcast :: "broadcast \<Rightarrow> string \<times> broadcast_value" where
  "pair_of_broadcast b = (b_id b, BValue (b_version b))"

definition from_hashmap :: "(string, string) hashmap \<Rightarrow> broadcast list" where
  "from_hashmap m = map broadcast_of_pair m"

definition vec_into_hashmap :: "broadcast list \<Rightarrow> (string, broadcast_value) hashmap" where
  "vec_into_hashmap bs = hm_extend [] (map pair_of_broadcast bs)"

section \<open>The change tracker\<close>

fun tracker_init :: "broadcast list \<Rightarrow> broadcast_tracker \<Rightarrow> broadcast_tracker" where
  "tracker_init [] t = t"
| "tracker_init (srv # srvs) t =
     (let (key, reg) = registry_add (b_id srv) (tr_registry t) in
      tracker_init srvs
        (t\<lparr>tr_registry := reg, tr_versions := (tr_versions t)(key \<mapsto> b_version srv)\<rparr>))"

definition tracker_new :: "broadcast list \<Rightarrow> broadcast_tracker" where
  "tracker_new bs = tracker_init bs
     \<lparr>tr_list = [], tr_registry = registry_new, tr_versions = Map.empty, tr_count = 0\<rparr>"

definition update_broadcast ::
  "broadcast \<Rightarrow> broadcast_tracker \<Rightarrow> (apc_error, u32, broadcast_tracker) outcome" where
  "update_broadcast b t =
     (case lookup_key (tr_registry t) (b_id b) of
        None \<Rightarrow> (Inl (BroadcastError ''Broadcast not found''), t)
      | Some key \<Rightarrow>
          (case tr_versions t key of
             None \<Rightarrow> (Inl (BroadcastError ''Broadcast not found''), t)
           | Some ver \<Rightarrow>
               if ver = b_version b then (Inr (tr_count t), t)
               else
                 (let count = tr_count t + 1;
                      revision = \<lparr>rev_count = count, rev_key = key\<rparr>;
                      revisions =
                        (case position (\<lambda>r. rev_key r = key) (tr_list t) of
                           Some i \<Rightarrow> remove_at i (tr_list t) @ [revision]
                         | None \<Rightarrow> tr_list t @ [revision])
                  in (Inr count,
                      t\<lparr>tr_versions := (tr_versions t)(key \<mapsto> b_version b),
                        tr_count := count, tr_list := revisions\<rparr>))))"

definition add_broadcast :: "broadcast \<Rightarrow> broadcast_tracker \<Rightarrow> u32 \<times> broadcast_tracker" where
  "add_broadcast b t0 =
     (case update_broadcast b t0 of
        (Inr count, t) \<Rightarrow> (count, t)
      | (Inl _, t) \<Rightarrow>
          (let count = tr_count t + 1;
               (key, reg) = registry_add (b_id b) (tr_registry t)
           in (count,
               t\<lparr>tr_count := count, tr_registry := reg,
                 tr_versions := (tr_versions t)(key \<mapsto> b_version b),
                 tr_list := tr_list t @ [\<lparr>rev_count = count, rev_key = key\<rparr>]\<rparr>)))"

fun add_broadcasts :: "broadcast list \<Rightarrow> u32 option \<Rightarrow> broadcast_tracker \<Rightarrow> u32 option \<times> broadcast_tracker" where
  "add_broadcasts [] change_count t = (change_count, t)"
| "add_broadcasts (b # bs) change_count t =
     (let (c, t') = add_broadcast b t in add_broadcasts bs (Some c) t')"

text \<open>
  The loop of \<open>change_count_delta\<close> over the revisions, newest first: it breaks at the
  first revision the client has seen and skips keys the client is not subscribed to.
\<close>

fun delta_loop :: "broadcast_tracker \<Rightarrow> broadcast_subs \<Rightarrow> broadcast_revision list \<Rightarrow> broadcast list" where
  "delta_loop t s [] = []"
| "delta_loop t s (r # rs) =
     (if rev_count r \<le> subs_count s then []
      else if rev_key r \<notin> set (subs_list s) then delta_loop t s rs
      else (case tr_versions t (rev_key r) of
              None \<Rightarrow> delta_loop t s rs
            | Some ver \<Rightarrow>
                (case lookup_id (tr_registry t) (rev_key r) of
                   None \<Rightarrow> delta_loop t s rs
                 | Some bid \<Rightarrow> \<lparr>b_id = bid, b_version = ver\<rparr> # delta_loop t s rs)))"

definition change_count_delta ::
  "broadcast_tracker \<Rightarrow> broadcast_subs \<Rightarrow> broadcast list option \<times> broadcast_subs" where
  "change_count_delta t s =
     (if tr_count t \<le> subs_count s then (None, s)
      else (let delta = delta_loop t s (rev (tr_list t)) in
            (if delta = [] then None else Some delta, s\<lparr>subs_count := tr_count t\<rparr>)))"

text \<open>One iteration over the client's broadcasts, shared by the two functions below.\<close>

fun stale_broadcasts :: "broadcast_tracker \<Rightarrow> broadcast list \<Rightarrow> broadcast list" where
  "stale_broadcasts t [] = []"
| "stale_broadcasts t (b # bs) =
     (case lookup_key (tr_registry t) (b_id b) of
        None \<Rightarrow> stale_broadcasts t bs
      | Some key \<Rightarrow>
          (case tr_versions t key of
             None \<Rightarrow> stale_broadcasts t bs
           | Some ver \<Rightarrow>
               if ver \<noteq> b_version b
               then \<lparr>b_id = b_id b, b_version = ver\<rparr> # stale_broadcasts t bs
               else stale_broadcasts t bs))"

fun known_keys :: "broadcast_tracker \<Rightarrow> broadcast list \<Rightarrow> broadcast_key list" where
  "known_keys t [] = []"
| "known_keys t (b # bs) =
     (case lookup_key (tr_registry t) (b_id b) of
        None \<Rightarrow> known_keys t bs
      | Some key \<Rightarrow> key # known_keys t bs)"

definition broadcast_delta :: "broadcast_tracker \<Rightarrow> broadcast list \<Rightarrow> broadcast_subs \<times> broadcast list" where
  "broadcast_delta t bs =
     (\<lparr>subs_list = known_keys t bs, subs_count = tr_count t\<rparr>, stale_broadcasts t bs)"

definition subscribe_to_broadcasts ::
  "broadcast_tracker \<Rightarrow> broadcast_subs \<Rightarrow> broadcast list \<Rightarrow> broadcast list option \<times> broadcast_subs" where
  "subscribe_to_broadcasts t s bs =
     (let (d, s') = change_count_delta t s;
          delta = (case d of None \<Rightarrow> [] | Some xs \<Rightarrow> xs) @ stale_broadcasts t bs
      in (if delta = [] then None else Some delta,
          s'\<lparr>subs_list := subs_list s' @ known_keys t bs\<rparr>))"

definition missing_broadcasts :: "broadcast_tracker \<Rightarrow> broadcast list \<Rightarrow> broadcast list" where
  "missing_broadcasts t bs =
     map broadcast_error (filter (\<lambda>b. lookup_key (tr_registry t) (b_id b) = None) bs)"

section \<open>Well-formedness\<close>

text \<open>
  Keys are indices into the table and the two directions of the registry agree; exactly
  the interned keys have a version; the revision list names each key at most once, in
  increasing order of counters that never exceed the tracker's own.
\<close>

definition registry_wf :: "broadcast_registry \<Rightarrow> bool" where
  "registry_wf r \<longleftrightarrow> length (reg_table r) \<le> 2 ^ 32 \<and>
     (\<forall>bid k. reg_lookup r bid = Some k \<longleftrightarrow>
        unat k < length (reg_table r) \<and> reg_table r ! unat k = bid)"

definition tracker_wf :: "broadcast_tracker \<Rightarrow> bool" where
  "tracker_wf t \<longleftrightarrow> registry_wf (tr_registry t) \<and>
     (\<forall>k. tr_versions t k \<noteq> None \<longleftrightarrow> unat k < length (reg_table (tr_registry t))) \<and>
     distinct (map rev_key (tr_list t)) \<and>
     (\<forall>r \<in> set (tr_list t). unat (rev_key r) < length (reg_table (tr_registry t))) \<and>
     sorted_wrt (<) (map rev_count (tr_list t)) \<and>
     (\<forall>r \<in> set (tr_list t). rev_count r \<le> tr_count t)"

text \<open>Room for \<open>n\<close> more changes before a 32-bit counter or key wraps.\<close>

definition tracker_room :: "nat \<Rightarrow> broadcast_tracker \<Rightarrow> bool" where
  "tracker_room n t \<longleftrightarrow>
     unat (tr_count t) + n < 2 ^ 32 \<and> length (reg_table (tr_registry t)) + n \<le> 2 ^ 32"

lemma unat_of_nat_u32: "n < 2 ^ 32 \<Longrightarrow> unat (of_nat n :: u32) = n"
  by (simp add: unsigned_of_nat take_bit_nat_eq_self)

lemma u32_Suc: "unat (c :: u32) + 1 < 2 ^ 32 \<Longrightarrow> unat (c + 1) = Suc (unat c) \<and> c < c + 1"
  by (simp add: unat_word_ariths word_less_nat_alt)

lemma registry_add_wf:
  assumes wf: "registry_wf r" and room: "length (reg_table r) < 2 ^ 32"
    and add: "registry_add bid r = (k, r')"
  shows "registry_wf r'"
proof (cases "reg_lookup r bid")
  case (Some k')
  with add wf show ?thesis by (simp add: registry_add_def)
next
  case None
  define n where "n = length (reg_table r)"
  have r': "reg_table r' = reg_table r @ [bid]"
    "reg_lookup r' = (reg_lookup r)(bid \<mapsto> of_nat n)"
    using None add by (auto simp: registry_add_def Let_def n_def)
  have n: "unat (of_nat n :: u32) = n" using room by (simp add: n_def unat_of_nat_u32)
  have fresh: "reg_table r ! unat j \<noteq> bid" if "unat j < n" for j :: u32
  proof
    assume "reg_table r ! unat j = bid"
    with wf that have "reg_lookup r bid = Some j" by (simp add: registry_wf_def n_def)
    with None show False by simp
  qed
  have "reg_lookup r' b = Some j \<longleftrightarrow>
      unat j < length (reg_table r') \<and> reg_table r' ! unat j = b" for b j
  proof (cases "b = bid")
    case True
    have "j = of_nat n \<longleftrightarrow> unat j = n" using n by (metis word_unat_eq_iff)
    with True r' fresh [of j] show ?thesis
      by (auto simp: nth_append n_def less_Suc_eq)
  next
    case False
    with r' wf show ?thesis
      by (auto simp: registry_wf_def nth_append n_def less_Suc_eq)
  qed
  with r' room show ?thesis by (simp add: registry_wf_def)
qed

lemma registry_add_props:
  assumes wf: "registry_wf r" and room: "length (reg_table r) < 2 ^ 32"
    and add: "registry_add bid r = (k, r')"
  shows "reg_lookup r' bid = Some k"
    and "b \<noteq> bid \<Longrightarrow> reg_lookup r' b = reg_lookup r b"
    and "length (reg_table r') = (if reg_lookup r bid = None then Suc (length (reg_table r)) else length (reg_table r))"
    and "reg_lookup r bid = None \<Longrightarrow> unat k = length (reg_table r)"
  using assms by (auto simp: registry_add_def Let_def unat_of_nat_u32 split: option.splits)

lemma lookup_id_iff: "registry_wf r \<Longrightarrow> lookup_id r k = Some bid \<longleftrightarrow> lookup_key r bid = Some k"
  by (auto simp: lookup_id_def lookup_key_def registry_wf_def)

lemma tracker_wf_register:
  assumes wf: "tracker_wf t" and room: "length (reg_table (tr_registry t)) < 2 ^ 32"
    and add: "registry_add bid (tr_registry t) = (k, reg)"
  shows "tracker_wf (t\<lparr>tr_registry := reg, tr_versions := (tr_versions t)(k \<mapsto> v)\<rparr>)"
proof -
  let ?n = "length (reg_table (tr_registry t))"
  have rwf: "registry_wf (tr_registry t)" using wf by (simp add: tracker_wf_def)
  note p = registry_add_props [OF rwf room add]
  have wf': "registry_wf reg" using rwf room add by (rule registry_add_wf)
  have old: "unat k < ?n" if old: "reg_lookup (tr_registry t) bid \<noteq> None"
  proof -
    from old add have "reg_lookup (tr_registry t) bid = Some k" by (auto simp: registry_add_def)
    with rwf show ?thesis by (simp add: registry_wf_def)
  qed
  have len: "length (reg_table reg) = (if reg_lookup (tr_registry t) bid = None then Suc ?n else ?n)"
    by (rule p(3))
  have dom: "((tr_versions t)(k \<mapsto> v)) j \<noteq> None \<longleftrightarrow> unat j < length (reg_table reg)" for j
  proof (cases "reg_lookup (tr_registry t) bid = None")
    case True
    then have "j = k \<longleftrightarrow> unat j = ?n" using p(4) by (metis word_unat_eq_iff)
    with True len wf show ?thesis by (auto simp: tracker_wf_def less_Suc_eq)
  next
    case False
    with len wf old show ?thesis by (auto simp: tracker_wf_def)
  qed
  have "\<forall>r \<in> set (tr_list t). unat (rev_key r) < length (reg_table reg)"
    using wf len by (auto simp: tracker_wf_def less_SucI)
  with wf wf' dom show ?thesis
    by (simp add: tracker_wf_def del: fun_upd_apply)
qed

lemma tracker_init_wf:
  "tracker_wf t \<Longrightarrow> length (reg_table (tr_registry t)) + length bs \<le> 2 ^ 32 \<Longrightarrow>
     tracker_wf (tracker_init bs t)"
proof (induction bs t rule: tracker_init.induct)
  case (2 srv srvs t)
  obtain k reg where add: "registry_add (b_id srv) (tr_registry t) = (k, reg)" by fastforce
  have "registry_wf (tr_registry t)" using "2.prems" by (simp add: tracker_wf_def)
  then have "length (reg_table reg) \<le> Suc (length (reg_table (tr_registry t)))"
    using registry_add_props(3) [OF _ _ add] "2.prems" by simp
  with "2" add show ?case by (simp add: tracker_wf_register)
qed simp

lemma tracker_new_wf: "length bs \<le> 2 ^ 32 \<Longrightarrow> tracker_wf (tracker_new bs)"
  unfolding tracker_new_def
  by (rule tracker_init_wf) (simp_all add: tracker_wf_def registry_wf_def registry_new_def)

text \<open>
  Removing the revision of a key and pushing a new one is a filter and an append when
  keys are distinct.
\<close>

lemma move_revision:
  assumes "distinct (map rev_key rs)"
  shows "(case position (\<lambda>r. rev_key r = key) rs of
      Some i \<Rightarrow> remove_at i rs @ [x] | None \<Rightarrow> rs @ [x]) = filter (\<lambda>r. rev_key r \<noteq> key) rs @ [x]"
proof (cases "position (\<lambda>r. rev_key r = key) rs")
  case None
  then have "filter (\<lambda>r. rev_key r \<noteq> key) rs = rs"
    by (auto simp: position_None_iff filter_id_conv)
  with None show ?thesis by simp
next
  case (Some i)
  from remove_at_position [OF Some] obtain ys y zs where
    s: "rs = ys @ y # zs" "rev_key y = key" "\<forall>y \<in> set ys. rev_key y \<noteq> key" "remove_at i rs = ys @ zs"
    by blast
  have "\<forall>z \<in> set zs. rev_key z \<noteq> key"
    using assms s(2) unfolding s(1) by (auto simp: image_iff)
  then have "filter (\<lambda>r. rev_key r \<noteq> key) rs = ys @ zs"
    using s(2,3) unfolding s(1) by (simp add: filter_id_conv)
  with s(4) Some show ?thesis by simp
qed

definition bump :: "broadcast_key \<Rightarrow> string \<Rightarrow> broadcast_tracker \<Rightarrow> broadcast_tracker" where
  "bump key ver t =
     t\<lparr>tr_versions := (tr_versions t)(key \<mapsto> ver), tr_count := tr_count t + 1,
       tr_list := filter (\<lambda>r. rev_key r \<noteq> key) (tr_list t) @ [\<lparr>rev_count = tr_count t + 1, rev_key = key\<rparr>]\<rparr>"

lemma bump_wf:
  assumes wf: "tracker_wf t" and key: "unat key < length (reg_table (tr_registry t))"
    and room: "unat (tr_count t) + 1 < 2 ^ 32"
  shows "tracker_wf (bump key ver t)"
proof -
  have lt: "tr_count t < tr_count t + 1" using u32_Suc [OF room] by simp
  have "rev_count r < tr_count t + 1" if "r \<in> set (tr_list t)" for r
    using wf that lt by (auto simp: tracker_wf_def dest: order.strict_trans1)
  with wf key lt show ?thesis
    by (auto simp: tracker_wf_def bump_def distinct_map_filter sorted_wrt_append
        sorted_wrt_map sorted_wrt_filter less_imp_le)
qed

text \<open>Every change to a well-formed tracker is a bump, after interning a new id.\<close>

lemma update_broadcast_cases:
  assumes wf: "tracker_wf t"
  shows "update_broadcast b t =
    (case lookup_key (tr_registry t) (b_id b) of
       None \<Rightarrow> (Inl (BroadcastError ''Broadcast not found''), t)
     | Some key \<Rightarrow>
         if tr_versions t key = Some (b_version b) then (Inr (tr_count t), t)
         else (Inr (tr_count t + 1), bump key (b_version b) t))"
proof (cases "lookup_key (tr_registry t) (b_id b)")
  case (Some key)
  then have "tr_versions t key \<noteq> None"
    using wf by (auto simp: tracker_wf_def registry_wf_def lookup_key_def)
  moreover have "distinct (map rev_key (tr_list t))" using wf by (simp add: tracker_wf_def)
  ultimately show ?thesis
    using Some by (auto simp: update_broadcast_def bump_def Let_def move_revision)
qed (simp add: update_broadcast_def)

definition intern :: "broadcast \<Rightarrow> broadcast_tracker \<Rightarrow> broadcast_key \<times> broadcast_tracker" where
  "intern b t =
     (let (k, reg) = registry_add (b_id b) (tr_registry t) in
      (k, t\<lparr>tr_registry := reg, tr_versions := (tr_versions t)(k \<mapsto> b_version b)\<rparr>))"

lemma add_broadcast_known:
  assumes "tracker_wf t" and "lookup_key (tr_registry t) (b_id b) = Some key"
  shows "add_broadcast b t =
    (if tr_versions t key = Some (b_version b) then (tr_count t, t)
     else (tr_count t + 1, bump key (b_version b) t))"
  using assms by (simp add: add_broadcast_def update_broadcast_cases)

lemma add_broadcast_new:
  assumes wf: "tracker_wf t" and new: "lookup_key (tr_registry t) (b_id b) = None"
    and room: "length (reg_table (tr_registry t)) < 2 ^ 32"
    and i: "intern b t = (k, t')"
  shows "add_broadcast b t = (tr_count t + 1, bump k (b_version b) t')"
    and "tracker_wf t'" and "unat k = length (reg_table (tr_registry t))"
    and "length (reg_table (tr_registry t')) = Suc (length (reg_table (tr_registry t)))"
    and "tr_count t' = tr_count t" and "tr_list t' = tr_list t"
    and "tr_versions t' = (tr_versions t)(k \<mapsto> b_version b)"
    and "reg_table (tr_registry t') = reg_table (tr_registry t) @ [b_id b]"
proof -
  obtain reg where r: "registry_add (b_id b) (tr_registry t) = (k, reg)"
    and t': "t' = t\<lparr>tr_registry := reg, tr_versions := (tr_versions t)(k \<mapsto> b_version b)\<rparr>"
    using i by (auto simp: intern_def split: prod.splits)
  have rwf: "registry_wf (tr_registry t)" using wf by (simp add: tracker_wf_def)
  note p = registry_add_props [OF rwf room r]
  show k: "unat k = length (reg_table (tr_registry t))"
    using p(4) new by (simp add: lookup_key_def)
  show "tracker_wf t'" unfolding t' by (rule tracker_wf_register [OF wf room r])
  show "length (reg_table (tr_registry t')) = Suc (length (reg_table (tr_registry t)))"
    using p(3) new by (simp add: t' lookup_key_def)
  show "tr_count t' = tr_count t" "tr_list t' = tr_list t"
    "tr_versions t' = (tr_versions t)(k \<mapsto> b_version b)"
    by (simp_all add: t')
  show "reg_table (tr_registry t') = reg_table (tr_registry t) @ [b_id b]"
    using r new by (auto simp: t' registry_add_def lookup_key_def Let_def)
  have "\<forall>r \<in> set (tr_list t). rev_key r \<noteq> k" using wf k by (auto simp: tracker_wf_def)
  then have "filter (\<lambda>r. rev_key r \<noteq> k) (tr_list t) = tr_list t" by (simp add: filter_id_conv)
  then show "add_broadcast b t = (tr_count t + 1, bump k (b_version b) t')"
    using new r by (simp add: add_broadcast_def update_broadcast_def t' bump_def Let_def)
qed

lemma tracker_add_wf:
  assumes wf: "tracker_wf t" and room: "tracker_room (Suc n) t"
  shows "tracker_wf (snd (add_broadcast b t)) \<and> tracker_room n (snd (add_broadcast b t))"
proof -
  have c: "unat (tr_count t) + 1 < 2 ^ 32" using room by (simp add: tracker_room_def)
  note c' = u32_Suc [OF c]
  show ?thesis
  proof (cases "lookup_key (tr_registry t) (b_id b)")
    case (Some key)
    have "unat key < length (reg_table (tr_registry t))"
      using wf Some by (auto simp: tracker_wf_def registry_wf_def lookup_key_def)
    from bump_wf [OF wf this c] show ?thesis
      using wf room c' by (auto simp: add_broadcast_known [OF wf Some] tracker_room_def bump_def)
  next
    case None
    obtain k t' where i: "intern b t = (k, t')" by fastforce
    have l: "length (reg_table (tr_registry t)) < 2 ^ 32"
      using room by (simp add: tracker_room_def)
    note n = add_broadcast_new [OF wf None l i]
    have "tracker_wf (bump k (b_version b) t')"
      using n c by (intro bump_wf) simp_all
    then show ?thesis
      using n room c' by (simp add: tracker_room_def bump_def)
  qed
qed

lemma add_broadcasts_wf:
  "tracker_wf t \<Longrightarrow> tracker_room (length bs) t \<Longrightarrow> tracker_wf (snd (add_broadcasts bs c t))"
proof (induction bs c t rule: add_broadcasts.induct)
  case (2 b bs c t)
  then show ?case
    using tracker_add_wf [of t "length bs" b] by (auto simp: case_prod_beta Let_def)
qed simp

section \<open>What a delta contains\<close>

definition current_broadcast :: "broadcast_tracker \<Rightarrow> broadcast_key \<Rightarrow> broadcast" where
  "current_broadcast t k =
     \<lparr>b_id = reg_table (tr_registry t) ! unat k, b_version = the (tr_versions t k)\<rparr>"

lemma delta_loop_filter:
  assumes wf: "tracker_wf t" and sub: "set rs \<subseteq> set (tr_list t)"
    and desc: "sorted_wrt (>) (map rev_count rs)"
  shows "delta_loop t s rs =
    map (current_broadcast t \<circ> rev_key)
      (filter (\<lambda>r. subs_count s < rev_count r \<and> rev_key r \<in> set (subs_list s)) rs)"
  using sub desc
proof (induction rs)
  case (Cons r rs)
  have k: "unat (rev_key r) < length (reg_table (tr_registry t))"
    using wf Cons.prems by (auto simp: tracker_wf_def)
  then have "tr_versions t (rev_key r) \<noteq> None" using wf by (simp add: tracker_wf_def)
  then obtain ver where ver: "tr_versions t (rev_key r) = Some ver" by auto
  show ?case
  proof (cases "rev_count r \<le> subs_count s")
    case True
    then have "\<forall>q \<in> set rs. \<not> subs_count s < rev_count q"
      using Cons.prems by (auto simp: not_less dest: order.strict_trans1 less_imp_le)
    with True show ?thesis by (auto simp: filter_empty_conv)
  next
    case False
    with Cons ver k show ?thesis
      by (auto simp: lookup_id_def current_broadcast_def)
  qed
qed simp

lemma sorted_wrt_rev_greater: "sorted_wrt (<) xs \<Longrightarrow> sorted_wrt (>) (rev xs)"
  by (simp add: sorted_wrt_rev)

text \<open>Between two well-formed points a client is sent exactly the broadcasts it
  subscribes to that changed since the counter it has seen, newest change first, each
  with its current version; it is sent nothing when there is none, and its counter moves
  to the tracker's.\<close>

theorem change_count_delta_exact:
  assumes "tracker_wf t"
  shows "change_count_delta t s =
    (let new = filter (\<lambda>r. subs_count s < rev_count r \<and> rev_key r \<in> set (subs_list s))
                 (rev (tr_list t));
         delta = map (current_broadcast t \<circ> rev_key) new
     in if tr_count t \<le> subs_count s then (None, s)
        else (if new = [] then None else Some delta, s\<lparr>subs_count := tr_count t\<rparr>))"
proof -
  have "sorted_wrt (>) (map rev_count (rev (tr_list t)))"
    using assms sorted_wrt_rev_greater [of "map rev_count (tr_list t)"]
    by (simp add: tracker_wf_def rev_map)
  with assms show ?thesis
    by (simp add: change_count_delta_def delta_loop_filter Let_def)
qed

theorem change_count_delta_exact_witness:
  "change_count_delta (snd (add_broadcasts [\<lparr>b_id = ''a'', b_version = ''2''\<rparr>] None
      (tracker_new [\<lparr>b_id = ''a'', b_version = ''1''\<rparr>])))
     \<lparr>subs_list = [0], subs_count = 0\<rparr> =
   (Some [\<lparr>b_id = ''a'', b_version = ''2''\<rparr>], \<lparr>subs_list = [0], subs_count = 1\<rparr>)"
proof -
  let ?init = "tracker_new [\<lparr>b_id = ''a'', b_version = ''1''\<rparr>]"
  let ?upd = "snd (add_broadcasts [\<lparr>b_id = ''a'', b_version = ''2''\<rparr>] None ?init)"
  note defs = tracker_new_def registry_new_def registry_add_def add_broadcast_def
    update_broadcast_def lookup_key_def Let_def
  have "tracker_room (length [\<lparr>b_id = ''a'', b_version = ''2''\<rparr>]) ?init"
    by (simp add: tracker_room_def defs)
  from add_broadcasts_wf [OF tracker_new_wf this] have "tracker_wf ?upd" by simp
  from change_count_delta_exact [OF this] show ?thesis
    by (simp add: defs current_broadcast_def)
qed

section \<open>Clients follow the tracker\<close>

text \<open>
  A client's view is the version it holds of each broadcast. It lags behind the tracker
  when every subscribed broadcast with no revision newer than the client's counter is at
  its current version in the view; it is current when all subscribed broadcasts are.
\<close>

type_synonym view = "string \<rightharpoonup> string"

definition apply_delta :: "broadcast list \<Rightarrow> view \<Rightarrow> view" where
  "apply_delta ds v = foldl (\<lambda>v b. v(b_id b \<mapsto> b_version b)) v ds"

abbreviation key_id :: "broadcast_tracker \<Rightarrow> broadcast_key \<Rightarrow> string" where
  "key_id t k \<equiv> reg_table (tr_registry t) ! unat k"

abbreviation known_key :: "broadcast_tracker \<Rightarrow> broadcast_key \<Rightarrow> bool" where
  "known_key t k \<equiv> unat k < length (reg_table (tr_registry t))"

definition lagging :: "broadcast_tracker \<Rightarrow> broadcast_subs \<Rightarrow> view \<Rightarrow> bool" where
  "lagging t s v \<longleftrightarrow> tracker_wf t \<and> subs_count s \<le> tr_count t \<and>
     (\<forall>k \<in> set (subs_list s). known_key t k \<and>
        ((\<forall>r \<in> set (tr_list t). rev_key r = k \<longrightarrow> rev_count r \<le> subs_count s) \<longrightarrow>
           v (key_id t k) = tr_versions t k))"

definition current :: "broadcast_tracker \<Rightarrow> broadcast_subs \<Rightarrow> view \<Rightarrow> bool" where
  "current t s v \<longleftrightarrow>
     (\<forall>k \<in> set (subs_list s). known_key t k \<and> v (key_id t k) = tr_versions t k)"

lemma apply_delta_lookup:
  assumes "\<forall>b \<in> set ds. b_version b = f (b_id b)"
  shows "apply_delta ds v i = (if i \<in> b_id ` set ds then Some (f i) else v i)"
  using assms unfolding apply_delta_def
proof (induction ds arbitrary: v)
  case (Cons b ds)
  then show ?case by (cases "i = b_id b") auto
qed simp

lemma tracker_versions_known: "tracker_wf t \<Longrightarrow> known_key t k \<Longrightarrow> \<exists>ver. tr_versions t k = Some ver"
  by (metis not_None_eq tracker_wf_def)

lemma key_id_inj:
  "tracker_wf t \<Longrightarrow> known_key t k \<Longrightarrow> known_key t k' \<Longrightarrow> key_id t k = key_id t k' \<Longrightarrow> k = k'"
  unfolding tracker_wf_def registry_wf_def by (metis option.inject)

lemma apply_current:
  assumes wf: "tracker_wf t" and known: "\<forall>j \<in> K. known_key t j" and k: "known_key t k"
    and ds: "set ds = current_broadcast t ` K"
  shows "apply_delta ds v (key_id t k) = (if k \<in> K then tr_versions t k else v (key_id t k))"
proof -
  define f where "f i = the (tr_versions t (the (lookup_key (tr_registry t) i)))" for i
  have lk: "lookup_key (tr_registry t) (key_id t j) = Some j" if "known_key t j" for j
    using wf that by (simp add: tracker_wf_def registry_wf_def lookup_key_def)
  have "\<forall>b \<in> set ds. b_version b = f (b_id b)"
    using known by (auto simp: ds current_broadcast_def f_def lk)
  note a = apply_delta_lookup [OF this]
  have "key_id t k \<in> b_id ` set ds \<longleftrightarrow> k \<in> K"
    using known k key_id_inj [OF wf] by (force simp: ds current_broadcast_def)
  moreover have "Some (f (key_id t k)) = tr_versions t k"
    using tracker_versions_known [OF wf k] by (auto simp: f_def lk [OF k])
  ultimately show ?thesis by (simp add: a)
qed

lemma delta_current:
  assumes lag: "lagging t s v" and d: "change_count_delta t s = (d, s')"
  shows "current t s' (apply_delta (case d of None \<Rightarrow> [] | Some ds \<Rightarrow> ds) v)"
    and "subs_list s' = subs_list s" and "subs_count s' = tr_count t"
proof -
  have wf: "tracker_wf t" and le: "subs_count s \<le> tr_count t"
    using lag by (auto simp: lagging_def)
  show "subs_list s' = subs_list s" "subs_count s' = tr_count t"
    using d le by (auto simp: change_count_delta_def Let_def split: if_splits)
  show "current t s' (apply_delta (case d of None \<Rightarrow> [] | Some ds \<Rightarrow> ds) v)"
  proof (cases "tr_count t \<le> subs_count s")
    case True
    then have "\<forall>r \<in> set (tr_list t). rev_count r \<le> subs_count s"
      using wf by (auto simp: tracker_wf_def intro: order_trans)
    with True d lag show ?thesis
      by (auto simp: change_count_delta_def lagging_def current_def apply_delta_def)
  next
    case False
    define ds where "ds = delta_loop t s (rev (tr_list t))"
    define K where "K = rev_key ` {r \<in> set (tr_list t). subs_count s < rev_count r \<and> rev_key r \<in> set (subs_list s)}"
    have "sorted_wrt (>) (map rev_count (rev (tr_list t)))"
      using wf sorted_wrt_rev_greater [of "map rev_count (tr_list t)"]
      by (simp add: tracker_wf_def rev_map)
    then have ds: "set ds = current_broadcast t ` K"
      using delta_loop_filter [OF wf, of "rev (tr_list t)" s]
      by (auto simp: ds_def K_def image_image)
    have known: "\<forall>j \<in> K. known_key t j" using wf by (auto simp: K_def tracker_wf_def)
    have d': "(case d of None \<Rightarrow> [] | Some ds \<Rightarrow> ds) = ds" "subs_list s' = subs_list s"
      using d False by (auto simp: change_count_delta_def ds_def Let_def split: if_splits)
    have "known_key t k \<and> apply_delta ds v (key_id t k) = tr_versions t k"
      if k: "k \<in> set (subs_list s)" for k
    proof -
      have kk: "known_key t k" using lag k by (simp add: lagging_def)
      have "v (key_id t k) = tr_versions t k" if "k \<notin> K"
      proof -
        have "\<forall>r \<in> set (tr_list t). rev_key r = k \<longrightarrow> rev_count r \<le> subs_count s"
          using that k by (auto simp: K_def image_iff not_less)
        with lag k show ?thesis by (simp add: lagging_def)
      qed
      with apply_current [OF wf known kk ds, of v] kk show ?thesis by auto
    qed
    with d' show ?thesis by (simp add: current_def)
  qed
qed

lemma bump_lagging:
  assumes lag: "lagging t s v" and wf: "tracker_wf (bump key ver t)"
    and room: "unat (tr_count t) + 1 < 2 ^ 32"
  shows "lagging (bump key ver t) s v"
proof -
  have lt: "subs_count s < tr_count t + 1"
    using lag u32_Suc [OF room] by (auto simp: lagging_def dest: order.strict_trans1)
  have "v (key_id t k) = ((tr_versions t)(key \<mapsto> ver)) k"
    if k: "k \<in> set (subs_list s)"
      and old: "\<forall>r \<in> set (tr_list (bump key ver t)). rev_key r = k \<longrightarrow> rev_count r \<le> subs_count s" for k
  proof -
    have "k \<noteq> key" using old lt by (auto simp: bump_def not_less [symmetric])
    moreover from this old have "\<forall>r \<in> set (tr_list t). rev_key r = k \<longrightarrow> rev_count r \<le> subs_count s"
      by (auto simp: bump_def)
    ultimately show ?thesis using lag k by (simp add: lagging_def)
  qed
  with lag wf lt show ?thesis
    by (auto simp: lagging_def bump_def less_imp_le)
qed

lemma intern_lagging:
  assumes lag: "lagging t s v" and new: "lookup_key (tr_registry t) (b_id b) = None"
    and room: "length (reg_table (tr_registry t)) < 2 ^ 32" and i: "intern b t = (k, t')"
  shows "lagging t' s v"
proof -
  have wf: "tracker_wf t" using lag by (simp add: lagging_def)
  note n = add_broadcast_new [OF wf new room i]
  have neq: "j \<noteq> k" if "known_key t j" for j using that n(3) by auto
  show ?thesis
    using lag n neq by (auto simp: lagging_def nth_append)
qed

lemma add_lagging:
  assumes lag: "lagging t s v" and room: "tracker_room (Suc n) t"
  shows "lagging (snd (add_broadcast b t)) s v"
proof -
  have wf: "tracker_wf t" using lag by (simp add: lagging_def)
  have wf': "tracker_wf (snd (add_broadcast b t))" using tracker_add_wf [OF wf room] ..
  have c: "unat (tr_count t) + 1 < 2 ^ 32" using room by (simp add: tracker_room_def)
  show ?thesis
  proof (cases "lookup_key (tr_registry t) (b_id b)")
    case (Some key)
    note e = add_broadcast_known [OF wf Some]
    from lag wf' c show ?thesis by (auto simp: e bump_lagging)
  next
    case None
    obtain k t' where i: "intern b t = (k, t')" by fastforce
    have l: "length (reg_table (tr_registry t)) < 2 ^ 32" using room by (simp add: tracker_room_def)
    note n = add_broadcast_new [OF wf None l i]
    from bump_lagging [OF intern_lagging [OF lag None l i]] wf' c n show ?thesis by simp
  qed
qed

section \<open>The interface the session code relies on\<close>

text \<open>
  A session polls the server-wide tracker that the Megaphone updater changes between
  polls. What it relies on: changes keep a client lagging, and a poll makes a lagging
  client current.
\<close>

locale broadcast_feed =
  fixes change :: "'b \<Rightarrow> 't \<Rightarrow> 't"
    and poll :: "'t \<Rightarrow> 'c \<Rightarrow> 'd \<times> 'c"
    and merge :: "'d \<Rightarrow> 'v \<Rightarrow> 'v"
    and room :: "nat \<Rightarrow> 't \<Rightarrow> bool"
    and behind :: "'t \<Rightarrow> 'c \<Rightarrow> 'v \<Rightarrow> bool"
    and uptodate :: "'t \<Rightarrow> 'c \<Rightarrow> 'v \<Rightarrow> bool"
  assumes change_room: "behind t c v \<Longrightarrow> room (Suc n) t \<Longrightarrow> room n (change b t)"
    and change_behind: "behind t c v \<Longrightarrow> room (Suc n) t \<Longrightarrow> behind (change b t) c v"
    and poll_uptodate: "behind t c v \<Longrightarrow> poll t c = (d, c') \<Longrightarrow> uptodate t c' (merge d v)"
    and poll_behind: "behind t c v \<Longrightarrow> poll t c = (d, c') \<Longrightarrow> behind t c' (merge d v)"
begin

lemma run_behind:
  "behind t c v \<Longrightarrow> room (length bs) t \<Longrightarrow> behind (fold change bs t) c v"
  by (induction bs arbitrary: t) (auto intro: change_room change_behind)

lemma run_poll_uptodate:
  assumes "behind t c v" and "room (length bs) t" and "poll (fold change bs t) c = (d, c')"
  shows "uptodate (fold change bs t) c' (merge d v)"
  using run_behind [OF assms(1,2)] assms(3) by (rule poll_uptodate)

end

definition merge_delta :: "broadcast list option \<Rightarrow> view \<Rightarrow> view" where
  "merge_delta d = apply_delta (case d of None \<Rightarrow> [] | Some ds \<Rightarrow> ds)"

lemma current_lagging:
  "tracker_wf t \<Longrightarrow> current t s v \<Longrightarrow> subs_count s \<le> tr_count t \<Longrightarrow> lagging t s v"
  by (auto simp: current_def lagging_def)

interpretation megaphone: broadcast_feed "\<lambda>b t. snd (add_broadcast b t)" change_count_delta
  merge_delta tracker_room lagging current
proof unfold_locales
  fix t s v n b
  assume lag: "lagging t s v" and room: "tracker_room (Suc n) t"
  from lag have "tracker_wf t" by (simp add: lagging_def)
  from tracker_add_wf [OF this room] show "tracker_room n (snd (add_broadcast b t))" ..
  from lag room show "lagging (snd (add_broadcast b t)) s v" by (rule add_lagging)
next
  fix t s v d s'
  assume lag: "lagging t s v" and d: "change_count_delta t s = (d, s')"
  from delta_current [OF lag d] show cur: "current t s' (merge_delta d v)"
    by (simp add: merge_delta_def)
  from lag delta_current(3) [OF lag d] show "lagging t s' (merge_delta d v)"
    by (intro current_lagging cur) (auto simp: lagging_def)
qed

lemma add_broadcasts_fold:
  "snd (add_broadcasts bs c t) = fold (\<lambda>b t. snd (add_broadcast b t)) bs t"
  by (induction bs c t rule: add_broadcasts.induct) (auto simp: case_prod_beta Let_def)

section \<open>Subscribing\<close>

lemma apply_delta_append: "apply_delta (xs @ ys) v = apply_delta ys (apply_delta xs v)"
  by (simp add: apply_delta_def)

lemma apply_delta_other: "i \<notin> b_id ` set ds \<Longrightarrow> apply_delta ds v i = v i"
  unfolding apply_delta_def by (induction ds arbitrary: v) auto

lemma apply_delta_at:
  "i \<in> b_id ` set ds \<Longrightarrow> (\<forall>b \<in> set ds. b_id b = i \<longrightarrow> b_version b = x) \<Longrightarrow>
     apply_delta ds v i = Some x"
proof (induction ds arbitrary: v)
  case (Cons b ds)
  then show ?case
    using apply_delta_other [of i ds] by (cases "i \<in> b_id ` set ds") (auto simp: apply_delta_def)
qed simp

lemma set_known_keys:
  "set (known_keys t bs) = {k. \<exists>b \<in> set bs. lookup_key (tr_registry t) (b_id b) = Some k}"
  by (induction t bs rule: known_keys.induct) (auto split: option.splits)

lemma stale_iff:
  "b' \<in> set (stale_broadcasts t bs) \<longleftrightarrow>
     (\<exists>b \<in> set bs. \<exists>k ver. lookup_key (tr_registry t) (b_id b) = Some k \<and> tr_versions t k = Some ver \<and>
        ver \<noteq> b_version b \<and> b' = \<lparr>b_id = b_id b, b_version = ver\<rparr>)"
  by (induction t bs rule: stale_broadcasts.induct) (auto split: option.splits if_splits)

lemma key_of_id:
  assumes "tracker_wf t" and "lookup_key (tr_registry t) i = Some k"
  shows "known_key t k \<and> key_id t k = i"
  using assms by (simp add: tracker_wf_def registry_wf_def lookup_key_def)

text \<open>
  Applying the client's own broadcasts and then the stale ones gives the current version
  of every known broadcast among them and leaves the rest of the view alone.
\<close>

lemma stale_current:
  assumes wf: "tracker_wf t" and k: "known_key t k"
  shows "apply_delta (stale_broadcasts t bs) (apply_delta bs v) (key_id t k) =
    (if k \<in> set (known_keys t bs) then tr_versions t k else v (key_id t k))"
proof -
  let ?i = "key_id t k"
  have lk: "lookup_key (tr_registry t) ?i = Some k"
    using wf k by (simp add: tracker_wf_def registry_wf_def lookup_key_def)
  obtain ver where ver: "tr_versions t k = Some ver" using tracker_versions_known [OF wf k] ..
  have mem: "k \<in> set (known_keys t bs) \<longleftrightarrow> ?i \<in> b_id ` set bs"
  proof
    assume "k \<in> set (known_keys t bs)"
    then obtain b where b: "b \<in> set bs" "lookup_key (tr_registry t) (b_id b) = Some k"
      by (auto simp: set_known_keys)
    from key_of_id [OF wf b(2)] b(1) show "?i \<in> b_id ` set bs" by auto
  next
    assume "?i \<in> b_id ` set bs"
    with lk show "k \<in> set (known_keys t bs)" by (auto simp: set_known_keys)
  qed
  have st: "\<forall>b \<in> set (stale_broadcasts t bs). b_id b = ?i \<longrightarrow> b_version b = ver"
    using lk ver by (auto simp: stale_iff)
  consider "?i \<in> b_id ` set (stale_broadcasts t bs)"
    | "?i \<notin> b_id ` set (stale_broadcasts t bs)" "?i \<in> b_id ` set bs"
    | "?i \<notin> b_id ` set bs" "?i \<notin> b_id ` set (stale_broadcasts t bs)"
    by blast
  then show ?thesis
  proof cases
    case 1
    then have "?i \<in> b_id ` set bs" by (auto simp: stale_iff)
    with 1 mem ver apply_delta_at [OF 1 st] show ?thesis by simp
  next
    case 2
    have "\<forall>b \<in> set bs. b_id b = ?i \<longrightarrow> b_version b = ver"
    proof (intro ballI impI)
      fix b assume b: "b \<in> set bs" "b_id b = ?i"
      show "b_version b = ver"
      proof (rule ccontr)
        assume "b_version b \<noteq> ver"
        with b lk ver have "\<lparr>b_id = b_id b, b_version = ver\<rparr> \<in> set (stale_broadcasts t bs)"
          unfolding stale_iff by (intro bexI [of _ b] exI [of _ k] exI [of _ ver]) simp_all
        with 2(1) b(2) show False by force
      qed
    qed
    with 2 mem ver show ?thesis by (simp add: apply_delta_other apply_delta_at)
  next
    case 3
    with mem show ?thesis by (simp add: apply_delta_other)
  qed
qed

lemma broadcast_delta_current:
  assumes wf: "tracker_wf t" and d: "broadcast_delta t req = (s, ds)"
  shows "current t s (apply_delta ds (apply_delta req (v :: view)))"
    and "subs_count s = tr_count t" and "set (subs_list s) = set (known_keys t req)"
proof -
  have s: "subs_list s = known_keys t req" "subs_count s = tr_count t"
    and ds: "ds = stale_broadcasts t req"
    using d by (auto simp: broadcast_delta_def)
  then show "subs_count s = tr_count t" "set (subs_list s) = set (known_keys t req)"
    by simp_all
  have "known_key t k \<and> apply_delta ds (apply_delta req v) (key_id t k) = tr_versions t k"
    if k: "k \<in> set (known_keys t req)" for k
  proof -
    from k have "known_key t k" using key_of_id [OF wf] by (auto simp: set_known_keys)
    with stale_current [OF wf this, where bs = req and v = v] k show ?thesis by (simp add: ds)
  qed
  with s show "current t s (apply_delta ds (apply_delta req v))" by (simp add: current_def)
qed

lemma tracker_init_count: "tr_count (tracker_init bs t) = tr_count t"
  by (induction bs t rule: tracker_init.induct) (auto simp: case_prod_beta Let_def)

lemma registry_add_length:
  "length (reg_table (snd (registry_add bid r))) \<le> Suc (length (reg_table r))"
  by (auto simp: registry_add_def Let_def split: option.splits)

lemma tracker_init_length:
  "length (reg_table (tr_registry (tracker_init bs t))) \<le> length (reg_table (tr_registry t)) + length bs"
proof (induction bs t rule: tracker_init.induct)
  case (2 srv srvs t)
  obtain k reg where r: "registry_add (b_id srv) (tr_registry t) = (k, reg)" by fastforce
  from registry_add_length [of "b_id srv" "tr_registry t"] 2 [OF r [symmetric] refl] r
  show ?case by simp
qed simp

lemma tracker_new_room: "length bs0 + n < 2 ^ 32 \<Longrightarrow> tracker_room n (tracker_new bs0)"
  using tracker_init_length [of bs0 "\<lparr>tr_list = [], tr_registry = registry_new,
      tr_versions = Map.empty, tr_count = 0\<rparr>"]
  by (simp add: tracker_room_def tracker_new_def tracker_init_count registry_new_def)

text \<open>Claim C36. The tracker's invariant: from initialisation through any batch of Megaphone
  updates (within the 32-bit counters) the id registry and the version table agree, and
  revisions are unique per key and strictly ordered by counters below the tracker's.\<close>

theorem tracker_invariant:
  assumes "length bs0 + length bs < 2 ^ 32"
  shows "tracker_wf (snd (add_broadcasts bs None (tracker_new bs0)))"
  using assms by (intro add_broadcasts_wf tracker_new_wf tracker_new_room) simp_all

theorem tracker_invariant_witness:
  "tracker_wf (snd (add_broadcasts [\<lparr>b_id = ''a'', b_version = ''2''\<rparr>] None
     (tracker_new [\<lparr>b_id = ''a'', b_version = ''1''\<rparr>])))"
  by (rule tracker_invariant) simp

text \<open>Claim C37. No lost updates: a client that said hello with the broadcasts \<open>req\<close> and
  applied the initial delta, and polls once after any batch of tracker changes, holds the
  tracker's current version of every one of its broadcasts the tracker knew.\<close>

theorem hello_then_poll_converges:
  assumes "tracker_wf t" and "tracker_room (length bs) t"
    and "broadcast_delta t req = (s, ds)"
    and "t' = snd (add_broadcasts bs None t)" and "change_count_delta t' s = (d, s')"
    and "b \<in> set req" and "lookup_key (tr_registry t) (b_id b) = Some k"
  shows "merge_delta d (apply_delta ds (apply_delta req Map.empty)) (key_id t' k) = tr_versions t' k"
proof -
  let ?v = "apply_delta ds (apply_delta req Map.empty)"
  note i = broadcast_delta_current [OF assms(1,3)]
  have "lagging t s ?v" using assms(1) i(1) i(2) by (intro current_lagging) simp_all
  from megaphone.run_poll_uptodate [OF this assms(2)] assms(4,5)
  have "current t' s' (merge_delta d ?v)" by (simp add: add_broadcasts_fold)
  moreover have "subs_list s' = subs_list s"
    using assms(5) by (auto simp: change_count_delta_def Let_def split: if_splits)
  moreover have "k \<in> set (subs_list s)"
    using assms(6,7) i(3) by (auto simp: set_known_keys)
  ultimately show ?thesis by (simp add: current_def)
qed

theorem hello_then_poll_converges_witness:
  "let t = tracker_new [\<lparr>b_id = ''a'', b_version = ''1''\<rparr>];
       req = [\<lparr>b_id = ''a'', b_version = ''0''\<rparr>];
       (s, ds) = broadcast_delta t req;
       t' = snd (add_broadcasts [\<lparr>b_id = ''a'', b_version = ''2''\<rparr>] None t);
       (d, s') = change_count_delta t' s
   in merge_delta d (apply_delta ds (apply_delta req Map.empty)) ''a'' = Some ''2''"
proof -
  define t where "t = tracker_new [\<lparr>b_id = ''a'', b_version = ''1''\<rparr>]"
  define req where "req = [\<lparr>b_id = ''a'', b_version = ''0''\<rparr>]"
  define bs where "bs = [\<lparr>b_id = ''a'', b_version = ''2''\<rparr>]"
  obtain s ds where s: "broadcast_delta t req = (s, ds)" by fastforce
  define t' where "t' = snd (add_broadcasts bs None t)"
  obtain d s' where d: "change_count_delta t' s = (d, s')" by fastforce
  note defs = t_def bs_def req_def tracker_new_def registry_new_def registry_add_def
    add_broadcast_def update_broadcast_def lookup_key_def Let_def
  have wf: "tracker_wf t" unfolding t_def by (rule tracker_new_wf) simp
  have room: "tracker_room (length bs) t" by (simp add: tracker_room_def defs)
  have k: "lookup_key (tr_registry t) ''a'' = Some 0" by (simp add: defs)
  have t': "key_id t' 0 = ''a''" "tr_versions t' 0 = Some ''2''" by (simp_all add: t'_def defs)
  from hello_then_poll_converges [OF wf room s t'_def d, of "\<lparr>b_id = ''a'', b_version = ''0''\<rparr>" 0] k t'
  have "merge_delta d (apply_delta ds (apply_delta req Map.empty)) ''a'' = Some ''2''"
    by (simp add: req_def)
  with s d show ?thesis
    unfolding t'_def bs_def by (simp add: t_def [symmetric] req_def [symmetric] Let_def)
qed

end
