(* ===== verification/Protocol.thy ===== *)
theory Protocol
  imports Broadcast Notification
begin

text \<open>
  The messages of a session and the table of connected clients:
  \<open>autoconnect-common/src/protocol.rs\<close> and \<open>autoconnect-common/src/registry.rs\<close>.
  \<open>serde_json\<close> and the unbounded channels of \<open>futures\<close> are parameters. The theorems say
  what the registry promises the sessions: a notification reaches the newest session of its
  user and no other, an older session is told to disconnect, and its late
  \<open>disconnect\<close> does not unregister the newer one.
\<close>

section \<open>Messages\<close>

datatype server_notification = CheckStorage | DirectNotification notification | Disconnect

record client_ack =
  ack_channel_id :: uuid
  ack_version :: string

datatype client_message =
    ClientHello "string option" "uuid list option" "bool option" "(string, string) hashmap option"
  | ClientRegister string "string option"
  | ClientUnregister uuid "u32 option"
  | ClientBroadcastSubscribe "(string, string) hashmap"
  | ClientAcks "client_ack list"
  | ClientNack "i32 option" string
  | ClientPing

datatype server_message =
    ServerHello string u32 "bool option" "(string, broadcast_value) hashmap"
  | ServerRegister uuid u32 string
  | ServerUnregister uuid u32
  | ServerBroadcast "(string, broadcast_value) hashmap"
  | ServerNotif notification
  | ServerPing

text \<open>
  \<open>json_is_unit_map\<close> says whether \<open>serde_json::from_str::<HashMap<(), ()>>\<close> succeeds,
  \<open>json_client_message\<close> is the derived \<open>Deserialize\<close> of \<open>ClientMessage\<close> and
  \<open>json_server_message\<close> the derived \<open>Serialize\<close> of \<open>ServerMessage\<close>.
\<close>

record json_lib =
  json_is_unit_map :: "string \<Rightarrow> bool"
  json_client_message :: "string \<Rightarrow> string + client_message"
  json_server_message :: "server_message \<Rightarrow> string + string"

definition client_message_from_str :: "json_lib \<Rightarrow> string \<Rightarrow> string + client_message" where
  "client_message_from_str js s =
     (if json_is_unit_map js s then Inr ClientPing else json_client_message js s)"

definition server_message_to_json :: "json_lib \<Rightarrow> server_message \<Rightarrow> string + string" where
  "server_message_to_json js m = (case m of ServerPing \<Rightarrow> Inr ''{}'' | _ \<Rightarrow> json_server_message js m)"

section \<open>Channels\<close>

text \<open>
  The unbounded channels of \<open>futures::channel::mpsc\<close>: making one, sending, which reports
  whether the receiver is still there, and closing the receiver and taking the items left.
\<close>

record 'x chan_lib =
  ch_unbounded :: "'x \<Rightarrow> nat \<times> 'x"
  ch_send :: "nat \<Rightarrow> server_notification \<Rightarrow> 'x \<Rightarrow> bool \<times> 'x"
  ch_close_drain :: "nat \<Rightarrow> 'x \<Rightarrow> server_notification list \<times> 'x"

text \<open>
  Their documented behaviour, over \<open>queue\<close>, the pending items of a channel whose receiver
  is alive: a new channel is empty and shares nothing with those in use, a send appends to
  its own channel and fails once the receiver is gone.
\<close>

definition chan_ok :: "'x chan_lib \<Rightarrow> (nat \<Rightarrow> 'x \<Rightarrow> server_notification list option) \<Rightarrow>
    (nat \<Rightarrow> 'x \<Rightarrow> bool) \<Rightarrow> bool" where
  "chan_ok ch queue used \<longleftrightarrow>
     (\<forall>x tx x'. ch_unbounded ch x = (tx, x') \<longrightarrow>
        \<not> used tx x \<and> queue tx x' = Some [] \<and>
        (\<forall>c. used c x' \<longleftrightarrow> used c x \<or> c = tx) \<and> (\<forall>c. c \<noteq> tx \<longrightarrow> queue c x' = queue c x)) \<and>
     (\<forall>x tx m ok x'. ch_send ch tx m x = (ok, x') \<longrightarrow>
        ok = (queue tx x \<noteq> None) \<and> queue tx x' = map_option (\<lambda>q. q @ [m]) (queue tx x) \<and>
        (\<forall>c. used c x' \<longleftrightarrow> used c x) \<and> (\<forall>c. c \<noteq> tx \<longrightarrow> queue c x' = queue c x))"

lemma chan_ok_new:
  assumes "chan_ok ch queue used" and "ch_unbounded ch x = (tx, x')"
  shows "\<not> used tx x" "queue tx x' = Some []" "used c x' \<longleftrightarrow> used c x \<or> c = tx"
    "c \<noteq> tx \<Longrightarrow> queue c x' = queue c x"
  using assms unfolding chan_ok_def by blast+

lemma chan_ok_send:
  assumes "chan_ok ch queue used" and "ch_send ch tx m x = (ok, x')"
  shows "ok = (queue tx x \<noteq> None)" "queue tx x' = map_option (\<lambda>q. q @ [m]) (queue tx x)"
    "used c x' \<longleftrightarrow> used c x" "c \<noteq> tx \<Longrightarrow> queue c x' = queue c x"
  using assms unfolding chan_ok_def by blast+

section \<open>The registry of connected clients\<close>

record registered_client =
  rc_uaid :: uuid
  rc_uid :: uuid
  rc_tx :: nat

type_synonym client_registry = "uuid \<rightharpoonup> registered_client"

definition user_not_connected :: apc_error where
  "user_not_connected = GeneralError ''User not connected''"

definition clients_connect ::
  "'x chan_lib \<Rightarrow> uuid \<Rightarrow> uuid \<Rightarrow> client_registry \<times> 'x \<Rightarrow> nat \<times> client_registry \<times> 'x" where
  "clients_connect ch uaid uid s =
     (let (clients, x) = s;
          (tx, x1) = ch_unbounded ch x;
          client = \<lparr>rc_uaid = uaid, rc_uid = uid, rc_tx = tx\<rparr>;
          clients' = clients(uaid \<mapsto> client)
      in case clients uaid of
           Some old \<Rightarrow> (let (_, x2) = ch_send ch (rc_tx old) Disconnect x1 in (tx, clients', x2))
         | None \<Rightarrow> (tx, clients', x1))"

definition clients_send ::
  "'x chan_lib \<Rightarrow> uuid \<Rightarrow> server_notification \<Rightarrow> client_registry \<times> 'x \<Rightarrow>
     (apc_error, unit, client_registry \<times> 'x) outcome" where
  "clients_send ch uaid snotif s =
     (let (clients, x) = s in
      case clients uaid of
        None \<Rightarrow> (Inl user_not_connected, s)
      | Some client \<Rightarrow>
          (let (ok, x1) = ch_send ch (rc_tx client) snotif x in
           (if ok then Inr () else Inl user_not_connected, clients, x1)))"

definition clients_notify where
  "clients_notify ch uaid notif s = clients_send ch uaid (DirectNotification notif) s"

definition clients_check_storage where
  "clients_check_storage ch uaid s = clients_send ch uaid CheckStorage s"

definition clients_disconnect ::
  "uuid \<Rightarrow> uuid \<Rightarrow> client_registry \<times> 'x \<Rightarrow> (apc_error, unit, client_registry \<times> 'x) outcome" where
  "clients_disconnect uaid uid s =
     (let (clients, x) = s;
          client_exists = (case clients uaid of None \<Rightarrow> False | Some c \<Rightarrow> rc_uid c = uid)
      in if client_exists then (Inr (), clients(uaid := None), x)
         else (Inl user_not_connected, s))"

section \<open>The registry's invariant\<close>

text \<open>Entries carry their own key, and no two of them share a channel.\<close>

definition registry_ok :: "(nat \<Rightarrow> 'x \<Rightarrow> bool) \<Rightarrow> client_registry \<times> 'x \<Rightarrow> bool" where
  "registry_ok used s \<longleftrightarrow>
     (\<forall>uaid c. fst s uaid = Some c \<longrightarrow> rc_uaid c = uaid \<and> used (rc_tx c) (snd s)) \<and>
     (\<forall>u1 u2 c1 c2. fst s u1 = Some c1 \<and> fst s u2 = Some c2 \<and> rc_tx c1 = rc_tx c2 \<longrightarrow> u1 = u2)"

lemma registry_ok_connect:
  assumes ch: "chan_ok ch queue used" and ok: "registry_ok used s"
    and c: "clients_connect ch uaid uid s = (tx, s')"
  shows "registry_ok used s'"
    and "fst s' = (fst s)(uaid \<mapsto> \<lparr>rc_uaid = uaid, rc_uid = uid, rc_tx = tx\<rparr>)"
    and "\<not> used tx (snd s)" and "queue tx (snd s') = Some []"
    and "\<And>old. fst s uaid = Some old \<Longrightarrow>
      queue (rc_tx old) (snd s') = map_option (\<lambda>q. q @ [Disconnect]) (queue (rc_tx old) (snd s))"
    and "\<And>ch'. ch' \<noteq> tx \<Longrightarrow> (\<And>old. fst s uaid = Some old \<Longrightarrow> ch' \<noteq> rc_tx old) \<Longrightarrow>
      queue ch' (snd s') = queue ch' (snd s)"
proof -
  obtain r x where s: "s = (r, x)" by fastforce
  obtain x1 where n: "ch_unbounded ch x = (tx, x1)"
    using c s by (auto simp: clients_connect_def Let_def split: prod.splits option.splits)
  note new = chan_ok_new [OF ch n]
  let ?c = "\<lparr>rc_uaid = uaid, rc_uid = uid, rc_tx = tx\<rparr>"
  have used: "\<And>u k. r u = Some k \<Longrightarrow> used (rc_tx k) x \<and> rc_tx k \<noteq> tx"
    using ok new(1) by (auto simp: registry_ok_def s)
  have fst': "fst s' = r(uaid \<mapsto> ?c)"
    and used': "\<And>k. used k (snd s') \<longleftrightarrow> used k x \<or> k = tx"
    and q: "queue tx (snd s') = Some []"
    and old: "\<And>old. r uaid = Some old \<Longrightarrow>
      queue (rc_tx old) (snd s') = map_option (\<lambda>q. q @ [Disconnect]) (queue (rc_tx old) x)"
    and other: "\<And>ch'. ch' \<noteq> tx \<Longrightarrow> (\<And>old. r uaid = Some old \<Longrightarrow> ch' \<noteq> rc_tx old) \<Longrightarrow>
      queue ch' (snd s') = queue ch' x"
  proof -
    show "fst s' = r(uaid \<mapsto> ?c)"
      using c s n by (auto simp: clients_connect_def Let_def split: prod.splits option.splits)
    consider "r uaid = None" "snd s' = x1"
      | c0 ok x2 where "r uaid = Some c0" "ch_send ch (rc_tx c0) Disconnect x1 = (ok, x2)" "snd s' = x2"
      using c s n by (auto simp: clients_connect_def Let_def split: prod.splits option.splits)
    then have "(\<forall>k. used k (snd s') \<longleftrightarrow> used k x \<or> k = tx) \<and> queue tx (snd s') = Some [] \<and>
      (\<forall>old. r uaid = Some old \<longrightarrow>
         queue (rc_tx old) (snd s') = map_option (\<lambda>q. q @ [Disconnect]) (queue (rc_tx old) x)) \<and>
      (\<forall>ch'. ch' \<noteq> tx \<longrightarrow> (\<forall>old. r uaid = Some old \<longrightarrow> ch' \<noteq> rc_tx old) \<longrightarrow>
         queue ch' (snd s') = queue ch' x)"
    proof cases
      case 1
      with new show ?thesis by simp
    next
      case 2
      note snt = chan_ok_send [OF ch 2(2)]
      from used [OF 2(1)] have "rc_tx c0 \<noteq> tx" by simp
      with 2 snt new show ?thesis by simp
    qed
    then show "\<And>k. used k (snd s') \<longleftrightarrow> used k x \<or> k = tx" "queue tx (snd s') = Some []"
      "\<And>old. r uaid = Some old \<Longrightarrow>
        queue (rc_tx old) (snd s') = map_option (\<lambda>q. q @ [Disconnect]) (queue (rc_tx old) x)"
      "\<And>ch'. ch' \<noteq> tx \<Longrightarrow> (\<And>old. r uaid = Some old \<Longrightarrow> ch' \<noteq> rc_tx old) \<Longrightarrow>
        queue ch' (snd s') = queue ch' x"
      by blast+
  qed
  show "fst s' = (fst s)(uaid \<mapsto> ?c)" "\<not> used tx (snd s)" "queue tx (snd s') = Some []"
    using fst' new(1) q s by simp_all
  show "registry_ok used s'"
    using ok used unfolding registry_ok_def fst' used' s by (auto split: if_splits)
  show "\<And>old. fst s uaid = Some old \<Longrightarrow>
      queue (rc_tx old) (snd s') = map_option (\<lambda>q. q @ [Disconnect]) (queue (rc_tx old) (snd s))"
    using old s by simp
  show "\<And>ch'. ch' \<noteq> tx \<Longrightarrow> (\<And>old. fst s uaid = Some old \<Longrightarrow> ch' \<noteq> rc_tx old) \<Longrightarrow>
      queue ch' (snd s') = queue ch' (snd s)"
    using other s by simp
qed

lemma registry_ok_send:
  assumes ch: "chan_ok ch queue used" and ok: "registry_ok used s"
    and c: "clients_send ch uaid m s = (r, s')"
  shows "registry_ok used s'" and "fst s' = fst s"
    and "fst s uaid = None \<Longrightarrow> r = Inl user_not_connected \<and> s' = s"
    and "fst s uaid = Some client \<Longrightarrow>
      r = (if queue (rc_tx client) (snd s) = None then Inl user_not_connected else Inr ()) \<and>
      queue (rc_tx client) (snd s') = map_option (\<lambda>q. q @ [m]) (queue (rc_tx client) (snd s))"
    and "\<And>k. (\<And>client. fst s uaid = Some client \<Longrightarrow> k \<noteq> rc_tx client) \<Longrightarrow>
      queue k (snd s') = queue k (snd s)"
proof -
  obtain reg x where s: "s = (reg, x)" by fastforce
  consider "reg uaid = None" "r = Inl user_not_connected" "s' = s"
    | cl b x1 where "reg uaid = Some cl" "ch_send ch (rc_tx cl) m x = (b, x1)"
        "r = (if b then Inr () else Inl user_not_connected)" "s' = (reg, x1)"
    using c s by (auto simp: clients_send_def Let_def split: prod.splits option.splits)
  note cs = this
  show "fst s' = fst s" using cs s by (cases) auto
  show "registry_ok used s'"
    using cs
  proof cases
    case 1
    with ok show ?thesis by simp
  next
    case 2
    with ok s chan_ok_send(3) [OF ch 2(2)] show ?thesis by (simp add: registry_ok_def)
  qed
  show "fst s uaid = None \<Longrightarrow> r = Inl user_not_connected \<and> s' = s"
    using cs s by (cases) auto
  show "fst s uaid = Some client \<Longrightarrow>
      r = (if queue (rc_tx client) (snd s) = None then Inl user_not_connected else Inr ()) \<and>
      queue (rc_tx client) (snd s') = map_option (\<lambda>q. q @ [m]) (queue (rc_tx client) (snd s))"
    using cs
  proof cases
    case 2
    with s chan_ok_send(1,2) [OF ch 2(2)] show "fst s uaid = Some client \<Longrightarrow> ?thesis" by auto
  qed (simp add: s)
  show "queue k (snd s') = queue k (snd s)"
    if k: "\<And>client. fst s uaid = Some client \<Longrightarrow> k \<noteq> rc_tx client" for k
    using cs
  proof cases
    case 2
    with s k chan_ok_send(4) [OF ch 2(2), of k] show ?thesis by simp
  qed simp
qed

section \<open>What the registry promises a session\<close>

text \<open>
  The operations of all tasks, in the order the registry's lock admits them, and the items
  each of them sends to the user \<open>uaid\<close>.
\<close>

datatype registry_op =
    OpConnect uuid uuid
  | OpNotify uuid notification
  | OpCheckStorage uuid
  | OpDisconnect uuid uuid

definition registry_step :: "'x chan_lib \<Rightarrow> registry_op \<Rightarrow> client_registry \<times> 'x \<Rightarrow> client_registry \<times> 'x" where
  "registry_step ch op s = (case op of
       OpConnect uaid uid \<Rightarrow> snd (clients_connect ch uaid uid s)
     | OpNotify uaid n \<Rightarrow> snd (clients_notify ch uaid n s)
     | OpCheckStorage uaid \<Rightarrow> snd (clients_check_storage ch uaid s)
     | OpDisconnect uaid uid \<Rightarrow> snd (clients_disconnect uaid uid s))"

definition sent_to :: "uuid \<Rightarrow> registry_op \<Rightarrow> server_notification list" where
  "sent_to uaid op = (case op of
       OpNotify u n \<Rightarrow> (if u = uaid then [DirectNotification n] else [])
     | OpCheckStorage u \<Rightarrow> (if u = uaid then [CheckStorage] else [])
     | _ \<Rightarrow> [])"

text \<open>Neither a new session of the user nor the end of the session \<open>uid\<close>.\<close>

definition keeps_session :: "uuid \<Rightarrow> uuid \<Rightarrow> registry_op \<Rightarrow> bool" where
  "keeps_session uaid uid op = (case op of
       OpConnect u _ \<Rightarrow> u \<noteq> uaid
     | OpDisconnect u i \<Rightarrow> u \<noteq> uaid \<or> i \<noteq> uid
     | _ \<Rightarrow> True)"

locale delivery =
  fixes step :: "'op \<Rightarrow> 's \<Rightarrow> 's"
    and inv :: "'s \<Rightarrow> bool"
    and inbox :: "'s \<Rightarrow> 'm list option"
    and sent :: "'op \<Rightarrow> 'm list"
    and keeps :: "'op \<Rightarrow> bool"
  assumes step_inv: "inv s \<Longrightarrow> keeps op \<Longrightarrow> inv (step op s)"
    and step_inbox: "inv s \<Longrightarrow> keeps op \<Longrightarrow> inbox s = Some q \<Longrightarrow> inbox (step op s) = Some (q @ sent op)"
begin

lemma run_inbox:
  "inv s \<Longrightarrow> list_all keeps ops \<Longrightarrow> inbox s = Some q \<Longrightarrow>
     inv (fold step ops s) \<and> inbox (fold step ops s) = Some (q @ concat (map sent ops))"
  by (induction ops arbitrary: s q) (simp_all add: step_inv step_inbox)

end

definition connected_as ::
  "'x chan_lib \<Rightarrow> (nat \<Rightarrow> 'x \<Rightarrow> server_notification list option) \<Rightarrow> (nat \<Rightarrow> 'x \<Rightarrow> bool) \<Rightarrow>
     uuid \<Rightarrow> uuid \<Rightarrow> nat \<Rightarrow> client_registry \<times> 'x \<Rightarrow> bool" where
  "connected_as ch queue used uaid uid tx s \<longleftrightarrow>
     chan_ok ch queue used \<and> registry_ok used s \<and>
     fst s uaid = Some \<lparr>rc_uaid = uaid, rc_uid = uid, rc_tx = tx\<rparr>"

text \<open>A channel no registered client sends on: that of a session that was replaced.\<close>

definition retired ::
  "'x chan_lib \<Rightarrow> (nat \<Rightarrow> 'x \<Rightarrow> server_notification list option) \<Rightarrow> (nat \<Rightarrow> 'x \<Rightarrow> bool) \<Rightarrow>
     nat \<Rightarrow> client_registry \<times> 'x \<Rightarrow> bool" where
  "retired ch queue used tx s \<longleftrightarrow>
     chan_ok ch queue used \<and> registry_ok used s \<and> used tx (snd s) \<and>
     (\<forall>u c. fst s u = Some c \<longrightarrow> rc_tx c \<noteq> tx)"

lemma disconnect_frame [frame_simps]:
  "snd (snd (clients_disconnect uaid uid s)) = snd s"
  "fst (snd (clients_disconnect uaid uid s)) u =
     (if u = uaid \<and> (\<exists>c. fst s uaid = Some c \<and> rc_uid c = uid) then None else fst s u)"
  by (auto simp: clients_disconnect_def Let_def split: prod.splits option.splits)

lemma registry_ok_disconnect: "registry_ok used s \<Longrightarrow> registry_ok used (snd (clients_disconnect uaid uid s))"
  unfolding registry_ok_def frame_simps by (auto split: if_splits)

lemma registry_step_ok:
  assumes "chan_ok ch queue used" and "registry_ok used s"
  shows "registry_ok used (registry_step ch op s)"
  using registry_ok_connect(1) [OF assms prod.collapse [symmetric]]
    registry_ok_send(1) [OF assms prod.collapse [symmetric]] registry_ok_disconnect [OF assms(2)]
  by (cases op) (auto simp: registry_step_def clients_notify_def clients_check_storage_def)

lemma connected_send:
  assumes c: "connected_as ch queue used uaid uid tx s" and m: "clients_send ch u m s = (r, s')"
  shows "fst s' uaid = fst s uaid"
    and "queue tx (snd s) = Some q \<Longrightarrow> queue tx (snd s') = Some (q @ (if u = uaid then [m] else []))"
proof -
  from c have ch: "chan_ok ch queue used" and ok: "registry_ok used s"
    and e: "fst s uaid = Some \<lparr>rc_uaid = uaid, rc_uid = uid, rc_tx = tx\<rparr>"
    by (simp_all add: connected_as_def)
  note snt = registry_ok_send [OF ch ok m]
  show "fst s' uaid = fst s uaid" using snt(2) by simp
  assume q: "queue tx (snd s) = Some q"
  show "queue tx (snd s') = Some (q @ (if u = uaid then [m] else []))"
  proof (cases "u = uaid")
    case True
    with snt(4) e q show ?thesis by simp
  next
    case False
    have "tx \<noteq> rc_tx c" if "fst s u = Some c" for c
    proof
      assume "tx = rc_tx c"
      then have "u = uaid" using ok e that unfolding registry_ok_def by force
      with False show False by simp
    qed
    with snt(5) [of tx] False q show ?thesis by simp
  qed
qed

interpretation newest: delivery "registry_step ch" "connected_as ch queue used uaid uid tx"
  "\<lambda>s. queue tx (snd s)" "sent_to uaid" "keeps_session uaid uid" for ch queue used uaid uid tx
proof unfold_locales
  fix s op
  assume c: "connected_as ch queue used uaid uid tx s" and k: "keeps_session uaid uid op"
  then have ch: "chan_ok ch queue used" and ok: "registry_ok used s"
    and e: "fst s uaid = Some \<lparr>rc_uaid = uaid, rc_uid = uid, rc_tx = tx\<rparr>"
    by (simp_all add: connected_as_def)
  note step = registry_step_def clients_notify_def clients_check_storage_def keeps_session_def sent_to_def
  have "fst (registry_step ch op s) uaid = fst s uaid"
    using k e connected_send(1) [OF c prod.collapse [symmetric]]
      registry_ok_connect(2) [OF ch ok prod.collapse [symmetric]]
    by (cases op) (auto simp: step frame_simps)
  with registry_step_ok [OF ch ok] ch e show "connected_as ch queue used uaid uid tx (registry_step ch op s)"
    by (simp add: connected_as_def)
  fix q assume q: "queue tx (snd s) = Some q"
  show "queue tx (snd (registry_step ch op s)) = Some (q @ sent_to uaid op)"
  proof (cases op)
    case (OpConnect u i)
    obtain tx' s' where n: "clients_connect ch u i s = (tx', s')" by (rule prod.exhaust)
    have "used tx (snd s)"
      using ok e unfolding registry_ok_def by (metis registered_client.select_convs(3))
    with registry_ok_connect(3) [OF ch ok n] have "tx \<noteq> tx'" by auto
    moreover have "tx \<noteq> rc_tx old" if "fst s u = Some old" for old
    proof
      assume "tx = rc_tx old"
      then have "u = uaid" using ok e that unfolding registry_ok_def by force
      with k OpConnect show False by (simp add: keeps_session_def)
    qed
    ultimately show ?thesis
      using registry_ok_connect(6) [OF ch ok n, of tx] n q OpConnect by (simp add: step)
  next
    case (OpNotify u n)
    obtain r s' where m: "clients_send ch u (DirectNotification n) s = (r, s')" by (rule prod.exhaust)
    from connected_send(2) [OF c m q] m OpNotify show ?thesis by (simp add: step)
  next
    case (OpCheckStorage u)
    obtain r s' where m: "clients_send ch u CheckStorage s = (r, s')" by (rule prod.exhaust)
    from connected_send(2) [OF c m q] m OpCheckStorage show ?thesis by (simp add: step)
  next
    case (OpDisconnect u i)
    with q show ?thesis by (simp add: step frame_simps)
  qed
qed

interpretation replaced: delivery "registry_step ch" "retired ch queue used tx"
  "\<lambda>s. queue tx (snd s)" "\<lambda>_. []" "\<lambda>_. True" for ch queue used tx
proof unfold_locales
  fix s op
  assume c: "retired ch queue used tx s"
  then have ch: "chan_ok ch queue used" and ok: "registry_ok used s" and u: "used tx (snd s)"
    and e: "\<And>u c. fst s u = Some c \<Longrightarrow> rc_tx c \<noteq> tx"
    by (auto simp: retired_def)
  note step = registry_step_def clients_notify_def clients_check_storage_def
  have send: "used tx (snd s') \<and> fst s' = fst s \<and> queue tx (snd s') = queue tx (snd s)"
    if "clients_send ch v m s = (r, s')" for v m r s'
  proof -
    have "used k (snd s') \<longleftrightarrow> used k (snd s)" for k
      using that chan_ok_send(3) [OF ch]
      by (auto simp: clients_send_def Let_def split: prod.splits option.splits)
    with u registry_ok_send(2,5) [OF ch ok that] e show ?thesis by metis
  qed
  have conn: "used tx (snd s') \<and> (\<forall>u c. fst s' u = Some c \<longrightarrow> rc_tx c \<noteq> tx) \<and>
      queue tx (snd s') = queue tx (snd s)"
    if n: "clients_connect ch v i s = (tx', s')" for v i tx' s'
  proof -
    have ne: "tx \<noteq> tx'" using registry_ok_connect(3) [OF ch ok n] u by auto
    have "used k x' \<longleftrightarrow> used k x" if "ch_send ch t m x = (b, x')" for k t m x b x'
      using chan_ok_send(3) [OF ch that] .
    then have "used tx (snd s')"
      using n u chan_ok_new(3) [OF ch]
      by (auto simp: clients_connect_def Let_def split: prod.splits option.splits)
    moreover have "\<forall>u c. fst s' u = Some c \<longrightarrow> rc_tx c \<noteq> tx"
      using registry_ok_connect(2) [OF ch ok n] e ne by auto
    moreover have "queue tx (snd s') = queue tx (snd s)"
      using registry_ok_connect(6) [OF ch ok n ne] e by metis
    ultimately show ?thesis by blast
  qed
  have both: "retired ch queue used tx (registry_step ch op s) \<and>
      queue tx (snd (registry_step ch op s)) = queue tx (snd s)"
  proof (cases op)
    case (OpConnect v i)
    obtain tx' s' where n: "clients_connect ch v i s = (tx', s')" by (rule prod.exhaust)
    from conn [OF n] registry_step_ok [OF ch ok, of op] n OpConnect ch show ?thesis
      by (simp add: retired_def step)
  next
    case (OpNotify v n)
    obtain r s' where m: "clients_send ch v (DirectNotification n) s = (r, s')" by (rule prod.exhaust)
    from send [OF m] registry_step_ok [OF ch ok, of op] m OpNotify ch e show ?thesis
      by (simp add: retired_def step)
  next
    case (OpCheckStorage v)
    obtain r s' where m: "clients_send ch v CheckStorage s = (r, s')" by (rule prod.exhaust)
    from send [OF m] registry_step_ok [OF ch ok, of op] m OpCheckStorage ch e show ?thesis
      by (simp add: retired_def step)
  next
    case (OpDisconnect v i)
    with registry_step_ok [OF ch ok, of op] u ch e show ?thesis
      by (auto simp: retired_def step frame_simps)
  qed
  then show "retired ch queue used tx (registry_step ch op s)" ..
  show "\<And>q. queue tx (snd s) = Some q \<Longrightarrow> queue tx (snd (registry_step ch op s)) = Some (q @ [])"
    using both by simp
qed

text \<open>Channels kept in a list, by index: an implementation that meets the contract.\<close>

type_synonym chans = "server_notification list option list"

definition list_chans :: "chans chan_lib" where
  "list_chans =
     \<lparr>ch_unbounded = (\<lambda>x. (length x, x @ [Some []])),
      ch_send = (\<lambda>tx m x.
        if tx < length x then (case x ! tx of None \<Rightarrow> (False, x) | Some q \<Rightarrow> (True, x[tx := Some (q @ [m])]))
        else (False, x)),
      ch_close_drain = (\<lambda>tx x.
        if tx < length x then (case x ! tx of None \<Rightarrow> ([], x) | Some q \<Rightarrow> (q, x[tx := None]))
        else ([], x))\<rparr>"

definition list_queue :: "nat \<Rightarrow> chans \<Rightarrow> server_notification list option" where
  "list_queue tx x = (if tx < length x then x ! tx else None)"

definition list_used :: "nat \<Rightarrow> chans \<Rightarrow> bool" where
  "list_used tx x \<longleftrightarrow> tx < length x"

lemma list_chans_ok: "chan_ok list_chans list_queue list_used"
  unfolding chan_ok_def list_chans_def list_queue_def list_used_def
  by (auto simp: nth_append split: if_splits option.splits)

text \<open>Claim C7. The newest session of a user receives every notification: between the moment
  a session connects and its own disconnect or the next connect of the same user, whatever
  the other sessions and the router do (stale disconnects of the same user included), its
  channel holds exactly the items sent to the user, in order; the session it replaced is
  sent \<open>Disconnect\<close> and nothing after it.\<close>

theorem newest_session_receives:
  assumes "chan_ok ch queue used" and "registry_ok used s"
    and "clients_connect ch uaid uid s = (tx, s1)"
    and "list_all (keeps_session uaid uid) ops"
    and "s2 = fold (registry_step ch) ops s1"
  shows "queue tx (snd s2) = Some (concat (map (sent_to uaid) ops)) \<and>
    fst s2 uaid = Some \<lparr>rc_uaid = uaid, rc_uid = uid, rc_tx = tx\<rparr> \<and>
    (\<forall>old q. fst s uaid = Some old \<and> queue (rc_tx old) (snd s) = Some q \<longrightarrow>
       queue (rc_tx old) (snd s2) = Some (q @ [Disconnect]))"
proof -
  note c = registry_ok_connect [OF assms(1,2,3)]
  have "connected_as ch queue used uaid uid tx s1"
    using c(1,2) assms(1) by (simp add: connected_as_def)
  from newest.run_inbox [OF this assms(4) c(4)]
  have new: "queue tx (snd s2) = Some (concat (map (sent_to uaid) ops))"
    "fst s2 uaid = Some \<lparr>rc_uaid = uaid, rc_uid = uid, rc_tx = tx\<rparr>"
    by (simp_all add: assms(5) connected_as_def)
  have "queue (rc_tx old) (snd s2) = Some (q @ [Disconnect])"
    if old: "fst s uaid = Some old" "queue (rc_tx old) (snd s) = Some q" for old q
  proof -
    have used: "used (rc_tx old) (snd s)" using assms(2) old(1) by (auto simp: registry_ok_def)
    have "used k (snd s1)" if "used k (snd s)" for k
      using that assms(3) chan_ok_new(3) [OF assms(1)] chan_ok_send(3) [OF assms(1)]
      by (auto simp: clients_connect_def Let_def split: prod.splits option.splits)
    moreover have "rc_tx k \<noteq> rc_tx old" if "fst s1 u = Some k" for u k
    proof (cases "u = uaid")
      case True
      with that c(2,3) used show ?thesis by auto
    next
      case False
      with that c(2) old(1) assms(2) show ?thesis unfolding registry_ok_def by (metis fun_upd_apply)
    qed
    ultimately have "retired ch queue used (rc_tx old) s1"
      using used assms(1) c(1) by (auto simp: retired_def)
    from replaced.run_inbox [OF this, of ops "q @ [Disconnect]"] c(5) [OF old(1)] old(2)
    show ?thesis by (simp add: assms(5) list_all_iff)
  qed
  with new show ?thesis by blast
qed

theorem newest_session_receives_witness:
  "let s = (Map.empty(1 \<mapsto> \<lparr>rc_uaid = 1, rc_uid = 5, rc_tx = 0\<rparr>), [Some []]);
       (tx, s1) = clients_connect list_chans 1 6 s;
       s2 = fold (registry_step list_chans) [OpDisconnect 1 5, OpNotify 1 sample_notification, OpCheckStorage 1] s1
   in snd s2 = [Some [Disconnect], Some [DirectNotification sample_notification, CheckStorage]]"
proof -
  let ?s = "(Map.empty(1 \<mapsto> \<lparr>rc_uaid = 1, rc_uid = 5, rc_tx = 0\<rparr>), [Some []]) :: client_registry \<times> chans"
  let ?ops = "[OpDisconnect 1 5, OpNotify 1 sample_notification, OpCheckStorage 1]"
  obtain tx s1 where c: "clients_connect list_chans 1 6 ?s = (tx, s1)" by (rule prod.exhaust)
  have ok: "registry_ok list_used ?s" by (simp add: registry_ok_def list_used_def)
  have s1: "s1 = (Map.empty(1 \<mapsto> \<lparr>rc_uaid = 1, rc_uid = 6, rc_tx = 1\<rparr>), [Some [Disconnect], Some []])"
    and tx: "tx = 1"
    using c by (auto simp: clients_connect_def list_chans_def)
  have k: "list_all (keeps_session 1 6) ?ops" by (simp add: keeps_session_def)
  have l: "length (snd (fold (registry_step list_chans) ?ops s1)) = 2"
    unfolding s1 by (simp add: list_chans_def registry_step_def clients_notify_def
        clients_check_storage_def clients_send_def clients_disconnect_def Let_def)
  obtain a b where ab: "snd (fold (registry_step list_chans) ?ops s1) = [a, b]"
    using l by (auto simp: numeral_2_eq_2 length_Suc_conv)
  from newest_session_receives [OF list_chans_ok ok c k refl] ab tx
  have "b = Some [DirectNotification sample_notification, CheckStorage]" "a = Some [Disconnect]"
    by (simp_all add: list_queue_def sent_to_def)
  with ab c show ?thesis by (simp add: Let_def)
qed

end
