(* ===== verification/ConnWeb.thy ===== *)
theory ConnWeb
  imports WebPushRouter Protocol
begin

text \<open>
  The HTTP routes of the connection server, \<open>autoconnect-web/src/{routes,dockerflow,error}.rs\<close>,
  and how the endpoint server and the connection server work together: a pushed notification
  ends up in the inbox of the user's newest session, and one that was stored because the user
  was away wakes the session that came meanwhile.
\<close>

section \<open>Routes\<close>

definition push_route ::
  "'x chan_lib \<Rightarrow> uuid \<Rightarrow> notification \<Rightarrow> client_registry \<times> 'x \<Rightarrow> nat \<times> client_registry \<times> 'x" where
  "push_route ch uaid notif s =
     (case clients_notify ch uaid notif s of (Inr _, s1) \<Rightarrow> (200, s1) | (Inl _, s1) \<Rightarrow> (404, s1))"

definition check_storage_route ::
  "'x chan_lib \<Rightarrow> uuid \<Rightarrow> client_registry \<times> 'x \<Rightarrow> nat \<times> client_registry \<times> 'x" where
  "check_storage_route ch uaid s =
     (case clients_check_storage ch uaid s of (Inr _, s1) \<Rightarrow> (200, s1) | (Inl _, s1) \<Rightarrow> (404, s1))"

text \<open>The extractors in front of them: a path that is no UUID, a body that is no notification.\<close>

definition push_request ::
  "uuid_lib \<Rightarrow> 'x chan_lib \<Rightarrow> string \<Rightarrow> (string \<times> json) list \<Rightarrow> client_registry \<times> 'x \<Rightarrow>
     nat \<times> client_registry \<times> 'x" where
  "push_request lib ch path body s =
     (case uuid_parse lib path of
        None \<Rightarrow> (404, s)
      | Some uaid \<Rightarrow>
          (case notification_from_json lib body of
             None \<Rightarrow> (400, s)
           | Some notif \<Rightarrow> push_route ch uaid notif s))"

definition check_storage_request ::
  "uuid_lib \<Rightarrow> 'x chan_lib \<Rightarrow> string \<Rightarrow> client_registry \<times> 'x \<Rightarrow> nat \<times> client_registry \<times> 'x" where
  "check_storage_request lib ch path s =
     (case uuid_parse lib path of None \<Rightarrow> (404, s) | Some uaid \<Rightarrow> check_storage_route ch uaid s)"

section \<open>Health\<close>

definition ac_health_route :: "'x db_client \<Rightarrow> string \<Rightarrow> 'x \<Rightarrow> (string \<times> string) list \<times> 'x" where
  "ac_health_route db version x =
     (case db_health_check db x of
        (Inr _, x1) \<Rightarrow> ([(''status'', ''OK''), (''version'', version)], x1)
      | (Inl _, x1) \<Rightarrow> ([(''status'', ''ERROR''), (''version'', version)], x1))"

text \<open>\<open>render\<close> is the \<open>Display\<close> of the error.\<close>

definition ac_status_route ::
  "'x db_client \<Rightarrow> (db_error \<Rightarrow> string) \<Rightarrow> string \<Rightarrow> 'x \<Rightarrow> (string, string) hashmap \<times> 'x" where
  "ac_status_route db render version x =
     (let m = hm_insert ''version'' version [] in
      case db_health_check db x of
        (Inr _, x1) \<Rightarrow> (hm_insert ''status'' ''OK'' m, x1)
      | (Inl e, x1) \<Rightarrow> (hm_insert ''error'' (render e) (hm_insert ''status'' ''ERROR'' m), x1))"

text \<open>The errors of the server; an actix error is its status and whether it is a failed handshake.\<close>

datatype ac_api_error = AcActix nat bool | AcLogCheck

definition ac_error_status :: "ac_api_error \<Rightarrow> nat" where
  "ac_error_status e = (case e of AcActix st _ \<Rightarrow> st | AcLogCheck \<Rightarrow> 418)"

definition ac_error_errno :: "ac_api_error \<Rightarrow> nat" where
  "ac_error_errno e = (case e of AcActix _ _ \<Rightarrow> 500 | AcLogCheck \<Rightarrow> 999)"

definition ac_error_is_sentry_event :: "ac_api_error \<Rightarrow> bool" where
  "ac_error_is_sentry_event e = (case e of AcActix _ handshake \<Rightarrow> \<not> handshake | AcLogCheck \<Rightarrow> True)"

section \<open>The two servers together\<close>

text \<open>
  \<open>node\<close> is the address of a connection server whose registry and channels are the part \<open>reg\<close>
  of the world: a request to it is answered by its routes.
\<close>

definition served_by ::
  "('u, 'x) ep_app \<Rightarrow> 'y chan_lib \<Rightarrow> string \<Rightarrow> ('x \<Rightarrow> client_registry \<times> 'y) \<Rightarrow>
     (client_registry \<times> 'y \<Rightarrow> 'x \<Rightarrow> 'x) \<Rightarrow> bool" where
  "served_by A ch node reg put \<longleftrightarrow>
     (\<forall>path body x. ea_http_put A (node @ ''/push/'' @ path) (Some body) x =
        (let (st, s) = push_request (ea_uuid A) ch path body (reg x) in (Inr st, put s x))) \<and>
     (\<forall>path x. ea_http_put A (node @ ''/notif/'' @ path) None x =
        (let (st, s) = check_storage_request (ea_uuid A) ch path (reg x) in (Inr st, put s x))) \<and>
     (\<forall>s x. reg (put s x) = s)"

lemma served_push:
  assumes "served_by A ch node reg put" and lib: "uuid_lib_ok (ea_uuid A)"
    and "0 \<le> eh_ttl (en_headers n)" "eh_ttl (en_headers n) \<le> EP_MAX_TTL"
    and r: "clients_notify ch (u_uaid (en_user n)) (delivered_form n) (reg x) = (r, s)"
  shows "send_notification A n node x = (Inr (case r of Inr _ \<Rightarrow> 200 | Inl _ \<Rightarrow> 404), put s x)"
proof -
  from assms(1) have "ea_http_put A (node @ ''/push/'' @ path) (Some body) x =
      (let (st, s) = push_request (ea_uuid A) ch path body (reg x) in (Inr st, put s x))" for path body
    unfolding served_by_def by blast
  then show ?thesis
    using delivery_roundtrip [OF lib assms(3,4)] uuid_hyphenated_props(3) [OF lib] r
    by (simp add: send_notification_def push_request_def push_route_def split: sum.split)
qed

lemma served_check:
  assumes "served_by A ch node reg put" and lib: "uuid_lib_ok (ea_uuid A)"
    and r: "clients_check_storage ch uaid (reg x) = (r, s)"
  shows "trigger_notification_check A uaid node x = (Inr (case r of Inr _ \<Rightarrow> 200 | Inl _ \<Rightarrow> 404), put s x)"
proof -
  from assms(1) have "ea_http_put A (node @ ''/notif/'' @ path) None x =
      (let (st, s) = check_storage_request (ea_uuid A) ch path (reg x) in (Inr st, put s x))" for path
    unfolding served_by_def by blast
  then show ?thesis
    using uuid_hyphenated_props(3) [OF lib] r
    by (simp add: trigger_notification_check_def check_storage_request_def check_storage_route_def
        split: sum.split)
qed

lemma served_lens: "served_by A ch node reg put \<Longrightarrow> reg (put s x) = s"
  unfolding served_by_def by blast

lemma clients_send_fst: "clients_send ch u m s = (r, s') \<Longrightarrow> fst s' = fst s"
  by (cases s) (auto simp: clients_send_def Let_def split: prod.splits option.splits)

lemma connected_send_ok:
  assumes c: "connected_as ch queue used uaid uid tx s" and q: "queue tx (snd s) = Some q"
    and m: "clients_send ch uaid msg s = (r, s')"
  shows "r = Inr ()" and "queue tx (snd s') = Some (q @ [msg])"
proof -
  from c have ch: "chan_ok ch queue used" and ok: "registry_ok used s"
    and e: "fst s uaid = Some \<lparr>rc_uaid = uaid, rc_uid = uid, rc_tx = tx\<rparr>"
    by (simp_all add: connected_as_def)
  from registry_ok_send(4) [OF ch ok m e] q show "r = Inr ()" "queue tx (snd s') = Some (q @ [msg])"
    by simp_all
qed


text \<open>Claim C11. A notification that was stored because its user was not connected wakes the
  session the user opens while it is being stored: when the record read back names a node
  with a live session, that session's inbox gets the order to read storage, after the
  notification was saved. The sender is answered 201, as for a delivered one, where
  \<open>docs/src/http.md\<close> says 202.\<close>

theorem stored_push_wakes_session:
  assumes serve: "served_by A ch node reg put" and lib: "uuid_lib_ok (ea_uuid A)"
    and away: "u_node_id (en_user n) = None" "eh_ttl (en_headers n) \<noteq> 0"
    and saved: "db_save_message (ea_db A) (u_uaid (en_user n)) (ep_into_notification n) x = (Inr (), x1)"
    and reread: "db_get_user (ea_db A) (u_uaid (en_user n)) x1 = (Inr (Some user), x2)"
      "u_node_id user = Some node"
    and live: "connected_as ch queue used (u_uaid user) uid tx (reg x2)" "queue tx (snd (reg x2)) = Some inbox"
    and loc: "message_location A eu n = Inr loc"
  shows "\<exists>resp s. webpush_route_notification A eu n x = (Inr resp, put s x2) \<and> rr_status resp = 201 \<and>
    queue tx (snd (reg (put s x2))) = Some (inbox @ [CheckStorage])"
proof -
  obtain r s where r: "clients_check_storage ch (u_uaid user) (reg x2) = (r, s)" by (rule prod.exhaust)
  then have send: "clients_send ch (u_uaid user) CheckStorage (reg x2) = (r, s)"
    by (simp add: clients_check_storage_def)
  note ok = connected_send_ok [OF live send]
  have "trigger_notification_check A (u_uaid user) node x2 = (Inr 200, put s x2)"
    using served_check [OF serve lib r] ok(1) by simp
  with away saved reread loc
  have "\<exists>resp. webpush_route_notification A eu n x = (Inr resp, put s x2) \<and> rr_status resp = 201"
    by (simp add: webpush_route_notification_def try_direct_def store_notification_def notify_node_def
        responses make_response_def)
  with ok(2) served_lens [OF serve] show ?thesis by metis
qed

section \<open>Both servers in one world\<close>

text \<open>A store, and one connection server at the address \<open>n\<close> with its registry and channels.\<close>

type_synonym two_servers = "mem_db \<times> client_registry \<times> chans"

definition demo_node :: "string \<Rightarrow> (string \<times> json) list option \<Rightarrow> two_servers \<Rightarrow> (reqwest_error + nat) \<times> two_servers" where
  "demo_node url body x =
     (let (st, s) =
        (case body of
           Some b \<Rightarrow> if starts_with ''n/push/'' url
             then push_request fixed_uuids list_chans (drop (length ''n/push/'') url) b (snd x) else (404, snd x)
         | None \<Rightarrow> if starts_with ''n/notif/'' url
             then check_storage_request fixed_uuids list_chans (drop (length ''n/notif/'') url) (snd x)
             else (404, snd x))
      in (Inr st, (fst x, s)))"

abbreviation demo_two :: "(string, two_servers) ep_app" where
  "demo_two \<equiv> demo_ep_with (mem_client fixed_uuids (fixed_sys 1000) fst (\<lambda>m x. (m, snd x))) demo_node"

lemma demo_two_serves: "served_by demo_two list_chans ''n'' snd (\<lambda>s x. (fst x, s))"
  by (simp add: served_by_def demo_ep_with_def demo_node_def starts_with_def split: prod.split)

lemma demo_two_uuid: "uuid_lib_ok (ea_uuid demo_two)"
  using fixed_uuids_lib_ok by (simp add: demo_ep_with_def)

text \<open>User 5 has the session 8 at the node; \<open>home\<close> says where its record places it.\<close>

definition demo_home :: "string option \<Rightarrow> user" where
  "demo_home home = demo_ep_user\<lparr>u_node_id := home\<rparr>"

definition demo_two_world :: "string option \<Rightarrow> two_servers" where
  "demo_two_world home = (demo_ep_store\<lparr>m_users := [(5, demo_home home)]\<rparr>,
     Map.empty(5 \<mapsto> \<lparr>rc_uaid = 5, rc_uid = 8, rc_tx = 0\<rparr>), [Some []])"

definition demo_two_push :: "string option \<Rightarrow> ep_notification" where
  "demo_two_push home = (demo_push_notification 60)\<lparr>en_subscription := demo_sub\<lparr>su_user := demo_home home\<rparr>\<rparr>"

lemma demo_two_push_fields [simp]:
  "su_user (en_subscription (demo_two_push home)) = demo_home home"
  "eh_ttl (en_headers (demo_two_push home)) = 60" "en_message_id (demo_two_push home) = ''mid''"
  "u_uaid (demo_home home) = 5" "u_node_id (demo_home home) = home"
  by (simp_all add: demo_two_push_def demo_home_def)

lemma demo_two_live:
  "connected_as list_chans list_queue list_used 5 8 0 (snd (demo_two_world home))"
  "list_queue 0 (snd (snd (demo_two_world home))) = Some []"
  by (simp_all add: connected_as_def list_chans_ok registry_ok_def demo_two_world_def list_used_def list_queue_def)

lemma demo_two_location: "message_location demo_two ''https://push'' (demo_two_push home) = Inr ''https://push/m/mid''"
  by (simp add: message_location_def demo_ep_with_def demo_lib_def demo_join_def starts_with_def)


theorem stored_push_wakes_session_witness:
  "\<exists>resp s x2. webpush_route_notification demo_two ''https://push'' (demo_two_push None) (demo_two_world (Some ''n'')) =
     (Inr resp, (x2, s)) \<and> rr_status resp = 201 \<and> list_queue 0 (snd s) = Some [CheckStorage]"
proof -
  let ?n = "ep_into_notification (demo_two_push None)" and ?x = "demo_two_world (Some ''n'')"
  let ?x1 = "mem_save_message fixed_uuids (fixed_sys 1000) fst (\<lambda>m x. (m, snd x)) 5 ?n ?x"
  have topic: "n_topic ?n = None" "n_sortkey_timestamp ?n = Some 1000000"
    by (simp_all add: demo_two_push_def ep_into_notification_def demo_push_notification_def Let_def)
  have "chidmessageid fixed_uuids (fixed_sys 1000) ?n ?x = (standard_key fixed_uuids 1000000 (n_channel_id ?n), ?x)"
    by (rule chidmessageid_standard [OF topic]) simp
  then have x1: "m_users (fst ?x1) = [(5, demo_home (Some ''n''))]" "snd ?x1 = snd ?x"
    by (simp_all add: mem_save_message_def topic demo_two_world_def Let_def)
  have saved: "db_save_message (ea_db demo_two) (u_uaid (en_user (demo_two_push None))) ?n ?x = (Inr (), ?x1)"
    by (simp add: demo_ep_with_def mem_client_def)
  have get: "db_get_user (ea_db demo_two) (u_uaid (en_user (demo_two_push None))) ?x1 =
      (Inr (Some (demo_home (Some ''n''))), ?x1)"
    using x1(1) by (simp add: demo_ep_with_def mem_client_def)
  have live: "connected_as list_chans list_queue list_used (u_uaid (demo_home (Some ''n''))) 8 0 (snd ?x1)"
    "list_queue 0 (snd (snd ?x1)) = Some []"
    using demo_two_live x1(2) by simp_all
  show ?thesis
    using stored_push_wakes_session [OF demo_two_serves demo_two_uuid _ _ saved get _ live demo_two_location]
    by auto
qed

end
