(* ===== verification/Client.thy ===== *)
theory Client
  imports Protocol Storage Endpoint
begin

text \<open>
  The state of an identified session: \<open>WebPushClient\<close> with its flags, statistics and
  acknowledgement state (\<open>autoconnect-ws-sm/src/identified/mod.rs\<close>), the errors of the
  state machine (\<open>autoconnect-ws-sm/src/error.rs\<close>) and the parts of \<open>AppState\<close> a session
  uses (\<open>autoconnect-settings\<close>). A session acts on its own state and on the outside world
  \<open>'x\<close>, which holds the database, the clock and the network; metrics and logs are not
  modelled.
\<close>

section \<open>Errors\<close>

datatype sm_error =
    SmDatabase db_error
  | SmInvalidMessage string
  | SmInternal string
  | SmReqwest string
  | SmUaidReset
  | SmAlreadyConnected
  | SmGhost
  | SmMakeEndpoint apc_error
  | SmExcessivePing

text \<open>The close codes of \<open>actix_ws\<close> the code names; a client may send any other.\<close>

datatype close_code = CloseNormal | CloseUnsupported | CloseError | CloseOther nat

definition sm_close_code :: "sm_error \<Rightarrow> close_code" where
  "sm_close_code e = (case e of SmUaidReset \<Rightarrow> CloseNormal | _ \<Rightarrow> CloseError)"

definition sm_metric_label :: "sm_error \<Rightarrow> string option" where
  "sm_metric_label e = (case e of
       SmDatabase e \<Rightarrow> db_error_metric_label e
     | SmMakeEndpoint e \<Rightarrow> apc_metric_label e
     | _ \<Rightarrow> None)"

definition sm_is_sentry_event :: "sm_error \<Rightarrow> bool" where
  "sm_is_sentry_event e = (case e of
       SmDatabase e \<Rightarrow> db_error_is_sentry_event e
     | SmMakeEndpoint e \<Rightarrow> apc_is_sentry_event e
     | SmReqwest _ \<Rightarrow> True
     | SmInternal _ \<Rightarrow> True
     | _ \<Rightarrow> False)"

definition sm_capture_backtrace :: "sm_error \<Rightarrow> bool" where
  "sm_capture_backtrace e = (case e of SmMakeEndpoint _ \<Rightarrow> False | _ \<Rightarrow> True)"

text \<open>\<open>SMError\<close> is the kind and whether a backtrace was taken when it was made.\<close>

definition sm_has_backtrace :: "sm_error \<Rightarrow> bool" where
  "sm_has_backtrace e \<longleftrightarrow> sm_is_sentry_event e \<and> sm_capture_backtrace e"

section \<open>State\<close>

record client_flags =
  f_include_topic :: bool
  f_increment_storage :: bool
  f_check_storage :: bool
  f_old_record_version :: bool

definition client_flags_default :: client_flags where
  "client_flags_default =
     \<lparr>f_include_topic = True, f_increment_storage = False, f_check_storage = False,
      f_old_record_version = False\<rparr>"

record session_statistics =
  st_direct_acked :: i32
  st_direct_storage :: i32
  st_stored_retrieved :: i32
  st_stored_acked :: i32
  st_nacks :: i32
  st_unregisters :: i32
  st_registers :: i32
  st_existing_uaid :: bool

definition session_statistics_default :: session_statistics where
  "session_statistics_default =
     \<lparr>st_direct_acked = 0, st_direct_storage = 0, st_stored_retrieved = 0, st_stored_acked = 0,
      st_nacks = 0, st_unregisters = 0, st_registers = 0, st_existing_uaid = False\<rparr>"

record ack_state =
  a_unacked_direct_notifs :: "notification list"
  a_unacked_stored_notifs :: "notification list"
  a_unacked_stored_highest :: "u64 option"

definition ack_state_default :: ack_state where
  "ack_state_default =
     \<lparr>a_unacked_direct_notifs = [], a_unacked_stored_notifs = [], a_unacked_stored_highest = None\<rparr>"

definition unacked_notifs :: "ack_state \<Rightarrow> bool" where
  "unacked_notifs a \<longleftrightarrow> a_unacked_stored_notifs a \<noteq> [] \<or> a_unacked_direct_notifs a \<noteq> []"

record web_push_client =
  c_uaid :: uuid
  c_uid :: uuid
  c_ua_info :: user_agent_info
  c_broadcast_subs :: broadcast_subs
  c_flags :: client_flags
  c_ack_state :: ack_state
  c_sent_from_storage :: u32
  c_deferred_add_user :: "user option"
  c_stats :: session_statistics
  c_connected_at :: u64
  c_last_ping :: u64
  c_current_timestamp :: "u64 option"

text \<open>
  What a session uses of \<open>AppState\<close>. \<open>app_http_put\<close> is the \<open>reqwest\<close> call
  \<open>put(url).send()\<close> followed by \<open>error_for_status()\<close>; \<open>app_ua_parser\<close> and
  \<open>app_ua_default\<close> are \<open>woothee\<close>'s.
\<close>

record ('u, 'x) app_state =
  app_db :: "'x db_client"
  app_sys :: "'x sys"
  app_uuid :: uuid_lib
  app_endpoint :: "('u, 'x) endpoint_lib"
  app_http_put :: "string \<Rightarrow> 'x \<Rightarrow> (string, unit, 'x) outcome"
  app_ua_parser :: "string \<Rightarrow> woothee_result option"
  app_ua_default :: woothee_result
  app_msg_limit :: u32
  app_router_url :: string
  app_endpoint_url :: string

section \<open>Steps on a session and its world\<close>

type_synonym 'x session = "web_push_client \<times> 'x"
type_synonym ('a, 'x) sm_outcome = "(sm_error, 'a, 'x session) outcome"

text \<open>A call of the database from a method of the client, with its \<open>?\<close>.\<close>

definition call_db :: "('a, 'x) db_op \<Rightarrow> 'x session \<Rightarrow> ('a, 'x) sm_outcome" where
  "call_db op s =
     (case op (snd s) of
        (Inl e, x) \<Rightarrow> (Inl (SmDatabase e), fst s, x)
      | (Inr a, x) \<Rightarrow> (Inr a, fst s, x))"

lemma call_db_frame: "call_db op s = (r, s') \<Longrightarrow> fst s' = fst s"
  by (auto simp: call_db_def split: prod.splits sum.splits)

lemma call_db_simps:
  "op x = (Inl e, x') \<Longrightarrow> call_db op (c, x) = (Inl (SmDatabase e), c, x')"
  "op x = (Inr a, x') \<Longrightarrow> call_db op (c, x) = (Inr a, c, x')"
  by (simp_all add: call_db_def)

lemma call_db_cases:
  obtains (err) e x' where "op x = (Inl e, x')" "call_db op (c, x) = (Inl (SmDatabase e), c, x')"
    | (ok) a x' where "op x = (Inr a, x')" "call_db op (c, x) = (Inr a, c, x')"
  by (cases "op x"; cases "fst (op x)") (auto simp: call_db_def)

lemma call_db_Inr_iff: "call_db op s = (Inr a, s') \<longleftrightarrow> fst s' = fst s \<and> op (snd s) = (Inr a, snd s')"
  by (cases s'; cases "op (snd s)"; cases "fst (op (snd s))") (auto simp: call_db_def)

lemma call_db_Inl_iff: "call_db op s = (Inl e, s') \<longleftrightarrow>
    fst s' = fst s \<and> (\<exists>d. e = SmDatabase d \<and> op (snd s) = (Inl d, snd s'))"
  by (cases s'; cases "op (snd s)"; cases "fst (op (snd s))") (auto simp: call_db_def)

abbreviation upd_flags :: "(client_flags \<Rightarrow> client_flags) \<Rightarrow> web_push_client \<Rightarrow> web_push_client" where
  "upd_flags f c \<equiv> c\<lparr>c_flags := f (c_flags c)\<rparr>"

abbreviation upd_ack :: "(ack_state \<Rightarrow> ack_state) \<Rightarrow> web_push_client \<Rightarrow> web_push_client" where
  "upd_ack f c \<equiv> c\<lparr>c_ack_state := f (c_ack_state c)\<rparr>"

abbreviation upd_stats :: "(session_statistics \<Rightarrow> session_statistics) \<Rightarrow> web_push_client \<Rightarrow> web_push_client" where
  "upd_stats f c \<equiv> c\<lparr>c_stats := f (c_stats c)\<rparr>"

abbreviation c_direct :: "web_push_client \<Rightarrow> notification list" where
  "c_direct c \<equiv> a_unacked_direct_notifs (c_ack_state c)"

abbreviation c_stored :: "web_push_client \<Rightarrow> notification list" where
  "c_stored c \<equiv> a_unacked_stored_notifs (c_ack_state c)"

abbreviation c_highest :: "web_push_client \<Rightarrow> u64 option" where
  "c_highest c \<equiv> a_unacked_stored_highest (c_ack_state c)"

text \<open>
  A computation that may run forever: \<open>None\<close> is divergence. Sequencing as in
  \<open>andThen\<close>.
\<close>

definition thenLoop :: "('e, 'a, 's) outcome \<Rightarrow> ('a \<Rightarrow> 's \<Rightarrow> ('e, 'b, 's) outcome option) \<Rightarrow>
    ('e, 'b, 's) outcome option" where
  "thenLoop r k = (case r of (Inl e, s) \<Rightarrow> Some (Inl e, s) | (Inr x, s) \<Rightarrow> k x s)"

lemma thenLoop_simps [simp]:
  "thenLoop (Inl e, s) k = Some (Inl e, s)"
  "thenLoop (Inr x, s) k = k x s"
  by (simp_all add: thenLoop_def)

definition bindLoop :: "('e, 'a, 's) outcome option \<Rightarrow> ('a \<Rightarrow> 's \<Rightarrow> ('e, 'b, 's) outcome option) \<Rightarrow>
    ('e, 'b, 's) outcome option" where
  "bindLoop m k = (case m of None \<Rightarrow> None | Some r \<Rightarrow> thenLoop r k)"

lemma bindLoop_simps [simp]:
  "bindLoop None k = None"
  "bindLoop (Some r) k = thenLoop r k"
  by (simp_all add: bindLoop_def)

lemma bindLoop_Some_iff: "bindLoop m k = Some q \<longleftrightarrow> (\<exists>r. m = Some r \<and> thenLoop r k = Some q)"
  by (cases m) auto

lemma thenLoop_Inr_iff: "thenLoop r k = Some (Inr y, s') \<longleftrightarrow>
    (\<exists>x s. r = (Inr x, s) \<and> k x s = Some (Inr y, s'))"
  by (cases r; cases "fst r") auto

lemma thenLoop_Inl_iff: "thenLoop r k = Some (Inl e, s') \<longleftrightarrow>
    r = (Inl e, s') \<or> (\<exists>x s. r = (Inr x, s) \<and> k x s = Some (Inl e, s'))"
  by (cases r; cases "fst r") auto

lemma thenLoop_Some_cases:
  assumes "thenLoop r k = Some q"
  obtains e s where "r = (Inl e, s)" "q = (Inl e, s)" | x s where "r = (Inr x, s)" "k x s = Some q"
  using assms by (cases r; cases "fst r") (auto simp: thenLoop_def)

section \<open>A concrete application\<close>

text \<open>Used by the witnesses: small functions for the parameters, and a session at rest.\<close>

definition demo_endpoint :: "(string, 'x) endpoint_lib" where
  "demo_endpoint =
     \<lparr>el_url_parse = Inr, el_url_join = (\<lambda>u s. Inr (u @ s)), el_url_to_string = (\<lambda>u. u),
      el_b64_url_no_pad_decode = (\<lambda>s. Inr []), el_sha256 = Inr, el_fernet_encrypt = (\<lambda>b x. (''tok'', x))\<rparr>"

definition demo_app :: "'x sys \<Rightarrow> 'x db_client \<Rightarrow> (string, 'x) app_state" where
  "demo_app sys db =
     \<lparr>app_db = db, app_sys = sys, app_uuid = decimal_uuids, app_endpoint = demo_endpoint,
      app_http_put = (\<lambda>url x. (Inr (), x)), app_ua_parser = (\<lambda>s. None),
      app_ua_default = \<lparr>wr_name = ''U'', wr_category = ''U'', wr_os = ''U'', wr_os_version = ''U'', wr_version = ''U''\<rparr>,
      app_msg_limit = 100, app_router_url = ''http://r'', app_endpoint_url = ''http://e/''\<rparr>"

definition demo_client :: web_push_client where
  "demo_client =
     \<lparr>c_uaid = 1, c_uid = 5,
      c_ua_info = user_agent_info_from (\<lambda>s. None)
        \<lparr>wr_name = ''U'', wr_category = ''U'', wr_os = ''U'', wr_os_version = ''U'', wr_version = ''U''\<rparr> [],
      c_broadcast_subs = \<lparr>subs_list = [], subs_count = 0\<rparr>, c_flags = client_flags_default,
      c_ack_state = ack_state_default, c_sent_from_storage = 0, c_deferred_add_user = None,
      c_stats = session_statistics_default, c_connected_at = 10, c_last_ping = 0,
      c_current_timestamp = None\<rparr>"

text \<open>A world that is the reference store alone, and a clock that stands at \<open>now\<close> seconds.\<close>

definition mem_world_client :: "u64 \<Rightarrow> mem_db db_client" where
  "mem_world_client now = mem_client decimal_uuids (fixed_sys now) (\<lambda>x. x) (\<lambda>m x. m)"

definition mem_app :: "u64 \<Rightarrow> (string, mem_db) app_state" where
  "mem_app now = demo_app (fixed_sys now) (mem_world_client now)"

lemmas mem_app_simps = mem_app_def demo_app_def mem_world_client_def mem_client_def in_world_def fixed_sys_def

end
