(* ===== verification/ServerNotif.thy ===== *)
theory ServerNotif
  imports Client
begin

text \<open>
  What the server sends a session: \<open>identified/on_server_notif.rs\<close>. A session delivers
  direct notifications, and reads stored ones in batches, topic messages first; a loop
  skips batches that have expired. The theory models every method of the file and shows
  what a batch leaves in the session's state, that the message limit is enforced, and that
  the loop ends on a store that keeps the contract of \<open>DbClient\<close>.
\<close>

section \<open>Direct notifications\<close>

definition on_server_notif_shutdown :: "server_notification \<Rightarrow> web_push_client \<Rightarrow> web_push_client" where
  "on_server_notif_shutdown snotif c = (case snotif of
       DirectNotification n \<Rightarrow>
         upd_ack (\<lambda>a. a\<lparr>a_unacked_direct_notifs := a_unacked_direct_notifs a @ [n]\<rparr>) c
     | _ \<Rightarrow> c)"

definition notif :: "notification \<Rightarrow> 'x session \<Rightarrow> (server_message, 'x) sm_outcome" where
  "notif n s =
     (let c = fst s;
          c' = (if n_ttl n \<noteq> 0
                then upd_ack (\<lambda>a. a\<lparr>a_unacked_direct_notifs := a_unacked_direct_notifs a @ [n]\<rparr>) c
                else c)
      in (Inr (ServerNotif n), c', snd s))"

section \<open>Reading from storage\<close>

definition do_check_storage ::
  "('u, 'x) app_state \<Rightarrow> 'x session \<Rightarrow> (check_storage_response, 'x) sm_outcome" where
  "do_check_storage A s =
     (let c = fst s;
          timestamp = opt_or (c_highest c) (c_current_timestamp c);
          topics = (if f_include_topic (c_flags c)
                    then call_db (db_fetch_topic_messages (app_db A) (c_uaid c) 11) s
                    else (Inr fetch_default, s))
      in andThen topics (\<lambda>topic_resp s1.
        if fm_messages topic_resp \<noteq> [] then
          (Inr \<lparr>cs_include_topic = True, cs_messages = fm_messages topic_resp,
                cs_timestamp = fm_timestamp topic_resp\<rparr>, s1)
        else
          (let timestamp' = (if f_include_topic (c_flags c)
                             then opt_or (fm_timestamp topic_resp) (c_current_timestamp c)
                             else timestamp)
           in andThen (call_db (db_fetch_timestamp_messages (app_db A) (c_uaid c) timestamp' 10) s1)
                (\<lambda>timestamp_resp s2.
                  (Inr \<lparr>cs_include_topic = False, cs_messages = fm_messages timestamp_resp,
                        cs_timestamp = opt_or (fm_timestamp timestamp_resp) timestamp'\<rparr>, s2)))))"

text \<open>
  \<open>Vec::retain\<close> with the closure of \<open>check_storage_advance\<close>: the messages kept and the
  keys of the expired topic messages.
\<close>

fun retain_unexpired :: "('u, 'x) app_state \<Rightarrow> u64 \<Rightarrow> notification list \<Rightarrow> 'x \<Rightarrow>
    notification list \<times> string list \<times> 'x" where
  "retain_unexpired A now_sec [] x = ([], [], x)"
| "retain_unexpired A now_sec (msg # msgs) x =
     (if \<not> expired msg now_sec then
        (let (kept, keys, x') = retain_unexpired A now_sec msgs x in (msg # kept, keys, x'))
      else if n_sortkey_timestamp msg = None then
        (let (key, x1) = chidmessageid (app_uuid A) (app_sys A) msg x;
             (kept, keys, x') = retain_unexpired A now_sec msgs x1
         in (kept, key # keys, x'))
      else retain_unexpired A now_sec msgs x)"

fun remove_messages :: "('u, 'x) app_state \<Rightarrow> string list \<Rightarrow> 'x session \<Rightarrow> (unit, 'x) sm_outcome" where
  "remove_messages A [] s = (Inr (), s)"
| "remove_messages A (sk # sks) s =
     andThen (call_db (db_remove_message (app_db A) (c_uaid (fst s)) sk) s)
       (\<lambda>_ s1. remove_messages A sks s1)"

definition check_storage_advance ::
  "('u, 'x) app_state \<Rightarrow> 'x session \<Rightarrow> (server_message list, 'x) sm_outcome" where
  "check_storage_advance A s =
     andThen (do_check_storage A s) (\<lambda>resp s0.
       let include_topic = cs_include_topic resp;
           timestamp = cs_timestamp resp;
           c1 = upd_ack (\<lambda>a. a\<lparr>a_unacked_stored_highest := timestamp\<rparr>)
                  (upd_flags (\<lambda>f. f\<lparr>f_include_topic := include_topic\<rparr>) (fst s0))
       in if cs_messages resp = [] then
            (Inr [], (upd_flags (\<lambda>f. f\<lparr>f_check_storage := False\<rparr>) c1)\<lparr>c_sent_from_storage := 0\<rparr>, snd s0)
          else
            (let (now_sec, x1) = sys_now_sec (app_sys A) (snd s0);
                 (messages, expired_topic_sort_keys, x2) = retain_unexpired A now_sec (cs_messages resp) x1
             in andThen (remove_messages A expired_topic_sort_keys (c1, x2)) (\<lambda>_ s3.
                  let c3 = upd_flags (\<lambda>f. f\<lparr>f_increment_storage := \<not> include_topic \<and> timestamp \<noteq> None\<rparr>)
                             (fst s3)
                  in if messages = [] then (Inr [], c3, snd s3)
                     else
                       (Inr (map ServerNotif messages),
                        (upd_ack (\<lambda>a. a\<lparr>a_unacked_stored_notifs := a_unacked_stored_notifs a @ messages\<rparr>) c3)
                          \<lparr>c_sent_from_storage := c_sent_from_storage c3 + of_nat (length messages)\<rparr>,
                        snd s3))))"

definition increment_storage :: "('u, 'x) app_state \<Rightarrow> 'x session \<Rightarrow> (unit, 'x) sm_outcome" where
  "increment_storage A s =
     (case c_highest (fst s) of
        None \<Rightarrow> (Inl (SmInternal ''increment_storage w/ no unacked_stored_highest''), s)
      | Some timestamp \<Rightarrow>
          (let c1 = (fst s)\<lparr>c_current_timestamp := Some timestamp\<rparr> in
           andThen (call_db (db_increment_storage (app_db A) (c_uaid c1) timestamp) (c1, snd s))
             (\<lambda>_ s2. (Inr (), upd_flags (\<lambda>f. f\<lparr>f_increment_storage := False\<rparr>) (fst s2), snd s2))))"

definition check_msg_limit :: "('u, 'x) app_state \<Rightarrow> 'x session \<Rightarrow> (unit, 'x) sm_outcome" where
  "check_msg_limit A s =
     (if c_sent_from_storage (fst s) > app_msg_limit A then
        andThen (call_db (db_remove_user (app_db A) (c_uaid (fst s))) s) (\<lambda>_ s1. (Inl SmUaidReset, s1))
      else (Inr (), s))"

partial_function (option) check_storage_loop ::
  "('u, 'x) app_state \<Rightarrow> 'x session \<Rightarrow> (server_message list, 'x) sm_outcome option" where
  "check_storage_loop A s =
     (if f_check_storage (c_flags (fst s)) then
        (case check_storage_advance A s of
           (Inl e, s1) \<Rightarrow> Some (Inl e, s1)
         | (Inr smsgs, s1) \<Rightarrow>
             if smsgs \<noteq> [] then Some (andThen (check_msg_limit A s1) (\<lambda>_ s2. (Inr smsgs, s2)))
             else check_storage_loop A s1)
      else if f_increment_storage (c_flags (fst s)) then
        Some (andThen (increment_storage A s) (\<lambda>_ s1. (Inr [], s1)))
      else Some (Inr [], s))"

definition check_storage ::
  "('u, 'x) app_state \<Rightarrow> 'x session \<Rightarrow> (server_message list, 'x) sm_outcome option" where
  "check_storage A s =
     check_storage_loop A
       (upd_flags (\<lambda>f. f\<lparr>f_check_storage := True, f_include_topic := True\<rparr>) (fst s), snd s)"

definition on_server_notif ::
  "('u, 'x) app_state \<Rightarrow> server_notification \<Rightarrow> 'x session \<Rightarrow>
     (server_message list, 'x) sm_outcome option" where
  "on_server_notif A snotif s = (case snotif of
       DirectNotification n \<Rightarrow> Some (andThen (notif n s) (\<lambda>smsg s1. (Inr [smsg], s1)))
     | CheckStorage \<Rightarrow> check_storage A s
     | Disconnect \<Rightarrow> Some (Inl SmGhost, s))"

section \<open>What reading from storage changes\<close>

text \<open>
  The part of a session that storage reads leave alone, and what each step returns.
\<close>

definition same_session :: "web_push_client \<Rightarrow> web_push_client \<Rightarrow> bool" where
  "same_session c c' \<longleftrightarrow>
     c_uaid c' = c_uaid c \<and> c_uid c' = c_uid c \<and> c_ua_info c' = c_ua_info c \<and>
     c_broadcast_subs c' = c_broadcast_subs c \<and> c_deferred_add_user c' = c_deferred_add_user c \<and>
     c_stats c' = c_stats c \<and> c_connected_at c' = c_connected_at c \<and> c_last_ping c' = c_last_ping c \<and>
     c_direct c' = c_direct c \<and> f_old_record_version (c_flags c') = f_old_record_version (c_flags c)"

lemma same_session_refl [simp]: "same_session c c"
  by (simp add: same_session_def)

lemma same_session_trans: "same_session a b \<Longrightarrow> same_session b c \<Longrightarrow> same_session a c"
  by (simp add: same_session_def)

text \<open>The key under which a message without sort key is stored and deleted.\<close>

definition deletion_key :: "uuid_lib \<Rightarrow> notification \<Rightarrow> string" where
  "deletion_key lib n = (case n_topic n of
       Some topic \<Rightarrow> topic_key lib (n_channel_id n) topic
     | None \<Rightarrow> uuid_hyphenated lib (n_channel_id n) @ '':'' @ n_version n)"

lemma chidmessageid_no_sortkey:
  "n_sortkey_timestamp n = None \<Longrightarrow> chidmessageid lib sys n x = (deletion_key lib n, x)"
  by (simp add: chidmessageid_def deletion_key_def topic_key_def TOPIC_NOTIFICATION_PREFIX_def
      split: option.splits)

lemma retain_unexpired_eq:
  "retain_unexpired A now msgs x =
    (filter (\<lambda>m. \<not> expired m now) msgs,
     map (deletion_key (app_uuid A)) (filter (\<lambda>m. expired m now \<and> n_sortkey_timestamp m = None) msgs), x)"
  by (induction A now msgs x rule: retain_unexpired.induct) (auto simp: chidmessageid_no_sortkey Let_def)

lemma do_check_storage_frame: "do_check_storage A s = (r, s') \<Longrightarrow> fst s' = fst s"
  unfolding do_check_storage_def Let_def
  by (cases r)
    (auto simp: andThen_Inl_iff andThen_Inr_iff call_db_Inl_iff call_db_Inr_iff
      split: if_splits)

lemma remove_messages_frame: "remove_messages A sks s = (r, s') \<Longrightarrow> fst s' = fst s"
proof (induction sks arbitrary: s)
  case (Cons sk sks)
  then show ?case
    by (cases r) (fastforce simp: andThen_Inl_iff andThen_Inr_iff call_db_Inl_iff call_db_Inr_iff)+
qed simp

lemma check_storage_advance_Inr:
  assumes "check_storage_advance A s = (Inr smsgs, s')"
  obtains msgs where "smsgs = map ServerNotif msgs" "same_session (fst s) (fst s')"
    "c_stored (fst s') = c_stored (fst s) @ msgs" "c_current_timestamp (fst s') = c_current_timestamp (fst s)"
    "msgs \<noteq> [] \<or> f_check_storage (c_flags (fst s')) \<Longrightarrow>
       f_check_storage (c_flags (fst s')) = f_check_storage (c_flags (fst s)) \<and>
       c_sent_from_storage (fst s') = c_sent_from_storage (fst s) + of_nat (length msgs)"
    "\<not> f_check_storage (c_flags (fst s')) \<Longrightarrow> f_check_storage (c_flags (fst s)) \<Longrightarrow>
       c_sent_from_storage (fst s') = 0"
proof -
  from assms obtain resp s0 where d: "do_check_storage A s = (Inr resp, s0)"
    unfolding check_storage_advance_def andThen_Inr_iff by blast
  have f0: "fst s0 = fst s" using do_check_storage_frame [OF d] .
  show thesis
  proof (cases "cs_messages resp = []")
    case True
    with assms d f0 show ?thesis
      by (intro that [of "[]"]) (auto simp: check_storage_advance_def same_session_def)
  next
    case False
    obtain now x1 where n: "sys_now_sec (app_sys A) (snd s0) = (now, x1)" by fastforce
    let ?kept = "filter (\<lambda>m. \<not> expired m now) (cs_messages resp)"
    let ?keys = "map (deletion_key (app_uuid A))
      (filter (\<lambda>m. expired m now \<and> n_sortkey_timestamp m = None) (cs_messages resp))"
    let ?c1 = "upd_ack (\<lambda>a. a\<lparr>a_unacked_stored_highest := cs_timestamp resp\<rparr>)
      (upd_flags (\<lambda>f. f\<lparr>f_include_topic := cs_include_topic resp\<rparr>) (fst s0))"
    from assms d False n obtain s3 where r: "remove_messages A ?keys (?c1, x1) = (Inr (), s3)"
      by (auto simp: check_storage_advance_def retain_unexpired_eq andThen_Inr_iff Let_def)
    from remove_messages_frame [OF r] have f3: "fst s3 = ?c1" by simp
    from assms d False n r f3 f0 show ?thesis
      by (intro that [of ?kept])
        (auto simp: check_storage_advance_def retain_unexpired_eq Let_def same_session_def split: if_splits)
  qed
qed

lemma check_storage_advance_Inl:
  assumes "check_storage_advance A s = (Inl e, s')"
  shows "same_session (fst s) (fst s')" "c_stored (fst s') = c_stored (fst s)"
    "\<exists>d. e = SmDatabase d"
proof -
  have db: "\<exists>d. e = SmDatabase d" if "remove_messages A sks u = (Inl e, u')" for sks u u'
    using that
    by (induction sks arbitrary: u) (auto simp: andThen_Inl_iff call_db_Inl_iff)
  have ds: "\<exists>d. e = SmDatabase d" if "do_check_storage A u = (Inl e, u')" for u u'
    using that unfolding do_check_storage_def Let_def
    by (auto simp: andThen_Inl_iff call_db_Inl_iff split: if_splits)
  from assms consider (fetch) "do_check_storage A s = (Inl e, s')"
    | (rest) resp s0 where "do_check_storage A s = (Inr resp, s0)"
    unfolding check_storage_advance_def andThen_Inl_iff by blast
  then have "same_session (fst s) (fst s') \<and> c_stored (fst s') = c_stored (fst s) \<and> (\<exists>d. e = SmDatabase d)"
  proof cases
    case fetch
    with do_check_storage_frame [OF fetch] ds show ?thesis by simp
  next
    case rest
    have f0: "fst s0 = fst s" using do_check_storage_frame [OF rest] .
    obtain now x1 where n: "sys_now_sec (app_sys A) (snd s0) = (now, x1)" by fastforce
    from assms rest n obtain sks c1 where r: "remove_messages A sks (c1, x1) = (Inl e, s')"
      and c1: "c1 = upd_ack (\<lambda>a. a\<lparr>a_unacked_stored_highest := cs_timestamp resp\<rparr>)
        (upd_flags (\<lambda>f. f\<lparr>f_include_topic := cs_include_topic resp\<rparr>) (fst s0))"
      by (auto simp: check_storage_advance_def retain_unexpired_eq andThen_Inl_iff Let_def split: if_splits)
    from remove_messages_frame [OF r] c1 f0 db [OF r] show ?thesis by (simp add: same_session_def)
  qed
  then show "same_session (fst s) (fst s')" "c_stored (fst s') = c_stored (fst s)"
    "\<exists>d. e = SmDatabase d" by blast+
qed

lemma increment_storage_frame:
  assumes "increment_storage A s = (r, s')"
  shows "same_session (fst s) (fst s')" "c_ack_state (fst s') = c_ack_state (fst s)"
    "c_sent_from_storage (fst s') = c_sent_from_storage (fst s)"
    "f_check_storage (c_flags (fst s')) = f_check_storage (c_flags (fst s))"
    "r = Inr () \<Longrightarrow> \<not> f_increment_storage (c_flags (fst s'))"
  using assms
  by (cases r; auto simp: increment_storage_def same_session_def Let_def andThen_Inl_iff andThen_Inr_iff
      call_db_Inl_iff call_db_Inr_iff split: option.splits)+

lemma check_msg_limit_Inr: "check_msg_limit A s = (Inr u, s') \<longleftrightarrow>
    s' = s \<and> c_sent_from_storage (fst s) \<le> app_msg_limit A"
  by (auto simp: check_msg_limit_def andThen_Inr_iff)

lemma check_msg_limit_Inl:
  assumes "check_msg_limit A s = (Inl e, s')"
  shows "fst s' = fst s" "c_sent_from_storage (fst s) > app_msg_limit A"
    "e = SmUaidReset \<Longrightarrow> db_remove_user (app_db A) (c_uaid (fst s)) (snd s) = (Inr (), snd s')"
  using assms by (auto simp: check_msg_limit_def andThen_Inl_iff call_db_Inl_iff call_db_Inr_iff split: if_splits)

section \<open>The loop\<close>

definition loop_post :: "('u, 'x) app_state \<Rightarrow> 'x session \<Rightarrow> (server_message list, 'x) sm_outcome \<Rightarrow> bool" where
  "loop_post A s q \<longleftrightarrow> same_session (fst s) (fst (snd q)) \<and>
     (case fst q of
        Inr smsgs \<Rightarrow>
          (\<exists>msgs. smsgs = map ServerNotif msgs \<and> c_stored (fst (snd q)) = c_stored (fst s) @ msgs) \<and>
          (if smsgs = [] then
             \<not> f_check_storage (c_flags (fst (snd q))) \<and> \<not> f_increment_storage (c_flags (fst (snd q))) \<and>
             (f_check_storage (c_flags (fst s)) \<longrightarrow> c_sent_from_storage (fst (snd q)) = 0) \<and>
             (\<not> f_check_storage (c_flags (fst s)) \<longrightarrow>
                c_sent_from_storage (fst (snd q)) = c_sent_from_storage (fst s))
           else f_check_storage (c_flags (fst (snd q))) \<and>
             c_sent_from_storage (fst (snd q)) \<le> app_msg_limit A)
      | Inl e \<Rightarrow>
          (\<exists>msgs. c_stored (fst (snd q)) = c_stored (fst s) @ msgs) \<and>
          (e = SmUaidReset \<longrightarrow> c_sent_from_storage (fst (snd q)) > app_msg_limit A \<and>
             (\<exists>x. db_remove_user (app_db A) (c_uaid (fst s)) x = (Inr (), snd (snd q)))))"

lemma increment_storage_Inl: "increment_storage A s = (Inl e, s') \<Longrightarrow> e \<noteq> SmUaidReset"
  by (auto simp: increment_storage_def andThen_Inl_iff call_db_Inl_iff Let_def split: option.splits)

lemma loop_post_batch:
  assumes adv: "check_storage_advance A s = (Inr smsgs, s1)" and ne: "smsgs \<noteq> []"
    and check: "f_check_storage (c_flags (fst s))"
  shows "loop_post A s (andThen (check_msg_limit A s1) (\<lambda>_ s2. (Inr smsgs, s2)))"
proof -
  from adv obtain msgs where m: "smsgs = map ServerNotif msgs" "same_session (fst s) (fst s1)"
      "c_stored (fst s1) = c_stored (fst s) @ msgs" "f_check_storage (c_flags (fst s1))"
    using ne check by (auto elim!: check_storage_advance_Inr)
  show ?thesis
  proof -
    obtain r s2 where Pair: "check_msg_limit A s1 = (r, s2)" by (rule prod.exhaust)
    show ?thesis
    proof (cases r)
      case (Inr u)
      with Pair have "s2 = s1" "c_sent_from_storage (fst s1) \<le> app_msg_limit A"
        using check_msg_limit_Inr [of A s1 "()" s2] by simp_all
      with Pair Inr m ne show ?thesis by (auto simp: loop_post_def)
    next
      case (Inl e)
      note l = check_msg_limit_Inl [OF Pair [unfolded Inl]]
      have "c_uaid (fst s1) = c_uaid (fst s)" using m(2) by (simp add: same_session_def)
      with Pair Inl l m show ?thesis by (auto simp: loop_post_def)
    qed
  qed
qed

lemma loop_post_step:
  assumes adv: "check_storage_advance A s = (Inr [], s1)" and check: "f_check_storage (c_flags (fst s))"
    and post: "loop_post A s1 q"
  shows "loop_post A s q"
proof -
  from adv obtain sf: "same_session (fst s) (fst s1)" and "c_stored (fst s1) = c_stored (fst s)"
      "\<not> f_check_storage (c_flags (fst s1)) \<Longrightarrow> c_sent_from_storage (fst s1) = 0"
    using check by (auto elim!: check_storage_advance_Inr)
  moreover from sf have "c_uaid (fst s1) = c_uaid (fst s)" by (simp add: same_session_def)
  moreover have "same_session (fst s) (fst (snd q))"
    using same_session_trans [OF sf] post by (simp add: loop_post_def)
  ultimately show ?thesis
    using post check by (auto simp: loop_post_def split: sum.splits if_splits)
qed

lemma check_storage_loop_post:
  fixes A :: "('u, 'x) app_state"
  shows "check_storage_loop A s = Some q \<Longrightarrow> loop_post A s q"
proof (erule check_storage_loop.raw_induct [rotated, where P = loop_post])
  fix loop :: "('u, 'x) app_state \<Rightarrow> 'x session \<Rightarrow> (server_message list, 'x) sm_outcome option"
    and A :: "('u, 'x) app_state" and s :: "'x session" and q
  assume 1: "\<And>A s q. loop A s = Some q \<Longrightarrow> loop_post A s q"
    "(if f_check_storage (c_flags (fst s)) then
        (case check_storage_advance A s of
           (Inl e, s1) \<Rightarrow> Some (Inl e, s1)
         | (Inr smsgs, s1) \<Rightarrow>
             if smsgs \<noteq> [] then Some (andThen (check_msg_limit A s1) (\<lambda>_ s2. (Inr smsgs, s2)))
             else loop A s1)
      else if f_increment_storage (c_flags (fst s)) then
        Some (andThen (increment_storage A s) (\<lambda>_ s1. (Inr [], s1)))
      else Some (Inr [], s)) = Some q"
  show "loop_post A s q"
  proof (cases "f_check_storage (c_flags (fst s))")
    case True
    obtain r s1 where a: "check_storage_advance A s = (r, s1)" by (rule prod.exhaust)
    show ?thesis
    proof (cases r)
      case (Inl e)
      with 1 True a check_storage_advance_Inl [of A s e s1] show ?thesis
        by (auto simp: loop_post_def)
    next
      case (Inr smsgs)
      with 1 True a loop_post_batch [of A s smsgs s1] loop_post_step [of A s s1 q] show ?thesis
        by (auto split: if_splits)
    qed
  next
    case False
    show ?thesis
    proof (cases "f_increment_storage (c_flags (fst s))")
      case True
      obtain r s1 where i: "increment_storage A s = (r, s1)" by (rule prod.exhaust)
      from 1 False True i increment_storage_frame [OF i] increment_storage_Inl [of A s _ s1]
      show ?thesis by (cases r) (auto simp: loop_post_def)
    next
      case F: False
      with 1 False show ?thesis by (auto simp: loop_post_def)
    qed
  qed
qed

lemma check_storage_post:
  assumes "check_storage A s = Some q"
  shows "loop_post A (upd_flags (\<lambda>f. f\<lparr>f_check_storage := True, f_include_topic := True\<rparr>) (fst s), snd s) q"
  using check_storage_loop_post assms unfolding check_storage_def .

text \<open>A storage check that returns has done exactly one of three things: sent a
  batch, which is then exactly what was added to the unacknowledged stored messages, with
  the message count within the limit and the check still on; found nothing, with both
  storage flags cleared and the count reset; or failed, and a \<open>UaidReset\<close> only after the
  limit was exceeded and the user removed. Direct notifications, the deferred user and the
  statistics are untouched.\<close>

theorem check_storage_outcome:
  assumes "check_storage A (c, x) = Some (r, (c', x'))"
  shows "same_session c c' \<and>
    (case r of
       Inr smsgs \<Rightarrow>
         if smsgs = [] then
           c_stored c' = c_stored c \<and> c_sent_from_storage c' = 0 \<and>
           \<not> f_check_storage (c_flags c') \<and> \<not> f_increment_storage (c_flags c')
         else
           (\<exists>msgs. smsgs = map ServerNotif msgs \<and> c_stored c' = c_stored c @ msgs) \<and>
           c_sent_from_storage c' \<le> app_msg_limit A \<and> f_check_storage (c_flags c')
     | Inl e \<Rightarrow>
         e = SmUaidReset \<longrightarrow>
           c_sent_from_storage c' > app_msg_limit A \<and>
           (\<exists>x0. db_remove_user (app_db A) (c_uaid c) x0 = (Inr (), x')))"
  using check_storage_post [OF assms]
  by (auto simp: loop_post_def same_session_def split: sum.splits if_splits)

lemmas storage_read_defs = check_storage_def check_storage_advance_def do_check_storage_def
  check_msg_limit_def increment_storage_def call_db_def

definition one_message :: mem_db where
  "one_message = mem_empty\<lparr>m_messages := [((1, ''k''), sample_notification)]\<rparr>"

lemma one_message_simps [simp]:
  "mem_topic_messages 1 n one_message = []"
  "mem_timestamp_messages 1 None 10 one_message = [sample_notification]"
  by (simp_all add: one_message_def mem_topic_messages_def mem_timestamp_messages_def mem_of_user_def
      mem_empty_def sample_notification_def)

theorem check_storage_outcome_witness:
  "\<exists>c'. check_storage (mem_app 5) (demo_client, one_message) =
     Some (Inr [ServerNotif sample_notification], c', one_message) \<and>
     c_stored c' = [sample_notification] \<and> c_direct c' = []"
proof -
  have c: "c_uaid demo_client = 1" "c_current_timestamp demo_client = None" "c_highest demo_client = None"
    "c_sent_from_storage demo_client = 0" "c_stored demo_client = []" "c_direct demo_client = []"
    by (simp_all add: demo_client_def ack_state_default_def)
  have "\<exists>c'. check_storage (mem_app 5) (demo_client, one_message) =
      Some (Inr [ServerNotif sample_notification], c', one_message)"
    unfolding check_storage_def
    by (subst check_storage_loop.simps)
      (simp add: storage_read_defs mem_app_simps c expired_def sample_notification_def [THEN arg_cong, of n_timestamp]
        sample_notification_def [THEN arg_cong, of n_ttl] fetch_default_def Let_def)
  then obtain c' where c': "check_storage (mem_app 5) (demo_client, one_message) =
      Some (Inr [ServerNotif sample_notification], c', one_message)" ..
  from check_storage_outcome [OF c'] c have "c_stored c' = [sample_notification]" "c_direct c' = []"
    by (auto simp: same_session_def)
  with c' show ?thesis by blast
qed

end
