(* ===== verification/StorageRead.thy ===== *)
theory StorageRead
  imports ServerNotif
begin

text \<open>
  Reading the whole store: the loop of \<open>check_storage\<close> against a store that keeps the
  contract of \<open>DbClient\<close> (\<open>mem_client\<close>). The loop ends, and when it reports nothing, no
  unexpired message of the user is waiting, provided no two of the user's messages share a
  sort key. Without that proviso messages can be skipped at the end of a batch.
\<close>

section \<open>Lists\<close>

lemma length_filter_strict:
  assumes "\<And>y. P y \<Longrightarrow> Q y" and "x \<in> set xs" and "Q x" and "\<not> P x"
  shows "length (filter P xs) < length (filter Q xs)"
proof -
  have "filter P xs = filter P (filter Q xs)"
    using assms(1) by (simp add: filter_filter) (metis (mono_tags, lifting))
  moreover have "x \<in> set (filter Q xs)" using assms(2,3) by simp
  ultimately show ?thesis using assms(4) by (metis length_filter_less)
qed

lemma length_filter_mono:
  assumes "\<And>y. P y \<Longrightarrow> Q y"
  shows "length (filter P xs) \<le> length (filter Q xs)"
proof -
  have "filter P xs = filter P (filter Q xs)"
    using assms by (simp add: filter_filter) (metis (mono_tags, lifting))
  then show ?thesis by (metis length_filter_le)
qed

lemma sorted_take_last:
  assumes "sorted (map f xs)" and "take n xs \<noteq> []" and "x \<in> set xs"
  shows "x \<in> set (take n xs) \<or> f (last (take n xs)) \<le> (f x :: 'b :: linorder)"
proof -
  have "x \<in> set (take n xs) \<or> x \<in> set (drop n xs)"
    using assms(3) by (metis Un_iff append_take_drop_id set_append)
  moreover have "f (last (take n xs)) \<le> f x" if "x \<in> set (drop n xs)"
  proof -
    have "sorted (map f (take n xs) @ map f (drop n xs))"
      using assms(1) by (metis append_take_drop_id map_append)
    then have "\<forall>a \<in> set (take n xs). \<forall>b \<in> set (drop n xs). f a \<le> f b"
      by (simp add: sorted_append)
    with assms(2) that show ?thesis by (meson last_in_set)
  qed
  ultimately show ?thesis by blast
qed

section \<open>A store that keeps the contract\<close>

text \<open>
  The store sits in the world behind \<open>get\<close> and \<open>put\<close>, reading the clock does not change
  it, keys are unique and a topic message sits under its own key without a sort key.
\<close>

definition store_in_world :: "'x sys \<Rightarrow> ('x \<Rightarrow> mem_db) \<Rightarrow> (mem_db \<Rightarrow> 'x \<Rightarrow> 'x) \<Rightarrow> bool" where
  "store_in_world sys get put \<longleftrightarrow>
     (\<forall>m x. get (put m x) = m) \<and> (\<forall>x. get (snd (sys_now_sec sys x)) = get x)"

definition store_ok :: "uuid_lib \<Rightarrow> mem_db \<Rightarrow> bool" where
  "store_ok lib m \<longleftrightarrow> hm_wf (m_messages m) \<and>
     (\<forall>((u, k), n) \<in> set (m_messages m).
        n_topic n \<noteq> None \<longrightarrow> n_sortkey_timestamp n = None \<and> k = deletion_key lib n)"

definition is_topic :: "notification \<Rightarrow> bool" where
  "is_topic n \<longleftrightarrow> n_topic n \<noteq> None"

definition is_after :: "u64 option \<Rightarrow> notification \<Rightarrow> bool" where
  "is_after ts n \<longleftrightarrow> (case n_sortkey_timestamp n of
       None \<Rightarrow> False
     | Some sk \<Rightarrow> n_topic n = None \<and> (case ts of None \<Rightarrow> True | Some t \<Rightarrow> t < sk))"

text \<open>Where the next read of timestamp messages starts.\<close>

definition cursor :: "web_push_client \<Rightarrow> u64 option" where
  "cursor c = (if f_include_topic (c_flags c) then c_current_timestamp c
               else opt_or (c_highest c) (c_current_timestamp c))"

definition unread :: "web_push_client \<Rightarrow> notification \<Rightarrow> bool" where
  "unread c n \<longleftrightarrow> f_include_topic (c_flags c) \<and> is_topic n \<or> is_after (cursor c) n"

definition pending :: "web_push_client \<Rightarrow> mem_db \<Rightarrow> nat" where
  "pending c m =
     length (filter is_topic (mem_of_user (c_uaid c) m)) +
     length (filter (is_after (cursor c)) (mem_of_user (c_uaid c) m))"

lemma mem_topic_messages_eq: "mem_topic_messages uaid n m = take n (filter is_topic (mem_of_user uaid m))"
  by (simp add: mem_topic_messages_def is_topic_def [abs_def])

lemma mem_timestamp_messages_eq:
  "mem_timestamp_messages uaid ts n m =
     take n (sort_key (\<lambda>n. the (n_sortkey_timestamp n)) (filter (is_after ts) (mem_of_user uaid m)))"
  by (simp add: mem_timestamp_messages_def is_after_def [abs_def])

definition mem_delete :: "uuid \<Rightarrow> string list \<Rightarrow> mem_db \<Rightarrow> mem_db" where
  "mem_delete uaid sks m =
     m\<lparr>m_messages := filter (\<lambda>((u, k), n). \<not> (u = uaid \<and> k \<in> set sks)) (m_messages m)\<rparr>"

text \<open>One read of the store, and the deletion of expired topic messages.\<close>

definition storage_batch :: "web_push_client \<Rightarrow> mem_db \<Rightarrow> check_storage_response" where
  "storage_batch c m =
     (let topics = mem_topic_messages (c_uaid c) 11 m;
          ms = mem_timestamp_messages (c_uaid c) (cursor c) 10 m
      in if f_include_topic (c_flags c) \<and> topics \<noteq> []
         then \<lparr>cs_include_topic = True, cs_messages = topics, cs_timestamp = None\<rparr>
         else \<lparr>cs_include_topic = False, cs_messages = ms,
               cs_timestamp = opt_or (if ms = [] then None else n_sortkey_timestamp (last ms)) (cursor c)\<rparr>)"

lemma do_check_storage_mem:
  assumes "app_db A = mem_client (app_uuid A) (app_sys A) get put"
  shows "do_check_storage A (c, x) = (Inr (storage_batch c (get x)), c, x)"
  using assms
  by (cases "f_include_topic (c_flags c)")
    (auto simp: do_check_storage_def call_db_def mem_client_def fetch_default_def cursor_def
      storage_batch_def Let_def)

lemma remove_messages_mem:
  assumes db: "app_db A = mem_client (app_uuid A) (app_sys A) get put"
    and w: "store_in_world (app_sys A) get put"
  shows "\<exists>x'. remove_messages A sks (c, x) = (Inr (), c, x') \<and> get x' = mem_delete (c_uaid c) sks (get x)"
proof (induction sks arbitrary: x)
  case Nil
  show ?case by (simp add: mem_delete_def case_prod_beta)
next
  case (Cons sk sks)
  let ?m = "(get x)\<lparr>m_messages := hm_remove (c_uaid c, sk) (m_messages (get x))\<rparr>"
  have "call_db (db_remove_message (app_db A) (c_uaid c) sk) (c, x) = (Inr (), c, put ?m x)"
    by (simp add: db mem_client_def call_db_def in_world_def)
  moreover from Cons.IH [of "put ?m x"] obtain x' where
    "remove_messages A sks (c, put ?m x) = (Inr (), c, x')"
    "get x' = mem_delete (c_uaid c) sks (get (put ?m x))" by blast
  moreover have "mem_delete (c_uaid c) sks ?m = mem_delete (c_uaid c) (sk # sks) (get x)"
    unfolding mem_delete_def hm_remove_def AList.delete_eq filter_filter
    by (simp, intro arg_cong2 [where f = "\<lambda>p m. m\<lparr>m_messages := p\<rparr>"] filter_cong) auto
  ultimately show ?case using w by (simp add: store_in_world_def)
qed

section \<open>One batch\<close>

definition expired_keys :: "uuid_lib \<Rightarrow> u64 \<Rightarrow> notification list \<Rightarrow> string list" where
  "expired_keys lib now msgs =
     map (deletion_key lib) (filter (\<lambda>m. expired m now \<and> n_sortkey_timestamp m = None) msgs)"

lemma advance_mem:
  assumes db: "app_db A = mem_client (app_uuid A) (app_sys A) get put"
    and w: "store_in_world (app_sys A) get put"
    and resp: "storage_batch c (get x) = resp" and now: "fst (sys_now_sec (app_sys A) x) = now"
  obtains c' x' where
    "check_storage_advance A (c, x) =
       (Inr (map ServerNotif (filter (\<lambda>m. \<not> expired m now) (cs_messages resp))), c', x')"
    "c_uaid c' = c_uaid c" "c_current_timestamp c' = c_current_timestamp c"
    "f_include_topic (c_flags c') = cs_include_topic resp" "c_highest c' = cs_timestamp resp"
    "cs_messages resp = [] \<longrightarrow> \<not> f_check_storage (c_flags c')"
    "cs_messages resp \<noteq> [] \<longrightarrow> f_check_storage (c_flags c') = f_check_storage (c_flags c)"
    "f_increment_storage (c_flags c') = (if cs_messages resp = [] then f_increment_storage (c_flags c)
       else \<not> cs_include_topic resp \<and> cs_timestamp resp \<noteq> None)"
    "get x' = mem_delete (c_uaid c) (expired_keys (app_uuid A) now (cs_messages resp)) (get x)"
proof (cases "cs_messages resp = []")
  case True
  then show ?thesis
    using do_check_storage_mem [OF db, of c x] resp
    by (intro that [of "(upd_flags (\<lambda>f. f\<lparr>f_check_storage := False\<rparr>)
          (upd_ack (\<lambda>a. a\<lparr>a_unacked_stored_highest := cs_timestamp resp\<rparr>)
            (upd_flags (\<lambda>f. f\<lparr>f_include_topic := cs_include_topic resp\<rparr>) c)))\<lparr>c_sent_from_storage := 0\<rparr>" x])
      (auto simp: check_storage_advance_def Let_def expired_keys_def mem_delete_def case_prod_beta)
next
  case False
  obtain x1 where n: "sys_now_sec (app_sys A) x = (now, x1)" using now by (cases "sys_now_sec (app_sys A) x") auto
  with w have g: "get x1 = get x" by (metis snd_conv store_in_world_def)
  let ?c1 = "upd_ack (\<lambda>a. a\<lparr>a_unacked_stored_highest := cs_timestamp resp\<rparr>)
    (upd_flags (\<lambda>f. f\<lparr>f_include_topic := cs_include_topic resp\<rparr>) c)"
  obtain x' where r: "remove_messages A (expired_keys (app_uuid A) now (cs_messages resp)) (?c1, x1) = (Inr (), ?c1, x')"
    and x': "get x' = mem_delete (c_uaid ?c1) (expired_keys (app_uuid A) now (cs_messages resp)) (get x1)"
    using remove_messages_mem [OF db w] by blast
  let ?kept = "filter (\<lambda>m. \<not> expired m now) (cs_messages resp)"
  let ?c3 = "upd_flags (\<lambda>f. f\<lparr>f_increment_storage :=
    \<not> cs_include_topic resp \<and> cs_timestamp resp \<noteq> None\<rparr>) ?c1"
  show ?thesis
    using do_check_storage_mem [OF db, of c x] resp False n r x' g
    by (intro that [of "if ?kept = [] then ?c3 else
          (upd_ack (\<lambda>a. a\<lparr>a_unacked_stored_notifs := a_unacked_stored_notifs a @ ?kept\<rparr>) ?c3)
            \<lparr>c_sent_from_storage := c_sent_from_storage ?c3 + of_nat (length ?kept)\<rparr>" x'])
      (auto simp: check_storage_advance_def Let_def retain_unexpired_eq expired_keys_def split: if_splits)
qed

lemma mem_of_user_delete:
  "mem_of_user uaid (mem_delete uaid sks m) =
     map snd (filter (\<lambda>((u, k), n). u = uaid \<and> k \<notin> set sks) (m_messages m))"
  unfolding mem_of_user_def mem_delete_def
  by (simp, intro arg_cong [where f = "map snd"] filter_cong) auto

lemma mem_of_user_delete_subset: "set (mem_of_user uaid (mem_delete uaid sks m)) \<subseteq> set (mem_of_user uaid m)"
  unfolding mem_of_user_delete unfolding mem_of_user_def by auto

lemma mem_delete_length:
  "length (filter P (mem_of_user uaid (mem_delete uaid sks m))) \<le> length (filter P (mem_of_user uaid m))"
  unfolding mem_of_user_delete unfolding mem_of_user_def filter_map length_map filter_filter
  by (rule length_filter_mono) auto

lemma mem_delete_length_less:
  assumes "((uaid, k), n) \<in> set (m_messages m)" and "k \<in> set sks" and "P n"
  shows "length (filter P (mem_of_user uaid (mem_delete uaid sks m))) < length (filter P (mem_of_user uaid m))"
  unfolding mem_of_user_delete unfolding mem_of_user_def filter_map length_map filter_filter
  by (rule length_filter_strict [where x = "((uaid, k), n)"]) (use assms in auto)

lemma store_ok_delete: "store_ok lib m \<Longrightarrow> store_ok lib (mem_delete uaid sks m)"
  unfolding store_ok_def mem_delete_def by (auto simp: distinct_map_filter)

lemma mem_of_user_entry: "n \<in> set (mem_of_user uaid m) \<longleftrightarrow> (\<exists>k. ((uaid, k), n) \<in> set (m_messages m))"
  by (force simp: mem_of_user_def)

text \<open>The two kinds of batch.\<close>

lemma storage_batch_topics:
  assumes "f_include_topic (c_flags c)" and "mem_topic_messages (c_uaid c) 11 m \<noteq> []"
  shows "storage_batch c m = \<lparr>cs_include_topic = True, cs_messages = mem_topic_messages (c_uaid c) 11 m,
    cs_timestamp = None\<rparr>"
  using assms by (simp add: storage_batch_def Let_def)

lemma storage_batch_stamps:
  assumes "\<not> (f_include_topic (c_flags c) \<and> mem_topic_messages (c_uaid c) 11 m \<noteq> [])"
    and "mem_timestamp_messages (c_uaid c) (cursor c) 10 m = ms" and "ms \<noteq> []"
  shows "storage_batch c m = \<lparr>cs_include_topic = False, cs_messages = ms,
    cs_timestamp = n_sortkey_timestamp (last ms)\<rparr>"
    and "\<exists>l. n_sortkey_timestamp (last ms) = Some l"
proof -
  have "last ms \<in> set ms" using assms(3) by simp
  then have "is_after (cursor c) (last ms)"
    using assms(2) unfolding mem_timestamp_messages_eq by (auto dest: in_set_takeD)
  then show l: "\<exists>l. n_sortkey_timestamp (last ms) = Some l"
    by (auto simp: is_after_def split: option.splits)
  then show "storage_batch c m = \<lparr>cs_include_topic = False, cs_messages = ms,
    cs_timestamp = n_sortkey_timestamp (last ms)\<rparr>"
    using assms by (auto simp: storage_batch_def Let_def)
qed

text \<open>Sort keys tell the user's timestamp messages apart.\<close>

definition sort_keys_distinct :: "uuid \<Rightarrow> mem_db \<Rightarrow> bool" where
  "sort_keys_distinct uaid m \<longleftrightarrow>
     (\<forall>n \<in> set (mem_of_user uaid m). \<forall>n' \<in> set (mem_of_user uaid m).
        n_sortkey_timestamp n = n_sortkey_timestamp n' \<and> n_sortkey_timestamp n \<noteq> None \<longrightarrow> n = n')"

lemma sort_keys_distinct_delete:
  "sort_keys_distinct uaid m \<Longrightarrow> sort_keys_distinct uaid (mem_delete uaid sks m)"
  using mem_of_user_delete_subset [of uaid sks m] unfolding sort_keys_distinct_def by blast

lemma expired_mono: "expired n t \<Longrightarrow> t \<le> t' \<Longrightarrow> expired n t'"
  by (auto simp: expired_def)

text \<open>
  A batch makes progress (of topic messages only when all have expired, the others stay until
  they are acknowledged), and every unread message is in it or is still unread; topic messages
  are left out only when there are more than eleven.
\<close>

lemma topics_step:
  assumes ok: "store_ok lib m" and uaid: "c_uaid c' = c_uaid c"
    and ct: "c_current_timestamp c' = c_current_timestamp c"
    and batch: "f_include_topic (c_flags c)" "mem_topic_messages (c_uaid c) 11 m \<noteq> []"
    and inc: "f_include_topic (c_flags c')"
    and m': "m' = mem_delete (c_uaid c) (expired_keys lib now (mem_topic_messages (c_uaid c) 11 m)) m"
  shows "\<forall>n \<in> set (mem_topic_messages (c_uaid c) 11 m). expired n now \<Longrightarrow> pending c' m' < pending c m"
    and "\<forall>n \<in> set (mem_of_user (c_uaid c) m). unread c n \<longrightarrow>
      expired n now \<or> n \<in> set (mem_of_user (c_uaid c) m') \<and> unread c' n"
    and "cursor c' = cursor c"
proof -
  let ?b = "mem_topic_messages (c_uaid c) 11 m" and ?u = "c_uaid c"
  show cur: "cursor c' = cursor c" using inc batch(1) ct by (simp add: cursor_def)
  have entry: "\<exists>k. ((?u, k), n) \<in> set (m_messages m) \<and> is_topic n \<and> k = deletion_key lib n \<and>
      (expired n now \<longrightarrow> k \<in> set (expired_keys lib now ?b))" if n: "n \<in> set ?b" for n
  proof -
    from n have "n \<in> set (filter is_topic (mem_of_user ?u m))"
      unfolding mem_topic_messages_eq by (rule in_set_takeD)
    then obtain k where k: "((?u, k), n) \<in> set (m_messages m)" and t: "is_topic n"
      by (auto simp: mem_of_user_entry)
    with ok have "n_sortkey_timestamp n = None" "k = deletion_key lib n"
      by (auto simp: store_ok_def is_topic_def)
    with k t n show ?thesis by (auto simp: expired_keys_def)
  qed
  show "pending c' m' < pending c m" if exp: "\<forall>n \<in> set ?b. expired n now"
  proof -
    from batch(2) obtain n0 where n0: "n0 \<in> set ?b" by (cases ?b) auto
    from entry [OF this] exp n0 obtain k0 where k0: "((?u, k0), n0) \<in> set (m_messages m)" "is_topic n0"
      "k0 \<in> set (expired_keys lib now ?b)" by blast
    show ?thesis
    unfolding pending_def uaid cur m'
    by (intro add_less_le_mono mem_delete_length_less [OF k0(1,3)] mem_delete_length) (rule k0(2))
  qed
  show "\<forall>n \<in> set (mem_of_user ?u m). unread c n \<longrightarrow>
      expired n now \<or> n \<in> set (mem_of_user ?u m') \<and> unread c' n"
  proof (intro ballI impI)
    fix n assume n: "n \<in> set (mem_of_user ?u m)" and un: "unread c n"
    from n obtain k where k: "((?u, k), n) \<in> set (m_messages m)" by (auto simp: mem_of_user_entry)
    show "expired n now \<or> n \<in> set (mem_of_user ?u m') \<and> unread c' n"
    proof (cases "k \<in> set (expired_keys lib now ?b)")
      case True
      then obtain n1 where n1: "n1 \<in> set ?b" "k = deletion_key lib n1" "expired n1 now"
        by (auto simp: expired_keys_def)
      with entry [OF n1(1)] have "((?u, k), n1) \<in> set (m_messages m)" by auto
      with k ok have "n = n1" by (auto simp: store_ok_def dest: eq_key_imp_eq_value)
      with n1 show ?thesis by simp
    next
      case False
      with k have "n \<in> set (mem_of_user ?u m')" unfolding m' mem_of_user_delete by force
      with un inc batch(1) cur show ?thesis by (simp add: unread_def)
    qed
  qed
qed

lemma stamps_step:
  assumes uaid: "c_uaid c' = c_uaid c"
    and batch: "\<not> (f_include_topic (c_flags c) \<and> mem_topic_messages (c_uaid c) 11 m \<noteq> [])"
      "mem_timestamp_messages (c_uaid c) (cursor c) 10 m = ms" "ms \<noteq> []"
    and inc: "\<not> f_include_topic (c_flags c')" and hi: "c_highest c' = n_sortkey_timestamp (last ms)"
  shows "pending c' m < pending c m"
    and "sort_keys_distinct (c_uaid c) m \<Longrightarrow> \<forall>n \<in> set (mem_of_user (c_uaid c) m). unread c n \<longrightarrow>
      n \<in> set ms \<or> unread c' n"
    and "unread c' n \<Longrightarrow> \<not> is_topic n \<and> is_after (cursor c') n \<and> unread c n"
    and "cursor c' \<noteq> None"
proof -
  let ?u = "c_uaid c" and ?sk = "\<lambda>n. the (n_sortkey_timestamp n)"
  let ?all = "sort_key ?sk (filter (is_after (cursor c)) (mem_of_user ?u m))"
  obtain l where l: "n_sortkey_timestamp (last ms) = Some l"
    using storage_batch_stamps(2) [OF batch] ..
  have cur: "cursor c' = Some l" using inc hi l by (simp add: cursor_def)
  have ms: "ms = take 10 ?all" using batch(2) unfolding mem_timestamp_messages_eq by simp
  have last: "last ms \<in> set (mem_of_user ?u m)" "is_after (cursor c) (last ms)"
  proof -
    have "last ms \<in> set ?all" using batch(3) ms last_in_set in_set_takeD by metis
    then show "last ms \<in> set (mem_of_user ?u m)" "is_after (cursor c) (last ms)" by auto
  qed
  have imp: "is_after (Some l) n \<Longrightarrow> is_after (cursor c) n" for n
    using last(2) l by (auto simp: is_after_def split: option.splits)
  have "length (filter (is_after (Some l)) (mem_of_user ?u m)) <
      length (filter (is_after (cursor c)) (mem_of_user ?u m))"
    by (rule length_filter_strict [where P = "is_after (Some l)" and Q = "is_after (cursor c)" and x = "last ms", OF imp last])
      (simp_all add: is_after_def l)
  then show "pending c' m < pending c m" by (simp add: pending_def uaid cur)
  show "unread c' n \<Longrightarrow> \<not> is_topic n \<and> is_after (cursor c') n \<and> unread c n"
    using inc imp [of n] cur by (auto simp: unread_def is_after_def is_topic_def split: option.splits)
  show "cursor c' \<noteq> None" by (simp add: cur)
  assume dist: "sort_keys_distinct ?u m"
  show "\<forall>n \<in> set (mem_of_user ?u m). unread c n \<longrightarrow> n \<in> set ms \<or> unread c' n"
  proof (intro ballI impI)
    fix n assume n: "n \<in> set (mem_of_user ?u m)" and un: "unread c n"
    have "\<not> (f_include_topic (c_flags c) \<and> is_topic n)"
      using batch(1) n by (auto simp: mem_topic_messages_eq filter_empty_conv)
    with un have af: "is_after (cursor c) n" by (simp add: unread_def)
    then have "n \<in> set ?all" using n by simp
    from sorted_take_last [of ?sk ?all 10 n] this ms batch(3)
    consider "n \<in> set ms" | "l \<le> ?sk n" using l by (auto simp: sorted_sort_key)
    then show "n \<in> set ms \<or> unread c' n"
    proof cases
      case 1
      then show ?thesis by simp
    next
      case 2
      obtain k where k: "n_sortkey_timestamp n = Some k" "n_topic n = None"
        using af by (auto simp: is_after_def split: option.splits)
      show ?thesis
      proof (cases "k = l")
        case True
        with dist n last k l have "n = last ms" unfolding sort_keys_distinct_def by auto
        with batch(3) show ?thesis by simp
      next
        case False
        with 2 k have "is_after (Some l) n" by (simp add: is_after_def)
        then show ?thesis by (simp add: unread_def cur)
      qed
    qed
  qed
qed

section \<open>The loop on such a store\<close>

text \<open>
  A loop of batches: each batch that comes back empty while there is more to read makes
  what is pending smaller, and what was unread and has not expired stays unread.
\<close>

locale batched_read =
  fixes advance :: "'s \<Rightarrow> ('e + 'm list) \<times> 's"
    and more :: "'s \<Rightarrow> bool"
    and step_inv :: "'s \<Rightarrow> bool"
    and todo :: "'s \<Rightarrow> nat"
    and waiting :: "'s \<Rightarrow> 'n set"
    and gone :: "'n \<Rightarrow> bool"
  assumes step: "step_inv s \<Longrightarrow> more s \<Longrightarrow> advance s = (Inr [], s') \<Longrightarrow>
      step_inv s' \<and> waiting s' \<subseteq> waiting s \<and> (more s' \<longrightarrow> todo s' < todo s \<and> waiting s \<subseteq> waiting s' \<union> Collect gone) \<and>
      (\<not> more s' \<longrightarrow> waiting s \<subseteq> Collect gone)"
begin

text \<open>The loop ends, and where it ends with a result the state before the last batch is known.\<close>

lemma read_all:
  assumes "step_inv s" and "more s"
    and loop: "\<And>s. more s \<Longrightarrow> loop s = (case advance s of
      (Inl e, s1) \<Rightarrow> fail e s1 | (Inr [], s1) \<Rightarrow> loop s1 | (Inr (m # ms), s1) \<Rightarrow> send (m # ms) s1)"
  shows "(\<exists>s0. step_inv s0 \<and> more s0 \<and> waiting s0 \<subseteq> waiting s \<and> waiting s \<subseteq> waiting s0 \<union> Collect gone \<and>
      ((\<exists>e s1. advance s0 = (Inl e, s1) \<and> loop s = fail e s1) \<or>
       (\<exists>m ms s1. advance s0 = (Inr (m # ms), s1) \<and> loop s = send (m # ms) s1))) \<or>
    (\<exists>s1. step_inv s1 \<and> \<not> more s1 \<and> loop s = loop s1 \<and> waiting s \<subseteq> Collect gone)"
  using assms(1,2)
proof (induction "todo s" arbitrary: s rule: less_induct)
  case less
  obtain r s1 where a: "advance s = (r, s1)" by (rule prod.exhaust)
  show ?case
  proof (cases "r = Inr []")
    case False
    then consider e where "r = Inl e" | m ms where "r = Inr (m # ms)"
      by (cases r) (auto simp: neq_Nil_conv)
    then have "(\<exists>e s1. advance s = (Inl e, s1) \<and> loop s = fail e s1) \<or>
        (\<exists>m ms s1. advance s = (Inr (m # ms), s1) \<and> loop s = send (m # ms) s1)"
      using a loop [OF less.prems(2)] by cases auto
    with less.prems show ?thesis by (intro disjI1 exI [of _ s]) simp
  next
    case True
    with a have a': "advance s = (Inr [], s1)" by simp
    with loop [OF less.prems(2)] have eq: "loop s = loop s1" by simp
    note st = step [OF less.prems a']
    show ?thesis
    proof (cases "more s1")
      case True
      with st have t: "todo s1 < todo s" "step_inv s1" "waiting s \<subseteq> waiting s1 \<union> Collect gone"
        "waiting s1 \<subseteq> waiting s" by simp_all
      let ?ends = "\<lambda>s0. (\<exists>e s2. advance s0 = (Inl e, s2) \<and> loop s1 = fail e s2) \<or>
        (\<exists>m ms s2. advance s0 = (Inr (m # ms), s2) \<and> loop s1 = send (m # ms) s2)"
      from less.hyps [OF t(1,2) True]
      consider (last) s0 where "step_inv s0" "more s0" "waiting s0 \<subseteq> waiting s1"
          "waiting s1 \<subseteq> waiting s0 \<union> Collect gone" "?ends s0"
        | (none) s2 where "step_inv s2" "\<not> more s2" "loop s1 = loop s2" "waiting s1 \<subseteq> Collect gone"
        by (elim disjE exE conjE) simp_all
      then show ?thesis
      proof cases
        case (last s0)
        have "waiting s0 \<subseteq> waiting s" "waiting s \<subseteq> waiting s0 \<union> Collect gone"
          using last(3,4) t(3,4) by auto
        with last(1,2,5) show ?thesis unfolding eq
          by - (rule disjI1, rule exI [of _ s0], intro conjI)
      next
        case (none s2)
        have "waiting s \<subseteq> Collect gone" using none(4) t(3) by auto
        with none(1-3) show ?thesis unfolding eq
          by - (rule disjI2, rule exI [of _ s2], intro conjI)
      qed
    next
      case False
      with st eq show ?thesis by blast
    qed
  qed
qed

end

definition mem_session :: "('u, 'x) app_state \<Rightarrow> ('x \<Rightarrow> mem_db) \<Rightarrow> (mem_db \<Rightarrow> 'x \<Rightarrow> 'x) \<Rightarrow> u64 \<Rightarrow> 'x session \<Rightarrow> bool" where
  "mem_session A get put now s \<longleftrightarrow>
     app_db A = mem_client (app_uuid A) (app_sys A) get put \<and> store_in_world (app_sys A) get put \<and>
     (\<forall>x. fst (sys_now_sec (app_sys A) x) \<le> now) \<and>
     store_ok (app_uuid A) (get (snd s)) \<and> sort_keys_distinct (c_uaid (fst s)) (get (snd s))"

definition unread_in :: "('x \<Rightarrow> mem_db) \<Rightarrow> 'x session \<Rightarrow> notification set" where
  "unread_in get s = {n \<in> set (mem_of_user (c_uaid (fst s)) (get (snd s))). unread (fst s) n}"

lemma storage_batch_cases:
  obtains (topics) "f_include_topic (c_flags c)" "mem_topic_messages (c_uaid c) 11 m \<noteq> []"
    | (stamps) ms where "\<not> (f_include_topic (c_flags c) \<and> mem_topic_messages (c_uaid c) 11 m \<noteq> [])"
        "mem_timestamp_messages (c_uaid c) (cursor c) 10 m = ms" "ms \<noteq> []"
    | (none) "\<not> (f_include_topic (c_flags c) \<and> mem_topic_messages (c_uaid c) 11 m \<noteq> [])"
        "mem_timestamp_messages (c_uaid c) (cursor c) 10 m = []"
  by blast

lemma nothing_unread:
  assumes "\<not> (f_include_topic (c_flags c) \<and> mem_topic_messages (c_uaid c) 11 m \<noteq> [])"
    and "mem_timestamp_messages (c_uaid c) (cursor c) 10 m = []"
    and "n \<in> set (mem_of_user (c_uaid c) m)"
  shows "\<not> unread c n"
proof -
  have "filter (is_after (cursor c)) (mem_of_user (c_uaid c) m) = []"
    using assms(2) unfolding mem_timestamp_messages_eq
    by (metis length_0_conv length_sort take_eq_Nil zero_neq_numeral)
  with assms(1,3) show ?thesis
    by (auto simp: unread_def filter_empty_conv mem_topic_messages_eq)
qed

text \<open>One batch read within a session.\<close>

lemma mem_session_batch:
  assumes inv: "mem_session A get put now (c, x)" and check: "f_check_storage (c_flags c)"
  obtains ms t c' x' where
    "check_storage_advance A (c, x) = (Inr (map ServerNotif ms), c', x')"
    "t = fst (sys_now_sec (app_sys A) x)" "t \<le> now" "c_uaid c' = c_uaid c" "mem_session A get put now (c', x')"
    "\<forall>n \<in> set ms. n \<in> unread_in get (c, x) \<and> \<not> expired n t"
    "unread_in get (c', x') \<subseteq> unread_in get (c, x)"
    "\<forall>n \<in> unread_in get (c, x). expired n t \<or> n \<in> set ms \<or>
      f_check_storage (c_flags c') \<and> n \<in> unread_in get (c', x') \<and>
      (if is_topic n then 11 < length (filter is_topic (mem_of_user (c_uaid c) (get x))) else is_after (cursor c') n)"
    "ms = [] \<Longrightarrow> f_check_storage (c_flags c') \<Longrightarrow> pending c' (get x') < pending c (get x)"
    "length (filter is_topic (mem_of_user (c_uaid c) (get x'))) \<le> length (filter is_topic (mem_of_user (c_uaid c) (get x)))"
    "f_increment_storage (c_flags c') \<and> (cursor c' = None \<or> \<not> f_check_storage (c_flags c') \<and> c_highest c' = None) \<Longrightarrow>
      f_increment_storage (c_flags c) \<and> cursor c = None"
proof -
  define t b where "t = fst (sys_now_sec (app_sys A) x)" and "b = storage_batch c (get x)"
  define ms keys where "ms = filter (\<lambda>m. \<not> expired m t) (cs_messages b)"
    and "keys = expired_keys (app_uuid A) t (cs_messages b)"
  from inv have db: "app_db A = mem_client (app_uuid A) (app_sys A) get put"
    and w: "store_in_world (app_sys A) get put" and now: "t \<le> now"
    and ok: "store_ok (app_uuid A) (get x)" and dist: "sort_keys_distinct (c_uaid c) (get x)"
    by (simp_all add: mem_session_def t_def)
  obtain c' x' where a: "check_storage_advance A (c, x) = (Inr (map ServerNotif ms), c', x')"
    and c': "c_uaid c' = c_uaid c" "c_current_timestamp c' = c_current_timestamp c"
      "f_include_topic (c_flags c') = cs_include_topic b" "c_highest c' = cs_timestamp b"
      "cs_messages b = [] \<longrightarrow> \<not> f_check_storage (c_flags c')"
      "cs_messages b \<noteq> [] \<longrightarrow> f_check_storage (c_flags c') = f_check_storage (c_flags c)"
      "f_increment_storage (c_flags c') = (if cs_messages b = [] then f_increment_storage (c_flags c)
         else \<not> cs_include_topic b \<and> cs_timestamp b \<noteq> None)"
    and x': "get x' = mem_delete (c_uaid c) keys (get x)"
    using advance_mem [OF db w b_def [symmetric] t_def [symmetric]] unfolding ms_def keys_def by blast
  have inv': "mem_session A get put now (c', x')"
    using inv by (simp add: mem_session_def c' x' store_ok_delete sort_keys_distinct_delete)
  have sub: "set (mem_of_user (c_uaid c) (get x')) \<subseteq> set (mem_of_user (c_uaid c) (get x))"
    unfolding x' by (rule mem_of_user_delete_subset)
  have fewer: "length (filter is_topic (mem_of_user (c_uaid c) (get x'))) \<le>
      length (filter is_topic (mem_of_user (c_uaid c) (get x)))"
    unfolding x' by (rule mem_delete_length)
  let ?G = "(\<forall>n \<in> set (cs_messages b). n \<in> unread_in get (c, x)) \<and>
    (\<forall>n. unread c' n \<longrightarrow> unread c n) \<and>
    (\<forall>n \<in> unread_in get (c, x). expired n t \<or> n \<in> set (cs_messages b) \<or>
      f_check_storage (c_flags c') \<and> n \<in> unread_in get (c', x') \<and>
      (if is_topic n then 11 < length (filter is_topic (mem_of_user (c_uaid c) (get x))) else is_after (cursor c') n)) \<and>
    (ms = [] \<and> f_check_storage (c_flags c') \<longrightarrow> pending c' (get x') < pending c (get x)) \<and>
    (f_increment_storage (c_flags c') \<and> (cursor c' = None \<or> \<not> f_check_storage (c_flags c') \<and> c_highest c' = None) \<longrightarrow>
      f_increment_storage (c_flags c) \<and> cursor c = None)"
  have all_expired: "ms = [] \<Longrightarrow> \<forall>n \<in> set (cs_messages b). expired n t"
    by (auto simp: ms_def filter_empty_conv)
  have "?G"
  proof (cases rule: storage_batch_cases [of c "get x"])
    case topics
    note b = storage_batch_topics [OF topics, folded b_def]
    let ?topics = "filter is_topic (mem_of_user (c_uaid c) (get x))"
    have m: "cs_messages b = take 11 ?topics" using b by (simp add: mem_topic_messages_eq)
    have inc: "f_include_topic (c_flags c')" using c'(3) b by simp
    have keys: "get x' = mem_delete (c_uaid c) (expired_keys (app_uuid A) t (mem_topic_messages (c_uaid c) 11 (get x))) (get x)"
      using x' b by (simp add: keys_def)
    note st = topics_step [OF ok c'(1,2) topics inc keys]
    have on: "f_check_storage (c_flags c')" using c'(6) b topics(2) check by simp
    have read: "n \<in> unread_in get (c, x)" if "n \<in> set (cs_messages b)" for n
      using that topics(1) unfolding m by (auto simp: unread_in_def unread_def dest: in_set_takeD)
    have left: "11 < length ?topics" if "n \<in> set ?topics" "n \<notin> set (cs_messages b)" for n
      using that unfolding m by (metis linorder_not_less take_all)
    show ?thesis
    proof (intro conjI ballI allI impI)
      show "n \<in> set (cs_messages b) \<Longrightarrow> n \<in> unread_in get (c, x)" for n by (rule read)
      show "unread c' n \<Longrightarrow> unread c n" for n using st(3) topics(1) by (auto simp: unread_def)
      fix n assume n: "n \<in> unread_in get (c, x)"
      show "expired n t \<or> n \<in> set (cs_messages b) \<or>
        f_check_storage (c_flags c') \<and> n \<in> unread_in get (c', x') \<and>
        (if is_topic n then 11 < length ?topics else is_after (cursor c') n)"
      proof (cases "expired n t \<or> n \<in> set (cs_messages b)")
        case False
        with n st(2) have u: "n \<in> unread_in get (c', x')" by (auto simp: unread_in_def c'(1))
        have "if is_topic n then 11 < length ?topics else is_after (cursor c') n"
          using n False left [of n] st(3) by (auto simp: unread_in_def unread_def)
        with u on show ?thesis by simp
      qed blast
    next
      assume "ms = [] \<and> f_check_storage (c_flags c')"
      then show "pending c' (get x') < pending c (get x)" using st(1) all_expired b by simp
    qed (use c'(7) b topics(2) in simp_all)
  next
    case (stamps ms0)
    note b = storage_batch_stamps [OF stamps, folded b_def]
    have cur: "n \<in> set (mem_of_user (c_uaid c) (get x)) \<and> is_after (cursor c) n" if "n \<in> set ms0" for n
    proof -
      have "n \<in> set (filter (is_after (cursor c)) (mem_of_user (c_uaid c) (get x)))"
        using that stamps(2) unfolding mem_timestamp_messages_eq by (metis in_set_takeD set_sort)
      then show ?thesis by simp
    qed
    then have "n_sortkey_timestamp n \<noteq> None" if "n \<in> set ms0" for n
      using that by (force simp: is_after_def split: option.splits)
    then have "keys = []" using b(1) by (auto simp: keys_def expired_keys_def filter_empty_conv)
    then have same: "get x' = get x" using x' by (simp add: mem_delete_def case_prod_beta)
    note st = stamps_step [OF c'(1) stamps _ _]
    have inc: "\<not> f_include_topic (c_flags c')" "c_highest c' = n_sortkey_timestamp (last ms0)"
      using c'(3,4) b(1) by simp_all
    have on: "f_check_storage (c_flags c')" using c'(6) b(1) stamps(3) check by simp
    note sp = st(1) [OF inc] and unr = st(2) [OF inc dist] and st3 = st(3) [OF inc] and st4 = st(4) [OF inc]
    show ?thesis
    proof (intro conjI ballI allI impI)
      show "n \<in> set (cs_messages b) \<Longrightarrow> n \<in> unread_in get (c, x)" for n
        using cur [of n] b(1) by (simp add: unread_in_def unread_def)
      show "unread c' n \<Longrightarrow> unread c n" for n using st3 by blast
      show "expired n t \<or> n \<in> set (cs_messages b) \<or>
        f_check_storage (c_flags c') \<and> n \<in> unread_in get (c', x') \<and>
        (if is_topic n then 11 < length (filter is_topic (mem_of_user (c_uaid c) (get x))) else is_after (cursor c') n)"
        if n: "n \<in> unread_in get (c, x)" for n
      proof (cases "n \<in> set ms0")
        case True
        with b(1) show ?thesis by simp
      next
        case False
        with n unr have u: "unread c' n" "n \<in> set (mem_of_user (c_uaid c) (get x))" by (auto simp: unread_in_def)
        with st3 [OF u(1)] on same show ?thesis by (simp add: unread_in_def c'(1))
      qed
    next
      show "pending c' (get x') < pending c (get x)" using sp same by simp
    qed (use st4 on in auto)
  next
    case none
    then have b: "cs_messages b = []" "cs_timestamp b = cursor c" "\<not> cs_include_topic b"
      by (auto simp: b_def storage_batch_def Let_def)
    have "cursor c' = None \<or> c_highest c' = None \<Longrightarrow> cursor c = None"
      using b(2,3) c'(2,3,4) by (auto simp: cursor_def split: option.splits)
    moreover have "unread c' n \<Longrightarrow> unread c n" for n
      using b(2,3) c'(2,3,4)
      by (cases "cursor c") (auto simp: unread_def cursor_def split: if_splits option.splits)
    ultimately show ?thesis
      using c'(5,7) nothing_unread [OF none] b(1) by (auto simp: unread_in_def)
  qed
  note G1 = conjunct1 [OF this] and G' = conjunct2 [OF this]
  note G2 = conjunct1 [OF G'] and G' = conjunct2 [OF G']
  note G3 = conjunct1 [OF G'] and G4 = conjunct1 [OF conjunct2 [OF G']] and stale = mp [OF conjunct2 [OF conjunct2 [OF G']]]
  note read = bspec [OF G1] and sub' = mp [OF spec [OF G2]] and left = bspec [OF G3] and less = mp [OF G4, OF conjI]
  show ?thesis
  proof (rule that [OF a t_def now c'(1) inv' _ _ _ less fewer stale])
    show "\<forall>n \<in> set ms. n \<in> unread_in get (c, x) \<and> \<not> expired n t" using read by (simp add: ms_def)
    show "unread_in get (c', x') \<subseteq> unread_in get (c, x)" using sub' sub by (auto simp: unread_in_def c'(1))
    show "\<forall>n \<in> unread_in get (c, x). expired n t \<or> n \<in> set ms \<or>
      f_check_storage (c_flags c') \<and> n \<in> unread_in get (c', x') \<and>
      (if is_topic n then 11 < length (filter is_topic (mem_of_user (c_uaid c) (get x))) else is_after (cursor c') n)"
    proof
      fix n assume "n \<in> unread_in get (c, x)"
      from left [OF this] show "expired n t \<or> n \<in> set ms \<or>
        f_check_storage (c_flags c') \<and> n \<in> unread_in get (c', x') \<and>
        (if is_topic n then 11 < length (filter is_topic (mem_of_user (c_uaid c) (get x))) else is_after (cursor c') n)"
        unfolding ms_def set_filter mem_Collect_eq by blast
    qed
  qed
qed

text \<open>
  What holds before every batch of a read: the store keeps its contract, the user has at most
  \<open>k\<close> topic messages, and a pending move of the mark without a position was there from the start.
\<close>

definition read_inv :: "('u, 'x) app_state \<Rightarrow> ('x \<Rightarrow> mem_db) \<Rightarrow> (mem_db \<Rightarrow> 'x \<Rightarrow> 'x) \<Rightarrow> u64 \<Rightarrow> uuid \<Rightarrow> nat \<Rightarrow> bool \<Rightarrow>
    'x session \<Rightarrow> bool" where
  "read_inv A get put now u k stale s \<longleftrightarrow>
     mem_session A get put now s \<and> c_uaid (fst s) = u \<and> length (filter is_topic (mem_of_user u (get (snd s)))) \<le> k \<and>
     (f_increment_storage (c_flags (fst s)) \<and>
        (cursor (fst s) = None \<or> \<not> f_check_storage (c_flags (fst s)) \<and> c_highest (fst s) = None) \<longrightarrow> stale)"

lemma read_inv_step:
  assumes inv: "read_inv A get put now u k stale (c, x)" and check: "f_check_storage (c_flags c)"
    and adv: "check_storage_advance A (c, x) = (Inr [], c', x')"
  shows "read_inv A get put now u k stale (c', x')"
    and "unread_in get (c', x') \<subseteq> unread_in get (c, x)"
    and "f_check_storage (c_flags c') \<Longrightarrow> pending c' (get x') < pending c (get x) \<and>
      unread_in get (c, x) \<subseteq> unread_in get (c', x') \<union> {n. expired n now}"
    and "\<not> f_check_storage (c_flags c') \<Longrightarrow> unread_in get (c, x) \<subseteq> {n. expired n now}"
proof -
  from inv have m: "mem_session A get put now (c, x)" by (simp add: read_inv_def)
  show "read_inv A get put now u k stale (c', x')"
    by (rule mem_session_batch [OF m check]) (use adv inv in \<open>auto simp: read_inv_def\<close>)
  show "unread_in get (c', x') \<subseteq> unread_in get (c, x)"
    by (rule mem_session_batch [OF m check]) (use adv in auto)
  show "\<not> f_check_storage (c_flags c') \<Longrightarrow> unread_in get (c, x) \<subseteq> {n. expired n now}"
    by (rule mem_session_batch [OF m check]) (use adv in \<open>auto dest: expired_mono\<close>)
  show "f_check_storage (c_flags c') \<Longrightarrow> pending c' (get x') < pending c (get x) \<and>
      unread_in get (c, x) \<subseteq> unread_in get (c', x') \<union> {n. expired n now}"
    by (rule mem_session_batch [OF m check]) (use adv in \<open>auto dest: expired_mono\<close>)
qed

interpretation storage_read: batched_read "check_storage_advance A"
  "\<lambda>s. f_check_storage (c_flags (fst s))" "read_inv A get put now u k stale"
  "\<lambda>s. pending (fst s) (get (snd s))" "unread_in get" "\<lambda>n. expired n now" for A get put now u k stale
proof unfold_locales
  fix s s'
  assume inv: "read_inv A get put now u k stale s" and m: "f_check_storage (c_flags (fst s))"
    and a: "check_storage_advance A s = (Inr [], s')"
  obtain c x c' x' where s: "s = (c, x)" "s' = (c', x')" by (cases s; cases s') auto
  from read_inv_step [OF inv [unfolded s] m [unfolded s fst_conv] a [unfolded s]]
  show "read_inv A get put now u k stale s' \<and> unread_in get s' \<subseteq> unread_in get s \<and>
      (f_check_storage (c_flags (fst s')) \<longrightarrow>
        pending (fst s') (get (snd s')) < pending (fst s) (get (snd s)) \<and>
        unread_in get s \<subseteq> unread_in get s' \<union> Collect (\<lambda>n. expired n now)) \<and>
      (\<not> f_check_storage (c_flags (fst s')) \<longrightarrow> unread_in get s \<subseteq> Collect (\<lambda>n. expired n now))"
    unfolding s by auto
qed

text \<open>What ends a read: the messages found, unless there were too many, or the move of the mark.\<close>

lemma sent_or_reset:
  assumes "app_db A = mem_client (app_uuid A) (app_sys A) get put"
  shows "andThen (check_msg_limit A s1) (\<lambda>_ s2. (Inr smsgs, s2)) =
    (if app_msg_limit A < c_sent_from_storage (fst s1)
     then (Inl SmUaidReset, fst s1, snd (db_remove_user (app_db A) (c_uaid (fst s1)) (snd s1))) else (Inr smsgs, s1))"
  using assms by (cases s1) (simp add: check_msg_limit_def call_db_def mem_client_def in_world_def)

lemma increment_storage_mem:
  assumes "app_db A = mem_client (app_uuid A) (app_sys A) get put"
  shows "\<exists>r s'. increment_storage A s = (r, s') \<and>
    (case r of Inr _ \<Rightarrow> True | Inl e \<Rightarrow> c_highest (fst s) = None \<and> (\<exists>msg. e = SmInternal msg))"
  using assms by (cases s) (simp add: increment_storage_def call_db_def mem_client_def in_world_def Let_def split: option.split)

text \<open>Claim C4. Reading storage always ends on a store that keeps the contract of
  \<open>DbClient\<close>, and misses nothing. It answers with messages of the user that were waiting (a
  topic, or after the session's stored position) and had not expired. Every other waiting
  message has expired, or is left for the next read: still in the store, and a topic message
  only when there are more than the eleven of a batch, a timestamp message only after the
  position where the next read starts; nothing is left when the answer is empty. An error
  means that more was sent than the limit allows, or that the session was already to move its
  mark without having one. (No two messages of the user may share a sort key.)\<close>

theorem storage_check_drains:
  assumes "mem_session A get put now (c, x)"
  shows "\<exists>r c' x'. check_storage A (c, x) = Some (r, c', x') \<and>
    (case r of
       Inr smsgs \<Rightarrow> \<exists>ms t. smsgs = map ServerNotif ms \<and> (\<exists>y. t = fst (sys_now_sec (app_sys A) y)) \<and>
         (\<forall>n \<in> set ms. n \<in> set (mem_of_user (c_uaid c) (get x)) \<and>
            (is_topic n \<or> is_after (c_current_timestamp c) n) \<and> \<not> expired n t) \<and>
         (\<forall>n \<in> set (mem_of_user (c_uaid c) (get x)). is_topic n \<or> is_after (c_current_timestamp c) n \<longrightarrow>
            expired n now \<or> n \<in> set ms \<or>
            ms \<noteq> [] \<and> f_check_storage (c_flags c') \<and> n \<in> set (mem_of_user (c_uaid c) (get x')) \<and>
            (if is_topic n then 11 < length (filter is_topic (mem_of_user (c_uaid c) (get x)))
             else is_after (cursor c') n))
     | Inl e \<Rightarrow> e = SmUaidReset \<and> app_msg_limit A < c_sent_from_storage c' \<or>
         (\<exists>msg. e = SmInternal msg) \<and> f_increment_storage (c_flags c) \<and> c_current_timestamp c = None)"
proof -
  let ?c = "upd_flags (\<lambda>f. f\<lparr>f_check_storage := True, f_include_topic := True\<rparr>) c"
  let ?u = "c_uaid c" let ?topics = "\<lambda>y. length (filter is_topic (mem_of_user ?u (get y)))"
  let ?stale = "f_increment_storage (c_flags c) \<and> c_current_timestamp c = None"
  let ?fail = "\<lambda>e s1. Some (Inl e, s1)"
    and ?send = "\<lambda>smsgs s1. Some (andThen (check_msg_limit A s1) (\<lambda>_ s2. (Inr smsgs, s2)))"
  have db: "app_db A = mem_client (app_uuid A) (app_sys A) get put" using assms by (simp add: mem_session_def)
  have inv: "read_inv A get put now ?u (?topics x) ?stale (?c, x)"
    using assms by (auto simp: read_inv_def mem_session_def cursor_def)
  have waiting: "n \<in> unread_in get (?c, x) \<longleftrightarrow>
      n \<in> set (mem_of_user ?u (get x)) \<and> (is_topic n \<or> is_after (c_current_timestamp c) n)" for n
    by (simp add: unread_in_def unread_def cursor_def)
  have "check_storage_loop A s = (case check_storage_advance A s of
      (Inl e, s1) \<Rightarrow> ?fail e s1 | (Inr [], s1) \<Rightarrow> check_storage_loop A s1
    | (Inr (m # ms), s1) \<Rightarrow> ?send (m # ms) s1)" if "f_check_storage (c_flags (fst s))" for s
    using that by (subst check_storage_loop.simps) (auto split: prod.splits sum.splits list.splits)
  from storage_read.read_all [OF inv _ this]
  consider (last) s0 where "read_inv A get put now ?u (?topics x) ?stale s0" "f_check_storage (c_flags (fst s0))"
      "unread_in get s0 \<subseteq> unread_in get (?c, x)" "unread_in get (?c, x) \<subseteq> unread_in get s0 \<union> {n. expired n now}"
      "(\<exists>e s1. check_storage_advance A s0 = (Inl e, s1) \<and> check_storage A (c, x) = ?fail e s1) \<or>
       (\<exists>m ms s1. check_storage_advance A s0 = (Inr (m # ms), s1) \<and> check_storage A (c, x) = ?send (m # ms) s1)"
    | (empty) s1 where "read_inv A get put now ?u (?topics x) ?stale s1" "\<not> f_check_storage (c_flags (fst s1))"
        "check_storage A (c, x) = check_storage_loop A s1" "unread_in get (?c, x) \<subseteq> {n. expired n now}"
    by (auto simp: check_storage_def)
  then show ?thesis
  proof cases
    case (last s0)
    obtain c0 x0 where s0: "s0 = (c0, x0)" by (rule prod.exhaust)
    from last(1) have m0: "mem_session A get put now (c0, x0)" and u0: "c_uaid c0 = ?u"
      and few: "?topics x0 \<le> ?topics x" by (simp_all add: read_inv_def s0)
    obtain ms t c' x' where adv: "check_storage_advance A (c0, x0) = (Inr (map ServerNotif ms), c', x')"
      and t: "t = fst (sys_now_sec (app_sys A) x0)" "t \<le> now" and u': "c_uaid c' = c_uaid c0"
      and sent: "\<forall>n \<in> set ms. n \<in> unread_in get (c0, x0) \<and> \<not> expired n t"
      and left: "\<forall>n \<in> unread_in get (c0, x0). expired n t \<or> n \<in> set ms \<or>
        f_check_storage (c_flags c') \<and> n \<in> unread_in get (c', x') \<and>
        (if is_topic n then 11 < length (filter is_topic (mem_of_user (c_uaid c0) (get x0))) else is_after (cursor c') n)"
      by (rule mem_session_batch [OF m0 last(2) [unfolded s0 fst_conv]]) (rule that)
    from last(5) adv have ms: "ms \<noteq> []" and res: "check_storage A (c, x) = ?send (map ServerNotif ms) (c', x')"
      by (auto simp: s0)
    have sent': "n \<in> set (mem_of_user ?u (get x)) \<and> (is_topic n \<or> is_after (c_current_timestamp c) n) \<and> \<not> expired n t"
      if "n \<in> set ms" for n
      using sent that last(3) waiting [of n] unfolding s0 by blast
    have left': "expired n now \<or> n \<in> set ms \<or>
        ms \<noteq> [] \<and> f_check_storage (c_flags c') \<and> n \<in> set (mem_of_user ?u (get x')) \<and>
        (if is_topic n then 11 < ?topics x else is_after (cursor c') n)"
      if n: "n \<in> set (mem_of_user ?u (get x))" "is_topic n \<or> is_after (c_current_timestamp c) n" for n
    proof -
      from n waiting [of n] last(4) consider "expired n now" | "n \<in> unread_in get (c0, x0)" unfolding s0 by blast
      then show ?thesis
      proof cases
        case 2
        with left consider "expired n t" | "n \<in> set ms" | "f_check_storage (c_flags c')" "n \<in> unread_in get (c', x')"
          "if is_topic n then 11 < ?topics x0 else is_after (cursor c') n" unfolding u0 by blast
        then show ?thesis
          by cases (use t(2) ms few u' u0 in \<open>auto simp: unread_in_def dest: expired_mono split: if_splits\<close>)
      qed simp
    qed
    show ?thesis
    proof (cases "app_msg_limit A < c_sent_from_storage c'")
      case True
      with res show ?thesis by (auto simp: sent_or_reset [OF db])
    next
      case False
      with res have "check_storage A (c, x) = Some (Inr (map ServerNotif ms), c', x')" by (simp add: sent_or_reset [OF db])
      moreover have "\<exists>y. t = fst (sys_now_sec (app_sys A) y)" using t(1) by blast
      ultimately show ?thesis
        by - (rule exI [of _ "Inr (map ServerNotif ms)"], rule exI [of _ c'], rule exI [of _ x'], rule conjI, assumption,
          simp only: sum.case, rule exI [of _ ms], rule exI [of _ t], intro conjI ballI impI refl sent' left', assumption+)
    qed
  next
    case (empty s1)
    have all: "is_topic n \<or> is_after (c_current_timestamp c) n \<longrightarrow> expired n now"
      if "n \<in> set (mem_of_user ?u (get x))" for n
      using that waiting [of n] empty(4) by blast
    have now: "\<exists>t y. t = fst (sys_now_sec (app_sys A) y)" by blast
    show ?thesis
    proof (cases "f_increment_storage (c_flags (fst s1))")
      case False
      with empty(2,3) have "check_storage A (c, x) = Some (Inr [], fst s1, snd s1)"
        by (subst (asm) check_storage_loop.simps) simp
      with all now show ?thesis by (intro exI [of _ "Inr []"] exI [of _ "fst s1"] exI [of _ "snd s1"]) auto
    next
      case True
      obtain r s2 where i: "increment_storage A s1 = (r, s2)"
        "case r of Inr _ \<Rightarrow> True | Inl e \<Rightarrow> c_highest (fst s1) = None \<and> (\<exists>msg. e = SmInternal msg)"
        using increment_storage_mem [OF db] by blast
      with True empty(2,3) have res: "check_storage A (c, x) =
          Some (andThen (r, s2) (\<lambda>_ s. (Inr [], s)))"
        by (subst (asm) check_storage_loop.simps) simp
      show ?thesis
      proof (cases r)
        case (Inl e)
        with i(2) have "c_highest (fst s1) = None" "\<exists>msg. e = SmInternal msg" by simp_all
        moreover have ?stale using empty(1,2) True calculation(1) by (auto simp: read_inv_def)
        ultimately show ?thesis using res Inl by (intro exI [of _ "Inl e"] exI [of _ "fst s2"] exI [of _ "snd s2"]) simp
      next
        case (Inr u)
        with res all now show ?thesis by (intro exI [of _ "Inr []"] exI [of _ "fst s2"] exI [of _ "snd s2"]) auto
      qed
    qed
  qed
qed

theorem storage_check_drains_witness:
  "\<exists>smsgs c' x'. check_storage (mem_app 5) (demo_client, one_message) = Some (Inr smsgs, c', x') \<and>
     ServerNotif sample_notification \<in> set smsgs"
proof -
  have m: "mem_of_user (c_uaid demo_client) one_message = [sample_notification]"
    by (simp add: mem_of_user_def mem_empty_def demo_client_def one_message_def)
  have inv: "mem_session (mem_app 5) (\<lambda>x. x) (\<lambda>m x. m) 5 (demo_client, one_message)"
    unfolding mem_session_def sort_keys_distinct_def fst_conv snd_conv m
    by (simp add: mem_app_def demo_app_def mem_world_client_def fixed_sys_def store_in_world_def store_ok_def
        mem_empty_def sample_notification_def one_message_def)
  obtain smsgs c' x' where ok: "check_storage (mem_app 5) (demo_client, one_message) = Some (Inr smsgs, c', x')"
    using check_storage_outcome_witness by blast
  have "is_after (c_current_timestamp demo_client) sample_notification" "\<not> expired sample_notification 5"
    by (simp_all add: is_after_def demo_client_def sample_notification_def expired_def)
  moreover from storage_check_drains [OF inv, unfolded m] ok
  obtain ms where "smsgs = map ServerNotif ms" "\<forall>n \<in> set ms. n \<in> set [sample_notification]"
    "\<forall>n \<in> set [sample_notification]. is_topic n \<or> is_after (c_current_timestamp demo_client) n \<longrightarrow>
       expired n 5 \<or> n \<in> set ms \<or> ms \<noteq> []" by (auto simp del: set_simps)
  ultimately have "ServerNotif sample_notification \<in> set smsgs" by (cases ms) auto
  with ok show ?thesis by blast
qed

end
