(* ===== verification/ClientMsg.thy ===== *)
theory ClientMsg
  imports StorageRead "HOL-Library.Multiset"
begin

text \<open>
  What the user agent sends an identified session: \<open>identified/on_client_msg.rs\<close>, and the
  end of a session, \<open>shutdown\<close> in \<open>identified/mod.rs\<close>. The theory models every method
  and shows that acknowledgements remove exactly what they name, that nothing sent directly
  is lost while a session lasts, that storage is not read while messages are outstanding,
  and the effects of registration.
\<close>

section \<open>Registration\<close>

definition do_register ::
  "('u, 'x) app_state \<Rightarrow> uuid \<Rightarrow> string option \<Rightarrow> 'x session \<Rightarrow> (string, 'x) sm_outcome" where
  "do_register A channel_id key s =
     andThen
       (case c_deferred_add_user (fst s) of
          Some user \<Rightarrow>
            andThen (call_db (db_add_user (app_db A) user) s)
              (\<lambda>_ s1. (Inr (), (fst s1)\<lparr>c_deferred_add_user := None\<rparr>, snd s1))
        | None \<Rightarrow> (Inr (), s))
       (\<lambda>_ s1.
         case make_endpoint (app_uuid A) (app_endpoint A) (c_uaid (fst s1)) channel_id key
                (app_endpoint_url A) (snd s1) of
           (Inl e, x2) \<Rightarrow> (Inl (SmMakeEndpoint e), fst s1, x2)
         | (Inr endpoint, x2) \<Rightarrow>
             andThen (call_db (db_add_channel (app_db A) (c_uaid (fst s1)) channel_id) (fst s1, x2))
               (\<lambda>_ s3. (Inr endpoint, s3)))"

definition register ::
  "('u, 'x) app_state \<Rightarrow> string \<Rightarrow> string option \<Rightarrow> 'x session \<Rightarrow> (server_message, 'x) sm_outcome" where
  "register A channel_id_str key s =
     (case uuid_parse (app_uuid A) channel_id_str of
        None \<Rightarrow> (Inl (SmInvalidMessage (''Invalid channelID: '' @ channel_id_str)), s)
      | Some channel_id \<Rightarrow>
          if uuid_hyphenated (app_uuid A) channel_id \<noteq> channel_id_str then
            (Inl (SmInvalidMessage (''Invalid UUID format, not lower-case/dashed: '' @
               uuid_hyphenated (app_uuid A) channel_id)), s)
          else
            (case do_register A channel_id key s of
               (Inr endpoint, s1) \<Rightarrow>
                 (Inr (ServerRegister channel_id 200 endpoint),
                  upd_stats (\<lambda>st. st\<lparr>st_registers := st_registers st + 1\<rparr>) (fst s1), snd s1)
             | (Inl (SmMakeEndpoint msg), s1) \<Rightarrow>
                 (Inr (ServerRegister channel_id 400 ''Failed to generate endpoint''), s1)
             | (Inl e, s1) \<Rightarrow> (Inr (ServerRegister channel_id 500 ''''), s1)))"

definition unregister ::
  "('u, 'x) app_state \<Rightarrow> uuid \<Rightarrow> u32 option \<Rightarrow> 'x session \<Rightarrow> (server_message, 'x) sm_outcome" where
  "unregister A channel_id code s =
     (case call_db (db_remove_channel (app_db A) (c_uaid (fst s)) channel_id) s of
        (Inr _, s1) \<Rightarrow>
          (Inr (ServerUnregister channel_id 200),
           upd_stats (\<lambda>st. st\<lparr>st_unregisters := st_unregisters st + 1\<rparr>) (fst s1), snd s1)
      | (Inl e, s1) \<Rightarrow> (Inr (ServerUnregister channel_id 500), s1))"

section \<open>Broadcasts\<close>

text \<open>\<open>bc\<close> is the server's tracker under its read lock.\<close>

definition broadcast_response :: "broadcast_tracker \<Rightarrow> broadcast list \<Rightarrow> broadcast list \<Rightarrow>
    (string, broadcast_value) hashmap" where
  "broadcast_response bc broadcasts delta =
     (let response = vec_into_hashmap delta;
          missing = missing_broadcasts bc broadcasts
      in if missing \<noteq> [] then hm_insert ''errors'' (BNested (vec_into_hashmap missing)) response
         else response)"

definition broadcast_subscribe ::
  "broadcast_tracker \<Rightarrow> (string, string) hashmap \<Rightarrow> 'x session \<Rightarrow>
     (server_message option, 'x) sm_outcome" where
  "broadcast_subscribe bc broadcasts0 s =
     (let broadcasts = from_hashmap broadcasts0;
          (delta, subs) = subscribe_to_broadcasts bc (c_broadcast_subs (fst s)) broadcasts;
          response = broadcast_response bc broadcasts (case delta of None \<Rightarrow> [] | Some d \<Rightarrow> d)
      in (Inr (if response \<noteq> [] then Some (ServerBroadcast response) else None),
          (fst s)\<lparr>c_broadcast_subs := subs\<rparr>, snd s))"

section \<open>Acknowledgements\<close>

definition acks :: "client_ack \<Rightarrow> notification \<Rightarrow> bool" where
  "acks u n \<longleftrightarrow> n_channel_id n = ack_channel_id u \<and> n_version n = ack_version u"

fun ack_updates :: "('u, 'x) app_state \<Rightarrow> client_ack list \<Rightarrow> 'x session \<Rightarrow> (unit, 'x) sm_outcome" where
  "ack_updates A [] s = (Inr (), s)"
| "ack_updates A (u # updates) s =
     (case position (acks u) (c_direct (fst s)) of
        Some pos \<Rightarrow>
          ack_updates A updates
            (upd_stats (\<lambda>st. st\<lparr>st_direct_acked := st_direct_acked st + 1\<rparr>)
              (upd_ack (\<lambda>a. a\<lparr>a_unacked_direct_notifs := remove_at pos (a_unacked_direct_notifs a)\<rparr>) (fst s)),
             snd s)
      | None \<Rightarrow>
          (case position (acks u) (c_stored (fst s)) of
             Some pos \<Rightarrow>
               (let n = c_stored (fst s) ! pos in
                andThen
                  (if n_sortkey_timestamp n = None then
                     (let (key, x1) = chidmessageid (app_uuid A) (app_sys A) n (snd s) in
                      call_db (db_remove_message (app_db A) (c_uaid (fst s)) key) (fst s, x1))
                   else (Inr (), s))
                  (\<lambda>_ s1. ack_updates A updates
                    (upd_stats (\<lambda>st. st\<lparr>st_stored_acked := st_stored_acked st + 1\<rparr>)
                      (upd_ack (\<lambda>a. a\<lparr>a_unacked_stored_notifs :=
                         remove_at pos (a_unacked_stored_notifs a)\<rparr>) (fst s1)),
                     snd s1)))
           | None \<Rightarrow> ack_updates A updates s))"

text \<open>The end of \<open>post_process_all_acked\<close>, after all storage has been read.\<close>

definition reset_old_record ::
  "('u, 'x) app_state \<Rightarrow> 'x session \<Rightarrow> (server_message list, 'x) sm_outcome" where
  "reset_old_record A s =
     (if f_old_record_version (c_flags (fst s)) then
        andThen (call_db (db_remove_user (app_db A) (c_uaid (fst s))) s) (\<lambda>_ s1. (Inl SmUaidReset, s1))
      else (Inr [], s))"

definition post_process_all_acked ::
  "('u, 'x) app_state \<Rightarrow> 'x session \<Rightarrow> (server_message list, 'x) sm_outcome option" where
  "post_process_all_acked A s =
     (if f_check_storage (c_flags (fst s)) then
        thenLoop
          (if f_increment_storage (c_flags (fst s)) then increment_storage A s else (Inr (), s))
          (\<lambda>_ s1. bindLoop (check_storage_loop A s1) (\<lambda>smsgs s2.
             if smsgs \<noteq> [] then Some (Inr smsgs, s2) else Some (reset_old_record A s2)))
      else Some (reset_old_record A s))"

definition ack ::
  "('u, 'x) app_state \<Rightarrow> client_ack list \<Rightarrow> 'x session \<Rightarrow>
     (server_message list, 'x) sm_outcome option" where
  "ack A updates s =
     thenLoop (ack_updates A updates s) (\<lambda>_ s1.
       if unacked_notifs (c_ack_state (fst s1)) then Some (Inr [], s1) else post_process_all_acked A s1)"

definition nack :: "i32 option \<Rightarrow> web_push_client \<Rightarrow> web_push_client" where
  "nack code c = upd_stats (\<lambda>st. st\<lparr>st_nacks := st_nacks st + 1\<rparr>) c"

definition ping :: "('u, 'x) app_state \<Rightarrow> 'x session \<Rightarrow> (server_message, 'x) sm_outcome" where
  "ping A s =
     (let (now, x1) = sys_now_sec (app_sys A) (snd s) in
      if now - c_last_ping (fst s) \<ge> 45 then
        (let (last, x2) = sys_now_sec (app_sys A) x1 in
         (Inr ServerPing, (fst s)\<lparr>c_last_ping := last\<rparr>, x2))
      else (Inl SmExcessivePing, fst s, x1))"

section \<open>The handler\<close>

abbreviation one_reply :: "(server_message, 'x) sm_outcome \<Rightarrow> (server_message list, 'x) sm_outcome" where
  "one_reply r \<equiv> andThen r (\<lambda>smsg s. (Inr [smsg], s))"

definition on_client_msg ::
  "('u, 'x) app_state \<Rightarrow> broadcast_tracker \<Rightarrow> client_message \<Rightarrow> 'x session \<Rightarrow>
     (server_message list, 'x) sm_outcome option" where
  "on_client_msg A bc msg s = (case msg of
       ClientHello _ _ _ _ \<Rightarrow> Some (Inl (SmInvalidMessage (''Already Hello'' @ [CHR 0x27] @ ''d'')), s)
     | ClientRegister channel_id key \<Rightarrow> Some (one_reply (register A channel_id key s))
     | ClientUnregister channel_id code \<Rightarrow> Some (one_reply (unregister A channel_id code s))
     | ClientBroadcastSubscribe broadcasts \<Rightarrow>
         Some (andThen (broadcast_subscribe bc broadcasts s)
           (\<lambda>smsg s1. (Inr (case smsg of None \<Rightarrow> [] | Some m \<Rightarrow> [m]), s1)))
     | ClientAcks updates \<Rightarrow> ack A updates s
     | ClientNack code _ \<Rightarrow> Some (Inr [], nack code (fst s), snd s)
     | ClientPing \<Rightarrow> Some (one_reply (ping A s)))"

section \<open>The end of a session\<close>

text \<open>
  \<open>shutdown\<close> takes the direct notifications that were not acknowledged and spawns a task
  that saves them; the task is returned as the list it saves. Its clock reading is logged
  only.
\<close>

definition save_and_notify_unacked_direct_notifs ::
  "web_push_client \<Rightarrow> web_push_client \<times> notification list option" where
  "save_and_notify_unacked_direct_notifs c =
     (let notifs = c_direct c;
          c1 = upd_ack (\<lambda>a. a\<lparr>a_unacked_direct_notifs := []\<rparr>) c
      in if notifs = [] then (c1, None)
         else (upd_stats (\<lambda>st. st\<lparr>st_direct_storage := st_direct_storage st + of_nat (length notifs)\<rparr>) c1,
               Some (map (\<lambda>n. n\<lparr>n_sortkey_timestamp := Some 0\<rparr>) notifs)))"

definition shutdown :: "web_push_client \<Rightarrow> web_push_client \<times> notification list option" where
  "shutdown c = save_and_notify_unacked_direct_notifs c"

text \<open>The spawned task.\<close>

definition save_task ::
  "('u, 'x) app_state \<Rightarrow> uuid \<Rightarrow> u64 \<Rightarrow> notification list \<Rightarrow> 'x \<Rightarrow> (sm_error, unit, 'x) outcome" where
  "save_task A uaid connected_at notifs x =
     andThen (mapErr SmDatabase (db_save_messages (app_db A) uaid notifs x)) (\<lambda>_ x1.
       andThen (mapErr SmDatabase (db_get_user (app_db A) uaid x1)) (\<lambda>found x2.
         case found of
           None \<Rightarrow> (Inl (SmInternal (''User not found for unacked direct notifs: '' @
                      uuid_hyphenated (app_uuid A) uaid)), x2)
         | Some user \<Rightarrow>
             if connected_at = u_connected_at user then (Inr (), x2)
             else (case u_node_id user of
                     Some node_id \<Rightarrow>
                       mapErr SmReqwest
                         (app_http_put A (node_id @ ''/notif/'' @ uuid_simple (app_uuid A) uaid) x2)
                   | None \<Rightarrow> (Inr (), x2))))"

section \<open>What acknowledgements remove\<close>

text \<open>
  Acknowledgements name notifications by channel and version, so what is outstanding is a
  multiset of such names.
\<close>

definition name_of :: "notification \<Rightarrow> uuid \<times> string" where
  "name_of n = (n_channel_id n, n_version n)"

definition acked_name :: "client_ack \<Rightarrow> uuid \<times> string" where
  "acked_name u = (ack_channel_id u, ack_version u)"

definition names :: "notification list \<Rightarrow> (uuid \<times> string) multiset" where
  "names ns = image_mset name_of (mset ns)"

definition outstanding :: "web_push_client \<Rightarrow> (uuid \<times> string) multiset" where
  "outstanding c = names (c_direct c) + names (c_stored c)"

abbreviation acked_names :: "client_ack list \<Rightarrow> (uuid \<times> string) multiset" where
  "acked_names us \<equiv> mset (map acked_name us)"

lemma acks_iff: "acks u n \<longleftrightarrow> name_of n = acked_name u"
  by (auto simp: acks_def name_of_def acked_name_def)

lemma names_append [simp]: "names (xs @ ys) = names xs + names ys"
  by (simp add: names_def)

lemma names_Nil [simp]: "names [] = {#}"
  by (simp add: names_def)

lemma names_empty_iff [simp]: "names ns = {#} \<longleftrightarrow> ns = []"
  by (simp add: names_def)

lemma position_acks_None: "position (acks u) ns = None \<Longrightarrow> acked_name u \<notin># names ns"
  by (auto simp: position_None_iff acks_iff names_def)

lemma position_acks_Some:
  assumes "position (acks u) ns = Some i"
  shows "names ns = add_mset (acked_name u) (names (remove_at i ns))"
    and "mset ns = add_mset (ns ! i) (mset (remove_at i ns))"
proof -
  from remove_at_position [OF assms] obtain ys n zs where
    ns: "ns = ys @ n # zs" "acks u n" "length ys = i" "remove_at i ns = ys @ zs" by blast
  then show "names ns = add_mset (acked_name u) (names (remove_at i ns))"
    by (simp add: names_def acks_iff)
  from ns show "mset ns = add_mset (ns ! i) (mset (remove_at i ns))"
    by (auto simp: nth_append)
qed

lemma sub_add_mset: "A \<subseteq># B \<Longrightarrow> A \<subseteq># add_mset x B"
  by (metis add_mset_add_single mset_subset_eq_add_left subset_mset.trans)

text \<open>One update on the two lists.\<close>

definition ack_frame :: "web_push_client \<Rightarrow> web_push_client \<Rightarrow> bool" where
  "ack_frame c c' \<longleftrightarrow>
     c_uaid c' = c_uaid c \<and> c_uid c' = c_uid c \<and> c_ua_info c' = c_ua_info c \<and>
     c_broadcast_subs c' = c_broadcast_subs c \<and> c_flags c' = c_flags c \<and>
     c_highest c' = c_highest c \<and> c_sent_from_storage c' = c_sent_from_storage c \<and>
     c_deferred_add_user c' = c_deferred_add_user c \<and> c_connected_at c' = c_connected_at c \<and>
     c_last_ping c' = c_last_ping c \<and> c_current_timestamp c' = c_current_timestamp c"

lemma ack_frame_refl [simp]: "ack_frame c c"
  by (simp add: ack_frame_def)

lemma ack_frame_trans: "ack_frame a b \<Longrightarrow> ack_frame b c \<Longrightarrow> ack_frame a c"
  by (simp add: ack_frame_def)

lemma ack_updates_Cons_cases:
  obtains (direct) pos where "position (acks u) (c_direct (fst s)) = Some pos"
      "ack_updates A (u # us) s = ack_updates A us
        (upd_stats (\<lambda>st. st\<lparr>st_direct_acked := st_direct_acked st + 1\<rparr>)
          (upd_ack (\<lambda>a. a\<lparr>a_unacked_direct_notifs := remove_at pos (a_unacked_direct_notifs a)\<rparr>) (fst s)), snd s)"
    | (stored) pos x1 where "position (acks u) (c_direct (fst s)) = None"
        "position (acks u) (c_stored (fst s)) = Some pos"
        "ack_updates A (u # us) s = ack_updates A us
          (upd_stats (\<lambda>st. st\<lparr>st_stored_acked := st_stored_acked st + 1\<rparr>)
            (upd_ack (\<lambda>a. a\<lparr>a_unacked_stored_notifs := remove_at pos (a_unacked_stored_notifs a)\<rparr>) (fst s)), x1)"
    | (failed) e x1 where "position (acks u) (c_direct (fst s)) = None"
        "ack_updates A (u # us) s = (Inl (SmDatabase e), fst s, x1)"
    | (unknown) "position (acks u) (c_direct (fst s)) = None" "position (acks u) (c_stored (fst s)) = None"
        "ack_updates A (u # us) s = ack_updates A us s"
proof (cases "position (acks u) (c_direct (fst s))")
  case (Some pos)
  then show ?thesis by (intro direct) simp_all
next
  case d: None
  show ?thesis
  proof (cases "position (acks u) (c_stored (fst s))")
    case None
    with d show ?thesis by (intro unknown) simp_all
  next
    case (Some pos)
    let ?n = "c_stored (fst s) ! pos"
    show ?thesis
    proof (cases "n_sortkey_timestamp ?n")
      case (Some ts)
      with d \<open>position (acks u) (c_stored (fst s)) = Some pos\<close> show ?thesis
        by (intro stored [of pos "snd s"]) (simp_all add: Let_def)
    next
      case None
      let ?op = "db_remove_message (app_db A) (c_uaid (fst s)) (deletion_key (app_uuid A) ?n)"
      consider (err) e x' where "call_db ?op s = (Inl (SmDatabase e), fst s, x')"
        | (ok) x' where "call_db ?op s = (Inr (), fst s, x')"
        by (rule call_db_cases [of ?op "snd s" "fst s"]) auto
      then show ?thesis
        using d Some None
        by cases (auto simp: chidmessageid_no_sortkey intro: failed stored)
    qed
  qed
qed

lemma ack_updates_spec:
  assumes "ack_updates A us s = (r, s')"
  shows "ack_frame (fst s) (fst s') \<and>
    mset (c_direct (fst s')) \<subseteq># mset (c_direct (fst s)) \<and>
    mset (c_stored (fst s')) \<subseteq># mset (c_stored (fst s)) \<and>
    names (c_direct (fst s)) \<subseteq># names (c_direct (fst s')) + acked_names us \<and>
    (case r of
       Inr _ \<Rightarrow> outstanding (fst s') = outstanding (fst s) - acked_names us
     | Inl e \<Rightarrow> (\<exists>d. e = SmDatabase d) \<and> outstanding (fst s) \<subseteq># outstanding (fst s') + acked_names us)"
  using assms
proof (induction us arbitrary: s)
  case Nil
  then show ?case by (auto simp: outstanding_def)
next
  case (Cons u us)
  show ?case
  proof (cases rule: ack_updates_Cons_cases [of u s A us])
    case (direct pos)
    let ?s = "(upd_stats (\<lambda>st. st\<lparr>st_direct_acked := st_direct_acked st + 1\<rparr>)
      (upd_ack (\<lambda>a. a\<lparr>a_unacked_direct_notifs := remove_at pos (a_unacked_direct_notifs a)\<rparr>) (fst s)), snd s)"
    note p = position_acks_Some [OF direct(1)]
    have n: "outstanding (fst s) = add_mset (acked_name u) (outstanding (fst ?s))"
      "names (c_direct (fst s)) = add_mset (acked_name u) (names (c_direct (fst ?s)))"
      using p(1) by (simp_all add: outstanding_def)
    have m: "mset (c_direct (fst ?s)) \<subseteq># mset (c_direct (fst s))" "c_stored (fst ?s) = c_stored (fst s)"
      using p(2) by simp_all
    have f: "ack_frame (fst s) (fst ?s)" by (simp add: ack_frame_def)
    have "ack_updates A us ?s = (r, s')" using Cons.prems unfolding direct(2) .
    from Cons.IH [OF this] n m f show ?thesis
      by (auto simp: split: sum.splits elim: ack_frame_trans intro: subset_mset.trans)
  next
    case (stored pos x1)
    let ?s = "(upd_stats (\<lambda>st. st\<lparr>st_stored_acked := st_stored_acked st + 1\<rparr>)
      (upd_ack (\<lambda>a. a\<lparr>a_unacked_stored_notifs := remove_at pos (a_unacked_stored_notifs a)\<rparr>) (fst s)), x1)"
    note p = position_acks_Some [OF stored(2)]
    have n: "outstanding (fst s) = add_mset (acked_name u) (outstanding (fst ?s))"
      "c_direct (fst ?s) = c_direct (fst s)"
      using p(1) by (simp_all add: outstanding_def)
    have m: "mset (c_stored (fst ?s)) \<subseteq># mset (c_stored (fst s))"
      using p(2) by simp
    have f: "ack_frame (fst s) (fst ?s)" by (simp add: ack_frame_def)
    have "ack_updates A us ?s = (r, s')" using Cons.prems unfolding stored(3) .
    from Cons.IH [OF this] n m f show ?thesis
      by (auto split: sum.splits elim: ack_frame_trans intro: subset_mset.trans sub_add_mset)
  next
    case (failed e x1)
    have "r = Inl (SmDatabase e)" "fst s' = fst s" using Cons.prems unfolding failed(2) by auto
    then show ?thesis by (auto simp: outstanding_def)
  next
    case unknown
    have "acked_name u \<notin># outstanding (fst s)"
      using unknown(1,2) by (simp add: outstanding_def position_acks_None)
    moreover have "acked_name u \<notin># names (c_direct (fst s))"
      using unknown(1) by (rule position_acks_None)
    moreover have "ack_updates A us s = (r, s')" using Cons.prems unfolding unknown(3) .
    ultimately show ?thesis
      using Cons.IH [of s]
      by (auto split: sum.splits intro: sub_add_mset)
  qed
qed

section \<open>After everything is acknowledged\<close>

lemma reset_old_record_Inr: "reset_old_record A s = (Inr smsgs, s') \<longleftrightarrow>
    smsgs = [] \<and> s' = s \<and> \<not> f_old_record_version (c_flags (fst s))"
  by (auto simp: reset_old_record_def andThen_Inr_iff)

lemma reset_old_record_frame: "reset_old_record A s = (r, s') \<Longrightarrow> fst s' = fst s"
  by (cases r) (auto simp: reset_old_record_def andThen_Inl_iff andThen_Inr_iff call_db_Inl_iff call_db_Inr_iff split: if_splits)

lemma reset_old_record_cases:
  assumes "reset_old_record A s = (r, s')"
  obtains (failed) e where "r = Inl e" "same_session (fst s) (fst s')"
    | (kept) "r = Inr []" "s' = s" "\<not> f_old_record_version (c_flags (fst s))"
proof (cases r)
  case (Inl e)
  with reset_old_record_frame [OF assms] show ?thesis by (intro failed) simp_all
next
  case (Inr smsgs)
  with assms show ?thesis by (intro kept) (simp_all add: reset_old_record_Inr)
qed

definition increment_due :: "('u, 'x) app_state \<Rightarrow> 'x session \<Rightarrow> (unit, 'x) sm_outcome" where
  "increment_due A s = (if f_increment_storage (c_flags (fst s)) then increment_storage A s else (Inr (), s))"

lemma increment_due_frame:
  assumes "increment_due A s = (q, s1)" and "f_check_storage (c_flags (fst s))"
  shows "same_session (fst s) (fst s1)" "c_stored (fst s1) = c_stored (fst s)" "f_check_storage (c_flags (fst s1))"
  using assms increment_storage_frame(1,2,4) [of A s q s1] by (auto simp: increment_due_def split: if_splits)

lemma post_process_checked:
  assumes "post_process_all_acked A s = Some (r, s')" and "f_check_storage (c_flags (fst s))"
  obtains (increment) e where "r = Inl e" "increment_due A s = (Inl e, s')"
    | (checked) s1 p s2 where "increment_due A s = (Inr (), s1)" "check_storage_loop A s1 = Some (p, s2)"
        "case p of Inl e \<Rightarrow> r = Inl e \<and> s' = s2
          | Inr smsgs \<Rightarrow> if smsgs \<noteq> [] then r = Inr smsgs \<and> s' = s2 else reset_old_record A s2 = (r, s')"
proof -
  have "thenLoop (increment_due A s) (\<lambda>_ s1. bindLoop (check_storage_loop A s1) (\<lambda>smsgs s2.
      if smsgs \<noteq> [] then Some (Inr smsgs, s2) else Some (reset_old_record A s2))) = Some (r, s')"
    using assms by (simp add: post_process_all_acked_def increment_due_def)
  then show ?thesis
  proof (cases rule: thenLoop_Some_cases)
    case (1 e s1)
    then show ?thesis by (intro increment) simp_all
  next
    case (2 u s1)
    then obtain p s2 where q: "check_storage_loop A s1 = Some (p, s2)"
      and k: "thenLoop (p, s2) (\<lambda>smsgs s2. if smsgs \<noteq> [] then Some (Inr smsgs, s2) else Some (reset_old_record A s2)) = Some (r, s')"
      by (auto simp: bindLoop_Some_iff)
    from k have "case p of Inl e \<Rightarrow> r = Inl e \<and> s' = s2
        | Inr smsgs \<Rightarrow> if smsgs \<noteq> [] then r = Inr smsgs \<and> s' = s2 else reset_old_record A s2 = (r, s')"
      by (cases rule: thenLoop_Some_cases) (auto split: if_splits)
    with 2(1) q show ?thesis by (intro checked) simp_all
  qed
qed

lemma post_process_cases:
  assumes "post_process_all_acked A s = Some (r, s')"
  obtains (failed) e where "r = Inl e" "same_session (fst s) (fst s')"
    | (batch) msgs where "msgs \<noteq> []" "r = Inr (map ServerNotif msgs)" "same_session (fst s) (fst s')"
        "c_stored (fst s') = c_stored (fst s) @ msgs" "c_sent_from_storage (fst s') \<le> app_msg_limit A"
    | (finished) "r = Inr []" "same_session (fst s) (fst s')" "c_stored (fst s') = c_stored (fst s)"
        "\<not> f_check_storage (c_flags (fst s'))" "\<not> f_old_record_version (c_flags (fst s'))"
        "c_sent_from_storage (fst s') = 0 \<or> c_sent_from_storage (fst s') = c_sent_from_storage (fst s)"
proof (cases "f_check_storage (c_flags (fst s))")
  case False
  then have "reset_old_record A s = (r, s')" using assms by (simp add: post_process_all_acked_def)
  then show ?thesis
  proof (cases rule: reset_old_record_cases)
    case kept
    with False show ?thesis by (intro finished) simp_all
  qed (rule failed)
next
  case True
  from assms True show ?thesis
  proof (cases rule: post_process_checked)
    case (increment e)
    with increment_due_frame(1) [OF increment(2) True] show ?thesis by (intro failed) simp_all
  next
    case (checked s1 p s2)
    note i = increment_due_frame [OF checked(1) True]
    note post = check_storage_loop_post [OF checked(2), unfolded loop_post_def]
    have f: "same_session (fst s) (fst s2)" using post same_session_trans [OF i(1)] by (auto split: sum.splits)
    show ?thesis
    proof (cases p)
      case (Inl e)
      with checked(3) f show ?thesis by (intro failed) simp_all
    next
      case (Inr smsgs)
      with post obtain msgs where m: "smsgs = map ServerNotif msgs" "c_stored (fst s2) = c_stored (fst s1) @ msgs"
        by auto
      show ?thesis
      proof (cases "smsgs = []")
        case True
        with checked(3) Inr have "reset_old_record A s2 = (r, s')" by simp
        then show ?thesis
        proof (cases rule: reset_old_record_cases)
          case (failed e)
          with same_session_trans [OF f] show ?thesis by (intro that(1)) simp_all
        next
          case kept
          with True Inr post i m f show ?thesis by (intro finished) simp_all
        qed
      next
        case False
        with checked(3) Inr post i m f show ?thesis by (intro batch [of msgs]) simp_all
      qed
    qed
  qed
qed

lemma ack_frame_fields:
  "ack_frame c c' \<Longrightarrow> c_sent_from_storage c' = c_sent_from_storage c"
  by (simp add: ack_frame_def)

lemma outstanding_empty_iff: "outstanding c = {#} \<longleftrightarrow> \<not> unacked_notifs (c_ack_state c)"
  by (auto simp: outstanding_def unacked_notifs_def)

text \<open>Claim C3. Acknowledgements are exact and storage is read one batch at a time. An \<open>Ack\<close>
  that succeeds removes from what is outstanding exactly the notifications it names (one per
  update); only when it names all of them does the session read storage again, and what it
  then sends is exactly its new set of unacknowledged messages, with the message count
  within the limit.\<close>

theorem ack_one_batch_at_a_time:
  assumes "ack A us (c, x) = Some (Inr smsgs, c', x')"
  shows "(if smsgs = [] then outstanding c' = outstanding c - acked_names us
          else outstanding c \<subseteq># acked_names us \<and> c_direct c' = [] \<and>
               smsgs = map ServerNotif (c_stored c') \<and> c_sent_from_storage c' \<le> app_msg_limit A)"
proof -
  from assms obtain s1 where u: "ack_updates A us (c, x) = (Inr (), s1)"
    and k: "(if unacked_notifs (c_ack_state (fst s1)) then Some (Inr [], s1) else post_process_all_acked A s1)
      = Some (Inr smsgs, c', x')"
    by (auto simp: ack_def thenLoop_Inr_iff)
  have o: "outstanding (fst s1) = outstanding c - acked_names us" using ack_updates_spec [OF u] by simp
  show ?thesis
  proof (cases "unacked_notifs (c_ack_state (fst s1))")
    case True
    with k o show ?thesis by auto
  next
    case False
    then have e: "outstanding c \<subseteq># acked_names us"
      using o outstanding_empty_iff [of "fst s1"] by (simp add: subseteq_mset_def Diff_eq_empty_iff_mset)
    have l: "c_direct (fst s1) = []" "c_stored (fst s1) = []" using False by (simp_all add: unacked_notifs_def)
    from k False have "post_process_all_acked A s1 = Some (Inr smsgs, c', x')" by simp
    then show ?thesis
    proof (cases rule: post_process_cases)
      case (batch msgs)
      with l e show ?thesis by (auto simp: same_session_def)
    next
      case finished
      with l e o show ?thesis by (auto simp: same_session_def outstanding_def)
    qed simp
  qed
qed

section \<open>What every message keeps\<close>

text \<open>
  The identity of the session; the direct notifications a step receives, and the names it
  acknowledges.
\<close>

definition same_identity :: "web_push_client \<Rightarrow> web_push_client \<Rightarrow> bool" where
  "same_identity c c' \<longleftrightarrow> c_uaid c' = c_uaid c \<and> c_uid c' = c_uid c \<and> c_connected_at c' = c_connected_at c"

lemma same_identity_trans: "same_identity a b \<Longrightarrow> same_identity b c \<Longrightarrow> same_identity a c"
  by (simp add: same_identity_def)

lemma same_session_identity: "same_session c c' \<Longrightarrow> same_identity c c'"
  by (simp add: same_session_def same_identity_def)

lemma ack_frame_identity: "ack_frame c c' \<Longrightarrow> same_identity c c'"
  by (simp add: ack_frame_def same_identity_def)

definition acked_in :: "client_message \<Rightarrow> (uuid \<times> string) multiset" where
  "acked_in m = (case m of ClientAcks us \<Rightarrow> acked_names us | _ \<Rightarrow> {#})"

definition direct_in :: "server_notification \<Rightarrow> notification list" where
  "direct_in m = (case m of DirectNotification n \<Rightarrow> if n_ttl n \<noteq> 0 then [n] else [] | _ \<Rightarrow> [])"

text \<open>The world after the saving of a user that was deferred.\<close>

definition deferred_saved :: "('u, 'x) app_state \<Rightarrow> web_push_client \<Rightarrow> 'x \<Rightarrow> 'x \<Rightarrow> bool" where
  "deferred_saved A c x x0 \<longleftrightarrow>
     (case c_deferred_add_user c of None \<Rightarrow> x0 = x | Some user \<Rightarrow> db_add_user (app_db A) user x = (Inr (), x0))"

abbreviation endpoint_for where
  "endpoint_for A c chid key \<equiv>
     make_endpoint (app_uuid A) (app_endpoint A) (c_uaid c) chid key (app_endpoint_url A)"

lemma do_register_cases:
  obtains (unsaved) user e x' where "c_deferred_add_user c = Some user" "db_add_user (app_db A) user x = (Inl e, x')"
      "do_register A chid key (c, x) = (Inl (SmDatabase e), c, x')"
    | (unmade) e x0 x' where "deferred_saved A c x x0" "endpoint_for A c chid key x0 = (Inl e, x')"
      "do_register A chid key (c, x) = (Inl (SmMakeEndpoint e), c\<lparr>c_deferred_add_user := None\<rparr>, x')"
    | (unstored) e ep x0 x1 x' where "deferred_saved A c x x0" "endpoint_for A c chid key x0 = (Inr ep, x1)"
      "db_add_channel (app_db A) (c_uaid c) chid x1 = (Inl e, x')"
      "do_register A chid key (c, x) = (Inl (SmDatabase e), c\<lparr>c_deferred_add_user := None\<rparr>, x')"
    | (stored) ep x0 x1 x' where "deferred_saved A c x x0" "endpoint_for A c chid key x0 = (Inr ep, x1)"
      "db_add_channel (app_db A) (c_uaid c) chid x1 = (Inr (), x')"
      "do_register A chid key (c, x) = (Inr ep, c\<lparr>c_deferred_add_user := None\<rparr>, x')"
proof (cases "\<exists>user e x'. c_deferred_add_user c = Some user \<and> db_add_user (app_db A) user x = (Inl e, x')")
  case True
  then show ?thesis by (elim exE conjE, intro unsaved) (simp_all add: do_register_def call_db_def)
next
  case False
  have keep: "c\<lparr>c_deferred_add_user := None\<rparr> = c" if "c_deferred_add_user c = None" using that by (cases c) simp
  obtain x0 where x0: "deferred_saved A c x x0"
    and run: "do_register A chid key (c, x) =
      (case endpoint_for A c chid key x0 of
         (Inl e, x2) \<Rightarrow> (Inl (SmMakeEndpoint e), c\<lparr>c_deferred_add_user := None\<rparr>, x2)
       | (Inr ep, x2) \<Rightarrow> andThen (call_db (db_add_channel (app_db A) (c_uaid c) chid)
             (c\<lparr>c_deferred_add_user := None\<rparr>, x2)) (\<lambda>_ s3. (Inr ep, s3)))"
  proof (cases "c_deferred_add_user c")
    case None
    then show ?thesis by (intro that [of x])
      (simp_all add: deferred_saved_def do_register_def keep split: prod.split sum.split)
  next
    case (Some user)
    then obtain u x0 where "db_add_user (app_db A) user x = (Inr u, x0)"
      using False by (metis prod.exhaust sum.exhaust)
    with Some show ?thesis by (intro that [of x0]) (simp_all add: deferred_saved_def do_register_def call_db_def split: prod.split sum.split)
  qed
  obtain m x1 where m: "endpoint_for A c chid key x0 = (m, x1)" by (rule prod.exhaust)
  obtain r x' where r: "db_add_channel (app_db A) (c_uaid c) chid x1 = (r, x')" by (rule prod.exhaust)
  show ?thesis
  proof (cases m)
    case (Inl e)
    with m x0 run show ?thesis by (intro unmade) auto
  next
    case (Inr ep)
    with m r x0 run unstored stored show ?thesis by (cases r) (simp_all add: call_db_def)
  qed
qed

lemma do_register_frame:
  assumes "do_register A chid key s = (r, s')"
  shows "\<exists>d. fst s' = (fst s)\<lparr>c_deferred_add_user := d\<rparr>"
proof (cases s)
  case (Pair c x)
  have "c\<lparr>c_deferred_add_user := c_deferred_add_user c\<rparr> = c" by simp
  then show ?thesis
    using assms unfolding Pair by (cases rule: do_register_cases [of c A x chid key]) (metis fst_conv prod.inject)+
qed

definition canonical_id :: "uuid_lib \<Rightarrow> string \<Rightarrow> bool" where
  "canonical_id lib s \<longleftrightarrow> (\<exists>chid. uuid_parse lib s = Some chid \<and> uuid_hyphenated lib chid = s)"

lemma register_parsed:
  assumes "uuid_parse (app_uuid A) cid = Some chid" and "uuid_hyphenated (app_uuid A) chid = cid"
  shows "register A cid key s = (case do_register A chid key s of
      (Inr endpoint, s1) \<Rightarrow> (Inr (ServerRegister chid 200 endpoint),
         upd_stats (\<lambda>st. st\<lparr>st_registers := st_registers st + 1\<rparr>) (fst s1), snd s1)
    | (Inl (SmMakeEndpoint msg), s1) \<Rightarrow> (Inr (ServerRegister chid 400 ''Failed to generate endpoint''), s1)
    | (Inl e, s1) \<Rightarrow> (Inr (ServerRegister chid 500 ''''), s1))"
  using assms by (simp add: register_def)

lemma register_not_canonical:
  assumes "\<not> canonical_id (app_uuid A) cid"
  shows "\<exists>m. register A cid key s = (Inl (SmInvalidMessage m), s)"
  using assms by (cases "uuid_parse (app_uuid A) cid") (auto simp: register_def canonical_id_def)

text \<open>Claim C24. Registration: an identifier that is not the lower-case hyphenated form of a
  UUID is an error that changes nothing; otherwise the client always gets a reply. Status
  200 carries the endpoint made for this user, channel and key, and means that a new user was
  saved first and is no longer deferred and that the channel was then saved. Status 400 means
  that the endpoint could not be made: the user was saved, but the channel was not. Status 500
  means that the database refused the user, which stays deferred, with nothing else tried, or
  that it refused the channel. Only status 200 counts in the session's statistics.\<close>

theorem register_outcome:
  "if canonical_id (app_uuid A) cid then
     (\<exists>chid status ep c' x'. register A cid key (c, x) = (Inr (ServerRegister chid status ep), c', x') \<and>
        uuid_hyphenated (app_uuid A) chid = cid \<and>
        (status = 200 \<and>
           c' = c\<lparr>c_deferred_add_user := None,
                  c_stats := (c_stats c)\<lparr>st_registers := st_registers (c_stats c) + 1\<rparr>\<rparr> \<and>
           (\<exists>x0 x1. deferred_saved A c x x0 \<and> endpoint_for A c chid key x0 = (Inr ep, x1) \<and>
              db_add_channel (app_db A) (c_uaid c) chid x1 = (Inr (), x')) \<or>
         status = 400 \<and> c' = c\<lparr>c_deferred_add_user := None\<rparr> \<and>
           (\<exists>x0 e. deferred_saved A c x x0 \<and> endpoint_for A c chid key x0 = (Inl e, x')) \<or>
         status = 500 \<and> c' = c \<and>
           (\<exists>user e. c_deferred_add_user c = Some user \<and> db_add_user (app_db A) user x = (Inl e, x')) \<or>
         status = 500 \<and> c' = c\<lparr>c_deferred_add_user := None\<rparr> \<and>
           (\<exists>x0 x1 made e. deferred_saved A c x x0 \<and> endpoint_for A c chid key x0 = (Inr made, x1) \<and>
              db_add_channel (app_db A) (c_uaid c) chid x1 = (Inl e, x'))))
   else (\<exists>m. register A cid key (c, x) = (Inl (SmInvalidMessage m), c, x))"
proof (cases "canonical_id (app_uuid A) cid")
  case False
  with register_not_canonical [OF this, of key "(c, x)"] show ?thesis by simp
next
  case True
  then obtain chid where id: "uuid_parse (app_uuid A) cid = Some chid" "uuid_hyphenated (app_uuid A) chid = cid"
    by (auto simp: canonical_id_def)
  note reply = register_parsed [OF id, of key "(c, x)"]
  show ?thesis
  proof (cases rule: do_register_cases [of c A x chid key])
    case unsaved
    with True id(2) reply show ?thesis by simp
  next
    case unmade
    with True id(2) reply show ?thesis by auto
  next
    case unstored
    with True id(2) reply show ?thesis by auto
  next
    case stored
    with True id(2) reply show ?thesis by auto
  qed
qed

lemma register_frame:
  assumes "register A cid key s = (r, s')"
  shows "same_identity (fst s) (fst s') \<and> c_direct (fst s') = c_direct (fst s) \<and>
    c_sent_from_storage (fst s') = c_sent_from_storage (fst s)"
proof (cases "canonical_id (app_uuid A) cid")
  case False
  with assms register_not_canonical [OF this, of key s] show ?thesis by (auto simp: same_identity_def)
next
  case True
  then obtain chid where id: "uuid_parse (app_uuid A) cid = Some chid" "uuid_hyphenated (app_uuid A) chid = cid"
    by (auto simp: canonical_id_def)
  obtain q s1 where d: "do_register A chid key s = (q, s1)" by (rule prod.exhaust)
  from do_register_frame [OF d] obtain u where "fst s1 = (fst s)\<lparr>c_deferred_add_user := u\<rparr>" ..
  moreover have "\<exists>f. fst s' = upd_stats f (fst s1)"
    using assms d register_parsed [OF id, of key s]
    by (auto split: sum.splits sm_error.splits intro: exI [of _ "\<lambda>st. st"])
  ultimately show ?thesis by (auto simp: same_identity_def)
qed

lemma unregister_frame:
  assumes "unregister A chid code s = (r, s')"
  shows "same_identity (fst s) (fst s') \<and> c_direct (fst s') = c_direct (fst s) \<and>
    c_sent_from_storage (fst s') = c_sent_from_storage (fst s) \<and> (\<exists>status. r = Inr (ServerUnregister chid status))"
proof -
  obtain q s1 where q: "call_db (db_remove_channel (app_db A) (c_uaid (fst s)) chid) s = (q, s1)"
    by (rule prod.exhaust)
  from call_db_frame [OF q] assms q show ?thesis
    by (cases q) (auto simp: unregister_def same_identity_def)
qed

definition step_keeps ::
  "('u, 'x) app_state \<Rightarrow> (uuid \<times> string) multiset \<Rightarrow> (uuid \<times> string) multiset \<Rightarrow> web_push_client \<Rightarrow>
     sm_error + server_message list \<Rightarrow> web_push_client \<Rightarrow> bool" where
  "step_keeps A new acked c r c' \<longleftrightarrow>
     same_identity c c' \<and> names (c_direct c) + new \<subseteq># names (c_direct c') + acked \<and>
     (c_sent_from_storage c \<le> app_msg_limit A \<and> (\<exists>ms. r = Inr ms) \<longrightarrow>
        c_sent_from_storage c' \<le> app_msg_limit A)"

lemma ack_step:
  assumes "ack A us s = Some (r, s')"
  shows "step_keeps A {#} (acked_names us) (fst s) r (fst s')"
proof -
  from assms show ?thesis
    unfolding ack_def
  proof (cases rule: thenLoop_Some_cases)
    case (1 e s1)
    with ack_updates_spec [OF 1(1)] show ?thesis by (auto simp: step_keeps_def ack_frame_identity)
  next
    case (2 u s1)
    note sp = ack_updates_spec [OF 2(1)]
    show ?thesis
    proof (cases "unacked_notifs (c_ack_state (fst s1))")
      case True
      with 2(2) sp show ?thesis by (auto simp: step_keeps_def ack_frame_identity ack_frame_fields)
    next
      case False
      with 2(2) have p: "post_process_all_acked A s1 = Some (r, s')" by simp
      have "c_direct (fst s') = c_direct (fst s1)" "same_identity (fst s1) (fst s')"
        using p by (cases rule: post_process_cases; auto simp: same_session_def same_identity_def)+
      moreover have "c_sent_from_storage (fst s1) \<le> app_msg_limit A \<and> r = Inr ms \<longrightarrow>
          c_sent_from_storage (fst s') \<le> app_msg_limit A" for ms
        using p by (cases rule: post_process_cases) auto
      ultimately show ?thesis
        using sp same_identity_trans [OF ack_frame_identity, of "fst s" "fst s1" "fst s'"]
        by (auto simp: step_keeps_def ack_frame_fields)
    qed
  qed
qed

lemma on_client_msg_step:
  assumes "on_client_msg A bc m s = Some (r, s')"
  shows "step_keeps A {#} (acked_in m) (fst s) r (fst s')"
proof (cases m)
  case (ClientRegister cid key)
  obtain q s1 where q: "register A cid key s = (q, s1)" by (rule prod.exhaust)
  from register_frame [OF q] assms q ClientRegister show ?thesis
    by (cases q) (auto simp: on_client_msg_def step_keeps_def acked_in_def)
next
  case (ClientUnregister chid code)
  obtain q s1 where q: "unregister A chid code s = (q, s1)" by (rule prod.exhaust)
  from unregister_frame [OF q] assms q ClientUnregister show ?thesis
    by (auto simp: on_client_msg_def step_keeps_def acked_in_def)
next
  case (ClientAcks us)
  with assms ack_step [of A us s r s'] show ?thesis by (simp add: on_client_msg_def acked_in_def)
next
  case (ClientBroadcastSubscribe bs)
  with assms show ?thesis
    by (auto simp: on_client_msg_def broadcast_subscribe_def step_keeps_def acked_in_def same_identity_def
        Let_def split: prod.splits)
next
  case ClientPing
  with assms show ?thesis
    by (auto simp: on_client_msg_def ping_def step_keeps_def acked_in_def same_identity_def Let_def
        split: prod.splits if_splits)
qed (use assms in \<open>auto simp: on_client_msg_def step_keeps_def acked_in_def same_identity_def nack_def\<close>)

lemma on_server_notif_step:
  assumes "on_server_notif A m s = Some (r, s')"
  shows "step_keeps A (names (direct_in m)) {#} (fst s) r (fst s')"
proof (cases m)
  case CheckStorage
  with assms have "check_storage A s = Some (r, s')" by (simp add: on_server_notif_def)
  from check_storage_post [OF this] CheckStorage show ?thesis
    by (auto simp: loop_post_def step_keeps_def direct_in_def same_session_def same_identity_def
        split: sum.splits if_splits)
next
  case (DirectNotification n)
  with assms show ?thesis
    by (auto simp: on_server_notif_def notif_def step_keeps_def direct_in_def same_identity_def Let_def)
next
  case Disconnect
  with assms show ?thesis
    by (auto simp: on_server_notif_def step_keeps_def direct_in_def same_identity_def)
qed

section \<open>Pings\<close>

text \<open>The rate limit of WebPush pings: while the clock does not run behind the last
  accepted ping, a ping is answered if and only if 45 seconds have passed, and its time is
  then recorded; a refused ping leaves the session as it was. If the clock has stepped back
  behind the last ping the 64-bit difference wraps around and the ping is accepted.\<close>

theorem ping_rate_limit:
  assumes "sys_now_sec (app_sys A) x = (now, x1)" and "sys_now_sec (app_sys A) x1 = (now', x2)"
  shows "ping A (c, x) =
    (if unat (c_last_ping c) + 45 \<le> unat now \<or>
        unat now < unat (c_last_ping c) \<and> unat (c_last_ping c) + 45 \<le> unat now + 2 ^ 64
     then (Inr ServerPing, c\<lparr>c_last_ping := now'\<rparr>, x2)
     else (Inl SmExcessivePing, c, x1))"
proof -
  have "45 \<le> now - c_last_ping c \<longleftrightarrow> unat (c_last_ping c) + 45 \<le> unat now \<or>
      unat now < unat (c_last_ping c) \<and> unat (c_last_ping c) + 45 \<le> unat now + 2 ^ 64"
  proof (cases "c_last_ping c \<le> now")
    case True
    then have "unat (now - c_last_ping c) = unat now - unat (c_last_ping c)" by (simp add: unat_sub)
    with True show ?thesis by (auto simp: word_le_nat_alt)
  next
    case False
    then have "unat (now - c_last_ping c) = unat now + 2 ^ 64 - unat (c_last_ping c)"
      using unsigned_less [of "c_last_ping c"] unsigned_less [of now]
      by (simp add: unat_sub_if_size word_size word_le_nat_alt)
    with False show ?thesis by (auto simp: word_le_nat_alt)
  qed
  with assms show ?thesis by (simp add: ping_def)
qed

theorem ping_rate_limit_witness:
  "fst (ping (mem_app 45) (demo_client, mem_empty)) = Inr ServerPing \<and>
   ping (mem_app 50) (demo_client\<lparr>c_last_ping := 45\<rparr>, mem_empty) =
     (Inl SmExcessivePing, demo_client\<lparr>c_last_ping := 45\<rparr>, mem_empty)"
proof -
  have "sys_now_sec (app_sys (mem_app t)) x = (t, x)" for t x
    by (simp add: mem_app_def demo_app_def fixed_sys_def)
  note p = ping_rate_limit [OF this this]
  show ?thesis by (simp add: p) (simp add: demo_client_def)
qed

text \<open>Two sessions' worth of state for the witness below: a direct and a stored message.\<close>

definition busy_client :: web_push_client where
  "busy_client = demo_client
     \<lparr>c_ack_state := \<lparr>a_unacked_direct_notifs = [sample_notification],
        a_unacked_stored_notifs = [sample_notification\<lparr>n_version := ''w''\<rparr>],
        a_unacked_stored_highest = None\<rparr>\<rparr>"

theorem ack_one_batch_at_a_time_witness:
  "\<exists>c' x'. ack (mem_app 5) [\<lparr>ack_channel_id = 3, ack_version = ''w''\<rparr>] (busy_client, mem_empty) =
     Some (Inr [], c', x') \<and> outstanding c' = {#(3, ''v'')#}"
proof -
  let ?u = "\<lparr>ack_channel_id = 3, ack_version = ''w''\<rparr>"
  have "\<exists>c' x'. ack (mem_app 5) [?u] (busy_client, mem_empty) = Some (Inr [], c', x')"
    by (simp add: ack_def busy_client_def acks_def sample_notification_def unacked_notifs_def)
  then obtain c' x' where a: "ack (mem_app 5) [?u] (busy_client, mem_empty) = Some (Inr [], c', x')" by blast
  from ack_one_batch_at_a_time [OF a] have "outstanding c' = {#(3, ''v'')#}"
    by (simp add: outstanding_def names_def busy_client_def sample_notification_def name_of_def acked_name_def)
  with a show ?thesis by blast
qed

text \<open>A client whose user is not saved yet, as after a first \<open>Hello\<close>.\<close>

definition newcomer :: user where
  "newcomer =
     \<lparr>u_uaid = 1, u_connected_at = 10, u_router_type = ''webpush'', u_router_data = None,
      u_last_connect = None, u_node_id = None, u_record_version = Some 1, u_current_month = None,
      u_current_timestamp = None, u_version = None\<rparr>"

theorem register_outcome_witness:
  "\<exists>ep c' x'. register (mem_app 5) ''7'' None (demo_client\<lparr>c_deferred_add_user := Some newcomer\<rparr>, mem_empty) =
     (Inr (ServerRegister 7 200 ep), c', x') \<and> c_deferred_add_user c' = None \<and>
     ep = ''http://e/wpush/v1/tok'' \<and> hm_get (m_users x') 1 = Some newcomer \<and> mem_channels_of 1 x' = [7]"
proof -
  let ?A = "mem_app 5" and ?c = "demo_client\<lparr>c_deferred_add_user := Some newcomer\<rparr>"
  have id: "uuid_parse (app_uuid ?A) ''7'' = Some 7" "uuid_hyphenated (app_uuid ?A) 7 = ''7''"
    by (simp_all add: mem_app_def demo_app_def decimal_uuids_def is_digit_def digit_val_def
        show_nat.simps [of 7] digit_char_def char_of_eq_iff)
  have made: "make_endpoint (app_uuid ?A) (app_endpoint ?A) uaid chid None (app_endpoint_url ?A) x =
      (Inr ''http://e/wpush/v1/tok'', x)" for uaid chid and x :: mem_db
    by (simp add: mem_app_def demo_app_def make_endpoint_def demo_endpoint_def trim_eq_def trim_end_eq_def Let_def)
  have added: "db_add_user (app_db ?A) newcomer mem_empty = (Inr (), mem_empty\<lparr>m_users := [(1, newcomer)]\<rparr>)"
    by (simp add: mem_app_simps mem_add_user_def mem_empty_def newcomer_def)
  have users: "deferred_saved ?A ?c mem_empty x0 \<longleftrightarrow> x0 = mem_empty\<lparr>m_users := [(1, newcomer)]\<rparr>" for x0
    by (auto simp: deferred_saved_def added)
  have stored: "db_add_channel (app_db ?A) uaid chid x = (Inr (), mem_add_channels uaid [chid] x)" for uaid chid x
    by (simp add: mem_app_simps)
  have uaid: "c_uaid demo_client = 1" by (simp add: demo_client_def)
  have known: "canonical_id (app_uuid ?A) ''7''" using id by (auto simp: canonical_id_def)
  have "\<exists>chid status ep c' x'. register ?A ''7'' None (?c, mem_empty) = (Inr (ServerRegister chid status ep), c', x') \<and>
      status = 200 \<and> c_deferred_add_user c' = None \<and> ep = ''http://e/wpush/v1/tok'' \<and>
      x' = mem_add_channels 1 [chid] (mem_empty\<lparr>m_users := [(1, newcomer)]\<rparr>)"
    using register_outcome [of ?A "''7''" None ?c mem_empty] known
    by (auto simp: added users made stored uaid)
  then obtain chid ep c' x' where run: "register ?A ''7'' None (?c, mem_empty) = (Inr (ServerRegister chid 200 ep), c', x')"
    "c_deferred_add_user c' = None" "ep = ''http://e/wpush/v1/tok''"
    "x' = mem_add_channels 1 [chid] (mem_empty\<lparr>m_users := [(1, newcomer)]\<rparr>)" by auto
  moreover from run(1) have "chid = 7"
    using register_parsed [OF id, of None "(?c, mem_empty)"]
    by (auto split: prod.splits sum.splits sm_error.splits)
  ultimately show ?thesis
    by (simp add: mem_add_channels_def mem_channels_of_def mem_empty_def List.insert_def)
qed

end
