(* ===== verification/Hello.thy ===== *)
theory Hello
  imports ClientMsg
begin

text \<open>
  From a connection to an identified session: \<open>autoconnect-ws-sm/src/unidentified.rs\<close> with
  \<open>WebPushClient::new\<close> and \<open>process_existing_user\<close> of \<open>identified/mod.rs\<close>. The theory
  models every function and shows what a \<open>Hello\<close> does to the user record: an existing user
  is claimed by this node or the client is turned away, a new one is not written at all.
\<close>

section \<open>Existing users\<close>

definition process_existing_user ::
  "('u, 'x) app_state \<Rightarrow> user \<Rightarrow> 'x \<Rightarrow> (db_error, client_flags option, 'x) outcome" where
  "process_existing_user A user x =
     (let flags = client_flags_default
            \<lparr>f_check_storage := True,
             f_old_record_version := (case u_record_version user of
                None \<Rightarrow> True | Some rec_ver \<Rightarrow> rec_ver < USER_RECORD_VERSION)\<rparr>;
          drop_user = andThen (db_remove_user (app_db A) (u_uaid user) x) (\<lambda>_ x1. (Inr None, x1))
      in case db_rotating_message_table (app_db A) of
           None \<Rightarrow> (Inr (Some flags), x)
         | Some rotating_message_table \<Rightarrow>
             (case u_current_month user of
                None \<Rightarrow> drop_user
              | Some current_month \<Rightarrow>
                  if current_month \<noteq> rotating_message_table then drop_user else (Inr (Some flags), x)))"

section \<open>New sessions\<close>

definition web_push_client_new ::
  "('u, 'x) app_state \<Rightarrow> uuid \<Rightarrow> string \<Rightarrow> broadcast_subs \<Rightarrow> client_flags \<Rightarrow> u64 \<Rightarrow> u64 option \<Rightarrow>
     user option \<Rightarrow> 'x \<Rightarrow> (sm_error, web_push_client \<times> server_message list, 'x) outcome option" where
  "web_push_client_new A uaid ua subs flags connected_at current_timestamp deferred_add_user x =
     (let stats = session_statistics_default\<lparr>st_existing_uaid := deferred_add_user = None\<rparr>;
          (uid, x1) = sys_new_uuid (app_sys A) x;
          client = \<lparr>c_uaid = uaid, c_uid = uid,
            c_ua_info = user_agent_info_from (app_ua_parser A) (app_ua_default A) ua,
            c_broadcast_subs = subs, c_flags = flags, c_ack_state = ack_state_default,
            c_sent_from_storage = 0, c_deferred_add_user = deferred_add_user, c_stats = stats,
            c_connected_at = connected_at, c_last_ping = 0, c_current_timestamp = current_timestamp\<rparr>
      in if f_check_storage flags then
           (case check_storage A (client, x1) of
              None \<Rightarrow> None
            | Some (Inl e, s2) \<Rightarrow> Some (Inl e, snd s2)
            | Some (Inr smsgs, s2) \<Rightarrow> Some (Inr (fst s2, smsgs), snd s2))
         else Some (Inr (client, []), x1))"

section \<open>Looking up the user\<close>

record get_or_create =
  gc_user :: user
  gc_existing_user :: bool
  gc_flags :: client_flags

definition create_user :: "('u, 'x) app_state \<Rightarrow> u64 \<Rightarrow> 'x \<Rightarrow> (sm_error, get_or_create, 'x) outcome" where
  "create_user A connected_at x =
     (let (user, x1) = user_default (app_sys A) x in
      (Inr \<lparr>gc_user = user\<lparr>u_current_month := db_rotating_message_table (app_db A),
                           u_node_id := Some (app_router_url A), u_connected_at := connected_at\<rparr>,
            gc_existing_user = False, gc_flags = client_flags_default\<rparr>, x1))"

text \<open>The claim of an existing user for this node.\<close>

definition claim_user ::
  "('u, 'x) app_state \<Rightarrow> u64 \<Rightarrow> client_flags \<Rightarrow> user \<Rightarrow> 'x \<Rightarrow> (sm_error, get_or_create, 'x) outcome" where
  "claim_user A connected_at flags user0 x =
     (let user1 = user0\<lparr>u_node_id := Some (app_router_url A)\<rparr> in
      if u_connected_at user1 > connected_at then (Inl SmAlreadyConnected, x)
      else
        (let (user2, x1) = set_last_connect (app_sys A) (user1\<lparr>u_connected_at := connected_at\<rparr>) x in
         case db_update_user (app_db A) user2 x1 of
           (Inl e, (_, x2)) \<Rightarrow> (Inl (SmDatabase e), x2)
         | (Inr updated, (user, x2)) \<Rightarrow>
             if \<not> updated then (Inl SmAlreadyConnected, x2)
             else (Inr \<lparr>gc_user = user, gc_existing_user = True, gc_flags = flags\<rparr>, x2)))"

definition get_or_create_user ::
  "('u, 'x) app_state \<Rightarrow> uuid option \<Rightarrow> 'x \<Rightarrow> (sm_error, get_or_create, 'x) outcome" where
  "get_or_create_user A uaid x =
     (let (connected_at, x0) = sys_now_ms (app_sys A) x in
      case uaid of
        None \<Rightarrow> create_user A connected_at x0
      | Some uaid \<Rightarrow>
          andThen (mapErr SmDatabase (db_get_user (app_db A) uaid x0)) (\<lambda>found x1.
            case found of
              None \<Rightarrow> create_user A connected_at x1
            | Some user0 \<Rightarrow>
                andThen (mapErr SmDatabase (process_existing_user A user0 x1)) (\<lambda>processed x2.
                  case processed of
                    None \<Rightarrow> create_user A connected_at x2
                  | Some flags \<Rightarrow> claim_user A connected_at flags user0 x2)))"

section \<open>Hello\<close>

definition broadcast_init ::
  "broadcast_tracker \<Rightarrow> broadcast list \<Rightarrow> broadcast_subs \<times> (string, broadcast_value) hashmap" where
  "broadcast_init bc broadcasts =
     (let (subs, delta) = broadcast_delta bc broadcasts in (subs, broadcast_response bc broadcasts delta))"

definition expected_hello :: string where
  "expected_hello = ''Expected messageType='' @ [CHR 0x22] @ ''hello'' @ [CHR 0x22] @ '', '' @
     [CHR 0x22] @ ''use_webpush'' @ [CHR 0x22] @ '': true''"

definition unidentified_on_client_msg ::
  "('u, 'x) app_state \<Rightarrow> broadcast_tracker \<Rightarrow> string \<Rightarrow> client_message \<Rightarrow> 'x \<Rightarrow>
     (sm_error, web_push_client \<times> server_message list, 'x) outcome option" where
  "unidentified_on_client_msg A bc ua msg x =
     (case msg of
        ClientHello uaid _ (Some True) broadcasts \<Rightarrow>
          (let original_uaid = Option.bind uaid (uuid_parse (app_uuid A)) in
           case get_or_create_user A original_uaid x of
             (Inl e, x1) \<Rightarrow> Some (Inl e, x1)
           | (Inr g, x1) \<Rightarrow>
               (let uaid = u_uaid (gc_user g);
                    (subs, response) = broadcast_init bc
                      (from_hashmap (case broadcasts of None \<Rightarrow> [] | Some b \<Rightarrow> b));
                    smsg = ServerHello (uuid_simple (app_uuid A) uaid) 200 (Some True) response
                in case web_push_client_new A uaid ua subs (gc_flags g) (u_connected_at (gc_user g))
                          (u_current_timestamp (gc_user g))
                          (if \<not> gc_existing_user g then Some (gc_user g) else None) x1 of
                     None \<Rightarrow> None
                   | Some (Inl e, x2) \<Rightarrow> Some (Inl e, x2)
                   | Some (Inr (wpclient, smsgs), x2) \<Rightarrow> Some (Inr (wpclient, smsg # smsgs), x2)))
      | _ \<Rightarrow> Some (Inl (SmInvalidMessage expected_hello), x))"

section \<open>What a new session looks like\<close>

text \<open>
  The state in which a session starts: nothing sent directly, exactly the stored messages
  that were just sent are unacknowledged, and the message count is within the limit.
\<close>

definition fresh_session :: "('u, 'x) app_state \<Rightarrow> server_message list \<Rightarrow> web_push_client \<Rightarrow> bool" where
  "fresh_session A smsgs c \<longleftrightarrow>
     smsgs = map ServerNotif (c_stored c) \<and> c_direct c = [] \<and> c_last_ping c = 0 \<and>
     c_sent_from_storage c \<le> app_msg_limit A"

lemma web_push_client_new_fresh:
  assumes "web_push_client_new A uaid ua subs flags ca ct d x = Some (Inr (c, smsgs), x')"
  shows "fresh_session A smsgs c" and "c_uaid c = uaid" and "c_broadcast_subs c = subs"
    and "c_deferred_add_user c = d" and "c_connected_at c = ca"
proof -
  obtain uid x1 where u: "sys_new_uuid (app_sys A) x = (uid, x1)" by (rule prod.exhaust)
  let ?c = "\<lparr>c_uaid = uaid, c_uid = uid,
            c_ua_info = user_agent_info_from (app_ua_parser A) (app_ua_default A) ua,
            c_broadcast_subs = subs, c_flags = flags, c_ack_state = ack_state_default,
            c_sent_from_storage = 0, c_deferred_add_user = d,
            c_stats = session_statistics_default\<lparr>st_existing_uaid := d = None\<rparr>,
            c_connected_at = ca, c_last_ping = 0, c_current_timestamp = ct\<rparr>"
  have n: "web_push_client_new A uaid ua subs flags ca ct d x =
      (if f_check_storage flags then
         (case check_storage A (?c, x1) of
            None \<Rightarrow> None
          | Some (Inl e, s2) \<Rightarrow> Some (Inl e, snd s2)
          | Some (Inr smsgs, s2) \<Rightarrow> Some (Inr (fst s2, smsgs), snd s2))
       else Some (Inr (?c, []), x1))"
    by (simp add: web_push_client_new_def u)
  have "fresh_session A smsgs c \<and> c_uaid c = uaid \<and> c_broadcast_subs c = subs \<and>
    c_deferred_add_user c = d \<and> c_connected_at c = ca"
  proof (cases "f_check_storage flags")
    case False
    with assms n show ?thesis by (auto simp: fresh_session_def ack_state_default_def)
  next
    case True
    with assms n obtain s2 where "check_storage A (?c, x1) = Some (Inr smsgs, s2)" "c = fst s2"
      by (auto split: option.splits prod.splits sum.splits)
    with check_storage_post [OF this(1)] show ?thesis
      by (auto simp: fresh_session_def loop_post_def same_session_def ack_state_default_def split: if_splits)
  qed
  then show "fresh_session A smsgs c" "c_uaid c = uaid" "c_broadcast_subs c = subs"
    "c_deferred_add_user c = d" "c_connected_at c = ca" by simp_all
qed

section \<open>Looking up the user, result by result\<close>

lemma set_last_connect_eq:
  assumes "set_last_connect sys user x = (user', x')"
  shows "user' = user\<lparr>u_last_connect := u_last_connect user'\<rparr>"
  using assms by (auto simp: set_last_connect_def Let_def split: prod.splits if_splits)

lemma create_user_Inr:
  assumes "create_user A now x = (Inr g, x')"
  shows "\<not> gc_existing_user g" "u_node_id (gc_user g) = Some (app_router_url A)"
    "u_connected_at (gc_user g) = now" "gc_flags g = client_flags_default"
  using assms by (auto simp: create_user_def split: prod.splits)

lemma create_user_total: "\<exists>g x'. create_user A now x = (Inr g, x')"
  by (auto simp: create_user_def split: prod.splits)

lemma claim_user_Inr:
  assumes "claim_user A now flags user0 x = (Inr g, x')"
  shows "gc_existing_user g" "gc_flags g = flags" "u_connected_at user0 \<le> now"
    "\<exists>u x1. u_node_id u = Some (app_router_url A) \<and> u_connected_at u = now \<and> u_uaid u = u_uaid user0 \<and>
       db_update_user (app_db A) u x1 = (Inr True, gc_user g, x')"
proof -
  obtain user2 x1 where l: "set_last_connect (app_sys A)
      (user0\<lparr>u_node_id := Some (app_router_url A), u_connected_at := now\<rparr>) x = (user2, x1)"
    by (rule prod.exhaust)
  obtain r user4 x4 where d: "db_update_user (app_db A) user2 x1 = (r, user4, x4)"
    by (metis prod.exhaust)
  from assms l d have *: "r = Inr True" "g = \<lparr>gc_user = user4, gc_existing_user = True, gc_flags = flags\<rparr>"
    "x4 = x'" "u_connected_at user0 \<le> now"
    by (auto simp: claim_user_def Let_def split: if_splits sum.splits)
  then show "gc_existing_user g" "gc_flags g = flags" "u_connected_at user0 \<le> now" by simp_all
  from * d set_last_connect_frame [OF l]
  show "\<exists>u x1. u_node_id u = Some (app_router_url A) \<and> u_connected_at u = now \<and> u_uaid u = u_uaid user0 \<and>
       db_update_user (app_db A) u x1 = (Inr True, gc_user g, x')" by auto
qed

lemma get_or_create_user_cases:
  assumes "get_or_create_user A uaid x = (Inr g, x')"
  obtains (created) now y where "create_user A now y = (Inr g, x')"
    | (claimed) id now flags user0 y where "uaid = Some id" "claim_user A now flags user0 y = (Inr g, x')"
proof -
  obtain now x0 where n: "sys_now_ms (app_sys A) x = (now, x0)" by (rule prod.exhaust)
  show ?thesis
  proof (cases uaid)
    case None
    with assms n show ?thesis by (intro created [of now x0]) (simp add: get_or_create_user_def)
  next
    case (Some id)
    with assms n obtain found x1 where
      "(case found of
          None \<Rightarrow> create_user A now x1
        | Some user0 \<Rightarrow>
            andThen (mapErr SmDatabase (process_existing_user A user0 x1)) (\<lambda>processed x2.
              case processed of
                None \<Rightarrow> create_user A now x2
              | Some flags \<Rightarrow> claim_user A now flags user0 x2)) = (Inr g, x')"
      by (auto simp: get_or_create_user_def andThen_Inr_iff)
    with Some created claimed show ?thesis
      by (auto simp: andThen_Inr_iff split: option.splits)
  qed
qed

lemma unidentified_on_client_msg_Inr:
  assumes "unidentified_on_client_msg A bc ua msg x = Some (Inr (c, smsgs), x')"
  obtains uaid chids b response stored g x1 subs where "msg = ClientHello uaid chids (Some True) b"
    "get_or_create_user A (Option.bind uaid (uuid_parse (app_uuid A))) x = (Inr g, x1)"
    "smsgs = ServerHello (uuid_simple (app_uuid A) (u_uaid (gc_user g))) 200 (Some True) response # stored"
    "web_push_client_new A (u_uaid (gc_user g)) ua subs (gc_flags g) (u_connected_at (gc_user g))
      (u_current_timestamp (gc_user g)) (if \<not> gc_existing_user g then Some (gc_user g) else None) x1 =
      Some (Inr (c, stored), x')"
proof -
  from assms obtain uaid chids b where m: "msg = ClientHello uaid chids (Some True) b"
    by (auto simp: unidentified_on_client_msg_def split: client_message.splits option.splits bool.splits)
  obtain subs response where b: "broadcast_init bc (from_hashmap (case b of None \<Rightarrow> [] | Some b \<Rightarrow> b)) = (subs, response)"
    by (rule prod.exhaust)
  from assms m b that show thesis
    by (auto simp: unidentified_on_client_msg_def Let_def split: prod.splits sum.splits option.splits)
qed

text \<open>What a successful \<open>Hello\<close> answers and leaves behind: the first reply is the
  Hello with the session's UAID, the rest are exactly the stored messages the session then
  waits for; an existing user was claimed in the database for this node, with the time of
  this connection; a new one is only kept in the session, for this node, and reads nothing
  from storage.\<close>

theorem hello_reply:
  assumes "unidentified_on_client_msg A bc ua msg x = Some (Inr (c, smsgs), x')"
  shows "\<exists>response stored.
    smsgs = ServerHello (uuid_simple (app_uuid A) (c_uaid c)) 200 (Some True) response # stored \<and>
    fresh_session A stored c \<and>
    (case c_deferred_add_user c of
       Some user \<Rightarrow> u_uaid user = c_uaid c \<and> u_node_id user = Some (app_router_url A) \<and>
         u_connected_at user = c_connected_at c \<and> stored = []
     | None \<Rightarrow> \<exists>u user x1 x2. u_node_id u = Some (app_router_url A) \<and>
         db_update_user (app_db A) u x1 = (Inr True, user, x2) \<and>
         u_uaid user = c_uaid c \<and> u_connected_at user = c_connected_at c)"
proof -
  from assms obtain uaid chids b response stored g x1 subs where
    g: "get_or_create_user A (Option.bind uaid (uuid_parse (app_uuid A))) x = (Inr g, x1)"
    and s: "smsgs = ServerHello (uuid_simple (app_uuid A) (u_uaid (gc_user g))) 200 (Some True) response # stored"
    and n: "web_push_client_new A (u_uaid (gc_user g)) ua subs (gc_flags g) (u_connected_at (gc_user g))
      (u_current_timestamp (gc_user g)) (if \<not> gc_existing_user g then Some (gc_user g) else None) x1 =
      Some (Inr (c, stored), x')"
    by (rule unidentified_on_client_msg_Inr)
  note f = web_push_client_new_fresh [OF n]
  from g show ?thesis
  proof (cases rule: get_or_create_user_cases)
    case (created now y)
    note cr = create_user_Inr [OF created]
    have "stored = []"
      using n cr by (auto simp: web_push_client_new_def client_flags_default_def split: prod.splits)
    with cr f s show ?thesis by auto
  next
    case (claimed id now flags user0 y)
    note cl = claim_user_Inr [OF claimed(2)]
    with f s show ?thesis by auto
  qed
qed

theorem hello_reply_witness:
  "\<exists>c smsgs x'. unidentified_on_client_msg (mem_app 5) (tracker_new []) [] (ClientHello None None (Some True) None) mem_empty =
     Some (Inr (c, smsgs), x') \<and> length smsgs = 1 \<and> c_direct c = []"
proof -
  have "\<exists>c smsgs x'. unidentified_on_client_msg (mem_app 5) (tracker_new []) [] (ClientHello None None (Some True) None) mem_empty =
     Some (Inr (c, smsgs), x') \<and> c_deferred_add_user c \<noteq> None"
    by (simp add: unidentified_on_client_msg_def get_or_create_user_def create_user_def user_default_def
        web_push_client_new_def mem_app_simps client_flags_default_def case_prod_beta)
  then obtain c smsgs x' where h: "unidentified_on_client_msg (mem_app 5) (tracker_new []) []
      (ClientHello None None (Some True) None) mem_empty = Some (Inr (c, smsgs), x')"
    and d: "c_deferred_add_user c \<noteq> None" by blast
  from hello_reply [OF h] d have "length smsgs = 1 \<and> c_direct c = []" by (auto simp: fresh_session_def)
  with h show ?thesis by blast
qed

section \<open>Looking up the user on a store that keeps the contract\<close>

definition sys_keeps_store :: "'x sys \<Rightarrow> ('x \<Rightarrow> mem_db) \<Rightarrow> (mem_db \<Rightarrow> 'x \<Rightarrow> 'x) \<Rightarrow> bool" where
  "sys_keeps_store sys get put \<longleftrightarrow> (\<forall>m x. get (put m x) = m) \<and>
     (\<forall>x. get (snd (sys_now_ms sys x)) = get x \<and> get (snd (sys_new_uuid sys x)) = get x \<and>
          get (snd (sys_last_connect sys x)) = get x \<and> get (snd (sys_year_month sys x)) = get x)"

lemma sys_keeps_storeD:
  assumes "sys_keeps_store sys get put"
  shows "sys_now_ms sys x = (t, x') \<Longrightarrow> get x' = get x" "sys_new_uuid sys x = (u, x') \<Longrightarrow> get x' = get x"
    "sys_last_connect sys x = (t, x') \<Longrightarrow> get x' = get x" "sys_year_month sys x = (m, x') \<Longrightarrow> get x' = get x"
    "get (put db x) = db"
  using assms unfolding sys_keeps_store_def by (metis snd_conv)+

lemma create_user_store:
  assumes "sys_keeps_store (app_sys A) get put" and "create_user A now x = (r, x')"
  shows "get x' = get x"
  using assms(2) sys_keeps_storeD [OF assms(1)]
  by (auto simp: create_user_def user_default_def Let_def split: prod.splits)

lemma set_last_connect_store:
  assumes "sys_keeps_store sys get put" and "set_last_connect sys user x = (user', x')"
  shows "get x' = get x"
  using assms(2) sys_keeps_storeD [OF assms(1)]
  by (auto simp: set_last_connect_def has_connected_this_month_def Let_def split: prod.splits if_splits option.splits)

lemma claim_user_store:
  assumes db: "app_db A = mem_client (app_uuid A) (app_sys A) get put" and sys: "sys_keeps_store (app_sys A) get put"
    and found: "hm_get (m_users (get x)) (u_uaid user) = Some user" and claim: "claim_user A now flags user x = (r, x')"
  shows "if u_connected_at user < now
    then \<exists>lc. let user2 = user\<lparr>u_node_id := Some (app_router_url A), u_connected_at := now, u_last_connect := lc\<rparr> in
      r = Inr \<lparr>gc_user = user2, gc_existing_user = True, gc_flags = flags\<rparr> \<and>
      get x' = (get x)\<lparr>m_users := hm_insert (u_uaid user) user2 (m_users (get x))\<rparr>
    else r = Inl SmAlreadyConnected \<and> get x' = get x"
proof -
  note k = sys_keeps_storeD [OF sys]
  obtain user2 x1 where l: "set_last_connect (app_sys A)
      (user\<lparr>u_node_id := Some (app_router_url A), u_connected_at := now\<rparr>) x = (user2, x1)"
    by (rule prod.exhaust)
  note x1 = set_last_connect_store [OF sys l]
  from set_last_connect_eq [OF l] have u2: "user2 = user\<lparr>u_node_id := Some (app_router_url A), u_connected_at := now,
      u_last_connect := u_last_connect user2\<rparr>" by simp
  have f2: "u_uaid user2 = u_uaid user" "u_router_type user2 = u_router_type user" "u_connected_at user2 = now"
    by (subst u2, simp)+
  have d: "db_update_user (app_db A) user2 x1 = (let (q, m) = mem_update_user user2 (get x1) in (q, user2, put m x1))"
    by (simp add: db mem_client_def in_world_def case_prod_beta Let_def)
  have m: "mem_update_user user2 (get x1) =
      (if u_connected_at user < now
       then (Inr True, (get x)\<lparr>m_users := hm_insert (u_uaid user) user2 (m_users (get x))\<rparr>) else (Inr False, get x))"
    using f2 found x1 by (simp add: mem_update_user_def)
  show ?thesis
  proof (cases "u_connected_at user < now")
    case True
    then have "\<not> now < u_connected_at user" by simp
    with claim l d m True u2 show ?thesis
      by (auto simp: claim_user_def k(5) Let_def intro!: exI [of _ "u_last_connect user2"])
  next
    case False
    with claim l d m show ?thesis
      by (cases "now < u_connected_at user") (auto simp: claim_user_def k(5))
  qed
qed

text \<open>Claim C22. Claiming a user, on a store that keeps the contract: a known user that last
  connected before now is stored again with this node, the time of this connection and
  nothing else changed but its last-connect mark; one that connected at the same time or
  later belongs to another node, and the client is turned away without a write; a \<open>Hello\<close>
  without a known UAID writes nothing and gets the user the random source names.\<close>

theorem hello_claims_user:
  assumes "app_db A = mem_client (app_uuid A) (app_sys A) get put"
    and "sys_keeps_store (app_sys A) get put"
    and "sys_now_ms (app_sys A) x = (now, x0)"
    and "get_or_create_user A uaid x = (r, x')"
  shows "case Option.bind uaid (hm_get (m_users (get x))) of
      None \<Rightarrow> \<exists>g. r = Inr g \<and> \<not> gc_existing_user g \<and> get x' = get x
    | Some user \<Rightarrow>
        if u_uaid user = the uaid \<and> u_connected_at user < now then
          \<exists>g lc. r = Inr g \<and> gc_existing_user g \<and>
            gc_user g = user\<lparr>u_node_id := Some (app_router_url A), u_connected_at := now, u_last_connect := lc\<rparr> \<and>
            get x' = (get x)\<lparr>m_users := hm_insert (the uaid) (gc_user g) (m_users (get x))\<rparr>
        else u_uaid user = the uaid \<longrightarrow> r = Inl SmAlreadyConnected \<and> get x' = get x"
proof -
  have x0: "get x0 = get x" using sys_keeps_storeD(1) [OF assms(2,3)] .
  show ?thesis
  proof (cases "Option.bind uaid (hm_get (m_users (get x)))")
    case None
    have "create_user A now x0 = (r, x')"
      using assms(1,3,4) None x0
      by (cases uaid) (auto simp: get_or_create_user_def mem_client_def)
    with None create_user_store [OF assms(2)] create_user_total [of A now x0] create_user_Inr(1) x0
    show ?thesis by fastforce
  next
    case (Some user)
    then obtain id where id: "uaid = Some id" "hm_get (m_users (get x)) id = Some user" by (cases uaid) auto
    then obtain flags where c: "claim_user A now flags user x0 = (r, x')"
      using assms(1,3,4) x0 by (auto simp: get_or_create_user_def mem_client_def process_existing_user_def)
    show ?thesis
    proof (cases "u_uaid user = id")
      case True
      with claim_user_store [OF assms(1,2) _ c] id x0 Some show ?thesis
        by (cases "u_connected_at user < now") (auto simp: Let_def)
    qed (use Some id in simp)
  qed
qed

definition old_user :: user where
  "old_user =
     \<lparr>u_uaid = 1, u_connected_at = 10, u_router_type = ''webpush'', u_router_data = None,
      u_last_connect = None, u_node_id = None, u_record_version = Some 1, u_current_month = None,
      u_current_timestamp = None, u_version = None\<rparr>"

theorem hello_claims_user_witness:
  "\<exists>g x'. get_or_create_user (mem_app 5) (Some 1) (mem_empty\<lparr>m_users := [(1, old_user)]\<rparr>) = (Inr g, x') \<and>
     u_node_id (gc_user g) = Some ''http://r'' \<and> u_connected_at (gc_user g) = 5000"
proof -
  let ?x = "mem_empty\<lparr>m_users := [(1, old_user)]\<rparr>"
  obtain r x' where g: "get_or_create_user (mem_app 5) (Some 1) ?x = (r, x')" by (rule prod.exhaust)
  have db: "app_db (mem_app 5) = mem_client (app_uuid (mem_app 5)) (app_sys (mem_app 5)) (\<lambda>x. x) (\<lambda>m x. m)"
    by (simp add: mem_app_def demo_app_def mem_world_client_def)
  have sys: "sys_keeps_store (app_sys (mem_app 5)) (\<lambda>x. x) (\<lambda>m x. m)"
    by (simp add: mem_app_def demo_app_def fixed_sys_def sys_keeps_store_def)
  have now: "sys_now_ms (app_sys (mem_app 5)) ?x = (5000, ?x)"
    by (simp add: mem_app_def demo_app_def fixed_sys_def)
  have "app_router_url (mem_app 5) = ''http://r''" by (simp add: mem_app_def demo_app_def)
  with hello_claims_user [OF db sys now g] g show ?thesis
    by (auto simp: old_user_def mem_empty_def)
qed

end
