(* ===== verification/WsHandler.thy ===== *)
theory WsHandler
  imports Hello
begin

text \<open>
  The task of one WebSocket connection: \<open>autoconnect-ws/src/handler.rs\<close> with the ping
  timer of \<open>ping.rs\<close>, the session wrapper of \<open>session.rs\<close> and the errors of \<open>error.rs\<close>.
  The \<open>select!\<close> of the handler waits on three inputs; a run is the sequence of inputs as
  the scheduler picked them, with the changes other tasks make to the shared state in
  between. The theory shows that a session that ends hands every direct notification that
  was not acknowledged to storage, that it ends by a missing pong only when no pong
  followed the last ping, and that its end always leaves the registry without it.
\<close>

section \<open>Errors\<close>

datatype ws_error =
    WsSM sm_error
  | WsJson string
  | WsProtocol string
  | WsSessionClosed
  | WsUnsupportedMessage string
  | WsStreamClosed
  | WsHandshakeTimeout
  | WsPongTimeout
  | WsRegistryDisconnected

definition ws_close_code :: "ws_error \<Rightarrow> close_code" where
  "ws_close_code e = (case e of
       WsSM e \<Rightarrow> sm_close_code e
     | WsUnsupportedMessage _ \<Rightarrow> CloseUnsupported
     | _ \<Rightarrow> CloseError)"

definition ws_close_description :: "ws_error \<Rightarrow> string" where
  "ws_close_description e = (case e of
       WsSM _ \<Rightarrow> ''SM'' | WsJson _ \<Rightarrow> ''Json'' | WsProtocol _ \<Rightarrow> ''Protocol''
     | WsSessionClosed \<Rightarrow> ''SessionClosed'' | WsUnsupportedMessage _ \<Rightarrow> ''UnsupportedMessage''
     | WsStreamClosed \<Rightarrow> ''StreamClosed'' | WsHandshakeTimeout \<Rightarrow> ''HandshakeTimeout''
     | WsPongTimeout \<Rightarrow> ''PongTimeout'' | WsRegistryDisconnected \<Rightarrow> ''RegistryDisconnected'')"

definition ws_is_sentry_event :: "ws_error \<Rightarrow> bool" where
  "ws_is_sentry_event e = (case e of
       WsSM e \<Rightarrow> sm_is_sentry_event e
     | WsRegistryDisconnected \<Rightarrow> True
     | _ \<Rightarrow> False)"

definition ws_metric_label :: "ws_error \<Rightarrow> string option" where
  "ws_metric_label e = (case e of
       WsSM e \<Rightarrow> sm_metric_label e
     | WsProtocol _ \<Rightarrow> Some ''ua.ws_protocol_error''
     | _ \<Rightarrow> None)"

section \<open>The connection\<close>

record close_reason =
  cr_code :: close_code
  cr_description :: "string option"

datatype ws_message =
    WsText string
  | WsBinary string
  | WsContinuation
  | WsPing string
  | WsPong string
  | WsClose "close_reason option"
  | WsNop

text \<open>
  \<open>actix_ws::Session\<close> is a parameter; its methods say whether the connection still took
  the frame. \<open>session_text\<close> and its siblings are \<open>SessionImpl\<close>.
\<close>

record 'x ws_lib =
  wl_json :: json_lib
  wl_text :: "string \<Rightarrow> 'x \<Rightarrow> bool \<times> 'x"
  wl_ping :: "string \<Rightarrow> 'x \<Rightarrow> bool \<times> 'x"
  wl_pong :: "string \<Rightarrow> 'x \<Rightarrow> bool \<times> 'x"
  wl_close :: "close_reason option \<Rightarrow> 'x \<Rightarrow> bool \<times> 'x"

definition sent_ok :: "bool \<times> 'x \<Rightarrow> (ws_error, unit, 'x) outcome" where
  "sent_ok r = (if fst r then Inr () else Inl WsSessionClosed, snd r)"

definition session_text :: "'x ws_lib \<Rightarrow> server_message \<Rightarrow> 'x \<Rightarrow> (ws_error, unit, 'x) outcome" where
  "session_text W msg x =
     (case server_message_to_json (wl_json W) msg of
        Inl e \<Rightarrow> (Inl (WsJson e), x)
      | Inr json \<Rightarrow> sent_ok (wl_text W json x))"

definition session_ping :: "'x ws_lib \<Rightarrow> string \<Rightarrow> 'x \<Rightarrow> (ws_error, unit, 'x) outcome" where
  "session_ping W msg x = sent_ok (wl_ping W msg x)"

definition session_pong :: "'x ws_lib \<Rightarrow> string \<Rightarrow> 'x \<Rightarrow> (ws_error, unit, 'x) outcome" where
  "session_pong W msg x = sent_ok (wl_pong W msg x)"

definition session_close :: "'x ws_lib \<Rightarrow> close_reason option \<Rightarrow> 'x \<Rightarrow> (ws_error, unit, 'x) outcome" where
  "session_close W reason x = sent_ok (wl_close W reason x)"

fun session_texts :: "'x ws_lib \<Rightarrow> server_message list \<Rightarrow> 'x \<Rightarrow> (ws_error, unit, 'x) outcome" where
  "session_texts W [] x = (Inr (), x)"
| "session_texts W (smsg # smsgs) x = andThen (session_text W smsg x) (\<lambda>_ x1. session_texts W smsgs x1)"

section \<open>Shared and own state of the task\<close>

text \<open>
  The registry and the tracker are behind locks in \<open>AppState\<close>, \<open>sv_ext\<close> is everything
  else outside the task. \<open>pm_period\<close> is the period of the interval timer; that the timer
  fires is an input of the loop.
\<close>

record 'x server =
  sv_registry :: client_registry
  sv_broadcaster :: broadcast_tracker
  sv_ext :: 'x

datatype waiting = ToPing | ForPong

record ping_manager =
  pm_waiting :: waiting
  pm_period :: nat

record ws_settings =
  ws_auto_ping_interval :: nat
  ws_auto_ping_timeout :: nat

definition set_waiting :: "ws_settings \<Rightarrow> waiting \<Rightarrow> ping_manager" where
  "set_waiting cfg w =
     \<lparr>pm_waiting = w,
      pm_period = (case w of ToPing \<Rightarrow> ws_auto_ping_interval cfg | ForPong \<Rightarrow> ws_auto_ping_timeout cfg)\<rparr>"

definition ping_manager_new :: "ws_settings \<Rightarrow> ping_manager" where
  "ping_manager_new cfg = \<lparr>pm_waiting = ToPing, pm_period = ws_auto_ping_interval cfg\<rparr>"

text \<open>What \<open>tick\<close> returns when the interval fires.\<close>

definition ping_tick :: "ping_manager \<Rightarrow> ws_error + unit" where
  "ping_tick pm = (case pm_waiting pm of ToPing \<Rightarrow> Inr () | ForPong \<Rightarrow> Inl WsPongTimeout)"

definition on_ws_pong :: "ws_settings \<Rightarrow> ping_manager \<Rightarrow> ping_manager" where
  "on_ws_pong cfg pm = (case pm_waiting pm of ForPong \<Rightarrow> set_waiting cfg ToPing | ToPing \<Rightarrow> pm)"

record 'x ws_state =
  ws_client :: web_push_client
  ws_pings :: ping_manager
  ws_server :: "'x server"

definition client_broadcast_delta :: "'x ws_state \<Rightarrow> broadcast list option \<times> 'x ws_state" where
  "client_broadcast_delta s =
     (let (delta, subs) = change_count_delta (sv_broadcaster (ws_server s)) (c_broadcast_subs (ws_client s))
      in (delta, s\<lparr>ws_client := (ws_client s)\<lparr>c_broadcast_subs := subs\<rparr>\<rparr>))"

text \<open>An action on the connection, and a step of the client, from the loop.\<close>

definition on_conn :: "('x \<Rightarrow> (ws_error, 'a, 'x) outcome) \<Rightarrow> 'x ws_state \<Rightarrow> (ws_error, 'a, 'x ws_state) outcome" where
  "on_conn act s =
     (let (r, x) = act (sv_ext (ws_server s)) in (r, s\<lparr>ws_server := (ws_server s)\<lparr>sv_ext := x\<rparr>\<rparr>))"

definition on_client ::
  "('x session \<Rightarrow> (server_message list, 'x) sm_outcome option) \<Rightarrow> 'x ws_state \<Rightarrow>
     (ws_error, server_message list, 'x ws_state) outcome option" where
  "on_client act s =
     map_option (\<lambda>(r, c, x).
         (map_sum WsSM id r, s\<lparr>ws_client := c, ws_server := (ws_server s)\<lparr>sv_ext := x\<rparr>\<rparr>))
       (act (ws_client s, sv_ext (ws_server s)))"

definition ws_ping_or_broadcast ::
  "'x ws_lib \<Rightarrow> ws_settings \<Rightarrow> 'x ws_state \<Rightarrow> (ws_error, unit, 'x ws_state) outcome" where
  "ws_ping_or_broadcast W cfg s =
     (let (delta, s1) = client_broadcast_delta s in
      case delta of
        Some broadcasts \<Rightarrow> on_conn (session_text W (ServerBroadcast (vec_into_hashmap broadcasts))) s1
      | None \<Rightarrow>
          andThen (on_conn (session_ping W []) s1)
            (\<lambda>_ s2. (Inr (), s2\<lparr>ws_pings := set_waiting cfg ForPong\<rparr>)))"

section \<open>The loop\<close>

text \<open>
  Inputs: the next item of the message stream (\<open>None\<close> is its end, \<open>Inl\<close> a protocol error),
  the next item of the registry's channel, the timer, and what other tasks do to the shared
  state while this one waits.
\<close>

datatype 'x ws_input =
    InMsg "(string + ws_message) option"
  | InNotif "server_notification option"
  | InTick
  | InOthers "'x server \<Rightarrow> 'x server"

text \<open>
  One turn: an error, a \<open>break\<close> with its close reason, or (\<open>Inr None\<close>) another turn.
\<close>

type_synonym 'x turn = "(ws_error, close_reason option option, 'x ws_state) outcome"

definition go_on :: "(ws_error, unit, 'x ws_state) outcome \<Rightarrow> 'x turn" where
  "go_on r = andThen r (\<lambda>_ s. (Inr None, s))"

definition reply :: "'x ws_lib \<Rightarrow> (ws_error, server_message list, 'x ws_state) outcome option \<Rightarrow> 'x turn option" where
  "reply W m = map_option (\<lambda>r. andThen r (\<lambda>smsgs s. go_on (on_conn (session_texts W smsgs) s))) m"

definition identified_turn ::
  "'x ws_lib \<Rightarrow> ('u, 'x) app_state \<Rightarrow> ws_settings \<Rightarrow> 'x ws_input \<Rightarrow> 'x ws_state \<Rightarrow> 'x turn option" where
  "identified_turn W A cfg inp s = (case inp of
       InMsg None \<Rightarrow> Some (Inr (Some None), s)
     | InMsg (Some (Inl e)) \<Rightarrow> Some (Inl (WsProtocol e), s)
     | InMsg (Some (Inr msg)) \<Rightarrow>
         (case msg of
            WsText bytestring \<Rightarrow>
              (case client_message_from_str (wl_json W) bytestring of
                 Inl e \<Rightarrow> Some (Inl (WsJson e), s)
               | Inr client_msg \<Rightarrow>
                   reply W (on_client (on_client_msg A (sv_broadcaster (ws_server s)) client_msg) s))
          | WsNop \<Rightarrow> Some (Inr None, s)
          | WsClose reason \<Rightarrow> Some (Inr (Some reason), s)
          | WsPing bytes \<Rightarrow> Some (go_on (on_conn (session_pong W bytes) s))
          | WsPong _ \<Rightarrow> Some (Inr None, s\<lparr>ws_pings := on_ws_pong cfg (ws_pings s)\<rparr>)
          | _ \<Rightarrow> Some (Inl (WsUnsupportedMessage ''Expected Text, etc.''), s))
     | InNotif None \<Rightarrow> Some (Inl WsRegistryDisconnected, s)
     | InNotif (Some snotif) \<Rightarrow> reply W (on_client (on_server_notif A snotif) s)
     | InTick \<Rightarrow>
         (case ping_tick (ws_pings s) of
            Inl e \<Rightarrow> Some (Inl e, s)
          | Inr _ \<Rightarrow> Some (go_on (ws_ping_or_broadcast W cfg s)))
     | InOthers f \<Rightarrow> Some (Inr None, s\<lparr>ws_server := f (ws_server s)\<rparr>))"

text \<open>
  The loop on a sequence of inputs: its result (\<open>None\<close> while it is still waiting), the
  inputs it did not consume, and the state.
\<close>

type_synonym ws_result = "(ws_error + close_reason option) option"

fun identified_loop ::
  "'x ws_lib \<Rightarrow> ('u, 'x) app_state \<Rightarrow> ws_settings \<Rightarrow> 'x ws_input list \<Rightarrow> 'x ws_state \<Rightarrow>
     (ws_result \<times> 'x ws_input list \<times> 'x ws_state) option" where
  "identified_loop W A cfg [] s = Some (None, [], s)"
| "identified_loop W A cfg (inp # inps) s =
     (case identified_turn W A cfg inp s of
        None \<Rightarrow> None
      | Some (Inl e, s1) \<Rightarrow> Some (Some (Inl e), inps, s1)
      | Some (Inr (Some reason), s1) \<Rightarrow> Some (Some (Inr reason), inps, s1)
      | Some (Inr None, s1) \<Rightarrow> identified_loop W A cfg inps s1)"

definition identified_ws ::
  "'x ws_lib \<Rightarrow> ('u, 'x) app_state \<Rightarrow> ws_settings \<Rightarrow> server_message list \<Rightarrow> 'x ws_input list \<Rightarrow>
     web_push_client \<Rightarrow> 'x server \<Rightarrow> (ws_result \<times> 'x ws_input list \<times> 'x ws_state) option" where
  "identified_ws W A cfg smsgs inps c sv =
     (let s = \<lparr>ws_client = c, ws_pings = ping_manager_new cfg, ws_server = sv\<rparr> in
      case on_conn (session_texts W smsgs) s of
        (Inl e, s1) \<Rightarrow> Some (Some (Inl e), inps, s1)
      | (Inr _, s1) \<Rightarrow> identified_loop W A cfg inps s1)"

section \<open>The whole connection\<close>

text \<open>The first input of a connection; \<open>None\<close> is the handshake timeout.\<close>

definition unidentified_ws ::
  "'x ws_lib \<Rightarrow> ('u, 'x) app_state \<Rightarrow> string \<Rightarrow> (string + ws_message) option option \<Rightarrow> 'x server \<Rightarrow>
     (ws_error, web_push_client \<times> server_message list, 'x server) outcome option" where
  "unidentified_ws W A ua first sv = (case first of
       None \<Rightarrow> Some (Inl WsHandshakeTimeout, sv)
     | Some None \<Rightarrow> Some (Inl WsStreamClosed, sv)
     | Some (Some (Inl e)) \<Rightarrow> Some (Inl (WsProtocol e), sv)
     | Some (Some (Inr (WsText bytestring))) \<Rightarrow>
         (case client_message_from_str (wl_json W) bytestring of
            Inl e \<Rightarrow> Some (Inl (WsJson e), sv)
          | Inr client_msg \<Rightarrow>
              map_option (\<lambda>(r, x). (map_sum WsSM id r, sv\<lparr>sv_ext := x\<rparr>))
                (unidentified_on_client_msg A (sv_broadcaster sv) ua client_msg (sv_ext sv)))
     | Some (Some (Inr _)) \<Rightarrow> Some (Inl (WsUnsupportedMessage ''Expected Text''), sv))"

text \<open>
  The cleanup after the loop: leave the registry, take what is left in the channel, shut
  the client down. The result is the client and the notifications its last task saves.
\<close>

definition end_session ::
  "'x chan_lib \<Rightarrow> nat \<Rightarrow> 'x ws_state \<Rightarrow> (web_push_client \<times> notification list option) \<times> 'x server" where
  "end_session ch rx s =
     (let c = ws_client s; sv = ws_server s;
          (_, clients, x1) = clients_disconnect (c_uaid c) (c_uid c) (sv_registry sv, sv_ext sv);
          (left, x2) = ch_close_drain ch rx x1;
          c1 = fold on_server_notif_shutdown left c
      in (shutdown c1, sv\<lparr>sv_registry := clients, sv_ext := x2\<rparr>))"

text \<open>
  \<open>webpush_ws\<close>: a rejected handshake, or a session with the loop's result and, once the
  loop has ended, what \<open>end_session\<close> leaves.
\<close>

datatype 'x ws_end =
    Rejected ws_error "'x server"
  | Running "'x ws_state"
  | Ended "ws_error + close_reason option" web_push_client "notification list option" "'x server"

definition webpush_ws ::
  "'x ws_lib \<Rightarrow> 'x chan_lib \<Rightarrow> ('u, 'x) app_state \<Rightarrow> ws_settings \<Rightarrow> string \<Rightarrow>
     (string + ws_message) option option \<Rightarrow> 'x ws_input list \<Rightarrow> 'x server \<Rightarrow> 'x ws_end option" where
  "webpush_ws W ch A cfg ua first inps sv =
     (case unidentified_ws W A ua first sv of
        None \<Rightarrow> None
      | Some (Inl e, sv1) \<Rightarrow> Some (Rejected e sv1)
      | Some (Inr (c, smsgs), sv1) \<Rightarrow>
          (let (rx, clients, x1) = clients_connect ch (c_uaid c) (c_uid c) (sv_registry sv1, sv_ext sv1);
               sv2 = sv1\<lparr>sv_registry := clients, sv_ext := x1\<rparr>
           in case identified_ws W A cfg smsgs inps c sv2 of
                None \<Rightarrow> None
              | Some (None, _, s) \<Rightarrow> Some (Running s)
              | Some (Some result, _, s) \<Rightarrow>
                  (let ((c1, saved), sv3) = end_session ch rx s in Some (Ended result c1 saved sv3))))"

text \<open>\<open>spawn_webpush_ws\<close>: the close frame after the handler returned.\<close>

definition close_reason_of :: "ws_error + close_reason option \<Rightarrow> close_reason option" where
  "close_reason_of result = (case result of
       Inr reason \<Rightarrow> reason
     | Inl e \<Rightarrow> Some \<lparr>cr_code = ws_close_code e, cr_description = Some (ws_close_description e)\<rparr>)"

section \<open>What a turn keeps\<close>

lemma sub_mset_chain:
  assumes "a + t \<subseteq># b + c" and "b + t' \<subseteq># d + c'"
  shows "a + (t + t') \<subseteq># d + (c + c')"
  unfolding subseteq_mset_def
proof
  fix x
  have "count a x + count t x \<le> count b x + count c x" "count b x + count t' x \<le> count d x + count c' x"
    using assms by (simp_all add: subseteq_mset_def)
  then show "count (a + (t + t')) x \<le> count (d + (c + c')) x" by simp
qed

text \<open>
  The interface between the loop and what it drives: each turn conserves what is held, up
  to what it takes in and what it is allowed to clear.
\<close>

locale conserving_loop =
  fixes turn :: "'i \<Rightarrow> 's \<Rightarrow> (('e + 'b option) \<times> 's) option"
    and loop :: "'i list \<Rightarrow> 's \<Rightarrow> (('e + 'b) option \<times> 'i list \<times> 's) option"
    and held :: "'s \<Rightarrow> 'n multiset"
    and takes :: "'i \<Rightarrow> 'n multiset"
    and clears :: "'i \<Rightarrow> 'n multiset"
    and stays :: "'s \<Rightarrow> 's \<Rightarrow> bool"
  assumes loop_Nil: "loop [] s = Some (None, [], s)"
    and loop_Cons: "loop (i # is) s = (case turn i s of
        None \<Rightarrow> None
      | Some (Inl e, s1) \<Rightarrow> Some (Some (Inl e), is, s1)
      | Some (Inr (Some b), s1) \<Rightarrow> Some (Some (Inr b), is, s1)
      | Some (Inr None, s1) \<Rightarrow> loop is s1)"
    and turn_conserves: "turn i s = Some (r, s') \<Longrightarrow> held s + takes i \<subseteq># held s' + clears i"
    and turn_stays: "turn i s = Some (r, s') \<Longrightarrow> stays s s'"
    and stays_refl: "stays s s"
    and stays_trans: "stays s s' \<Longrightarrow> stays s' s'' \<Longrightarrow> stays s s''"
begin

lemma loop_conserves:
  assumes "loop is s = Some (res, rest, s')"
  shows "\<exists>done. is = done @ rest \<and> stays s s' \<and>
    held s + sum_list (map takes done) \<subseteq># held s' + sum_list (map clears done)"
  using assms
proof (induction "is" arbitrary: s)
  case Nil
  then show ?case by (auto simp: loop_Nil stays_refl)
next
  case (Cons i "is")
  then obtain r s1 where t: "turn i s = Some (r, s1)" by (auto simp: loop_Cons split: option.splits)
  show ?case
  proof (cases "r = Inr None")
    case True
    with Cons.prems t have "loop is s1 = Some (res, rest, s')" by (simp add: loop_Cons)
    from Cons.IH [OF this] obtain d where d: "is = d @ rest" "stays s1 s'"
      "held s1 + sum_list (map takes d) \<subseteq># held s' + sum_list (map clears d)" by blast
    from sub_mset_chain [OF turn_conserves [OF t] d(3)] d(1) stays_trans [OF turn_stays [OF t] d(2)]
    show ?thesis by (intro exI [of _ "i # d"]) simp
  next
    case False
    with Cons.prems t have "rest = is" "s' = s1"
      by (auto simp: loop_Cons split: sum.splits option.splits)
    with turn_conserves [OF t] turn_stays [OF t] show ?thesis by (intro exI [of _ "[i]"]) simp
  qed
qed

end

text \<open>The names of direct notifications an input delivers, and those it acknowledges.\<close>

definition taken_in :: "'x ws_input \<Rightarrow> (uuid \<times> string) multiset" where
  "taken_in inp = (case inp of InNotif (Some m) \<Rightarrow> names (direct_in m) | _ \<Rightarrow> {#})"

definition cleared_by :: "'x ws_lib \<Rightarrow> 'x ws_input \<Rightarrow> (uuid \<times> string) multiset" where
  "cleared_by W inp = (case inp of
       InMsg (Some (Inr (WsText t))) \<Rightarrow>
         (case client_message_from_str (wl_json W) t of Inl _ \<Rightarrow> {#} | Inr m \<Rightarrow> acked_in m)
     | _ \<Rightarrow> {#})"

lemma on_conn_frame:
  "on_conn act s = (r, s') \<Longrightarrow> ws_client s' = ws_client s \<and> ws_pings s' = ws_pings s \<and>
     sv_registry (ws_server s') = sv_registry (ws_server s) \<and>
     sv_broadcaster (ws_server s') = sv_broadcaster (ws_server s)"
  by (auto simp: on_conn_def Let_def split: prod.splits)

lemma go_on_cases:
  assumes "go_on r = (q, s')"
  shows "snd r = s' \<and> q = map_sum id (\<lambda>_. None) (fst r)"
  using assms by (cases r; cases "fst r") (auto simp: go_on_def)

lemma reply_client:
  assumes r: "reply W (on_client act s) = Some (q, s')"
    and act: "\<And>r c x. act (ws_client s, sv_ext (ws_server s)) = Some (r, c, x) \<Longrightarrow> step_keeps A new old (ws_client s) r c"
  shows "names (c_direct (ws_client s)) + new \<subseteq># names (c_direct (ws_client s')) + old \<and>
    same_identity (ws_client s) (ws_client s') \<and> ws_pings s' = ws_pings s \<and>
    (c_sent_from_storage (ws_client s) \<le> app_msg_limit A \<and> (\<exists>b. q = Inr b) \<longrightarrow>
       c_sent_from_storage (ws_client s') \<le> app_msg_limit A) \<and> q \<noteq> Inl WsPongTimeout \<and> (\<forall>b. q \<noteq> Inr (Some b))"
proof -
  from r obtain p c x where a: "act (ws_client s, sv_ext (ws_server s)) = Some (p, c, x)"
    by (auto simp: reply_def on_client_def)
  note k = act [OF a, unfolded step_keeps_def]
  let ?s1 = "s\<lparr>ws_client := c, ws_server := (ws_server s)\<lparr>sv_ext := x\<rparr>\<rparr>"
  have texts: "t \<noteq> Inl WsPongTimeout" if "session_texts W ms y = (t, y')" for t ms y y'
    using that
    by (induction W ms y rule: session_texts.induct)
      (auto simp: andThen_def session_text_def sent_ok_def split: prod.splits sum.splits if_splits)
  show ?thesis
  proof (cases p)
    case (Inl e)
    with r a have "q = Inl (WsSM e)" "s' = ?s1" by (simp_all add: reply_def on_client_def)
    with k show ?thesis by auto
  next
    case (Inr ms)
    obtain t s2 where t: "on_conn (session_texts W ms) ?s1 = (t, s2)" by (rule prod.exhaust)
    with r a Inr have "go_on (t, s2) = (q, s')" by (simp add: reply_def on_client_def)
    from go_on_cases [OF this] have g: "s' = s2" "q = map_sum id (\<lambda>_. None) t" by simp_all
    have "t \<noteq> Inl WsPongTimeout"
      using t texts by (auto simp: on_conn_def Let_def split: prod.splits)
    with g on_conn_frame [OF t] k Inr show ?thesis by (cases t) auto
  qed
qed

lemma ping_or_broadcast_frame:
  assumes "ws_ping_or_broadcast W cfg s = (r, s')"
  shows "c_direct (ws_client s') = c_direct (ws_client s) \<and> same_identity (ws_client s) (ws_client s') \<and>
    c_sent_from_storage (ws_client s') = c_sent_from_storage (ws_client s) \<and> r \<noteq> Inl WsPongTimeout"
proof -
  obtain delta subs where d: "change_count_delta (sv_broadcaster (ws_server s)) (c_broadcast_subs (ws_client s)) = (delta, subs)"
    by (rule prod.exhaust)
  have sent: "fst (on_conn act u) \<noteq> Inl WsPongTimeout"
    if "\<And>x. fst (act x) \<noteq> Inl WsPongTimeout" for act :: "'a \<Rightarrow> (ws_error, unit, 'a) outcome" and u
    using that [of "sv_ext (ws_server u)"] by (auto simp: on_conn_def Let_def split: prod.splits)
  have snds: "fst (session_text W m x) \<noteq> Inl WsPongTimeout" "fst (session_ping W b x) \<noteq> Inl WsPongTimeout" for m x b
    by (auto simp: session_text_def session_ping_def sent_ok_def split: sum.splits)
  show ?thesis
  proof (cases delta)
    case (Some bs)
    with assms d have o: "on_conn (session_text W (ServerBroadcast (vec_into_hashmap bs)))
        (s\<lparr>ws_client := (ws_client s)\<lparr>c_broadcast_subs := subs\<rparr>\<rparr>) = (r, s')"
      by (simp add: ws_ping_or_broadcast_def client_broadcast_delta_def)
    have "r \<noteq> Inl WsPongTimeout" using arg_cong [OF o, of fst]
        sent [where act = "session_text W (ServerBroadcast (vec_into_hashmap bs))", OF snds(1)] by auto
    with on_conn_frame [OF o] show ?thesis by (simp add: same_identity_def)
  next
    case None
    obtain q s2 where q: "on_conn (session_ping W []) (s\<lparr>ws_client := (ws_client s)\<lparr>c_broadcast_subs := subs\<rparr>\<rparr>) = (q, s2)"
      by (rule prod.exhaust)
    with assms d None have "andThen (q, s2) (\<lambda>_ s2. (Inr (), s2\<lparr>ws_pings := set_waiting cfg ForPong\<rparr>)) = (r, s')"
      by (simp add: ws_ping_or_broadcast_def client_broadcast_delta_def)
    moreover have "q \<noteq> Inl WsPongTimeout" using arg_cong [OF q, of fst]
        sent [where act = "session_ping W []", OF snds(2)] by auto
    ultimately show ?thesis
      using on_conn_frame [OF q] by (cases q) (auto simp: same_identity_def)
  qed
qed

lemma reply_notif:
  assumes "reply W (on_client (on_server_notif A n) s) = Some (r, s')"
  shows "names (c_direct (ws_client s)) + names (direct_in n) \<subseteq># names (c_direct (ws_client s')) \<and>
    same_identity (ws_client s) (ws_client s') \<and> ws_pings s' = ws_pings s \<and>
    (c_sent_from_storage (ws_client s) \<le> app_msg_limit A \<and> (\<exists>b. r = Inr b) \<longrightarrow>
       c_sent_from_storage (ws_client s') \<le> app_msg_limit A) \<and> r \<noteq> Inl WsPongTimeout \<and> (\<forall>b. r \<noteq> Inr (Some b))"
  using reply_client [OF assms, of A "names (direct_in n)" "{#}"] on_server_notif_step by fastforce

lemma reply_msg:
  assumes "reply W (on_client (on_client_msg A tr cm) s) = Some (r, s')"
  shows "names (c_direct (ws_client s)) \<subseteq># names (c_direct (ws_client s')) + acked_in cm \<and>
    same_identity (ws_client s) (ws_client s') \<and> ws_pings s' = ws_pings s \<and>
    (c_sent_from_storage (ws_client s) \<le> app_msg_limit A \<and> (\<exists>b. r = Inr b) \<longrightarrow>
       c_sent_from_storage (ws_client s') \<le> app_msg_limit A) \<and> r \<noteq> Inl WsPongTimeout \<and> (\<forall>b. r \<noteq> Inr (Some b))"
  using reply_client [OF assms, of A "{#}" "acked_in cm"] on_client_msg_step by fastforce

text \<open>The branches of a turn; in those left over nothing changes.\<close>

lemma identified_turn_cases:
  assumes turn: "identified_turn W A cfg inp s = Some (r, s')"
  obtains (notified) n where "inp = InNotif (Some n)" "reply W (on_client (on_server_notif A n) s) = Some (r, s')"
    | (late) "inp = InTick" "pm_waiting (ws_pings s) = ForPong" "r = Inl WsPongTimeout" "s' = s"
    | (due) "inp = InTick" "pm_waiting (ws_pings s) = ToPing" "go_on (ws_ping_or_broadcast W cfg s) = (r, s')"
    | (client) t cm where "inp = InMsg (Some (Inr (WsText t)))" "client_message_from_str (wl_json W) t = Inr cm"
        "reply W (on_client (on_client_msg A (sv_broadcaster (ws_server s)) cm) s) = Some (r, s')"
    | (pinged) b where "inp = InMsg (Some (Inr (WsPing b)))" "go_on (on_conn (session_pong W b) s) = (r, s')"
    | (ponged) b where "inp = InMsg (Some (Inr (WsPong b)))" "r = Inr None"
        "s' = s\<lparr>ws_pings := on_ws_pong cfg (ws_pings s)\<rparr>"
    | (others) f where "inp = InOthers f" "r = Inr None" "s' = s\<lparr>ws_server := f (ws_server s)\<rparr>"
    | (left) "s' = s" "inp \<noteq> InTick" "\<forall>b. inp \<noteq> InMsg (Some (Inr (WsPong b)))" "taken_in inp = {#}"
        "r \<noteq> Inl WsPongTimeout"
proof (cases inp)
  case (InMsg m)
  show ?thesis
  proof (cases "\<exists>msg. m = Some (Inr msg)")
    case False
    with InMsg turn have "s' = s \<and> r \<noteq> Inl WsPongTimeout"
      by (cases m; cases "the m") (auto simp: identified_turn_def)
    with InMsg False show ?thesis by (intro left) (auto simp: taken_in_def)
  next
    case True
    then obtain msg where m: "inp = InMsg (Some (Inr msg))" using InMsg by blast
    have same: thesis if "s' = s" "r \<noteq> Inl WsPongTimeout" "\<And>b. msg \<noteq> WsPong b"
      using that m by (intro left) (auto simp: taken_in_def)
    show ?thesis
    proof (cases msg)
      case (WsText t)
      show ?thesis
      proof (cases "client_message_from_str (wl_json W) t")
        case (Inl e)
        with WsText m turn show ?thesis by (intro same) (auto simp: identified_turn_def)
      next
        case (Inr cm)
        with WsText m turn show ?thesis by (intro client [of t cm]) (simp_all add: identified_turn_def)
      qed
    next
      case (WsPing b)
      with m turn show ?thesis by (intro pinged [of b]) (simp_all add: identified_turn_def)
    next
      case (WsPong b)
      with m turn show ?thesis by (intro ponged [of b]) (simp_all add: identified_turn_def)
    qed (use m turn in \<open>intro same; auto simp: identified_turn_def\<close>)+
  qed
next
  case (InNotif m)
  show ?thesis
  proof (cases m)
    case None
    with InNotif turn show ?thesis by (intro left) (auto simp: identified_turn_def taken_in_def)
  next
    case (Some n)
    with InNotif turn show ?thesis by (intro notified [of n]) (simp_all add: identified_turn_def)
  qed
next
  case InTick
  show ?thesis
  proof (cases "pm_waiting (ws_pings s)")
    case ForPong
    with InTick turn show ?thesis by (intro late) (simp_all add: identified_turn_def ping_tick_def)
  next
    case ToPing
    with InTick turn show ?thesis by (intro due) (simp_all add: identified_turn_def ping_tick_def)
  qed
next
  case (InOthers f)
  with turn show ?thesis by (intro others [of f]) (simp_all add: identified_turn_def)
qed

lemma identified_turn_keeps:
  assumes "identified_turn W A cfg inp s = Some (r, s')"
  shows "names (c_direct (ws_client s)) + taken_in inp \<subseteq># names (c_direct (ws_client s')) + cleared_by W inp \<and>
    same_identity (ws_client s) (ws_client s') \<and>
    (c_sent_from_storage (ws_client s) \<le> app_msg_limit A \<and> (\<exists>b. r = Inr b) \<longrightarrow>
       c_sent_from_storage (ws_client s') \<le> app_msg_limit A)"
  using assms
proof (cases rule: identified_turn_cases)
  case (notified n)
  with reply_notif [OF notified(2)] show ?thesis by (simp add: taken_in_def cleared_by_def)
next
  case due
  obtain q s1 where q: "ws_ping_or_broadcast W cfg s = (q, s1)" by (rule prod.exhaust)
  with go_on_cases [OF due(3)] ping_or_broadcast_frame [OF q] due(1) show ?thesis by (auto simp: taken_in_def)
next
  case (client t cm)
  with reply_msg [OF client(3)] show ?thesis by (simp add: taken_in_def cleared_by_def)
next
  case (pinged b)
  obtain q s1 where q: "on_conn (session_pong W b) s = (q, s1)" by (rule prod.exhaust)
  with go_on_cases [OF pinged(2)] on_conn_frame [OF q] pinged(1) show ?thesis
    by (auto simp: taken_in_def same_identity_def)
qed (auto simp: taken_in_def same_identity_def)

interpretation ws_loop: conserving_loop "identified_turn W A cfg" "identified_loop W A cfg"
  "\<lambda>s. names (c_direct (ws_client s))" taken_in "cleared_by W"
  "\<lambda>s s'. same_identity (ws_client s) (ws_client s')" for W A cfg
proof unfold_locales
  fix s s' s'' :: "'a ws_state" and i r
  show "identified_loop W A cfg [] s = Some (None, [], s)" by simp
  assume t: "identified_turn W A cfg i s = Some (r, s')"
  from identified_turn_keeps [OF t]
  show "names (c_direct (ws_client s)) + taken_in i \<subseteq># names (c_direct (ws_client s')) + cleared_by W i"
    "same_identity (ws_client s) (ws_client s')" by simp_all
qed (auto simp: same_identity_def split: option.splits sum.splits)

section \<open>Properties\<close>

lemma map_sum_id_Inr: "map_sum f id r = Inr y \<longleftrightarrow> r = Inr y"
  by (cases r) simp_all

lemma fold_shutdown:
  "c_direct (fold on_server_notif_shutdown ms c) =
     c_direct c @ concat (map (\<lambda>m. case m of DirectNotification n \<Rightarrow> [n] | _ \<Rightarrow> []) ms)"
  "c_uaid (fold on_server_notif_shutdown ms c) = c_uaid c \<and> c_uid (fold on_server_notif_shutdown ms c) = c_uid c"
  by (induction ms arbitrary: c) (auto simp: on_server_notif_shutdown_def split: server_notification.splits)

lemma shutdown_saves:
  assumes "shutdown c = (c', saved)"
  shows "names (case saved of None \<Rightarrow> [] | Some ns \<Rightarrow> ns) = names (c_direct c)" "c_direct c' = []"
    "c_uaid c' = c_uaid c" "c_uid c' = c_uid c"
proof -
  have "names (map (\<lambda>n. n\<lparr>n_sortkey_timestamp := Some 0\<rparr>) ns) = names ns" for ns
    by (induction ns) (simp_all add: names_def name_of_def)
  then show "names (case saved of None \<Rightarrow> [] | Some ns \<Rightarrow> ns) = names (c_direct c)"
    using assms by (auto simp: shutdown_def save_and_notify_unacked_direct_notifs_def Let_def split: if_splits)
  show "c_direct c' = []" "c_uaid c' = c_uaid c" "c_uid c' = c_uid c"
    using assms by (auto simp: shutdown_def save_and_notify_unacked_direct_notifs_def Let_def split: if_splits)
qed

lemma unidentified_ws_direct:
  assumes "unidentified_ws W A ua first sv = Some (Inr (c, smsgs), sv')"
  shows "c_direct c = []"
proof -
  from assms obtain bc msg x x' where "unidentified_on_client_msg A bc ua msg x = Some (Inr (c, smsgs), x')"
    by (auto simp: unidentified_ws_def map_sum_id_Inr split: option.splits sum.splits ws_message.splits)
  then show ?thesis
    by (rule unidentified_on_client_msg_Inr)
      (auto dest!: web_push_client_new_fresh(1) simp: fresh_session_def)
qed

text \<open>The direct notifications still in the channel when the loop has ended.\<close>

definition late_direct :: "'x chan_lib \<Rightarrow> nat \<Rightarrow> 'x ws_state \<Rightarrow> notification list" where
  "late_direct ch rx s =
     (let (_, _, x) = clients_disconnect (c_uaid (ws_client s)) (c_uid (ws_client s))
            (sv_registry (ws_server s), sv_ext (ws_server s));
          (left, _) = ch_close_drain ch rx x
      in concat (map (\<lambda>m. case m of DirectNotification n \<Rightarrow> [n] | _ \<Rightarrow> []) left))"

lemma end_session_saves:
  assumes "end_session ch rx s = ((c, saved), sv')"
  shows "names (case saved of None \<Rightarrow> [] | Some ns \<Rightarrow> ns) = names (c_direct (ws_client s)) + names (late_direct ch rx s)"
    and "c_direct c = []" and "sv_registry sv' (c_uaid c) = Some k \<Longrightarrow> rc_uid k \<noteq> c_uid c"
proof -
  obtain q clients2 x2 where q: "clients_disconnect (c_uaid (ws_client s)) (c_uid (ws_client s))
      (sv_registry (ws_server s), sv_ext (ws_server s)) = (q, clients2, x2)" by (metis prod.exhaust)
  obtain left x3 where l: "ch_close_drain ch rx x2 = (left, x3)" by (rule prod.exhaust)
  from assms q l have sh: "shutdown (fold on_server_notif_shutdown left (ws_client s)) = (c, saved)"
    and sv': "sv_registry sv' = clients2"
    by (auto simp: end_session_def Let_def)
  note sh' = shutdown_saves [OF sh, unfolded fold_shutdown]
  from sh'(1) q l show "names (case saved of None \<Rightarrow> [] | Some ns \<Rightarrow> ns) =
      names (c_direct (ws_client s)) + names (late_direct ch rx s)"
    by (simp add: late_direct_def)
  show "c_direct c = []" by (fact sh'(2))
  assume "sv_registry sv' (c_uaid c) = Some k"
  then show "rc_uid k \<noteq> c_uid c"
    using disconnect_frame(2) [of "c_uaid (ws_client s)" "c_uid (ws_client s)"
        "(sv_registry (ws_server s), sv_ext (ws_server s))" "c_uaid (ws_client s)"] q sv' sh'(3,4) fold_shutdown(2)
    by (auto split: if_splits)
qed

lemma identified_ws_conserves:
  assumes "identified_ws W A cfg smsgs inps c0 sv = Some (res, rest, s)"
  shows "\<exists>done. inps = done @ rest \<and> same_identity c0 (ws_client s) \<and>
    names (c_direct c0) + sum_list (map taken_in done) \<subseteq>#
    names (c_direct (ws_client s)) + sum_list (map (cleared_by W) done)"
proof -
  let ?s0 = "\<lparr>ws_client = c0, ws_pings = ping_manager_new cfg, ws_server = sv\<rparr>"
  obtain t s1 where t: "on_conn (session_texts W smsgs) ?s0 = (t, s1)" by (rule prod.exhaust)
  from on_conn_frame [OF t] have c1: "ws_client s1 = c0" by simp
  show ?thesis
  proof (cases t)
    case (Inl e)
    with assms t c1 show ?thesis by (auto simp: identified_ws_def same_identity_def)
  next
    case (Inr u)
    with assms t have "identified_loop W A cfg inps s1 = Some (res, rest, s)" by (simp add: identified_ws_def)
    from ws_loop.loop_conserves [OF this] c1 show ?thesis by simp
  qed
qed

text \<open>Claim C1. The end of a session loses no direct notification and leaves the registry.
  However the loop ends (an error, a close frame, the end of the stream), every direct
  notification that was delivered with a non-zero TTL in the inputs the loop consumed, and
  every one still in the channel, is handed to storage or was acknowledged by the client;
  the session is no longer registered, and a newer session of the same user stays.\<close>

theorem session_end_saves_direct:
  assumes hello: "unidentified_ws W A ua first sv = Some (Inr (c0, smsgs), sv1)"
    and connect: "clients_connect ch (c_uaid c0) (c_uid c0) (sv_registry sv1, sv_ext sv1) = (rx, clients, x1)"
    and loop: "identified_ws W A cfg smsgs inps c0 (sv1\<lparr>sv_registry := clients, sv_ext := x1\<rparr>) =
      Some (Some result, rest, s)"
  shows "\<exists>c saved sv' done.
    webpush_ws W ch A cfg ua first inps sv = Some (Ended result c saved sv') \<and> inps = done @ rest \<and>
    sum_list (map taken_in done) + names (late_direct ch rx s) \<subseteq>#
      names (case saved of None \<Rightarrow> [] | Some ns \<Rightarrow> ns) + sum_list (map (cleared_by W) done) \<and>
    c_direct c = [] \<and> (\<forall>k. sv_registry sv' (c_uaid c) = Some k \<longrightarrow> rc_uid k \<noteq> c_uid c)"
proof -
  obtain c saved sv' where e: "end_session ch rx s = ((c, saved), sv')" by (metis prod.exhaust)
  from hello connect loop e have w: "webpush_ws W ch A cfg ua first inps sv = Some (Ended result c saved sv')"
    by (simp add: webpush_ws_def)
  from identified_ws_conserves [OF loop] unidentified_ws_direct [OF hello]
  obtain d where d: "inps = d @ rest"
    "sum_list (map taken_in d) \<subseteq># names (c_direct (ws_client s)) + sum_list (map (cleared_by W) d)" by auto
  have "sum_list (map taken_in d) + names (late_direct ch rx s) \<subseteq>#
      names (case saved of None \<Rightarrow> [] | Some ns \<Rightarrow> ns) + sum_list (map (cleared_by W) d)"
    using d(2) end_session_saves(1) [OF e] by (simp add: union_assoc union_commute union_lcomm)
  with w d(1) end_session_saves(2,3) [OF e] show ?thesis by blast
qed

lemma on_conn_no_timeout:
  assumes "on_conn act s = (r, s')" and "\<And>x. fst (act x) \<noteq> Inl WsPongTimeout"
  shows "r \<noteq> Inl WsPongTimeout"
  using assms(1) assms(2) [of "sv_ext (ws_server s)"] by (auto simp: on_conn_def Let_def split: prod.splits)

lemma identified_turn_pings:
  assumes "identified_turn W A cfg inp s = Some (r, s')"
  shows "(r = Inl WsPongTimeout \<longrightarrow> inp = InTick \<and> pm_waiting (ws_pings s) = ForPong) \<and>
    (inp = InTick \<and> pm_waiting (ws_pings s) = ForPong \<longrightarrow> r = Inl WsPongTimeout) \<and>
    (\<forall>b. inp = InMsg (Some (Inr (WsPong b))) \<longrightarrow> pm_waiting (ws_pings s') = ToPing) \<and>
    (inp \<noteq> InTick \<and> (\<forall>b. inp \<noteq> InMsg (Some (Inr (WsPong b)))) \<longrightarrow> ws_pings s' = ws_pings s)"
  using assms
proof (cases rule: identified_turn_cases)
  case (notified n)
  with reply_notif [OF notified(2)] show ?thesis by simp
next
  case due
  obtain q s1 where q: "ws_ping_or_broadcast W cfg s = (q, s1)" by (rule prod.exhaust)
  with go_on_cases [OF due(3)] ping_or_broadcast_frame [OF q] due show ?thesis by (cases q) auto
next
  case (client t cm)
  with reply_msg [OF client(3)] show ?thesis by simp
next
  case (pinged b)
  obtain q s1 where q: "on_conn (session_pong W b) s = (q, s1)" by (rule prod.exhaust)
  have "q \<noteq> Inl WsPongTimeout"
    by (rule on_conn_no_timeout [OF q]) (simp add: session_pong_def sent_ok_def)
  with q go_on_cases [OF pinged(2)] on_conn_frame [OF q] pinged(1) show ?thesis by (cases q) auto
next
  case (ponged b)
  then show ?thesis by (simp add: on_ws_pong_def set_waiting_def split: waiting.splits)
qed auto

definition quiet :: "'x ws_input list \<Rightarrow> bool" where
  "quiet inps \<longleftrightarrow> (\<forall>inp \<in> set inps. inp \<noteq> InTick \<and> (\<forall>b. inp \<noteq> InMsg (Some (Inr (WsPong b)))))"

text \<open>A turn of the loop that starts to wait for a pong has sent a ping.\<close>

lemma waiting_means_pinged:
  assumes "identified_turn W A cfg inp s = Some (r, s')"
    and "pm_waiting (ws_pings s) = ToPing" and "pm_waiting (ws_pings s') = ForPong"
  shows "inp = InTick" "wl_ping W [] (sv_ext (ws_server s)) = (True, sv_ext (ws_server s'))"
    "ws_pings s' = set_waiting cfg ForPong"
proof -
  note p = identified_turn_pings [OF assms(1), THEN conjunct2, THEN conjunct2]
  show t: "inp = InTick"
  proof (rule ccontr)
    assume n: "inp \<noteq> InTick"
    have "inp \<noteq> InMsg (Some (Inr (WsPong b)))" for b
      using conjunct1 [OF p] assms(3) by (metis waiting.distinct(1))
    with n conjunct2 [OF p] have "ws_pings s' = ws_pings s" by blast
    with assms(2,3) show False by simp
  qed
  obtain q s1 where q: "ws_ping_or_broadcast W cfg s = (q, s1)" by (rule prod.exhaust)
  have s1: "s1 = s'" using assms(1,2) t q by (cases q) (auto simp: identified_turn_def ping_tick_def go_on_def)
  obtain delta s2 where d: "client_broadcast_delta s = (delta, s2)" by (rule prod.exhaust)
  then have s2: "ws_server s2 = ws_server s" "ws_pings s2 = ws_pings s"
    by (auto simp: client_broadcast_delta_def split: prod.splits)
  have "wl_ping W [] (sv_ext (ws_server s)) = (True, sv_ext (ws_server s')) \<and> ws_pings s' = set_waiting cfg ForPong"
    using q d s1 s2 assms(2,3)
    by (cases "wl_ping W [] (sv_ext (ws_server s))";
        auto simp: ws_ping_or_broadcast_def on_conn_def session_ping_def sent_ok_def andThen_def Let_def
        split: option.splits prod.splits sum.splits if_splits)
  then show "wl_ping W [] (sv_ext (ws_server s)) = (True, sv_ext (ws_server s'))" "ws_pings s' = set_waiting cfg ForPong"
    by simp_all
qed

lemma pong_timeout_trace:
  assumes "identified_loop W A cfg inps s = Some (Some (Inl WsPongTimeout), rest, s')"
  shows "(\<exists>pre mid sa sb. inps = pre @ InTick # mid @ InTick # rest \<and> quiet mid \<and>
      identified_loop W A cfg pre s = Some (None, [], sa) \<and> identified_loop W A cfg (pre @ [InTick]) s = Some (None, [], sb) \<and>
      wl_ping W [] (sv_ext (ws_server sa)) = (True, sv_ext (ws_server sb)) \<and> ws_pings sb = set_waiting cfg ForPong) \<or>
    pm_waiting (ws_pings s) = ForPong \<and> (\<exists>mid. inps = mid @ InTick # rest \<and> quiet mid)"
  using assms
proof (induction inps arbitrary: s)
  case (Cons inp inps)
  then obtain r s1 where t: "identified_turn W A cfg inp s = Some (r, s1)" by (auto split: option.splits)
  note p = identified_turn_pings [OF t]
  show ?case
  proof (cases "r = Inr None")
    case False
    with Cons.prems t have "r = Inl WsPongTimeout" "rest = inps"
      by (auto split: sum.splits option.splits)
    with p have "inp = InTick" "pm_waiting (ws_pings s) = ForPong" by auto
    with \<open>rest = inps\<close> show ?thesis by (auto simp: quiet_def intro!: exI [of _ "[]"])
  next
    case True
    with Cons.prems t have "identified_loop W A cfg inps s1 = Some (Some (Inl WsPongTimeout), rest, s')" by simp
    from Cons.IH [OF this] show ?thesis
    proof (elim disjE exE conjE)
      fix pre mid sa sb assume "inps = pre @ InTick # mid @ InTick # rest" "quiet mid"
        "identified_loop W A cfg pre s1 = Some (None, [], sa)" "identified_loop W A cfg (pre @ [InTick]) s1 = Some (None, [], sb)"
        "wl_ping W [] (sv_ext (ws_server sa)) = (True, sv_ext (ws_server sb))" "ws_pings sb = set_waiting cfg ForPong"
      with t True show ?thesis
        by (intro disjI1 exI [of _ "inp # pre"] exI [of _ mid] exI [of _ sa] exI [of _ sb]) simp
    next
      fix mid assume w: "pm_waiting (ws_pings s1) = ForPong" and m: "inps = mid @ InTick # rest" "quiet mid"
      show ?thesis
      proof (cases "pm_waiting (ws_pings s)")
        case ToPing
        note ping = waiting_means_pinged [OF t ToPing w]
        show ?thesis using t True m ping
          by (intro disjI1 exI [of _ "[]"] exI [of _ mid] exI [of _ s] exI [of _ s1]) simp
      next
        case ForPong
        with p True have "inp \<noteq> InTick" by auto
        with p w ForPong have "\<forall>b. inp \<noteq> InMsg (Some (Inr (WsPong b)))" by auto
        with \<open>inp \<noteq> InTick\<close> ForPong m show ?thesis
          by (intro disjI2 conjI exI [of _ "inp # mid"]) (auto simp: quiet_def)
      qed
    qed
  qed
qed simp

text \<open>Claim C34. A session is dropped for a missing pong only when the client really was silent:
  the timer fired and a ping was sent (not a broadcast in its place), which set the timer to the
  time allowed for the answer; then no pong arrived until the timer fired again.\<close>

theorem pong_timeout_only_when_silent:
  assumes "identified_ws W A cfg smsgs inps c sv = Some (Some (Inl WsPongTimeout), rest, s')"
  shows "\<exists>pre mid sa sb. inps = pre @ InTick # mid @ InTick # rest \<and> quiet mid \<and>
    identified_ws W A cfg smsgs pre c sv = Some (None, [], sa) \<and>
    identified_ws W A cfg smsgs (pre @ [InTick]) c sv = Some (None, [], sb) \<and>
    wl_ping W [] (sv_ext (ws_server sa)) = (True, sv_ext (ws_server sb)) \<and>
    pm_period (ws_pings sb) = ws_auto_ping_timeout cfg"
proof -
  let ?s0 = "\<lparr>ws_client = c, ws_pings = ping_manager_new cfg, ws_server = sv\<rparr>"
  obtain t s1 where t: "on_conn (session_texts W smsgs) ?s0 = (t, s1)" by (rule prod.exhaust)
  have no: "fst (session_texts W ms y) \<noteq> Inl WsPongTimeout" for ms y
    by (induction W ms y rule: session_texts.induct)
      (auto simp: andThen_def session_text_def sent_ok_def split: prod.splits sum.splits if_splits)
  have "pm_waiting (ws_pings s1) = ToPing" using on_conn_frame [OF t] by (simp add: ping_manager_new_def)
  moreover obtain u where u: "t = Inr u" and "identified_loop W A cfg inps s1 = Some (Some (Inl WsPongTimeout), rest, s')"
    using assms t on_conn_no_timeout [OF t no] by (cases t) (auto simp: identified_ws_def)
  moreover have "identified_ws W A cfg smsgs is c sv = identified_loop W A cfg is s1" for "is"
    using t u by (simp add: identified_ws_def)
  ultimately show ?thesis using pong_timeout_trace [of W A cfg inps s1] by (fastforce simp: set_waiting_def)
qed

section \<open>A concrete connection\<close>

definition demo_ws :: "mem_db ws_lib" where
  "demo_ws =
     \<lparr>wl_json = \<lparr>json_is_unit_map = (\<lambda>s. s = ''{}''), json_client_message = (\<lambda>s. Inr (ClientHello None None (Some True) None)),
        json_server_message = (\<lambda>m. Inr ''m'')\<rparr>,
      wl_text = (\<lambda>s x. (True, x)), wl_ping = (\<lambda>s x. (True, x)), wl_pong = (\<lambda>s x. (True, x)),
      wl_close = (\<lambda>r x. (True, x))\<rparr>"

text \<open>Channels whose receiver still holds a notification when the session ends.\<close>

definition late_notif :: notification where
  "late_notif = sample_notification\<lparr>n_version := ''late''\<rparr>"

definition demo_chans :: "mem_db chan_lib" where
  "demo_chans =
     \<lparr>ch_unbounded = (\<lambda>x. (0, x)), ch_send = (\<lambda>tx m x. (True, x)),
      ch_close_drain = (\<lambda>rx x. ([DirectNotification late_notif], x))\<rparr>"

definition demo_server :: "mem_db server" where
  "demo_server = \<lparr>sv_registry = Map.empty, sv_broadcaster = tracker_new [], sv_ext = mem_empty\<rparr>"

definition demo_cfg :: ws_settings where
  "demo_cfg = \<lparr>ws_auto_ping_interval = 300, ws_auto_ping_timeout = 4\<rparr>"

lemma demo_hello:
  "\<exists>c smsgs. unidentified_ws demo_ws (mem_app 5) [] (Some (Some (Inr (WsText ''hello'')))) demo_server =
     Some (Inr (c, smsgs), demo_server) \<and> length smsgs = 1"
  by (simp add: unidentified_ws_def demo_ws_def demo_server_def client_message_from_str_def
      unidentified_on_client_msg_def get_or_create_user_def create_user_def user_default_def
      web_push_client_new_def mem_app_simps client_flags_default_def case_prod_beta)

lemma demo_texts: "session_texts demo_ws ms x = (Inr (), x)"
  by (induction ms) (auto simp: session_text_def demo_ws_def server_message_to_json_def sent_ok_def split: server_message.splits)

lemma demo_registry: "sv_registry demo_server = Map.empty"
  by (simp add: demo_server_def)

lemma demo_ttl: "n_ttl sample_notification = 60"
  by (simp add: sample_notification_def)

theorem session_end_saves_direct_witness:
  "\<exists>c saved sv'. webpush_ws demo_ws demo_chans (mem_app 5) demo_cfg [] (Some (Some (Inr (WsText ''hello''))))
     [InNotif (Some (DirectNotification sample_notification)), InMsg (Some (Inr (WsClose None)))] demo_server =
     Some (Ended (Inr None) c saved sv') \<and>
     {#(3, ''late''), (3, ''v'')#} \<subseteq># names (case saved of None \<Rightarrow> [] | Some ns \<Rightarrow> ns)"
proof -
  let ?inps = "[InNotif (Some (DirectNotification sample_notification)), InMsg (Some (Inr (WsClose None)))]"
  let ?first = "Some (Some (Inr (WsText ''hello'')))"
  obtain c0 smsgs where h: "unidentified_ws demo_ws (mem_app 5) [] ?first demo_server =
      Some (Inr (c0, smsgs), demo_server)" using demo_hello by blast
  let ?clients = "Map.empty(c_uaid c0 \<mapsto> \<lparr>rc_uaid = c_uaid c0, rc_uid = c_uid c0, rc_tx = 0\<rparr>)"
  have r: "clients_connect demo_chans (c_uaid c0) (c_uid c0) (sv_registry demo_server, sv_ext demo_server) =
      (0, ?clients, mem_empty)"
    by (simp add: clients_connect_def demo_chans_def demo_server_def)
  obtain s where ws: "identified_ws demo_ws (mem_app 5) demo_cfg smsgs ?inps c0
      (demo_server\<lparr>sv_registry := ?clients, sv_ext := mem_empty\<rparr>) = Some (Some (Inr None), [], s)"
    by (simp add: identified_ws_def on_conn_def demo_texts identified_turn_def reply_def on_client_def
      on_server_notif_def notif_def demo_ttl go_on_def Let_def)
  from session_end_saves_direct [OF h r ws] obtain c saved sv' d where
    w: "webpush_ws demo_ws demo_chans (mem_app 5) demo_cfg [] ?first ?inps demo_server = Some (Ended (Inr None) c saved sv')"
    and d: "?inps = d" "sum_list (map taken_in d) + names (late_direct demo_chans 0 s) \<subseteq>#
      names (case saved of None \<Rightarrow> [] | Some ns \<Rightarrow> ns) + sum_list (map (cleared_by demo_ws) d)"
    by auto
  have "names (late_direct demo_chans 0 s) = {#(3, ''late'')#}"
    by (simp add: late_direct_def demo_chans_def late_notif_def sample_notification_def names_def name_of_def
      split: prod.split)
  moreover have "sum_list (map taken_in d) = {#(3, ''v'')#}" "sum_list (map (cleared_by demo_ws) d) = {#}"
    unfolding d(1) [symmetric]
    by (simp_all add: taken_in_def direct_in_def cleared_by_def sample_notification_def names_def name_of_def)
  ultimately show ?thesis using w d(2) by auto
qed

theorem pong_timeout_only_when_silent_witness:
  "\<exists>pre mid sa s'. [InMsg (Some (Inr (WsPong []))), InTick, InMsg (Some (Inr WsNop)), InTick] =
       pre @ InTick # mid @ InTick # ([] :: mem_db ws_input list) \<and> quiet mid \<and>
     identified_ws demo_ws (mem_app 5) demo_cfg [] pre demo_client demo_server = Some (None, [], sa) \<and>
     identified_ws demo_ws (mem_app 5) demo_cfg [] (pre @ InTick # mid @ [InTick]) demo_client demo_server =
       Some (Some (Inl WsPongTimeout), [], s')"
proof -
  let ?inps = "[InMsg (Some (Inr (WsPong []))), InTick, InMsg (Some (Inr WsNop)), InTick]"
  have "\<exists>s'. identified_ws demo_ws (mem_app 5) demo_cfg [] ?inps demo_client demo_server =
      Some (Some (Inl WsPongTimeout), [], s')"
    by (simp add: identified_ws_def on_conn_def identified_turn_def on_ws_pong_def ping_manager_new_def
        ping_tick_def go_on_def ws_ping_or_broadcast_def client_broadcast_delta_def demo_server_def
        demo_client_def change_count_delta_def tracker_new_def session_ping_def sent_ok_def
        demo_ws_def set_waiting_def Let_def)
  then obtain s' where w: "identified_ws demo_ws (mem_app 5) demo_cfg [] ?inps demo_client demo_server =
      Some (Some (Inl WsPongTimeout), [], s')" by blast
  from pong_timeout_only_when_silent [OF w] obtain pre mid sa where
    "?inps = pre @ InTick # mid @ InTick # []" "quiet mid"
    "identified_ws demo_ws (mem_app 5) demo_cfg [] pre demo_client demo_server = Some (None, [], sa)" by blast
  with w show ?thesis by metis
qed

end
