(* ===== verification/Reporting.thy ===== *)
theory Reporting
  imports EpServer ConnWeb WsHandler
begin

text \<open>
  What becomes of errors besides their answers: \<open>autopush-common/src/{tags,sentry}.rs\<close>,
  \<open>middleware/sentry.rs\<close>, the trait \<open>ReportableError\<close> of \<open>errors.rs\<close> with its implementations,
  \<open>metrics.rs\<close> of the endpoint server, and the wrapping of both servers. The trait is the locale
  \<open>reportable_error\<close>, with the law its documentation states; the last section shows which errors
  of a request are neither reported nor counted. Sending to Sentry or statsd is a list of reports.
\<close>

section \<open>Tags\<close>

record tags =
  tg_tags :: "(string, string) hashmap"
  tg_extra :: "(string, string) hashmap"

definition tags_default :: tags where
  "tags_default = \<lparr>tg_tags = [], tg_extra = []\<rparr>"

definition tags_from_head :: "string \<Rightarrow> tags" where
  "tags_from_head http_verb = \<lparr>tg_tags = [(''uri.method'', http_verb)], tg_extra = []\<rparr>"

definition with_tags :: "(string, string) hashmap \<Rightarrow> tags" where
  "with_tags m = (if m = [] then tags_default else \<lparr>tg_tags = m, tg_extra = []\<rparr>)"

definition insert_if_not_empty :: "string \<Rightarrow> string \<Rightarrow> (string, string) hashmap \<Rightarrow> (string, string) hashmap" where
  "insert_if_not_empty label val m = (if val \<noteq> [] then hm_insert label val m else m)"

definition tags_get :: "tags \<Rightarrow> string \<Rightarrow> string" where
  "tags_get t label = (case hm_get (tg_tags t) label of None \<Rightarrow> ''None'' | Some v \<Rightarrow> v)"

definition tags_extend :: "(string, string) hashmap \<Rightarrow> tags \<Rightarrow> tags" where
  "tags_extend m t = t\<lparr>tg_tags := hm_extend (tg_tags t) m\<rparr>"

text \<open>A \<open>BTreeMap\<close> is taken as the map it is.\<close>

definition tag_tree :: "tags \<Rightarrow> string \<rightharpoonup> string" where
  "tag_tree t = fold (\<lambda>(k, v) m. m(k \<mapsto> v)) (tg_tags t) Map.empty"

definition extra_tree :: "tags \<Rightarrow> string \<rightharpoonup> json" where
  "extra_tree t = fold (\<lambda>(k, v) m. m(k \<mapsto> JStr v)) (tg_extra t) Map.empty"

definition tags_serialize :: "tags \<Rightarrow> json" where
  "tags_serialize t = JObj (map (\<lambda>(k, v). (k, JStr v)) (filter (\<lambda>(k, v). v \<noteq> []) (tg_tags t)))"

text \<open>The extractor: the tags a middleware left in the request, or those of its head.\<close>

definition tags_from_request :: "tags option \<Rightarrow> string \<Rightarrow> tags" where
  "tags_from_request ext http_verb = (case ext of Some t \<Rightarrow> t | None \<Rightarrow> tags_from_head http_verb)"

section \<open>Metrics of the endpoint server\<close>

datatype metric =
    Counter string "(string, string) hashmap"
  | Timing string u64 "(string, string) hashmap"

record metric_timer =
  tm_label :: string
  tm_start :: nat
  tm_tags :: tags

text \<open>What is sent goes to statsd or, for \<open>noop\<close>, nowhere; times are in nanoseconds.\<close>

datatype statsd_client = Statsd | NopSink

record metrics =
  mx_client :: "statsd_client option"
  mx_timer :: "metric_timer option"
  mx_tags :: "tags option"

definition metrics_of_request :: "tags option \<Rightarrow> string \<Rightarrow> metrics" where
  "metrics_of_request ext http_verb =
     \<lparr>mx_client = Some Statsd, mx_timer = None,
      mx_tags = Some (case ext of Some t \<Rightarrow> t | None \<Rightarrow> tags_from_head http_verb)\<rparr>"

definition metrics_of_state :: metrics where
  "metrics_of_state = \<lparr>mx_client = Some Statsd, mx_timer = None, mx_tags = None\<rparr>"

definition metrics_noop :: metrics where
  "metrics_noop = \<lparr>mx_client = Some NopSink, mx_timer = None, mx_tags = None\<rparr>"

definition metric_sent :: "metrics \<Rightarrow> metric \<Rightarrow> metric list" where
  "metric_sent mx m = (case mx_client mx of Some Statsd \<Rightarrow> [m] | _ \<Rightarrow> [])"

definition start_timer :: "string \<Rightarrow> tags option \<Rightarrow> nat \<Rightarrow> metrics \<Rightarrow> metrics" where
  "start_timer label tags now mx =
     (let mtags = (case mx_tags mx of None \<Rightarrow> tags_default | Some t \<Rightarrow> t);
          mtags1 = (case tags of None \<Rightarrow> mtags | Some t \<Rightarrow> tags_extend (tg_tags t) mtags)
      in mx\<lparr>mx_timer := Some \<lparr>tm_label = label, tm_start = now, tm_tags = mtags1\<rparr>\<rparr>)"

definition metrics_drop :: "nat \<Rightarrow> metrics \<Rightarrow> metric list" where
  "metrics_drop now mx =
     (case mx_timer mx of
        None \<Rightarrow> []
      | Some timer \<Rightarrow>
          metric_sent mx (Timing (tm_label timer) (of_nat ((now - tm_start timer) div 1000000)) (tg_tags (tm_tags timer))))"

text \<open>A counter takes the metrics and drops them.\<close>

definition incr_with_tags :: "string \<Rightarrow> tags option \<Rightarrow> nat \<Rightarrow> metrics \<Rightarrow> metric list" where
  "incr_with_tags label tags now mx =
     (let mtags = (case mx_tags mx of None \<Rightarrow> tags_default | Some t \<Rightarrow> t);
          mtags1 = (case tags of None \<Rightarrow> mtags | Some t \<Rightarrow> tags_extend (tg_tags t) mtags)
      in metric_sent mx (Counter label (tg_tags mtags1)) @ metrics_drop now mx)"

section \<open>Errors as they are reported\<close>

text \<open>An error of the standard library: its \<open>Debug\<close>, its \<open>Display\<close> and its source.\<close>

datatype std_error = StdError (se_debug: string) (se_display: string) (se_source: "std_error option")

text \<open>
  An error as the trait shows it: the error itself, whether it has a backtrace, whether it is
  an event, its label, its tags, its extras, and its source that is reportable.
\<close>

datatype reportable =
  Reportable (re_error: std_error) (re_backtrace: bool) (re_sentry: bool) (re_label: "string option")
    (re_tags: "(string \<times> string) list") (re_extras: "(string \<times> string) list") (re_source: "reportable option")

text \<open>\<open>sentry::parse_type_from_debug\<close> is the parameter \<open>parse\<close>.\<close>

record exception =
  ex_type :: string
  ex_value :: string
  ex_stacktrace :: bool

definition exception_from_error :: "(string \<Rightarrow> string) \<Rightarrow> std_error \<Rightarrow> exception" where
  "exception_from_error parse e = \<lparr>ex_type = parse (se_debug e), ex_value = se_display e, ex_stacktrace = False\<rparr>"

definition exception_from_reportable_error :: "(string \<Rightarrow> string) \<Rightarrow> reportable \<Rightarrow> exception" where
  "exception_from_reportable_error parse r =
     (let ex = exception_from_error parse (re_error r) in if re_backtrace r then ex\<lparr>ex_stacktrace := True\<rparr> else ex)"

record 'q event =
  ev_exceptions :: "exception list"
  ev_tags :: "string \<rightharpoonup> string"
  ev_extra :: "string \<rightharpoonup> string"
  ev_user :: "string option"
  ev_request :: "'q option"

definition insert_all :: "(string \<times> string) list \<Rightarrow> (string \<rightharpoonup> string) \<Rightarrow> (string \<rightharpoonup> string)" where
  "insert_all kvs m = fold (\<lambda>(k, v) m. m(k \<mapsto> v)) kvs m"

text \<open>The two loops: along the reportable sources, and from the last of them along its sources.\<close>

fun gather_reportable ::
  "(string \<Rightarrow> string) \<Rightarrow> reportable \<Rightarrow> exception list \<times> (string \<rightharpoonup> string) \<times> (string \<rightharpoonup> string) \<Rightarrow>
     std_error option \<times> exception list \<times> (string \<rightharpoonup> string) \<times> (string \<rightharpoonup> string)" where
  "gather_reportable parse (Reportable e bt s l tags extras src) (exceptions, tag, extra) =
     (let exceptions1 = exceptions @ [exception_from_reportable_error parse (Reportable e bt s l tags extras src)];
          tag1 = insert_all tags tag;
          extra1 = insert_all extras extra
      in case src of
           Some r \<Rightarrow> gather_reportable parse r (exceptions1, tag1, extra1)
         | None \<Rightarrow> (se_source e, exceptions1, tag1, extra1))"

fun gather_sources :: "(string \<Rightarrow> string) \<Rightarrow> std_error option \<Rightarrow> exception list \<Rightarrow> exception list" where
  "gather_sources parse None exceptions = exceptions"
| "gather_sources parse (Some (StdError dbg disp source)) exceptions =
     gather_sources parse source (exceptions @ [exception_from_error parse (StdError dbg disp source)])"

definition event_from_error :: "(string \<Rightarrow> string) \<Rightarrow> reportable \<Rightarrow> 'q event" where
  "event_from_error parse r =
     (let (source, exceptions, tag, extra) = gather_reportable parse r ([], Map.empty, Map.empty)
      in \<lparr>ev_exceptions = rev (gather_sources parse source exceptions), ev_tags = tag, ev_extra = extra,
          ev_user = None, ev_request = None\<rparr>)"

section \<open>The middleware\<close>

text \<open>
  An error that reaches the middleware is one of the server's own type or another one of actix.
  The same is done with it whether the service failed or its response carries the error. What
  is known of the request is the parameter \<open>req\<close>, and events of others are those of \<open>foreign\<close>.
\<close>

datatype ('e, 'o) carried = Ours 'e | Foreign 'o

datatype 'q report = Counted string | Captured "'q event"

definition event_from_actix_error ::
  "(string \<Rightarrow> string) \<Rightarrow> ('e \<Rightarrow> reportable) \<Rightarrow> ('o \<Rightarrow> 'q event) \<Rightarrow> ('e, 'o) carried \<Rightarrow> 'q event" where
  "event_from_actix_error parse to_reportable foreign c =
     (case c of Ours e \<Rightarrow> event_from_error parse (to_reportable e) | Foreign e \<Rightarrow> foreign e)"

definition process_event :: "'q \<Rightarrow> 'q event \<Rightarrow> 'q event" where
  "process_event req ev = (if ev_request ev = None then ev\<lparr>ev_request := Some req\<rparr> else ev)"

definition report_error ::
  "string \<Rightarrow> (string \<Rightarrow> string) \<Rightarrow> ('e \<Rightarrow> reportable) \<Rightarrow> ('o \<Rightarrow> 'q event) \<Rightarrow> 'q \<Rightarrow> ('e, 'o) carried \<Rightarrow> 'q report list" where
  "report_error metric_label parse to_reportable foreign req c =
     (let captured = [Captured (process_event req (event_from_actix_error parse to_reportable foreign c))] in
      case c of
        Ours e \<Rightarrow>
          if \<not> re_sentry (to_reportable e)
          then (case re_label (to_reportable e) of
                  Some label \<Rightarrow> [Counted (metric_label @ ''.'' @ label)] | None \<Rightarrow> [])
          else captured
      | Foreign _ \<Rightarrow> captured)"

definition sentry_call ::
  "string \<Rightarrow> (string \<Rightarrow> string) \<Rightarrow> ('e \<Rightarrow> reportable) \<Rightarrow> ('o \<Rightarrow> 'q event) \<Rightarrow> 'q \<Rightarrow>
     ('e, 'o) carried + 'r \<times> ('e, 'o) carried option \<Rightarrow> 'q report list" where
  "sentry_call metric_label parse to_reportable foreign req served =
     (case served of
        Inl e \<Rightarrow> report_error metric_label parse to_reportable foreign req e
      | Inr (_, Some e) \<Rightarrow> report_error metric_label parse to_reportable foreign req e
      | Inr (_, None) \<Rightarrow> [])"

text \<open>The tags left in the request are those of its head under those it already had.\<close>

definition sentry_request_tags :: "tags option \<Rightarrow> string \<Rightarrow> tags" where
  "sentry_request_tags ext http_verb =
     (let t = tags_from_head http_verb in case ext of None \<Rightarrow> t | Some r \<Rightarrow> tags_extend (tg_tags r) t)"

section \<open>The errors of the repository\<close>

text \<open>\<open>Debug\<close>, \<open>Display\<close> and \<open>source\<close>, which are derived, and the text of a status.\<close>

record error_texts =
  et_bigtable :: "bigtable_error \<Rightarrow> std_error"
  et_db :: "db_error \<Rightarrow> std_error"
  et_apc :: "apc_error \<Rightarrow> std_error"
  et_api :: "api_error_kind \<Rightarrow> std_error"
  et_sm :: "sm_error \<Rightarrow> std_error"
  et_ws :: "ws_error \<Rightarrow> std_error"
  et_ac :: "ac_api_error \<Rightarrow> std_error"
  et_status :: "nat \<Rightarrow> string"

definition mutate_row_status_text :: "mutate_row_status \<Rightarrow> string" where
  "mutate_row_status_text st = (case st of
       StOK \<Rightarrow> ''Ok'' | StCancelled \<Rightarrow> ''Cancelled'' | StUnknown \<Rightarrow> ''Unknown''
     | StInvalidArgument \<Rightarrow> ''Invalid Argument'' | StDeadlineExceeded \<Rightarrow> ''Deadline Exceeded''
     | StNotFound \<Rightarrow> ''Not Found'' | StAlreadyExists \<Rightarrow> ''Already Exists''
     | StPermissionDenied \<Rightarrow> ''Permission Denied'' | StResourceExhausted \<Rightarrow> ''Resource Exhausted''
     | StFailedPrecondition \<Rightarrow> ''Failed Precondition'' | StAborted \<Rightarrow> ''Aborted'' | StOutOfRange \<Rightarrow> ''Out of Range''
     | StUnimplemented \<Rightarrow> ''Unimplemented'' | StInternal \<Rightarrow> ''Internal'' | StUnavailable \<Rightarrow> ''Unavailable''
     | StDataLoss \<Rightarrow> ''Data Loss'' | StUnauthenticated \<Rightarrow> ''Unauthenticated'')"

definition bigtable_tags :: "bigtable_error \<Rightarrow> (string \<times> string) list" where
  "bigtable_tags e = (case e of BtPoolTimeout tt \<Rightarrow> [(''type'', to_lowercase tt)] | _ \<Rightarrow> [])"

definition bigtable_extras :: "bigtable_error \<Rightarrow> (string \<times> string) list" where
  "bigtable_extras e = (case e of
       InvalidRowResponse s \<Rightarrow> [(''error'', s)] | InvalidChunk s \<Rightarrow> [(''error'', s)] | BtGRPC s \<Rightarrow> [(''error'', s)]
     | BtRead s \<Rightarrow> [(''error'', s)] | BtWrite s \<Rightarrow> [(''error'', s)]
     | BtStatus code s \<Rightarrow> [(''code'', mutate_row_status_text code), (''error'', s)]
     | BtWriteTime s \<Rightarrow> [(''error'', s)]
     | BtAdmin s raw \<Rightarrow> (''error'', s) # (case raw of Some r \<Rightarrow> [(''raw'', r)] | None \<Rightarrow> [])
     | BtPool s \<Rightarrow> [(''error'', s)]
     | _ \<Rightarrow> [])"

definition bigtable_reportable :: "error_texts \<Rightarrow> bigtable_error \<Rightarrow> reportable" where
  "bigtable_reportable X e =
     Reportable (et_bigtable X e) False (bigtable_error_is_sentry_event e) (bigtable_error_metric_label e)
       (bigtable_tags e) (bigtable_extras e) None"

definition db_extras :: "db_error \<Rightarrow> (string \<times> string) list" where
  "db_extras e = (case e of
       BTError b \<Rightarrow> bigtable_extras b
     | Backoff s \<Rightarrow> [(''raw'', s)]
     | Integrity _ (Some row) \<Rightarrow> [(''row'', row)]
     | _ \<Rightarrow> [])"

definition db_reportable :: "error_texts \<Rightarrow> db_error \<Rightarrow> reportable" where
  "db_reportable X e =
     Reportable (et_db X e) False (db_error_is_sentry_event e) (db_error_metric_label e) [] (db_extras e)
       (case e of BTError b \<Rightarrow> Some (bigtable_reportable X b) | _ \<Rightarrow> None)"

definition apc_reportable :: "error_texts \<Rightarrow> apc_error \<Rightarrow> reportable" where
  "apc_reportable X e = Reportable (et_apc X e) True (apc_is_sentry_event e) (apc_metric_label e) [] [] None"

text \<open>The answer made of an \<open>ApcError\<close>: its status and its JSON.\<close>

definition apc_serialize :: "error_texts \<Rightarrow> (nat \<Rightarrow> string option) \<Rightarrow> apc_error \<Rightarrow> json" where
  "apc_serialize X canonical_reason e =
     (let status = apc_status e in
      JObj [(''code'', JInt (int status)), (''error'', json_opt_str (canonical_reason status)),
            (''message'', JStr (se_display (et_apc X e)))])"

definition apc_error_response :: "error_texts \<Rightarrow> (nat \<Rightarrow> string option) \<Rightarrow> apc_error \<Rightarrow> nat \<times> json" where
  "apc_error_response X canonical_reason e = (apc_status e, apc_serialize X canonical_reason e)"

definition fcm_extras :: "error_texts \<Rightarrow> fcm_error \<Rightarrow> (string \<times> string) list" where
  "fcm_extras X e = (case e of
       EmptyResponse st \<Rightarrow> [(''status'', et_status X st)]
     | InvalidResponse _ body st \<Rightarrow> [(''status'', et_status X st), (''body'', body)]
     | _ \<Rightarrow> [])"

definition router_extras :: "error_texts \<Rightarrow> router_error \<Rightarrow> (string \<times> string) list" where
  "router_extras X e = (case e of RFcm f \<Rightarrow> fcm_extras X f | SaveDb d \<Rightarrow> db_extras d | _ \<Rightarrow> [])"

definition api_reportable :: "error_texts \<Rightarrow> api_error_kind \<Rightarrow> reportable" where
  "api_reportable X e =
     Reportable (et_api X e) True (api_is_sentry_event e) (api_metric_label e) []
       (case e of ApiRouter r \<Rightarrow> router_extras X r | LogCheck \<Rightarrow> [(''coffee'', ''Unsupported'')] | _ \<Rightarrow> [])
       (case e of
          ApiEndpointUrl a \<Rightarrow> Some (apc_reportable X a) | ApiDatabase d \<Rightarrow> Some (db_reportable X d) | _ \<Rightarrow> None)"

definition sm_reportable :: "error_texts \<Rightarrow> sm_error \<Rightarrow> reportable" where
  "sm_reportable X e =
     Reportable (et_sm X e) (sm_has_backtrace e) (sm_is_sentry_event e) (sm_metric_label e) [] []
       (case e of
          SmMakeEndpoint a \<Rightarrow> Some (apc_reportable X a) | SmDatabase d \<Rightarrow> Some (db_reportable X d) | _ \<Rightarrow> None)"

definition ws_capture_backtrace :: "ws_error \<Rightarrow> bool" where
  "ws_capture_backtrace e = False"

definition ws_reportable :: "error_texts \<Rightarrow> ws_error \<Rightarrow> reportable" where
  "ws_reportable X e =
     Reportable (et_ws X e) (ws_is_sentry_event e \<and> ws_capture_backtrace e) (ws_is_sentry_event e) (ws_metric_label e) [] []
       (case e of WsSM sm \<Rightarrow> Some (sm_reportable X sm) | _ \<Rightarrow> None)"

definition ac_reportable :: "error_texts \<Rightarrow> ac_api_error \<Rightarrow> reportable" where
  "ac_reportable X e = Reportable (et_ac X e) False (ac_error_is_sentry_event e) None [] [] None"

section \<open>The contract of the trait\<close>

text \<open>
  \<open>metric_label\<close>: errors that are not events emit a metric with this label instead. Errors that
  keep to this are noticed exactly once; those of the libraries below do.
\<close>

locale reportable_error =
  fixes to_reportable :: "'e \<Rightarrow> reportable"
  assumes counted: "\<not> re_sentry (to_reportable e) \<Longrightarrow> re_label (to_reportable e) \<noteq> None"
begin

lemma noticed_once: "\<exists>r. report_error metric_label parse to_reportable foreign req c = [r]"
proof (cases c)
  case (Ours e)
  then show ?thesis using counted [of e] by (auto simp: report_error_def Let_def)
qed (simp add: report_error_def)

lemma not_event_counted:
  assumes "report_error metric_label parse to_reportable foreign req (Ours e) = [r]"
  shows "re_sentry (to_reportable e) \<longleftrightarrow> (\<exists>ev. r = Captured ev)"
  using assms by (auto simp: report_error_def Let_def split: if_splits option.splits)

end

interpretation bigtable_reports: reportable_error "bigtable_reportable X" for X
  by unfold_locales (simp add: bigtable_reportable_def bigtable_error_metric_label_def)

interpretation apc_reports: reportable_error "apc_reportable X" for X
  by unfold_locales (auto simp: apc_reportable_def apc_is_sentry_event_def apc_metric_label_def split: apc_error.splits)

text \<open>Those of the database do only for Bigtable, and when it says to wait.\<close>

definition unlabelled_db :: "db_error \<Rightarrow> bool" where
  "unlabelled_db d = (case d of BTError _ \<Rightarrow> False | Backoff _ \<Rightarrow> False | _ \<Rightarrow> True)"

lemma db_noticed: "db_error_is_sentry_event d \<or> db_error_metric_label d \<noteq> None \<longleftrightarrow> \<not> unlabelled_db d"
  by (auto simp: unlabelled_db_def db_error_is_sentry_event_def db_error_metric_label_def bigtable_error_metric_label_def
      split: db_error.splits)

lemma db_label_not_empty: "db_error_metric_label d \<noteq> Some []"
  by (auto simp: db_error_metric_label_def bigtable_error_metric_label_def split: db_error.splits bigtable_error.splits)

section \<open>What an event says\<close>

fun reportable_chain :: "reportable \<Rightarrow> reportable list" where
  "reportable_chain (Reportable e bt s l tags extras src) =
     Reportable e bt s l tags extras src # (case src of None \<Rightarrow> [] | Some r \<Rightarrow> reportable_chain r)"

fun std_chain :: "std_error option \<Rightarrow> std_error list" where
  "std_chain None = []"
| "std_chain (Some (StdError dbg disp source)) = StdError dbg disp source # std_chain source"

lemma reportable_chain_not_empty [simp]: "reportable_chain r \<noteq> []"
  by (cases r) simp

lemma gather_reportable_eq:
  "gather_reportable parse r (xs, t, x) =
     (se_source (re_error (List.last (reportable_chain r))),
      xs @ map (exception_from_reportable_error parse) (reportable_chain r),
      fold (\<lambda>r. insert_all (re_tags r)) (reportable_chain r) t,
      fold (\<lambda>r. insert_all (re_extras r)) (reportable_chain r) x)"
  by (induction parse r "(xs, t, x)" arbitrary: xs t x rule: gather_reportable.induct)
    (auto simp: Let_def split: option.splits)

lemma gather_sources_eq: "gather_sources parse s xs = xs @ map (exception_from_error parse) (std_chain s)"
  by (induction parse s xs rule: gather_sources.induct) simp_all

text \<open>
  The exceptions are the error and its sources, innermost first; the tags and extras are those
  of its reportable sources, the innermost deciding.
\<close>

lemma event_from_error_eq:
  "event_from_error parse r =
     \<lparr>ev_exceptions = rev (map (exception_from_reportable_error parse) (reportable_chain r) @
        map (exception_from_error parse) (std_chain (se_source (re_error (List.last (reportable_chain r)))))),
      ev_tags = fold (\<lambda>r. insert_all (re_tags r)) (reportable_chain r) Map.empty,
      ev_extra = fold (\<lambda>r. insert_all (re_extras r)) (reportable_chain r) Map.empty,
      ev_user = None, ev_request = None\<rparr>"
  by (simp add: event_from_error_def gather_reportable_eq gather_sources_eq)

section \<open>The endpoint server\<close>

text \<open>A response with the error it carries; the inner middleware takes the error off every 404.\<close>

definition answered_with :: "(api_fail, ep_answer, 'x) outcome \<Rightarrow> (string + ep_answer \<times> (api_error_kind, 'o) carried option) \<times> 'x" where
  "answered_with r = (case r of
       (Inr a, x) \<Rightarrow> (Inr (a, None), x)
     | (Inl (Fail e), x) \<Rightarrow> (Inr (Replied (error_response e), Some (Ours e)), x)
     | (Inl (Panic s), x) \<Rightarrow> (Inl s, x))"

definition error_handlers :: "ep_answer \<times> 'c option \<Rightarrow> ep_answer \<times> 'c option" where
  "error_handlers served =
     (if answer_status (fst served) = 404 then (render_404 (fst served), None) else served)"

definition ep_serve_reported ::
  "error_texts \<Rightarrow> (string \<Rightarrow> string) \<Rightarrow> ('o \<Rightarrow> 'q event) \<Rightarrow> 'q \<Rightarrow> path_matcher \<Rightarrow> ('u, 'x) ep_app \<Rightarrow>
     ('k, 'a, 'c, 'x) ep_routers \<Rightarrow> ep_json \<Rightarrow> (db_error \<Rightarrow> string) \<Rightarrow> http_method \<Rightarrow> string \<Rightarrow> http_request \<Rightarrow> 'x \<Rightarrow>
     (string + ep_answer \<times> 'q report list) \<times> 'x" where
  "ep_serve_reported X parse foreign q m A RT J render verb path rq x =
     (let (r, x1) = (case ep_dispatch m verb path of
            NoResource \<Rightarrow> (Inr (Replied (empty_reply 404), None), x)
          | MethodNotAllowed \<Rightarrow> (Inr (Replied (empty_reply 405), None), x)
          | Handler route bound \<Rightarrow> answered_with (run_route A RT J render route (rq\<lparr>rq_match_info := map_of bound\<rparr>) x))
      in (map_sum id (\<lambda>served. let served1 = error_handlers served in
            (fst served1, sentry_call ''api_error'' parse (api_reportable X) foreign q (Inr served1))) r, x1))"

lemma ep_serve_reported_answer:
  "ep_serve m A RT J render verb path rq x =
     (map_sum id fst (fst (ep_serve_reported X parse foreign q m A RT J render verb path rq x)),
      snd (ep_serve_reported X parse foreign q m A RT J render verb path rq x))"
  by (auto simp: ep_serve_def ep_serve_reported_def answered_of_def answered_with_def error_handlers_def render_404_def
      answer_status_def empty_reply_def Let_def sum.map_comp o_def
      split: ep_target.split prod.split sum.split api_fail.split)

text \<open>The errors the middleware neither sends nor counts: those a 404 took off, and those that are
  no event and have no label.\<close>

definition unnoticed :: "api_error_kind \<Rightarrow> bool" where
  "unnoticed e = (case e of
       InvalidToken \<Rightarrow> True | InvalidApiVersion \<Rightarrow> True
     | ApiPayloadError p \<Rightarrow> pe_status p = 404
     | ApiDatabase d \<Rightarrow> unlabelled_db d
     | ApiRouter r \<Rightarrow> (case r of
           SaveDb d \<Rightarrow> unlabelled_db d
         | RApns Unregistered \<Rightarrow> True
         | RAuthentication \<Rightarrow> True | GCMAuthentication \<Rightarrow> True | RConnect _ \<Rightarrow> True | RNotFound \<Rightarrow> True
         | RequestTimeout \<Rightarrow> True | Upstream _ _ \<Rightarrow> True
         | _ \<Rightarrow> False)
     | _ \<Rightarrow> False)"

lemma db_status_not_404: "db_error_status d \<noteq> 404"
  by (auto simp: db_error_status_def bigtable_error_status_def mutate_row_status_http_def
      split: db_error.splits bigtable_error.splits mutate_row_status.splits)

lemma router_status_not_404: "router_status r \<noteq> 404"
  using db_status_not_404
  by (auto simp: router_status_def adm_status_def apns_status_def fcm_status_def
      split: router_error.splits adm_error.splits apns_error.splits fcm_error.splits)

lemma router_noticed:
  "router_is_sentry_event r \<or> router_metric_label r \<noteq> None \<longleftrightarrow> \<not> unnoticed (ApiRouter r)"
proof (cases r)
  case (SaveDb d)
  then show ?thesis
    using db_noticed [of d] db_label_not_empty [of d]
    by (auto simp: router_is_sentry_event_def router_metric_label_def unnoticed_def split: option.splits)
qed (auto simp: router_is_sentry_event_def router_metric_label_def unnoticed_def
    split: adm_error.splits apns_error.splits fcm_error.splits)

lemma api_noticed:
  "api_status e \<noteq> 404 \<and> (api_is_sentry_event e \<or> api_metric_label e \<noteq> None) \<longleftrightarrow> \<not> unnoticed e"
proof (cases e)
  case (ApiRouter r)
  then show ?thesis
    using router_status_not_404 [of r] router_noticed [of r]
    by (simp add: api_status_def api_is_sentry_event_def api_metric_label_def)
next
  case (ApiDatabase d)
  then show ?thesis
    using db_status_not_404 [of d] db_noticed [of d]
    by (simp add: api_status_def api_is_sentry_event_def api_metric_label_def unnoticed_def)
qed (auto simp: api_status_def api_is_sentry_event_def api_metric_label_def unnoticed_def)


text \<open>A request for an unknown version of the API, on any path the push route takes.\<close>

definition demo_texts :: error_texts where
  "demo_texts =
     \<lparr>et_bigtable = (\<lambda>e. StdError ''BigTableError'' ''bigtable'' None), et_db = (\<lambda>e. StdError ''DbError'' ''database'' None),
      et_apc = (\<lambda>e. StdError ''ApcError'' ''error'' None), et_api = (\<lambda>e. StdError ''ApiError'' ''error'' None),
      et_sm = (\<lambda>e. StdError ''SMError'' ''error'' None), et_ws = (\<lambda>e. StdError ''WSError'' ''error'' None),
      et_ac = (\<lambda>e. StdError ''ApiError'' ''error'' None), et_status = show_nat\<rparr>"

definition demo_foreign :: "unit \<Rightarrow> string event" where
  "demo_foreign e = \<lparr>ev_exceptions = [], ev_tags = Map.empty, ev_extra = Map.empty, ev_user = None, ev_request = None\<rparr>"


section \<open>The connection server\<close>

text \<open>
  The error that ends a connection goes to Sentry, with the user if there is one yet, or it is
  dropped: nothing counts the labels of \<open>WSError\<close>.
\<close>

definition add_sentry_info :: "uuid_lib \<Rightarrow> web_push_client \<Rightarrow> 'q event \<Rightarrow> 'q event" where
  "add_sentry_info lib c ev =
     (let ua_info = c_ua_info c in
      ev\<lparr>ev_user := Some (uuid_simple lib (c_uaid c)),
         ev_tags := (ev_tags ev)(''ua_name'' \<mapsto> ua_browser_name ua_info, ''ua_os_family'' \<mapsto> ua_metrics_os ua_info,
           ''ua_os_ver'' \<mapsto> ua_os_version ua_info, ''ua_browser_family'' \<mapsto> ua_metrics_browser ua_info,
           ''ua_browser_ver'' \<mapsto> ua_browser_version ua_info)\<rparr>)"

definition capture_sentry_event ::
  "error_texts \<Rightarrow> (string \<Rightarrow> string) \<Rightarrow> uuid_lib \<Rightarrow> ws_error \<Rightarrow> web_push_client option \<Rightarrow> 'q report list" where
  "capture_sentry_event X parse lib e client =
     (if \<not> ws_is_sentry_event e then []
      else (let ev = event_from_error parse (ws_reportable X e)
            in [Captured (case client of None \<Rightarrow> ev | Some c \<Rightarrow> add_sentry_info lib c ev)]))"

definition webpush_ws_reports ::
  "error_texts \<Rightarrow> (string \<Rightarrow> string) \<Rightarrow> uuid_lib \<Rightarrow> 'x ws_end \<Rightarrow> 'q report list" where
  "webpush_ws_reports X parse lib ended = (case ended of
       Rejected e _ \<Rightarrow> capture_sentry_event X parse lib e None
     | Running _ \<Rightarrow> []
     | Ended (Inl e) c _ _ \<Rightarrow> capture_sentry_event X parse lib e (Some c)
     | Ended (Inr _) _ _ _ \<Rightarrow> [])"

text \<open>What goes unnoticed of a connection: all that is not an event, whatever its label.\<close>

lemma webpush_ws_reports_uncounted:
  "Counted l \<notin> set (webpush_ws_reports X parse lib ended)"
  by (auto simp: webpush_ws_reports_def capture_sentry_event_def Let_def split: ws_end.split sum.split)

lemma ws_event_of_database:
  assumes "webpush_ws_reports X parse lib (Ended (Inl (WsSM (SmDatabase d))) c saved sv) = [Captured ev]"
  shows "\<exists>b. d = BTError b \<and> ev_user ev = Some (uuid_simple lib (c_uaid c)) \<and> length (ev_exceptions ev) \<ge> 4 \<and>
    ev_extra ev = insert_all (bigtable_extras b) (insert_all (bigtable_extras b) Map.empty)"
proof -
  from assms obtain b where b: "d = BTError b" "bigtable_error_is_sentry_event b"
    by (auto simp: webpush_ws_reports_def capture_sentry_event_def ws_is_sentry_event_def sm_is_sentry_event_def
        db_error_is_sentry_event_def split: if_splits db_error.splits)
  with assms show ?thesis
    by (auto simp: webpush_ws_reports_def capture_sentry_event_def ws_is_sentry_event_def sm_is_sentry_event_def
        db_error_is_sentry_event_def add_sentry_info_def event_from_error_eq ws_reportable_def sm_reportable_def
        db_reportable_def bigtable_reportable_def db_extras_def insert_all_def Let_def)
qed

end
