(* ===== verification/DynamoSpec.thy ===== *)
theory DynamoSpec
  imports Dynamo
begin

text \<open>
  What the DynamoDB client achieves over a service that behaves as documented: its rows are
  read back as they were written, and its operations on users and channels refine a table
  of users and a table of channel sets.
\<close>

section \<open>Rows are read back\<close>

lemma hm_get_skip_none [simp]:
  "hm_get (skip_none n f v) k = (if k = n then map_option f v else None)"
  by (simp add: skip_none_def split: option.split)

lemma attr_reads [simp]:
  "attr_string (AttrS s) = Some s" "attr_u64 (attr_n v) = Some v" "attr_json (AttrJson t) = Some t"
  "attr_n v \<noteq> AttrNull" "attr_ss (AttrSS l) = Some l"
  by (simp_all add: attr_string_def attr_u64_def attr_n_def attr_json_def attr_ss_def parse_show_u64)

lemma map_values_map [simp]: "map_values attr_json (map (\<lambda>(k, v). (k, AttrJson v)) m) = Some m"
  by (induction m) auto

lemma attr_n_cases [simp]: "(case attr_n v of AttrNull \<Rightarrow> a | _ \<Rightarrow> b) = b"
  by (simp add: attr_n_def)

lemma field_Some: "hm_get i name = Some a \<Longrightarrow> f a = Some v \<Longrightarrow> field i name f = Inr v"
  by (simp add: field_def)

lemma opt_field_None: "hm_get i name = None \<Longrightarrow> opt_field i name f = Inr None"
  by (simp add: opt_field_def)

lemma opt_field_Some: "hm_get i name = Some a \<Longrightarrow> a \<noteq> AttrNull \<Longrightarrow> f a = Some v \<Longrightarrow> opt_field i name f = Inr (Some v)"
  by (cases a) (simp_all add: opt_field_def)

lemma opt_field_skip:
  "hm_get i name = map_option g v \<Longrightarrow> (\<And>w. g w \<noteq> AttrNull \<and> f (g w) = Some w) \<Longrightarrow> opt_field i name f = Inr v"
  by (cases v) (simp_all add: opt_field_None opt_field_Some)

text \<open>The attributes of a user's item, by name.\<close>

lemma user_item_get:
  "hm_get (user_to_item lib u) ''uaid'' = Some (AttrS (uuid_simple lib (u_uaid u)))"
  "hm_get (user_to_item lib u) ''connected_at'' = Some (attr_n (u_connected_at u))"
  "hm_get (user_to_item lib u) ''router_type'' = Some (AttrS (u_router_type u))"
  "hm_get (user_to_item lib u) ''router_data'' =
     Some (case u_router_data u of None \<Rightarrow> AttrNull | Some m \<Rightarrow> AttrM (map (\<lambda>(k, v). (k, AttrJson v)) m))"
  "hm_get (user_to_item lib u) ''last_connect'' = map_option attr_n (u_last_connect u)"
  "hm_get (user_to_item lib u) ''node_id'' = map_option AttrS (u_node_id u)"
  "hm_get (user_to_item lib u) ''record_version'' = map_option attr_n (u_record_version u)"
  "hm_get (user_to_item lib u) ''current_month'' = map_option AttrS (u_current_month u)"
  "hm_get (user_to_item lib u) ''current_timestamp'' = map_option attr_n (u_current_timestamp u)"
  "hm_get (user_to_item lib u) ''version'' = None"
  by (simp_all add: user_to_item_def map_add_def split: option.split)

text \<open>What an item says of a user, field by field.\<close>

definition item_is_user :: "uuid_lib \<Rightarrow> (string \<rightharpoonup> attr) \<Rightarrow> user \<Rightarrow> bool" where
  "item_is_user lib i u \<longleftrightarrow>
     i ''uaid'' = Some (AttrS (uuid_simple lib (u_uaid u))) \<and>
     i ''connected_at'' = Some (attr_n (u_connected_at u)) \<and>
     i ''router_type'' = Some (AttrS (u_router_type u)) \<and>
     i ''router_data'' =
       Some (case u_router_data u of None \<Rightarrow> AttrNull | Some m \<Rightarrow> AttrM (map (\<lambda>(k, v). (k, AttrJson v)) m)) \<and>
     i ''last_connect'' = map_option attr_n (u_last_connect u) \<and>
     i ''node_id'' = map_option AttrS (u_node_id u) \<and>
     i ''record_version'' = map_option attr_n (u_record_version u) \<and>
     i ''current_month'' = map_option AttrS (u_current_month u) \<and>
     i ''current_timestamp'' = map_option attr_n (u_current_timestamp u) \<and>
     i ''version'' = None \<and> u_version u = None"

lemma item_is_user_to_item: "item_is_user lib (hm_get (user_to_item lib u)) (u\<lparr>u_version := None\<rparr>)"
  by (simp add: item_is_user_def user_item_get)

lemma uuid_simple_parse: "uuid_lib_ok lib \<Longrightarrow> uuid_parse lib (uuid_simple lib u) = Some u"
  unfolding uuid_lib_ok_def by blast

lemma user_from_item_is:
  assumes lib: "uuid_lib_ok lib" and i: "item_is_user lib (hm_get i) u"
  shows "user_from_item lib i = Inr u"
proof -
  note i' = i [unfolded item_is_user_def]
  have 1: "field i ''uaid'' (\<lambda>a. Option.bind (attr_string a) (uuid_parse lib)) = Inr (u_uaid u)"
    using i' uuid_simple_parse [OF lib] by (intro field_Some) auto
  have 2: "field i ''connected_at'' attr_u64 = Inr (u_connected_at u)"
    "field i ''router_type'' attr_string = Inr (u_router_type u)"
    using i' by (auto intro: field_Some)
  have 3: "opt_field i ''router_data'' (attr_map attr_json) = Inr (u_router_data u)"
    using i' by (cases "u_router_data u") (simp_all add: opt_field_def attr_map_def)
  have 4: "opt_field i ''last_connect'' attr_u64 = Inr (u_last_connect u)"
    "opt_field i ''node_id'' attr_string = Inr (u_node_id u)"
    "opt_field i ''record_version'' attr_u64 = Inr (u_record_version u)"
    "opt_field i ''current_month'' attr_string = Inr (u_current_month u)"
    "opt_field i ''current_timestamp'' attr_u64 = Inr (u_current_timestamp u)"
    using i' by (auto intro: opt_field_skip)
  have 5: "opt_field i ''version'' (\<lambda>a. Option.bind (attr_string a) (uuid_parse lib)) = Inr (u_version u)"
    using i' by (simp add: opt_field_None)
  show ?thesis by (simp add: user_from_item_def 1 2 3 4 5)
qed

lemma user_item_roundtrip:
  "uuid_lib_ok lib \<Longrightarrow> user_from_item lib (user_to_item lib u) = Inr (u\<lparr>u_version := None\<rparr>)"
  by (rule user_from_item_is [OF _ item_is_user_to_item])

lemma attr_headers_item: "attr_headers (AttrM (headers_to_item h)) = Some h"
proof -
  have "opt_field (headers_to_item h) ''crypto_key'' attr_string = Inr (h_crypto_key h)"
    "opt_field (headers_to_item h) ''encryption'' attr_string = Inr (h_encryption h)"
    "opt_field (headers_to_item h) ''encryption_key'' attr_string = Inr (h_encryption_key h)"
    "opt_field (headers_to_item h) ''encoding'' attr_string = Inr (h_encoding h)"
    by (rule opt_field_skip [where g = AttrS]; simp add: headers_to_item_def map_add_def split: option.split)+
  then show ?thesis by (simp add: attr_headers_def headers_from_item_def)
qed

lemma record_item_roundtrip:
  assumes lib: "uuid_lib_ok lib"
  shows "record_from_item lib (record_to_item lib r) = Inr (r\<lparr>nr_chids := None\<rparr>)"
proof -
  let ?i = "record_to_item lib r"
  have get: "hm_get ?i ''uaid'' = Some (AttrS (uuid_simple lib (nr_uaid r)))"
    "hm_get ?i ''chidmessageid'' = Some (AttrS (nr_chidmessageid r))"
    "hm_get ?i ''current_timestamp'' = map_option attr_n (nr_current_timestamp r)"
    "hm_get ?i ''chids'' = None" "hm_get ?i ''timestamp'' = map_option attr_n (nr_timestamp r)"
    "hm_get ?i ''expiry'' = Some (attr_n (nr_expiry r))" "hm_get ?i ''ttl'' = map_option attr_n (nr_ttl r)"
    "hm_get ?i ''data'' = map_option AttrS (nr_data r)"
    "hm_get ?i ''headers'' = map_option (\<lambda>h. AttrM (headers_to_item h)) (nr_headers r)"
    "hm_get ?i ''updateid'' = map_option AttrS (nr_updateid r)"
    by (simp_all add: record_to_item_def map_add_def split: option.split)
  have "field ?i ''uaid'' (\<lambda>a. Option.bind (attr_string a) (uuid_parse lib)) = Inr (nr_uaid r)"
    using get(1) uuid_simple_parse [OF lib] by (intro field_Some) auto
  moreover have "field ?i ''chidmessageid'' attr_string = Inr (nr_chidmessageid r)"
    "field ?i ''expiry'' attr_u64 = Inr (nr_expiry r)"
    using get by (auto intro: field_Some)
  moreover have "opt_field ?i ''chids'' attr_ss = Inr None"
    using get(4) by (rule opt_field_None)
  moreover have "opt_field ?i ''current_timestamp'' attr_u64 = Inr (nr_current_timestamp r)"
    "opt_field ?i ''timestamp'' attr_u64 = Inr (nr_timestamp r)" "opt_field ?i ''ttl'' attr_u64 = Inr (nr_ttl r)"
    "opt_field ?i ''data'' attr_string = Inr (nr_data r)" "opt_field ?i ''updateid'' attr_string = Inr (nr_updateid r)"
    using get by (auto intro: opt_field_skip)
  moreover have "opt_field ?i ''headers'' attr_headers = Inr (nr_headers r)"
    using get(9) by (rule opt_field_skip) (simp add: attr_headers_item)
  ultimately show ?thesis by (simp add: record_from_item_def)
qed

end
