(* ===== verification/Conditions.thy ===== *)
theory Conditions
  imports Dynamo
begin

text \<open>
  The condition expressions of DynamoDB, as its developer guide documents them and as far as
  the clients of this repository write them: their text, how it is read, and when a row
  satisfies it. The service is a parameter of the development; what is assumed of it is that
  it evaluates the text of the condition a request carries.
\<close>

section \<open>Conditions\<close>

text \<open>
  An operand is the path of an attribute or a placeholder of a value, which starts with a
  colon. A row that lacks an operand, or has one of another type, satisfies no comparison.
\<close>

datatype condition =
    Exists string
  | NotExists string
  | Compare string string string
  | Conj condition condition
  | Disj condition condition
  | Negate condition

text \<open>Numbers compare by value.\<close>

definition attr_less :: "attr option \<Rightarrow> attr option \<Rightarrow> bool" where
  "attr_less a b = (case (Option.bind a attr_u64, Option.bind b attr_u64) of
       (Some m, Some n) \<Rightarrow> m < n
     | _ \<Rightarrow> False)"

definition attr_equal :: "attr option \<Rightarrow> attr option \<Rightarrow> bool" where
  "attr_equal a b \<longleftrightarrow> a \<noteq> None \<and> a = b"

definition compares :: "string \<Rightarrow> attr option \<Rightarrow> attr option \<Rightarrow> bool" where
  "compares op a b =
     (if op = ''='' then attr_equal a b
      else if op = ''<'' then attr_less a b
      else if op = ''>'' then attr_less b a
      else if op = ''<='' then attr_less a b \<or> attr_equal a b
      else if op = ''>='' then attr_less b a \<or> attr_equal a b
      else False)"

definition operand :: "(string \<Rightarrow> attr option) \<Rightarrow> (string \<Rightarrow> attr option) \<Rightarrow> string \<Rightarrow> attr option" where
  "operand vals row s = (case s of c # _ \<Rightarrow> if c = CHR '':'' then vals s else row s | [] \<Rightarrow> None)"

fun satisfies :: "(string \<Rightarrow> attr option) \<Rightarrow> (string \<Rightarrow> attr option) \<Rightarrow> condition \<Rightarrow> bool" where
  "satisfies vals row (Exists a) \<longleftrightarrow> row a \<noteq> None"
| "satisfies vals row (NotExists a) \<longleftrightarrow> row a = None"
| "satisfies vals row (Compare op a b) \<longleftrightarrow> compares op (operand vals row a) (operand vals row b)"
| "satisfies vals row (Conj p q) \<longleftrightarrow> satisfies vals row p \<and> satisfies vals row q"
| "satisfies vals row (Disj p q) \<longleftrightarrow> satisfies vals row p \<or> satisfies vals row q"
| "satisfies vals row (Negate p) \<longleftrightarrow> \<not> satisfies vals row p"

section \<open>Their text\<close>

text \<open>Words, parentheses and comparators; \<open>word\<close> is the word being read.\<close>

definition end_word :: "string \<Rightarrow> string list \<Rightarrow> string list" where
  "end_word w ts = (if w = [] then ts else w # ts)"

fun tokens :: "string \<Rightarrow> string \<Rightarrow> string list" where
  "tokens w [] = end_word w []"
| "tokens w (c # cs) =
     (if c = CHR '' '' then end_word w (tokens [] cs)
      else if c = CHR ''('' \<or> c = CHR '')'' then end_word w ([c] # tokens [] cs)
      else if c = CHR ''='' \<and> (w = ''<'' \<or> w = ''>'') then (w @ [c]) # tokens [] cs
      else if c = CHR ''='' \<or> c = CHR ''<'' \<or> c = CHR ''>'' then end_word w (tokens [c] cs)
      else if w = ''='' \<or> w = ''<'' \<or> w = ''>'' then w # tokens [c] cs
      else tokens (w @ [c]) cs)"

text \<open>
  \<open>or\<close> binds weakest, then \<open>and\<close>, then \<open>not\<close>. The first argument bounds the depth; each level
  of the grammar takes one, so three for each token are enough.
\<close>

fun parse_or :: "nat \<Rightarrow> string list \<Rightarrow> (condition \<times> string list) option"
  and parse_and :: "nat \<Rightarrow> string list \<Rightarrow> (condition \<times> string list) option"
  and parse_atom :: "nat \<Rightarrow> string list \<Rightarrow> (condition \<times> string list) option" where
  "parse_or 0 ts = None"
| "parse_or (Suc n) ts =
     (case parse_and n ts of
        Some (p, t # us) \<Rightarrow>
          if t = ''or'' then map_option (\<lambda>(q, vs). (Disj p q, vs)) (parse_or n us) else Some (p, t # us)
      | r \<Rightarrow> r)"
| "parse_and 0 ts = None"
| "parse_and (Suc n) ts =
     (case parse_atom n ts of
        Some (p, t # us) \<Rightarrow>
          if t = ''and'' then map_option (\<lambda>(q, vs). (Conj p q, vs)) (parse_and n us) else Some (p, t # us)
      | r \<Rightarrow> r)"
| "parse_atom 0 ts = None"
| "parse_atom (Suc n) ts =
     (case ts of
        [] \<Rightarrow> None
      | t # us \<Rightarrow>
          if t = ''('' then
            (case parse_or n us of Some (p, c # vs) \<Rightarrow> if c = '')'' then Some (p, vs) else None | _ \<Rightarrow> None)
          else if t = ''not'' then map_option (\<lambda>(p, vs). (Negate p, vs)) (parse_atom n us)
          else
            (case us of
               b # c # vs \<Rightarrow>
                 if t = ''attribute_exists'' \<or> t = ''attribute_not_exists'' then
                   (case vs of
                      d # ws \<Rightarrow>
                        if b = ''('' \<and> d = '')'' then Some (if t = ''attribute_exists'' then Exists c else NotExists c, ws)
                        else None
                    | [] \<Rightarrow> None)
                 else Some (Compare b t c, vs)
             | _ \<Rightarrow> None))"

definition read_condition :: "string \<Rightarrow> condition option" where
  "read_condition s =
     (let ts = tokens [] s in
      case parse_or (3 * length ts) ts of Some (p, []) \<Rightarrow> Some p | _ \<Rightarrow> None)"

text \<open>When a row satisfies the text of a condition; no row satisfies a text that cannot be read.\<close>

definition condition_holds :: "string \<Rightarrow> (string \<Rightarrow> attr option) \<Rightarrow> (string \<Rightarrow> attr option) \<Rightarrow> bool" where
  "condition_holds s vals row \<longleftrightarrow> (case read_condition s of Some p \<Rightarrow> satisfies vals row p | None \<Rightarrow> False)"

section \<open>The conditions of the clients\<close>

lemma read_not_exists: "read_condition ''attribute_not_exists(uaid)'' = Some (NotExists ''uaid'')"
  by (simp add: read_condition_def end_word_def eval_nat_numeral)

lemma read_remove_node: "read_condition ''(node_id = :node) and (connected_at = :conn)'' =
    Some (Conj (Compare ''='' ''node_id'' '':node'') (Compare ''='' ''connected_at'' '':conn''))"
  by (simp add: read_condition_def end_word_def eval_nat_numeral)

lemma read_update_user: "read_condition UPDATE_USER_CONDITION =
    Some (Conj (Exists ''uaid'')
      (Conj (Disj (NotExists ''router_type'') (Compare ''='' ''router_type'' '':router_type''))
        (Disj (NotExists ''node_id'') (Compare ''<'' ''connected_at'' '':connected_at''))))"
  by (simp add: read_condition_def UPDATE_USER_CONDITION_def end_word_def eval_nat_numeral)

end
