(* ===== verification/DynamoRefine.thy ===== *)
theory DynamoRefine
  imports DynamoSpec Conditions
begin

text \<open>
  The DynamoDB client refines a store of users, channel sets and messages. The service is
  assumed to act as it is documented, and may lose its replies: a request that failed may
  have been carried out. What the client adds are its keys, its conditions, the encoding of
  its rows and its retries.
\<close>

section \<open>What the service is documented to do\<close>

type_synonym ddb_row = "string \<rightharpoonup> attr"

text \<open>The rows of the router table by \<open>uaid\<close>, and of the message table by \<open>uaid\<close> and \<open>chidmessageid\<close>.\<close>

record ddb_tables =
  tb_router :: "string \<Rightarrow> ddb_row option"
  tb_messages :: "string \<times> string \<Rightarrow> ddb_row option"

text \<open>
  A request that is carried out under a condition: its answer, and the tables it leaves.
  A reply may get lost on the way; only a failed condition is a sure sign that nothing was done.
\<close>

definition lands ::
  "('x \<Rightarrow> 't) \<Rightarrow> ('a, 'x) ddb_call \<Rightarrow> ('t \<Rightarrow> bool) \<Rightarrow> ('t \<Rightarrow> 't \<Rightarrow> bool) \<Rightarrow> ('t \<Rightarrow> 'a \<Rightarrow> bool) \<Rightarrow> bool" where
  "lands view f can does says \<longleftrightarrow>
     (\<forall>x r x'. f x = (r, x') \<longrightarrow>
        (case r of
           Inr v \<Rightarrow> can (view x) \<and> does (view x) (view x') \<and> says (view x) v
         | Inl (ConditionalCheckFailed _) \<Rightarrow> \<not> can (view x) \<and> view x' = view x
         | Inl _ \<Rightarrow> view x' = view x \<or> (can (view x) \<and> does (view x) (view x'))))"

text \<open>
  A condition is evaluated on the row of the request's key, whose key attribute is always
  there; a row that is missing has no attributes.
\<close>

definition router_row :: "string \<Rightarrow> ddb_tables \<Rightarrow> ddb_row" where
  "router_row k t = (case tb_router t k of None \<Rightarrow> Map.empty | Some i \<Rightarrow> i(''uaid'' \<mapsto> AttrS k))"

definition router_condition :: "string \<Rightarrow> ddb_item \<Rightarrow> string \<Rightarrow> ddb_tables \<Rightarrow> bool" where
  "router_condition c vs k t \<longleftrightarrow> condition_holds c (hm_get vs) (router_row k t)"

text \<open>An update of a row that does not exist starts from its key.\<close>

definition message_row :: "ddb_tables \<Rightarrow> string \<times> string \<Rightarrow> ddb_row" where
  "message_row t k = (case tb_messages t k of
       None \<Rightarrow> [''uaid'' \<mapsto> AttrS (fst k), ''chidmessageid'' \<mapsto> AttrS (snd k)]
     | Some i \<Rightarrow> i)"

definition row_set :: "ddb_row \<Rightarrow> string \<Rightarrow> string set" where
  "row_set i name = (case i name of Some (AttrSS l) \<Rightarrow> set l | _ \<Rightarrow> {})"

text \<open>A set attribute that becomes empty is removed.\<close>

definition has_set :: "ddb_row \<Rightarrow> string \<Rightarrow> string set \<Rightarrow> bool" where
  "has_set i name S \<longleftrightarrow> (if S = {} then i name = None else (\<exists>l. i name = Some (AttrSS l) \<and> set l = S))"

definition put_router :: "string \<Rightarrow> ddb_row option \<Rightarrow> ddb_tables \<Rightarrow> ddb_tables" where
  "put_router k r t = t\<lparr>tb_router := (tb_router t)(k := r)\<rparr>"

definition put_messages :: "string \<times> string \<Rightarrow> ddb_row option \<Rightarrow> ddb_tables \<Rightarrow> ddb_tables" where
  "put_messages k r t = t\<lparr>tb_messages := (tb_messages t)(k := r)\<rparr>"

lemma put_simps [simp]:
  "tb_router (put_router k r t) = (tb_router t)(k := r)" "tb_messages (put_router k r t) = tb_messages t"
  "tb_messages (put_messages m r t) = (tb_messages t)(m := r)" "tb_router (put_messages m r t) = tb_router t"
  "put_router k r (put_router k r' t) = put_router k r t"
  "put_messages m r (put_messages m r' t) = put_messages m r t"
  by (simp_all add: put_router_def put_messages_def)

text \<open>What the conditions of the client say, and what its updates do.\<close>

definition can_update :: "string \<Rightarrow> ddb_item \<Rightarrow> ddb_tables \<Rightarrow> bool" where
  "can_update k vs t = (case tb_router t k of
       None \<Rightarrow> False
     | Some i \<Rightarrow>
         (i ''router_type'' = None \<or> i ''router_type'' = hm_get vs ''router_type'') \<and>
         (i ''node_id'' = None \<or> attr_less (i ''connected_at'') (hm_get vs ''connected_at'')))"

definition sets :: "string \<Rightarrow> ddb_item \<Rightarrow> ddb_tables \<Rightarrow> ddb_tables" where
  "sets k vs t = put_router k (map_option (\<lambda>i. i ++ hm_get vs) (tb_router t k)) t"

definition can_remove_node :: "string \<Rightarrow> attr \<Rightarrow> attr \<Rightarrow> ddb_tables \<Rightarrow> bool" where
  "can_remove_node k node conn t = (case tb_router t k of
       None \<Rightarrow> False
     | Some i \<Rightarrow> i ''node_id'' = Some node \<and> i ''connected_at'' = Some conn)"

definition removes_node :: "string \<Rightarrow> ddb_tables \<Rightarrow> ddb_tables" where
  "removes_node k t = put_router k (map_option (\<lambda>i. i(''node_id'' := None)) (tb_router t k)) t"

definition puts_chids :: "string \<times> string \<Rightarrow> string set \<Rightarrow> attr \<Rightarrow> ddb_tables \<Rightarrow> ddb_tables \<Rightarrow> bool" where
  "puts_chids k S e t t' \<longleftrightarrow>
     (\<exists>i. has_set i ''chids'' S \<and> i ''expiry'' = Some e \<and>
        (\<forall>n. n \<notin> {''chids'', ''expiry''} \<longrightarrow> i n = message_row t k n) \<and> t' = put_messages k (Some i) t)"

definition adds_chid :: "string \<times> string \<Rightarrow> string list \<Rightarrow> attr \<Rightarrow> ddb_tables \<Rightarrow> ddb_tables \<Rightarrow> bool" where
  "adds_chid k l e t t' \<longleftrightarrow> puts_chids k (row_set (message_row t k) ''chids'' \<union> set l) e t t'"

definition deletes_chid :: "string \<times> string \<Rightarrow> string list \<Rightarrow> attr \<Rightarrow> ddb_tables \<Rightarrow> ddb_tables \<Rightarrow> bool" where
  "deletes_chid k l e t t' \<longleftrightarrow> puts_chids k (row_set (message_row t k) ''chids'' - set l) e t t'"

definition sets_timestamp :: "string \<times> string \<Rightarrow> attr \<Rightarrow> attr \<Rightarrow> ddb_tables \<Rightarrow> ddb_tables" where
  "sets_timestamp k ts e t =
     put_messages k (Some ((message_row t k)(''current_timestamp'' \<mapsto> ts, ''expiry'' \<mapsto> e))) t"

text \<open>\<open>UPDATED_OLD\<close>: the updated attributes as they were.\<close>

definition updated_old :: "string \<times> string \<Rightarrow> ddb_tables \<Rightarrow> ddb_item option \<Rightarrow> bool" where
  "updated_old k t attributes \<longleftrightarrow>
     (case attributes of
        None \<Rightarrow> row_set (message_row t k) ''chids'' = {}
      | Some m \<Rightarrow> hm_get m ''chids'' = message_row t k ''chids'')"

definition reads :: "(ddb_tables \<Rightarrow> ddb_row option) \<Rightarrow> ddb_tables \<Rightarrow> ddb_item option \<Rightarrow> bool" where
  "reads row t item \<longleftrightarrow> map_option hm_get item = row t"

definition no_answer :: "ddb_tables \<Rightarrow> 'a \<Rightarrow> bool" where "no_answer t a = True"

definition key_values :: "ddb_item \<Rightarrow> string \<Rightarrow> string \<Rightarrow> bool" where
  "key_values i u c \<longleftrightarrow> hm_get i ''uaid'' = Some (AttrS u) \<and> hm_get i ''chidmessageid'' = Some (AttrS c)"

text \<open>
  The service does what is documented for the requests of this client: puts and updates of
  the router table under whatever condition they carry, puts, updates, reads and deletes of
  both tables.
\<close>

definition router_service_ok :: "'x ddb_client \<Rightarrow> ('x \<Rightarrow> ddb_tables) \<Rightarrow> bool" where
  "router_service_ok D view \<longleftrightarrow>
     (let L = dd_lib D; any = (\<lambda>_. True); key = (\<lambda>k. [(''uaid'', AttrS k)]) in
      (\<forall>k i c. hm_get i ''uaid'' = Some (AttrS k) \<longrightarrow>
         lands view (dl_put_item L \<lparr>pi_table = router_table D, pi_item = i, pi_values = [], pi_condition = Some c\<rparr>)
           (router_condition c [] k) (\<lambda>t t'. t' = put_router k (Some (hm_get i)) t) no_answer) \<and>
      (\<forall>k vs c. lands view (dl_update_item L \<lparr>ui_table = router_table D, ui_key = key k,
             ui_update = set_expression (map fst vs), ui_values = map (\<lambda>(n, v). (CHR '':'' # n, v)) vs,
             ui_condition = Some c, ui_return_values = None\<rparr>)
           (router_condition c (map (\<lambda>(n, v). (CHR '':'' # n, v)) vs) k) (\<lambda>t t'. t' = sets k vs t) no_answer) \<and>
      (\<forall>k vs c. lands view (dl_update_item L \<lparr>ui_table = router_table D, ui_key = key k,
             ui_update = ''REMOVE node_id'', ui_values = vs, ui_condition = Some c, ui_return_values = None\<rparr>)
           (router_condition c vs k) (\<lambda>t t'. t' = removes_node k t) no_answer) \<and>
      (\<forall>k. lands view (dl_get_item L (router_table D) (key k)) any (\<lambda>t t'. t' = t) (reads (\<lambda>t. tb_router t k))) \<and>
      (\<forall>k. lands view (dl_delete_item L (router_table D) (key k)) any (\<lambda>t t'. t' = put_router k None t) no_answer))"

definition message_service_ok :: "'x ddb_client \<Rightarrow> ('x \<Rightarrow> ddb_tables) \<Rightarrow> bool" where
  "message_service_ok D view \<longleftrightarrow>
     (let L = dd_lib D; any = (\<lambda>_. True);
          key = (\<lambda>u c. [(''uaid'', AttrS u), (''chidmessageid'', AttrS c)]) in
      (\<forall>u c l e. lands view (dl_update_item L \<lparr>ui_table = message_table D, ui_key = key u c,
             ui_update = ''ADD chids :channel_id SET expiry = :expiry'',
             ui_values = [('':channel_id'', AttrSS l), ('':expiry'', e)],
             ui_condition = None, ui_return_values = None\<rparr>) any (adds_chid (u, c) l e) no_answer) \<and>
      (\<forall>u c l e. lands view (dl_update_item L \<lparr>ui_table = message_table D, ui_key = key u c,
             ui_update = ''DELETE chids :channel_id SET expiry = :expiry'',
             ui_values = [('':channel_id'', AttrSS l), ('':expiry'', e)],
             ui_condition = None, ui_return_values = Some ''UPDATED_OLD''\<rparr>)
           any (deletes_chid (u, c) l e) (updated_old (u, c))) \<and>
      (\<forall>u c ts e. lands view (dl_update_item L \<lparr>ui_table = message_table D, ui_key = key u c,
             ui_update = ''SET current_timestamp = :timestamp, expiry = :expiry'',
             ui_values = [('':timestamp'', ts), ('':expiry'', e)], ui_condition = None, ui_return_values = None\<rparr>)
           any (\<lambda>t t'. t' = sets_timestamp (u, c) ts e t) no_answer) \<and>
      (\<forall>u c. lands view (dl_get_item L (message_table D) (key u c)) any (\<lambda>t t'. t' = t)
           (reads (\<lambda>t. tb_messages t (u, c)))) \<and>
      (\<forall>u c i. key_values i u c \<longrightarrow>
         lands view (dl_put_item L \<lparr>pi_table = message_table D, pi_item = i, pi_values = [], pi_condition = None\<rparr>)
           any (\<lambda>t t'. t' = put_messages (u, c) (Some (hm_get i)) t) no_answer) \<and>
      (\<forall>u c. lands view (dl_delete_item L (message_table D) (key u c)) any
           (\<lambda>t t'. t' = put_messages (u, c) None t) no_answer))"

definition ddb_world_ok :: "'x ddb_client \<Rightarrow> ('x \<Rightarrow> ddb_tables) \<Rightarrow> bool" where
  "ddb_world_ok D view \<longleftrightarrow>
     uuid_lib_ok (dd_uuid D) \<and> router_service_ok D view \<and> message_service_ok D view \<and>
     (\<forall>x. view (snd (sys_now_sec (dd_sys D) x)) = view x \<and> view (snd (sys_now_ms (dd_sys D) x)) = view x)"

text \<open>The texts of the client's conditions, evaluated.\<close>

lemma hm_get_colon: "hm_get (map (\<lambda>(n, v). (CHR '':'' # n, v)) vs) (CHR '':'' # m) = hm_get vs m"
  by (induction vs) auto

lemma router_row_get: "n \<noteq> ''uaid'' \<Longrightarrow> tb_router t k = Some i \<Longrightarrow> router_row k t n = i n"
  by (simp add: router_row_def)

lemma put_condition: "router_condition ''attribute_not_exists(uaid)'' vs k t \<longleftrightarrow> tb_router t k = None"
  by (simp add: router_condition_def condition_holds_def read_not_exists router_row_def split: option.split)

lemma update_condition:
  "router_condition UPDATE_USER_CONDITION (map (\<lambda>(n, v). (CHR '':'' # n, v)) vs) k t \<longleftrightarrow> can_update k vs t"
proof (cases "tb_router t k")
  case None
  then show ?thesis
    by (simp add: router_condition_def condition_holds_def read_update_user router_row_def can_update_def)
next
  case (Some i)
  then show ?thesis
    by (auto simp: router_condition_def condition_holds_def read_update_user can_update_def operand_def compares_def
        attr_equal_def hm_get_colon router_row_def)
qed

lemma remove_node_condition:
  "router_condition ''(node_id = :node) and (connected_at = :conn)'' [('':node'', node), ('':conn'', conn)] k t \<longleftrightarrow>
     can_remove_node k node conn t"
  by (auto simp: router_condition_def condition_holds_def read_remove_node can_remove_node_def operand_def compares_def
      attr_equal_def router_row_def split: option.split)

section \<open>Retries\<close>

text \<open>How a request ends after any number of retries, if doing it twice is doing it once.\<close>

definition settles ::
  "('t \<Rightarrow> bool) \<Rightarrow> ('t \<Rightarrow> 't \<Rightarrow> bool) \<Rightarrow> ('t \<Rightarrow> 'a \<Rightarrow> bool) \<Rightarrow> 't \<Rightarrow> ddb_error + 'a \<Rightarrow> 't \<Rightarrow> bool" where
  "settles can does says t r t' \<longleftrightarrow>
     (case r of
        Inr v \<Rightarrow> can t \<and> does t t' \<and> (says t v \<or> (\<exists>t1. does t t1 \<and> says t1 v))
      | Inl (ConditionalCheckFailed _) \<Rightarrow> (\<not> can t \<and> t' = t) \<or> (can t \<and> does t t' \<and> \<not> can t')
      | Inl _ \<Rightarrow> t' = t \<or> (can t \<and> does t t'))"

lemma lands_settles: "lands view f can does says \<Longrightarrow> f x = (r, x') \<Longrightarrow> settles can does says (view x) r (view x')"
  unfolding lands_def settles_def by (drule spec, drule spec, drule spec, drule (1) mp) (auto split: sum.splits ddb_error.splits)

lemma settles_after:
  assumes "settles can does says t1 r t'" and "can t" and "does t t1"
    and "\<And>t t1 t2. does t t1 \<Longrightarrow> does t1 t2 \<Longrightarrow> does t t2"
  shows "settles can does says t r t'"
proof (cases r)
  case (Inl e)
  with assms(1-3) show ?thesis by (cases e) (auto simp: settles_def intro: assms(4))
next
  case (Inr v)
  with assms(1-3) show ?thesis by (auto simp: settles_def intro: assms(4))
qed

lemma retry_settles:
  assumes "lands view f can does says" and "\<And>e. retryable (ConditionalCheckFailed e) = False"
    and "\<And>t t1 t2. does t t1 \<Longrightarrow> does t1 t2 \<Longrightarrow> does t t2"
    and "retry_if n retryable f x = (r, x')"
  shows "settles can does says (view x) r (view x')"
  using assms(4)
proof (induction n arbitrary: x)
  case 0
  then show ?case using lands_settles [OF assms(1)] by simp
next
  case (Suc n)
  show ?case
  proof (cases "\<exists>e x1. f x = (Inl e, x1) \<and> retryable e")
    case False
    with Suc.prems show ?thesis using lands_settles [OF assms(1)] by (auto split: prod.splits sum.splits if_splits)
  next
    case True
    then obtain e x1 where f: "f x = (Inl e, x1)" and e: "retryable e" by blast
    with Suc.prems have "settles can does says (view x1) r (view x')" by (intro Suc.IH) simp
    moreover have "view x1 = view x \<or> (can (view x) \<and> does (view x) (view x1))"
      using assms(1,2) f e unfolding lands_def by (cases e) fastforce+
    ultimately show ?thesis using settles_after [OF _ _ _ assms(3)] by fastforce
  qed
qed

section \<open>The store\<close>

record ddb_store =
  st_users :: "uuid \<Rightarrow> user option"
  st_channels :: "uuid \<Rightarrow> uuid set"
  st_read :: "uuid \<Rightarrow> u64 option"
  st_messages :: "uuid \<Rightarrow> string \<Rightarrow> notification_record option"

datatype ddb_request =
    AddUser user
  | UpdateUser user
  | GetUser uuid
  | RemoveUser uuid
  | RemoveNodeId uuid string u64
  | AddChannel uuid uuid
  | GetChannels uuid
  | RemoveChannel uuid uuid
  | IncrementStorage uuid u64
  | SaveMessage uuid notification
  | RemoveMessage uuid string

datatype ddb_reply = Done | Answer bool | Found "user option" | Channels "uuid set"

text \<open>When a request is granted: a new user is new, an update needs the same router type and
  either a user without a node or one that connected before.\<close>

primrec req_can :: "ddb_store \<Rightarrow> ddb_request \<Rightarrow> bool" where
  "req_can s (AddUser u) = (st_users s (u_uaid u) = None)"
| "req_can s (UpdateUser u) = (case st_users s (u_uaid u) of
       None \<Rightarrow> False
     | Some v \<Rightarrow> u_router_type v = u_router_type u \<and> (u_node_id v = None \<or> u_connected_at v < u_connected_at u))"
| "req_can s (RemoveNodeId uaid node conn) = (case st_users s uaid of
       None \<Rightarrow> False
     | Some v \<Rightarrow> u_node_id v = Some node \<and> u_connected_at v = conn)"
| "req_can s (GetUser uaid) = True"
| "req_can s (RemoveUser uaid) = True"
| "req_can s (AddChannel uaid c) = True"
| "req_can s (GetChannels uaid) = True"
| "req_can s (RemoveChannel uaid c) = True"
| "req_can s (IncrementStorage uaid ts) = True"
| "req_can s (SaveMessage uaid n) = True"
| "req_can s (RemoveMessage uaid k) = True"

text \<open>An update keeps what the new record leaves out; in particular it cannot clear the node.\<close>

definition merge_user :: "user \<Rightarrow> user \<Rightarrow> user" where
  "merge_user u v =
     \<lparr>u_uaid = u_uaid v, u_connected_at = u_connected_at u, u_router_type = u_router_type u,
      u_router_data = u_router_data u, u_last_connect = opt_or (u_last_connect u) (u_last_connect v),
      u_node_id = opt_or (u_node_id u) (u_node_id v), u_record_version = opt_or (u_record_version u) (u_record_version v),
      u_current_month = opt_or (u_current_month u) (u_current_month v),
      u_current_timestamp = opt_or (u_current_timestamp u) (u_current_timestamp v), u_version = None\<rparr>"

definition keeps_notification :: "notification_record \<Rightarrow> uuid \<Rightarrow> notification \<Rightarrow> bool" where
  "keeps_notification r uaid n \<longleftrightarrow>
     nr_uaid r = uaid \<and> nr_chids r = None \<and> nr_timestamp r = Some (n_timestamp n) \<and> nr_ttl r = Some (n_ttl n) \<and>
     nr_data r = n_data n \<and> nr_headers r = map_option headers_from_hashmap (n_headers n) \<and>
     nr_updateid r = Some (n_version n) \<and> nr_chidmessageid r \<noteq> '' ''"

primrec req_does :: "ddb_store \<Rightarrow> ddb_request \<Rightarrow> ddb_store \<Rightarrow> bool" where
  "req_does s (AddUser u) s' =
     (s' = s\<lparr>st_users := (st_users s)(u_uaid u \<mapsto> u\<lparr>u_version := None\<rparr>)\<rparr>)"
| "req_does s (UpdateUser u) s' =
     (s' = s\<lparr>st_users := (st_users s)(u_uaid u := map_option (merge_user u) (st_users s (u_uaid u)))\<rparr>)"
| "req_does s (RemoveNodeId uaid node conn) s' =
     (s' = s\<lparr>st_users := (st_users s)(uaid := map_option (\<lambda>v. v\<lparr>u_node_id := None\<rparr>) (st_users s uaid))\<rparr>)"
| "req_does s (GetUser uaid) s' = (s' = s)"
| "req_does s (RemoveUser uaid) s' = (s' = s\<lparr>st_users := (st_users s)(uaid := None)\<rparr>)"
| "req_does s (AddChannel uaid c) s' =
     (s' = s\<lparr>st_channels := (st_channels s)(uaid := insert c (st_channels s uaid))\<rparr>)"
| "req_does s (GetChannels uaid) s' = (s' = s)"
| "req_does s (RemoveChannel uaid c) s' =
     (s' = s\<lparr>st_channels := (st_channels s)(uaid := st_channels s uaid - {c})\<rparr>)"
| "req_does s (IncrementStorage uaid ts) s' = (s' = s\<lparr>st_read := (st_read s)(uaid := Some ts)\<rparr>)"
| "req_does s (SaveMessage uaid n) s' =
     (\<exists>r. keeps_notification r uaid n \<and>
        s' = s\<lparr>st_messages := (st_messages s)(uaid := (st_messages s uaid)(nr_chidmessageid r \<mapsto> r))\<rparr>)"
| "req_does s (RemoveMessage uaid k) s' =
     (s' = (if k = '' '' then s\<lparr>st_channels := (st_channels s)(uaid := {}), st_read := (st_read s)(uaid := None)\<rparr>
            else s\<lparr>st_messages := (st_messages s)(uaid := (st_messages s uaid)(k := None))\<rparr>))"

primrec req_says :: "ddb_store \<Rightarrow> ddb_request \<Rightarrow> ddb_reply \<Rightarrow> bool" where
  "req_says s (AddUser u) a = (a = Done)"
| "req_says s (UpdateUser u) a = (a = Answer True)"
| "req_says s (RemoveNodeId uaid node conn) a = (a = Answer True)"
| "req_says s (GetUser uaid) a = (a = Found (st_users s uaid))"
| "req_says s (RemoveUser uaid) a = (a = Done)"
| "req_says s (AddChannel uaid c) a = (a = Done)"
| "req_says s (GetChannels uaid) a = (a = Channels (st_channels s uaid))"
| "req_says s (RemoveChannel uaid c) a = (a = Answer (c \<in> st_channels s uaid))"
| "req_says s (IncrementStorage uaid ts) a = (a = Done)"
| "req_says s (SaveMessage uaid n) a = (a = Done)"
| "req_says s (RemoveMessage uaid k) a = (a = Done)"

text \<open>A refused condition is an answer for these; for a new user it is an error.\<close>

definition conditional :: "ddb_request \<Rightarrow> bool" where
  "conditional q = (case q of UpdateUser _ \<Rightarrow> True | RemoveNodeId _ _ _ \<Rightarrow> True | _ \<Rightarrow> False)"

definition req_error :: "ddb_request \<Rightarrow> string \<Rightarrow> db_error" where
  "req_error q = (case q of
       AddUser _ \<Rightarrow> DdbPutItem | SaveMessage _ _ \<Rightarrow> DdbPutItem
     | GetUser _ \<Rightarrow> DdbGetItem | GetChannels _ \<Rightarrow> DdbGetItem
     | RemoveUser _ \<Rightarrow> DdbDeleteItem | RemoveMessage _ _ \<Rightarrow> DdbDeleteItem
     | _ \<Rightarrow> DdbUpdateItem)"

inductive store_step :: "ddb_store \<Rightarrow> ddb_request \<Rightarrow> db_error + ddb_reply \<Rightarrow> ddb_store \<Rightarrow> bool" where
  carried_out: "req_can s q \<Longrightarrow> req_does s q s' \<Longrightarrow>
    req_says s q a \<or> (\<exists>s1. req_does s q s1 \<and> req_says s1 q a) \<Longrightarrow> store_step s q (Inr a) s'"
| refused: "conditional q \<Longrightarrow> \<not> req_can s q \<Longrightarrow> store_step s q (Inr (Answer False)) s"
| done_and_refused: "conditional q \<Longrightarrow> req_can s q \<Longrightarrow> req_does s q s' \<Longrightarrow> \<not> req_can s' q \<Longrightarrow>
    store_step s q (Inr (Answer False)) s'"
| failed: "store_step s q (Inl (req_error q e)) s"
| done_and_failed: "req_can s q \<Longrightarrow> req_does s q s' \<Longrightarrow> store_step s q (Inl (req_error q e)) s'"

text \<open>Sequences of requests, and what the client answers to them.\<close>

inductive store_run :: "ddb_store \<Rightarrow> ddb_request list \<Rightarrow> (db_error + ddb_reply) list \<Rightarrow> ddb_store \<Rightarrow> bool" where
  "store_run s [] [] s"
| "store_step s q r s1 \<Longrightarrow> store_run s1 qs rs s' \<Longrightarrow> store_run s (q # qs) (r # rs) s'"

definition answered :: "('a \<Rightarrow> ddb_reply) \<Rightarrow> ('e + 'a) \<times> 'x \<Rightarrow> ('e + ddb_reply) \<times> 'x" where
  "answered f r = andThen r (\<lambda>v x. (Inr (f v), x))"

primrec ddb_do :: "'x ddb_client \<Rightarrow> ddb_request \<Rightarrow> (ddb_reply, 'x) db_op" where
  "ddb_do D (AddUser u) x = answered (\<lambda>_. Done) (ddb_add_user D u x)"
| "ddb_do D (UpdateUser u) x = (let (r, (_, x1)) = ddb_update_user D u x in answered Answer (r, x1))"
| "ddb_do D (GetUser uaid) x = answered Found (ddb_get_user D uaid x)"
| "ddb_do D (RemoveUser uaid) x = answered (\<lambda>_. Done) (ddb_remove_user D uaid x)"
| "ddb_do D (RemoveNodeId uaid node conn) x = answered Answer (ddb_remove_node_id D uaid node conn None x)"
| "ddb_do D (AddChannel uaid c) x = answered (\<lambda>_. Done) (ddb_add_channel D uaid c x)"
| "ddb_do D (GetChannels uaid) x = answered (\<lambda>cs. Channels (set cs)) (ddb_get_channels D uaid x)"
| "ddb_do D (RemoveChannel uaid c) x = answered Answer (ddb_remove_channel D uaid c x)"
| "ddb_do D (IncrementStorage uaid ts) x = answered (\<lambda>_. Done) (ddb_increment_storage D uaid ts x)"
| "ddb_do D (SaveMessage uaid n) x = answered (\<lambda>_. Done) (ddb_save_message D uaid n x)"
| "ddb_do D (RemoveMessage uaid k) x = answered (\<lambda>_. Done) (ddb_remove_message D uaid k x)"

fun ddb_do_all :: "'x ddb_client \<Rightarrow> ddb_request list \<Rightarrow> 'x \<Rightarrow> (db_error + ddb_reply) list \<times> 'x" where
  "ddb_do_all D [] x = ([], x)"
| "ddb_do_all D (q # qs) x = (let (r, x1) = ddb_do D q x; (rs, x2) = ddb_do_all D qs x1 in (r # rs, x2))"

section \<open>What the tables hold\<close>

definition channels_row :: "uuid_lib \<Rightarrow> uuid \<Rightarrow> ddb_row \<Rightarrow> uuid set \<Rightarrow> u64 option \<Rightarrow> bool" where
  "channels_row lib uaid i C ts \<longleftrightarrow>
     i ''uaid'' = Some (AttrS (uuid_simple lib uaid)) \<and> i ''chidmessageid'' = Some (AttrS '' '') \<and>
     has_set i ''chids'' (uuid_hyphenated lib ` C) \<and> i ''current_timestamp'' = map_option attr_n ts \<and>
     (\<exists>e. i ''expiry'' = Some (attr_n e)) \<and> i ''timestamp'' = None \<and> i ''ttl'' = None \<and> i ''data'' = None \<and>
     i ''headers'' = None \<and> i ''updateid'' = None"

definition user_row :: "uuid_lib \<Rightarrow> uuid \<Rightarrow> ddb_row option \<Rightarrow> user option \<Rightarrow> bool" where
  "user_row lib uaid row u = (case u of
       None \<Rightarrow> row = None
     | Some v \<Rightarrow> u_uaid v = uaid \<and> (\<exists>i. row = Some i \<and> item_is_user lib i v))"

definition meta_row :: "uuid_lib \<Rightarrow> uuid \<Rightarrow> ddb_row option \<Rightarrow> uuid set \<Rightarrow> u64 option \<Rightarrow> bool" where
  "meta_row lib uaid row C ts = (case row of
       None \<Rightarrow> C = {} \<and> ts = None
     | Some i \<Rightarrow> channels_row lib uaid i C ts)"

definition stores :: "uuid_lib \<Rightarrow> ddb_tables \<Rightarrow> ddb_store \<Rightarrow> bool" where
  "stores lib t s \<longleftrightarrow>
     (\<forall>uaid. user_row lib uaid (tb_router t (uuid_simple lib uaid)) (st_users s uaid)) \<and>
     (\<forall>uaid. meta_row lib uaid (tb_messages t (uuid_simple lib uaid, '' '')) (st_channels s uaid) (st_read s uaid)) \<and>
     (\<forall>uaid k. k \<noteq> '' '' \<longrightarrow>
        tb_messages t (uuid_simple lib uaid, k) =
        map_option (\<lambda>r. hm_get (record_to_item lib r)) (st_messages s uaid k))"

section \<open>The simulation\<close>

definition matches ::
  "uuid_lib \<Rightarrow> ddb_request \<Rightarrow> (ddb_tables \<Rightarrow> bool) \<Rightarrow> (ddb_tables \<Rightarrow> ddb_tables \<Rightarrow> bool) \<Rightarrow>
   (ddb_tables \<Rightarrow> 'a \<Rightarrow> bool) \<Rightarrow> ('a \<Rightarrow> ddb_reply) \<Rightarrow> bool" where
  "matches lib q can does says g \<longleftrightarrow>
     (\<forall>t s. stores lib t s \<longrightarrow>
        (can t \<longleftrightarrow> req_can s q) \<and>
        (\<forall>t'. can t \<longrightarrow> does t t' \<longrightarrow> (\<exists>s'. req_does s q s' \<and> stores lib t' s')) \<and>
        (\<forall>v. says t v \<longrightarrow> req_says s q (g v))) \<and>
     (\<forall>t t1 t2. does t t1 \<longrightarrow> does t1 t2 \<longrightarrow> does t t2)"

lemma matchesI:
  assumes "\<And>t s. stores lib t s \<Longrightarrow> can t = req_can s q"
    and "\<And>t s t'. stores lib t s \<Longrightarrow> can t \<Longrightarrow> does t t' \<Longrightarrow> \<exists>s'. req_does s q s' \<and> stores lib t' s'"
    and "\<And>t s v. stores lib t s \<Longrightarrow> says t v \<Longrightarrow> req_says s q (g v)"
    and "\<And>t t1 t2. does t t1 \<Longrightarrow> does t1 t2 \<Longrightarrow> does t t2"
  shows "matches lib q can does says g"
  using assms unfolding matches_def by blast

lemma settles_step:
  assumes m: "matches lib q can does says g" and t: "stores lib t s" and r: "settles can does says t r t'"
  obtains s' where "stores lib t' s'"
    and "case r of Inr v \<Rightarrow> store_step s q (Inr (g v)) s'
         | Inl e \<Rightarrow> store_step s q (Inl (req_error q descr)) s' \<and>
             ((\<exists>m. e = ConditionalCheckFailed m) \<longrightarrow> conditional q \<longrightarrow> store_step s q (Inr (Answer False)) s')"
proof -
  have can: "can t \<longleftrightarrow> req_can s q" and says: "\<And>v. says t v \<Longrightarrow> req_says s q (g v)"
    and does: "\<And>t'. can t \<Longrightarrow> does t t' \<Longrightarrow> \<exists>s'. req_does s q s' \<and> stores lib t' s'"
    using m t unfolding matches_def by blast+
  have later: "\<And>t1 s1. stores lib t1 s1 \<Longrightarrow> (can t1 \<longleftrightarrow> req_can s1 q) \<and> (\<forall>v. says t1 v \<longrightarrow> req_says s1 q (g v))"
    using m unfolding matches_def by blast
  show thesis
  proof (cases "can t \<and> does t t'")
    case True
    with does obtain s' where s': "req_does s q s'" "stores lib t' s'" by blast
    have inr: "req_says s q (g v) \<or> (\<exists>s1. req_does s q s1 \<and> req_says s1 q (g v))" if "r = Inr v" for v
      using r that says does later True unfolding settles_def by fastforce
    have inl: "\<not> req_can s' q" if "r = Inl (ConditionalCheckFailed m)" for m
      using r that True later [OF s'(2)] unfolding settles_def by auto
    show thesis
    proof (rule that [OF s'(2)], cases r)
      case (Inl e)
      then show "case r of Inr v \<Rightarrow> store_step s q (Inr (g v)) s' | Inl e \<Rightarrow> store_step s q (Inl (req_error q descr)) s' \<and>
             ((\<exists>m. e = ConditionalCheckFailed m) \<longrightarrow> conditional q \<longrightarrow> store_step s q (Inr (Answer False)) s')"
        using True can s' inl by (auto intro: done_and_failed done_and_refused)
    next
      case (Inr v)
      then show "case r of Inr v \<Rightarrow> store_step s q (Inr (g v)) s' | Inl e \<Rightarrow> store_step s q (Inl (req_error q descr)) s' \<and>
             ((\<exists>m. e = ConditionalCheckFailed m) \<longrightarrow> conditional q \<longrightarrow> store_step s q (Inr (Answer False)) s')"
        using True can s' inr by (auto intro: carried_out)
    qed
  next
    case False
    with r have "t' = t" "\<exists>e. r = Inl e" "(\<exists>m. r = Inl (ConditionalCheckFailed m)) \<longrightarrow> \<not> can t"
      unfolding settles_def by (cases r; auto split: ddb_error.splits)+
    with can t show thesis by (intro that [of s]) (auto intro: failed refused)
  qed
qed

text \<open>A request under retries; its error may be given any text.\<close>

lemma retry_step:
  assumes m: "matches lib q can does says g" and l: "lands view f can does says"
    and t: "stores lib (view x) s" and r: "retry_if n ddb_retryable f x = (r, x')"
  obtains s' where "stores lib (view x') s'"
    and "case r of Inr v \<Rightarrow> store_step s q (Inr (g v)) s'
         | Inl e \<Rightarrow> store_step s q (Inl (req_error q (ddb_error_text e))) s' \<and>
             ((\<exists>m. e = ConditionalCheckFailed m) \<longrightarrow> conditional q \<longrightarrow> store_step s q (Inr (Answer False)) s')"
proof -
  have "settles can does says (view x) r (view x')"
    using m by (intro retry_settles [OF l _ _ r]) (auto simp: matches_def ddb_retryable_def)
  note step = settles_step [OF m t this, where descr = "case r of Inl e \<Rightarrow> ddb_error_text e | Inr _ \<Rightarrow> ''''"]
  show thesis by (rule step, rule that, assumption, cases r) auto
qed

text \<open>A call of the service with an error of its own, and one with a condition.\<close>

lemma ddb_call_step:
  assumes m: "matches (dd_uuid D) q can does says g" and l: "lands view f can does says"
    and t: "stores (dd_uuid D) (view x) s" and r: "ddb_call D (req_error q) f x = (r, x')"
  obtains s' where "stores (dd_uuid D) (view x') s'"
    and "case r of Inr v \<Rightarrow> store_step s q (Inr (g v)) s' | Inl e \<Rightarrow> store_step s q (Inl e) s'"
proof -
  obtain r0 where r0: "retry_if (dd_max_retries D) ddb_retryable f x = (r0, x')"
    and rr: "r = (case r0 of Inl e \<Rightarrow> Inl (req_error q (ddb_error_text e)) | Inr v \<Rightarrow> Inr v)"
    using r unfolding ddb_call_def mapErr_def by (auto split: prod.splits sum.splits)
  show thesis using retry_step [OF m l t r0] that rr by (auto split: sum.splits)
qed

lemma ddb_conditional_step:
  assumes m: "matches (dd_uuid D) q can does says (\<lambda>_ :: ddb_item option. Answer True)"
    and l: "lands view (dl_update_item (dd_lib D) inp) can does says"
    and t: "stores (dd_uuid D) (view x) s" and q: "conditional q"
    and r: "ddb_conditional_update D inp x = (r, x')"
  obtains s' where "stores (dd_uuid D) (view x') s'" and "store_step s q (map_sum id Answer r) s'"
proof -
  obtain r0 where r0: "retry_if (dd_max_retries D) ddb_retryable (dl_update_item (dd_lib D) inp) x = (r0, x')"
    and rr: "r = (case r0 of Inr _ \<Rightarrow> Inr True | Inl (ConditionalCheckFailed _) \<Rightarrow> Inr False
                  | Inl e \<Rightarrow> Inl (DdbUpdateItem (ddb_error_text e)))"
    using r unfolding ddb_conditional_update_def by (auto split: prod.splits sum.splits ddb_error.splits)
  have "req_error q = DdbUpdateItem" using q by (auto simp: conditional_def req_error_def split: ddb_request.splits)
  then show thesis using retry_step [OF m l t r0] that rr q by (auto split: sum.splits ddb_error.splits)
qed

section \<open>Each request\<close>

lemma uuid_simple_inj: "uuid_lib_ok lib \<Longrightarrow> uuid_simple lib u = uuid_simple lib v \<longleftrightarrow> u = v"
  by (metis uuid_simple_parse option.inject)

lemma uuid_hyphenated_inj: "uuid_lib_ok lib \<Longrightarrow> uuid_hyphenated lib u = uuid_hyphenated lib v \<longleftrightarrow> u = v"
  by (metis uuid_hyphenated_props(3) option.inject)

lemma storesD:
  assumes "stores lib t s"
  shows "user_row lib uaid (tb_router t (uuid_simple lib uaid)) (st_users s uaid)"
    and "meta_row lib uaid (tb_messages t (uuid_simple lib uaid, '' '')) (st_channels s uaid) (st_read s uaid)"
    and "k \<noteq> '' '' \<Longrightarrow> tb_messages t (uuid_simple lib uaid, k) =
      map_option (\<lambda>r. hm_get (record_to_item lib r)) (st_messages s uaid k)"
  using assms unfolding stores_def by blast+

lemma stores_router:
  assumes "uuid_lib_ok lib" and "stores lib t s" and "user_row lib uaid row u"
  shows "stores lib (put_router (uuid_simple lib uaid) row t) (s\<lparr>st_users := (st_users s)(uaid := u)\<rparr>)"
  using assms(2,3) by (auto simp: stores_def uuid_simple_inj [OF assms(1)])

lemma stores_meta:
  assumes "uuid_lib_ok lib" and "stores lib t s" and "meta_row lib uaid row C ts"
  shows "stores lib (put_messages (uuid_simple lib uaid, '' '') row t)
    (s\<lparr>st_channels := (st_channels s)(uaid := C), st_read := (st_read s)(uaid := ts)\<rparr>)"
  using assms(2,3) by (auto simp: stores_def uuid_simple_inj [OF assms(1)])

lemma stores_message:
  assumes "uuid_lib_ok lib" and "stores lib t s" and "k \<noteq> '' ''"
  shows "stores lib (put_messages (uuid_simple lib uaid, k) (map_option (\<lambda>r. hm_get (record_to_item lib r)) row) t)
    (s\<lparr>st_messages := (st_messages s)(uaid := (st_messages s uaid)(k := row))\<rparr>)"
  using assms(2,3) by (auto simp: stores_def uuid_simple_inj [OF assms(1)])

text \<open>Rows of users.\<close>

lemma item_is_user_merge:
  assumes "item_is_user lib i v"
  shows "item_is_user lib (i ++ (hm_get (user_to_item lib u))(''uaid'' := None)) (merge_user u v)"
  using assms
  by (simp add: item_is_user_def user_item_get merge_user_def map_add_def split: option.splits)

lemma item_is_user_remove_node:
  "item_is_user lib i v \<Longrightarrow> item_is_user lib (i(''node_id'' := None)) (v\<lparr>u_node_id := None\<rparr>)"
  by (simp add: item_is_user_def)

lemma merge_user_uaid [simp]: "u_uaid (merge_user u v) = u_uaid v"
  by (simp add: merge_user_def)

lemma user_row_cases:
  assumes "user_row lib uaid row u"
  obtains "row = None" "u = None" | i v where "row = Some i" "u = Some v" "u_uaid v = uaid" "item_is_user lib i v"
  using assms by (cases u) (auto simp: user_row_def)

lemma attr_n_inj [simp]: "attr_n a = attr_n b \<longleftrightarrow> a = b"
  by (metis attr_reads(2) option.inject)

lemma matches_add_user:
  assumes lib: "uuid_lib_ok lib"
  shows "matches lib (AddUser u) (\<lambda>t. tb_router t (uuid_simple lib (u_uaid u)) = None)
    (\<lambda>t t'. t' = put_router (uuid_simple lib (u_uaid u)) (Some (hm_get (user_to_item lib u))) t) no_answer (\<lambda>_. Done)"
proof -
  have "stores lib (put_router (uuid_simple lib (u_uaid u)) (Some (hm_get (user_to_item lib u))) t)
     (s\<lparr>st_users := (st_users s)(u_uaid u \<mapsto> u\<lparr>u_version := None\<rparr>)\<rparr>)" if "stores lib t s" for t s
    using item_is_user_to_item by (intro stores_router [OF lib that]) (auto simp: user_row_def)
  moreover have "(tb_router t (uuid_simple lib (u_uaid u)) = None) = (st_users s (u_uaid u) = None)" if "stores lib t s" for t s
    using storesD(1) [OF that, of "u_uaid u"] by (auto elim: user_row_cases)
  ultimately show ?thesis by (simp add: matches_def)
qed

lemma matches_update_user:
  fixes u :: user
  assumes lib: "uuid_lib_ok lib"
  defines "vs \<equiv> hm_remove ''uaid'' (user_to_item lib u)"
  shows "matches lib (UpdateUser u) (can_update (uuid_simple lib (u_uaid u)) vs)
    (\<lambda>t t'. t' = sets (uuid_simple lib (u_uaid u)) vs t) no_answer (\<lambda>_. Answer True)"
proof -
  let ?k = "uuid_simple lib (u_uaid u)"
  have can: "can_update ?k vs t = req_can s (UpdateUser u)" if "stores lib t s" for t s
    using storesD(1) [OF that, of "u_uaid u"]
    by (cases rule: user_row_cases)
      (auto simp: can_update_def vs_def item_is_user_def user_item_get attr_less_def)
  have does: "stores lib (sets ?k vs t) (s\<lparr>st_users := (st_users s)(u_uaid u := map_option (merge_user u) (st_users s (u_uaid u)))\<rparr>)"
    if "stores lib t s" for t s
    unfolding sets_def
  proof (rule stores_router [OF lib that])
    show "user_row lib (u_uaid u) (map_option (\<lambda>i. i ++ hm_get vs) (tb_router t ?k)) (map_option (merge_user u) (st_users s (u_uaid u)))"
      using storesD(1) [OF that, of "u_uaid u"]
      by (cases rule: user_row_cases) (auto simp: user_row_def vs_def intro: item_is_user_merge)
  qed
  have "i ++ hm_get vs ++ hm_get vs = i ++ hm_get vs" for i :: ddb_row
    by (rule ext) (simp add: map_add_def split: option.split)
  then have "sets ?k vs (sets ?k vs t) = sets ?k vs t" for t
    by (cases "tb_router t ?k") (simp_all add: sets_def)
  with can does show ?thesis by (simp add: matches_def no_answer_def)
qed

lemma matches_remove_node_id:
  assumes lib: "uuid_lib_ok lib"
  shows "matches lib (RemoveNodeId uaid node conn) (can_remove_node (uuid_simple lib uaid) (AttrS node) (attr_n conn))
    (\<lambda>t t'. t' = removes_node (uuid_simple lib uaid) t) no_answer (\<lambda>_. Answer True)"
proof -
  let ?k = "uuid_simple lib uaid"
  have can: "can_remove_node ?k (AttrS node) (attr_n conn) t = req_can s (RemoveNodeId uaid node conn)" if "stores lib t s" for t s
    using storesD(1) [OF that, of uaid]
    by (cases rule: user_row_cases) (auto simp: can_remove_node_def item_is_user_def)
  have does: "stores lib (removes_node ?k t) (s\<lparr>st_users := (st_users s)(uaid := map_option (\<lambda>v. v\<lparr>u_node_id := None\<rparr>) (st_users s uaid))\<rparr>)"
    if "stores lib t s" for t s
    unfolding removes_node_def
  proof (rule stores_router [OF lib that])
    show "user_row lib uaid (map_option (\<lambda>i. i(''node_id'' := None)) (tb_router t ?k)) (map_option (\<lambda>v. v\<lparr>u_node_id := None\<rparr>) (st_users s uaid))"
      using storesD(1) [OF that, of uaid]
      by (cases rule: user_row_cases) (auto simp: user_row_def item_is_user_remove_node)
  qed
  have "removes_node ?k (removes_node ?k t) = removes_node ?k t" for t
    by (cases "tb_router t ?k") (simp_all add: removes_node_def)
  with can does show ?thesis by (simp add: matches_def no_answer_def)
qed

lemma matches_remove_user:
  assumes lib: "uuid_lib_ok lib"
  shows "matches lib (RemoveUser uaid) (\<lambda>_. True) (\<lambda>t t'. t' = put_router (uuid_simple lib uaid) None t) no_answer (\<lambda>_. Done)"
  using stores_router [OF lib, of _ _ uaid None None] by (simp add: matches_def user_row_def)

text \<open>Rows of channels.\<close>

lemma meta_row_fields:
  fixes t :: ddb_tables
  assumes "meta_row lib uaid (tb_messages t (uuid_simple lib uaid, '' '')) C ts"
  defines "i \<equiv> message_row t (uuid_simple lib uaid, '' '')"
  shows "i ''uaid'' = Some (AttrS (uuid_simple lib uaid))" "i ''chidmessageid'' = Some (AttrS '' '')"
    "row_set i ''chids'' = uuid_hyphenated lib ` C" "has_set i ''chids'' (uuid_hyphenated lib ` C)"
    "i ''current_timestamp'' = map_option attr_n ts"
    "i ''timestamp'' = None" "i ''ttl'' = None" "i ''data'' = None" "i ''headers'' = None" "i ''updateid'' = None"
  using assms by (auto simp: meta_row_def message_row_def channels_row_def has_set_def row_set_def split: option.splits if_splits)

lemma message_row_put [simp]: "message_row (put_messages k (Some i) t) k = i"
  by (simp add: message_row_def)

lemma row_set_has: "has_set i n S \<Longrightarrow> row_set i n = S"
  by (auto simp: has_set_def row_set_def split: if_splits)

lemma puts_chids_row: "puts_chids k S e t t1 \<Longrightarrow> row_set (message_row t1 k) ''chids'' = S"
  unfolding puts_chids_def by (elim exE conjE, hypsubst, simp only: message_row_put) (rule row_set_has)

lemma puts_chids_twice:
  assumes "puts_chids k S e t t1" and "puts_chids k S' e t1 t2"
  shows "puts_chids k S' e t t2"
proof -
  from assms(1) obtain i where "\<forall>n. n \<notin> {''chids'', ''expiry''} \<longrightarrow> i n = message_row t k n" "t1 = put_messages k (Some i) t"
    unfolding puts_chids_def by blast
  with assms(2) show ?thesis unfolding puts_chids_def by auto
qed

lemma stores_chids:
  assumes lib: "uuid_lib_ok lib" and t: "stores lib t s"
    and p: "puts_chids (uuid_simple lib uaid, '' '') (uuid_hyphenated lib ` C) (attr_n e) t t'"
  shows "stores lib t' (s\<lparr>st_channels := (st_channels s)(uaid := C)\<rparr>)"
proof -
  from p obtain i where i: "has_set i ''chids'' (uuid_hyphenated lib ` C)" "i ''expiry'' = Some (attr_n e)"
      "\<forall>n. n \<notin> {''chids'', ''expiry''} \<longrightarrow> i n = message_row t (uuid_simple lib uaid, '' '') n"
    and t': "t' = put_messages (uuid_simple lib uaid, '' '') (Some i) t"
    unfolding puts_chids_def by blast
  note f = meta_row_fields [OF storesD(2) [OF t, of uaid]]
  have "channels_row lib uaid i C (st_read s uaid)"
    using i f by (simp add: channels_row_def)
  then have "meta_row lib uaid (Some i) C (st_read s uaid)" by (simp add: meta_row_def)
  from stores_meta [OF lib t this] show ?thesis by (simp add: t')
qed

lemma matches_add_channel:
  assumes lib: "uuid_lib_ok lib"
  shows "matches lib (AddChannel uaid c) (\<lambda>_. True)
    (adds_chid (uuid_simple lib uaid, '' '') [uuid_hyphenated lib c] (attr_n e)) no_answer (\<lambda>_. Done)"
proof -
  let ?k = "(uuid_simple lib uaid, '' '')"
  have "stores lib t' (s\<lparr>st_channels := (st_channels s)(uaid := insert c (st_channels s uaid))\<rparr>)"
    if t: "stores lib t s" and a: "adds_chid ?k [uuid_hyphenated lib c] (attr_n e) t t'" for t s t'
    using a meta_row_fields(3) [OF storesD(2) [OF t, of uaid]]
    unfolding adds_chid_def by (intro stores_chids [OF lib t]) simp
  moreover have "adds_chid ?k l a t t2" if "adds_chid ?k l a t t1" "adds_chid ?k l a t1 t2" for t t1 t2 l a
    using that unfolding adds_chid_def by (auto simp: puts_chids_row Un_assoc intro: puts_chids_twice)
  ultimately show ?thesis unfolding matches_def by (simp add: no_answer_def)
qed

lemma matches_remove_channel:
  assumes lib: "uuid_lib_ok lib"
  shows "matches lib (RemoveChannel uaid c) (\<lambda>_. True)
    (deletes_chid (uuid_simple lib uaid, '' '') [uuid_hyphenated lib c] (attr_n e))
    (updated_old (uuid_simple lib uaid, '' ''))
    (\<lambda>attributes. Answer (case Option.bind (Option.bind attributes (\<lambda>m. hm_get m ''chids'')) attr_ss of
       None \<Rightarrow> False | Some channel_ids \<Rightarrow> uuid_hyphenated lib c \<in> set channel_ids))"
proof -
  let ?k = "(uuid_simple lib uaid, '' '')"
  have img: "uuid_hyphenated lib ` C - {uuid_hyphenated lib c} = uuid_hyphenated lib ` (C - {c})" for C
    using uuid_hyphenated_inj [OF lib] by auto
  have does: "stores lib t' (s\<lparr>st_channels := (st_channels s)(uaid := st_channels s uaid - {c})\<rparr>)"
    if t: "stores lib t s" and a: "deletes_chid ?k [uuid_hyphenated lib c] (attr_n e) t t'" for t s t'
    using a meta_row_fields(3) [OF storesD(2) [OF t, of uaid]]
    unfolding deletes_chid_def by (intro stores_chids [OF lib t]) (simp add: img)
  have twice: "deletes_chid ?k l a t t2" if "deletes_chid ?k l a t t1" "deletes_chid ?k l a t1 t2" for t t1 t2 l a
    using that unfolding deletes_chid_def by (auto simp: puts_chids_row Diff_idemp intro: puts_chids_twice)
  have says: "(case Option.bind (Option.bind v (\<lambda>m. hm_get m ''chids'')) attr_ss of
       None \<Rightarrow> False | Some channel_ids \<Rightarrow> uuid_hyphenated lib c \<in> set channel_ids) = (c \<in> st_channels s uaid)"
    if t: "stores lib t s" and v: "updated_old ?k t v" for t s v
  proof -
    let ?i = "message_row t ?k"
    have f: "has_set ?i ''chids'' (uuid_hyphenated lib ` st_channels s uaid)" and f': "row_set ?i ''chids'' = uuid_hyphenated lib ` st_channels s uaid"
      using meta_row_fields(3,4) [OF storesD(2) [OF t, of uaid]] by simp_all
    have c: "uuid_hyphenated lib c \<in> uuid_hyphenated lib ` C \<longleftrightarrow> c \<in> C" for C
      using uuid_hyphenated_inj [OF lib] by auto
    show ?thesis
    proof (cases v)
      case None
      with v f' show ?thesis by (simp add: updated_old_def)
    next
      case (Some m)
      with v have "hm_get m ''chids'' = ?i ''chids''" by (simp add: updated_old_def)
      with f have "st_channels s uaid = {} \<and> hm_get m ''chids'' = None \<or>
          (\<exists>l. hm_get m ''chids'' = Some (AttrSS l) \<and> set l = uuid_hyphenated lib ` st_channels s uaid)"
        by (auto simp: has_set_def split: if_splits)
      with Some c [of "st_channels s uaid"] show ?thesis by (elim disjE exE conjE) (simp_all add: attr_ss_def)
    qed
  qed
  show ?thesis
  proof (rule matchesI, goal_cases)
    case 2
    then show ?case by (auto dest: does)
  next
    case (3 t s v)
    from says [OF this] show ?case by simp
  next
    case 4
    then show ?case by (rule twice)
  qed simp
qed

lemma matches_increment:
  assumes lib: "uuid_lib_ok lib"
  shows "matches lib (IncrementStorage uaid ts) (\<lambda>_. True)
    (\<lambda>t t'. t' = sets_timestamp (uuid_simple lib uaid, '' '') (attr_n ts) (attr_n e) t) no_answer (\<lambda>_. Done)"
proof -
  let ?k = "(uuid_simple lib uaid, '' '')"
  have "stores lib (sets_timestamp ?k (attr_n ts) (attr_n e) t) (s\<lparr>st_read := (st_read s)(uaid := Some ts)\<rparr>)"
    if t: "stores lib t s" for t s
  proof -
    note f = meta_row_fields [OF storesD(2) [OF t, of uaid]]
    have "meta_row lib uaid (Some ((message_row t ?k)(''current_timestamp'' \<mapsto> attr_n ts, ''expiry'' \<mapsto> attr_n e)))
        (st_channels s uaid) (Some ts)"
      using f by (simp add: meta_row_def channels_row_def has_set_def)
    from stores_meta [OF lib t this] show ?thesis by (simp add: sets_timestamp_def)
  qed
  moreover have "sets_timestamp k a b (sets_timestamp k a b t) = sets_timestamp k a b t" for k a b t
    by (simp add: sets_timestamp_def fun_upd_twist)
  ultimately show ?thesis by (simp add: matches_def no_answer_def)
qed

lemma record_item_fields:
  "hm_get (record_to_item lib r) ''uaid'' = Some (AttrS (uuid_simple lib (nr_uaid r)))"
  "hm_get (record_to_item lib r) ''chidmessageid'' = Some (AttrS (nr_chidmessageid r))"
  by (simp_all add: record_to_item_def)

lemma matches_save_message:
  assumes lib: "uuid_lib_ok lib" and r: "keeps_notification r uaid n"
  shows "matches lib (SaveMessage uaid n) (\<lambda>_. True)
    (\<lambda>t t'. t' = put_messages (uuid_simple lib uaid, nr_chidmessageid r) (Some (hm_get (record_to_item lib r))) t)
    no_answer (\<lambda>_. Done)"
proof -
  from r have "nr_chidmessageid r \<noteq> '' ''" by (simp add: keeps_notification_def)
  note st = stores_message [OF lib _ this, of _ _ uaid "Some r", unfolded option.map]
  show ?thesis
  proof (rule matchesI, goal_cases)
    case (2 t s t')
    with r st [OF 2(1)] show ?case unfolding req_does.simps by blast
  qed (simp_all add: no_answer_def)
qed

lemma matches_remove_message:
  assumes lib: "uuid_lib_ok lib"
  shows "matches lib (RemoveMessage uaid k) (\<lambda>_. True)
    (\<lambda>t t'. t' = put_messages (uuid_simple lib uaid, k) None t) no_answer (\<lambda>_. Done)"
proof (cases "k = '' ''")
  case True
  then show ?thesis using stores_meta [OF lib, of _ _ uaid None "{}" None]
    by (simp add: matches_def no_answer_def meta_row_def)
next
  case False
  then show ?thesis using stores_message [OF lib _ False, of _ _ uaid None]
    by (simp add: matches_def no_answer_def)
qed

text \<open>Reads: what cannot be decoded has no reply in the store.\<close>

definition user_reply :: "uuid_lib \<Rightarrow> ddb_item option \<Rightarrow> ddb_reply" where
  "user_reply lib item = (case item of
       None \<Rightarrow> Found None
     | Some i \<Rightarrow> (case user_from_item lib i of Inl _ \<Rightarrow> Done | Inr u \<Rightarrow> Found (Some u)))"

lemma matches_get_user:
  assumes lib: "uuid_lib_ok lib"
  shows "matches lib (GetUser uaid) (\<lambda>_. True) (\<lambda>t t'. t' = t) (reads (\<lambda>t. tb_router t (uuid_simple lib uaid))) (user_reply lib)"
proof -
  have "user_reply lib v = Found (st_users s uaid)"
    if t: "stores lib t s" and v: "reads (\<lambda>t. tb_router t (uuid_simple lib uaid)) t v" for t s v
    using storesD(1) [OF t, of uaid] v
    by (cases rule: user_row_cases) (auto simp: reads_def user_reply_def user_from_item_is [OF lib])
  then show ?thesis by (simp add: matches_def)
qed

definition channels_reply :: "uuid_lib \<Rightarrow> ddb_item option \<Rightarrow> ddb_reply" where
  "channels_reply lib item = (case item of
       None \<Rightarrow> Channels {}
     | Some i \<Rightarrow> (case record_from_item lib i of
         Inl _ \<Rightarrow> Done
       | Inr n \<Rightarrow> Channels (set (remdups (List.map_filter (uuid_parse lib) (case nr_chids n of None \<Rightarrow> [] | Some l \<Rightarrow> l))))))"

lemma set_parse_hyphenated:
  assumes "uuid_lib_ok lib" and "set l = uuid_hyphenated lib ` C"
  shows "set (List.map_filter (uuid_parse lib) l) = C"
  using assms by (auto simp: List.map_filter_def image_def)

lemma record_from_channels:
  assumes lib: "uuid_lib_ok lib" and i: "channels_row lib uaid (hm_get i) C ts"
  shows "\<exists>n. record_from_item lib i = Inr n \<and> set (case nr_chids n of None \<Rightarrow> [] | Some l \<Rightarrow> l) = uuid_hyphenated lib ` C"
proof -
  note i' = i [unfolded channels_row_def]
  obtain e where e: "hm_get i ''expiry'' = Some (attr_n e)" using i' by blast
  obtain cs where cs: "opt_field i ''chids'' attr_ss = Inr cs"
    and set: "set (case cs of None \<Rightarrow> [] | Some l \<Rightarrow> l) = uuid_hyphenated lib ` C"
  proof (cases "C = {}")
    case True
    with i' have "hm_get i ''chids'' = None" by (simp add: has_set_def)
    with True show thesis by (intro that [of None]) (simp_all add: opt_field_None)
  next
    case False
    with i' obtain l where "hm_get i ''chids'' = Some (AttrSS l)" "set l = uuid_hyphenated lib ` C"
      by (auto simp: has_set_def)
    then show thesis by (intro that [of "Some l"]) (simp_all add: opt_field_Some)
  qed
  have "field i ''uaid'' (\<lambda>a. Option.bind (attr_string a) (uuid_parse lib)) = Inr uaid"
    using i' uuid_simple_parse [OF lib] by (intro field_Some) auto
  moreover have "field i ''chidmessageid'' attr_string = Inr '' ''" "field i ''expiry'' attr_u64 = Inr e"
    using i' e by (auto intro: field_Some)
  moreover have "opt_field i ''current_timestamp'' attr_u64 = Inr ts"
    using i' by (auto intro: opt_field_skip)
  moreover have "opt_field i ''timestamp'' attr_u64 = Inr None" "opt_field i ''ttl'' attr_u64 = Inr None"
    "opt_field i ''data'' attr_string = Inr None" "opt_field i ''headers'' attr_headers = Inr None"
    "opt_field i ''updateid'' attr_string = Inr None"
    using i' by (simp_all add: opt_field_None)
  ultimately show ?thesis using cs set by (simp add: record_from_item_def)
qed

lemma matches_get_channels:
  assumes lib: "uuid_lib_ok lib"
  shows "matches lib (GetChannels uaid) (\<lambda>_. True) (\<lambda>t t'. t' = t)
    (reads (\<lambda>t. tb_messages t (uuid_simple lib uaid, '' ''))) (channels_reply lib)"
proof -
  have "channels_reply lib v = Channels (st_channels s uaid)"
    if t: "stores lib t s" and v: "reads (\<lambda>t. tb_messages t (uuid_simple lib uaid, '' '')) t v" for t s v
  proof (cases v)
    case None
    with v storesD(2) [OF t, of uaid] show ?thesis by (simp add: reads_def channels_reply_def meta_row_def)
  next
    case (Some i)
    with v storesD(2) [OF t, of uaid] have "channels_row lib uaid (hm_get i) (st_channels s uaid) (st_read s uaid)"
      by (cases "tb_messages t (uuid_simple lib uaid, '' '')") (simp_all add: reads_def meta_row_def)
    from record_from_channels [OF lib this] Some show ?thesis
      by (auto simp: channels_reply_def set_parse_hyphenated [OF lib])
  qed
  then show ?thesis by (simp add: matches_def)
qed

section \<open>The client refines the store\<close>

inductive_cases store_stepE: "store_step s q r s'"

lemma store_step_read: "store_step s (GetUser uaid) (Inr a) s' \<Longrightarrow> \<exists>u. a = Found u"
  "store_step s (GetChannels uaid) (Inr a) s' \<Longrightarrow> \<exists>C. a = Channels C"
  by (auto elim!: store_stepE simp: conditional_def)

lemma answered_simps [simp]: "answered f (Inr v, x) = (Inr (f v), x)" "answered f (Inl e, x) = (Inl e, x)"
  by (simp_all add: answered_def)

text \<open>A request answered as the service answers it.\<close>

lemma reply_call:
  assumes "matches (dd_uuid D) q can does says g" and "lands view f can does says"
    and "stores (dd_uuid D) (view x) s" and "answered h (ddb_call D (req_error q) f x) = (r, x')"
    and "\<And>v. h v = g v"
  shows "\<exists>s'. stores (dd_uuid D) (view x') s' \<and> store_step s q r s'"
proof -
  obtain r0 where r0: "ddb_call D (req_error q) f x = (r0, x')" and r: "r = map_sum id h r0"
    using assms(4) by (cases "ddb_call D (req_error q) f x"; cases "fst (ddb_call D (req_error q) f x)") auto
  from ddb_call_step [OF assms(1,2,3) r0] obtain s' where "stores (dd_uuid D) (view x') s'"
    and "case r0 of Inr v \<Rightarrow> store_step s q (Inr (g v)) s' | Inl e \<Rightarrow> store_step s q (Inl e) s'" .
  then show ?thesis using r assms(5) by (cases r0) auto
qed

lemma req_error_simps:
  "req_error (AddUser u) = DdbPutItem" "req_error (SaveMessage uaid n) = DdbPutItem"
  "req_error (GetUser uaid) = DdbGetItem" "req_error (GetChannels uaid) = DdbGetItem"
  "req_error (RemoveUser uaid) = DdbDeleteItem" "req_error (RemoveMessage uaid k) = DdbDeleteItem"
  "req_error (AddChannel uaid c) = DdbUpdateItem" "req_error (RemoveChannel uaid c) = DdbUpdateItem"
  "req_error (IncrementStorage uaid ts) = DdbUpdateItem"
  by (rule ext, simp add: req_error_def)+

lemma user_key: "uaid_key D uaid = [(''uaid'', AttrS (uuid_simple (dd_uuid D) uaid))]"
  by (simp add: uaid_key_def)

lemma router_service:
  assumes "ddb_world_ok D view"
  shows "hm_get i ''uaid'' = Some (AttrS k) \<Longrightarrow>
      lands view (dl_put_item (dd_lib D) \<lparr>pi_table = router_table D, pi_item = i, pi_values = [],
        pi_condition = Some ''attribute_not_exists(uaid)''\<rparr>)
      (\<lambda>t. tb_router t k = None) (\<lambda>t t'. t' = put_router k (Some (hm_get i)) t) no_answer"
    and "lands view (dl_get_item (dd_lib D) (router_table D) [(''uaid'', AttrS k)]) (\<lambda>_. True) (\<lambda>t t'. t' = t)
      (reads (\<lambda>t. tb_router t k))"
    and "lands view (dl_delete_item (dd_lib D) (router_table D) [(''uaid'', AttrS k)]) (\<lambda>_. True)
      (\<lambda>t t'. t' = put_router k None t) no_answer"
proof -
  have ok: "router_service_ok D view" using assms by (simp add: ddb_world_ok_def)
  have put: "(\<lambda>t. tb_router t k = None) = router_condition ''attribute_not_exists(uaid)'' [] k"
    by (rule ext) (simp only: put_condition)
  show "lands view (dl_put_item (dd_lib D) \<lparr>pi_table = router_table D, pi_item = i, pi_values = [],
        pi_condition = Some ''attribute_not_exists(uaid)''\<rparr>)
      (\<lambda>t. tb_router t k = None) (\<lambda>t t'. t' = put_router k (Some (hm_get i)) t) no_answer"
    if "hm_get i ''uaid'' = Some (AttrS k)"
    unfolding put using that ok [unfolded router_service_ok_def Let_def] by blast
qed (use assms in \<open>unfold ddb_world_ok_def router_service_ok_def Let_def, blast+\<close>)

lemma router_updates:
  assumes "ddb_world_ok D view"
  shows "lands view (dl_update_item (dd_lib D) \<lparr>ui_table = router_table D, ui_key = [(''uaid'', AttrS k)],
        ui_update = set_expression (map fst vs), ui_values = map (\<lambda>(n, v). (CHR '':'' # n, v)) vs,
        ui_condition = Some UPDATE_USER_CONDITION, ui_return_values = None\<rparr>)
      (can_update k vs) (\<lambda>t t'. t' = sets k vs t) no_answer"
    and "lands view (dl_update_item (dd_lib D) \<lparr>ui_table = router_table D, ui_key = [(''uaid'', AttrS k)],
        ui_update = ''REMOVE node_id'', ui_values = [('':node'', node), ('':conn'', conn)],
        ui_condition = Some ''(node_id = :node) and (connected_at = :conn)'', ui_return_values = None\<rparr>)
      (can_remove_node k node conn) (\<lambda>t t'. t' = removes_node k t) no_answer"
proof -
  have ok: "router_service_ok D view" using assms by (simp add: ddb_world_ok_def)
  have can: "can_update k vs = router_condition UPDATE_USER_CONDITION (map (\<lambda>(n, v). (CHR '':'' # n, v)) vs) k"
    by (rule ext) (simp only: update_condition)
  show "lands view (dl_update_item (dd_lib D) \<lparr>ui_table = router_table D, ui_key = [(''uaid'', AttrS k)],
        ui_update = set_expression (map fst vs), ui_values = map (\<lambda>(n, v). (CHR '':'' # n, v)) vs,
        ui_condition = Some UPDATE_USER_CONDITION, ui_return_values = None\<rparr>)
      (can_update k vs) (\<lambda>t t'. t' = sets k vs t) no_answer"
    unfolding can using ok [unfolded router_service_ok_def Let_def] by blast
  have rem: "can_remove_node k node conn =
      router_condition ''(node_id = :node) and (connected_at = :conn)'' [('':node'', node), ('':conn'', conn)] k"
    by (rule ext) (simp only: remove_node_condition)
  show "lands view (dl_update_item (dd_lib D) \<lparr>ui_table = router_table D, ui_key = [(''uaid'', AttrS k)],
        ui_update = ''REMOVE node_id'', ui_values = [('':node'', node), ('':conn'', conn)],
        ui_condition = Some ''(node_id = :node) and (connected_at = :conn)'', ui_return_values = None\<rparr>)
      (can_remove_node k node conn) (\<lambda>t t'. t' = removes_node k t) no_answer"
    unfolding rem using ok [unfolded router_service_ok_def Let_def] by blast
qed

lemma message_service:
  assumes "ddb_world_ok D view"
  shows "key_values i u c \<Longrightarrow>
      lands view (dl_put_item (dd_lib D) \<lparr>pi_table = message_table D, pi_item = i, pi_values = [], pi_condition = None\<rparr>)
        (\<lambda>_. True) (\<lambda>t t'. t' = put_messages (u, c) (Some (hm_get i)) t) no_answer"
    and "lands view (dl_get_item (dd_lib D) (message_table D) [(''uaid'', AttrS u), (''chidmessageid'', AttrS c)])
      (\<lambda>_. True) (\<lambda>t t'. t' = t) (reads (\<lambda>t. tb_messages t (u, c)))"
    and "lands view (dl_delete_item (dd_lib D) (message_table D) [(''uaid'', AttrS u), (''chidmessageid'', AttrS c)])
      (\<lambda>_. True) (\<lambda>t t'. t' = put_messages (u, c) None t) no_answer"
  using assms unfolding ddb_world_ok_def message_service_ok_def Let_def by blast+

lemma message_updates:
  assumes "ddb_world_ok D view"
  defines "update \<equiv> \<lambda>u c expression values ret. dl_update_item (dd_lib D)
    \<lparr>ui_table = message_table D, ui_key = [(''uaid'', AttrS u), (''chidmessageid'', AttrS c)],
     ui_update = expression, ui_values = values, ui_condition = None, ui_return_values = ret\<rparr>"
  shows "lands view (update u c ''ADD chids :channel_id SET expiry = :expiry'' [('':channel_id'', AttrSS l), ('':expiry'', e)] None)
      (\<lambda>_. True) (adds_chid (u, c) l e) no_answer"
    and "lands view (update u c ''DELETE chids :channel_id SET expiry = :expiry'' [('':channel_id'', AttrSS l), ('':expiry'', e)]
      (Some ''UPDATED_OLD'')) (\<lambda>_. True) (deletes_chid (u, c) l e) (updated_old (u, c))"
    and "lands view (update u c ''SET current_timestamp = :timestamp, expiry = :expiry'' [('':timestamp'', ts), ('':expiry'', e)] None)
      (\<lambda>_. True) (\<lambda>t t'. t' = sets_timestamp (u, c) ts e t) no_answer"
  using assms(1) unfolding ddb_world_ok_def message_service_ok_def Let_def update_def by blast+

lemma world_clock:
  assumes "ddb_world_ok D view"
  shows "view (snd (sys_now_sec (dd_sys D) x)) = view x" "view (snd (sys_now_ms (dd_sys D) x)) = view x"
    and "uuid_lib_ok (dd_uuid D)"
  using assms unfolding ddb_world_ok_def by blast+

text \<open>The updates of the router table.\<close>

lemma reply_conditional:
  assumes "matches (dd_uuid D) q can does says (\<lambda>_ :: ddb_item option. Answer True)"
    and "lands view (dl_update_item (dd_lib D) inp) can does says"
    and "stores (dd_uuid D) (view x) s" and "conditional q"
    and "answered Answer (ddb_conditional_update D inp x) = (r, x')"
  shows "\<exists>s'. stores (dd_uuid D) (view x') s' \<and> store_step s q r s'"
proof -
  obtain r0 where r0: "ddb_conditional_update D inp x = (r0, x')" and r: "r = map_sum id Answer r0"
    using assms(5) by (cases "ddb_conditional_update D inp x"; cases "fst (ddb_conditional_update D inp x)") auto
  from ddb_conditional_step [OF assms(1-4) r0] obtain s' where
    "stores (dd_uuid D) (view x') s'" "store_step s q (map_sum id Answer r0) s'" .
  with r show ?thesis by blast
qed

lemma do_updates:
  "ddb_do D (UpdateUser u) x = answered Answer (ddb_conditional_update D
     \<lparr>ui_table = router_table D, ui_key = [(''uaid'', AttrS (uuid_simple (dd_uuid D) (u_uaid u)))],
      ui_update = set_expression (map fst (hm_remove ''uaid'' (user_to_item (dd_uuid D) u))),
      ui_values = map (\<lambda>(k, v). (CHR '':'' # k, v)) (hm_remove ''uaid'' (user_to_item (dd_uuid D) u)),
      ui_condition = Some UPDATE_USER_CONDITION, ui_return_values = None\<rparr> x)"
  "ddb_do D (RemoveNodeId uaid node conn) x = answered Answer (ddb_conditional_update D
     \<lparr>ui_table = router_table D, ui_key = [(''uaid'', AttrS (uuid_simple (dd_uuid D) uaid))],
      ui_update = ''REMOVE node_id'', ui_values = [('':node'', AttrS node), ('':conn'', attr_n conn)],
      ui_condition = Some ''(node_id = :node) and (connected_at = :conn)'', ui_return_values = None\<rparr> x)"
  by (simp_all add: ddb_update_user_def ddb_remove_node_id_def Let_def user_key case_prod_beta)

lemma user_updates_step:
  assumes w: "ddb_world_ok D view" and t: "stores (dd_uuid D) (view x) s"
    and q: "conditional q" and r: "ddb_do D q x = (r, x')"
  shows "\<exists>s'. stores (dd_uuid D) (view x') s' \<and> store_step s q r s'"
proof -
  note lib = world_clock(3) [OF w]
  show ?thesis
  proof (cases q)
    case (UpdateUser u)
    show ?thesis using r [unfolded UpdateUser do_updates] q
      unfolding UpdateUser by (intro reply_conditional [OF matches_update_user [OF lib] router_updates(1) [OF w] t])
  next
    case (RemoveNodeId uaid node conn)
    show ?thesis using r [unfolded RemoveNodeId do_updates] q
      unfolding RemoveNodeId by (intro reply_conditional [OF matches_remove_node_id [OF lib] router_updates(2) [OF w] t])
  qed (use q in \<open>simp_all add: conditional_def\<close>)
qed

text \<open>The other requests on users and messages.\<close>

lemma do_calls:
  "ddb_do D (AddUser u) x = answered (\<lambda>_. Done) (ddb_call D DdbPutItem (dl_put_item (dd_lib D)
     \<lparr>pi_table = router_table D, pi_item = user_to_item (dd_uuid D) u, pi_values = [],
      pi_condition = Some ''attribute_not_exists(uaid)''\<rparr>) x)"
  "ddb_do D (RemoveUser uaid) x = answered (\<lambda>_. Done) (ddb_call D DdbDeleteItem (dl_delete_item (dd_lib D)
     (router_table D) [(''uaid'', AttrS (uuid_simple (dd_uuid D) uaid))]) x)"
  "ddb_do D (RemoveMessage uaid k) x = answered (\<lambda>_. Done) (ddb_call D DdbDeleteItem (dl_delete_item (dd_lib D)
     (message_table D) [(''uaid'', AttrS (uuid_simple (dd_uuid D) uaid)), (''chidmessageid'', AttrS k)]) x)"
  by (simp_all add: ddb_add_user_def ddb_remove_user_def ddb_remove_message_def user_key chid_key_def)

lemma answered_andThen: "answered f (andThen r (\<lambda>v x. (Inr (g v), x))) = answered (\<lambda>v. f (g v)) r"
  by (cases r; cases "fst r") auto

lemma do_channels:
  assumes "sys_now_sec (dd_sys D) x = (now, x1)"
  defines "update \<equiv> \<lambda>uaid expression values ret. dl_update_item (dd_lib D)
    \<lparr>ui_table = message_table D, ui_key = [(''uaid'', AttrS (uuid_simple (dd_uuid D) uaid)), (''chidmessageid'', AttrS '' '')],
     ui_update = expression, ui_values = values, ui_condition = None, ui_return_values = ret\<rparr>"
  shows "ddb_do D (AddChannel uaid c) x = answered (\<lambda>_. Done) (ddb_call D DdbUpdateItem
      (update uaid ''ADD chids :channel_id SET expiry = :expiry''
        [('':channel_id'', AttrSS [uuid_hyphenated (dd_uuid D) c]), ('':expiry'', attr_n (now + MAX_CHANNEL_TTL))] None) x1)"
    and "ddb_do D (RemoveChannel uaid c) x = answered
      (\<lambda>attributes. Answer (case Option.bind (Option.bind attributes (\<lambda>m. hm_get m ''chids'')) attr_ss of
         None \<Rightarrow> False | Some channel_ids \<Rightarrow> uuid_hyphenated (dd_uuid D) c \<in> set channel_ids))
      (ddb_call D DdbUpdateItem (update uaid ''DELETE chids :channel_id SET expiry = :expiry''
        [('':channel_id'', AttrSS [uuid_hyphenated (dd_uuid D) c]), ('':expiry'', attr_n (now + MAX_CHANNEL_TTL))]
        (Some ''UPDATED_OLD'')) x1)"
    and "ddb_do D (IncrementStorage uaid ts) x = answered (\<lambda>_. Done) (ddb_call D DdbUpdateItem
      (update uaid ''SET current_timestamp = :timestamp, expiry = :expiry''
        [('':timestamp'', attr_n ts), ('':expiry'', attr_n (now + 2 * MAX_EXPIRY))] None) x1)"
  by (simp_all only: ddb_do.simps ddb_add_channel_def ddb_remove_channel_def ddb_increment_storage_def channel_update_def
      assms(1) update_def chid_key_def Let_def prod.case answered_andThen)

lemma from_notif_keeps:
  assumes w: "ddb_world_ok D view" and r: "from_notif (dd_uuid D) (dd_sys D) uaid n x = (r, x1)"
  shows "keeps_notification r uaid n" "view x1 = view x" "nr_uaid r = uaid"
proof -
  obtain k x0 where k: "chidmessageid (dd_uuid D) (dd_sys D) n x = (k, x0)" by fastforce
  have "CHR '':'' \<in> set k" and x0: "view x0 = view x"
    using k world_clock(2) [OF w, of x]
    by (auto simp: chidmessageid_def Let_def split: option.splits prod.splits if_splits)
  then have "k \<noteq> '' ''" by auto
  with k r show "keeps_notification r uaid n" "nr_uaid r = uaid"
    by (auto simp: from_notif_def keeps_notification_def split: prod.splits)
  show "view x1 = view x"
    using k r x0 world_clock(1) [OF w, of x0] by (auto simp: from_notif_def split: prod.splits)
qed

lemma do_reads:
  "ddb_do D (GetUser uaid) x = (case ddb_call D DdbGetItem (dl_get_item (dd_lib D) (router_table D)
       [(''uaid'', AttrS (uuid_simple (dd_uuid D) uaid))]) x of
     (Inl e, x1) \<Rightarrow> (Inl e, x1)
   | (Inr item, x1) \<Rightarrow> (if user_reply (dd_uuid D) item = Done
       then (Inl (DdbSerialization (projl (user_from_item (dd_uuid D) (the item)))), x1)
       else (Inr (user_reply (dd_uuid D) item), x1)))"
  "ddb_do D (GetChannels uaid) x = (case ddb_call D DdbGetItem (dl_get_item (dd_lib D) (message_table D)
       [(''uaid'', AttrS (uuid_simple (dd_uuid D) uaid)), (''chidmessageid'', AttrS '' '')]) x of
     (Inl e, x1) \<Rightarrow> (Inl e, x1)
   | (Inr item, x1) \<Rightarrow> (if channels_reply (dd_uuid D) item = Done
       then (Inl (DdbSerialization (projl (record_from_item (dd_uuid D) (the item)))), x1)
       else (Inr (channels_reply (dd_uuid D) item), x1)))"
  unfolding ddb_do.simps ddb_get_user_def ddb_get_channels_def user_key chid_key_def
  by (auto simp: user_reply_def channels_reply_def andThen_def split: prod.splits sum.splits option.splits)

lemma reads_step:
  assumes m: "matches (dd_uuid D) q can does says g" and l: "lands view f can does says"
    and t: "stores (dd_uuid D) (view x) s"
    and q: "\<And>a s'. store_step s q (Inr a) s' \<Longrightarrow> a \<noteq> Done"
    and r: "(case ddb_call D (req_error q) f x of
        (Inl e, x1) \<Rightarrow> (Inl e, x1)
      | (Inr v, x1) \<Rightarrow> (if g v = Done then (Inl (err v), x1) else (Inr (g v), x1))) = (r, x')"
  shows "\<exists>s'. stores (dd_uuid D) (view x') s' \<and> store_step s q r s'"
proof -
  obtain r0 x0 where c: "ddb_call D (req_error q) f x = (r0, x0)" by fastforce
  from ddb_call_step [OF m l t this] obtain s' where s': "stores (dd_uuid D) (view x0) s'"
    and st: "case r0 of Inr v \<Rightarrow> store_step s q (Inr (g v)) s' | Inl e \<Rightarrow> store_step s q (Inl e) s'" .
  show ?thesis
  proof (cases r0)
    case (Inl e)
    with c r s' st show ?thesis by auto
  next
    case (Inr v)
    with st q have "g v \<noteq> Done" by auto
    with Inr c r s' st show ?thesis by auto
  qed
qed

lemma ddb_do_step:
  assumes w: "ddb_world_ok D view" and t: "stores (dd_uuid D) (view x) s"
    and r: "ddb_do D q x = (r, x')"
  shows "\<exists>s'. stores (dd_uuid D) (view x') s' \<and> store_step s q r s'"
proof -
  note lib = world_clock(3) [OF w]
  obtain now x1 where now: "sys_now_sec (dd_sys D) x = (now, x1)" by fastforce
  have t1: "stores (dd_uuid D) (view x1) s" using t world_clock(1) [OF w, of x] now by simp
  show ?thesis
  proof (cases q)
    case (AddUser u)
    have "hm_get (user_to_item (dd_uuid D) u) ''uaid'' = Some (AttrS (uuid_simple (dd_uuid D) (u_uaid u)))"
      by (rule user_item_get)
    from reply_call [OF matches_add_user [OF lib] router_service(1) [OF w this] t] r
    show ?thesis unfolding AddUser do_calls req_error_simps by blast
  next
    case (GetUser uaid)
    show ?thesis using r unfolding GetUser do_reads(1) req_error_simps(3) [of uaid, symmetric]
      by (rule reads_step [OF matches_get_user [OF lib] router_service(2) [OF w] t, rotated]) (auto dest: store_step_read)
  next
    case (RemoveUser uaid)
    from reply_call [OF matches_remove_user [OF lib] router_service(3) [OF w] t] r
    show ?thesis unfolding RemoveUser do_calls req_error_simps by blast
  next
    case (AddChannel uaid c)
    from reply_call [OF matches_add_channel [OF lib] message_updates(1) [OF w] t1] r
    show ?thesis unfolding AddChannel do_channels(1) [OF now] req_error_simps by blast
  next
    case (GetChannels uaid)
    show ?thesis using r unfolding GetChannels do_reads(2) req_error_simps(4) [of uaid, symmetric]
      by (rule reads_step [OF matches_get_channels [OF lib] message_service(2) [OF w] t, rotated]) (auto dest: store_step_read)
  next
    case (RemoveChannel uaid c)
    from reply_call [OF matches_remove_channel [OF lib] message_updates(2) [OF w] t1] r
    show ?thesis unfolding RemoveChannel do_channels(2) [OF now] req_error_simps by blast
  next
    case (IncrementStorage uaid ts)
    from reply_call [OF matches_increment [OF lib] message_updates(3) [OF w] t1] r
    show ?thesis unfolding IncrementStorage do_channels(3) [OF now] req_error_simps by blast
  next
    case (SaveMessage uaid n)
    obtain nr x2 where nr: "from_notif (dd_uuid D) (dd_sys D) uaid n x = (nr, x2)" by fastforce
    note k = from_notif_keeps [OF w nr]
    have t2: "stores (dd_uuid D) (view x2) s" using t k by simp
    have "key_values (record_to_item (dd_uuid D) nr) (uuid_simple (dd_uuid D) uaid) (nr_chidmessageid nr)"
      by (simp add: key_values_def record_item_fields k)
    from reply_call [OF matches_save_message [OF lib k(1)] message_service(1) [OF w this] t2] r
    show ?thesis unfolding SaveMessage ddb_do.simps ddb_save_message_def nr Let_def prod.case req_error_simps by blast
  next
    case (RemoveMessage uaid k)
    from reply_call [OF matches_remove_message [OF lib] message_service(3) [OF w] t] r
    show ?thesis unfolding RemoveMessage do_calls req_error_simps by blast
  qed (use user_updates_step [OF w t _ r] in \<open>auto simp: conditional_def\<close>)
qed

lemma ddb_run_step:
  assumes w: "ddb_world_ok D view" and t: "stores (dd_uuid D) (view x) s"
    and r: "ddb_do_all D qs x = (rs, x')"
  shows "\<exists>s'. store_run s qs rs s' \<and> stores (dd_uuid D) (view x') s'"
  using t r
proof (induction qs arbitrary: x s rs)
  case Nil
  then show ?case by (auto intro: store_run.intros)
next
  case (Cons q qs)
  obtain r0 x1 where q: "ddb_do D q x = (r0, x1)" by fastforce
  obtain rs0 where qs: "ddb_do_all D qs x1 = (rs0, x')" and rs: "rs = r0 # rs0"
    using Cons.prems(2) q by (auto split: prod.splits)
  from ddb_do_step [OF w Cons.prems(1) q] obtain s1 where
    s1: "stores (dd_uuid D) (view x1) s1" "store_step s q r0 s1" by blast
  from Cons.IH [OF s1(1) qs] obtain s' where "store_run s1 qs rs0 s'" "stores (dd_uuid D) (view x') s'" by blast
  with s1 rs show ?case by (blast intro: store_run.intros)
qed

end
