(* ===== verification/DynamoFlows.thy ===== *)
theory DynamoFlows
  imports DynamoRefine Instances
begin

text \<open>
  The refinement of the DynamoDB client as theorems, with a concrete service that keeps its
  tables in memory and fails when told to, and what a lost reply means for the callers.
\<close>

section \<open>A service in memory\<close>

record ref_tables =
  rt_router :: "(string, ddb_item) hashmap"
  rt_messages :: "(string \<times> string, ddb_item) hashmap"

datatype fate = Fine | NoReply | Unavailable

type_synonym ref_world = "ref_tables \<times> fate list"

definition ref_view :: "ref_world \<Rightarrow> ddb_tables" where
  "ref_view w =
     \<lparr>tb_router = (\<lambda>k. map_option hm_get (hm_get (rt_router (fst w)) k)),
      tb_messages = (\<lambda>k. map_option hm_get (hm_get (rt_messages (fst w)) k))\<rparr>"

definition served :: "(ref_tables \<Rightarrow> bool) \<Rightarrow> (ref_tables \<Rightarrow> ref_tables) \<Rightarrow> (ref_tables \<Rightarrow> 'a) \<Rightarrow> ('a, ref_world) ddb_call" where
  "served can does says w =
     (case w of
        (t, NoReply # fs) \<Rightarrow> (Inl (HttpDispatch ''''), (if can t then does t else t, fs))
      | (t, Unavailable # fs) \<Rightarrow> (Inl (InternalServerError ''''), (t, fs))
      | (t, fs) \<Rightarrow> if can t then (Inr (says t), (does t, tl fs)) else (Inl (ConditionalCheckFailed ''''), (t, tl fs)))"

definition text_at :: "ddb_item \<Rightarrow> string \<Rightarrow> string" where
  "text_at i n = (case hm_get i n of Some (AttrS s) \<Rightarrow> s | _ \<Rightarrow> '''')"

definition value_at :: "ddb_item \<Rightarrow> string \<Rightarrow> attr" where
  "value_at i n = (case hm_get i n of Some a \<Rightarrow> a | None \<Rightarrow> AttrNull)"

definition list_at :: "ddb_item \<Rightarrow> string \<Rightarrow> string list" where
  "list_at i n = (case hm_get i n of Some (AttrSS l) \<Rightarrow> l | _ \<Rightarrow> [])"

definition set_list :: "string \<Rightarrow> string list \<Rightarrow> ddb_item \<Rightarrow> ddb_item" where
  "set_list n l i = (if l = [] then hm_remove n i else hm_insert n (AttrSS l) i)"

definition ref_row :: "string \<times> string \<Rightarrow> ref_tables \<Rightarrow> ddb_item" where
  "ref_row k t = (case hm_get (rt_messages t) k of
       None \<Rightarrow> [(''uaid'', AttrS (fst k)), (''chidmessageid'', AttrS (snd k))]
     | Some i \<Rightarrow> i)"

definition ref_put :: "string \<times> string \<Rightarrow> ddb_item \<Rightarrow> ref_tables \<Rightarrow> ref_tables" where
  "ref_put k i t = t\<lparr>rt_messages := hm_insert k i (rt_messages t)\<rparr>"

definition ref_change :: "string \<Rightarrow> (ddb_item \<Rightarrow> ddb_item) \<Rightarrow> ref_tables \<Rightarrow> ref_tables" where
  "ref_change k f t = (case hm_get (rt_router t) k of
       None \<Rightarrow> t
     | Some i \<Rightarrow> t\<lparr>rt_router := hm_insert k (f i) (rt_router t)\<rparr>)"

definition condition_met :: "string option \<Rightarrow> ddb_item \<Rightarrow> string \<Rightarrow> ref_tables \<Rightarrow> bool" where
  "condition_met c vs k t = (case c of None \<Rightarrow> True | Some c \<Rightarrow> router_condition c vs k (ref_view (t, [])))"

definition ref_update_router :: "update_input \<Rightarrow> (ddb_item option, ref_world) ddb_call" where
  "ref_update_router inp =
     (let k = text_at (ui_key inp) ''uaid''; vs = map (\<lambda>(n, v). (tl n, v)) (ui_values inp) in
      served (\<lambda>t. condition_met (ui_condition inp) (ui_values inp) k t)
        (ref_change k (if ui_update inp = ''REMOVE node_id'' then hm_remove ''node_id'' else (\<lambda>i. vs @ i))) (\<lambda>_. None))"

definition ref_update_messages :: "update_input \<Rightarrow> (ddb_item option, ref_world) ddb_call" where
  "ref_update_messages inp =
     (let k = (text_at (ui_key inp) ''uaid'', text_at (ui_key inp) ''chidmessageid'');
          l = list_at (ui_values inp) '':channel_id''; e = value_at (ui_values inp) '':expiry'' in
      if ui_update inp = ''SET current_timestamp = :timestamp, expiry = :expiry''
      then served (\<lambda>_. True) (\<lambda>t. ref_put k (hm_insert ''expiry'' e
          (hm_insert ''current_timestamp'' (value_at (ui_values inp) '':timestamp'') (ref_row k t))) t) (\<lambda>_. None)
      else if ui_return_values inp = None
      then served (\<lambda>_. True) (\<lambda>t. ref_put k (set_list ''chids'' (list_at (ref_row k t) ''chids'' @ l)
          (hm_insert ''expiry'' e (ref_row k t))) t) (\<lambda>_. None)
      else served (\<lambda>_. True) (\<lambda>t. ref_put k (set_list ''chids'' (filter (\<lambda>c. c \<notin> set l) (list_at (ref_row k t) ''chids''))
          (hm_insert ''expiry'' e (ref_row k t))) t) (\<lambda>t. Some (ref_row k t)))"

definition ref_service :: "ref_world ddb_lib" where
  "ref_service =
     \<lparr>dl_put_item = (\<lambda>i.
        let item = pi_item i; k = (text_at item ''uaid'', text_at item ''chidmessageid'') in
        if pi_table i = ''router''
        then served (condition_met (pi_condition i) (pi_values i) (fst k))
          (\<lambda>t. t\<lparr>rt_router := hm_insert (fst k) item (rt_router t)\<rparr>) (\<lambda>_. ())
        else served (\<lambda>_. True) (ref_put k item) (\<lambda>_. ())),
      dl_update_item = (\<lambda>i. if ui_table i = ''router'' then ref_update_router i else ref_update_messages i),
      dl_get_item = (\<lambda>table key.
        if table = ''router'' then served (\<lambda>_. True) id (\<lambda>t. hm_get (rt_router t) (text_at key ''uaid''))
        else served (\<lambda>_. True) id (\<lambda>t. hm_get (rt_messages t) (text_at key ''uaid'', text_at key ''chidmessageid''))),
      dl_delete_item = (\<lambda>table key.
        if table = ''router''
        then served (\<lambda>_. True) (\<lambda>t. t\<lparr>rt_router := hm_remove (text_at key ''uaid'') (rt_router t)\<rparr>) (\<lambda>_. ())
        else served (\<lambda>_. True) (\<lambda>t. t\<lparr>rt_messages :=
          hm_remove (text_at key ''uaid'', text_at key ''chidmessageid'') (rt_messages t)\<rparr>) (\<lambda>_. ())),
      dl_query = (\<lambda>_. served (\<lambda>_. True) id (\<lambda>t. Some (map snd (rt_messages t)))),
      dl_batch_write_item = (\<lambda>_. served (\<lambda>_. True) id (\<lambda>_. ())),
      dl_describe_table = (\<lambda>_. served (\<lambda>_. True) id (\<lambda>_. Some ''ACTIVE'')),
      dl_list_tables = (\<lambda>_ _. served (\<lambda>_. True) id (\<lambda>_. (Some [''message''], None)))\<rparr>"

definition ref_client :: "ref_world ddb_client" where
  "ref_client =
     \<lparr>dd_settings = \<lparr>ds_router_table = ''router'', ds_message_table = ''message'', ds_db_routing_table = None\<rparr>,
      dd_lib = ref_service, dd_max_retries = 5, dd_uuid = decimal_uuids, dd_regex = any_regex, dd_sys = fixed_sys 1000\<rparr>"

section \<open>It acts as documented\<close>

lemma ref_view_simps [simp]:
  "tb_router (ref_view (t, fs)) k = map_option hm_get (hm_get (rt_router t) k)"
  "tb_messages (ref_view (t, fs)) m = map_option hm_get (hm_get (rt_messages t) m)"
  by (simp_all add: ref_view_def)

lemma served_lands:
  assumes "\<And>t. can t = can' (ref_view (t, []))" and "\<And>t. does' (ref_view (t, [])) (ref_view (does t, []))"
    and "\<And>t. says' (ref_view (t, [])) (says t)"
  shows "lands ref_view (served can does says) can' does' says'"
proof -
  have v: "ref_view (t, fs) = ref_view (t, [])" for t fs by (simp add: ref_view_def)
  have "served can does says (t, fs) = (r, (t', fs')) \<Longrightarrow> case r of
           Inr u \<Rightarrow> can t \<and> t' = does t \<and> u = says t
         | Inl (ConditionalCheckFailed _) \<Rightarrow> \<not> can t \<and> t' = t
         | Inl _ \<Rightarrow> t' = t \<or> (can t \<and> t' = does t)" for t fs r t' fs'
    by (auto simp: served_def split: list.splits fate.splits if_splits)
  note ends = this
  show ?thesis
    unfolding lands_def
  proof (intro allI impI, goal_cases)
    case (1 x r x')
    obtain t fs t' fs' where x: "x = (t, fs)" "x' = (t', fs')" by fastforce
    from ends [OF 1 [unfolded x]] assms show ?case
      unfolding x v [of t fs] v [of t' fs'] by (auto split: sum.splits ddb_error.splits)
  qed
qed

lemma ref_view_eqs:
  "ref_view (t\<lparr>rt_router := hm_insert k i (rt_router t)\<rparr>, fs) = put_router k (Some (hm_get i)) (ref_view (t, fs))"
  "ref_view (t\<lparr>rt_router := hm_remove k (rt_router t)\<rparr>, fs) = put_router k None (ref_view (t, fs))"
  "ref_view (ref_put m i t, fs) = put_messages m (Some (hm_get i)) (ref_view (t, fs))"
  "ref_view (t\<lparr>rt_messages := hm_remove m (rt_messages t)\<rparr>, fs) = put_messages m None (ref_view (t, fs))"
  by (auto simp: ref_view_def put_router_def put_messages_def ref_put_def fun_eq_iff)

lemma ref_change_view:
  "ref_view (ref_change k f t, fs) =
     put_router k (map_option (\<lambda>i. hm_get (f i)) (hm_get (rt_router t) k)) (ref_view (t, fs))"
  by (auto simp: ref_change_def ref_view_eqs put_router_def ref_view_def fun_eq_iff split: option.split)

lemma ref_row_view: "message_row (ref_view (t, fs)) k = hm_get (ref_row k t)"
  by (auto simp: message_row_def ref_row_def fun_eq_iff split: option.split)

lemma row_set_list_at: "row_set (hm_get i) n = set (list_at i n)"
  by (auto simp: row_set_def list_at_def split: option.split attr.split)

lemma set_list_get: "hm_get (set_list n l i) m = (if m = n then (if l = [] then None else Some (AttrSS l)) else hm_get i m)"
  by (simp add: set_list_def)

lemma ref_tables_names [simp]: "router_table ref_client = ''router''" "message_table ref_client = ''message''"
  "dd_uuid ref_client = decimal_uuids" "dd_lib ref_client = ref_service"
  by (simp_all add: ref_client_def router_table_def message_table_def)

lemma strip_colon: "map (\<lambda>(n, v). (tl n, v)) (map (\<lambda>(n, v). (CHR '':'' # n, v)) vs) = vs"
  by (induction vs) auto

lemma ref_router_ok: "router_service_ok ref_client ref_view"
proof -
  have sets: "put_router k (map_option (\<lambda>i. hm_get i ++ hm_get vs) (hm_get (rt_router t) k)) (ref_view (t, fs)) = sets k vs (ref_view (t, fs))" for k vs t fs
    by (simp add: sets_def option.map_comp o_def)
  have removes: "put_router k (map_option (\<lambda>i. (hm_get i)(''node_id'' := None)) (hm_get (rt_router t) k)) (ref_view (t, fs)) =
      removes_node k (ref_view (t, fs))" for k t fs
    by (simp add: removes_node_def option.map_comp o_def)
  have ne: "set_expression l \<noteq> ''REMOVE node_id''" for l
    by (simp add: set_expression_def)
  show ?thesis
    unfolding router_service_ok_def Let_def ref_tables_names
    by (intro conjI allI impI; simp add: ref_service_def Let_def ref_update_router_def text_at_def value_at_def strip_colon ne del: map_map;
      (rule served_lands; simp add: condition_met_def ref_view_eqs ref_change_view sets removes reads_def no_answer_def)?)
qed

lemma ref_messages_ok: "message_service_ok ref_client ref_view"
proof -
  have chids: "puts_chids k S e (ref_view (t, fs)) (put_messages k
      (Some (hm_get (set_list ''chids'' l (hm_insert ''expiry'' e (ref_row k t))))) (ref_view (t, fs)))"
    if "set l = S" for k S e t fs l
    unfolding puts_chids_def using that by (intro exI conjI) (auto simp: has_set_def set_list_get ref_row_view)
  have old: "updated_old k (ref_view (t, fs)) (Some (ref_row k t))" for k t fs
    by (simp add: updated_old_def ref_row_view)
  have timestamp: "put_messages k (Some ((hm_get (ref_row k t))(''current_timestamp'' \<mapsto> ts, ''expiry'' \<mapsto> e))) (ref_view (t, fs)) =
      sets_timestamp k ts e (ref_view (t, fs))" for k ts e t fs
    by (simp add: sets_timestamp_def ref_row_view)
  have chid: "list_at ((n, AttrSS l) # i) n = l" for n l i
    by (simp add: list_at_def)
  have diff: "set (filter (\<lambda>c. c \<notin> set l) l') = set l' - set l" for l l' :: "string list"
    by auto
  show ?thesis
    unfolding message_service_ok_def Let_def ref_tables_names
    by (intro conjI allI impI;
      simp add: ref_service_def Let_def ref_update_messages_def text_at_def value_at_def chid key_values_def;
      (rule served_lands; simp add: ref_view_eqs reads_def no_answer_def old timestamp
        adds_chid_def deletes_chid_def ref_row_view row_set_list_at chids diff del: set_filter)?)
qed

lemma ref_world_ok: "ddb_world_ok ref_client ref_view"
  unfolding ddb_world_ok_def ref_tables_names
  using decimal_uuids_ok ref_router_ok ref_messages_ok by (simp add: ref_client_def fixed_sys_def)

section \<open>The client refines the store\<close>

definition empty_store :: ddb_store where
  "empty_store = \<lparr>st_users = (\<lambda>_. None), st_channels = (\<lambda>_. {}), st_read = (\<lambda>_. None), st_messages = (\<lambda>_ _. None)\<rparr>"

definition ref_empty :: ref_tables where
  "ref_empty = \<lparr>rt_router = [], rt_messages = []\<rparr>"

lemma stores_empty: "stores lib (ref_view (ref_empty, fs)) empty_store"
  by (simp add: stores_def empty_store_def ref_empty_def user_row_def meta_row_def)

definition ref_user :: "u64 \<Rightarrow> string \<Rightarrow> user" where
  "ref_user connected_at node =
     \<lparr>u_uaid = 7, u_connected_at = connected_at, u_router_type = ''webpush'', u_router_data = None,
      u_last_connect = None, u_node_id = Some node, u_record_version = Some 1, u_current_month = None,
      u_current_timestamp = None, u_version = None\<rparr>"

text \<open>Claim C13. The DynamoDB client refines the store: whatever it answers to a sequence of requests,
  over a service that may fail, lose its replies and be retried, the store can answer too,
  and the tables hold what the store then holds.\<close>

theorem dynamo_refines_store:
  assumes "ddb_world_ok D view" and "stores (dd_uuid D) (view x) s"
  shows "case ddb_do_all D qs x of (rs, x') \<Rightarrow> \<exists>s'. store_run s qs rs s' \<and> stores (dd_uuid D) (view x') s'"
  using ddb_run_step [OF assms] by (simp split: prod.splits)

text \<open>Claim C28. The rows of the tables stay well typed: after any requests, whatever their
  outcome, users and channels are still read without a decoding error.\<close>

theorem dynamo_rows_stay_typed:
  assumes "ddb_world_ok D view" and "\<exists>s. stores (dd_uuid D) (view x) s"
  shows "(\<exists>s'. stores (dd_uuid D) (view (snd (ddb_do_all D qs x))) s') \<and>
    Inl (DdbSerialization e) \<notin> set (fst (ddb_do_all D qs x))"
proof -
  from assms(2) obtain s where s: "stores (dd_uuid D) (view x) s" by blast
  have "Inl (DdbSerialization e) \<notin> set rs" if "store_run s qs rs s'" for s qs rs s'
    using that
    by induction (auto elim!: store_stepE simp: req_error_def split: ddb_request.splits)
  with ddb_run_step [OF assms(1) s, of qs] show ?thesis by (cases "ddb_do_all D qs x") auto
qed

theorem dynamo_refines_store_witness:
  "case ddb_do_all ref_client
      [AddUser (ref_user 1 ''n1''), UpdateUser (ref_user 2 ''n2''), AddChannel 7 3, RemoveChannel 7 3,
       RemoveNodeId 7 ''n2'' 2, GetUser 7, SaveMessage 7 sample_notification]
      (ref_empty, [NoReply, Fine, Unavailable]) of
    (rs, x') \<Rightarrow> \<exists>s'. store_run empty_store
      [AddUser (ref_user 1 ''n1''), UpdateUser (ref_user 2 ''n2''), AddChannel 7 3, RemoveChannel 7 3,
       RemoveNodeId 7 ''n2'' 2, GetUser 7, SaveMessage 7 sample_notification] rs s' \<and>
      stores (dd_uuid ref_client) (ref_view x') s'"
  by (rule dynamo_refines_store [OF ref_world_ok stores_empty])

theorem dynamo_rows_stay_typed_witness:
  "(\<exists>s'. stores (dd_uuid ref_client) (ref_view (snd (ddb_do_all ref_client
        [AddUser (ref_user 1 ''n1''), GetUser 7, AddChannel 7 3, GetChannels 7] (ref_empty, [Unavailable])))) s') \<and>
    Inl (DdbSerialization ''missing field uaid'') \<notin> set (fst (ddb_do_all ref_client
        [AddUser (ref_user 1 ''n1''), GetUser 7, AddChannel 7 3, GetChannels 7] (ref_empty, [Unavailable])))"
  by (rule dynamo_rows_stay_typed [OF ref_world_ok]) (rule exI, rule stores_empty)

section \<open>Lost replies\<close>

lemma update_again_refused:
  assumes "u_node_id u \<noteq> None" and "item_is_user lib i v"
    and "tb_router t k = Some (i ++ (hm_get (user_to_item lib u))(''uaid'' := None))"
  shows "\<not> can_update k (hm_remove ''uaid'' (user_to_item lib u)) t"
  using assms by (auto simp: can_update_def user_item_get map_add_def attr_less_def)

text \<open>Claim C32. When the reply to an update is lost and the request is retried, the update of a user
  with a node is refused by the row it wrote itself: the text of the condition, evaluated on that
  row, asks for a connection older than its own. \<open>update_user\<close> answers that another connection
  was faster, and the new record is in the table.\<close>

theorem dynamo_lost_reply_denies_update:
  assumes w: "ddb_world_ok D view" and t: "stores (dd_uuid D) (view x) s"
    and v: "st_users s (u_uaid u) = Some v" "req_can s (UpdateUser u)"
    and node: "u_node_id u \<noteq> None" and retries: "dd_max_retries D \<noteq> 0"
  defines "vs \<equiv> hm_remove ''uaid'' (user_to_item (dd_uuid D) u)"
  defines "update \<equiv> dl_update_item (dd_lib D)
    \<lparr>ui_table = router_table D, ui_key = [(''uaid'', AttrS (uuid_simple (dd_uuid D) (u_uaid u)))],
     ui_update = set_expression (map fst vs), ui_values = map (\<lambda>(k, v). (CHR '':'' # k, v)) vs,
     ui_condition = Some UPDATE_USER_CONDITION, ui_return_values = None\<rparr>"
  assumes lost: "update x = (Inl (HttpDispatch m), xa)" "view xa \<noteq> view x"
    and again: "update xa = (r, xb)" "\<forall>e. r = Inl e \<longrightarrow> (\<exists>m. e = ConditionalCheckFailed m)"
  shows "ddb_update_user D u x = (Inr False, (u, xb)) \<and>
    (\<exists>i. tb_router (view xb) (uuid_simple (dd_uuid D) (u_uaid u)) = Some i \<and> item_is_user (dd_uuid D) i (merge_user u v))"
proof -
  let ?k = "uuid_simple (dd_uuid D) (u_uaid u)"
  note lands = router_updates(1) [OF w, of ?k vs, folded update_def]
  obtain i where i: "tb_router (view x) ?k = Some i" "item_is_user (dd_uuid D) i v"
    using storesD(1) [OF t, of "u_uaid u"] v(1) by (auto simp: user_row_def)
  have "view xa = sets ?k vs (view x)"
    using lands lost unfolding lands_def by fastforce
  with i have xa: "tb_router (view xa) ?k = Some (i ++ (hm_get (user_to_item (dd_uuid D) u))(''uaid'' := None))"
    by (simp add: sets_def vs_def)
  from update_again_refused [OF node i(2) xa] have "\<not> can_update ?k vs (view xa)" unfolding vs_def .
  with lands again have r: "\<exists>m. r = Inl (ConditionalCheckFailed m)" and xb: "view xb = view xa"
    unfolding lands_def by (cases r; fastforce)+
  obtain n where n: "dd_max_retries D = Suc n" using retries by (cases "dd_max_retries D") auto
  have "retry_if (dd_max_retries D) ddb_retryable update x = (r, xb)"
    using lost again r n by (cases n) (auto simp: ddb_retryable_def)
  with r have "ddb_update_user D u x = (Inr False, (u, xb))"
    by (auto simp: ddb_update_user_def ddb_conditional_update_def Let_def user_key update_def vs_def)
  with xa xb item_is_user_merge [OF i(2), of u] show ?thesis by auto
qed

lemma uuid_seven: "uuid_simple decimal_uuids 7 = ''7''"
  by (simp add: decimal_uuids_def) (subst show_nat.simps, simp add: digit_char_def char_of_eq_iff)

text \<open>The tables with one user, the answer to the first request lost.\<close>

definition one_user :: ref_tables where
  "one_user = \<lparr>rt_router = [(''7'', user_to_item decimal_uuids (ref_user 1 ''n1''))], rt_messages = []\<rparr>"

definition one_user_store :: ddb_store where
  "one_user_store = empty_store\<lparr>st_users := (st_users empty_store)(7 := Some (ref_user 1 ''n1''))\<rparr>"

lemma stores_one_user: "stores decimal_uuids (ref_view (one_user, fs)) one_user_store"
proof -
  note k = uuid_seven
  have "user_row decimal_uuids 7 (Some (hm_get (user_to_item decimal_uuids (ref_user 1 ''n1'')))) (Some (ref_user 1 ''n1''))"
    using item_is_user_to_item [of decimal_uuids "ref_user 1 ''n1''"] by (simp add: user_row_def ref_user_def)
  from stores_router [OF decimal_uuids_ok stores_empty [of _ fs] this]
  have "stores decimal_uuids (put_router ''7'' (Some (hm_get (user_to_item decimal_uuids (ref_user 1 ''n1'')))) (ref_view (ref_empty, fs))) one_user_store"
    by (simp add: k one_user_store_def)
  moreover have "put_router ''7'' (Some (hm_get (user_to_item decimal_uuids (ref_user 1 ''n1'')))) (ref_view (ref_empty, fs)) = ref_view (one_user, fs)"
    by (auto simp: put_router_def ref_view_def one_user_def ref_empty_def fun_eq_iff)
  ultimately show ?thesis by simp
qed

lemma lost_update:
  defines "vs \<equiv> hm_remove ''uaid'' (user_to_item decimal_uuids (ref_user 2 ''n2''))"
  defines "update \<equiv> dl_update_item ref_service
    \<lparr>ui_table = ''router'', ui_key = [(''uaid'', AttrS (uuid_simple decimal_uuids 7))],
     ui_update = set_expression (map fst vs), ui_values = map (\<lambda>(k, v). (CHR '':'' # k, v)) vs,
     ui_condition = Some UPDATE_USER_CONDITION, ui_return_values = None\<rparr>"
  defines "t1 \<equiv> ref_change ''7'' (\<lambda>i. vs @ i) one_user"
  shows "update (one_user, [NoReply]) = (Inl (HttpDispatch ''''), (t1, []))"
    and "ref_view (t1, []) \<noteq> ref_view (one_user, [NoReply])"
    and "update (t1, []) = (Inl (ConditionalCheckFailed ''''), (t1, []))"
proof -
  note k = uuid_seven
  have u: "update = served (\<lambda>t. can_update ''7'' vs (ref_view (t, []))) (ref_change ''7'' (\<lambda>i. vs @ i)) (\<lambda>_. None)"
    unfolding update_def
    by (simp add: ref_service_def ref_update_router_def Let_def strip_colon text_at_def k condition_met_def update_condition
        set_expression_def del: map_map)
  let ?u = "ref_user 1 ''n1''" and ?u' = "ref_user 2 ''n2''"
  have one: "tb_router (ref_view (one_user, fs)) ''7'' = Some (hm_get (user_to_item decimal_uuids ?u))" for fs
    by (simp add: one_user_def)
  have t1: "tb_router (ref_view (t1, fs)) ''7'' = Some (hm_get (user_to_item decimal_uuids ?u) ++ (hm_get (user_to_item decimal_uuids ?u'))(''uaid'' := None))" for fs
    by (simp add: t1_def ref_change_def one_user_def vs_def)
  have can: "can_update ''7'' vs (ref_view (one_user, []))"
    unfolding can_update_def one vs_def by (simp add: user_item_get attr_less_def) (simp add: ref_user_def)
  then show "update (one_user, [NoReply]) = (Inl (HttpDispatch ''''), (t1, []))"
    by (simp add: u served_def t1_def)
  have "\<not> can_update ''7'' vs (ref_view (t1, []))"
    unfolding vs_def by (rule update_again_refused [OF _ item_is_user_to_item t1]) (simp add: ref_user_def)
  then show "update (t1, []) = (Inl (ConditionalCheckFailed ''''), (t1, []))"
    by (simp add: u served_def)
  have "the (tb_router (ref_view (t1, [])) ''7'') ''connected_at'' \<noteq> the (tb_router (ref_view (one_user, [NoReply])) ''7'') ''connected_at''"
    unfolding one t1 by (simp add: map_add_def user_item_get) (simp add: ref_user_def)
  then show "ref_view (t1, []) \<noteq> ref_view (one_user, [NoReply])" by metis
qed

theorem dynamo_lost_reply_denies_update_witness:
  "\<exists>w. ddb_update_user ref_client (ref_user 2 ''n2'') (one_user, [NoReply]) = (Inr False, (ref_user 2 ''n2'', w)) \<and>
    (\<exists>i. tb_router (ref_view w) (uuid_simple (dd_uuid ref_client) (u_uaid (ref_user 2 ''n2''))) = Some i \<and>
      item_is_user (dd_uuid ref_client) i (merge_user (ref_user 2 ''n2'') (ref_user 1 ''n1'')))"
  by (rule exI, rule dynamo_lost_reply_denies_update [where view = ref_view and s = one_user_store and m = "''''"
      and xa = "(ref_change ''7'' (\<lambda>i. hm_remove ''uaid'' (user_to_item decimal_uuids (ref_user 2 ''n2'')) @ i) one_user, [])"
      and r = "Inl (ConditionalCheckFailed '''')"])
    (simp_all add: ref_world_ok stores_one_user lost_update,
      simp_all add: one_user_store_def ref_user_def ref_client_def lost_update [unfolded ref_user_def])

end
