(* ===== verification/LegacyDb.thy ===== *)
theory LegacyDb
  imports Dynamo
begin

text \<open>
  The storage of the older connection server: \<open>autopush/src/db/{mod,commands,models,util}.rs\<close>.
  It talks to the same service as \<open>Dynamo\<close>, with monthly message tables and other conditions.
  A chain of futures is the sequence of its calls; the keys, rows and notification records are
  those of \<open>Dynamo\<close> and \<open>Notification\<close>.
\<close>

section \<open>Data\<close>

definition LEGACY_USER_RECORD_VERSION :: u8 where "LEGACY_USER_RECORD_VERSION = 1"

record dynamo_db_user =
  du_uaid :: uuid
  du_connected_at :: u64
  du_router_type :: string
  du_router_data :: "(string, string) hashmap option"
  du_last_connect :: "u64 option"
  du_node_id :: "string option"
  du_record_version :: "u8 option"
  du_current_month :: "string option"

definition dynamo_db_user_default :: "'x sys \<Rightarrow> 'x \<Rightarrow> dynamo_db_user \<times> 'x" where
  "dynamo_db_user_default sys x =
     (let (uaid, x1) = sys_new_uuid sys x;
          (connected_at, x2) = sys_now_ms sys x1;
          (last_connect, x3) = sys_last_connect sys x2
      in (\<lparr>du_uaid = uaid, du_connected_at = connected_at, du_router_type = ''webpush'', du_router_data = None,
           du_last_connect = Some last_connect, du_node_id = None,
           du_record_version = Some LEGACY_USER_RECORD_VERSION, du_current_month = None\<rparr>, x3))"

definition dynamo_db_user_to_item :: "uuid_lib \<Rightarrow> dynamo_db_user \<Rightarrow> ddb_item" where
  "dynamo_db_user_to_item lib u =
     [(''uaid'', AttrS (uuid_simple lib (du_uaid u))), (''connected_at'', attr_n (du_connected_at u)),
      (''router_type'', AttrS (du_router_type u)),
      (''router_data'', (case du_router_data u of None \<Rightarrow> AttrNull | Some m \<Rightarrow> AttrM (map (\<lambda>(k, v). (k, AttrJson v)) m)))] @
     skip_none ''last_connect'' attr_n (du_last_connect u) @ skip_none ''node_id'' AttrS (du_node_id u) @
     skip_none ''record_version'' (\<lambda>v. attr_n (ucast v)) (du_record_version u) @
     skip_none ''current_month'' AttrS (du_current_month u)"

definition attr_u8 :: "attr \<Rightarrow> u8 option" where
  "attr_u8 a = (case attr_u64 a of None \<Rightarrow> None | Some v \<Rightarrow> if v < 256 then Some (ucast v) else None)"

definition dynamo_db_user_from_item :: "uuid_lib \<Rightarrow> ddb_item \<Rightarrow> string + dynamo_db_user" where
  "dynamo_db_user_from_item lib i =
     sum_bind (field i ''uaid'' (\<lambda>a. Option.bind (attr_string a) (uuid_parse lib))) (\<lambda>uaid.
     sum_bind (field i ''connected_at'' attr_u64) (\<lambda>connected_at.
     sum_bind (field i ''router_type'' attr_string) (\<lambda>router_type.
     sum_bind (opt_field i ''router_data'' (attr_map attr_json)) (\<lambda>router_data.
     sum_bind (opt_field i ''last_connect'' attr_u64) (\<lambda>last_connect.
     sum_bind (opt_field i ''node_id'' attr_string) (\<lambda>node_id.
     sum_bind (opt_field i ''record_version'' attr_u8) (\<lambda>record_version.
     sum_bind (opt_field i ''current_month'' attr_string) (\<lambda>current_month.
       Inr \<lparr>du_uaid = uaid, du_connected_at = connected_at, du_router_type = router_type,
            du_router_data = router_data, du_last_connect = last_connect, du_node_id = node_id,
            du_record_version = record_version, du_current_month = current_month\<rparr>))))))))"

text \<open>A message is stored with expiry 0.\<close>

definition dynamo_db_notification_from_notif ::
  "uuid_lib \<Rightarrow> 'x sys \<Rightarrow> uuid \<Rightarrow> notification \<Rightarrow> 'x \<Rightarrow> notification_record \<times> 'x" where
  "dynamo_db_notification_from_notif lib sys uaid val x =
     (let (key, x1) = chidmessageid lib sys val x
      in (\<lparr>nr_uaid = uaid, nr_chidmessageid = key, nr_current_timestamp = None, nr_chids = None,
           nr_timestamp = Some (n_timestamp val), nr_expiry = 0, nr_ttl = Some (n_ttl val), nr_data = n_data val,
           nr_headers = map_option headers_from_hashmap (n_headers val), nr_updateid = Some (n_version val)\<rparr>, x1))"

record hello_response =
  he_uaid :: "uuid option"
  he_message_month :: string
  he_check_storage :: bool
  he_old_record_version :: bool
  he_rotate_message_table :: bool
  he_connected_at :: u64
  he_deferred_user_registration :: "dynamo_db_user option"

definition hello_response_new :: "string \<Rightarrow> u64 \<Rightarrow> hello_response" where
  "hello_response_new message_month connected_at =
     \<lparr>he_uaid = None, he_message_month = message_month, he_check_storage = False, he_old_record_version = False,
      he_rotate_message_table = False, he_connected_at = connected_at, he_deferred_user_registration = None\<rparr>"

datatype register_response = RegisterSuccess string | RegisterError string u32

record 'x dynamo_storage =
  dy_ddb :: "'x ddb_lib"
  dy_router_table_name :: string
  dy_message_table_names :: "string list"
  dy_current_message_month :: string
  dy_max_retries :: nat
  dy_uuid :: uuid_lib
  dy_regex :: regex_set
  dy_sys :: "'x sys"

type_synonym ('a, 'x) apc_op = "'x \<Rightarrow> (apc_error, 'a, 'x) outcome"

section \<open>Commands\<close>

text \<open>Unlike the newer client, this one does not retry a failed connection.\<close>

definition legacy_retryable :: "ddb_error \<Rightarrow> bool" where
  "legacy_retryable e = (case e of InternalServerError _ \<Rightarrow> True | ProvisionedThroughputExceeded _ \<Rightarrow> True | _ \<Rightarrow> False)"

definition legacy_call :: "'x dynamo_storage \<Rightarrow> apc_error \<Rightarrow> ('a, 'x) ddb_call \<Rightarrow> ('a, 'x) apc_op" where
  "legacy_call S err f x = mapErr (\<lambda>_. err) (retry_if (dy_max_retries S) legacy_retryable f x)"

definition legacy_uaid_key :: "'x dynamo_storage \<Rightarrow> uuid \<Rightarrow> ddb_item" where
  "legacy_uaid_key S uaid = [(''uaid'', AttrS (uuid_simple (dy_uuid S) uaid))]"

definition legacy_chid_key :: "'x dynamo_storage \<Rightarrow> uuid \<Rightarrow> string \<Rightarrow> ddb_item" where
  "legacy_chid_key S uaid k =
     [(''uaid'', AttrS (uuid_simple (dy_uuid S) uaid)), (''chidmessageid'', AttrS k)]"

definition legacy_has_connected_this_month :: "'x sys \<Rightarrow> dynamo_db_user \<Rightarrow> 'x \<Rightarrow> bool \<times> 'x" where
  "legacy_has_connected_this_month sys user x =
     (case du_last_connect user of
        None \<Rightarrow> (False, x)
      | Some v \<Rightarrow> (let (pat, x') = sys_year_month sys x in (starts_with pat (show_u64 v), x')))"

definition legacy_query ::
  "'x dynamo_storage \<Rightarrow> string \<Rightarrow> uuid \<Rightarrow> string \<Rightarrow> string \<Rightarrow> nat \<Rightarrow> (notification_record list, 'x) apc_op" where
  "legacy_query S table_name uaid condition range_key limit x =
     andThen
       (legacy_call S ApcMessageFetch (dl_query (dy_ddb S)
         \<lparr>qi_table = table_name, qi_key_condition = condition,
          qi_values = [('':uaid'', AttrS (uuid_simple (dy_uuid S) uaid)), ('':cmi'', AttrS range_key)],
          qi_limit = limit\<rparr>) x)
       (\<lambda>items x1.
         (Inr (case items of None \<Rightarrow> [] | Some is \<Rightarrow> List.map_filter (\<lambda>i. ok_of (record_from_item (dy_uuid S) i)) is), x1))"

definition legacy_into_notifs :: "'x dynamo_storage \<Rightarrow> notification_record list \<Rightarrow> notification list" where
  "legacy_into_notifs S rs = List.map_filter (\<lambda>r. ok_of (into_notif (dy_uuid S) (dy_regex S) r)) rs"

definition legacy_fetch_topic_messages ::
  "'x dynamo_storage \<Rightarrow> string \<Rightarrow> uuid \<Rightarrow> nat \<Rightarrow> (fetch_message_response, 'x) apc_op" where
  "legacy_fetch_topic_messages S table_name uaid limit x =
     andThen (legacy_query S table_name uaid ''uaid = :uaid AND chidmessageid < :cmi'' ''02'' limit x) (\<lambda>notifs x1.
       (case notifs of
          [] \<Rightarrow> (Inr fetch_default, x1)
        | first # rest \<Rightarrow>
            (Inr \<lparr>fm_timestamp = nr_current_timestamp first, fm_messages = legacy_into_notifs S rest\<rparr>, x1)))"

definition legacy_fetch_timestamp_messages ::
  "'x dynamo_storage \<Rightarrow> string \<Rightarrow> uuid \<Rightarrow> u64 option \<Rightarrow> nat \<Rightarrow> (fetch_message_response, 'x) apc_op" where
  "legacy_fetch_timestamp_messages S table_name uaid timestamp limit x =
     (let range_key = (case timestamp of Some ts \<Rightarrow> ''02:'' @ show_u64 ts @ '':z'' | None \<Rightarrow> ''01;'') in
      andThen (legacy_query S table_name uaid ''uaid = :uaid AND chidmessageid > :cmi'' range_key limit x) (\<lambda>notifs x1.
        (let messages = legacy_into_notifs S notifs in
         (Inr \<lparr>fm_timestamp = opt_max (List.map_filter n_sortkey_timestamp messages), fm_messages = messages\<rparr>, x1))))"

definition legacy_drop_user :: "'x dynamo_storage \<Rightarrow> uuid \<Rightarrow> (unit, 'x) apc_op" where
  "legacy_drop_user S uaid x =
     legacy_call S (DatabaseError ''Error dropping user'')
       (dl_delete_item (dy_ddb S) (dy_router_table_name S) (legacy_uaid_key S uaid)) x"

definition legacy_get_uaid :: "'x dynamo_storage \<Rightarrow> uuid \<Rightarrow> (ddb_item option, 'x) apc_op" where
  "legacy_get_uaid S uaid x =
     legacy_call S (DatabaseError ''Error fetching user'')
       (dl_get_item (dy_ddb S) (dy_router_table_name S) (legacy_uaid_key S uaid)) x"

text \<open>The line breaks of the condition are spaces here.\<close>

definition REGISTER_USER_CONDITION :: string where
  "REGISTER_USER_CONDITION =
     ''( attribute_not_exists(router_type) or (router_type = :router_type) ) and '' @
     ''( attribute_not_exists(node_id) or (connected_at < :connected_at) )''"

definition legacy_register_user :: "'x dynamo_storage \<Rightarrow> dynamo_db_user \<Rightarrow> (unit, 'x) apc_op" where
  "legacy_register_user S user x =
     legacy_call S (DatabaseError ''Error registering user'') (dl_put_item (dy_ddb S)
       \<lparr>pi_table = dy_router_table_name S, pi_item = dynamo_db_user_to_item (dy_uuid S) user,
        pi_values = [('':router_type'', AttrS (du_router_type user)), ('':connected_at'', attr_n (du_connected_at user))],
        pi_condition = Some REGISTER_USER_CONDITION\<rparr>) x"

definition legacy_update :: "'x dynamo_storage \<Rightarrow> apc_error \<Rightarrow> update_input \<Rightarrow> (unit, 'x) apc_op" where
  "legacy_update S err inp x =
     andThen (legacy_call S err (dl_update_item (dy_ddb S) inp) x) (\<lambda>_ x1. (Inr (), x1))"

definition update_user_message_month :: "'x dynamo_storage \<Rightarrow> uuid \<Rightarrow> string \<Rightarrow> (unit, 'x) apc_op" where
  "update_user_message_month S uaid message_month x =
     (let (last_connect, x1) = sys_last_connect (dy_sys S) x in
      legacy_update S (DatabaseError ''Error updating user message month'')
        \<lparr>ui_table = dy_router_table_name S, ui_key = legacy_uaid_key S uaid,
         ui_update = ''SET current_month=:curmonth, last_connect=:lastconnect'',
         ui_values = [('':curmonth'', AttrS message_month), ('':lastconnect'', attr_n last_connect)],
         ui_condition = None, ui_return_values = None\<rparr> x1)"

text \<open>Channels that cannot be read are taken for none.\<close>

definition all_channels :: "'x dynamo_storage \<Rightarrow> uuid \<Rightarrow> string \<Rightarrow> 'x \<Rightarrow> string list \<times> 'x" where
  "all_channels S uaid message_table_name x =
     (case legacy_call S ApcMessageFetch (dl_get_item (dy_ddb S) message_table_name (legacy_chid_key S uaid '' '')) x of
        (Inl _, x1) \<Rightarrow> ([], x1)
      | (Inr None, x1) \<Rightarrow> ([], x1)
      | (Inr (Some i), x1) \<Rightarrow>
          (case Option.bind (ok_of (record_from_item (dy_uuid S) i)) nr_chids of
             None \<Rightarrow> ([], x1)
           | Some chids \<Rightarrow> (remdups chids, x1)))"

definition save_channels :: "'x dynamo_storage \<Rightarrow> uuid \<Rightarrow> string list \<Rightarrow> string \<Rightarrow> (unit, 'x) apc_op" where
  "save_channels S uaid channels message_table_name x =
     (let (now, x1) = sys_now_sec (dy_sys S) x in
      legacy_update S (DatabaseError ''Error saving channels'')
        \<lparr>ui_table = message_table_name, ui_key = legacy_chid_key S uaid '' '',
         ui_update = ''ADD chids :chids SET expiry=:expiry'',
         ui_values = [('':chids'', AttrSS channels), ('':expiry'', attr_n (now + 2 * MAX_EXPIRY))],
         ui_condition = None, ui_return_values = None\<rparr> x1)"

definition unregister_channel_id :: "'x dynamo_storage \<Rightarrow> uuid \<Rightarrow> uuid \<Rightarrow> string \<Rightarrow> (unit, 'x) apc_op" where
  "unregister_channel_id S uaid channel_id message_table_name x =
     legacy_update S (DatabaseError ''Error unregistering channel'')
       \<lparr>ui_table = message_table_name, ui_key = legacy_chid_key S uaid '' '',
        ui_update = ''DELETE chids :channel_id'',
        ui_values = [('':channel_id'', AttrSS [uuid_hyphenated (dy_uuid S) channel_id])],
        ui_condition = None, ui_return_values = None\<rparr> x"

text \<open>
  \<open>handle_user_result\<close>: the record found, made ready for this connection, or the reason to make a
  new one: whether to drop the record, and a code. The reply is filled in on the way.
\<close>

definition handle_user_result ::
  "'x dynamo_storage \<Rightarrow> u64 \<Rightarrow> string \<Rightarrow> ddb_item option \<Rightarrow> hello_response \<Rightarrow> 'x \<Rightarrow>
     (bool \<times> nat + dynamo_db_user) \<times> hello_response \<times> 'x" where
  "handle_user_result S connected_at router_url item h x =
     (case item of
        None \<Rightarrow> (Inl (False, 104), h, x)
      | Some i \<Rightarrow>
          (case dynamo_db_user_from_item (dy_uuid S) i of
             Inl _ \<Rightarrow> (Inl (True, 104), h, x)
           | Inr user \<Rightarrow>
               (case du_current_month user of
                  None \<Rightarrow> (Inl (True, 104), h, x)
                | Some user_month \<Rightarrow>
                    if user_month \<notin> set (dy_message_table_names S) then (Inl (True, 105), h, x)
                    else
                      (let h' = h\<lparr>he_check_storage := True,
                            he_rotate_message_table := user_month \<noteq> dy_current_message_month S,
                            he_message_month := user_month,
                            he_old_record_version := (case du_record_version user of
                               None \<Rightarrow> True | Some rec_ver \<Rightarrow> rec_ver < LEGACY_USER_RECORD_VERSION)\<rparr>;
                           (this_month, x1) = legacy_has_connected_this_month (dy_sys S) user x;
                           (last_connect, x2) = (if this_month then (None, x1)
                             else (let (lc, x2) = sys_last_connect (dy_sys S) x1 in (Some lc, x2)))
                       in (Inr (user\<lparr>du_last_connect := last_connect, du_node_id := Some router_url,
                                    du_connected_at := connected_at\<rparr>), h', x2)))))"

definition lookup_user ::
  "'x dynamo_storage \<Rightarrow> uuid \<Rightarrow> u64 \<Rightarrow> string \<Rightarrow> (hello_response \<times> dynamo_db_user option, 'x) apc_op" where
  "lookup_user S uaid connected_at router_url x =
     andThen (legacy_get_uaid S uaid x) (\<lambda>item x1.
       (case handle_user_result S connected_at router_url item
               (hello_response_new (dy_current_message_month S) connected_at) x1 of
          (Inr user, h, x2) \<Rightarrow> (Inr (h, Some user), x2)
        | (Inl (False, _), h, x2) \<Rightarrow> (Inr (h, None), x2)
        | (Inl (True, _), h, x2) \<Rightarrow>
            andThen (mapErr (\<lambda>_. DatabaseError ''Unable to drop user'') (legacy_drop_user S uaid x2))
              (\<lambda>_ x3. (Inr (h, None), x3))))"

section \<open>The storage\<close>

definition legacy_increment_storage :: "'x dynamo_storage \<Rightarrow> string \<Rightarrow> uuid \<Rightarrow> u64 \<Rightarrow> (unit, 'x) apc_op" where
  "legacy_increment_storage S table_name uaid timestamp x =
     (let (now, x1) = sys_now_sec (dy_sys S) x;
          (r, x2) = retry_if (dy_max_retries S) legacy_retryable (dl_update_item (dy_ddb S)
            \<lparr>ui_table = table_name, ui_key = legacy_chid_key S uaid '' '',
             ui_update = ''SET current_timestamp=:timestamp, expiry=:expiry'',
             ui_values = [('':timestamp'', attr_n timestamp), ('':expiry'', attr_n (now + 2 * MAX_EXPIRY))],
             ui_condition = None, ui_return_values = None\<rparr>) x1
      in (case r of Inl e \<Rightarrow> (Inl (DatabaseError (ddb_error_text e)), x2) | Inr _ \<Rightarrow> (Inr (), x2)))"

text \<open>The user found, or a new one, is registered now or kept for later; a registration that is
  refused or fails is a reply without a uaid.\<close>

definition legacy_hello ::
  "'x dynamo_storage \<Rightarrow> u64 \<Rightarrow> uuid option \<Rightarrow> string \<Rightarrow> bool \<Rightarrow> (hello_response, 'x) apc_op" where
  "legacy_hello S connected_at uaid router_url defer_registration x =
     andThen
       (case uaid of
          Some uaid \<Rightarrow> lookup_user S uaid connected_at router_url x
        | None \<Rightarrow> (Inr (hello_response_new (dy_current_message_month S) connected_at, None), x))
       (\<lambda>(h, user_opt) x1.
         (let (user, x2) = (case user_opt of
                Some user \<Rightarrow> (user, x1)
              | None \<Rightarrow> (let (u, x2) = dynamo_db_user_default (dy_sys S) x1 in
                  (u\<lparr>du_current_month := Some (he_message_month h), du_node_id := Some router_url,
                    du_connected_at := connected_at\<rparr>, x2)))
          in if \<not> defer_registration
             then (case legacy_register_user S user x2 of
                     (Inr _, x3) \<Rightarrow> (Inr (h\<lparr>he_uaid := Some (du_uaid user)\<rparr>), x3)
                   | (Inl _, x3) \<Rightarrow> (Inr (h\<lparr>he_connected_at := connected_at\<rparr>), x3))
             else (Inr (h\<lparr>he_uaid := Some (du_uaid user), he_deferred_user_registration := Some user\<rparr>), x2)))"

definition legacy_register_channel ::
  "'x dynamo_storage \<Rightarrow> uuid \<Rightarrow> uuid \<Rightarrow> string \<Rightarrow> string \<Rightarrow> dynamo_db_user option \<Rightarrow> (register_response, 'x) apc_op" where
  "legacy_register_channel S uaid channel_id message_month endpoint register_user x =
     (let chids = [uuid_hyphenated (dy_uuid S) channel_id];
          save = (\<lambda>x1. case save_channels S uaid chids message_month x1 of
             (Inr _, x2) \<Rightarrow> (Inr (RegisterSuccess endpoint), x2)
           | (Inl _, x2) \<Rightarrow> (Inr (RegisterError ''Failed to register channel'' 503), x2))
      in case register_user of
           Some user \<Rightarrow> andThen (legacy_register_user S user x) (\<lambda>_ x1. save x1)
         | None \<Rightarrow> save x)"

definition legacy_drop_uaid :: "'x dynamo_storage \<Rightarrow> uuid \<Rightarrow> (unit, 'x) apc_op" where
  "legacy_drop_uaid S uaid x = mapErr (\<lambda>_. DatabaseError ''Unable to drop user record'') (legacy_drop_user S uaid x)"

definition legacy_unregister_channel :: "'x dynamo_storage \<Rightarrow> uuid \<Rightarrow> uuid \<Rightarrow> string \<Rightarrow> (bool, 'x) apc_op" where
  "legacy_unregister_channel S uaid channel_id message_month x =
     (case unregister_channel_id S uaid channel_id message_month x of
        (Inr _, x1) \<Rightarrow> (Inr True, x1)
      | (Inl _, x1) \<Rightarrow> (Inr False, x1))"

definition legacy_migrate_user :: "'x dynamo_storage \<Rightarrow> uuid \<Rightarrow> string \<Rightarrow> (unit, 'x) apc_op" where
  "legacy_migrate_user S uaid message_month x =
     mapErr (\<lambda>_. DatabaseError ''Unable to migrate user'')
       (let (channels, x1) = all_channels S uaid message_month x in
        andThen
          (if channels = [] then (Inr (), x1) else save_channels S uaid channels (dy_current_message_month S) x1)
          (\<lambda>_ x2. update_user_message_month S uaid (dy_current_message_month S) x2))"

definition legacy_store_message :: "'x dynamo_storage \<Rightarrow> uuid \<Rightarrow> string \<Rightarrow> notification \<Rightarrow> (unit, 'x) apc_op" where
  "legacy_store_message S uaid message_month message x =
     (let (r, x1) = dynamo_db_notification_from_notif (dy_uuid S) (dy_sys S) uaid message x in
      legacy_call S (DatabaseError ''Error saving notification'') (dl_put_item (dy_ddb S)
        \<lparr>pi_table = message_month, pi_item = record_to_item (dy_uuid S) r, pi_values = [], pi_condition = None\<rparr>) x1)"

fun legacy_from_notifs :: "'x dynamo_storage \<Rightarrow> uuid \<Rightarrow> notification list \<Rightarrow> 'x \<Rightarrow> notification_record list \<times> 'x" where
  "legacy_from_notifs S uaid [] x = ([], x)"
| "legacy_from_notifs S uaid (n # ns) x =
     (let (r, x1) = dynamo_db_notification_from_notif (dy_uuid S) (dy_sys S) uaid n x;
          (rs, x2) = legacy_from_notifs S uaid ns x1
      in (r # rs, x2))"

definition legacy_store_messages :: "'x dynamo_storage \<Rightarrow> uuid \<Rightarrow> string \<Rightarrow> notification list \<Rightarrow> (unit, 'x) apc_op" where
  "legacy_store_messages S uaid message_month messages x =
     (let (rs, x1) = legacy_from_notifs S uaid messages x in
      legacy_call S (DatabaseError ''Error saving notifications'') (dl_batch_write_item (dy_ddb S)
        [(message_month, map (record_to_item (dy_uuid S)) rs)]) x1)"

definition legacy_delete_message :: "'x dynamo_storage \<Rightarrow> string \<Rightarrow> uuid \<Rightarrow> notification \<Rightarrow> (unit, 'x) apc_op" where
  "legacy_delete_message S table_name uaid notif x =
     (let (k, x1) = chidmessageid (dy_uuid S) (dy_sys S) notif x in
      legacy_call S (DatabaseError ''Error deleting notification'')
        (dl_delete_item (dy_ddb S) table_name (legacy_chid_key S uaid k)) x1)"

definition legacy_check_storage ::
  "'x dynamo_storage \<Rightarrow> string \<Rightarrow> uuid \<Rightarrow> bool \<Rightarrow> u64 option \<Rightarrow> (check_storage_response, 'x) apc_op" where
  "legacy_check_storage S table_name uaid include_topic timestamp x =
     andThen
       (if include_topic then legacy_fetch_topic_messages S table_name uaid 11 x else (Inr fetch_default, x))
       (\<lambda>resp x1.
         if fm_messages resp \<noteq> []
         then (Inr \<lparr>cs_include_topic = True, cs_messages = fm_messages resp, cs_timestamp = fm_timestamp resp\<rparr>, x1)
         else
           (let timestamp = (if include_topic then fm_timestamp resp else timestamp) in
            andThen
              (if fm_messages resp = [] \<or> fm_timestamp resp \<noteq> None
               then legacy_fetch_timestamp_messages S table_name uaid timestamp 10 x1
               else (Inr fetch_default, x1))
              (\<lambda>resp x2.
                (Inr \<lparr>cs_include_topic = False, cs_messages = fm_messages resp,
                      cs_timestamp = opt_or (fm_timestamp resp) timestamp\<rparr>, x2))))"

definition legacy_get_user :: "'x dynamo_storage \<Rightarrow> uuid \<Rightarrow> (dynamo_db_user option, 'x) apc_op" where
  "legacy_get_user S uaid x =
     andThen (legacy_get_uaid S uaid x) (\<lambda>item x1.
       (case item of
          None \<Rightarrow> (Inr None, x1)
        | Some i \<Rightarrow>
            (case dynamo_db_user_from_item (dy_uuid S) i of
               Inl _ \<Rightarrow> (Inl (DatabaseError ''Error deserializing''), x1)
             | Inr u \<Rightarrow> (Inr (Some u), x1))))"

fun parse_all :: "('a \<Rightarrow> 'b option) \<Rightarrow> 'a list \<Rightarrow> 'b list option" where
  "parse_all f [] = Some []"
| "parse_all f (a # as) = (case f a of None \<Rightarrow> None | Some b \<Rightarrow> map_option ((#) b) (parse_all f as))"

definition legacy_get_user_channels :: "'x dynamo_storage \<Rightarrow> uuid \<Rightarrow> string \<Rightarrow> (uuid list, 'x) apc_op" where
  "legacy_get_user_channels S uaid table_name x =
     (let (channels, x1) = all_channels S uaid table_name x in
      (case parse_all (uuid_parse (dy_uuid S)) channels of
         None \<Rightarrow> (Inl ApcUuidError, x1)
       | Some cs \<Rightarrow> (Inr (remdups cs), x1)))"

definition legacy_remove_node_id :: "'x dynamo_storage \<Rightarrow> uuid \<Rightarrow> string \<Rightarrow> u64 \<Rightarrow> (unit, 'x) apc_op" where
  "legacy_remove_node_id S uaid node_id connected_at x =
     legacy_update S (DatabaseError ''Error removing node ID'')
       \<lparr>ui_table = dy_router_table_name S, ui_key = legacy_uaid_key S uaid, ui_update = ''REMOVE node_id'',
        ui_values = [('':node'', AttrS node_id), ('':conn'', attr_n connected_at)],
        ui_condition = Some ''(node_id = :node) and (connected_at = :conn)'', ui_return_values = None\<rparr> x"

section \<open>Message tables\<close>

text \<open>The tables are read page by page while the service names a next page.\<close>

partial_function (option) list_tables_loop ::
  "'x ddb_lib \<Rightarrow> string option \<Rightarrow> string list \<Rightarrow> 'x \<Rightarrow> ((ddb_error + string list) \<times> 'x) option" where
  "list_tables_loop L start_key names x =
     (case dl_list_tables L start_key (Some 100) x of
        (Inl e, x1) \<Rightarrow> Some (Inl e, x1)
      | (Inr (table_names, last_evaluated), x1) \<Rightarrow>
          (let names = names @ (case table_names of None \<Rightarrow> [] | Some ns \<Rightarrow> ns) in
           case last_evaluated of
             None \<Rightarrow> Some (Inr names, x1)
           | Some k \<Rightarrow> list_tables_loop L (Some k) names x1))"

definition list_message_tables :: "'x ddb_lib \<Rightarrow> string \<Rightarrow> 'x \<Rightarrow> ((apc_error + string list) \<times> 'x) option" where
  "list_message_tables L table_prefix x =
     (case list_tables_loop L None [] x of
        None \<Rightarrow> None
      | Some (Inl e, x1) \<Rightarrow> Some (Inl (DatabaseError ''Unable to list tables''), x1)
      | Some (Inr names, x1) \<Rightarrow> Some (Inr (filter (starts_with table_prefix) names), x1))"

text \<open>The last three tables by name, oldest first, and the newest, which is the current month.\<close>

definition valid_message_tables :: "string list \<Rightarrow> string list" where
  "valid_message_tables names = rev (take 3 (rev (sort names)))"

definition dynamo_storage_from_settings ::
  "'x ddb_lib \<Rightarrow> nat \<Rightarrow> uuid_lib \<Rightarrow> regex_set \<Rightarrow> 'x sys \<Rightarrow> string \<Rightarrow> string \<Rightarrow> 'x \<Rightarrow>
     ((apc_error + 'x dynamo_storage) \<times> 'x) option" where
  "dynamo_storage_from_settings L retries lib re sys message_table_name router_table_name x =
     (case list_message_tables L message_table_name x of
        None \<Rightarrow> None
      | Some (Inl _, x1) \<Rightarrow> Some (Inl (DatabaseError ''Failed to locate message tables''), x1)
      | Some (Inr names, x1) \<Rightarrow>
          (let message_table_names = valid_message_tables names in
           if message_table_names = [] then Some (Inl (GeneralError ''No last message month found''), x1)
           else Some (Inr \<lparr>dy_ddb = L, dy_router_table_name = router_table_name,
             dy_message_table_names = message_table_names,
             dy_current_message_month = last message_table_names, dy_max_retries = retries,
             dy_uuid = lib, dy_regex = re, dy_sys = sys\<rparr>, x1)))"

end
