(* ===== verification/LegacyClient.thy ===== *)
theory LegacyClient
  imports LegacyDb ClientMsg
begin

text \<open>
  The sessions of the older connection server: \<open>autopush/src/client.rs\<close> and the registry
  \<open>autopush/src/server/registry.rs\<close>, with the broadcast functions of \<open>server/mod.rs\<close>. Both state
  machines of the source are datatypes with its states; a poll function is a step that is not
  ready, moves on, or fails. The messages are those of \<open>Protocol\<close>, whose enums this server copies.
\<close>

section \<open>Futures\<close>

text \<open>
  A poll may find its future not ready (\<open>None\<close>). A future made of an operation is ready when the
  executor says so, and then the operation has run. A spawned future runs at once and its
  result is dropped.
\<close>

type_synonym ('a, 'x) future = "'x \<Rightarrow> (apc_error, 'a option, 'x) outcome"

definition try_ready :: "('e, 'a option, 's) outcome \<Rightarrow> ('a \<Rightarrow> 's \<Rightarrow> ('e, 'b option, 's) outcome) \<Rightarrow>
    ('e, 'b option, 's) outcome" where
  "try_ready r k = andThen r (\<lambda>v s. case v of None \<Rightarrow> (Inr None, s) | Some a \<Rightarrow> k a s)"

lemma try_ready_simps [simp]:
  "try_ready (Inl e, s) k = (Inl e, s)" "try_ready (Inr None, s) k = (Inr None, s)"
  "try_ready (Inr (Some a), s) k = k a s"
  by (simp_all add: try_ready_def)

definition future_of :: "('x \<Rightarrow> bool \<times> 'x) \<Rightarrow> ('a, 'x) apc_op \<Rightarrow> ('a, 'x) future" where
  "future_of ready op x =
     (let (b, x1) = ready x in
      if b then andThen (op x1) (\<lambda>v x2. (Inr (Some v), x2)) else (Inr None, x1))"

section \<open>The registry\<close>

definition legacy_clients_connect ::
  "'x chan_lib \<Rightarrow> registered_client \<Rightarrow> client_registry \<times> 'x \<Rightarrow> client_registry \<times> 'x" where
  "legacy_clients_connect ch client s =
     (let (clients, x) = s; clients' = clients(rc_uaid client \<mapsto> client) in
      case clients (rc_uaid client) of
        Some old \<Rightarrow> (let (_, x1) = ch_send ch (rc_tx old) Disconnect x in (clients', x1))
      | None \<Rightarrow> (clients', x))"

definition legacy_clients_notify ::
  "'x chan_lib \<Rightarrow> uuid \<Rightarrow> notification \<Rightarrow> client_registry \<times> 'x \<Rightarrow> (apc_error, unit, client_registry \<times> 'x) outcome" where
  "legacy_clients_notify ch uaid n s =
     (let (clients, x) = s in
      case clients uaid of
        None \<Rightarrow> (Inl user_not_connected, s)
      | Some client \<Rightarrow>
          (let (ok, x1) = ch_send ch (rc_tx client) (DirectNotification n) x in
           (if ok then Inr () else Inl user_not_connected, clients, x1)))"

definition legacy_clients_check_storage ::
  "'x chan_lib \<Rightarrow> uuid \<Rightarrow> client_registry \<times> 'x \<Rightarrow> (apc_error, unit, client_registry \<times> 'x) outcome" where
  "legacy_clients_check_storage ch uaid s =
     (let (clients, x) = s in
      case clients uaid of
        None \<Rightarrow> (Inl user_not_connected, s)
      | Some client \<Rightarrow>
          (let (ok, x1) = ch_send ch (rc_tx client) CheckStorage x in
           (if ok then Inr () else Inl user_not_connected, clients, x1)))"

definition legacy_clients_disconnect ::
  "uuid \<Rightarrow> uuid \<Rightarrow> client_registry \<times> 'x \<Rightarrow> (apc_error, unit, client_registry \<times> 'x) outcome" where
  "legacy_clients_disconnect uaid uid s =
     (let (clients, x) = s;
          client_exists = (case clients uaid of None \<Rightarrow> False | Some client \<Rightarrow> rc_uid client = uid)
      in if client_exists then (Inr (), clients(uaid := None), x) else (Inl user_not_connected, s))"

section \<open>Data\<close>

record legacy_flags =
  lf_include_topic :: bool
  lf_increment_storage :: bool
  lf_check :: bool
  lf_old_record_version :: bool
  lf_rotate_message_table :: bool

definition legacy_flags_new :: legacy_flags where
  "legacy_flags_new =
     \<lparr>lf_include_topic = True, lf_increment_storage = False, lf_check = False, lf_old_record_version = False,
      lf_rotate_message_table = False\<rparr>"

record legacy_statistics =
  ls_uaid :: string
  ls_uaid_reset :: bool
  ls_existing_uaid :: bool
  ls_connection_type :: string
  ls_direct_acked :: i32
  ls_direct_storage :: i32
  ls_stored_retrieved :: i32
  ls_stored_acked :: i32
  ls_nacks :: i32
  ls_unregisters :: i32
  ls_registers :: i32

record legacy_client =
  lw_uaid :: uuid
  lw_uid :: uuid
  lw_rx :: nat
  lw_flags :: legacy_flags
  lw_message_month :: string
  lw_direct :: "notification list"
  lw_stored :: "notification list"
  lw_highest :: "u64 option"
  lw_connected_at :: u64
  lw_sent_from_storage :: u32
  lw_last_ping :: u64
  lw_stats :: legacy_statistics
  lw_deferred_user_registration :: "dynamo_db_user option"
  lw_ua_info :: user_agent_info

definition unacked_messages :: "legacy_client \<Rightarrow> bool" where
  "unacked_messages w \<longleftrightarrow> lw_stored w \<noteq> [] \<or> lw_direct w \<noteq> []"

abbreviation upd_lf :: "(legacy_flags \<Rightarrow> legacy_flags) \<Rightarrow> legacy_client \<Rightarrow> legacy_client" where
  "upd_lf f w \<equiv> w\<lparr>lw_flags := f (lw_flags w)\<rparr>"

abbreviation upd_ls :: "(legacy_statistics \<Rightarrow> legacy_statistics) \<Rightarrow> legacy_client \<Rightarrow> legacy_client" where
  "upd_ls f w \<equiv> w\<lparr>lw_stats := f (lw_stats w)\<rparr>"

text \<open>
  The server with what lies outside: the executor, the channel receivers, the client of
  \<open>reqwest\<close>. The registry and the tracker are shared with other sessions, so they are in the world.
\<close>

record ('u, 'x) legacy_server =
  sv_ddb :: "'x dynamo_storage"
  sv_endpoint :: "('u, 'x) endpoint_lib"
  sv_router_url :: string
  sv_endpoint_url :: string
  sv_msg_limit :: u32
  sv_chan :: "'x chan_lib"
  sv_rx_poll :: "nat \<Rightarrow> 'x \<Rightarrow> (unit + server_notification option option) \<times> 'x"
  sv_clients :: "'x \<Rightarrow> client_registry"
  sv_set_clients :: "client_registry \<Rightarrow> 'x \<Rightarrow> 'x"
  sv_broadcaster :: "'x \<Rightarrow> broadcast_tracker"
  sv_ready :: "'x \<Rightarrow> bool \<times> 'x"
  sv_http_client :: "'x \<Rightarrow> bool \<times> 'x"
  sv_http_put :: "string \<Rightarrow> 'x \<Rightarrow> (string + unit) \<times> 'x"
  sv_ua_parser :: "string \<Rightarrow> woothee_result option"
  sv_ua_default :: woothee_result

text \<open>The websocket, and the timer of the handshake.\<close>

record 'x legacy_ws =
  lws_poll :: "(client_message option, 'x) future"
  lws_start_send :: "server_message \<Rightarrow> (bool, 'x) apc_op"
  lws_poll_complete :: "(unit, 'x) future"
  lws_timeout :: "(unit, 'x) future"

record auth_data =
  ad_webpush :: legacy_client
  ad_broadcast_subs :: broadcast_subs

abbreviation upd_wp :: "(legacy_client \<Rightarrow> legacy_client) \<Rightarrow> auth_data \<Rightarrow> auth_data" where
  "upd_wp f d \<equiv> d\<lparr>ad_webpush := f (ad_webpush d)\<rparr>"

text \<open>An operation on the world under a session's data.\<close>

definition on_world :: "('e, 'a, 'x) outcome \<Rightarrow> 'd \<Rightarrow> ('e, 'a, 'd \<times> 'x) outcome" where
  "on_world r d = (fst r, d, snd r)"

lemma on_world_simps [simp]: "on_world (r, x) d = (r, d, x)"
  by (simp add: on_world_def)

definition at_registry :: "('u, 'x) legacy_server \<Rightarrow>
    (client_registry \<times> 'x \<Rightarrow> (apc_error, 'a, client_registry \<times> 'x) outcome) \<Rightarrow> ('a, 'x) apc_op" where
  "at_registry A f x = (case f (sv_clients A x, x) of (r, clients, x1) \<Rightarrow> (r, sv_set_clients A clients x1))"

section \<open>Broadcasts\<close>

definition legacy_broadcast_init ::
  "broadcast_tracker \<Rightarrow> broadcast list \<Rightarrow> broadcast_subs \<times> (string, broadcast_value) hashmap" where
  "legacy_broadcast_init bc desired_broadcasts =
     (let (subs, broadcasts) = broadcast_delta bc desired_broadcasts;
          response = vec_into_hashmap broadcasts;
          missing = missing_broadcasts bc desired_broadcasts
      in (subs, if missing \<noteq> [] then hm_insert ''errors'' (BNested (vec_into_hashmap missing)) response else response))"

definition process_broadcasts ::
  "broadcast_tracker \<Rightarrow> broadcast_subs \<Rightarrow> broadcast list \<Rightarrow>
     (string, broadcast_value) hashmap option \<times> broadcast_subs" where
  "process_broadcasts bc subs broadcasts =
     (let missing = missing_broadcasts bc broadcasts;
          response = (if missing \<noteq> [] then [(''errors'', BNested (vec_into_hashmap missing))] else []);
          (delta, subs') = subscribe_to_broadcasts bc subs broadcasts;
          response' = (case delta of None \<Rightarrow> response | Some d \<Rightarrow> hm_extend response (vec_into_hashmap d))
      in (if response' = [] then None else Some response', subs'))"

end
