(* ===== verification/LegacyAuth.thy ===== *)
theory LegacyAuth
  imports LegacyClient
begin

text \<open>
  The main state machine of the older server, \<open>AuthClientState\<close> of \<open>autopush/src/client.rs\<close>: one
  function for each of its poll functions, on the data of the session and the world.
\<close>

section \<open>States\<close>

datatype 'x auth_state =
    Send "server_message list"
  | AwaitSend "server_message list"
  | DetermineAck
  | AwaitInput
  | IncrementStorageState
  | AwaitIncrementStorage "(unit, 'x) future"
  | CheckStorageState
  | AwaitCheckStorage "(check_storage_response, 'x) future"
  | AwaitMigrateUser "(unit, 'x) future"
  | AwaitDropUser "(unit, 'x) future"
  | AwaitRegister uuid "(register_response, 'x) future"
  | AwaitUnregister uuid u32 "(bool, 'x) future"
  | AwaitDelete "(unit, 'x) future"
  | AuthDone

type_synonym 'x auth_after = "(apc_error, 'x auth_state option, auth_data \<times> 'x) outcome"

definition transition :: "'x auth_state \<Rightarrow> auth_data \<Rightarrow> 'x \<Rightarrow> 'x auth_after" where
  "transition st d x = (Inr (Some st), d, x)"

section \<open>Sending\<close>

definition poll_send :: "'x legacy_ws \<Rightarrow> server_message list \<Rightarrow> auth_data \<Rightarrow> 'x \<Rightarrow> 'x auth_after" where
  "poll_send W smessages d x =
     (case smessages of
        [] \<Rightarrow> transition DetermineAck d x
      | item # rest \<Rightarrow>
          (case lws_start_send W item x of
             (Inl _, x1) \<Rightarrow> (Inl ApcSendError, d, x1)
           | (Inr False, x1) \<Rightarrow> (Inr None, d, x1)
           | (Inr True, x1) \<Rightarrow> transition (AwaitSend rest) d x1))"

definition poll_await_send ::
  "('u, 'x) legacy_server \<Rightarrow> 'x legacy_ws \<Rightarrow> server_message list \<Rightarrow> auth_data \<Rightarrow> 'x \<Rightarrow> 'x auth_after" where
  "poll_await_send A W smessages d x =
     try_ready (on_world (lws_poll_complete W x) d) (\<lambda>_ (d, x1).
       if lw_sent_from_storage (ad_webpush d) > sv_msg_limit A
       then transition (AwaitDropUser (future_of (sv_ready A) (legacy_drop_uaid (sv_ddb A) (lw_uaid (ad_webpush d))))) d x1
       else if smessages \<noteq> [] then transition (Send smessages) d x1
       else transition DetermineAck d x1)"

section \<open>What to do when all is acknowledged\<close>

definition poll_determine_ack :: "('u, 'x) legacy_server \<Rightarrow> auth_data \<Rightarrow> 'x \<Rightarrow> 'x auth_after" where
  "poll_determine_ack A d x =
     (let w = ad_webpush d; flags = lw_flags w; all_acked = \<not> unacked_messages w in
      if all_acked \<and> lf_check flags \<and> lf_increment_storage flags then transition IncrementStorageState d x
      else if all_acked \<and> lf_check flags then transition CheckStorageState d x
      else if all_acked \<and> lf_rotate_message_table flags
      then transition (AwaitMigrateUser (future_of (sv_ready A)
        (legacy_migrate_user (sv_ddb A) (lw_uaid w) (lw_message_month w)))) d x
      else if all_acked \<and> lf_old_record_version flags
      then transition (AwaitDropUser (future_of (sv_ready A) (legacy_drop_uaid (sv_ddb A) (lw_uaid w)))) d x
      else transition AwaitInput d x)"

section \<open>Input\<close>

text \<open>Notifications come before messages of the client.\<close>

definition input_or_notif ::
  "('u, 'x) legacy_server \<Rightarrow> 'x legacy_ws \<Rightarrow> nat \<Rightarrow> (client_message + server_notification, 'x) future" where
  "input_or_notif A W rx x =
     (case sv_rx_poll A rx x of
        (Inl _, x1) \<Rightarrow> (Inl (GeneralError ''Unexpected error''), x1)
      | (Inr (Some (Some n)), x1) \<Rightarrow> (Inr (Some (Inr n)), x1)
      | (Inr (Some None), x1) \<Rightarrow> (Inl (GeneralError ''Sending side dropped''), x1)
      | (Inr None, x1) \<Rightarrow>
          (case lws_poll W x1 of
             (Inl e, x2) \<Rightarrow> (Inl e, x2)
           | (Inr (Some None), x2) \<Rightarrow> (Inl (GeneralError ''Client dropped''), x2)
           | (Inr (Some (Some msg)), x2) \<Rightarrow> (Inr (Some (Inl msg)), x2)
           | (Inr None, x2) \<Rightarrow> (Inr None, x2)))"

definition legacy_on_register ::
  "('u, 'x) legacy_server \<Rightarrow> string \<Rightarrow> string option \<Rightarrow> auth_data \<Rightarrow> 'x \<Rightarrow> 'x auth_after" where
  "legacy_on_register A channel_id_str key d x =
     (let w = ad_webpush d; lib = dy_uuid (sv_ddb A) in
      case uuid_parse lib channel_id_str of
        None \<Rightarrow> (Inl (ApcInvalidClientMessage (''Invalid channelID: '' @ channel_id_str)), d, x)
      | Some channel_id \<Rightarrow>
          if uuid_hyphenated lib channel_id \<noteq> channel_id_str
          then (Inl (ApcInvalidClientMessage (''Invalid UUID format, not lower-case/dashed: '' @
            uuid_hyphenated lib channel_id)), d, x)
          else
            (case make_endpoint lib (sv_endpoint A) (lw_uaid w) channel_id key (sv_endpoint_url A) x of
               (Inr endpoint, x1) \<Rightarrow>
                 transition (AwaitRegister channel_id (future_of (sv_ready A)
                   (legacy_register_channel (sv_ddb A) (lw_uaid w) channel_id (lw_message_month w) endpoint
                      (lw_deferred_user_registration w)))) d x1
             | (Inl _, x1) \<Rightarrow>
                 transition (AwaitRegister channel_id
                   (\<lambda>x. (Inr (Some (RegisterError ''Failed to generate endpoint'' 400)), x))) d x1))"

text \<open>The loop over the updates: the session it leaves and the messages to delete.\<close>

fun legacy_ack_updates :: "client_ack list \<Rightarrow> legacy_client \<Rightarrow> legacy_client \<times> notification list" where
  "legacy_ack_updates [] w = (w, [])"
| "legacy_ack_updates (u # updates) w =
     (case position (acks u) (lw_direct w) of
        Some pos \<Rightarrow>
          legacy_ack_updates updates
            (upd_ls (\<lambda>st. st\<lparr>ls_direct_acked := ls_direct_acked st + 1\<rparr>) (w\<lparr>lw_direct := remove_at pos (lw_direct w)\<rparr>))
      | None \<Rightarrow>
          (case position (acks u) (lw_stored w) of
             Some pos \<Rightarrow>
               (let n = lw_stored w ! pos;
                    (w', ns) = legacy_ack_updates updates
                      (upd_ls (\<lambda>st. st\<lparr>ls_stored_acked := ls_stored_acked st + 1\<rparr>) (w\<lparr>lw_stored := remove_at pos (lw_stored w)\<rparr>))
                in (w', if n_sortkey_timestamp n = None then n # ns else ns))
           | None \<Rightarrow> legacy_ack_updates updates w))"

fun legacy_delete_all :: "'x dynamo_storage \<Rightarrow> string \<Rightarrow> uuid \<Rightarrow> notification list \<Rightarrow> (unit, 'x) apc_op" where
  "legacy_delete_all S month uaid [] x = (Inr (), x)"
| "legacy_delete_all S month uaid (n # ns) x =
     andThen (legacy_delete_message S month uaid n x) (\<lambda>_ x1. legacy_delete_all S month uaid ns x1)"

definition legacy_on_ack :: "('u, 'x) legacy_server \<Rightarrow> client_ack list \<Rightarrow> auth_data \<Rightarrow> 'x \<Rightarrow> 'x auth_after" where
  "legacy_on_ack A updates d x =
     (let (w, ns) = legacy_ack_updates updates (ad_webpush d); d1 = d\<lparr>ad_webpush := w\<rparr> in
      if ns \<noteq> []
      then transition (AwaitDelete (future_of (sv_ready A)
        (legacy_delete_all (sv_ddb A) (lw_message_month w) (lw_uaid w) ns))) d1 x
      else transition DetermineAck d1 x)"

definition legacy_on_ping :: "('u, 'x) legacy_server \<Rightarrow> auth_data \<Rightarrow> 'x \<Rightarrow> 'x auth_after" where
  "legacy_on_ping A d x =
     (let (now, x1) = sys_now_sec (dy_sys (sv_ddb A)) x in
      if now - lw_last_ping (ad_webpush d) \<ge> 45
      then (let (now, x2) = sys_now_sec (dy_sys (sv_ddb A)) x1 in
        transition (Send [ServerPing]) (upd_wp (\<lambda>w. w\<lparr>lw_last_ping := now\<rparr>) d) x2)
      else (Inl ApcExcessivePing, d, x1))"

definition legacy_on_client_msg ::
  "('u, 'x) legacy_server \<Rightarrow> client_message \<Rightarrow> auth_data \<Rightarrow> 'x \<Rightarrow> 'x auth_after" where
  "legacy_on_client_msg A msg d x =
     (let w = ad_webpush d in
      case msg of
        ClientHello _ _ _ _ \<Rightarrow> (Inl (ApcInvalidStateTransition ''AwaitInput'' ''Hello''), d, x)
      | ClientBroadcastSubscribe broadcasts \<Rightarrow>
          (let (response, subs) = process_broadcasts (sv_broadcaster A x) (ad_broadcast_subs d) (from_hashmap broadcasts);
               d1 = d\<lparr>ad_broadcast_subs := subs\<rparr>
           in case response of
                Some response \<Rightarrow> transition (Send [ServerBroadcast response]) d1 x
              | None \<Rightarrow> transition AwaitInput d1 x)
      | ClientRegister channel_id_str key \<Rightarrow> legacy_on_register A channel_id_str key d x
      | ClientUnregister channel_id code \<Rightarrow>
          transition (AwaitUnregister channel_id (case code of None \<Rightarrow> 200 | Some c \<Rightarrow> c)
            (future_of (sv_ready A)
              (legacy_unregister_channel (sv_ddb A) (lw_uaid w) channel_id (lw_message_month w)))) d x
      | ClientNack code version \<Rightarrow>
          transition AwaitInput (upd_wp (upd_ls (\<lambda>st. st\<lparr>ls_nacks := ls_nacks st + 1\<rparr>)) d) x
      | ClientAcks updates \<Rightarrow> legacy_on_ack A updates d x
      | ClientPing \<Rightarrow> legacy_on_ping A d x)"

definition legacy_on_server_notif :: "server_notification \<Rightarrow> auth_data \<Rightarrow> 'x \<Rightarrow> 'x auth_after" where
  "legacy_on_server_notif snotif d x =
     (case snotif of
        DirectNotification n \<Rightarrow>
          transition (Send [ServerNotif n])
            (if n_ttl n \<noteq> 0 then upd_wp (\<lambda>w. w\<lparr>lw_direct := lw_direct w @ [n]\<rparr>) d else d) x
      | CheckStorage \<Rightarrow>
          transition DetermineAck (upd_wp (upd_lf (\<lambda>f. f\<lparr>lf_include_topic := True, lf_check := True\<rparr>)) d) x
      | Disconnect \<Rightarrow> (Inl ApcRepeatUaidDisconnect, d, x))"

definition poll_await_input :: "('u, 'x) legacy_server \<Rightarrow> 'x legacy_ws \<Rightarrow> auth_data \<Rightarrow> 'x \<Rightarrow> 'x auth_after" where
  "poll_await_input A W d x =
     try_ready (on_world (input_or_notif A W (lw_rx (ad_webpush d)) x) d) (\<lambda>input (d, x1).
       case input of
         Inl msg \<Rightarrow> legacy_on_client_msg A msg d x1
       | Inr snotif \<Rightarrow> legacy_on_server_notif snotif d x1)"

section \<open>Reading storage\<close>

definition unset_highest :: apc_error where
  "unset_highest = GeneralError ''unacked_stored_highest unset''"

definition poll_increment_storage :: "('u, 'x) legacy_server \<Rightarrow> auth_data \<Rightarrow> 'x \<Rightarrow> 'x auth_after" where
  "poll_increment_storage A d x =
     (let w = ad_webpush d in
      case lw_highest w of
        None \<Rightarrow> (Inl unset_highest, d, x)
      | Some timestamp \<Rightarrow>
          transition (AwaitIncrementStorage (future_of (sv_ready A)
            (legacy_increment_storage (sv_ddb A) (lw_message_month w) (lw_uaid w) timestamp))) d x)"

definition poll_await_increment_storage :: "(unit, 'x) future \<Rightarrow> auth_data \<Rightarrow> 'x \<Rightarrow> 'x auth_after" where
  "poll_await_increment_storage response d x =
     try_ready (on_world (response x) d) (\<lambda>_ (d, x1).
       transition DetermineAck (upd_wp (upd_lf (\<lambda>f. f\<lparr>lf_increment_storage := False\<rparr>)) d) x1)"

definition poll_check_storage :: "('u, 'x) legacy_server \<Rightarrow> auth_data \<Rightarrow> 'x \<Rightarrow> 'x auth_after" where
  "poll_check_storage A d x =
     (let w = ad_webpush d in
      transition (AwaitCheckStorage (future_of (sv_ready A)
        (legacy_check_storage (sv_ddb A) (lw_message_month w) (lw_uaid w) (lf_include_topic (lw_flags w))
          (lw_highest w)))) d x)"

text \<open>Expired messages that have no sort key are deleted; the others are left to the increment.\<close>

fun legacy_drop_expired :: "('u, 'x) legacy_server \<Rightarrow> legacy_client \<Rightarrow> u64 \<Rightarrow> notification list \<Rightarrow> 'x \<Rightarrow> notification list \<times> 'x" where
  "legacy_drop_expired A w now [] x = ([], x)"
| "legacy_drop_expired A w now (n # ns) x =
     (if \<not> expired n now then (let (kept, x1) = legacy_drop_expired A w now ns x in (n # kept, x1))
      else if n_sortkey_timestamp n = None
      then legacy_drop_expired A w now ns (snd (legacy_delete_message (sv_ddb A) (lw_message_month w) (lw_uaid w) n x))
      else legacy_drop_expired A w now ns x)"

definition poll_await_check_storage ::
  "('u, 'x) legacy_server \<Rightarrow> (check_storage_response, 'x) future \<Rightarrow> auth_data \<Rightarrow> 'x \<Rightarrow> 'x auth_after" where
  "poll_await_check_storage A response d x =
     try_ready (on_world (response x) d) (\<lambda>resp (d, x1).
       let d1 = upd_wp (\<lambda>w. upd_lf (\<lambda>f. f\<lparr>lf_include_topic := cs_include_topic resp\<rparr>) (w\<lparr>lw_highest := cs_timestamp resp\<rparr>)) d in
       if cs_messages resp = []
       then transition DetermineAck
         (upd_wp (\<lambda>w. upd_lf (\<lambda>f. f\<lparr>lf_check := False\<rparr>) (w\<lparr>lw_sent_from_storage := 0\<rparr>)) d1) x1
       else
         (let (now, x2) = sys_now_sec (dy_sys (sv_ddb A)) x1;
              (messages, x3) = legacy_drop_expired A (ad_webpush d1) now (cs_messages resp) x2;
              d2 = upd_wp (upd_lf (\<lambda>f. f\<lparr>lf_increment_storage := \<not> cs_include_topic resp \<and> cs_timestamp resp \<noteq> None\<rparr>)) d1
          in if messages \<noteq> []
             then transition (Send (map ServerNotif messages))
               (upd_wp (\<lambda>w. w\<lparr>lw_stored := lw_stored w @ messages,
                  lw_sent_from_storage := lw_sent_from_storage w + of_nat (length messages)\<rparr>) d2) x3
             else transition DetermineAck d2 x3))"

section \<open>Answers of the database\<close>

definition poll_await_migrate_user :: "('u, 'x) legacy_server \<Rightarrow> (unit, 'x) future \<Rightarrow> auth_data \<Rightarrow> 'x \<Rightarrow> 'x auth_after" where
  "poll_await_migrate_user A response d x =
     try_ready (on_world (response x) d) (\<lambda>_ (d, x1).
       transition DetermineAck
         (upd_wp (\<lambda>w. upd_lf (\<lambda>f. f\<lparr>lf_rotate_message_table := False\<rparr>)
           (w\<lparr>lw_message_month := dy_current_message_month (sv_ddb A)\<rparr>)) d) x1)"

definition poll_await_drop_user :: "(unit, 'x) future \<Rightarrow> auth_data \<Rightarrow> 'x \<Rightarrow> 'x auth_after" where
  "poll_await_drop_user response d x =
     try_ready (on_world (response x) d) (\<lambda>_ (d, x1). transition AuthDone d x1)"

definition poll_await_register :: "uuid \<Rightarrow> (register_response, 'x) future \<Rightarrow> auth_data \<Rightarrow> 'x \<Rightarrow> 'x auth_after" where
  "poll_await_register channel_id response d x =
     try_ready (on_world (response x) d) (\<lambda>resp (d, x1).
       let (d1, msg) = (case resp of
              RegisterSuccess endpoint \<Rightarrow>
                (upd_wp (upd_ls (\<lambda>st. st\<lparr>ls_registers := ls_registers st + 1\<rparr>)) d,
                 ServerRegister channel_id 200 endpoint)
            | RegisterError error_msg status \<Rightarrow> (d, ServerRegister channel_id status ''''))
       in transition (Send [msg]) (upd_wp (\<lambda>w. w\<lparr>lw_deferred_user_registration := None\<rparr>) d1) x1)"

definition poll_await_unregister :: "uuid \<Rightarrow> u32 \<Rightarrow> (bool, 'x) future \<Rightarrow> auth_data \<Rightarrow> 'x \<Rightarrow> 'x auth_after" where
  "poll_await_unregister channel_id code response d x =
     try_ready (on_world (response x) d) (\<lambda>ok (d, x1).
       if ok
       then transition (Send [ServerUnregister channel_id 200])
         (upd_wp (upd_ls (\<lambda>st. st\<lparr>ls_unregisters := ls_unregisters st + 1\<rparr>)) d) x1
       else transition (Send [ServerUnregister channel_id 500]) d x1)"

definition poll_await_delete :: "(unit, 'x) future \<Rightarrow> auth_data \<Rightarrow> 'x \<Rightarrow> 'x auth_after" where
  "poll_await_delete response d x =
     try_ready (on_world (response x) d) (\<lambda>_ (d, x1). transition DetermineAck d x1)"

text \<open>The poll of the state a session is in.\<close>

definition auth_poll ::
  "('u, 'x) legacy_server \<Rightarrow> 'x legacy_ws \<Rightarrow> 'x auth_state \<Rightarrow> auth_data \<Rightarrow> 'x \<Rightarrow> 'x auth_after" where
  "auth_poll A W st d x =
     (case st of
        Send smessages \<Rightarrow> poll_send W smessages d x
      | AwaitSend smessages \<Rightarrow> poll_await_send A W smessages d x
      | DetermineAck \<Rightarrow> poll_determine_ack A d x
      | AwaitInput \<Rightarrow> poll_await_input A W d x
      | IncrementStorageState \<Rightarrow> poll_increment_storage A d x
      | AwaitIncrementStorage response \<Rightarrow> poll_await_increment_storage response d x
      | CheckStorageState \<Rightarrow> poll_check_storage A d x
      | AwaitCheckStorage response \<Rightarrow> poll_await_check_storage A response d x
      | AwaitMigrateUser response \<Rightarrow> poll_await_migrate_user A response d x
      | AwaitDropUser response \<Rightarrow> poll_await_drop_user response d x
      | AwaitRegister channel_id response \<Rightarrow> poll_await_register channel_id response d x
      | AwaitUnregister channel_id code response \<Rightarrow> poll_await_unregister channel_id code response d x
      | AwaitDelete response \<Rightarrow> poll_await_delete response d x
      | AuthDone \<Rightarrow> (Inr None, d, x))"

end
