(* ===== verification/LegacySession.thy ===== *)
theory LegacySession
  imports LegacyAuth
begin

text \<open>
  The outer state machine of the older server, \<open>UnAuthClientState\<close> of \<open>autopush/src/client.rs\<close>:
  the handshake, the session, and what becomes of unacknowledged notifications at its end.
\<close>

section \<open>States\<close>

text \<open>The user agent and the channel of the session are carried along until the session starts.\<close>

datatype 'x unauth_state =
    AwaitHello string nat
  | AwaitProcessHello "(hello_response, 'x) future" string "broadcast list" nat
  | AwaitRegistryConnect "(server_message, 'x) future" auth_data
  | AwaitSessionComplete "'x auth_state" auth_data
  | AwaitRegistryDisconnect "(unit, 'x) future" auth_data "apc_error option"
  | UnAuthDone

type_synonym 'x unauth_after = "(apc_error, 'x unauth_state option, 'x) outcome"

text \<open>\<open>Client::new\<close>: the user agent is empty when the handshake did not deliver one.\<close>

definition legacy_client_start ::
  "('u, 'x) legacy_server \<Rightarrow> string option \<Rightarrow> 'x \<Rightarrow> 'x unauth_state \<times> 'x" where
  "legacy_client_start A uarx x =
     (let (tx, x1) = ch_unbounded (sv_chan A) x in
      (AwaitHello (case uarx of Some ua \<Rightarrow> ua | None \<Rightarrow> '''') tx, x1))"

section \<open>The handshake\<close>

definition input_with_timeout :: "'x legacy_ws \<Rightarrow> (client_message, 'x) future" where
  "input_with_timeout W x =
     (case lws_timeout W x of
        (Inl e, x1) \<Rightarrow> (Inl e, x1)
      | (Inr (Some _), x1) \<Rightarrow> (Inl (GeneralError ''Client timed out''), x1)
      | (Inr None, x1) \<Rightarrow>
          (case lws_poll W x1 of
             (Inl e, x2) \<Rightarrow> (Inl e, x2)
           | (Inr (Some None), x2) \<Rightarrow> (Inl (GeneralError ''Client dropped''), x2)
           | (Inr (Some (Some msg)), x2) \<Rightarrow> (Inr (Some msg), x2)
           | (Inr None, x2) \<Rightarrow> (Inr None, x2)))"

definition poll_await_hello ::
  "('u, 'x) legacy_server \<Rightarrow> 'x legacy_ws \<Rightarrow> string \<Rightarrow> nat \<Rightarrow> 'x \<Rightarrow> 'x unauth_after" where
  "poll_await_hello A W user_agent tx x =
     try_ready (input_with_timeout W x) (\<lambda>msg x1.
       case msg of
         ClientHello uaid _ (Some True) broadcasts \<Rightarrow>
           (let uaid = Option.bind uaid (uuid_parse (dy_uuid (sv_ddb A)));
                desired_broadcasts = from_hashmap (case broadcasts of None \<Rightarrow> [] | Some b \<Rightarrow> b);
                (connected_at, x2) = sys_now_ms (dy_sys (sv_ddb A)) x1
            in (Inr (Some (AwaitProcessHello
                  (future_of (sv_ready A) (legacy_hello (sv_ddb A) connected_at uaid (sv_router_url A) (uaid = None)))
                  user_agent desired_broadcasts tx)), x2))
       | _ \<Rightarrow> (Inl (BroadcastError ''Invalid message, must be hello''), x1))"

definition legacy_statistics_new :: "string \<Rightarrow> bool \<Rightarrow> bool \<Rightarrow> legacy_statistics" where
  "legacy_statistics_new uaid uaid_reset existing_uaid =
     \<lparr>ls_uaid = uaid, ls_uaid_reset = uaid_reset, ls_existing_uaid = existing_uaid, ls_connection_type = ''webpush'',
      ls_direct_acked = 0, ls_direct_storage = 0, ls_stored_retrieved = 0, ls_stored_acked = 0, ls_nacks = 0,
      ls_unregisters = 0, ls_registers = 0\<rparr>"

definition legacy_client_new ::
  "('u, 'x) legacy_server \<Rightarrow> hello_response \<Rightarrow> uuid \<Rightarrow> uuid \<Rightarrow> string \<Rightarrow> nat \<Rightarrow> legacy_client" where
  "legacy_client_new A h uaid uid user_agent rx =
     \<lparr>lw_uaid = uaid, lw_uid = uid, lw_rx = rx,
      lw_flags = legacy_flags_new\<lparr>lf_check := he_check_storage h, lf_old_record_version := he_old_record_version h,
        lf_rotate_message_table := he_rotate_message_table h\<rparr>,
      lw_message_month = he_message_month h, lw_direct = [], lw_stored = [], lw_highest = None,
      lw_connected_at = he_connected_at h, lw_sent_from_storage = 0, lw_last_ping = 0,
      lw_stats = legacy_statistics_new (uuid_simple (dy_uuid (sv_ddb A)) uaid) (he_old_record_version h) (he_check_storage h),
      lw_deferred_user_registration = he_deferred_user_registration h,
      lw_ua_info = user_agent_info_from (sv_ua_parser A) (sv_ua_default A) user_agent\<rparr>"

definition poll_await_process_hello ::
  "('u, 'x) legacy_server \<Rightarrow> (hello_response, 'x) future \<Rightarrow> string \<Rightarrow> broadcast list \<Rightarrow> nat \<Rightarrow> 'x \<Rightarrow> 'x unauth_after" where
  "poll_await_process_hello A response user_agent desired_broadcasts tx x =
     try_ready (response x) (\<lambda>h x1.
       case he_uaid h of
         None \<Rightarrow> (Inl (GeneralError ''Already connected elsewhere''), x1)
       | Some uaid \<Rightarrow>
           (let (subs, broadcasts) = legacy_broadcast_init (sv_broadcaster A x1) desired_broadcasts;
                (uid, x2) = sys_new_uuid (dy_sys (sv_ddb A)) x1;
                w = legacy_client_new A h uaid uid user_agent tx;
                connect = at_registry A (\<lambda>s. (Inr (ServerHello (uuid_simple (dy_uuid (sv_ddb A)) uaid) 200 (Some True) broadcasts),
                  legacy_clients_connect (sv_chan A) \<lparr>rc_uaid = uaid, rc_uid = uid, rc_tx = tx\<rparr> s))
            in (Inr (Some (AwaitRegistryConnect (future_of (sv_ready A) connect)
                  \<lparr>ad_webpush = w, ad_broadcast_subs = subs\<rparr>)), x2)))"

definition poll_await_registry_connect ::
  "(server_message, 'x) future \<Rightarrow> auth_data \<Rightarrow> 'x \<Rightarrow> 'x unauth_after" where
  "poll_await_registry_connect response d x =
     try_ready (response x) (\<lambda>hello_response x1. (Inr (Some (AwaitSessionComplete (Send [hello_response]) d)), x1))"

section \<open>The session\<close>

text \<open>These errors end a session in the ordinary way.\<close>

definition ordinary_end :: "apc_error \<Rightarrow> bool" where
  "ordinary_end e = (case e of
       ApcWs _ \<Rightarrow> True | ApcIo _ \<Rightarrow> True | ApcPongTimeout \<Rightarrow> True | ApcRepeatUaidDisconnect \<Rightarrow> True
     | ApcExcessivePing \<Rightarrow> True | ApcInvalidStateTransition _ _ \<Rightarrow> True | ApcInvalidClientMessage _ \<Rightarrow> True
     | ApcSendError \<Rightarrow> True | _ \<Rightarrow> False)"

text \<open>
  A poll of the session's own machine goes on from state to state; here each of these is a
  step. A poll that is not ready leaves the session's data as they are (\<open>auth_poll_waits\<close>); they
  stay with the session when it ends.
\<close>

definition leave_registry ::
  "('u, 'x) legacy_server \<Rightarrow> auth_data \<Rightarrow> apc_error option \<Rightarrow> 'x \<Rightarrow> 'x unauth_after" where
  "leave_registry A d e x =
     (Inr (Some (AwaitRegistryDisconnect
        (future_of (sv_ready A) (at_registry A
           (legacy_clients_disconnect (lw_uaid (ad_webpush d)) (lw_uid (ad_webpush d))))) d e)), x)"

definition poll_await_session_complete ::
  "('u, 'x) legacy_server \<Rightarrow> 'x legacy_ws \<Rightarrow> 'x auth_state \<Rightarrow> auth_data \<Rightarrow> 'x \<Rightarrow> 'x unauth_after" where
  "poll_await_session_complete A W st d x =
     (case auth_poll A W st d x of
        (Inr None, _, x1) \<Rightarrow> (Inr None, x1)
      | (Inr (Some AuthDone), d1, x1) \<Rightarrow> leave_registry A d1 None x1
      | (Inr (Some st1), d1, x1) \<Rightarrow> (Inr (Some (AwaitSessionComplete st1 d1)), x1)
      | (Inl e, d1, x1) \<Rightarrow> leave_registry A d1 (if ordinary_end e then None else Some e) x1)"

section \<open>The end\<close>

definition queued_notifs :: "server_notification list \<Rightarrow> notification list" where
  "queued_notifs ms = List.map_filter (\<lambda>m. case m of DirectNotification n \<Rightarrow> Some n | _ \<Rightarrow> None) ms"

text \<open>The spawned future; whatever goes wrong in it is dropped.\<close>

definition save_and_notify_undelivered_messages ::
  "('u, 'x) legacy_server \<Rightarrow> legacy_client \<Rightarrow> notification list \<Rightarrow> 'x \<Rightarrow> 'x" where
  "save_and_notify_undelivered_messages A w notifs x =
     (case legacy_store_messages (sv_ddb A) (lw_uaid w) (lw_message_month w) notifs x of
        (Inl _, x1) \<Rightarrow> x1
      | (Inr _, x1) \<Rightarrow>
          (case legacy_get_user (sv_ddb A) (lw_uaid w) x1 of
             (Inr (Some user), x2) \<Rightarrow>
               if du_connected_at user = lw_connected_at w then x2
               else
                 (case du_node_id user of
                    None \<Rightarrow> x2
                  | Some node_id \<Rightarrow>
                      (let (built, x3) = sv_http_client A x2 in
                       if built
                       then snd (sv_http_put A (node_id @ ''/notif/'' @ uuid_simple (dy_uuid (sv_ddb A)) (du_uaid user)) x3)
                       else x3))
           | (_, x2) \<Rightarrow> x2))"

definition poll_await_registry_disconnect ::
  "('u, 'x) legacy_server \<Rightarrow> (unit, 'x) future \<Rightarrow> auth_data \<Rightarrow> apc_error option \<Rightarrow> 'x \<Rightarrow> 'x unauth_after" where
  "poll_await_registry_disconnect A response d err x =
     try_ready (response x) (\<lambda>_ x1.
       (let w = ad_webpush d;
            (ms, x2) = ch_close_drain (sv_chan A) (lw_rx w) x1;
            unacked_direct_notifs = lw_direct w @ queued_notifs ms
        in if unacked_direct_notifs \<noteq> []
           then (Inr (Some UnAuthDone), save_and_notify_undelivered_messages A w
                  (map (\<lambda>n. n\<lparr>n_sortkey_timestamp := Some 0\<rparr>) unacked_direct_notifs) x2)
           else (Inr (Some UnAuthDone), x2)))"

text \<open>The poll of the state a connection is in.\<close>

definition unauth_poll ::
  "('u, 'x) legacy_server \<Rightarrow> 'x legacy_ws \<Rightarrow> 'x unauth_state \<Rightarrow> 'x \<Rightarrow> 'x unauth_after" where
  "unauth_poll A W st x =
     (case st of
        AwaitHello user_agent tx \<Rightarrow> poll_await_hello A W user_agent tx x
      | AwaitProcessHello response user_agent desired_broadcasts tx \<Rightarrow>
          poll_await_process_hello A response user_agent desired_broadcasts tx x
      | AwaitRegistryConnect response d \<Rightarrow> poll_await_registry_connect response d x
      | AwaitSessionComplete st d \<Rightarrow> poll_await_session_complete A W st d x
      | AwaitRegistryDisconnect response d e \<Rightarrow> poll_await_registry_disconnect A response d e x
      | UnAuthDone \<Rightarrow> (Inr None, x))"

section \<open>Steps\<close>

text \<open>
  The life of a connection: its polls, and between them anything other tasks do to the world.
  A failed poll ends it.
\<close>

datatype 'x connection = Running "'x unauth_state" | Failed apc_error

inductive legacy_step ::
  "('u, 'x) legacy_server \<Rightarrow> 'x legacy_ws \<Rightarrow> 'x connection \<times> 'x \<Rightarrow> 'x connection \<times> 'x \<Rightarrow> bool"
  for A W where
  moves: "unauth_poll A W st x = (Inr (Some st'), x') \<Longrightarrow> legacy_step A W (Running st, x) (Running st', x')"
| waits: "unauth_poll A W st x = (Inr None, x') \<Longrightarrow> legacy_step A W (Running st, x) (Running st, x')"
| fails: "unauth_poll A W st x = (Inl e, x') \<Longrightarrow> legacy_step A W (Running st, x) (Failed e, x')"
| others: "legacy_step A W (c, x) (c, x')"

definition legacy_reachable :: "('u, 'x) legacy_server \<Rightarrow> 'x legacy_ws \<Rightarrow> 'x connection \<Rightarrow> bool" where
  "legacy_reachable A W c \<longleftrightarrow>
     (\<exists>ua x x'. (legacy_step A W)\<^sup>*\<^sup>* (Running (fst (legacy_client_start A ua x)), x) (c, x'))"

end
