(* ===== verification/LegacySpec.thy ===== *)
theory LegacySpec
  imports LegacySession
begin

text \<open>
  What holds of the older server's sessions: reading the store goes batch by batch, the
  registry and the acknowledgements behave as in the newer server, and what happens to the
  unacknowledged notifications of a session at its end.
\<close>

section \<open>The registry is that of the newer server\<close>

lemma legacy_registry_agrees:
  "legacy_clients_notify ch uaid n s = clients_notify ch uaid n s"
  "legacy_clients_check_storage ch uaid s = clients_check_storage ch uaid s"
  "legacy_clients_disconnect uaid uid s = clients_disconnect uaid uid s"
  by (auto simp: legacy_clients_notify_def clients_notify_def legacy_clients_check_storage_def
      clients_check_storage_def legacy_clients_disconnect_def clients_disconnect_def clients_send_def Let_def
      split: prod.split option.split)

text \<open>The newer \<open>connect\<close> makes the channel itself.\<close>

lemma legacy_connect_agrees:
  assumes "ch_unbounded ch x = (tx, x1)"
  shows "clients_connect ch uaid uid (clients, x) =
    (tx, legacy_clients_connect ch \<lparr>rc_uaid = uaid, rc_uid = uid, rc_tx = tx\<rparr> (clients, x1))"
  using assms by (simp add: clients_connect_def legacy_clients_connect_def Let_def split: option.split prod.split)

section \<open>Reading the store\<close>

definition all_acked :: "auth_data \<Rightarrow> bool" where
  "all_acked d \<longleftrightarrow> \<not> unacked_messages (ad_webpush d)"

abbreviation flags :: "auth_data \<Rightarrow> legacy_flags" where "flags d \<equiv> lw_flags (ad_webpush d)"

text \<open>
  The store is read, and the mark of what was read moved, only while nothing is unacknowledged;
  whenever the mark is to be moved, it is known where to.
\<close>

definition session_consistent :: "'x auth_state \<Rightarrow> auth_data \<Rightarrow> bool" where
  "session_consistent st d \<longleftrightarrow>
     (lf_increment_storage (flags d) \<longrightarrow> lw_highest (ad_webpush d) \<noteq> None) \<and>
     (case st of
        IncrementStorageState \<Rightarrow> all_acked d \<and> lf_check (flags d) \<and> lf_increment_storage (flags d)
      | AwaitIncrementStorage _ \<Rightarrow> all_acked d \<and> lf_check (flags d) \<and> lf_increment_storage (flags d)
      | CheckStorageState \<Rightarrow> all_acked d \<and> lf_check (flags d) \<and> \<not> lf_increment_storage (flags d)
      | AwaitCheckStorage _ \<Rightarrow> all_acked d \<and> lf_check (flags d) \<and> \<not> lf_increment_storage (flags d)
      | AwaitMigrateUser _ \<Rightarrow> all_acked d \<and> \<not> lf_check (flags d) \<and> lf_rotate_message_table (flags d)
      | _ \<Rightarrow> True)"

lemma try_ready_Inr_cases:
  assumes "try_ready r k = (Inr v, s')"
  obtains (pending) "r = (Inr None, s')" "v = None" | (ready) a s where "r = (Inr (Some a), s)" "k a s = (Inr v, s')"
  using assms by (cases r; cases "fst r"; cases "projr (fst r)") auto

lemma on_world_iff: "on_world r d = (q, d', x') \<longleftrightarrow> r = (q, x') \<and> d' = d"
  by (cases r) (auto simp: on_world_def)

lemma transition_iff: "transition st d x = (r, d', x') \<longleftrightarrow> r = Inr (Some st) \<and> d' = d \<and> x' = x"
  by (auto simp: transition_def)

lemmas poll_defs = poll_send_def poll_await_send_def poll_determine_ack_def poll_await_input_def
  poll_increment_storage_def poll_await_increment_storage_def poll_check_storage_def poll_await_check_storage_def
  poll_await_migrate_user_def poll_await_drop_user_def poll_await_register_def poll_await_unregister_def
  poll_await_delete_def

lemmas input_defs = legacy_on_client_msg_def legacy_on_server_notif_def legacy_on_register_def legacy_on_ack_def
  legacy_on_ping_def

text \<open>Acknowledging touches neither the flags nor the mark.\<close>

lemma legacy_ack_updates_frame:
  assumes "legacy_ack_updates updates w = (w', ns)"
  shows "lw_flags w' = lw_flags w" "lw_highest w' = lw_highest w" "lw_uaid w' = lw_uaid w" "lw_uid w' = lw_uid w"
    "lw_rx w' = lw_rx w" "lw_message_month w' = lw_message_month w"
proof -
  let ?same = "\<lambda>w'. lw_flags w' = lw_flags w \<and> lw_highest w' = lw_highest w \<and> lw_uaid w' = lw_uaid w \<and>
    lw_uid w' = lw_uid w \<and> lw_rx w' = lw_rx w \<and> lw_message_month w' = lw_message_month w"
  have "?same (fst (legacy_ack_updates updates w))"
    by (induction updates w rule: legacy_ack_updates.induct)
      (simp_all add: Let_def case_prod_beta split: option.split)
  with assms have "?same w'" by simp
  then show "lw_flags w' = lw_flags w" "lw_highest w' = lw_highest w" "lw_uaid w' = lw_uaid w" "lw_uid w' = lw_uid w"
    "lw_rx w' = lw_rx w" "lw_message_month w' = lw_message_month w" by simp_all
qed

lemma input_consistent:
  assumes "session_consistent AwaitInput d"
  shows "legacy_on_client_msg A msg d x = (Inr (Some st'), d', x') \<Longrightarrow> session_consistent st' d'"
    and "legacy_on_server_notif snotif d x = (Inr (Some st'), d', x') \<Longrightarrow> session_consistent st' d'"
  using assms
  by (auto simp: input_defs transition_iff session_consistent_def Let_def legacy_ack_updates_frame
      split: client_message.splits server_notification.splits option.splits prod.splits sum.splits if_splits)

lemma auth_poll_consistent:
  assumes ok: "session_consistent st d" and p: "auth_poll A W st d x = (Inr (Some st'), d', x')"
  shows "session_consistent st' d'"
proof (cases st)
  case AwaitInput
  from p obtain i x1 where "(case i of Inl msg \<Rightarrow> legacy_on_client_msg A msg d x1
      | Inr snotif \<Rightarrow> legacy_on_server_notif snotif d x1) = (Inr (Some st'), d', x')"
    unfolding AwaitInput auth_poll_def poll_await_input_def auth_state.case
    by (elim try_ready_Inr_cases) (auto simp: on_world_iff)
  with ok AwaitInput show ?thesis by (auto split: sum.splits intro: input_consistent)
next
  case (AwaitCheckStorage response)
  from p obtain resp x1 where "response x = (Inr (Some resp), x1)"
    unfolding AwaitCheckStorage auth_poll_def poll_await_check_storage_def auth_state.case
    by (elim try_ready_Inr_cases) (auto simp: on_world_iff)
  with ok p show ?thesis
    unfolding AwaitCheckStorage auth_poll_def poll_await_check_storage_def auth_state.case
    by (auto simp: transition_iff session_consistent_def Let_def split: prod.splits if_splits)
qed (use ok p in \<open>auto simp: auth_poll_def poll_defs transition_iff session_consistent_def all_acked_def Let_def on_world_iff
    elim!: try_ready_Inr_cases split: list.splits option.splits prod.splits sum.splits if_splits bool.splits register_response.splits\<close>)

lemma auth_poll_waits:
  assumes "auth_poll A W st d x = (Inr None, d', x')"
  shows "d' = d"
proof (cases st)
  case AwaitInput
  have no: "legacy_on_client_msg A msg d x1 \<noteq> (Inr None, d', x')" "legacy_on_server_notif snotif d x1 \<noteq> (Inr None, d', x')"
    for msg snotif d x1
    by (auto simp: input_defs transition_iff Let_def
      split: client_message.splits server_notification.splits option.splits prod.splits sum.splits if_splits)
  from assms show ?thesis
    unfolding AwaitInput auth_poll_def poll_await_input_def auth_state.case
    by (elim try_ready_Inr_cases) (auto simp: on_world_iff no split: sum.splits)
qed (use assms in \<open>auto simp: auth_poll_def poll_defs transition_iff Let_def on_world_iff
    elim!: try_ready_Inr_cases split: list.splits option.splits prod.splits sum.splits if_splits bool.splits register_response.splits\<close>)

text \<open>What is true of every connection from its start.\<close>

definition connection_consistent :: "'x connection \<Rightarrow> bool" where
  "connection_consistent c \<longleftrightarrow>
     (case c of
        Running (AwaitRegistryConnect _ d) \<Rightarrow> \<not> lf_increment_storage (flags d)
      | Running (AwaitSessionComplete st d) \<Rightarrow> session_consistent st d
      | _ \<Rightarrow> True)"

lemma unauth_poll_consistent:
  assumes ok: "connection_consistent (Running st)" and p: "unauth_poll A W st x = (Inr (Some st'), x')"
  shows "connection_consistent (Running st')"
proof (cases st)
  case (AwaitHello ua tx)
  with p show ?thesis
    by (auto simp: unauth_poll_def poll_await_hello_def connection_consistent_def Let_def elim!: try_ready_Inr_cases
      split: client_message.splits option.splits bool.splits prod.splits)
next
  case (AwaitProcessHello response ua bs tx)
  with p show ?thesis
    by (auto simp: unauth_poll_def poll_await_process_hello_def connection_consistent_def legacy_client_new_def
      legacy_flags_new_def Let_def elim!: try_ready_Inr_cases split: option.splits prod.splits)
next
  case (AwaitRegistryConnect response d)
  with p ok show ?thesis
    by (auto simp: unauth_poll_def poll_await_registry_connect_def connection_consistent_def session_consistent_def
      elim!: try_ready_Inr_cases)
next
  case (AwaitSessionComplete ast d)
  with ok have c: "session_consistent ast d" by (simp add: connection_consistent_def)
  obtain r d1 x1 where a: "auth_poll A W ast d x = (r, d1, x1)" by (metis prod.exhaust)
  consider e where "r = Inl e" | "r = Inr None" | st1 where "r = Inr (Some st1)"
    by (metis option.exhaust sum.exhaust)
  then show ?thesis
  proof cases
    case 1
    with a p AwaitSessionComplete show ?thesis
      by (auto simp: unauth_poll_def poll_await_session_complete_def leave_registry_def connection_consistent_def)
  next
    case 2
    with a p AwaitSessionComplete show ?thesis
      by (simp add: unauth_poll_def poll_await_session_complete_def)
  next
    case 3
    with a auth_poll_consistent [OF c] have "session_consistent st1 d1" by simp
    with 3 a p AwaitSessionComplete show ?thesis
      by (cases st1) (auto simp: unauth_poll_def poll_await_session_complete_def leave_registry_def connection_consistent_def)
  qed
next
  case (AwaitRegistryDisconnect response d e)
  with p show ?thesis
    by (auto simp: unauth_poll_def poll_await_registry_disconnect_def connection_consistent_def Let_def
      elim!: try_ready_Inr_cases split: prod.splits if_splits)
next
  case UnAuthDone
  with p show ?thesis by (simp add: unauth_poll_def)
qed

lemma reachable_consistent: "legacy_reachable A W c \<Longrightarrow> connection_consistent c"
proof -
  have "connection_consistent (fst s')" if "(legacy_step A W)\<^sup>*\<^sup>* s s'" "connection_consistent (fst s)" for s s'
    using that
  proof (induction rule: rtranclp_induct)
    case (step y z)
    have y: "connection_consistent (fst y)" by (rule step.IH [OF step.prems])
    from step.hyps(2) show ?case
    proof cases
      case (moves st x st' x')
      with y show ?thesis by (auto intro: unauth_poll_consistent)
    qed (use y in \<open>simp_all add: connection_consistent_def\<close>)
  qed
  moreover have "connection_consistent (Running (fst (legacy_client_start A ua x)))" for ua x
    by (simp add: legacy_client_start_def connection_consistent_def split: prod.split)
  ultimately show "legacy_reachable A W c \<Longrightarrow> connection_consistent c"
    unfolding legacy_reachable_def by fastforce
qed

text \<open>Claim C14. In every reachable state of a session the store is read, and the mark of what was
  read moved, only while no notification is unacknowledged; and moving the mark never fails for
  want of a value, so the error the code keeps for that case cannot happen.\<close>

theorem legacy_reads_batch_by_batch:
  assumes "legacy_reachable A W (Running (AwaitSessionComplete st d))"
  shows "(st = CheckStorageState \<or> st = IncrementStorageState \<longrightarrow> lw_direct (ad_webpush d) = [] \<and> lw_stored (ad_webpush d) = []) \<and>
    (st = IncrementStorageState \<longrightarrow> (\<exists>response. auth_poll A W st d x = (Inr (Some (AwaitIncrementStorage response)), d, x)))"
proof -
  have "session_consistent st d"
    using reachable_consistent [OF assms] by (simp add: connection_consistent_def)
  then show ?thesis
    by (auto simp: session_consistent_def all_acked_def unacked_messages_def auth_poll_def poll_increment_storage_def transition_def Let_def)
qed

section \<open>Acknowledgements agree with the newer server\<close>

text \<open>The deletions of the newer server, one after the other.\<close>

fun delete_each :: "('u, 'x) app_state \<Rightarrow> uuid \<Rightarrow> notification list \<Rightarrow> (unit, 'x) db_op" where
  "delete_each A uaid [] x = (Inr (), x)"
| "delete_each A uaid (n # ns) x =
     (let (key, x1) = chidmessageid (app_uuid A) (app_sys A) n x in
      andThen (db_remove_message (app_db A) uaid key x1) (\<lambda>_ x2. delete_each A uaid ns x2))"

text \<open>What the two do to the same update: one acknowledgement after another.\<close>

definition acks_alike :: "('u, 'x) app_state \<Rightarrow> client_ack list \<Rightarrow> web_push_client \<Rightarrow>
    legacy_client \<times> notification list \<Rightarrow> 'x \<Rightarrow> bool" where
  "acks_alike A updates c r x =
     (case delete_each A (c_uaid c) (snd r) x of
       (Inr _, x') \<Rightarrow> \<exists>c'. ack_updates A updates (c, x) = (Inr (), c', x') \<and>
         c_direct c' = lw_direct (fst r) \<and> c_stored c' = lw_stored (fst r)
     | (Inl e, x') \<Rightarrow> \<exists>c'. ack_updates A updates (c, x) = (Inl (SmDatabase e), c', x'))"

lemma acks_alike_step:
  assumes "acks_alike A updates c' r x" "c_uaid c' = c_uaid c"
    "ack_updates A (u # updates) (c, x) = ack_updates A updates (c', x)"
  shows "acks_alike A (u # updates) c r x"
  using assms by (simp add: acks_alike_def del: ack_updates.simps split: prod.splits sum.splits)

lemma acks_alike_delete:
  assumes IH: "\<And>x. acks_alike A updates c' (w', ns) x" and same: "c_uaid c' = c_uaid c"
    and step: "ack_updates A (u # updates) (c, x) =
      (let (key, x1) = chidmessageid (app_uuid A) (app_sys A) n x in
       case db_remove_message (app_db A) (c_uaid c) key x1 of
         (Inl e, x2) \<Rightarrow> (Inl (SmDatabase e), c, x2)
       | (Inr _, x2) \<Rightarrow> ack_updates A updates (c', x2))"
  shows "acks_alike A (u # updates) c (w', n # ns) x"
proof -
  obtain key x1 where k: "chidmessageid (app_uuid A) (app_sys A) n x = (key, x1)" by fastforce
  obtain q x2 where q: "db_remove_message (app_db A) (c_uaid c) key x1 = (q, x2)" by fastforce
  show ?thesis
  proof (cases q)
    case (Inl e)
    with k q step show ?thesis by (simp add: acks_alike_def del: ack_updates.simps split: prod.splits sum.splits)
  next
    case (Inr u)
    with k q step IH [of x2] same show ?thesis by (simp add: acks_alike_def del: ack_updates.simps split: prod.splits sum.splits)
  qed
qed

lemma legacy_acks_alike:
  "c_direct c = lw_direct w \<Longrightarrow> c_stored c = lw_stored w \<Longrightarrow> acks_alike A updates c (legacy_ack_updates updates w) x"
proof (induction updates w arbitrary: c x rule: legacy_ack_updates.induct)
  case (1 w)
  then show ?case by (simp add: acks_alike_def)
next
  case (2 u updates w)
  show ?case
  proof (cases "position (acks u) (lw_direct w)")
    case (Some pos)
    let ?c = "upd_stats (\<lambda>st. st\<lparr>st_direct_acked := st_direct_acked st + 1\<rparr>)
        (upd_ack (\<lambda>a. a\<lparr>a_unacked_direct_notifs := remove_at pos (a_unacked_direct_notifs a)\<rparr>) c)"
    show ?thesis
      by (rule acks_alike_step [where c' = ?c]) (use 2(3) [OF Some, of ?c] 2(4,5) Some in simp_all)
  next
    case None
    note direct = this
    show ?thesis
    proof (cases "position (acks u) (lw_stored w)")
      case None
      show ?thesis
        by (rule acks_alike_step [where c' = c]) (use 2(1) [OF direct None 2(4,5)] 2(4,5) direct None in simp_all)
    next
      case (Some pos)
      let ?n = "lw_stored w ! pos"
      let ?w = "upd_ls (\<lambda>st. st\<lparr>ls_stored_acked := ls_stored_acked st + 1\<rparr>) (w\<lparr>lw_stored := remove_at pos (lw_stored w)\<rparr>)"
      let ?c = "upd_stats (\<lambda>st. st\<lparr>st_stored_acked := st_stored_acked st + 1\<rparr>)
          (upd_ack (\<lambda>a. a\<lparr>a_unacked_stored_notifs := remove_at pos (a_unacked_stored_notifs a)\<rparr>) c)"
      have IH: "acks_alike A updates ?c (legacy_ack_updates updates ?w) x" for x
        by (rule 2(2) [OF direct Some refl]) (use 2(4,5) in simp_all)
      obtain w' ns where w': "legacy_ack_updates updates ?w = (w', ns)" by fastforce
      show ?thesis
      proof (cases "n_sortkey_timestamp ?n")
        case None
        with direct Some w' have "legacy_ack_updates (u # updates) w = (w', ?n # ns)" by (simp add: Let_def)
        moreover have "acks_alike A (u # updates) c (w', ?n # ns) x"
          by (rule acks_alike_delete [where c' = ?c])
            (use IH w' direct Some None 2(4,5) in \<open>simp_all add: Let_def call_db_def andThen_def split: prod.split sum.split\<close>)
        ultimately show ?thesis by simp
      next
        case (Some y)
        with direct \<open>position (acks u) (lw_stored w) = Some pos\<close> w'
        have "legacy_ack_updates (u # updates) w = (w', ns)" by (simp add: Let_def)
        moreover have "acks_alike A (u # updates) c (w', ns) x"
          by (rule acks_alike_step [where c' = ?c])
            (use IH w' direct Some \<open>position (acks u) (lw_stored w) = Some pos\<close> 2(4,5) in \<open>simp_all add: Let_def\<close>)
        ultimately show ?thesis by simp
      qed
    qed
  qed
qed

text \<open>One operation on each of some notifications, in their order, until one fails.\<close>

fun in_turn :: "(notification \<Rightarrow> 'x \<Rightarrow> ('e, unit, 'x) outcome) \<Rightarrow> notification list \<Rightarrow> 'x \<Rightarrow> ('e, unit, 'x) outcome" where
  "in_turn op [] x = (Inr (), x)"
| "in_turn op (n # ns) x = andThen (op n x) (\<lambda>_ x1. in_turn op ns x1)"

text \<open>The request that deletes the stored copy of a notification, at the newer and at the older server.\<close>

definition delete_stored :: "('u, 'x) app_state \<Rightarrow> uuid \<Rightarrow> notification \<Rightarrow> (unit, 'x) db_op" where
  "delete_stored A uaid n x =
     (let (key, x1) = chidmessageid (app_uuid A) (app_sys A) n x in db_remove_message (app_db A) uaid key x1)"

definition delete_row :: "'x dynamo_storage \<Rightarrow> string \<Rightarrow> uuid \<Rightarrow> notification \<Rightarrow> (unit, 'x) apc_op" where
  "delete_row S month uaid n x =
     (let (key, x1) = chidmessageid (dy_uuid S) (dy_sys S) n x in
      legacy_call S (DatabaseError ''Error deleting notification'')
        (dl_delete_item (dy_ddb S) month (legacy_chid_key S uaid key)) x1)"

lemma delete_each_in_turn: "delete_each A uaid ns x = in_turn (delete_stored A uaid) ns x"
  by (induction ns arbitrary: x) (auto simp: delete_stored_def andThen_def split: prod.split sum.split)

lemma delete_all_in_turn: "legacy_delete_all S month uaid ns x = in_turn (delete_row S month uaid) ns x"
  by (induction ns arbitrary: x)
    (auto simp: legacy_delete_message_def delete_row_def andThen_def split: prod.split sum.split)

text \<open>Claim C27. The two servers acknowledge alike: of the same unacknowledged notifications both
  drop the same ones and delete the stored copies of the same ones in the same order (the
  older one in its next state, once the connection is ready). The newer one stops at a
  deletion that fails, and so does the older one.\<close>

theorem legacy_ack_agrees:
  assumes "c_direct c = lw_direct (ad_webpush d)" and "c_stored c = lw_stored (ad_webpush d)"
  shows "\<exists>ns st d'. legacy_on_ack L updates d y = (Inr (Some st), d', y) \<and>
    (if ns = [] then st = DetermineAck
     else \<forall>W z z1. sv_ready L z = (True, z1) \<longrightarrow> auth_poll L W st d' z =
       (case in_turn (delete_row (sv_ddb L) (lw_message_month (ad_webpush d)) (lw_uaid (ad_webpush d))) ns z1 of
          (Inr _, z2) \<Rightarrow> (Inr (Some DetermineAck), d', z2) | (Inl e, z2) \<Rightarrow> (Inl e, d', z2))) \<and>
    (case in_turn (delete_stored A (c_uaid c)) ns x of
       (Inr _, x') \<Rightarrow> \<exists>c'. ack_updates A updates (c, x) = (Inr (), c', x') \<and>
         c_direct c' = lw_direct (ad_webpush d') \<and> c_stored c' = lw_stored (ad_webpush d')
     | (Inl e, x') \<Rightarrow> \<exists>c'. ack_updates A updates (c, x) = (Inl (SmDatabase e), c', x'))"
proof -
  let ?w = "ad_webpush d"
  obtain w' ns where w': "legacy_ack_updates updates ?w = (w', ns)" by (rule prod.exhaust)
  note same = legacy_ack_updates_frame [OF w']
  let ?fut = "future_of (sv_ready L) (legacy_delete_all (sv_ddb L) (lw_message_month ?w) (lw_uaid ?w) ns)"
  let ?st = "if ns = [] then DetermineAck else AwaitDelete ?fut" and ?d = "d\<lparr>ad_webpush := w'\<rparr>"
  have "legacy_on_ack L updates d y = (Inr (Some ?st), ?d, y)"
    by (simp add: legacy_on_ack_def w' transition_def same)
  moreover have "auth_poll L W (AwaitDelete ?fut) ?d z =
      (case in_turn (delete_row (sv_ddb L) (lw_message_month ?w) (lw_uaid ?w)) ns z1 of
         (Inr _, z2) \<Rightarrow> (Inr (Some DetermineAck), ?d, z2) | (Inl e, z2) \<Rightarrow> (Inl e, ?d, z2))"
    if "sv_ready L z = (True, z1)" for W z z1
    using that by (auto simp: auth_poll_def poll_await_delete_def on_world_def try_ready_def future_of_def transition_def
        andThen_def delete_all_in_turn split: prod.split sum.split)
  moreover have "case in_turn (delete_stored A (c_uaid c)) ns x of
       (Inr _, x') \<Rightarrow> \<exists>c'. ack_updates A updates (c, x) = (Inr (), c', x') \<and>
         c_direct c' = lw_direct (ad_webpush ?d) \<and> c_stored c' = lw_stored (ad_webpush ?d)
     | (Inl e, x') \<Rightarrow> \<exists>c'. ack_updates A updates (c, x) = (Inl (SmDatabase e), c', x')"
    using legacy_acks_alike [OF assms, of A updates x] by (auto simp: acks_alike_def w' delete_each_in_turn split: sum.splits prod.splits)
  ultimately show ?thesis by (intro exI [of _ ns] exI [of _ ?st] exI [of _ ?d]) simp
qed

end
