(* ===== verification/LegacyFlows.thy ===== *)
theory LegacyFlows
  imports LegacySpec DynamoFlows
begin

text \<open>
  How the older server's sessions start and end: what a user who comes back finds, what a
  session that ends saves, and the rows it saves them in.
\<close>

section \<open>The end of a session\<close>

text \<open>The registry still holds this very session.\<close>

definition still_registered :: "client_registry \<Rightarrow> legacy_client \<Rightarrow> bool" where
  "still_registered clients w \<longleftrightarrow> (\<exists>k. clients (lw_uaid w) = Some k \<and> rc_uid k = lw_uid w)"

abbreviation saved_form :: "notification \<Rightarrow> notification" where
  "saved_form n \<equiv> n\<lparr>n_sortkey_timestamp := Some 0\<rparr>"

lemma legacy_disconnect_result:
  "legacy_clients_disconnect (lw_uaid w) (lw_uid w) (clients, x) =
     (if still_registered clients w then (Inr (), clients(lw_uaid w := None), x) else (Inl user_not_connected, clients, x))"
  by (auto simp: legacy_clients_disconnect_def still_registered_def Let_def split: option.split)

lemma session_complete_leaves:
  assumes "unauth_poll A W (AwaitSessionComplete st d0) x = (Inr (Some (AwaitRegistryDisconnect response d e)), x1)"
  shows "response = future_of (sv_ready A) (at_registry A (legacy_clients_disconnect (lw_uaid (ad_webpush d)) (lw_uid (ad_webpush d))))"
  using assms
  by (auto simp: unauth_poll_def poll_await_session_complete_def leave_registry_def
      split: prod.splits sum.splits option.splits auth_state.splits)

text \<open>An item of the batch, read back by the reader of stored messages, is the notification.\<close>

definition item_of :: "uuid_lib \<Rightarrow> regex_set \<Rightarrow> uuid \<Rightarrow> ddb_item \<Rightarrow> notification \<Rightarrow> bool" where
  "item_of lib re uaid i n \<longleftrightarrow>
     (\<exists>r ts. record_from_item lib i = Inr r \<and> nr_uaid r = uaid \<and>
        into_notif lib re r = Inr (stored_form (n\<lparr>n_sortkey_timestamp := Some ts\<rparr>)))"

lemma saved_record_reads_back:
  assumes lib: "uuid_lib_ok lib" and re: "regex_set_ok re" and topic: "\<And>t. n_topic n = Some t \<Longrightarrow> key_text t"
    and rec: "dynamo_db_notification_from_notif lib sys uaid (saved_form n) x = (r, x1)"
  shows "item_of lib re uaid (record_to_item lib r) n"
proof -
  obtain now x2 where now: "sys_now_ms sys x = (now, x2)" by (rule prod.exhaust)
  have "nr_uaid r = uaid" "into_notif lib re (r\<lparr>nr_chids := None\<rparr>) = Inr (stored_form (n\<lparr>n_sortkey_timestamp := Some now\<rparr>))"
    using rec topic chidmessageid_zero [of "saved_form n" sys x now x2 lib] now
    by (cases "n_topic n"; auto simp: dynamo_db_notification_from_notif_def into_notif_def chidmessageid_topic
        parse_topic_key [OF lib re] parse_standard_key [OF lib re] stored_form_def option.map_comp split: prod.splits)+
  then show ?thesis unfolding item_of_def record_item_roundtrip [OF lib] by auto
qed

lemma saved_batch_reads_back:
  assumes "uuid_lib_ok (dy_uuid S)" and "regex_set_ok re"
  shows "\<forall>n \<in> set ns. \<forall>t. n_topic n = Some t \<longrightarrow> key_text t \<Longrightarrow>
    legacy_from_notifs S uaid (map saved_form ns) x = (rs, x1) \<Longrightarrow>
    list_all2 (item_of (dy_uuid S) re uaid) (map (record_to_item (dy_uuid S)) rs) ns"
proof (induction ns arbitrary: x rs)
  case (Cons n ns)
  from Cons.prems(2) obtain r x2 rs' where
      r: "dynamo_db_notification_from_notif (dy_uuid S) (dy_sys S) uaid (saved_form n) x = (r, x2)"
    and rs': "legacy_from_notifs S uaid (map saved_form ns) x2 = (rs', x1)" "rs = r # rs'"
    by (auto simp: Let_def split: prod.splits)
  from Cons.prems(1) have "item_of (dy_uuid S) re uaid (record_to_item (dy_uuid S) r) n"
    by (intro saved_record_reads_back [OF assms _ r]) simp
  moreover have "list_all2 (item_of (dy_uuid S) re uaid) (map (record_to_item (dy_uuid S)) rs') ns"
    using Cons.IH [OF _ rs'(1)] Cons.prems(1) by simp
  ultimately show ?case by (simp add: rs'(2))
qed simp

text \<open>The node a user is now connected to is told, once the batch is written.\<close>

definition notified_of_batch :: "('u, 'x) legacy_server \<Rightarrow> legacy_client \<Rightarrow> 'x \<Rightarrow> 'x \<Rightarrow> bool" where
  "notified_of_batch A w z y \<longleftrightarrow>
     (case legacy_get_user (sv_ddb A) (lw_uaid w) z of
        (Inr (Some user), z1) \<Rightarrow>
          (case du_node_id user of
             Some node \<Rightarrow>
               if du_connected_at user = lw_connected_at w then y = z1
               else (\<exists>z2. sv_http_client A z1 = (False, z2) \<and> y = z2) \<or>
                 (\<exists>z2. sv_http_client A z1 = (True, z2) \<and>
                    y = snd (sv_http_put A (node @ ''/notif/'' @ uuid_simple (dy_uuid (sv_ddb A)) (du_uaid user)) z2))
           | None \<Rightarrow> y = z1)
      | (_, z1) \<Rightarrow> y = z1)"

lemma saving_task:
  assumes lib: "uuid_lib_ok (dy_uuid (sv_ddb A))" and re: "regex_set_ok re"
    and topics: "\<forall>n \<in> set ns. \<forall>t. n_topic n = Some t \<longrightarrow> key_text t"
  shows "\<exists>items z r z1. list_all2 (item_of (dy_uuid (sv_ddb A)) re (lw_uaid w)) items ns \<and>
    z = snd (legacy_from_notifs (sv_ddb A) (lw_uaid w) (map saved_form ns) x) \<and>
    legacy_call (sv_ddb A) (DatabaseError ''Error saving notifications'')
      (dl_batch_write_item (dy_ddb (sv_ddb A)) [(lw_message_month w, items)]) z = (r, z1) \<and>
    (case r of Inl _ \<Rightarrow> save_and_notify_undelivered_messages A w (map saved_form ns) x = z1
     | Inr _ \<Rightarrow> notified_of_batch A w z1 (save_and_notify_undelivered_messages A w (map saved_form ns) x))"
proof -
  obtain rs z where rs: "legacy_from_notifs (sv_ddb A) (lw_uaid w) (map saved_form ns) x = (rs, z)" by (rule prod.exhaust)
  let ?items = "map (record_to_item (dy_uuid (sv_ddb A))) rs"
  obtain r z1 where r: "legacy_call (sv_ddb A) (DatabaseError ''Error saving notifications'')
      (dl_batch_write_item (dy_ddb (sv_ddb A)) [(lw_message_month w, ?items)]) z = (r, z1)" by (rule prod.exhaust)
  have store: "legacy_store_messages (sv_ddb A) (lw_uaid w) (lw_message_month w) (map saved_form ns) x = (r, z1)"
    by (simp add: legacy_store_messages_def rs r)
  have "case r of Inl _ \<Rightarrow> save_and_notify_undelivered_messages A w (map saved_form ns) x = z1
     | Inr _ \<Rightarrow> notified_of_batch A w z1 (save_and_notify_undelivered_messages A w (map saved_form ns) x)"
    by (auto simp: save_and_notify_undelivered_messages_def store notified_of_batch_def split: sum.splits prod.splits option.splits)
  with saved_batch_reads_back [OF lib re topics rs] rs r show ?thesis
    by (intro exI [of _ ?items] exI [of _ z] exI [of _ r] exI [of _ z1]) simp
qed

text \<open>Claim C15. What a session of the older server does at its end depends on the registry. While
  the registry holds it, it leaves, and exactly its unacknowledged direct notifications and
  those still in its channel are written, in one batch to the message table of its month: each
  item, read back as a stored message, is the notification, of this user. If the batch was
  written and the user has meanwhile connected again, the node of the new connection is told.
  Displaced by a newer session, it fails: nothing is stored, and the newer session stays
  registered.\<close>

theorem legacy_session_end:
  assumes ends: "unauth_poll A W (AwaitSessionComplete st d0) x = (Inr (Some (AwaitRegistryDisconnect response d e)), x1)"
    and ready: "sv_ready A y = (True, y1)"
    and drained: "ch_close_drain (sv_chan A) (lw_rx (ad_webpush d))
      (sv_set_clients A ((sv_clients A y1)(lw_uaid (ad_webpush d) := None)) y1) = (ms, y2)"
    and unsaved: "unsaved = lw_direct (ad_webpush d) @ queued_notifs ms"
    and lib: "uuid_lib_ok (dy_uuid (sv_ddb A))" and re: "regex_set_ok re"
    and topics: "\<forall>n \<in> set unsaved. \<forall>t. n_topic n = Some t \<longrightarrow> key_text t"
  shows "if still_registered (sv_clients A y1) (ad_webpush d)
    then \<exists>y3. unauth_poll A W (AwaitRegistryDisconnect response d e) y = (Inr (Some UnAuthDone), y3) \<and>
      (if unsaved = [] then y3 = y2
       else \<exists>items z r z1. list_all2 (item_of (dy_uuid (sv_ddb A)) re (lw_uaid (ad_webpush d))) items unsaved \<and>
         z = snd (legacy_from_notifs (sv_ddb A) (lw_uaid (ad_webpush d)) (map saved_form unsaved) y2) \<and>
         legacy_call (sv_ddb A) (DatabaseError ''Error saving notifications'')
           (dl_batch_write_item (dy_ddb (sv_ddb A)) [(lw_message_month (ad_webpush d), items)]) z = (r, z1) \<and>
         (case r of Inl _ \<Rightarrow> y3 = z1 | Inr _ \<Rightarrow> notified_of_batch A (ad_webpush d) z1 y3))
    else unauth_poll A W (AwaitRegistryDisconnect response d e) y =
      (Inl user_not_connected, sv_set_clients A (sv_clients A y1) y1)"
proof -
  have eq: "unauth_poll A W (AwaitRegistryDisconnect response d e) y =
    (if still_registered (sv_clients A y1) (ad_webpush d)
     then (Inr (Some UnAuthDone),
        if unsaved = [] then y2 else save_and_notify_undelivered_messages A (ad_webpush d) (map saved_form unsaved) y2)
     else (Inl user_not_connected, sv_set_clients A (sv_clients A y1) y1))"
    using ready drained unsaved unfolding session_complete_leaves [OF ends]
    by (simp add: unauth_poll_def poll_await_registry_disconnect_def future_of_def at_registry_def
        legacy_disconnect_result Let_def)
  show ?thesis using saving_task [OF lib re topics, of "ad_webpush d" y2] unfolding eq by auto
qed

section \<open>The rows of what is saved\<close>

text \<open>While the clock stands still, a saved notification's key depends on its channel and topic.\<close>

definition saved_key :: "uuid_lib \<Rightarrow> u64 \<Rightarrow> notification \<Rightarrow> string" where
  "saved_key lib now n = (case n_topic n of
     Some topic \<Rightarrow> topic_key lib (n_channel_id n) topic | None \<Rightarrow> standard_key lib now (n_channel_id n))"

lemma saved_key_eq:
  assumes lib: "uuid_lib_ok lib"
    and topics: "\<And>t. n_topic n = Some t \<Longrightarrow> key_text t" "\<And>t. n_topic m = Some t \<Longrightarrow> key_text t"
  shows "saved_key lib now n = saved_key lib now m \<longleftrightarrow>
    (n_channel_id n, n_topic n) = (n_channel_id m, n_topic m)"
proof
  define key where "key k = (case parse_chidmessageid lib any_regex k of
    Inr r \<Rightarrow> (rk_channel_id r, rk_topic r) | Inl _ \<Rightarrow> (0, None))" for k
  have "key (saved_key lib now k) = (n_channel_id k, n_topic k)" if "\<And>t. n_topic k = Some t \<Longrightarrow> key_text t" for k
    using that by (cases "n_topic k") (simp_all add: key_def saved_key_def parse_topic_key [OF lib any_regex_ok]
      parse_standard_key [OF lib any_regex_ok])
  from this [OF topics(1)] this [OF topics(2)]
  show "saved_key lib now n = saved_key lib now m \<Longrightarrow> (n_channel_id n, n_topic n) = (n_channel_id m, n_topic m)"
    by metis
qed (simp add: saved_key_def split: option.split)

lemma legacy_from_notifs_keys:
  assumes "\<And>x. sys_now_ms (dy_sys S) x = (now, x)"
  shows "\<forall>n \<in> set ns. n_sortkey_timestamp n = Some 0 \<Longrightarrow>
    map nr_chidmessageid (fst (legacy_from_notifs S uaid ns x)) = map (saved_key (dy_uuid S) now) ns"
proof (induction ns arbitrary: x)
  case (Cons n ns)
  have "chidmessageid (dy_uuid S) (dy_sys S) n x = (saved_key (dy_uuid S) now n, x)"
    using Cons.prems assms by (cases "n_topic n") (simp_all add: chidmessageid_topic chidmessageid_zero saved_key_def)
  with Cons show ?case by (simp add: dynamo_db_notification_from_notif_def Let_def case_prod_beta)
qed simp

text \<open>Claim C31. The unacknowledged notifications that a session saves in one batch within one
  millisecond get different keys exactly when no two of them share both channel and topic: two
  of the same channel without a topic get the same key, which the service refuses in a batch.\<close>

theorem saved_batch_keys_distinct:
  assumes "uuid_lib_ok (dy_uuid S)" and "\<And>x. sys_now_ms (dy_sys S) x = (now, x)"
    and "\<forall>n \<in> set ns. \<forall>t. n_topic n = Some t \<longrightarrow> key_text t"
  shows "distinct (map nr_chidmessageid (fst (legacy_from_notifs S uaid (map saved_form ns) x))) \<longleftrightarrow>
    distinct (map (\<lambda>n. (n_channel_id n, n_topic n)) ns)"
proof -
  have "map nr_chidmessageid (fst (legacy_from_notifs S uaid (map saved_form ns) x)) = map (saved_key (dy_uuid S) now) ns"
    using legacy_from_notifs_keys [of S now "map saved_form ns" uaid x] assms(2) by (simp add: saved_key_def cong: option.case_cong)
  moreover have "inj_on (saved_key (dy_uuid S) now) (set ns) \<longleftrightarrow> inj_on (\<lambda>n. (n_channel_id n, n_topic n)) (set ns)"
    using saved_key_eq [OF assms(1)] assms(3) unfolding inj_on_def by (metis (no_types, lifting))
  ultimately show ?thesis by (simp add: distinct_map)
qed

section \<open>A user who comes back\<close>

text \<open>What the registration asks of the row that is there, and what the service does of it.\<close>

definition can_register :: "string \<Rightarrow> ddb_item \<Rightarrow> ddb_tables \<Rightarrow> bool" where
  "can_register k vs t = (case tb_router t k of
       None \<Rightarrow> True
     | Some i \<Rightarrow>
         (i ''router_type'' = None \<or> i ''router_type'' = hm_get vs '':router_type'') \<and>
         (i ''node_id'' = None \<or> attr_less (i ''connected_at'') (hm_get vs '':connected_at'')))"

definition legacy_router_ok :: "'x dynamo_storage \<Rightarrow> ('x \<Rightarrow> ddb_tables) \<Rightarrow> bool" where
  "legacy_router_ok S view \<longleftrightarrow>
     uuid_lib_ok (dy_uuid S) \<and>
     (\<forall>k i vs c. hm_get i ''uaid'' = Some (AttrS k) \<longrightarrow>
        lands view (dl_put_item (dy_ddb S) \<lparr>pi_table = dy_router_table_name S, pi_item = i, pi_values = vs, pi_condition = Some c\<rparr>)
          (router_condition c vs k) (\<lambda>t t'. t' = put_router k (Some (hm_get i)) t) no_answer) \<and>
     (\<forall>k. lands view (dl_get_item (dy_ddb S) (dy_router_table_name S) [(''uaid'', AttrS k)])
        (\<lambda>_. True) (\<lambda>t t'. t' = t) (reads (\<lambda>t. tb_router t k))) \<and>
     (\<forall>x. view (snd (sys_year_month (dy_sys S) x)) = view x \<and> view (snd (sys_last_connect (dy_sys S) x)) = view x)"

lemma read_register_user: "read_condition REGISTER_USER_CONDITION =
    Some (Conj (Disj (NotExists ''router_type'') (Compare ''='' ''router_type'' '':router_type''))
      (Disj (NotExists ''node_id'') (Compare ''<'' ''connected_at'' '':connected_at'')))"
  by (simp add: read_condition_def REGISTER_USER_CONDITION_def end_word_def eval_nat_numeral)

lemma register_condition: "router_condition REGISTER_USER_CONDITION vs k t \<longleftrightarrow> can_register k vs t"
  by (auto simp: router_condition_def condition_holds_def read_register_user can_register_def operand_def compares_def
      attr_equal_def router_row_def split: option.split)

lemma legacy_router_put:
  assumes "legacy_router_ok S view" and "hm_get i ''uaid'' = Some (AttrS k)"
  shows "lands view (dl_put_item (dy_ddb S) \<lparr>pi_table = dy_router_table_name S, pi_item = i, pi_values = vs,
      pi_condition = Some REGISTER_USER_CONDITION\<rparr>) (can_register k vs)
    (\<lambda>t t'. t' = put_router k (Some (hm_get i)) t) no_answer"
proof -
  have "can_register k vs = router_condition REGISTER_USER_CONDITION vs k"
    by (rule ext) (simp only: register_condition)
  with assms show ?thesis unfolding legacy_router_ok_def by simp
qed

lemma legacy_retryable_condition: "legacy_retryable (ConditionalCheckFailed e) = False"
  by (simp add: legacy_retryable_def)

lemma from_item_cong:
  assumes "hm_get i = hm_get j"
  shows "dynamo_db_user_from_item lib i = dynamo_db_user_from_item lib j"
  using assms by (simp add: dynamo_db_user_from_item_def field_def opt_field_def)

lemma legacy_call_settles:
  assumes "lands view f can does says" and "\<And>t t1 t2. does t t1 \<Longrightarrow> does t1 t2 \<Longrightarrow> does t t2"
    and "legacy_call S err f x = (r, x')"
  shows "\<exists>q. settles can does says (view x) q (view x') \<and> (case r of Inr v \<Rightarrow> q = Inr v | Inl _ \<Rightarrow> \<exists>e. q = Inl e)"
proof -
  obtain q where q: "retry_if (dy_max_retries S) legacy_retryable f x = (q, x')"
    using assms(3) by (auto simp: legacy_call_def mapErr_def split: prod.splits sum.splits)
  with assms(3) have "case r of Inr v \<Rightarrow> q = Inr v | Inl _ \<Rightarrow> \<exists>e. q = Inl e"
    by (cases q) (auto simp: legacy_call_def)
  moreover have "settles can does says (view x) q (view x')"
    by (rule retry_settles [OF assms(1) legacy_retryable_condition _ q]) (rule assms(2))
  ultimately show ?thesis by blast
qed

lemma legacy_get_uaid_reads:
  assumes "legacy_router_ok S view" and "legacy_get_uaid S uaid x = (r, x')"
  shows "view x' = view x"
    and "r = Inr item \<Longrightarrow> map_option hm_get item = tb_router (view x) (uuid_simple (dy_uuid S) uaid)"
proof -
  let ?k = "uuid_simple (dy_uuid S) uaid"
  have "lands view (dl_get_item (dy_ddb S) (dy_router_table_name S) [(''uaid'', AttrS ?k)])
      (\<lambda>_. True) (\<lambda>t t'. t' = t) (reads (\<lambda>t. tb_router t ?k))"
    using assms(1) by (simp add: legacy_router_ok_def)
  from legacy_call_settles [OF this _ assms(2) [unfolded legacy_get_uaid_def legacy_uaid_key_def]]
  obtain q where q: "settles (\<lambda>_. True) (\<lambda>t t'. t' = t) (reads (\<lambda>t. tb_router t ?k)) (view x) q (view x')"
    "case r of Inr v \<Rightarrow> q = Inr v | Inl _ \<Rightarrow> \<exists>e. q = Inl e" by auto
  then show "view x' = view x" by (auto simp: settles_def split: sum.splits ddb_error.splits)
  show "r = Inr item \<Longrightarrow> map_option hm_get item = tb_router (view x) ?k"
    using q by (auto simp: settles_def reads_def)
qed

lemma user_item_key: "hm_get (dynamo_db_user_to_item lib u) ''uaid'' = Some (AttrS (uuid_simple lib (du_uaid u)))"
  by (simp add: dynamo_db_user_to_item_def)

abbreviation register_values :: "dynamo_db_user \<Rightarrow> ddb_item" where
  "register_values user \<equiv> [('':router_type'', AttrS (du_router_type user)), ('':connected_at'', attr_n (du_connected_at user))]"

lemma legacy_register_user_settles:
  assumes ok: "legacy_router_ok S view" and r: "legacy_register_user S user x = (r, x')"
  defines "k \<equiv> uuid_simple (dy_uuid S) (du_uaid user)"
  defines "claimed \<equiv> can_register k (register_values user) (view x) \<and>
    view x' = put_router k (Some (hm_get (dynamo_db_user_to_item (dy_uuid S) user))) (view x)"
  shows "case r of Inr _ \<Rightarrow> claimed | Inl _ \<Rightarrow> view x' = view x \<or> claimed"
proof -
  have "lands view (dl_put_item (dy_ddb S) \<lparr>pi_table = dy_router_table_name S,
      pi_item = dynamo_db_user_to_item (dy_uuid S) user, pi_values = register_values user,
      pi_condition = Some REGISTER_USER_CONDITION\<rparr>) (can_register k (register_values user))
    (\<lambda>t t'. t' = put_router k (Some (hm_get (dynamo_db_user_to_item (dy_uuid S) user))) t) no_answer"
    using legacy_router_put [OF ok user_item_key [of "dy_uuid S" user]] by (simp add: k_def)
  from legacy_call_settles [OF this _ r [unfolded legacy_register_user_def]] show ?thesis
    by (auto simp: settles_def claimed_def split: sum.splits ddb_error.splits)
qed

text \<open>A good row: what the user becomes and what the reply says so far.\<close>

lemma handle_user_result_known:
  assumes row: "dynamo_db_user_from_item (dy_uuid S) j = Inr user" "du_current_month user = Some m"
      "m \<in> set (dy_message_table_names S)"
    and clock: "\<And>x. fst (sys_year_month (dy_sys S) x) = month" "\<And>x. fst (sys_last_connect (dy_sys S) x) = lc"
    and ok: "legacy_router_ok S view"
  defines "this_month \<equiv> (case du_last_connect user of None \<Rightarrow> False | Some v \<Rightarrow> starts_with month (show_u64 v))"
  shows "\<exists>h x'. handle_user_result S now url (Some j) (hello_response_new c now) x =
      (Inr (user\<lparr>du_last_connect := (if this_month then None else Some lc), du_node_id := Some url, du_connected_at := now\<rparr>), h, x') \<and>
    he_check_storage h \<and> he_message_month h = m \<and> (he_rotate_message_table h \<longleftrightarrow> m \<noteq> dy_current_message_month S) \<and>
    he_uaid h = None \<and> view x' = view x"
proof -
  have "fst (legacy_has_connected_this_month (dy_sys S) user x) = this_month" for x
    using clock(1) by (simp add: legacy_has_connected_this_month_def this_month_def case_prod_beta Let_def split: option.split)
  moreover have "view (snd (legacy_has_connected_this_month (dy_sys S) user x)) = view x" for x
    using ok by (simp add: legacy_has_connected_this_month_def legacy_router_ok_def case_prod_beta Let_def split: option.split)
  ultimately show ?thesis
    using row clock(2) ok
    by (simp add: handle_user_result_def Let_def case_prod_beta hello_response_new_def legacy_router_ok_def)
qed

text \<open>Claim C26. A user who says hello with the uaid of a good row is told the row's month, to read
  storage, and to rotate when the month is over. The reply has the uaid only if the row could
  be claimed, for no other node or an older connection, and is claimed: the row is then exactly
  the user with this node and time. Its \<open>last_connect\<close> is forgotten when it was in this month.
  Without a uaid the row is as it was, unless an answer of the service was lost.\<close>

theorem legacy_hello_claims_row:
  assumes ok: "legacy_router_ok S view"
    and row: "tb_router (view x) (uuid_simple (dy_uuid S) uaid) = Some (hm_get i)"
      "dynamo_db_user_from_item (dy_uuid S) i = Inr user" "du_uaid user = uaid"
      "du_current_month user = Some m" "m \<in> set (dy_message_table_names S)"
    and clock: "\<And>x. fst (sys_year_month (dy_sys S) x) = month" "\<And>x. fst (sys_last_connect (dy_sys S) x) = lc"
    and hello: "legacy_hello S now (Some uaid) url False x = (Inr h, x')"
  shows "let k = uuid_simple (dy_uuid S) uaid;
      this_month = (case du_last_connect user of None \<Rightarrow> False | Some v \<Rightarrow> starts_with month (show_u64 v));
      user' = user\<lparr>du_last_connect := (if this_month then None else Some lc), du_node_id := Some url, du_connected_at := now\<rparr>;
      claimed = (can_register k (register_values user') (view x) \<and>
        view x' = put_router k (Some (hm_get (dynamo_db_user_to_item (dy_uuid S) user'))) (view x))
    in he_check_storage h \<and> he_message_month h = m \<and> (he_rotate_message_table h \<longleftrightarrow> m \<noteq> dy_current_message_month S) \<and>
      (case he_uaid h of Some v \<Rightarrow> v = uaid \<and> claimed | None \<Rightarrow> view x' = view x \<or> claimed)"
proof -
  let ?month = "case du_last_connect user of None \<Rightarrow> False | Some v \<Rightarrow> starts_with month (show_u64 v)"
  let ?user = "user\<lparr>du_last_connect := (if ?month then None else Some lc), du_node_id := Some url, du_connected_at := now\<rparr>"
  obtain r0 x1 where get: "legacy_get_uaid S uaid x = (r0, x1)" by fastforce
  with hello obtain item where r0: "r0 = Inr item" by (cases r0) (auto simp: legacy_hello_def lookup_user_def)
  from legacy_get_uaid_reads(2) [OF ok get r0] row(1)
  obtain j where j: "item = Some j" "hm_get j = hm_get i" by auto
  have from_j: "dynamo_db_user_from_item (dy_uuid S) j = Inr user" using from_item_cong [OF j(2)] row(2) by simp
  obtain h0 x2 where h0: "handle_user_result S now url (Some j) (hello_response_new (dy_current_message_month S) now) x1 =
      (Inr ?user, h0, x2)" "he_check_storage h0" "he_message_month h0 = m"
      "he_rotate_message_table h0 \<longleftrightarrow> m \<noteq> dy_current_message_month S" "he_uaid h0 = None" "view x2 = view x1"
    using handle_user_result_known [OF from_j row(4,5) clock ok] by blast
  obtain r x3 where r: "legacy_register_user S ?user x2 = (r, x3)" by fastforce
  have "view x2 = view x" using h0(6) legacy_get_uaid_reads(1) [OF ok get] by simp
  with legacy_register_user_settles [OF ok r] h0 hello get r0 j(1) r row(3) show ?thesis
    unfolding Let_def by (cases r) (auto simp: legacy_hello_def lookup_user_def)
qed

section \<open>A server to evaluate\<close>

text \<open>The server on the service in memory.\<close>

definition demo_storage :: "ref_world dynamo_storage" where
  "demo_storage =
     \<lparr>dy_ddb = ref_service, dy_router_table_name = ''router'', dy_message_table_names = [''m5'', ''m6''],
      dy_current_message_month = ''m6'', dy_max_retries = 1, dy_uuid = decimal_uuids, dy_regex = any_regex,
      dy_sys = fixed_sys 1000\<rparr>"

definition demo_legacy_chans :: "ref_world chan_lib" where
  "demo_legacy_chans =
     \<lparr>ch_unbounded = (\<lambda>x. (0, x)), ch_send = (\<lambda>tx m x. (True, x)), ch_close_drain = (\<lambda>rx x. ([CheckStorage], x))\<rparr>"

text \<open>Every message of the channel is \<open>m\<close>; the registry holds session 7 of user 7.\<close>

definition demo_legacy_server :: "server_notification \<Rightarrow> (string, ref_world) legacy_server" where
  "demo_legacy_server m =
     \<lparr>sv_ddb = demo_storage, sv_endpoint = demo_endpoint, sv_router_url = ''http://r'', sv_endpoint_url = ''http://e/'',
      sv_msg_limit = 100, sv_chan = demo_legacy_chans, sv_rx_poll = (\<lambda>rx x. (Inr (Some (Some m)), x)),
      sv_clients = (\<lambda>x. [7 \<mapsto> \<lparr>rc_uaid = 7, rc_uid = 7, rc_tx = 0\<rparr>]), sv_set_clients = (\<lambda>c x. x),
      sv_broadcaster = (\<lambda>x. tracker_new []), sv_ready = (\<lambda>x. (True, x)), sv_http_client = (\<lambda>x. (True, x)),
      sv_http_put = (\<lambda>url x. (Inr (), x)), sv_ua_parser = (\<lambda>s. None),
      sv_ua_default = \<lparr>wr_name = ''U'', wr_category = ''U'', wr_os = ''U'', wr_os_version = ''U'', wr_version = ''U''\<rparr>\<rparr>"

definition demo_legacy_ws :: "ref_world legacy_ws" where
  "demo_legacy_ws =
     \<lparr>lws_poll = (\<lambda>x. (Inr (Some (Some (ClientHello None None (Some True) None))), x)),
      lws_start_send = (\<lambda>m x. (Inr True, x)), lws_poll_complete = (\<lambda>x. (Inr (Some ()), x)),
      lws_timeout = (\<lambda>x. (Inr None, x))\<rparr>"

definition demo_world :: ref_world where "demo_world = (\<lparr>rt_router = [], rt_messages = []\<rparr>, [])"

fun polls :: "('u, 'x) legacy_server \<Rightarrow> 'x legacy_ws \<Rightarrow> nat \<Rightarrow> 'x unauth_state \<Rightarrow> 'x \<Rightarrow> 'x unauth_state \<times> 'x" where
  "polls A W 0 st x = (st, x)"
| "polls A W (Suc n) st x =
     (case unauth_poll A W st x of (Inr (Some st'), x') \<Rightarrow> polls A W n st' x' | (_, x') \<Rightarrow> (st, x'))"

lemma polls_steps: "polls A W n st x = (st', x') \<Longrightarrow> \<exists>z. (legacy_step A W)\<^sup>*\<^sup>* (Running st, x) (Running st', z)"
proof (induction n arbitrary: st x)
  case (Suc n)
  show ?case
  proof (cases "\<exists>st1 x1. unauth_poll A W st x = (Inr (Some st1), x1)")
    case True
    then obtain st1 x1 where s: "unauth_poll A W st x = (Inr (Some st1), x1)" by blast
    with Suc obtain z where "(legacy_step A W)\<^sup>*\<^sup>* (Running st1, x1) (Running st', z)" by fastforce
    with legacy_step.moves [OF s] show ?thesis by (blast intro: converse_rtranclp_into_rtranclp)
  next
    case False
    with Suc.prems have "st' = st" by (auto split: prod.splits sum.splits option.splits)
    then show ?thesis by blast
  qed
qed auto

lemma polls_reachable:
  assumes "fst (polls A W n (fst (legacy_client_start A ua x)) x) = st"
  shows "legacy_reachable A W (Running st)"
  using polls_steps [of A W n "fst (legacy_client_start A ua x)" x st] assms
  unfolding legacy_reachable_def by (metis prod.collapse)

lemmas demo_legacy_simps = demo_legacy_server_def demo_legacy_ws_def demo_legacy_chans_def demo_storage_def fixed_sys_def
  unauth_poll_def auth_poll_def poll_defs input_defs legacy_client_start_def input_with_timeout_def
  poll_await_hello_def poll_await_process_hello_def poll_await_registry_connect_def poll_await_session_complete_def
  input_or_notif_def future_of_def at_registry_def transition_def leave_registry_def

lemma demo_reaches:
  "\<exists>d. legacy_reachable (demo_legacy_server CheckStorage) demo_legacy_ws (Running (AwaitSessionComplete CheckStorageState d)) \<and>
     lw_uaid (ad_webpush d) = 7"
proof -
  let ?A = "demo_legacy_server CheckStorage"
  have "\<exists>d. fst (polls ?A demo_legacy_ws 8 (fst (legacy_client_start ?A None demo_world)) demo_world) =
      AwaitSessionComplete CheckStorageState d \<and> lw_uaid (ad_webpush d) = 7"
    by (simp add: eval_nat_numeral demo_legacy_simps legacy_hello_def legacy_client_new_def hello_response_new_def
      dynamo_db_user_default_def legacy_clients_connect_def legacy_flags_new_def unacked_messages_def Let_def case_prod_beta)
  then show ?thesis using polls_reachable by metis
qed

section \<open>Witnesses\<close>

theorem legacy_reads_batch_by_batch_witness:
  "\<exists>d. legacy_reachable (demo_legacy_server CheckStorage) demo_legacy_ws (Running (AwaitSessionComplete CheckStorageState d)) \<and>
     lw_direct (ad_webpush d) = [] \<and> lw_stored (ad_webpush d) = []"
proof -
  obtain d where d: "legacy_reachable (demo_legacy_server CheckStorage) demo_legacy_ws (Running (AwaitSessionComplete CheckStorageState d))"
    using demo_reaches by metis
  from legacy_reads_batch_by_batch [OF d] d show ?thesis by (intro exI [of _ d]) simp
qed

definition busy_session :: "uuid \<Rightarrow> auth_data" where
  "busy_session uid =
     \<lparr>ad_webpush = (legacy_client_new (demo_legacy_server Disconnect) (hello_response_new ''m6'' 5) 7 uid '''' 0)
        \<lparr>lw_direct := [sample_notification], lw_stored := [sample_notification\<lparr>n_version := ''w''\<rparr>]\<rparr>,
      ad_broadcast_subs = \<lparr>subs_list = [], subs_count = 0\<rparr>\<rparr>"

text \<open>A session with an unacknowledged topic message.\<close>

definition topic_session :: auth_data where
  "topic_session = (busy_session 7)\<lparr>ad_webpush := (ad_webpush (busy_session 7))
     \<lparr>lw_stored := [sample_notification\<lparr>n_version := ''w'', n_topic := Some ''t'', n_sortkey_timestamp := None\<rparr>]\<rparr>\<rparr>"

theorem legacy_ack_agrees_witness:
  "\<exists>ns st d' c' x'. legacy_on_ack (demo_legacy_server Disconnect) [\<lparr>ack_channel_id = 3, ack_version = ''w''\<rparr>] topic_session demo_world =
       (Inr (Some st), d', demo_world) \<and>
     ack_updates (mem_app 5) [\<lparr>ack_channel_id = 3, ack_version = ''w''\<rparr>]
       (busy_client\<lparr>c_ack_state := (c_ack_state busy_client)\<lparr>a_unacked_stored_notifs := lw_stored (ad_webpush topic_session)\<rparr>\<rparr>,
        mem_empty) = (Inr (), c', x') \<and>
     c_stored c' = lw_stored (ad_webpush d') \<and>
     in_turn (delete_stored (mem_app 5) (c_uaid busy_client)) ns mem_empty = (Inr (), x')"
proof -
  let ?w = "ad_webpush topic_session" and ?u = "\<lparr>ack_channel_id = 3, ack_version = ''w''\<rparr>"
  let ?c = "busy_client\<lparr>c_ack_state := (c_ack_state busy_client)\<lparr>a_unacked_stored_notifs := lw_stored ?w\<rparr>\<rparr>"
  have "c_direct ?c = lw_direct ?w" "c_stored ?c = lw_stored ?w"
    by (simp_all add: busy_client_def busy_session_def topic_session_def)
  from legacy_ack_agrees [OF this, where updates = "[?u]" and A = "mem_app 5" and x = mem_empty
      and L = "demo_legacy_server Disconnect" and y = demo_world]
  obtain ns st d' where l: "legacy_on_ack (demo_legacy_server Disconnect) [?u] topic_session demo_world = (Inr (Some st), d', demo_world)"
    and n: "case in_turn (delete_stored (mem_app 5) (c_uaid ?c)) ns mem_empty of
       (Inr _, x') \<Rightarrow> \<exists>c'. ack_updates (mem_app 5) [?u] (?c, mem_empty) = (Inr (), c', x') \<and>
         c_direct c' = lw_direct (ad_webpush d') \<and> c_stored c' = lw_stored (ad_webpush d')
     | (Inl e, x') \<Rightarrow> \<exists>c'. ack_updates (mem_app 5) [?u] (?c, mem_empty) = (Inl (SmDatabase e), c', x')"
    by (elim exE conjE) (rule that)
  have "\<exists>x'. in_turn (delete_stored (mem_app 5) uaid) ms y = (Inr (), x')" for uaid ms y
    by (induction ms arbitrary: y)
      (simp_all add: delete_stored_def mem_app_def demo_app_def mem_world_client_def mem_client_def in_world_def case_prod_beta)
  then obtain x' where "in_turn (delete_stored (mem_app 5) (c_uaid ?c)) ns mem_empty = (Inr (), x')" by blast
  with l n show ?thesis by (auto simp: busy_client_def)
qed

theorem legacy_session_end_witness:
  "(\<exists>response x. unauth_poll (demo_legacy_server Disconnect) demo_legacy_ws
      (AwaitRegistryDisconnect response (busy_session 7) None) demo_world = (Inr (Some UnAuthDone), x) \<and>
      (\<exists>item z1. item_of decimal_uuids any_regex 7 item sample_notification \<and>
         (\<exists>z r. legacy_call demo_storage (DatabaseError ''Error saving notifications'')
           (dl_batch_write_item (dy_ddb demo_storage) [(''m6'', [item])]) z = (r, z1)))) \<and>
   (\<exists>response. unauth_poll (demo_legacy_server Disconnect) demo_legacy_ws
      (AwaitRegistryDisconnect response (busy_session 8) None) demo_world = (Inl user_not_connected, demo_world))"
proof -
  let ?A = "demo_legacy_server Disconnect"
  have e: "\<exists>response. unauth_poll ?A demo_legacy_ws (AwaitSessionComplete AwaitInput (busy_session uid)) demo_world =
      (Inr (Some (AwaitRegistryDisconnect response (busy_session uid) None)), demo_world)" for uid
    by (simp add: demo_legacy_simps busy_session_def ordinary_end_def Let_def)
  have r: "sv_ready ?A demo_world = (True, demo_world)" by (simp add: demo_legacy_simps)
  have d: "ch_close_drain (sv_chan ?A) rx (sv_set_clients ?A c demo_world) = ([CheckStorage], demo_world)" for rx c
    by (simp add: demo_legacy_simps)
  have direct: "lw_direct (ad_webpush (busy_session uid)) = [sample_notification]" "lw_uaid (ad_webpush (busy_session uid)) = 7"
    "lw_message_month (ad_webpush (busy_session uid)) = ''m6''" for uid
    by (simp_all add: busy_session_def legacy_client_new_def hello_response_new_def)
  have u: "[sample_notification] = lw_direct (ad_webpush (busy_session uid)) @ queued_notifs [CheckStorage]" for uid
    by (simp add: direct queued_notifs_def map_filter_simps)
  have lib: "uuid_lib_ok (dy_uuid (sv_ddb ?A))" and S: "sv_ddb ?A = demo_storage" "dy_uuid demo_storage = decimal_uuids"
    by (simp_all add: demo_legacy_server_def demo_storage_def decimal_uuids_ok)
  have t: "\<forall>n \<in> set [sample_notification]. \<forall>t. n_topic n = Some t \<longrightarrow> key_text t" by (simp add: sample_notification_def)
  have reg: "still_registered (sv_clients ?A demo_world) (ad_webpush (busy_session uid)) \<longleftrightarrow> uid = 7" for uid
    by (auto simp: still_registered_def demo_legacy_simps busy_session_def legacy_client_new_def)
  have same: "sv_set_clients ?A c demo_world = demo_world" for c by (simp add: demo_legacy_simps)
  obtain r7 where r7: "unauth_poll ?A demo_legacy_ws (AwaitSessionComplete AwaitInput (busy_session 7)) demo_world =
      (Inr (Some (AwaitRegistryDisconnect r7 (busy_session 7) None)), demo_world)" using e [of 7] by blast
  obtain r8 where r8: "unauth_poll ?A demo_legacy_ws (AwaitSessionComplete AwaitInput (busy_session 8)) demo_world =
      (Inr (Some (AwaitRegistryDisconnect r8 (busy_session 8) None)), demo_world)" using e [of 8] by blast
  have away: "unauth_poll ?A demo_legacy_ws (AwaitRegistryDisconnect r8 (busy_session 8) None) demo_world =
      (Inl user_not_connected, demo_world)"
    using legacy_session_end [OF r8 r d u lib any_regex_ok t] reg [of 8] same by simp
  from legacy_session_end [OF r7 r d u lib any_regex_ok t] reg [of 7]
  obtain y3 items z rr z1 where left: "unauth_poll ?A demo_legacy_ws (AwaitRegistryDisconnect r7 (busy_session 7) None) demo_world =
        (Inr (Some UnAuthDone), y3)"
      and items: "list_all2 (item_of decimal_uuids any_regex 7) items [sample_notification]"
      and call: "legacy_call demo_storage (DatabaseError ''Error saving notifications'')
        (dl_batch_write_item (dy_ddb demo_storage) [(''m6'', items)]) z = (rr, z1)"
    by (simp only: if_True simp_thms S direct list.distinct if_False) (elim exE conjE, rule that)
  from items obtain item where "items = [item]" "item_of decimal_uuids any_regex 7 item sample_notification"
    by (auto simp: list_all2_Cons2)
  with away left call show ?thesis by blast
qed

theorem saved_batch_keys_distinct_witness:
  "\<not> distinct (map nr_chidmessageid (fst (legacy_from_notifs demo_storage 7
      (map saved_form [sample_notification, sample_notification\<lparr>n_version := ''w''\<rparr>]) demo_world)))"
proof -
  have "uuid_lib_ok (dy_uuid demo_storage)" using decimal_uuids_ok by (simp add: demo_storage_def)
  moreover have "sys_now_ms (dy_sys demo_storage) x = (1000000, x)" for x by (simp add: demo_storage_def fixed_sys_def)
  ultimately show ?thesis
    using saved_batch_keys_distinct [of demo_storage 1000000 "[sample_notification, sample_notification\<lparr>n_version := ''w''\<rparr>]" 7 demo_world]
    by (simp add: sample_notification_def)
qed

lemma legacy_user_item_get:
  "hm_get (dynamo_db_user_to_item lib u) ''uaid'' = Some (AttrS (uuid_simple lib (du_uaid u)))"
  "hm_get (dynamo_db_user_to_item lib u) ''connected_at'' = Some (attr_n (du_connected_at u))"
  "hm_get (dynamo_db_user_to_item lib u) ''router_type'' = Some (AttrS (du_router_type u))"
  "hm_get (dynamo_db_user_to_item lib u) ''router_data'' =
     Some (case du_router_data u of None \<Rightarrow> AttrNull | Some m \<Rightarrow> AttrM (map (\<lambda>(k, v). (k, AttrJson v)) m))"
  "hm_get (dynamo_db_user_to_item lib u) ''last_connect'' = map_option attr_n (du_last_connect u)"
  "hm_get (dynamo_db_user_to_item lib u) ''node_id'' = map_option AttrS (du_node_id u)"
  "hm_get (dynamo_db_user_to_item lib u) ''record_version'' = map_option (\<lambda>v. attr_n (ucast v)) (du_record_version u)"
  "hm_get (dynamo_db_user_to_item lib u) ''current_month'' = map_option AttrS (du_current_month u)"
  by (simp_all add: dynamo_db_user_to_item_def map_add_def split: option.split)

lemma attr_u8_read: "attr_u8 (attr_n (ucast v)) = Some v"
proof -
  have "(ucast v :: 64 word) < 256" using unsigned_less [of v, where 'a = nat] by (auto simp: word_less_nat_alt unsigned_ucast_eq intro: le_less_trans [OF take_bit_nat_less_eq_self])
  then show ?thesis by (simp add: attr_u8_def ucast_up_ucast_id is_up)
qed

text \<open>The rows of this server's users are read back as written.\<close>

lemma legacy_user_roundtrip:
  assumes "uuid_lib_ok lib"
  shows "dynamo_db_user_from_item lib (dynamo_db_user_to_item lib u) = Inr u"
proof -
  let ?i = "dynamo_db_user_to_item lib u"
  have 1: "field ?i ''uaid'' (\<lambda>a. Option.bind (attr_string a) (uuid_parse lib)) = Inr (du_uaid u)"
    "field ?i ''connected_at'' attr_u64 = Inr (du_connected_at u)"
    "field ?i ''router_type'' attr_string = Inr (du_router_type u)"
    using uuid_simple_parse [OF assms] by (simp_all add: field_def legacy_user_item_get)
  have 2: "opt_field ?i ''router_data'' (attr_map attr_json) = Inr (du_router_data u)"
    by (cases "du_router_data u") (simp_all add: opt_field_def attr_map_def legacy_user_item_get)
  have 3: "opt_field ?i ''last_connect'' attr_u64 = Inr (du_last_connect u)"
    "opt_field ?i ''node_id'' attr_string = Inr (du_node_id u)"
    "opt_field ?i ''record_version'' attr_u8 = Inr (du_record_version u)"
    "opt_field ?i ''current_month'' attr_string = Inr (du_current_month u)"
    by (auto intro!: opt_field_skip simp: legacy_user_item_get attr_u8_read)
  show ?thesis by (simp add: dynamo_db_user_from_item_def 1 2 3)
qed

lemma demo_storage_simps:
  "dy_ddb demo_storage = ref_service" "dy_uuid demo_storage = decimal_uuids" "dy_sys demo_storage = fixed_sys 1000"
  "dy_message_table_names demo_storage = [''m5'', ''m6'']" "dy_current_message_month demo_storage = ''m6''"
  "dy_router_table_name demo_storage = ''router''" "dy_max_retries demo_storage = Suc 0"
  by (simp_all add: demo_storage_def)

lemma demo_router_ok: "legacy_router_ok demo_storage ref_view"
proof -
  have "lands ref_view (dl_put_item ref_service \<lparr>pi_table = ''router'', pi_item = i, pi_values = vs, pi_condition = Some c\<rparr>)
      (router_condition c vs k) (\<lambda>t t'. t' = put_router k (Some (hm_get i)) t) no_answer"
    if "hm_get i ''uaid'' = Some (AttrS k)" for i k vs c
    using that by (simp add: ref_service_def text_at_def Let_def)
      (rule served_lands; simp add: condition_met_def ref_view_eqs no_answer_def)
  moreover have "lands ref_view (dl_get_item ref_service ''router'' [(''uaid'', AttrS k)])
      (\<lambda>_. True) (\<lambda>t t'. t' = t) (reads (\<lambda>t. tb_router t k))" for k
    by (simp add: ref_service_def text_at_def) (rule served_lands; simp add: reads_def)
  ultimately show ?thesis
    using decimal_uuids_ok by (simp add: legacy_router_ok_def demo_storage_def fixed_sys_def)
qed

definition demo_user :: dynamo_db_user where
  "demo_user = \<lparr>du_uaid = 7, du_connected_at = 4, du_router_type = ''webpush'', du_router_data = None,
     du_last_connect = Some 202406, du_node_id = None, du_record_version = Some 1, du_current_month = Some ''m5''\<rparr>"

definition known_world :: ref_world where
  "known_world = (\<lparr>rt_router = [(''7'', dynamo_db_user_to_item decimal_uuids demo_user)], rt_messages = []\<rparr>, [])"

theorem legacy_hello_claims_row_witness:
  "\<exists>h x'. legacy_hello demo_storage 9 (Some 7) ''http://r'' False known_world = (Inr h, x') \<and>
     he_uaid h = Some 7 \<and> he_message_month h = ''m5'' \<and>
     Option.bind (tb_router (ref_view x') ''7'') (\<lambda>i. i ''last_connect'') = None"
proof -
  let ?k = "uuid_simple (dy_uuid demo_storage) 7"
  have k: "?k = ''7''" by (simp add: demo_storage_def decimal_uuids_def) (code_simp)
  have i: "tb_router (ref_view known_world) ?k = Some (hm_get (dynamo_db_user_to_item decimal_uuids demo_user))"
    unfolding k by (simp add: known_world_def)
  have u: "dynamo_db_user_from_item (dy_uuid demo_storage) (dynamo_db_user_to_item decimal_uuids demo_user) = Inr demo_user"
    using legacy_user_roundtrip [OF decimal_uuids_ok] by (simp add: demo_storage_def)
  have g: "legacy_get_uaid demo_storage 7 known_world =
      (Inr (Some (dynamo_db_user_to_item decimal_uuids demo_user)), known_world)"
    using k by (simp add: legacy_get_uaid_def legacy_call_def legacy_uaid_key_def demo_storage_def
      ref_service_def served_def known_world_def text_at_def)
  have u': "dynamo_db_user_from_item decimal_uuids (dynamo_db_user_to_item decimal_uuids demo_user) = Inr demo_user"
    by (rule legacy_user_roundtrip [OF decimal_uuids_ok])
  have fields: "du_current_month demo_user = Some ''m5''" "du_uaid demo_user = 7" "du_last_connect demo_user = Some 202406" by (simp_all add: demo_user_def)
  have r: "\<exists>x'. legacy_register_user demo_storage (demo_user\<lparr>du_last_connect := None, du_node_id := Some ''http://r'', du_connected_at := 9\<rparr>) known_world = (Inr (), x')"
    using k by (simp add: legacy_register_user_def legacy_call_def demo_storage_simps ref_service_def condition_met_def register_condition served_def
      known_world_def text_at_def legacy_user_item_get can_register_def demo_user_def Let_def)
  have month: "starts_with ''202406'' (show_u64 202406)"
    by (simp add: show_u64_def show_nat.simps digit_char_def starts_with_def) code_simp
  have "\<exists>h. handle_user_result demo_storage 9 ''http://r'' (Some (dynamo_db_user_to_item decimal_uuids demo_user))
      (hello_response_new ''m6'' 9) known_world =
      (Inr (demo_user\<lparr>du_last_connect := None, du_node_id := Some ''http://r'', du_connected_at := 9\<rparr>), h, known_world)"
    by (simp add: handle_user_result_def u' demo_storage_simps fields legacy_has_connected_this_month_def fixed_sys_def
      case_prod_beta Let_def month)
  then obtain h0 where "handle_user_result demo_storage 9 ''http://r'' (Some (dynamo_db_user_to_item decimal_uuids demo_user))
      (hello_response_new ''m6'' 9) known_world =
      (Inr (demo_user\<lparr>du_last_connect := None, du_node_id := Some ''http://r'', du_connected_at := 9\<rparr>), h0, known_world)" by blast
  moreover obtain x' where "legacy_register_user demo_storage (demo_user\<lparr>du_last_connect := None, du_node_id := Some ''http://r'', du_connected_at := 9\<rparr>)
      known_world = (Inr (), x')" using r by blast
  ultimately have "\<exists>h x'. legacy_hello demo_storage 9 (Some 7) ''http://r'' False known_world = (Inr h, x') \<and> he_uaid h = Some 7"
    using g fields by (cases x') (simp add: legacy_hello_def lookup_user_def demo_storage_simps)
  then obtain h x' where h: "legacy_hello demo_storage 9 (Some 7) ''http://r'' False known_world = (Inr h, x')" "he_uaid h = Some 7" by blast
  have clock: "fst (sys_year_month (dy_sys demo_storage) x) = ''202406''" "fst (sys_last_connect (dy_sys demo_storage) x) = 0" for x
    by (simp_all add: demo_storage_simps fixed_sys_def)
  have "''m5'' \<in> set (dy_message_table_names demo_storage)" by (simp add: demo_storage_simps)
  with month legacy_hello_claims_row [OF demo_router_ok i u fields(2,1) _ clock h(1)] h show ?thesis
    unfolding k by (auto simp: demo_user_def demo_storage_def fixed_sys_def Let_def dynamo_db_user_to_item_def)
qed

end
