(* ===== verification/LegacyServer.thy ===== *)
theory LegacyServer
  imports LegacySession
begin

text \<open>
  What surrounds a session of the older server, from \<open>autopush/src/server/mod.rs\<close> and
  \<open>server/dispatch.rs\<close>: the websocket as a stream and sink of the protocol's messages, the
  pings, the closing handshake, what a new connection asks for, and the poll of the broadcast
  service. The stream of tungstenite, the timer and \<open>httparse\<close> are parameters.
\<close>

section \<open>The websocket\<close>

datatype legacy_message = MsgText string | MsgBinary | MsgPing | MsgPong | MsgClose

record webpush_socket =
  wk_pong_received :: bool
  wk_ping :: bool
  wk_pong_timeout :: bool
  wk_broadcast_delta :: "broadcast list option"

definition webpush_socket_new :: webpush_socket where
  "webpush_socket_new =
     \<lparr>wk_pong_received = False, wk_ping = False, wk_pong_timeout = False, wk_broadcast_delta = None\<rparr>"

text \<open>
  The inner stream and sink, whose errors are already converted, the wake-up of the task, and
  the timer of the ping manager. The socket is shared with the session, so it is in the world.
\<close>

record 'x socket_lib =
  so_json :: json_lib
  so_get :: "'x \<Rightarrow> webpush_socket"
  so_set :: "webpush_socket \<Rightarrow> 'x \<Rightarrow> 'x"
  so_poll :: "(legacy_message option, 'x) future"
  so_start_send :: "legacy_message \<Rightarrow> (bool, 'x) apc_op"
  so_poll_complete :: "(unit, 'x) future"
  so_close :: "(unit, 'x) future"
  so_notify :: "'x \<Rightarrow> 'x"
  tm_poll :: "(bool, 'x) apc_op"
  tm_reset :: "nat \<Rightarrow> 'x \<Rightarrow> 'x"

abbreviation upd_socket :: "'x socket_lib \<Rightarrow> (webpush_socket \<Rightarrow> webpush_socket) \<Rightarrow> 'x \<Rightarrow> 'x" where
  "upd_socket L f x \<equiv> so_set L (f (so_get L x)) x"

definition send_ws_ping :: "'x socket_lib \<Rightarrow> (unit, 'x) future" where
  "send_ws_ping L x =
     (if wk_ping (so_get L x)
      then andThen
        (case wk_broadcast_delta (so_get L x) of
           Some broadcasts \<Rightarrow>
             (case server_message_to_json (so_json L) (ServerBroadcast (vec_into_hashmap broadcasts)) of
                Inl e \<Rightarrow> (Inl (ApcJson e), x)
              | Inr s \<Rightarrow> so_start_send L (MsgText s) x)
         | None \<Rightarrow> so_start_send L MsgPing x)
        (\<lambda>accepted x1.
          if accepted then (Inr (Some ()), upd_socket L (\<lambda>k. k\<lparr>wk_ping := False\<rparr>) x1) else (Inr None, x1))
      else (Inr (Some ()), x))"

text \<open>Pings and pongs are passed over, so a poll may read several messages.\<close>

partial_function (option) webpush_socket_poll ::
  "'x socket_lib \<Rightarrow> 'x \<Rightarrow> (apc_error, client_message option option, 'x) outcome option" where
  "webpush_socket_poll L x =
     (case so_poll L x of
        (Inl e, x1) \<Rightarrow> Some (Inl e, x1)
      | (Inr None, x1) \<Rightarrow>
          Some (if wk_pong_timeout (so_get L x1) then Inl ApcPongTimeout else Inr None, x1)
      | (Inr (Some None), x1) \<Rightarrow> Some (Inr (Some None), x1)
      | (Inr (Some (Some msg)), x1) \<Rightarrow>
          (case msg of
             MsgText s \<Rightarrow>
               Some (case client_message_from_str (so_json L) s of
                 Inl _ \<Rightarrow> Inl (ApcInvalidClientMessage s) | Inr m \<Rightarrow> Inr (Some (Some m)), x1)
           | MsgBinary \<Rightarrow> Some (Inl (ApcInvalidClientMessage ''binary content''), x1)
           | MsgPing \<Rightarrow> webpush_socket_poll L x1
           | MsgPong \<Rightarrow>
               webpush_socket_poll L (so_notify L
                 (upd_socket L (\<lambda>k. k\<lparr>wk_pong_received := True, wk_pong_timeout := False\<rparr>) x1))
           | MsgClose \<Rightarrow> Some (Inl (ApcWs ''ConnectionClosed''), x1)))"

definition webpush_socket_start_send :: "'x socket_lib \<Rightarrow> server_message \<Rightarrow> (bool, 'x) apc_op" where
  "webpush_socket_start_send L msg x =
     andThen (send_ws_ping L x) (\<lambda>sent x1.
       if sent = None then (Inr False, x1)
       else
         (case server_message_to_json (so_json L) msg of
            Inl _ \<Rightarrow> (Inl (GeneralError ''failed to serialize''), x1)
          | Inr s \<Rightarrow> so_start_send L (MsgText s) x1))"

definition webpush_socket_poll_complete :: "'x socket_lib \<Rightarrow> (unit, 'x) future" where
  "webpush_socket_poll_complete L x = try_ready (send_ws_ping L x) (\<lambda>_. so_poll_complete L)"

definition webpush_socket_close :: "'x socket_lib \<Rightarrow> (unit, 'x) future" where
  "webpush_socket_close L x = try_ready (webpush_socket_poll_complete L x) (\<lambda>_. so_close L)"

text \<open>
  The socket as the session uses it, with the timer of the handshake; a poll that reads without
  end counts as not ready.
\<close>

definition webpush_ws :: "'x socket_lib \<Rightarrow> (unit, 'x) future \<Rightarrow> 'x legacy_ws" where
  "webpush_ws L timeout =
     \<lparr>lws_poll = (\<lambda>x. case webpush_socket_poll L x of None \<Rightarrow> (Inr None, x) | Some r \<Rightarrow> r),
      lws_start_send = webpush_socket_start_send L, lws_poll_complete = webpush_socket_poll_complete L,
      lws_timeout = timeout\<rparr>"

section \<open>The client\<close>

text \<open>The subscriptions are shared between the session and the ping manager.\<close>

fun map_auth_data :: "(auth_data \<Rightarrow> auth_data) \<Rightarrow> 'x unauth_state \<Rightarrow> 'x unauth_state" where
  "map_auth_data f (AwaitRegistryConnect r d) = AwaitRegistryConnect r (f d)"
| "map_auth_data f (AwaitSessionComplete st d) = AwaitSessionComplete st (f d)"
| "map_auth_data f (AwaitRegistryDisconnect r d e) = AwaitRegistryDisconnect r (f d) e"
| "map_auth_data f st = st"

fun client_data :: "'x unauth_state \<Rightarrow> auth_data option" where
  "client_data (AwaitRegistryConnect r d) = Some d"
| "client_data (AwaitSessionComplete st d) = Some d"
| "client_data (AwaitRegistryDisconnect r d e) = Some d"
| "client_data st = None"

text \<open>Before the handshake nothing is subscribed to, so there is no delta.\<close>

definition legacy_client_broadcast_delta ::
  "('u, 'x) legacy_server \<Rightarrow> 'x unauth_state \<Rightarrow> 'x \<Rightarrow> broadcast list option \<times> 'x unauth_state" where
  "legacy_client_broadcast_delta A st x =
     (case client_data st of
        None \<Rightarrow> (None, st)
      | Some d \<Rightarrow>
          (let (delta, subs) = change_count_delta (sv_broadcaster A x) (ad_broadcast_subs d)
           in (delta, map_auth_data (\<lambda>d. d\<lparr>ad_broadcast_subs := subs\<rparr>) st)))"

text \<open>A poll goes on from state to state until one is not ready; it is over in the last.\<close>

partial_function (option) legacy_client_poll ::
  "('u, 'x) legacy_server \<Rightarrow> 'x legacy_ws \<Rightarrow> 'x unauth_state \<Rightarrow> 'x \<Rightarrow>
     ((apc_error + 'x unauth_state option) \<times> 'x) option" where
  "legacy_client_poll A W st x =
     (case st of
        UnAuthDone \<Rightarrow> Some (Inr None, x)
      | _ \<Rightarrow>
          (case unauth_poll A W st x of
             (Inl e, x1) \<Rightarrow> Some (Inl e, x1)
           | (Inr None, x1) \<Rightarrow> Some (Inr (Some st), x1)
           | (Inr (Some st'), x1) \<Rightarrow> legacy_client_poll A W st' x1))"

section \<open>Pings\<close>

datatype waiting_for = WaitSendPing | WaitPong | WaitClose

datatype 'x close_state = Exchange "'x unauth_state" | Closing

record 'x legacy_ping_manager =
  pm_waiting :: waiting_for
  pm_client :: "'x close_state"

record ping_settings =
  pg_auto_ping_interval :: nat
  pg_auto_ping_timeout :: nat
  pg_close_handshake_timeout :: "nat option"

definition ping_manager_start :: "'x unauth_state \<Rightarrow> 'x legacy_ping_manager" where
  "ping_manager_start client = \<lparr>pm_waiting = WaitSendPing, pm_client = Exchange client\<rparr>"

text \<open>
  A turn of the loop has two halves; each ends the loop, goes on, or fails. The first sends a
  ping that is due, or the broadcasts that changed in its place.
\<close>

type_synonym 'x ping_after = "(apc_error, bool, 'x legacy_ping_manager \<times> 'x) outcome"

definition gather_delta ::
  "('u, 'x) legacy_server \<Rightarrow> 'x socket_lib \<Rightarrow> 'x legacy_ping_manager \<Rightarrow> 'x \<Rightarrow> 'x legacy_ping_manager \<times> 'x" where
  "gather_delta A L pm x =
     (case pm_client pm of
        Closing \<Rightarrow> (pm, x)
      | Exchange st \<Rightarrow>
          if wk_broadcast_delta (so_get L x) \<noteq> None then (pm, x)
          else
            (case legacy_client_broadcast_delta A st x of
               (None, st1) \<Rightarrow> (pm\<lparr>pm_client := Exchange st1\<rparr>, x)
             | (Some delta, st1) \<Rightarrow>
                 (pm\<lparr>pm_client := Exchange st1\<rparr>, upd_socket L (\<lambda>k. k\<lparr>wk_broadcast_delta := Some delta\<rparr>) x)))"

definition ping_due ::
  "('u, 'x) legacy_server \<Rightarrow> 'x socket_lib \<Rightarrow> ping_settings \<Rightarrow> 'x legacy_ping_manager \<Rightarrow> 'x \<Rightarrow> 'x ping_after" where
  "ping_due A L cfg pm x =
     (if \<not> wk_ping (so_get L x) then (Inr False, pm, x)
      else
        (let (pm1, x1) = gather_delta A L pm x in
         case send_ws_ping L x1 of
           (Inl e, x2) \<Rightarrow> (Inl e, pm1, x2)
         | (Inr None, x2) \<Rightarrow> (Inr True, pm1, x2)
         | (Inr (Some _), x2) \<Rightarrow>
             if wk_broadcast_delta (so_get L x2) \<noteq> None
             then (Inr False, pm1\<lparr>pm_waiting := WaitSendPing\<rparr>,
               upd_socket L (\<lambda>k. k\<lparr>wk_broadcast_delta := None\<rparr>) (tm_reset L (pg_auto_ping_interval cfg) x2))
             else (Inr False, pm1\<lparr>pm_waiting := WaitPong\<rparr>, tm_reset L (pg_auto_ping_timeout cfg) x2)))"

text \<open>The second acts on what is awaited. The debug assertions are not part of a release build.\<close>

definition ping_wait ::
  "('u, 'x) legacy_server \<Rightarrow> 'x socket_lib \<Rightarrow> ping_settings \<Rightarrow> 'x legacy_ping_manager \<Rightarrow> 'x \<Rightarrow> 'x ping_after" where
  "ping_wait A L cfg pm x =
     (case pm_waiting pm of
        WaitSendPing \<Rightarrow>
          (case tm_poll L x of
             (Inl e, x1) \<Rightarrow> (Inl e, pm, x1)
           | (Inr True, x1) \<Rightarrow> (Inr False, pm, upd_socket L (\<lambda>k. k\<lparr>wk_ping := True\<rparr>) x1)
           | (Inr False, x1) \<Rightarrow> (Inr True, pm, x1))
      | WaitPong \<Rightarrow>
          if wk_pong_received (so_get L x)
          then (Inr False, pm\<lparr>pm_waiting := WaitSendPing\<rparr>,
            upd_socket L (\<lambda>k. k\<lparr>wk_pong_received := False\<rparr>) (tm_reset L (pg_auto_ping_interval cfg) x))
          else if wk_pong_timeout (so_get L x) then (Inr True, pm, x)
          else
            (case tm_poll L x of
               (Inl e, x1) \<Rightarrow> (Inl e, pm, x1)
             | (Inr True, x1) \<Rightarrow> (Inr False, pm, upd_socket L (\<lambda>k. k\<lparr>wk_pong_timeout := True\<rparr>) x1)
             | (Inr False, x1) \<Rightarrow> (Inr True, pm, x1))
      | WaitClose \<Rightarrow>
          (case tm_poll L x of
             (Inl e, x1) \<Rightarrow> (Inl e, pm, x1)
           | (Inr True, x1) \<Rightarrow>
               (Inl (GeneralError ''close handshake took too long''), pm,
                case pm_client pm of
                  Exchange st \<Rightarrow>
                    snd (ch_send (sv_chan A) (case client_data st of Some d \<Rightarrow> lw_rx (ad_webpush d)
                      | None \<Rightarrow> (case st of AwaitHello _ tx \<Rightarrow> tx | AwaitProcessHello _ _ _ tx \<Rightarrow> tx | _ \<Rightarrow> 0))
                      Disconnect x1)
                | Closing \<Rightarrow> x1)
           | (Inr False, x1) \<Rightarrow> (Inr False, pm, x1)))"

definition ping_turn ::
  "('u, 'x) legacy_server \<Rightarrow> 'x socket_lib \<Rightarrow> ping_settings \<Rightarrow> 'x legacy_ping_manager \<Rightarrow> 'x \<Rightarrow> 'x ping_after" where
  "ping_turn A L cfg pm x =
     andThen (ping_due A L cfg pm x) (\<lambda>break (pm1, x1).
       if break then (Inr True, pm1, x1) else ping_wait A L cfg pm1 x1)"

partial_function (option) ping_loop ::
  "('u, 'x) legacy_server \<Rightarrow> 'x socket_lib \<Rightarrow> ping_settings \<Rightarrow> 'x legacy_ping_manager \<Rightarrow> 'x \<Rightarrow>
     ((apc_error + unit) \<times> 'x legacy_ping_manager \<times> 'x) option" where
  "ping_loop A L cfg pm x =
     (case ping_turn A L cfg pm x of
        (Inl e, s) \<Rightarrow> Some (Inl e, s)
      | (Inr break, pm1, x1) \<Rightarrow> if break then Some (Inr (), pm1, x1) else ping_loop A L cfg pm1 x1)"

text \<open>
  \<open>PingManager::poll\<close>: the loop, a flush of the socket, then the client and, when it is done,
  the closing handshake, which may be limited in time.
\<close>

definition close_or_wait :: "'x socket_lib \<Rightarrow> 'x legacy_ping_manager \<Rightarrow> 'x \<Rightarrow> (apc_error, unit option, 'x legacy_ping_manager \<times> 'x) outcome" where
  "close_or_wait L pm x = (case webpush_socket_close L x of (r, x1) \<Rightarrow> (r, pm, x1))"

definition ping_manager_poll ::
  "('u, 'x) legacy_server \<Rightarrow> 'x socket_lib \<Rightarrow> 'x legacy_ws \<Rightarrow> ping_settings \<Rightarrow> 'x legacy_ping_manager \<Rightarrow> 'x \<Rightarrow>
     (apc_error, unit option, 'x legacy_ping_manager \<times> 'x) outcome option" where
  "ping_manager_poll A L W cfg pm x =
     (case ping_loop A L cfg pm x of
        None \<Rightarrow> None
      | Some (Inl e, s) \<Rightarrow> Some (Inl e, s)
      | Some (Inr _, pm1, x1) \<Rightarrow>
          (case webpush_socket_poll_complete L x1 of
             (Inl _, x2) \<Rightarrow> Some (Inl (GeneralError ''failed routine `poll_complete` call''), pm1, x2)
           | (Inr _, x2) \<Rightarrow>
               (case pm_client pm1 of
                  Closing \<Rightarrow> Some (close_or_wait L pm1 x2)
                | Exchange st \<Rightarrow>
                    (case legacy_client_poll A W st x2 of
                       None \<Rightarrow> None
                     | Some (Inl e, x3) \<Rightarrow> Some (Inl e, pm1, x3)
                     | Some (Inr (Some st1), x3) \<Rightarrow> Some (Inr None, pm1\<lparr>pm_client := Exchange st1\<rparr>, x3)
                     | Some (Inr None, x3) \<Rightarrow>
                         Some (case pg_close_handshake_timeout cfg of
                            None \<Rightarrow> close_or_wait L (pm1\<lparr>pm_client := Closing\<rparr>) x3
                          | Some dur \<Rightarrow>
                              close_or_wait L (pm1\<lparr>pm_client := Closing, pm_waiting := WaitClose\<rparr>) (tm_reset L dur x3))))))"

end
