(* ===== verification/LegacyPing.thy ===== *)
theory LegacyPing
  imports LegacyServer
begin

text \<open>
  When a poll of the older server's ping manager comes to an end, and what it makes of the
  closing handshake.
\<close>

section \<open>The socket and the timer\<close>

text \<open>
  The timer fires once its time has come, the clock standing still during a poll; a timer that
  was just set is not due. Neither it nor the inner stream touches the flags of the socket.
\<close>

definition socket_ok :: "'x socket_lib \<Rightarrow> ('x \<Rightarrow> bool) \<Rightarrow> bool" where
  "socket_ok L due \<longleftrightarrow>
     (\<forall>k x. so_get L (so_set L k x) = k \<and> due (so_set L k x) = due x) \<and>
     (\<forall>x. fst (tm_poll L x) = Inr (due x) \<and> so_get L (snd (tm_poll L x)) = so_get L x \<and>
        due (snd (tm_poll L x)) = due x) \<and>
     (\<forall>n x. so_get L (tm_reset L n x) = so_get L x \<and> (0 < n \<longrightarrow> \<not> due (tm_reset L n x))) \<and>
     (\<forall>m x. so_get L (snd (so_start_send L m x)) = so_get L x)"

lemma socket_ok_simps:
  assumes "socket_ok L due"
  shows "so_get L (so_set L k x) = k" "due (so_set L k x) = due x" "so_get L (tm_reset L n x) = so_get L x"
    "so_get L (snd (so_start_send L m x)) = so_get L x" "0 < n \<Longrightarrow> \<not> due (tm_reset L n x)"
  using assms by (simp_all add: socket_ok_def)

lemma tm_poll_cases:
  assumes "socket_ok L due"
  obtains x1 where "tm_poll L x = (Inr (due x), x1)" "so_get L x1 = so_get L x" "due x1 = due x"
  using assms by (cases "tm_poll L x") (auto simp: socket_ok_def, metis fst_conv snd_conv)

section \<open>The loop ends\<close>

abbreviation loop_ends :: "('u, 'x) legacy_server \<Rightarrow> 'x socket_lib \<Rightarrow> ping_settings \<Rightarrow> 'x legacy_ping_manager \<Rightarrow> 'x \<Rightarrow> bool" where
  "loop_ends A L cfg pm x \<equiv> ping_loop A L cfg pm x \<noteq> None"

lemma ping_turn_quiet: "\<not> wk_ping (so_get L x) \<Longrightarrow> ping_turn A L cfg pm x = ping_wait A L cfg pm x"
  by (simp add: ping_turn_def ping_due_def)

lemma loop_ends_if:
  assumes "\<And>e s. ping_turn A L cfg pm x = (Inl e, s) \<Longrightarrow> ok"
    and "\<And>s. ping_turn A L cfg pm x = (Inr True, s) \<Longrightarrow> ok"
    and "\<And>pm1 x1. ping_turn A L cfg pm x = (Inr False, pm1, x1) \<Longrightarrow> loop_ends A L cfg pm1 x1"
  shows "loop_ends A L cfg pm x"
  using assms(3) by (subst ping_loop.simps) (auto split: prod.split sum.split)

lemma send_quiet_ends:
  assumes ok: "socket_ok L due" and "\<not> wk_ping (so_get L x)" "\<not> due x" "pm_waiting pm = WaitSendPing"
  shows "loop_ends A L cfg pm x"
proof -
  from ok obtain x1 where "tm_poll L x = (Inr (due x), x1)" by (rule tm_poll_cases)
  with assms show ?thesis by (subst ping_loop.simps) (simp add: ping_turn_quiet ping_wait_def)
qed

lemma pong_ends:
  assumes ok: "socket_ok L due" and quiet: "\<not> wk_ping (so_get L x)" and pong: "pm_waiting pm = WaitPong"
    and cfg: "0 < pg_auto_ping_interval cfg"
  shows "loop_ends A L cfg pm x"
proof -
  note ok_simps = socket_ok_simps [OF ok]
  from ok obtain x1 where t: "tm_poll L x = (Inr (due x), x1)" "so_get L x1 = so_get L x" "due x1 = due x"
    by (rule tm_poll_cases)
  consider (got) "wk_pong_received (so_get L x)" | (late) "\<not> wk_pong_received (so_get L x)" "wk_pong_timeout (so_get L x)"
    | (waits) "\<not> wk_pong_received (so_get L x)" "\<not> wk_pong_timeout (so_get L x)" "\<not> due x"
    | (expires) "\<not> wk_pong_received (so_get L x)" "\<not> wk_pong_timeout (so_get L x)" "due x" by blast
  then show ?thesis
  proof cases
    case got
    have "loop_ends A L cfg (pm\<lparr>pm_waiting := WaitSendPing\<rparr>)
        (upd_socket L (\<lambda>k. k\<lparr>wk_pong_received := False\<rparr>) (tm_reset L (pg_auto_ping_interval cfg) x))"
      by (rule send_quiet_ends [OF ok]) (use quiet cfg in \<open>simp_all add: ok_simps\<close>)
    with got quiet pong show ?thesis by (subst ping_loop.simps) (simp add: ping_turn_quiet ping_wait_def)
  next
    case expires
    let ?x = "upd_socket L (\<lambda>k. k\<lparr>wk_pong_timeout := True\<rparr>) x1"
    have "loop_ends A L cfg pm ?x"
      using quiet pong expires by (subst ping_loop.simps) (simp add: ping_turn_quiet ping_wait_def ok_simps t)
    with expires quiet pong t show ?thesis by (subst ping_loop.simps) (simp add: ping_turn_quiet ping_wait_def)
  qed (use quiet pong t in \<open>(subst ping_loop.simps, simp add: ping_turn_quiet ping_wait_def)+\<close>)
qed

text \<open>A ping that is due is sent, refused or fails, and is then no longer due.\<close>

lemma send_ws_ping_frame:
  assumes ok: "socket_ok L due" and p: "wk_ping (so_get L x)" and s: "send_ws_ping L x = (Inr (Some u), x1)"
  shows "\<not> wk_ping (so_get L x1)"
  using s p socket_ok_simps [OF ok]
  by (auto simp: send_ws_ping_def andThen_def split: prod.splits sum.splits if_splits option.splits)

lemma gather_delta_frame:
  assumes "socket_ok L due" and "gather_delta A L pm x = (pm1, x1)"
  shows "wk_ping (so_get L x1) = wk_ping (so_get L x)"
  using assms(2) socket_ok_simps(1) [OF assms(1)]
  by (auto simp: gather_delta_def split: close_state.splits if_splits prod.splits option.splits)

lemma ping_sent:
  assumes ok: "socket_ok L due" and p: "wk_ping (so_get L x)"
    and d: "ping_due A L cfg pm x = (Inr False, pm1, x1)"
    and cfg: "0 < pg_auto_ping_interval cfg" "0 < pg_auto_ping_timeout cfg"
  shows "\<not> wk_ping (so_get L x1)" "\<not> due x1" "pm_waiting pm1 \<noteq> WaitClose"
proof -
  note ok_simps = socket_ok_simps [OF ok]
  obtain pm0 x0 where g: "gather_delta A L pm x = (pm0, x0)" by fastforce
  have start: "wk_ping (so_get L x0)" using gather_delta_frame [OF ok g] p by simp
  obtain u x2 where s: "send_ws_ping L x0 = (Inr (Some u), x2)"
    using d p g by (auto simp: ping_due_def split: prod.splits sum.splits option.splits)
  from send_ws_ping_frame [OF ok start s] d p g s cfg
  show "\<not> wk_ping (so_get L x1)" "\<not> due x1" "pm_waiting pm1 \<noteq> WaitClose"
    by (auto simp: ping_due_def ok_simps split: if_splits)
qed

lemma send_ends:
  assumes ok: "socket_ok L due" and p: "wk_ping (so_get L x)"
    and cfg: "0 < pg_auto_ping_interval cfg" "0 < pg_auto_ping_timeout cfg"
  shows "loop_ends A L cfg pm x"
proof (cases "\<exists>pm1 x1. ping_due A L cfg pm x = (Inr False, pm1, x1)")
  case True
  then obtain pm1 x1 where d: "ping_due A L cfg pm x = (Inr False, pm1, x1)" by blast
  note sent = ping_sent [OF ok p d cfg]
  have "loop_ends A L cfg pm1 x1"
    using sent send_quiet_ends [OF ok sent(1,2)] pong_ends [OF ok sent(1) _ cfg(1)] by (cases "pm_waiting pm1") auto
  moreover have "ping_turn A L cfg pm x = ping_turn A L cfg pm1 x1"
    using d sent(1) by (simp add: ping_turn_quiet) (simp add: ping_turn_def)
  ultimately show ?thesis by (subst ping_loop.simps) (subst (asm) ping_loop.simps, simp)
next
  case False
  then obtain r s where d: "ping_due A L cfg pm x = (r, s)" "r \<noteq> Inr False" by (metis prod.collapse)
  then show ?thesis by (cases r; cases s) (subst ping_loop.simps, auto simp: ping_turn_def)+
qed

text \<open>Waiting for the close of a socket whose timer is not due, the loop goes round for ever.\<close>

definition spin_post :: "'x socket_lib \<Rightarrow> ('x \<Rightarrow> bool) \<Rightarrow> ('u, 'x) legacy_server \<Rightarrow> 'x socket_lib \<Rightarrow> ping_settings \<Rightarrow>
    'x legacy_ping_manager \<Rightarrow> 'x \<Rightarrow> (apc_error + unit) \<times> 'x legacy_ping_manager \<times> 'x \<Rightarrow> bool" where
  "spin_post L due A L' cfg pm x r \<longleftrightarrow>
     (L' = L \<and> pm_waiting pm = WaitClose \<and> \<not> wk_ping (so_get L x) \<longrightarrow>
        due x \<and> fst r = Inl (GeneralError ''close handshake took too long''))"

lemma spin_post_step:
  assumes ok: "socket_ok L due"
    and IH: "\<And>A L' cfg pm x r. rec A L' cfg pm x = Some r \<Longrightarrow> spin_post L due A L' cfg pm x r"
    and step: "(case ping_turn A L' cfg pm x of (Inl e, s) \<Rightarrow> Some (Inl e, s)
      | (Inr break, pm1, x1) \<Rightarrow> if break then Some (Inr (), pm1, x1) else rec A L' cfg pm1 x1) = Some r"
  shows "spin_post L due A L' cfg pm x r"
  unfolding spin_post_def
proof (intro impI, elim conjE)
  assume c: "L' = L" "pm_waiting pm = WaitClose" "\<not> wk_ping (so_get L x)"
  obtain x1 where t: "tm_poll L x = (Inr (due x), x1)" "so_get L x1 = so_get L x" "due x1 = due x"
    using ok by (rule tm_poll_cases)
  show "due x \<and> fst r = Inl (GeneralError ''close handshake took too long'')"
  proof (cases "due x")
    case True
    with step c t show ?thesis by (auto simp: ping_turn_quiet ping_wait_def)
  next
    case False
    with step c t have "rec A L cfg pm x1 = Some r" by (simp add: ping_turn_quiet ping_wait_def)
    from IH [OF this] c t False show ?thesis by (simp add: spin_post_def)
  qed
qed

lemma ping_loop_spin_post:
  assumes "socket_ok L due" and "ping_loop A L' cfg pm x = Some r"
  shows "spin_post L due A L' cfg pm x r"
proof -
  note induct = ping_loop.raw_induct [where P = "spin_post L due" and xa = "((((A, L'), cfg), pm), x)" and y = r,
    unfolded prod.case]
  show ?thesis
    by (rule induct) (fact spin_post_step [OF assms(1)], fact assms(2))
qed

lemma close_spins:
  assumes "socket_ok L due" and "ping_loop A L cfg pm x = Some r"
    and "pm_waiting pm = WaitClose" "\<not> wk_ping (so_get L x)"
  shows "due x" and "fst r = Inl (GeneralError ''close handshake took too long'')"
  using ping_loop_spin_post [OF assms(1,2)] assms(3,4) by (simp_all add: spin_post_def)

lemma ping_loop_ends:
  assumes ok: "socket_ok L due" and cfg: "0 < pg_auto_ping_interval cfg" "0 < pg_auto_ping_timeout cfg"
  shows "ping_loop A L cfg pm x \<noteq> None \<longleftrightarrow> pm_waiting pm \<noteq> WaitClose \<or> wk_ping (so_get L x) \<or> due x"
proof -
  obtain x1 where t: "tm_poll L x = (Inr (due x), x1)" "so_get L x1 = so_get L x" "due x1 = due x"
    using ok by (rule tm_poll_cases)
  show "ping_loop A L cfg pm x \<noteq> None \<longleftrightarrow> pm_waiting pm \<noteq> WaitClose \<or> wk_ping (so_get L x) \<or> due x"
  proof
    show "ping_loop A L cfg pm x \<noteq> None \<Longrightarrow> pm_waiting pm \<noteq> WaitClose \<or> wk_ping (so_get L x) \<or> due x"
      using close_spins(1) [OF ok] by blast
  next
    assume a: "pm_waiting pm \<noteq> WaitClose \<or> wk_ping (so_get L x) \<or> due x"
    show "ping_loop A L cfg pm x \<noteq> None"
    proof (cases "wk_ping (so_get L x)")
      case True
      then show ?thesis by (rule send_ends [OF ok _ cfg])
    next
      case quiet: False
      show ?thesis
      proof (cases "pm_waiting pm")
        case WaitSendPing
        have "due x \<Longrightarrow> loop_ends A L cfg pm (upd_socket L (\<lambda>k. k\<lparr>wk_ping := True\<rparr>) x1)"
          by (rule send_ends [OF ok _ cfg]) (simp add: socket_ok_simps [OF ok])
        with WaitSendPing quiet t show ?thesis
          by (subst ping_loop.simps, cases "due x") (simp_all add: ping_turn_quiet ping_wait_def)
      next
        case WaitPong
        then show ?thesis by (rule pong_ends [OF ok quiet _ cfg(1)])
      next
        case WaitClose
        with a quiet t show ?thesis by (subst ping_loop.simps) (simp add: ping_turn_quiet ping_wait_def)
      qed
    qed
  qed
qed

text \<open>Claim C29. Within a poll, the loop of the ping manager comes to an end, unless it waits for the
  close of the socket with no ping left to send: there it goes round until the timer is due, and
  a poll that comes back at all has failed with the handshake taking too long. The close is
  never tried again.\<close>

theorem ping_loop_ends_unless_closing:
  assumes ok: "socket_ok L due" and cfg: "0 < pg_auto_ping_interval cfg" "0 < pg_auto_ping_timeout cfg"
  shows "(ping_loop A L cfg pm x \<noteq> None \<longleftrightarrow> pm_waiting pm \<noteq> WaitClose \<or> wk_ping (so_get L x) \<or> due x) \<and>
    (\<forall>r s. pm_waiting pm = WaitClose \<and> \<not> wk_ping (so_get L x) \<and> ping_manager_poll A L W cfg pm x = Some (r, s) \<longrightarrow>
      r = Inl (GeneralError ''close handshake took too long''))"
proof -
  have "r = Inl (GeneralError ''close handshake took too long'')"
    if close: "pm_waiting pm = WaitClose" "\<not> wk_ping (so_get L x)"
    and p: "ping_manager_poll A L W cfg pm x = Some (r, s)" for r s
  proof -
    from p obtain q where q: "ping_loop A L cfg pm x = Some q" by (auto simp: ping_manager_poll_def split: option.splits)
    from close_spins(2) [OF ok q close] p q show ?thesis by (cases q) (simp add: ping_manager_poll_def)
  qed
  with ping_loop_ends [OF assms] show ?thesis by blast
qed

text \<open>A socket that accepts everything, and a timer that is due or not.\<close>

definition demo_socket :: "(webpush_socket \<times> bool) socket_lib" where
  "demo_socket =
     \<lparr>so_json = \<lparr>json_is_unit_map = (\<lambda>s. True), json_client_message = Inl, json_server_message = (\<lambda>m. Inr [])\<rparr>,
      so_get = fst, so_set = (\<lambda>k x. (k, snd x)), so_poll = (\<lambda>x. (Inr None, x)), so_start_send = (\<lambda>m x. (Inr True, x)),
      so_poll_complete = (\<lambda>x. (Inr (Some ()), x)), so_close = (\<lambda>x. (Inr None, x)), so_notify = (\<lambda>x. x),
      tm_poll = (\<lambda>x. (Inr (snd x), x)), tm_reset = (\<lambda>n x. (fst x, n = 0))\<rparr>"

theorem ping_loop_ends_unless_closing_witness:
  "\<forall>A :: (string, webpush_socket \<times> bool) legacy_server.
     ping_loop A demo_socket \<lparr>pg_auto_ping_interval = 300, pg_auto_ping_timeout = 4, pg_close_handshake_timeout = Some 5\<rparr>
       \<lparr>pm_waiting = WaitClose, pm_client = Closing\<rparr> (webpush_socket_new, False) = None"
proof
  fix A :: "(string, webpush_socket \<times> bool) legacy_server"
  have "socket_ok demo_socket snd" by (simp add: socket_ok_def demo_socket_def)
  from ping_loop_ends_unless_closing [OF this, where A = A and x = "(webpush_socket_new, False)"
      and cfg = "\<lparr>pg_auto_ping_interval = 300, pg_auto_ping_timeout = 4, pg_close_handshake_timeout = Some 5\<rparr>"
      and pm = "\<lparr>pm_waiting = WaitClose, pm_client = Closing\<rparr>", THEN conjunct1]
  show "ping_loop A demo_socket \<lparr>pg_auto_ping_interval = 300, pg_auto_ping_timeout = 4, pg_close_handshake_timeout = Some 5\<rparr>
       \<lparr>pm_waiting = WaitClose, pm_client = Closing\<rparr> (webpush_socket_new, False) = None"
    by (simp add: demo_socket_def webpush_socket_new_def del: split_paired_All split_paired_Ex)
qed

end
