(* ===== verification/LegacyWeb.thy ===== *)
theory LegacyWeb
  imports LegacyPing LegacySpec ConnWeb
begin

text \<open>
  The routes of the older server and the poll of the broadcast service in both:
  \<open>autopush/src/{http.rs,server/dispatch.rs,server/mod.rs}\<close> and
  \<open>autoconnect-common/src/megaphone.rs\<close>. The parsers of the requests, the decoding of bodies and
  the HTTP clients are parameters.
\<close>

section \<open>Which request a connection makes\<close>

datatype request_type = RtWebsocket | RtStatus | RtLogCheck | RtLBHeartBeat | RtVersion

definition unknown_request :: apc_error where "unknown_request = GeneralError ''unknown http request''"

text \<open>The names of headers are compared as they are written.\<close>

definition dispatch_request :: "string list \<Rightarrow> string option \<Rightarrow> apc_error + request_type" where
  "dispatch_request headers path =
     (if \<exists>h \<in> set headers. h = ''Upgrade'' then Inr RtWebsocket
      else
        (case path of
           None \<Rightarrow> Inl unknown_request
         | Some p \<Rightarrow>
             if starts_with ''/status'' p \<or> p = ''/__heartbeat__'' then Inr RtStatus
             else if p = ''/__lbheartbeat__'' then Inr RtLBHeartBeat
             else if p = ''/__version__'' then Inr RtVersion
             else if starts_with ''/v1/err/crit'' p then Inr RtLogCheck
             else if p = ''/_error'' then Inr RtLogCheck
             else Inl unknown_request))"

text \<open>
  Bytes are read until a request can be parsed: \<open>None\<close> is a partial one, otherwise the names of
  its headers and its path. What was read is handed on with the socket.
\<close>

partial_function (option) dispatch_poll ::
  "(u8 list, 'x) future \<Rightarrow> (u8 list \<Rightarrow> apc_error + (string list \<times> string option) option) \<Rightarrow> u8 list \<Rightarrow> 'x \<Rightarrow>
     ((apc_error + request_type option) \<times> u8 list \<times> 'x) option" where
  "dispatch_poll read_buf parse data x =
     (case read_buf x of
        (Inl e, x1) \<Rightarrow> Some (Inl e, data, x1)
      | (Inr None, x1) \<Rightarrow> Some (Inr None, data, x1)
      | (Inr (Some bytes), x1) \<Rightarrow>
          if bytes = [] then Some (Inl (GeneralError ''early eof''), data, x1)
          else
            (case parse (data @ bytes) of
               Inl e \<Rightarrow> Some (Inl e, data @ bytes, x1)
             | Inr None \<Rightarrow> dispatch_poll read_buf parse (data @ bytes) x1
             | Inr (Some (headers, path)) \<Rightarrow>
                 Some (case dispatch_request headers path of Inl e \<Rightarrow> Inl e | Inr ty \<Rightarrow> Inr (Some ty),
                   data @ bytes, x1)))"

text \<open>A connection over the limit is dropped; \<open>None\<close> is no limit but that of the counter.\<close>

definition accept_connection :: "u32 option \<Rightarrow> u32 \<Rightarrow> u32 option" where
  "accept_connection max_connections open_connections =
     (let limit = (case max_connections of Some m \<Rightarrow> m | None \<Rightarrow> - 1) in
      if open_connections \<ge> limit then None else Some (open_connections + 1))"

lemma accept_connection_bound:
  assumes "accept_connection m n = Some n'"
  shows "unat n' = unat n + 1"
proof -
  from assms have "n < (case m of Some m \<Rightarrow> m | None \<Rightarrow> - 1)" "n' = n + 1"
    by (auto simp: accept_connection_def Let_def not_le split: if_splits)
  then have "n \<noteq> - 1" by (auto simp: word_n1_ge leD split: option.splits)
  then have "1 + n \<noteq> 0" by (metis add_eq_0_iff add.commute)
  with \<open>n' = n + 1\<close> show ?thesis by (metis Suc_eq_plus1 add.commute unatSuc)
qed

section \<open>The routes\<close>

datatype push_reply = Reply nat string | Panicked

definition client_reply :: "apc_error + unit \<Rightarrow> push_reply" where
  "client_reply r = (case r of Inr _ \<Rightarrow> Reply 200 '''' | Inl _ \<Rightarrow> Reply 404 ''Client not available.'')"

definition push_call ::
  "uuid_lib \<Rightarrow> 'x chan_lib \<Rightarrow> (u8 list \<Rightarrow> string option) \<Rightarrow> (string \<Rightarrow> (string \<times> json) list option) \<Rightarrow>
     string \<Rightarrow> string \<Rightarrow> u8 list \<Rightarrow> client_registry \<times> 'x \<Rightarrow> push_reply \<times> client_registry \<times> 'x" where
  "push_call lib ch utf8 json http_method req_path body s =
     (let path_vec = split_on (CHR ''/'') req_path in
      if length path_vec \<noteq> 3 then (Reply 404 '''', s)
      else
        (let method_name = path_vec ! 1 in
         case uuid_parse lib (path_vec ! 2) of
           None \<Rightarrow> (Reply 400 '''', s)
         | Some uaid \<Rightarrow>
             if http_method = ''PUT'' \<and> method_name = ''push''
             then
               (case utf8 body of
                  None \<Rightarrow> (Panicked, s)
                | Some text_body \<Rightarrow>
                    (case Option.bind (json text_body) (notification_from_json lib) of
                       Some msg \<Rightarrow> (let (r, s1) = legacy_clients_notify ch uaid msg s in (client_reply r, s1))
                     | None \<Rightarrow> (Reply 400 ''Unable to decode body payload'', s)))
             else if http_method = ''PUT'' \<and> method_name = ''notif''
             then (let (r, s1) = legacy_clients_check_storage ch uaid s in (client_reply r, s1))
             else if method_name = ''push'' \<or> method_name = ''notif'' then (Reply 405 '''', s)
             else (Reply 404 '''', s)))"

text \<open>Claim C30. For the requests of the endpoint server a node of the older kind is one of the newer:
  a notification pushed, or a check asked for, gets the same status from both and leaves the same
  registry and the same channels, whoever is connected.\<close>

theorem legacy_node_agrees:
  assumes "uuid_lib_ok lib" and "CHR ''/'' \<notin> set (uuid_hyphenated lib uaid)"
    and "utf8 bytes = Some body_text" and "json body_text = Some body"
  shows "(\<exists>st why s'. push_request lib ch (uuid_hyphenated lib uaid) body s = (st, s') \<and>
      push_call lib ch utf8 json ''PUT'' (''/push/'' @ uuid_hyphenated lib uaid) bytes s = (Reply st why, s')) \<and>
    (\<exists>st why s'. check_storage_request lib ch (uuid_hyphenated lib uaid) s = (st, s') \<and>
      push_call lib ch utf8 json ''PUT'' (''/notif/'' @ uuid_hyphenated lib uaid) bytes s = (Reply st why, s'))"
proof -
  let ?u = "uuid_hyphenated lib uaid"
  have path: "split_on (CHR ''/'') (''/push/'' @ ?u) = ['''', ''push'', ?u]"
    "split_on (CHR ''/'') (''/notif/'' @ ?u) = ['''', ''notif'', ?u]"
    using split_on_append [of "CHR ''/''" "''push''" ?u] split_on_append [of "CHR ''/''" "''notif''" ?u]
      split_on_no_sep [OF assms(2)] by simp_all
  have "\<exists>why. client_reply r = Reply (case r of Inr _ \<Rightarrow> 200 | Inl _ \<Rightarrow> 404) why" for r
    by (simp add: client_reply_def split: sum.split)
  then show ?thesis
    using assms path uuid_hyphenated_props(3) [OF assms(1)]
    by (auto simp: push_call_def push_request_def check_storage_request_def push_route_def check_storage_route_def
      legacy_registry_agrees Let_def case_prod_beta client_reply_def split: option.split prod.split sum.split)
qed

text \<open>Channels whose receivers are gone.\<close>

definition quiet_chans :: "unit chan_lib" where
  "quiet_chans = \<lparr>ch_unbounded = (\<lambda>x. (0, x)), ch_send = (\<lambda>tx m x. (False, x)), ch_close_drain = (\<lambda>rx x. ([], x))\<rparr>"

theorem legacy_node_agrees_witness:
  "\<exists>why s'. push_call decimal_uuids quiet_chans (\<lambda>b. Some '''') (\<lambda>t. Some []) ''PUT'' ''/notif/7'' [] (Map.empty, ()) =
     (Reply 404 why, s')"
proof -
  have u: "uuid_hyphenated decimal_uuids 7 = ''7''" by (simp add: decimal_uuids_def) code_simp
  then have "CHR ''/'' \<notin> set (uuid_hyphenated decimal_uuids 7)" by simp
  from legacy_node_agrees [OF decimal_uuids_ok this, of "\<lambda>b. Some ''''" "[]" "''''" "\<lambda>t. Some []" "[]" quiet_chans "(Map.empty, ())"] u
  show ?thesis
    by (auto simp: check_storage_request_def check_storage_route_def clients_check_storage_def clients_send_def
      uuid_hyphenated_props(3) [OF decimal_uuids_ok, of 7, unfolded u])
qed

section \<open>Broadcasts from the service\<close>

text \<open>The answer of the service, or what went wrong.\<close>

type_synonym 'x megaphone_fetch = "'x \<Rightarrow> (string + (string, string) hashmap) \<times> 'x"

definition megaphone_refresh :: "'x megaphone_fetch \<Rightarrow> broadcast_tracker \<times> 'x \<Rightarrow> (string, unit, broadcast_tracker \<times> 'x) outcome" where
  "megaphone_refresh fetch s =
     (let (t, x) = s in
      case fetch x of
        (Inl e, x1) \<Rightarrow> (Inl e, t, x1)
      | (Inr m, x1) \<Rightarrow>
          (let broadcasts = from_hashmap m in
           (Inr (), if broadcasts \<noteq> [] then snd (add_broadcasts broadcasts None t) else t, x1)))"

text \<open>The background task, for a number of its rounds; a round that fails changes nothing.\<close>

fun megaphone_rounds :: "'x megaphone_fetch \<Rightarrow> ('x \<Rightarrow> 'x) \<Rightarrow> nat \<Rightarrow> broadcast_tracker \<times> 'x \<Rightarrow> broadcast_tracker \<times> 'x" where
  "megaphone_rounds fetch sleep 0 s = s"
| "megaphone_rounds fetch sleep (Suc n) s =
     megaphone_rounds fetch sleep n (snd (megaphone_refresh fetch (fst s, sleep (snd s))))"

datatype 'x megaphone_state = MegaphoneWaiting | MegaphoneRequesting "((string, string) hashmap, 'x) future"

record 'x updater_lib =
  up_timeout_poll :: "(bool, 'x) apc_op"
  up_timeout_reset :: "'x \<Rightarrow> 'x"
  up_request :: "'x \<Rightarrow> ((string, string) hashmap, 'x) future \<times> 'x"

fun add_each :: "broadcast list \<Rightarrow> broadcast_tracker \<Rightarrow> broadcast_tracker" where
  "add_each [] t = t"
| "add_each (srv # srvs) t = add_each srvs (snd (add_broadcast srv t))"

text \<open>One round of the older server's loop: it stops, fails, or goes on in the next state.\<close>

definition megaphone_updater_turn ::
  "'x updater_lib \<Rightarrow> 'x megaphone_state \<Rightarrow> broadcast_tracker \<Rightarrow> 'x \<Rightarrow>
     (apc_error, 'x megaphone_state option, broadcast_tracker \<times> 'x) outcome" where
  "megaphone_updater_turn U st t x =
     (case st of
        MegaphoneWaiting \<Rightarrow>
          (case up_timeout_poll U x of
             (Inl e, x1) \<Rightarrow> (Inl e, t, x1)
           | (Inr False, x1) \<Rightarrow> (Inr None, t, x1)
           | (Inr True, x1) \<Rightarrow> (let (fut, x2) = up_request U x1 in (Inr (Some (MegaphoneRequesting fut)), t, x2)))
      | MegaphoneRequesting response \<Rightarrow>
          (case response x of
             (Inr None, x1) \<Rightarrow> (Inr None, t, x1)
           | (Inr (Some broadcasts), x1) \<Rightarrow>
               (Inr (Some MegaphoneWaiting), add_each (from_hashmap broadcasts) t, up_timeout_reset U x1)
           | (Inl _, x1) \<Rightarrow> (Inr (Some MegaphoneWaiting), t, up_timeout_reset U x1)))"

text \<open>Both servers make the same tracker of the same answer.\<close>

lemma add_each_agrees: "snd (add_broadcasts bs c t) = add_each bs t"
  by (induction bs arbitrary: c t) (auto split: prod.split)

lemma megaphone_agrees:
  assumes "fetch x = (Inr m, x1)" and "response x = (Inr (Some m), x1)"
  shows "fst (snd (megaphone_updater_turn U (MegaphoneRequesting response) t x)) =
    fst (snd (megaphone_refresh fetch (t, x)))"
  using assms by (auto simp: megaphone_updater_turn_def megaphone_refresh_def Let_def add_each_agrees)

end
