(* ===== verification/ConnSettings.thy ===== *)
theory ConnSettings
  imports Complex_Main StorageStart LegacyWeb
begin

text \<open>
  The settings and the start of both connection servers: \<open>autoconnect-settings/src/{lib,app_state}.rs\<close>,
  \<open>autopush/src/settings.rs\<close> and the \<open>AppState\<close> of \<open>autopush/src/server/mod.rs\<close>. Durations are
  in nanoseconds; a finite \<open>f64\<close> is the rational number it stands for. The resolver, the host's name, Fernet, statsd and the HTTP client are parameters.
\<close>

section \<open>Durations\<close>

definition from_secs :: "nat \<Rightarrow> nat" where "from_secs n = n * 1000000000"

definition duration_of_f64 :: "rat \<Rightarrow> nat" where
  "duration_of_f64 seconds =
     (if seconds < 0 then 0
      else from_secs (min (2 ^ 64 - 1) (nat \<lfloor>seconds\<rfloor>)) + nat \<lfloor>frac seconds * 1000000000\<rfloor>)"

section \<open>Settings\<close>

record conn_settings =
  se_port :: nat
  se_hostname :: "string option"
  se_resolve_hostname :: bool
  se_router_port :: nat
  se_router_hostname :: "string option"
  se_auto_ping_interval :: nat
  se_auto_ping_timeout :: nat
  se_open_handshake_timeout :: nat
  se_close_handshake_timeout :: nat
  se_endpoint_scheme :: string
  se_endpoint_hostname :: string
  se_endpoint_port :: nat
  se_crypto_key :: string
  se_statsd_host :: "string option"
  se_statsd_port :: nat
  se_statsd_label :: string
  se_db_dsn :: "string option"
  se_db_settings :: string
  se_megaphone_api_url :: "string option"
  se_megaphone_api_token :: "string option"
  se_megaphone_poll_interval :: nat
  se_human_logs :: bool
  se_msg_limit :: u32
  se_actix_max_connections :: "nat option"
  se_actix_workers :: "nat option"

definition conn_settings_default :: "string \<Rightarrow> conn_settings" where
  "conn_settings_default generated_key =
     \<lparr>se_port = 8080, se_hostname = None, se_resolve_hostname = False, se_router_port = 8081,
      se_router_hostname = None, se_auto_ping_interval = from_secs 300, se_auto_ping_timeout = from_secs 4,
      se_open_handshake_timeout = from_secs 5, se_close_handshake_timeout = 0, se_endpoint_scheme = ''http'',
      se_endpoint_hostname = ''localhost'', se_endpoint_port = 8082, se_crypto_key = ''['' @ generated_key @ '']'',
      se_statsd_host = Some ''localhost'', se_statsd_port = 8125, se_statsd_label = ''autopush'', se_db_dsn = None,
      se_db_settings = '''', se_megaphone_api_url = None, se_megaphone_api_token = None,
      se_megaphone_poll_interval = from_secs 30, se_human_logs = False, se_msg_limit = 100,
      se_actix_max_connections = None, se_actix_workers = None\<rparr>"

text \<open>How a start fails: with an error of the configuration, or with a panic.\<close>

datatype start_failure = ConfigFailed string | StartPanic string

text \<open>The resolver: an error, or the addresses, as text, in its order; and the name of the host.\<close>

record host_lib =
  ho_socket_addrs :: "string \<Rightarrow> string + string list"
  ho_hostname :: string

definition resolve_ip :: "host_lib \<Rightarrow> string \<Rightarrow> string + string" where
  "resolve_ip H hostname =
     (case ho_socket_addrs H hostname of
        Inl e \<Rightarrow> Inl e
      | Inr addrs \<Rightarrow> Inr (case addrs of [] \<Rightarrow> hostname | a # _ \<Rightarrow> a))"

definition include_port :: "string \<Rightarrow> nat \<Rightarrow> bool" where
  "include_port scheme port \<longleftrightarrow> \<not> (scheme = ''http'' \<and> port = 80 \<or> scheme = ''https'' \<and> port = 443)"

definition get_hostname :: "host_lib \<Rightarrow> string option \<Rightarrow> bool \<Rightarrow> start_failure + string" where
  "get_hostname H hostname resolve =
     (case hostname of
        Some h \<Rightarrow>
          if resolve
          then (case resolve_ip H h of
              Inl _ \<Rightarrow> Inl (StartPanic (''Failed to resolve provided hostname: '' @ h)) | Inr ip \<Rightarrow> Inr ip)
          else Inr h
      | None \<Rightarrow>
          if resolve
          then (case resolve_ip H (ho_hostname H) of
              Inl _ \<Rightarrow> Inl (StartPanic (''Failed to resolve hostname: '' @ ho_hostname H)) | Inr ip \<Rightarrow> Inr ip)
          else Inr (ho_hostname H))"

definition url_of :: "string \<Rightarrow> string \<Rightarrow> nat \<Rightarrow> string" where
  "url_of scheme host port =
     (let url = scheme @ ''://'' @ host in
      if include_port scheme port then url @ '':'' @ show_nat port else url)"

definition router_url :: "host_lib \<Rightarrow> conn_settings \<Rightarrow> start_failure + string" where
  "router_url H st =
     sum_bind (case se_router_hostname st of
         Some h \<Rightarrow> Inr h | None \<Rightarrow> get_hostname H (se_hostname st) (se_resolve_hostname st))
       (\<lambda>host. Inr (url_of ''http'' host (se_router_port st)))"

definition conn_endpoint_url :: "conn_settings \<Rightarrow> string" where
  "conn_endpoint_url st = url_of (se_endpoint_scheme st) (se_endpoint_hostname st) (se_endpoint_port st)"

definition non_zero :: "nat \<Rightarrow> string \<Rightarrow> start_failure + unit" where
  "non_zero val name =
     (if val = 0 then Inl (ConfigFailed (''Invalid autoconnect_'' @ name @ '': cannot be 0'')) else Inr ())"

definition settings_validate :: "conn_settings \<Rightarrow> start_failure + unit" where
  "settings_validate st =
     sum_bind (non_zero (se_megaphone_poll_interval st) ''MEGAPHONE_POLL_INTERVAL'') (\<lambda>_.
     sum_bind (non_zero (se_auto_ping_interval st) ''AUTO_PING_INTERVAL'') (\<lambda>_.
     non_zero (se_auto_ping_timeout st) ''AUTO_PING_TIMEOUT''))"

section \<open>The state of the newer server\<close>

text \<open>The keys of the setting: in brackets, separated by commas, each trimmed.\<close>

fun fernet_keys :: "(string \<Rightarrow> 'f option) \<Rightarrow> (string \<Rightarrow> string) \<Rightarrow> string list \<Rightarrow> start_failure + 'f list" where
  "fernet_keys fernet_new invalid [] = Inr []"
| "fernet_keys fernet_new invalid (k # ks) =
     (let key = str_trim k in
      case fernet_new key of
        None \<Rightarrow> Inl (StartPanic (invalid key))
      | Some f \<Rightarrow> sum_bind (fernet_keys fernet_new invalid ks) (\<lambda>fs. Inr (f # fs)))"

definition crypto_keys ::
  "(string \<Rightarrow> 'f option) \<Rightarrow> string \<Rightarrow> start_failure \<Rightarrow> (string \<Rightarrow> string) \<Rightarrow> start_failure + 'f list" where
  "crypto_keys fernet_new crypto_key unbracketed invalid =
     (if \<not> (starts_with ''['' crypto_key \<and> starts_with '']'' (rev crypto_key)) then Inl unbracketed
      else fernet_keys fernet_new invalid (split_on (CHR '','') (butlast (tl crypto_key))))"

record 'f conn_app_state =
  ca_db :: storage_client
  ca_fernet :: "'f list"
  ca_clients :: client_registry
  ca_broadcaster :: broadcast_tracker
  ca_settings :: conn_settings
  ca_router_url :: string
  ca_endpoint_url :: string

text \<open>What a start uses from outside; \<open>render\<close> is the \<open>Display\<close> of the error.\<close>

record 'f start_lib =
  sl_host :: host_lib
  sl_features :: features
  sl_open :: open_lib
  sl_fernet_new :: "string \<Rightarrow> 'f option"
  sl_statsd :: "string \<Rightarrow> string option \<Rightarrow> nat \<Rightarrow> string + unit"
  sl_http :: "string + unit"
  sl_render :: "db_error \<Rightarrow> string"

definition conn_app_state_from_settings :: "'f start_lib \<Rightarrow> conn_settings \<Rightarrow> start_failure + 'f conn_app_state" where
  "conn_app_state_from_settings S st =
     sum_bind (crypto_keys (sl_fernet_new S) (se_crypto_key st) (ConfigFailed ''Invalid autoconnect_CRYPTO_KEY'')
         (\<lambda>_. ''Invalid autoconnect_CRYPTO_KEY'')) (\<lambda>fernet.
     sum_bind (case sl_statsd S (se_statsd_label st) (se_statsd_host st) (se_statsd_port st) of
         Inl e \<Rightarrow> Inl (ConfigFailed e) | Inr _ \<Rightarrow> Inr ()) (\<lambda>_.
     sum_bind (case open_storage (sl_features S) (sl_open S)
           \<lparr>ds_dsn = se_db_dsn st, ds_db_settings = se_db_settings st\<rparr> of
         None \<Rightarrow> Inl (StartPanic ''Invalid Storage type. Check AUTOCONNECT__DB_DSN.'')
       | Some (Inl e) \<Rightarrow> Inl (ConfigFailed (sl_render S e))
       | Some (Inr db) \<Rightarrow> Inr db) (\<lambda>db.
     sum_bind (case sl_http S of
         Inl e \<Rightarrow> Inl (StartPanic (''Error while building reqwest::Client: '' @ e)) | Inr _ \<Rightarrow> Inr ()) (\<lambda>_.
     sum_bind (router_url (sl_host S) st) (\<lambda>url.
       Inr \<lparr>ca_db = db, ca_fernet = fernet, ca_clients = Map.empty, ca_broadcaster = tracker_new [],
            ca_settings = st, ca_router_url = url, ca_endpoint_url = conn_endpoint_url st\<rparr>)))))"

definition init_and_spawn_megaphone_updater ::
  "'f conn_app_state \<Rightarrow> (string \<Rightarrow> string \<Rightarrow> 'x megaphone_fetch) \<Rightarrow> 'x \<Rightarrow>
     (start_failure, unit, 'f conn_app_state \<times> 'x) outcome" where
  "init_and_spawn_megaphone_updater C fetch x =
     (case se_megaphone_api_url (ca_settings C) of
        None \<Rightarrow> (Inr (), C, x)
      | Some url \<Rightarrow>
          (case se_megaphone_api_token (ca_settings C) of
             None \<Rightarrow> (Inl (ConfigFailed ''autoconnect__MEGAPHONE_API_URL requires autoconnect__MEGAPHONE_API_TOKEN''), C, x)
           | Some token \<Rightarrow>
               (case megaphone_refresh (fetch url token) (ca_broadcaster C, x) of
                  (Inl e, t, x1) \<Rightarrow> (Inl (ConfigFailed e), C\<lparr>ca_broadcaster := t\<rparr>, x1)
                | (Inr _, t, x1) \<Rightarrow> (Inr (), C\<lparr>ca_broadcaster := t\<rparr>, x1))))"

section \<open>The older server\<close>

record legacy_settings =
  sg_port :: nat
  sg_hostname :: "string option"
  sg_resolve_hostname :: bool
  sg_router_port :: nat
  sg_router_hostname :: "string option"
  sg_router_tablename :: string
  sg_message_tablename :: string
  sg_router_ssl_key :: "string option"
  sg_router_ssl_cert :: "string option"
  sg_router_ssl_dh_param :: "string option"
  sg_auto_ping_interval :: rat
  sg_auto_ping_timeout :: rat
  sg_max_connections :: u32
  sg_close_handshake_timeout :: u32
  sg_endpoint_scheme :: string
  sg_endpoint_hostname :: string
  sg_endpoint_port :: nat
  sg_crypto_key :: string
  sg_statsd_host :: string
  sg_statsd_port :: nat
  sg_aws_ddb_endpoint :: "string option"
  sg_megaphone_api_url :: "string option"
  sg_megaphone_api_token :: "string option"
  sg_megaphone_poll_interval :: u32
  sg_human_logs :: bool
  sg_msg_limit :: u32

definition legacy_settings_default :: "string \<Rightarrow> legacy_settings" where
  "legacy_settings_default generated_key =
     \<lparr>sg_port = 8080, sg_hostname = None, sg_resolve_hostname = False, sg_router_port = 8081,
      sg_router_hostname = None, sg_router_tablename = ''router'', sg_message_tablename = ''message'',
      sg_router_ssl_key = None, sg_router_ssl_cert = None, sg_router_ssl_dh_param = None,
      sg_auto_ping_interval = 300, sg_auto_ping_timeout = 4, sg_max_connections = 0,
      sg_close_handshake_timeout = 0, sg_endpoint_scheme = ''http'', sg_endpoint_hostname = ''localhost'',
      sg_endpoint_port = 8082, sg_crypto_key = ''['' @ generated_key @ '']'', sg_statsd_host = ''localhost'',
      sg_statsd_port = 8125, sg_aws_ddb_endpoint = None, sg_megaphone_api_url = None,
      sg_megaphone_api_token = None, sg_megaphone_poll_interval = 30, sg_human_logs = False, sg_msg_limit = 100\<rparr>"

definition legacy_router_url :: "host_lib \<Rightarrow> legacy_settings \<Rightarrow> start_failure + string" where
  "legacy_router_url H st =
     (let router_scheme = (if sg_router_ssl_key st = None then ''http'' else ''https'') in
      sum_bind (case sg_router_hostname st of
          Some h \<Rightarrow> Inr h | None \<Rightarrow> get_hostname H (sg_hostname st) (sg_resolve_hostname st))
        (\<lambda>host. Inr (url_of router_scheme host (sg_router_port st))))"

definition ito_dur :: "u32 \<Rightarrow> nat option" where
  "ito_dur seconds = (if seconds = 0 then None else Some (from_secs (unat seconds)))"

definition fto_dur :: "rat \<Rightarrow> nat option" where
  "fto_dur seconds = (if seconds = 0 then None else Some (duration_of_f64 seconds))"

definition expect_dur :: "string \<Rightarrow> nat option \<Rightarrow> start_failure + nat" where
  "expect_dur msg d = (case d of None \<Rightarrow> Inl (StartPanic msg) | Some v \<Rightarrow> Inr v)"

record 'f legacy_app_state =
  la_port :: nat
  la_router_port :: nat
  la_fernet :: "'f list"
  la_ssl_key :: "string option"
  la_ssl_cert :: "string option"
  la_ssl_dh_param :: "string option"
  la_open_handshake_timeout :: "nat option"
  la_auto_ping_interval :: nat
  la_auto_ping_timeout :: nat
  la_max_connections :: "u32 option"
  la_close_handshake_timeout :: "nat option"
  la_message_table_name :: string
  la_router_table_name :: string
  la_router_url :: string
  la_endpoint_url :: string
  la_statsd_host :: "string option"
  la_statsd_port :: nat
  la_megaphone_api_url :: "string option"
  la_megaphone_api_token :: "string option"
  la_megaphone_poll_interval :: nat
  la_human_logs :: bool
  la_msg_limit :: u32

definition legacy_app_state_from_settings ::
  "host_lib \<Rightarrow> (string \<Rightarrow> 'f option) \<Rightarrow> legacy_settings \<Rightarrow> start_failure + 'f legacy_app_state" where
  "legacy_app_state_from_settings H fernet_new st =
     sum_bind (crypto_keys fernet_new (sg_crypto_key st) (ConfigFailed ''Missing AUTOPUSH__CRYPTO_KEY set'')
         (\<lambda>key. ''Invalid AUTOPUSH__CRYPTO_KEY: '' @ key)) (\<lambda>fernet.
     sum_bind (legacy_router_url H st) (\<lambda>router_url.
     sum_bind (expect_dur ''auto ping interval cannot be 0'' (fto_dur (sg_auto_ping_interval st))) (\<lambda>ping_interval.
     sum_bind (expect_dur ''auto ping timeout cannot be 0'' (fto_dur (sg_auto_ping_timeout st))) (\<lambda>ping_timeout.
     sum_bind (expect_dur ''megaphone poll interval cannot be 0'' (ito_dur (sg_megaphone_poll_interval st))) (\<lambda>poll_interval.
       Inr \<lparr>la_port = sg_port st, la_router_port = sg_router_port st, la_fernet = fernet,
            la_ssl_key = sg_router_ssl_key st, la_ssl_cert = sg_router_ssl_cert st,
            la_ssl_dh_param = sg_router_ssl_dh_param st, la_open_handshake_timeout = ito_dur 5,
            la_auto_ping_interval = ping_interval, la_auto_ping_timeout = ping_timeout,
            la_max_connections = (if sg_max_connections st = 0 then None else Some (sg_max_connections st)),
            la_close_handshake_timeout = ito_dur (sg_close_handshake_timeout st),
            la_message_table_name = sg_message_tablename st, la_router_table_name = sg_router_tablename st,
            la_router_url = router_url,
            la_endpoint_url = url_of (sg_endpoint_scheme st) (sg_endpoint_hostname st) (sg_endpoint_port st),
            la_statsd_host = (if sg_statsd_host st = [] then None else Some (sg_statsd_host st)),
            la_statsd_port = sg_statsd_port st, la_megaphone_api_url = sg_megaphone_api_url st,
            la_megaphone_api_token = sg_megaphone_api_token st, la_megaphone_poll_interval = poll_interval,
            la_human_logs = sg_human_logs st, la_msg_limit = sg_msg_limit st\<rparr>)))))"

definition legacy_ping_settings :: "'f legacy_app_state \<Rightarrow> ping_settings" where
  "legacy_ping_settings S =
     \<lparr>pg_auto_ping_interval = la_auto_ping_interval S, pg_auto_ping_timeout = la_auto_ping_timeout S,
      pg_close_handshake_timeout = la_close_handshake_timeout S\<rparr>"

section \<open>What the checks give\<close>

lemma duration_of_f64_positive:
  assumes "1 / 1000000000 \<le> seconds"
  shows "0 < duration_of_f64 seconds"
proof (cases "1 \<le> seconds")
  case True
  then have "1 \<le> \<lfloor>seconds\<rfloor>" by simp
  with True show ?thesis by (simp add: duration_of_f64_def from_secs_def)
next
  case False
  with assms have "\<lfloor>seconds\<rfloor> = 0" by (simp add: floor_eq_iff)
  with assms have "1 \<le> \<lfloor>frac seconds * 1000000000\<rfloor>" by (simp add: frac_def)
  with assms show ?thesis by (simp add: duration_of_f64_def)
qed

text \<open>The checks of the older server let a ping interval below a nanosecond pass, which is then zero.\<close>

lemma legacy_ping_settings_positive:
  assumes "legacy_app_state_from_settings H fernet_new st = Inr S"
    and "1 / 1000000000 \<le> sg_auto_ping_interval st" "1 / 1000000000 \<le> sg_auto_ping_timeout st"
  shows "0 < pg_auto_ping_interval (legacy_ping_settings S)" "0 < pg_auto_ping_timeout (legacy_ping_settings S)"
  using assms duration_of_f64_positive
  by (auto simp: legacy_app_state_from_settings_def legacy_ping_settings_def sum_bind_def expect_dur_def fto_dur_def
      split: sum.splits option.splits if_splits)

lemma settings_validate_iff:
  "settings_validate st = Inr () \<longleftrightarrow>
     0 < se_megaphone_poll_interval st \<and> 0 < se_auto_ping_interval st \<and> 0 < se_auto_ping_timeout st"
  by (auto simp: settings_validate_def non_zero_def sum_bind_def)

lemma settings_default_valid: "settings_validate (conn_settings_default k) = Inr ()"
  by (simp add: settings_validate_iff conn_settings_default_def from_secs_def)

text \<open>The two servers give a node without TLS the same URL.\<close>

lemma router_url_agrees:
  assumes "sg_router_hostname g = se_router_hostname e" "sg_hostname g = se_hostname e"
    and "sg_resolve_hostname g = se_resolve_hostname e" "sg_router_port g = se_router_port e"
    and "sg_router_ssl_key g = None"
  shows "legacy_router_url H g = router_url H e"
  using assms by (simp add: legacy_router_url_def router_url_def split: option.split)

end
