(* ===== verification/LegacyStart.thy ===== *)
theory LegacyStart
  imports ConnSettings
begin

text \<open>
  The older server from its start to its end: \<open>autopush/src/megaphone.rs\<close>, and of
  \<open>autopush/src/server/mod.rs\<close> \<open>Server::new\<close>, \<open>Server::start\<close>, the acceptance of connections with
  their limit, the answers to plain requests, and \<open>AutopushServer::stop\<close>. The tracker of this
  server is shown to be that of \<open>Broadcast\<close>, which the model of its sessions uses.
\<close>

section \<open>The tracker\<close>

definition mega_registry_add :: "string \<Rightarrow> broadcast_registry \<Rightarrow> broadcast_key \<times> broadcast_registry" where
  "mega_registry_add broadcast_id r =
     (case reg_lookup r broadcast_id of
        Some v \<Rightarrow> (v, r)
      | None \<Rightarrow>
          (let i = of_nat (length (reg_table r));
               r1 = r\<lparr>reg_table := reg_table r @ [broadcast_id]\<rparr>;
               r2 = r1\<lparr>reg_lookup := (reg_lookup r1)(broadcast_id \<mapsto> i)\<rparr>
           in (i, r2)))"

definition mega_lookup_id :: "broadcast_registry \<Rightarrow> broadcast_key \<Rightarrow> string option" where
  "mega_lookup_id r key = (if unat key < length (reg_table r) then Some (reg_table r ! unat key) else None)"

definition mega_lookup_key :: "broadcast_registry \<Rightarrow> string \<Rightarrow> broadcast_key option" where
  "mega_lookup_key r broadcast_id = reg_lookup r broadcast_id"

definition mega_error :: "broadcast \<Rightarrow> broadcast" where
  "mega_error b = \<lparr>b_id = b_id b, b_version = ''Broadcast not found''\<rparr>"

definition mega_from_hashmap :: "(string, string) hashmap \<Rightarrow> broadcast list" where
  "mega_from_hashmap m = map (\<lambda>(k, v). \<lparr>b_id = k, b_version = v\<rparr>) m"

definition mega_vec_into_hashmap :: "broadcast list \<Rightarrow> (string, broadcast_value) hashmap" where
  "mega_vec_into_hashmap bs = hm_extend [] (map (\<lambda>b. (b_id b, BValue (b_version b))) bs)"

definition mega_new :: "broadcast list \<Rightarrow> broadcast_tracker" where
  "mega_new broadcasts =
     fold (\<lambda>srv tracker. let (key, reg) = mega_registry_add (b_id srv) (tr_registry tracker) in
             tracker\<lparr>tr_registry := reg, tr_versions := (tr_versions tracker)(key \<mapsto> b_version srv)\<rparr>)
       broadcasts \<lparr>tr_list = [], tr_registry = \<lparr>reg_lookup = Map.empty, reg_table = []\<rparr>,
                   tr_versions = Map.empty, tr_count = 0\<rparr>"

text \<open>The first index that \<open>enumerate\<close> and \<open>filter_map\<close> leave.\<close>

definition bcast_index :: "broadcast_key \<Rightarrow> broadcast_revision list \<Rightarrow> nat option" where
  "bcast_index key revs = first_of (filter_map (\<lambda>(i, b). if rev_key b = key then Some i else None) (enumerate 0 revs))"

definition mega_update_broadcast :: "broadcast \<Rightarrow> broadcast_tracker \<Rightarrow> (apc_error, u32, broadcast_tracker) outcome" where
  "mega_update_broadcast b t =
     (case mega_lookup_key (tr_registry t) (b_id b) of
        None \<Rightarrow> (Inl (BroadcastError ''Broadcast not found''), t)
      | Some key \<Rightarrow>
          (case tr_versions t key of
             None \<Rightarrow> (Inl (BroadcastError ''Broadcast not found''), t)
           | Some ver \<Rightarrow>
               if ver = b_version b then (Inr (tr_count t), t)
               else
                 (let t1 = t\<lparr>tr_versions := (tr_versions t)(key \<mapsto> b_version b)\<rparr>;
                      index = bcast_index key (tr_list t1);
                      t2 = t1\<lparr>tr_count := tr_count t1 + 1\<rparr>;
                      t3 = (case index of
                              Some i \<Rightarrow>
                                (let bcast = (tr_list t2 ! i)\<lparr>rev_count := tr_count t2\<rparr>
                                 in t2\<lparr>tr_list := remove_at i (tr_list t2) @ [bcast]\<rparr>)
                            | None \<Rightarrow> t2\<lparr>tr_list := tr_list t2 @ [\<lparr>rev_count = tr_count t2, rev_key = key\<rparr>]\<rparr>)
                  in (Inr (tr_count t3), t3))))"

definition mega_add_broadcast :: "broadcast \<Rightarrow> broadcast_tracker \<Rightarrow> u32 \<times> broadcast_tracker" where
  "mega_add_broadcast b t =
     (case mega_update_broadcast b t of
        (Inr change_count, t1) \<Rightarrow> (change_count, t1)
      | (Inl _, t1) \<Rightarrow>
          (let t2 = t1\<lparr>tr_count := tr_count t1 + 1\<rparr>;
               (key, reg) = mega_registry_add (b_id b) (tr_registry t2);
               t3 = t2\<lparr>tr_registry := reg, tr_versions := (tr_versions t2)(key \<mapsto> b_version b),
                       tr_list := tr_list t2 @ [\<lparr>rev_count = tr_count t2, rev_key = key\<rparr>]\<rparr>
           in (tr_count t3, t3)))"

fun mega_delta_loop :: "broadcast_tracker \<Rightarrow> broadcast_subs \<Rightarrow> broadcast_revision list \<Rightarrow> broadcast list \<Rightarrow> broadcast list" where
  "mega_delta_loop t client_set [] bcast_delta = bcast_delta"
| "mega_delta_loop t client_set (bcast # bcasts) bcast_delta =
     (if rev_count bcast \<le> subs_count client_set then bcast_delta
      else if rev_key bcast \<notin> set (subs_list client_set) then mega_delta_loop t client_set bcasts bcast_delta
      else
        mega_delta_loop t client_set bcasts
          (case (tr_versions t (rev_key bcast), mega_lookup_id (tr_registry t) (rev_key bcast)) of
             (Some ver, Some bcast_id) \<Rightarrow> bcast_delta @ [\<lparr>b_id = bcast_id, b_version = ver\<rparr>]
           | _ \<Rightarrow> bcast_delta))"

definition mega_change_count_delta :: "broadcast_tracker \<Rightarrow> broadcast_subs \<Rightarrow> broadcast list option \<times> broadcast_subs" where
  "mega_change_count_delta t client_set =
     (if tr_count t \<le> subs_count client_set then (None, client_set)
      else
        (let bcast_delta = mega_delta_loop t client_set (rev (tr_list t)) [];
             client_set1 = client_set\<lparr>subs_count := tr_count t\<rparr>
         in (if bcast_delta = [] then None else Some bcast_delta, client_set1)))"

text \<open>The loop over the broadcasts of a client, with its two vectors.\<close>

fun mega_broadcasts_loop ::
  "broadcast_tracker \<Rightarrow> broadcast list \<Rightarrow> broadcast_key list \<times> broadcast list \<Rightarrow> broadcast_key list \<times> broadcast list" where
  "mega_broadcasts_loop t [] s = s"
| "mega_broadcasts_loop t (bcast # bcasts) (bcast_list, bcast_delta) =
     mega_broadcasts_loop t bcasts
       (case mega_lookup_key (tr_registry t) (b_id bcast) of
          None \<Rightarrow> (bcast_list, bcast_delta)
        | Some bcast_key \<Rightarrow>
            (bcast_list @ [bcast_key],
             case tr_versions t bcast_key of
               None \<Rightarrow> bcast_delta
             | Some ver \<Rightarrow>
                 if ver \<noteq> b_version bcast then bcast_delta @ [\<lparr>b_id = b_id bcast, b_version = ver\<rparr>] else bcast_delta))"

definition mega_broadcast_delta :: "broadcast_tracker \<Rightarrow> broadcast list \<Rightarrow> broadcast_subs \<times> broadcast list" where
  "mega_broadcast_delta t broadcasts =
     (let (bcast_list, bcast_delta) = mega_broadcasts_loop t broadcasts ([], [])
      in (\<lparr>subs_list = bcast_list, subs_count = tr_count t\<rparr>, bcast_delta))"

definition mega_subscribe_to_broadcasts ::
  "broadcast_tracker \<Rightarrow> broadcast_subs \<Rightarrow> broadcast list \<Rightarrow> broadcast list option \<times> broadcast_subs" where
  "mega_subscribe_to_broadcasts t subs broadcasts =
     (let (delta, subs1) = mega_change_count_delta t subs;
          (bcast_list, bcast_delta) =
            mega_broadcasts_loop t broadcasts (subs_list subs1, case delta of None \<Rightarrow> [] | Some d \<Rightarrow> d)
      in (if bcast_delta = [] then None else Some bcast_delta, subs1\<lparr>subs_list := bcast_list\<rparr>))"

definition mega_missing_broadcasts :: "broadcast_tracker \<Rightarrow> broadcast list \<Rightarrow> broadcast list" where
  "mega_missing_broadcasts t broadcasts =
     filter_map (\<lambda>b. if mega_lookup_key (tr_registry t) (b_id b) = None then Some (mega_error b) else None) broadcasts"

text \<open>The versions to begin with, from the service or why there are none.\<close>

definition with_api_broadcasts ::
  "(string \<Rightarrow> string \<Rightarrow> 'x \<Rightarrow> (string + (string, string) hashmap) \<times> 'x) \<Rightarrow> string \<Rightarrow> string \<Rightarrow> 'x \<Rightarrow>
     (string + broadcast_tracker) \<times> 'x" where
  "with_api_broadcasts fetch url token x =
     (case fetch url token x of
        (Inl e, x1) \<Rightarrow> (Inl e, x1)
      | (Inr broadcasts, x1) \<Rightarrow> (Inr (mega_new (mega_from_hashmap broadcasts)), x1))"

section \<open>It is the tracker of the newer server\<close>

named_theorems mega_eqs

lemma mega_registry_eqs [mega_eqs]:
  "mega_registry_add = registry_add" "mega_lookup_id = lookup_id" "mega_lookup_key = lookup_key" "mega_error = broadcast_error"
  by (simp_all add: fun_eq_iff mega_registry_add_def registry_add_def mega_lookup_id_def lookup_id_def
      mega_lookup_key_def lookup_key_def mega_error_def broadcast_error_def Let_def split: option.split)

lemma mega_hashmap_eqs [mega_eqs]: "mega_from_hashmap = from_hashmap" "mega_vec_into_hashmap = vec_into_hashmap"
  by (simp_all add: fun_eq_iff mega_from_hashmap_def from_hashmap_def broadcast_of_pair_def mega_vec_into_hashmap_def
      vec_into_hashmap_def pair_of_broadcast_def [abs_def] case_prod_beta)

lemma tracker_init_fold:
  "tracker_init bs t =
     fold (\<lambda>srv tracker. let (key, reg) = registry_add (b_id srv) (tr_registry tracker) in
             tracker\<lparr>tr_registry := reg, tr_versions := (tr_versions tracker)(key \<mapsto> b_version srv)\<rparr>) bs t"
  by (induction bs arbitrary: t) (auto simp: case_prod_beta Let_def)

lemma mega_new_eq [mega_eqs]: "mega_new = tracker_new"
  by (simp add: fun_eq_iff mega_new_def tracker_new_def registry_new_def tracker_init_fold mega_eqs)

lemma first_of_Cons: "first_of (x # xs) = Some x" "first_of [] = None"
  by (simp_all add: first_of_def)

lemma enumerate_position:
  "first_of (filter_map (\<lambda>(i, b). if p b then Some i else None) (enumerate n xs)) = map_option ((+) n) (position p xs)"
proof (induction xs arbitrary: n)
  case (Cons x xs)
  then show ?case by (cases "position p xs") (simp_all add: first_of_Cons)
qed (simp add: first_of_Cons)

lemma bcast_index_eq: "bcast_index key revs = position (\<lambda>r. rev_key r = key) revs"
  using enumerate_position [of "\<lambda>r. rev_key r = key" 0 revs] by (cases "position (\<lambda>r. rev_key r = key) revs") (simp_all add: bcast_index_def)

lemma mega_update_broadcast_eq [mega_eqs]: "mega_update_broadcast = update_broadcast"
proof (intro ext)
  fix b :: broadcast and t :: broadcast_tracker
  have "(tr_list t ! i)\<lparr>rev_count := c\<rparr> = \<lparr>rev_count = c, rev_key = key\<rparr>"
    if "position (\<lambda>r. rev_key r = key) (tr_list t) = Some i" for i c key
    using position_SomeD [OF that] by (cases "tr_list t ! i") simp
  then show "mega_update_broadcast b t = update_broadcast b t"
    by (auto simp: mega_update_broadcast_def update_broadcast_def mega_eqs bcast_index_eq Let_def split: option.split)
qed

lemma mega_add_broadcast_eq [mega_eqs]: "mega_add_broadcast = add_broadcast"
  by (auto simp: fun_eq_iff mega_add_broadcast_def add_broadcast_def mega_eqs Let_def split: prod.split sum.split)

lemma mega_delta_loop_eq: "mega_delta_loop t s revs acc = acc @ delta_loop t s revs"
  by (induction revs arbitrary: acc) (auto simp: mega_eqs split: option.split)

lemma mega_change_count_delta_eq [mega_eqs]: "mega_change_count_delta = change_count_delta"
  by (auto simp: fun_eq_iff mega_change_count_delta_def change_count_delta_def mega_delta_loop_eq Let_def)

lemma mega_broadcasts_loop_eq: "mega_broadcasts_loop t bs (ks, ds) = (ks @ known_keys t bs, ds @ stale_broadcasts t bs)"
  by (induction bs arbitrary: ks ds) (auto simp: mega_eqs split: option.split)

lemma mega_broadcast_delta_eq [mega_eqs]: "mega_broadcast_delta = broadcast_delta"
  by (simp add: fun_eq_iff mega_broadcast_delta_def broadcast_delta_def mega_broadcasts_loop_eq)

lemma mega_subscribe_eq [mega_eqs]: "mega_subscribe_to_broadcasts = subscribe_to_broadcasts"
  by (auto simp: fun_eq_iff mega_subscribe_to_broadcasts_def subscribe_to_broadcasts_def mega_broadcasts_loop_eq mega_eqs
      Let_def split: prod.split)

lemma mega_missing_eq [mega_eqs]: "mega_missing_broadcasts = missing_broadcasts"
proof (intro ext)
  show "mega_missing_broadcasts t bs = missing_broadcasts t bs" for t bs
    unfolding mega_missing_broadcasts_def missing_broadcasts_def mega_eqs
    by (induction bs) auto
qed

section \<open>Start and stop\<close>

text \<open>
  What a start does outside: the reactor, the broadcast service, statsd, DynamoDB, the TLS files
  (whose failures are panics), listening on a port, and the HTTP client and the timer of the updater.
\<close>

record 'x legacy_start_lib =
  sl_core :: "apc_error + unit"
  sl_fetch :: "string \<Rightarrow> string \<Rightarrow> 'x \<Rightarrow> (string + (string, string) hashmap) \<times> 'x"
  sl_metrics :: "apc_error + unit"
  sl_ddb :: "string \<Rightarrow> string \<Rightarrow> 'x \<Rightarrow> ((apc_error + 'x dynamo_storage) \<times> 'x) option"
  sl_tls :: "string + unit"
  sl_bind :: "nat \<Rightarrow> apc_error + unit"
  sl_client :: "string + unit"
  sl_timer :: "string + unit"

datatype new_failure = NewError apc_error | NewPanic string

definition initial_tracker :: "'x legacy_start_lib \<Rightarrow> 'f legacy_app_state \<Rightarrow> 'x \<Rightarrow> (new_failure, broadcast_tracker, 'x) outcome" where
  "initial_tracker L S x =
     (case la_megaphone_api_url S of
        None \<Rightarrow> (Inr (mega_new []), x)
      | Some url \<Rightarrow>
          (case la_megaphone_api_token S of
             None \<Rightarrow> (Inl (NewPanic ''Megaphone API requires a Megaphone API Token to be set''), x)
           | Some token \<Rightarrow>
               (case with_api_broadcasts (sl_fetch L) url token x of
                  (Inl _, x1) \<Rightarrow> (Inl (NewPanic ''Unable to initialize megaphone with provided URL''), x1)
                | (Inr t, x1) \<Rightarrow> (Inr t, x1))))"

definition updater_start :: "'x legacy_start_lib \<Rightarrow> 'f legacy_app_state \<Rightarrow> new_failure + bool" where
  "updater_start L S =
     (case la_megaphone_api_url S of
        None \<Rightarrow> Inr False
      | Some _ \<Rightarrow>
          if la_megaphone_api_token S = None
          then Inl (NewPanic ''Megaphone API requires a Megaphone API Token to be set'')
          else
            (case (sl_client L, sl_timer L) of
               (Inl _, _) \<Rightarrow> Inl (NewPanic ''Unable to build reqwest client'')
             | (_, Inl _) \<Rightarrow> Inl (NewPanic ''Unable to start megaphone updater'')
             | _ \<Rightarrow> Inr True))"

text \<open>The tracker, the storage, and whether an updater runs; \<open>None\<close> if the tables are listed without end.\<close>

definition legacy_server_new ::
  "'x legacy_start_lib \<Rightarrow> 'f legacy_app_state \<Rightarrow> 'x \<Rightarrow>
     (new_failure, broadcast_tracker \<times> 'x dynamo_storage \<times> bool, 'x) outcome option" where
  "legacy_server_new L S x =
     (case sl_core L of
        Inl e \<Rightarrow> Some (Inl (NewError e), x)
      | Inr _ \<Rightarrow>
     (case initial_tracker L S x of
        (Inl e, x1) \<Rightarrow> Some (Inl e, x1)
      | (Inr broadcaster, x1) \<Rightarrow>
     (case sl_metrics L of
        Inl e \<Rightarrow> Some (Inl (NewError e), x1)
      | Inr _ \<Rightarrow>
     (case sl_ddb L (la_message_table_name S) (la_router_table_name S) x1 of
        None \<Rightarrow> None
      | Some (Inl e, x2) \<Rightarrow> Some (Inl (NewError e), x2)
      | Some (Inr ddb, x2) \<Rightarrow>
     (case sl_tls L of
        Inl p \<Rightarrow> Some (Inl (NewPanic p), x2)
      | Inr _ \<Rightarrow>
     (case sl_bind L (la_port S) of
        Inl e \<Rightarrow> Some (Inl (NewError e), x2)
      | Inr _ \<Rightarrow> Some (map_sum id (\<lambda>updater. (broadcaster, ddb, updater)) (updater_start L S), x2)))))))"

text \<open>
  The server runs in a thread of its own. What it reports to the caller it reports before it
  listens for the other servers; whether the thread still lives then is the flag.
\<close>

datatype start_result = StartFailed apc_error | StartPanicked string | Started bool

definition legacy_server_start :: "'x legacy_start_lib \<Rightarrow> 'f legacy_app_state \<Rightarrow> 'x \<Rightarrow> (start_result \<times> 'x) option" where
  "legacy_server_start L S x =
     map_option (\<lambda>(r, x1).
       (case r of
          Inl (NewError e) \<Rightarrow> StartFailed e
        | Inl (NewPanic p) \<Rightarrow> StartPanicked p
        | Inr _ \<Rightarrow> Started (case sl_bind L (la_router_port S) of Inl _ \<Rightarrow> False | Inr _ \<Rightarrow> True), x1))
       (legacy_server_new L S x)"

text \<open>The caller is told of success although the only thread is gone.\<close>

lemma start_reported_too_early:
  assumes "legacy_server_new L S x = Some (Inr s, x')" and "sl_bind L (la_router_port S) = Inl e"
  shows "legacy_server_start L S x = Some (Started False, x')"
  using assms by (simp add: legacy_server_start_def)

lemma start_with_service:
  assumes "legacy_server_new L S x = Some (Inr (t, ddb, updater), x')"
  shows "updater \<longleftrightarrow> la_megaphone_api_url S \<noteq> None"
    and "la_megaphone_api_url S = None \<Longrightarrow> t = tracker_new []"
    and "la_megaphone_api_url S = Some url \<Longrightarrow> \<exists>token broadcasts x1. la_megaphone_api_token S = Some token \<and>
      sl_fetch L url token x = (Inr broadcasts, x1) \<and> t = tracker_new (from_hashmap broadcasts)"
  using assms
  by (auto simp: legacy_server_new_def updater_start_def initial_tracker_def with_api_broadcasts_def mega_eqs
      split: sum.splits option.splits prod.splits if_splits)

text \<open>Every thread is joined; the handles, \<open>False\<close> for one that panicked, are used up.\<close>

definition legacy_server_stop :: "bool list option \<Rightarrow> (apc_error + unit) \<times> bool list option" where
  "legacy_server_stop handles =
     (case handles of
        None \<Rightarrow> (Inr (), None)
      | Some joined \<Rightarrow> (fold (\<lambda>ok result. if ok then result else Inl ApcThread) joined (Inr ()), None))"

lemma legacy_server_stop_ok: "fst (legacy_server_stop (Some joined)) = Inr () \<longleftrightarrow> (\<forall>ok \<in> set joined. ok)"
proof -
  have "fold (\<lambda>ok result. if ok then result else Inl ApcThread) joined r = Inr () \<longleftrightarrow> (\<forall>ok \<in> set joined. ok) \<and> r = Inr ()"
    for r :: "apc_error + unit" by (induction joined arbitrary: r) auto
  then show ?thesis by (simp add: legacy_server_stop_def)
qed

section \<open>Plain requests\<close>

text \<open>The status and the JSON of the answer; a WebSocket is handed to the ping manager.\<close>

definition legacy_reply :: "string \<Rightarrow> string \<Rightarrow> request_type \<Rightarrow> (nat \<times> json) option" where
  "legacy_reply version version_file ty =
     (case ty of
        RtStatus \<Rightarrow> Some (200, JObj [(''status'', JStr ''OK''), (''version'', JStr version)])
      | RtLBHeartBeat \<Rightarrow> Some (200, JStr [])
      | RtVersion \<Rightarrow> Some (200, JStr version_file)
      | RtLogCheck \<Rightarrow> Some (418, JObj [(''code'', JInt 418), (''errno'', JInt 999), (''error'', JStr ''Test Failure''),
          (''mesage'', JStr ''FAILURE:Success'')])
      | RtWebsocket \<Rightarrow> None)"

definition write_json :: "(json \<Rightarrow> string) \<Rightarrow> (nat \<Rightarrow> string) \<Rightarrow> string \<Rightarrow> nat \<Rightarrow> json \<Rightarrow> string" where
  "write_json json_text show_status date status body =
     (let text_body = json_text body; crlf = [CHR 0x0D, CHR 0x0A] in
      ''HTTP/1.1 '' @ show_status status @ crlf @ ''Server: webpush'' @ crlf @ ''Date: '' @ date @ crlf @
      ''Content-Length: '' @ show_nat (length text_body) @ crlf @ ''Content-Type: application/json'' @ crlf @ crlf @
      text_body)"

section \<open>A connection\<close>

text \<open>
  The user agent is taken over byte by byte, each byte a character: above 127 that is the UTF-8
  of Latin-1, so the text is always valid and its length may grow.
\<close>

definition byte_as_char :: "u8 \<Rightarrow> string" where
  "byte_as_char c =
     (if unat c \<le> 127 then [char_of (unat c)] else [char_of (192 + unat c div 64), char_of (128 + unat c mod 64)])"

definition ua_of_header :: "u8 list \<Rightarrow> string" where
  "ua_of_header bytes = concat (map byte_as_char bytes)"

lemma utf8_codes_byte: "utf8_codes (map of_char (byte_as_char c) @ as) = utf8_codes as"
proof (cases "unat c \<le> 127")
  case False
  have "unat c < 256" using unsigned_less [of c, where 'a = nat] by simp
  with False have "utf8_two (192 + unat c div 64) (128 + unat c mod 64)"
    by (auto simp: utf8_two_def is_cont_def)
  with False \<open>unat c < 256\<close> show ?thesis by (simp add: byte_as_char_def)
qed (simp add: byte_as_char_def)

lemma ua_of_header_valid: "from_utf8 (ua_of_header bytes) = Some (ua_of_header bytes)"
proof -
  have "utf8_codes (map of_char (ua_of_header bytes))"
    by (induction bytes) (simp_all add: ua_of_header_def utf8_codes_byte)
  then show ?thesis by (simp add: from_utf8_def)
qed

text \<open>
  TLS and the dispatch, within the time for the handshake; the handshake of the websocket, with
  the header \<open>User-Agent\<close> it saw, within the same time; the timer of the ping manager; the ping
  manager until it ends; and what an answer is made of.
\<close>

record 'x conn_lib =
  cn_dispatch :: "nat option \<Rightarrow> (request_type, 'x) apc_op"
  cn_handshake :: "nat option \<Rightarrow> ((string + u8 list option), 'x) apc_op"
  cn_timer :: "nat \<Rightarrow> (string + unit, 'x) apc_op"
  cn_session :: "string option \<Rightarrow> (unit, 'x) apc_op"
  cn_write :: "string \<Rightarrow> (unit, 'x) apc_op"
  cn_json_text :: "json \<Rightarrow> string"
  cn_show_status :: "nat \<Rightarrow> string"
  cn_date :: "'x \<Rightarrow> string"
  cn_version :: string
  cn_version_file :: string

definition serve_connection :: "'x conn_lib \<Rightarrow> 'f legacy_app_state \<Rightarrow> (unit, 'x) apc_op" where
  "serve_connection L S x =
     andThen (cn_dispatch L (la_open_handshake_timeout S) x) (\<lambda>ty x1.
     (case legacy_reply (cn_version L) (cn_version_file L) ty of
        Some (status, body) \<Rightarrow>
          cn_write L (write_json (cn_json_text L) (cn_show_status L) (cn_date L x1) status body) x1
      | None \<Rightarrow>
          andThen (cn_handshake L (la_open_handshake_timeout S) x1) (\<lambda>ws x2.
          (case ws of
             Inl _ \<Rightarrow> (Inl (GeneralError ''failed to accept client''), x2)
           | Inr header \<Rightarrow>
               andThen (cn_timer L (la_auto_ping_interval S) x2) (\<lambda>timer x3.
               (case timer of
                  Inl _ \<Rightarrow> (Inl (GeneralError ''failed to make ping handler''), x3)
                | Inr _ \<Rightarrow> cn_session L (map_option ua_of_header header) x3))))))"

section \<open>The limit on connections\<close>

text \<open>
  The counter and the tasks of the connections that were accepted, each a number of its own. A
  connection is accepted or dropped when it comes; its task ends once, however it ends.
\<close>

record conn_state =
  cs_open :: u32
  cs_tasks :: "nat list"

inductive conn_step :: "u32 option \<Rightarrow> conn_state \<Rightarrow> conn_state \<Rightarrow> bool" for max_connections where
  accepted: "accept_connection max_connections (cs_open s) = Some n \<Longrightarrow> i \<notin> set (cs_tasks s) \<Longrightarrow>
    conn_step max_connections s (s\<lparr>cs_open := n, cs_tasks := i # cs_tasks s\<rparr>)"
| dropped: "accept_connection max_connections (cs_open s) = None \<Longrightarrow> conn_step max_connections s s"
| ended: "i \<in> set (cs_tasks s) \<Longrightarrow>
    conn_step max_connections s (s\<lparr>cs_open := cs_open s - 1, cs_tasks := remove1 i (cs_tasks s)\<rparr>)"

inductive_cases conn_stepE: "conn_step m s s'"

inductive conn_reachable :: "u32 option \<Rightarrow> conn_state \<Rightarrow> bool" for max_connections where
  conn_start: "conn_reachable max_connections \<lparr>cs_open = 0, cs_tasks = []\<rparr>"
| conn_next: "conn_reachable max_connections s \<Longrightarrow> conn_step max_connections s s' \<Longrightarrow> conn_reachable max_connections s'"

definition conn_limit :: "u32 option \<Rightarrow> u32" where
  "conn_limit max_connections = (case max_connections of Some m \<Rightarrow> m | None \<Rightarrow> - 1)"

definition conn_inv :: "u32 option \<Rightarrow> conn_state \<Rightarrow> bool" where
  "conn_inv max_connections s \<longleftrightarrow>
     distinct (cs_tasks s) \<and> unat (cs_open s) = length (cs_tasks s) \<and> cs_open s \<le> conn_limit max_connections"

lemma accept_connection_iff:
  "accept_connection m n = (if n < conn_limit m then Some (n + 1) else None)"
  by (auto simp: accept_connection_def conn_limit_def Let_def not_le)

lemma conn_step_inv:
  assumes "conn_step m s s'" and inv: "conn_inv m s"
  shows "conn_inv m s'"
  using assms(1)
proof (cases rule: conn_step.cases)
  case (accepted n i)
  from accepted(2) have "unat n = unat (cs_open s) + 1" "cs_open s < conn_limit m"
    using accept_connection_bound by (auto simp: accept_connection_iff split: if_splits)
  then have "n \<le> conn_limit m" by (simp add: word_le_nat_alt word_less_nat_alt)
  with inv accepted \<open>unat n = _\<close> show ?thesis by (simp add: conn_inv_def)
next
  case (ended i)
  then have "cs_tasks s \<noteq> []" by auto
  with inv have "unat (cs_open s) \<noteq> 0" by (simp add: conn_inv_def)
  then have "unat (cs_open s - 1) = unat (cs_open s) - 1" by (metis unat_eq_zero unat_minus_one)
  with inv have n: "unat (cs_open s - 1) = length (cs_tasks s) - 1"
    by (simp add: conn_inv_def)
  moreover from inv have "length (cs_tasks s) \<le> unat (conn_limit m)"
    by (simp add: conn_inv_def word_le_nat_alt)
  ultimately have "cs_open s - 1 \<le> conn_limit m"
    unfolding word_le_nat_alt by linarith
  with n inv ended show ?thesis by (simp add: conn_inv_def length_remove1)
qed (use inv in simp)

text \<open>
  In every reachable state the counter is the number of connections being served, they are
  within the limit, and one is dropped only when they are at the limit.
\<close>

theorem connections_within_limit:
  assumes "conn_reachable m s"
  shows "unat (cs_open s) = length (cs_tasks s) \<and> length (cs_tasks s) \<le> unat (conn_limit m) \<and>
    (accept_connection m (cs_open s) = None \<longleftrightarrow> length (cs_tasks s) = unat (conn_limit m))"
proof -
  from assms have "conn_inv m s"
  proof induction
    case conn_start
    then show ?case by (simp add: conn_inv_def)
  next
    case (conn_next s s')
    then show ?case by (blast intro: conn_step_inv)
  qed
  then show ?thesis
    by (auto simp: conn_inv_def accept_connection_iff word_le_nat_alt word_less_nat_alt split: if_splits)
qed

end
